(* ===== verification/Prelude.thy ===== *)
theory Prelude
  imports Complex_Main "HOL-Library.AList"
begin

text \<open>
  The values the Python code computes with, and the generic facts every component uses.
  A request body, a Stripe object, a JSON column and a cell of a database row are all
  \<open>pyval\<close>; a dict literal is an association list in the order it is written.
  Instants are microseconds since the epoch, in UTC: \<open>datetime.now(timezone.utc)\<close>, its
  \<open>isoformat()\<close> text and the \<open>timestamptz\<close> cell it is written to are the same
  \<open>PTime\<close> value, and dates are day numbers.
  A Python float is the rational number it stands for: rounding, infinities and NaN are left
  out. Strings are lists of characters; \<open>lower\<close> and \<open>strip\<close> are Python's methods on
  ASCII text.
\<close>

section \<open>Collections of rules\<close>

named_theorems world_simps \<open>evaluation of effects on a world\<close>
named_theorems keeps_intros \<open>rules that show a computation keeps an invariant\<close>
named_theorems query_simps \<open>evaluation of queries\<close>

section \<open>Values\<close>

datatype pyval =
    PNone
  | PBool bool
  | PInt int
  | PFloat rat
  | PStr string
  | PTime int
  | PDate int
  | PList "pyval list"
  | PDict "(string \<times> pyval) list"

type_synonym pydict = "(string \<times> pyval) list"

text \<open>Python's truth test: \<open>if x\<close>, \<open>not x\<close>, \<open>x or y\<close>.\<close>

fun truthy :: "pyval \<Rightarrow> bool" where
  "truthy PNone = False"
| "truthy (PBool b) = b"
| "truthy (PInt i) = (i \<noteq> 0)"
| "truthy (PFloat x) = (x \<noteq> 0)"
| "truthy (PStr s) = (s \<noteq> [])"
| "truthy (PTime _) = True"
| "truthy (PDate _) = True"
| "truthy (PList xs) = (xs \<noteq> [])"
| "truthy (PDict kvs) = (kvs \<noteq> [])"

definition py_or :: "pyval \<Rightarrow> pyval \<Rightarrow> pyval" where
  "py_or a b = (if truthy a then a else b)"

text \<open>\<open>d.get(k)\<close>, \<open>d.get(k, v)\<close> and \<open>k in d\<close> on a dict literal.\<close>

definition lookup :: "pydict \<Rightarrow> string \<Rightarrow> pyval" where
  "lookup d k = (case map_of d k of None \<Rightarrow> PNone | Some v \<Rightarrow> v)"

definition has_key :: "pydict \<Rightarrow> string \<Rightarrow> bool" where
  "has_key d k = (k \<in> set (map fst d))"

fun dict_of :: "pyval \<Rightarrow> pydict" where
  "dict_of (PDict kvs) = kvs"
| "dict_of _ = []"

fun list_of :: "pyval \<Rightarrow> pyval list" where
  "list_of (PList xs) = xs"
| "list_of _ = []"

definition dget :: "pyval \<Rightarrow> string \<Rightarrow> pyval" where
  "dget v k = lookup (dict_of v) k"

definition dget_or :: "pyval \<Rightarrow> string \<Rightarrow> pyval \<Rightarrow> pyval" where
  "dget_or v k d = (case map_of (dict_of v) k of None \<Rightarrow> d | Some x \<Rightarrow> x)"

text \<open>\<open>{**a, **b}\<close>: keys of \<open>a\<close> keep their place and take the value of \<open>b\<close> if it has one.\<close>

definition dict_merge :: "pydict \<Rightarrow> pydict \<Rightarrow> pydict" where
  "dict_merge a b =
     map (\<lambda>(k, v). (k, case map_of b k of None \<Rightarrow> v | Some x \<Rightarrow> x)) a
     @ filter (\<lambda>(k, _). \<not> has_key a k) b"

lemma map_of_dict_merge: "map_of (dict_merge a b) = map_of a ++ map_of b"
proof
  fix k
  have *: "map_of (map (\<lambda>(k, v). (k, case map_of b k of None \<Rightarrow> v | Some x \<Rightarrow> x)) a) k
      = (case map_of a k of None \<Rightarrow> None
         | Some v \<Rightarrow> Some (case map_of b k of None \<Rightarrow> v | Some x \<Rightarrow> x))" for k
    by (induction a) (auto split: option.splits)
  have **: "map_of (filter (\<lambda>(k, _). \<not> has_key a k) b) k
      = (if has_key a k then None else map_of b k)" for k
    by (induction b) auto
  have ***: "has_key a k \<longleftrightarrow> map_of a k \<noteq> None" for k
    by (auto simp: has_key_def map_of_eq_None_iff)
  show "map_of (dict_merge a b) k = (map_of a ++ map_of b) k"
    using * [of k] ** [of k] *** [of k]
    by (simp add: dict_merge_def map_add_def split: option.splits)
qed

lemma lookup_dict_merge:
  "lookup (dict_merge a b) k = (case map_of b k of None \<Rightarrow> lookup a k | Some v \<Rightarrow> v)"
  by (simp add: lookup_def map_of_dict_merge map_add_def split: option.splits)

lemma lookup_simps [simp]:
  "lookup [] k = PNone"
  "lookup ((k', v) # d) k = (if k = k' then v else lookup d k)"
  by (simp_all add: lookup_def)

lemma has_key_simps [simp]:
  "\<not> has_key [] k"
  "has_key ((k', v) # d) k \<longleftrightarrow> k = k' \<or> has_key d k"
  by (auto simp: has_key_def)

lemma dget_simps [simp]:
  "dget (PDict kvs) k = lookup kvs k"
  "dget PNone k = PNone"
  by (simp_all add: dget_def)

lemma py_or_simps [simp]:
  "truthy a \<Longrightarrow> py_or a b = a"
  "\<not> truthy a \<Longrightarrow> py_or a b = b"
  by (simp_all add: py_or_def)

lemma truthy_py_or: "truthy (py_or a b) \<longleftrightarrow> truthy a \<or> truthy b"
  by (simp add: py_or_def)

text \<open>The text of a string value; the code calls string methods on these cells only.\<close>

fun text_of :: "pyval \<Rightarrow> string" where
  "text_of (PStr s) = s"
| "text_of _ = []"

fun int_of :: "pyval \<Rightarrow> int" where
  "int_of (PInt i) = i"
| "int_of _ = 0"

section \<open>Text\<close>

definition is_space :: "char \<Rightarrow> bool" where
  "is_space c \<longleftrightarrow> c \<in> {CHR 0x20, CHR 0x09, CHR 0x0A, CHR 0x0B, CHR 0x0C, CHR 0x0D,
     CHR 0x1C, CHR 0x1D, CHR 0x1E, CHR 0x1F}"

definition lower_char :: "char \<Rightarrow> char" where
  "lower_char c = (let n = of_char c :: nat in if 65 \<le> n \<and> n \<le> 90 then char_of (n + 32) else c)"

definition lower :: "string \<Rightarrow> string" where
  "lower s = map lower_char s"

definition upper_char :: "char \<Rightarrow> char" where
  "upper_char c = (let n = of_char c :: nat in if 97 \<le> n \<and> n \<le> 122 then char_of (n - 32) else c)"

definition upper :: "string \<Rightarrow> string" where
  "upper s = map upper_char s"

text \<open>\<open>s.title()\<close>: a letter after a letter is lowered, any other is raised.\<close>

definition is_letter :: "char \<Rightarrow> bool" where
  "is_letter c = (let n = of_char c :: nat in 65 \<le> n \<and> n \<le> 90 \<or> 97 \<le> n \<and> n \<le> 122)"

fun title_from :: "bool \<Rightarrow> string \<Rightarrow> string" where
  "title_from after [] = []"
| "title_from after (c # cs) = (if after then lower_char c else upper_char c) # title_from (is_letter c) cs"

definition title :: "string \<Rightarrow> string" where
  "title s = title_from False s"

definition strip :: "string \<Rightarrow> string" where
  "strip s = rev (dropWhile is_space (rev (dropWhile is_space s)))"

text \<open>The lower case of a literal letter, for evaluation.\<close>

lemma lower_char_code [code]:
  "lower_char (Char b0 b1 b2 b3 b4 b5 b6 b7) =
     (if b6 \<and> \<not> b5 \<and> \<not> b7 \<and> (b0 \<or> b1 \<or> b2 \<or> b3 \<or> b4) \<and> \<not> (b3 \<and> b4 \<and> (b2 \<or> b0 \<and> b1))
      then Char b0 b1 b2 b3 b4 True b6 b7 else Char b0 b1 b2 b3 b4 b5 b6 b7)"
  by (cases b0; cases b1; cases b2; cases b3; cases b4; cases b5; cases b6; cases b7; simp add: lower_char_def char_of_def bit_0)

lemma of_char_bound: "(of_char c :: nat) < 256"
  using of_char_mod_256 [of c, where 'a = nat] by (metis mod_less_divisor zero_less_numeral)

lemma lower_char_idem [simp]: "lower_char (lower_char c) = lower_char c"
proof -
  have "(of_char (char_of ((of_char c :: nat) + 32)) :: nat) = of_char c + 32"
    if "(of_char c :: nat) \<le> 90"
    using that by (simp add: of_char_of)
  then show ?thesis
    by (auto simp: lower_char_def Let_def)
qed

lemma lower_idem [simp]: "lower (lower s) = lower s"
  by (simp add: lower_def)

lemma dropWhile_rev_dropWhile_idem:
  "dropWhile P (rev (dropWhile P (rev (dropWhile P xs)))) = rev (dropWhile P (rev (dropWhile P xs)))"
proof (cases "dropWhile P xs")
  case Nil
  then show ?thesis by (simp only: Nil rev.simps dropWhile.simps)
next
  case (Cons y ys)
  then have "\<not> P y" by (simp add: dropWhile_eq_Cons_conv)
  then have *: "dropWhile P (rev ys @ [y]) = dropWhile P (rev ys) @ [y]"
    by (simp add: dropWhile_append3 dropWhile_append)
  show ?thesis unfolding Cons using \<open>\<not> P y\<close> by (simp add: *)
qed

lemma strip_idem [simp]: "strip (strip s) = strip s"
proof -
  have "dropWhile P (dropWhile P xs) = dropWhile P xs" for P and xs :: string
    by (induction xs) auto
  then show ?thesis
    unfolding strip_def by (simp add: dropWhile_rev_dropWhile_idem)
qed

text \<open>\<open>needle in s\<close> and \<open>s.startswith(p)\<close> on text.\<close>

fun text_contains :: "string \<Rightarrow> string \<Rightarrow> bool" where
  "text_contains needle [] = (needle = [])"
| "text_contains needle (c # cs) = (take (length needle) (c # cs) = needle \<or> text_contains needle cs)"

definition starts_with :: "string \<Rightarrow> string \<Rightarrow> bool" where
  "starts_with p s = (take (length p) s = p)"

text \<open>\<open>s.split(',')\<close>, and the column lists of the query builder, \<open>[c.strip() for c in s.split(',') if c.strip()]\<close>.\<close>

fun split_on :: "char \<Rightarrow> string \<Rightarrow> string list" where
  "split_on d [] = [[]]"
| "split_on d (c # cs) =
     (if c = d then [] # split_on d cs
      else (case split_on d cs of [] \<Rightarrow> [[c]] | w # ws \<Rightarrow> (c # w) # ws))"

text \<open>\<open>int(text)\<close> for decimal text: blanks around it, an optional sign, digits.\<close>

definition digit_value :: "char \<Rightarrow> int" where
  "digit_value c = int (of_char c) - 48"

definition parse_int :: "string \<Rightarrow> int option" where
  "parse_int s =
     (let t = strip s;
          neg = (t \<noteq> [] \<and> hd t = CHR ''-'');
          ds = (if t \<noteq> [] \<and> hd t \<in> {CHR ''-'', CHR ''+''} then tl t else t)
      in if ds = [] \<or> list_ex (\<lambda>c. digit_value c < 0 \<or> 9 < digit_value c) ds then None
         else (let n = foldl (\<lambda>a c. 10 * a + digit_value c) 0 ds in Some (if neg then - n else n)))"

text \<open>Decimal text of a number, \<open>str(n)\<close>.\<close>

fun nat_text :: "nat \<Rightarrow> string" where
  "nat_text n = (if n < 10 then [char_of (48 + n)] else nat_text (n div 10) @ [char_of (48 + n mod 10)])"

declare nat_text.simps [simp del]

definition int_text :: "int \<Rightarrow> string" where
  "int_text i = (if i < 0 then CHR ''-'' # nat_text (nat (- i)) else nat_text (nat i))"

definition split_columns :: "string \<Rightarrow> string list" where
  "split_columns s = filter (\<lambda>c. c \<noteq> []) (map strip (split_on (CHR '','') s))"

section \<open>Exceptions\<close>

text \<open>
  The exceptions the modelled code raises or catches. \<open>DBError\<close> stands for every error
  of a statement (lost connection, constraint violation); the rest carry what the code
  reads from them.
\<close>

datatype exc =
    ValueError string
  | TypeError string
  | KeyError string
  | DBError
  | NoSuchTable string
  | UnconsumedColumn string
  | StripeError string
  | MailError
  | HTTPException int string
  | EmailNotVerifiedError
  | PermissionError
  | NotImplementedErr
  | InviteError string
  | InviteNotFound string
  | InviteNotClaimable string
  | InviteEmailMismatch string
  | EntitlementConflict "pyval list"
  | ApprovalRefused string
  | StorageError string
  | RuntimeError string
  | EntitlementScope "pyval list"
  | TemplateNameConflict string
  | ConsentGrantRefused

text \<open>Sequencing of pure steps that may raise.\<close>

definition bindE :: "exc + 'a \<Rightarrow> ('a \<Rightarrow> exc + 'b) \<Rightarrow> exc + 'b" where
  "bindE m f = (case m of Inl e \<Rightarrow> Inl e | Inr a \<Rightarrow> f a)"

lemma bindE_simps [simp]: "bindE (Inl e) f = Inl e" "bindE (Inr a) f = f a"
  by (simp_all add: bindE_def)

lemma bindE_Inr_D: "bindE m f = Inr b \<Longrightarrow> \<exists>a. m = Inr a \<and> f a = Inr b"
  by (cases m) auto

section \<open>Lists\<close>

lemma filter_map_cong_pred:
  "(\<And>x. x \<in> set xs \<Longrightarrow> P (f x) = P x) \<Longrightarrow> filter P (map f xs) = map f (filter P xs)"
  by (induction xs) auto

lemma map_if_filter:
  "filter P (map (\<lambda>x. if P x then f x else x) xs) = filter P (map f (filter P xs))"
  by (induction xs) auto

end
