(* ===== verification/Settings.thy ===== *)
theory Settings
  imports Prelude
begin

text \<open>
  \<open>app/core/config.py\<close>: the settings the modelled code reads, and the refusal to boot
  production with unsafe ones. Stripe price identifiers are read by attribute name, some of
  them computed at run time, so they are one field from attribute names to values.
  \<open>urlparse\<close> is modelled for addresses without bracketed IPv6 hosts.
\<close>

section \<open>Settings\<close>

record settings =
  APP_ENV :: string
  DEBUG :: bool
  FRONTEND_URL :: string
  BACKEND_URL :: string
  ALLOWED_HOSTS :: "string list"
  DB_URL :: string
  AUTO_CREATE_DB_SCHEMA :: bool
  MAX_REQUEST_BODY_BYTES :: int
  JWT_SECRET_KEY :: string
  AUTH_COOKIE_ENABLED :: bool
  AUTH_COOKIE_SECURE :: bool
  REDIS_URL :: string
  RATE_LIMIT_ENABLED :: bool
  RATE_LIMIT_STORAGE_URI :: string
  AWS_ACCESS_KEY_ID :: string
  AWS_SECRET_ACCESS_KEY :: string
  AWS_S3_BUCKET_NAME :: string
  AWS_S3_REPORTS_PREFIX :: string
  STORAGE_ROOT :: string
  STRIPE_SECRET_KEY :: string
  STRIPE_PROMO_COUPON_ID :: string
  STRIPE_PROMO_ONEOFF_COUPON_ID :: string
  STRIPE_PROMO_PERCENT_OFF :: int
  STRIPE_PROMO_LABEL :: string
  STRIPE_PROMO_PLANS :: string
  STRIPE_PRICE :: "string \<Rightarrow> string"
  STRIPE_TEST_BILLING_ENABLED :: bool
  STRIPE_TEST_BILLING_INTERVAL_DAYS :: int
  STRIPE_TEST_BILLING_UNIT_AMOUNT :: int
  BREVO_API_KEY :: string
  CONTACT_EMAIL :: string
  B2B_ADMIN_ALERT_EMAIL :: string
  ADMIN_ALERT_EMAIL :: string
  ADMIN_ALERT_THROTTLE_SECONDS :: int
  CORS_ORIGINS :: "string list"

definition DEVELOPMENT_JWT_SECRET :: string where
  "DEVELOPMENT_JWT_SECRET = ''development-only-secret-change-before-production''"

text \<open>The price attributes the class declares.\<close>

definition price_attributes :: "string list" where
  "price_attributes = [
    ''STRIPE_PRICE_SINGLE_USD'', ''STRIPE_PRICE_SINGLE_GBP'',
    ''STRIPE_PRICE_PROFESSIONAL_USD'', ''STRIPE_PRICE_PROFESSIONAL_GBP'',
    ''STRIPE_PRICE_PRODUCER_USD'', ''STRIPE_PRICE_PRODUCER_GBP'',
    ''STRIPE_PRICE_STUDIO_USD'', ''STRIPE_PRICE_STUDIO_GBP'',
    ''STRIPE_PRICE_PROFESSIONAL_ANNUAL_GBP'', ''STRIPE_PRICE_PROFESSIONAL_ANNUAL_USD'',
    ''STRIPE_PRICE_PRODUCER_ANNUAL_GBP'', ''STRIPE_PRICE_PRODUCER_ANNUAL_USD'',
    ''STRIPE_PRICE_STUDIO_ANNUAL_GBP'', ''STRIPE_PRICE_STUDIO_ANNUAL_USD'',
    ''STRIPE_PRICE_B2B_CAMERA_EQUIPMENT_GBP'', ''STRIPE_PRICE_B2B_CAMERA_EQUIPMENT_USD'',
    ''STRIPE_PRICE_B2B_PRODUCTION_SERVICES_GBP'', ''STRIPE_PRICE_B2B_PRODUCTION_SERVICES_USD'',
    ''STRIPE_PRICE_B2B_CREW_CASTING_GBP'', ''STRIPE_PRICE_B2B_CREW_CASTING_USD'',
    ''STRIPE_PRICE_B2B_PRODUCTION_TREND_GBP'', ''STRIPE_PRICE_B2B_PRODUCTION_TREND_USD'']"

text \<open>\<open>getattr(settings, name, "")\<close> for a price attribute.\<close>

definition getattr_price :: "settings \<Rightarrow> string \<Rightarrow> string" where
  "getattr_price st name = (if name \<in> set price_attributes then STRIPE_PRICE st name else [])"

definition is_production :: "settings \<Rightarrow> bool" where
  "is_production st \<longleftrightarrow> lower (strip (APP_ENV st)) \<in> {''prod'', ''production'', ''release''}"

definition rate_limit_storage_uri :: "settings \<Rightarrow> string" where
  "rate_limit_storage_uri st =
     (if RATE_LIMIT_STORAGE_URI st \<noteq> [] then RATE_LIMIT_STORAGE_URI st else REDIS_URL st)"

section \<open>Addresses\<close>

definition is_alpha :: "char \<Rightarrow> bool" where
  "is_alpha c = (let n = of_char c :: nat in 65 \<le> n \<and> n \<le> 90 \<or> 97 \<le> n \<and> n \<le> 122)"

definition is_digit :: "char \<Rightarrow> bool" where
  "is_digit c = (let n = of_char c :: nat in 48 \<le> n \<and> n \<le> 57)"

definition scheme_char :: "char \<Rightarrow> bool" where
  "scheme_char c \<longleftrightarrow> is_alpha c \<or> is_digit c \<or> c \<in> {CHR ''+'', CHR ''-'', CHR ''.''}"

definition url_split :: "string \<Rightarrow> string \<times> string" where
  "url_split u =
     (let pre = takeWhile (\<lambda>c. c \<noteq> CHR '':'') u; post = dropWhile (\<lambda>c. c \<noteq> CHR '':'') u in
      if post \<noteq> [] \<and> pre \<noteq> [] \<and> is_alpha (hd pre) \<and> list_all scheme_char pre
      then (lower pre, tl post) else ([], u))"

definition url_scheme :: "string \<Rightarrow> string" where
  "url_scheme u = fst (url_split u)"

definition url_hostname :: "string \<Rightarrow> string option" where
  "url_hostname u =
     (case snd (url_split u) of
        a # b # rest \<Rightarrow>
          if a = CHR ''/'' \<and> b = CHR ''/'' then
            (let netloc = takeWhile (\<lambda>c. c \<notin> {CHR ''/'', CHR ''?'', CHR ''#''}) rest;
                 after_at = rev (takeWhile (\<lambda>c. c \<noteq> CHR ''@'') (rev netloc));
                 host = lower (takeWhile (\<lambda>c. c \<noteq> CHR '':'') after_at)
             in if host = [] then None else Some host)
          else None
      | _ \<Rightarrow> None)"

definition add_host :: "string list \<Rightarrow> string \<Rightarrow> string list" where
  "add_host hosts h = (if h \<in> set hosts then hosts else hosts @ [h])"

definition trusted_hosts :: "settings \<Rightarrow> string list" where
  "trusted_hosts st =
     (let hosts = filter (\<lambda>h. h \<noteq> []) (map strip (ALLOWED_HOSTS st));
          hosts = (case url_hostname (BACKEND_URL st) of None \<Rightarrow> hosts | Some h \<Rightarrow> add_host hosts h)
      in if is_production st then hosts
         else foldl add_host hosts [''testserver'', ''localhost'', ''127.0.0.1''])"

section \<open>Required prices\<close>

text \<open>\<open>_REQUIRED_PRICE_SETTINGS\<close> of the plan catalogue, with the labels it reports.\<close>

definition REQUIRED_PRICE_SETTINGS :: "(string \<times> string) list" where
  "REQUIRED_PRICE_SETTINGS = [
    (''STRIPE_PRICE_SINGLE_GBP'', ''Single report (GBP)''),
    (''STRIPE_PRICE_SINGLE_USD'', ''Single report (USD)''),
    (''STRIPE_PRICE_PROFESSIONAL_GBP'', ''Professional (monthly, GBP)''),
    (''STRIPE_PRICE_PROFESSIONAL_USD'', ''Professional (monthly, USD)''),
    (''STRIPE_PRICE_PRODUCER_GBP'', ''Producer (monthly, GBP)''),
    (''STRIPE_PRICE_PRODUCER_USD'', ''Producer (monthly, USD)''),
    (''STRIPE_PRICE_STUDIO_GBP'', ''Studio (monthly, GBP)''),
    (''STRIPE_PRICE_STUDIO_USD'', ''Studio (monthly, USD)''),
    (''STRIPE_PRICE_PROFESSIONAL_ANNUAL_GBP'', ''Professional (annual, GBP)''),
    (''STRIPE_PRICE_PROFESSIONAL_ANNUAL_USD'', ''Professional (annual, USD)''),
    (''STRIPE_PRICE_PRODUCER_ANNUAL_GBP'', ''Producer (annual, GBP)''),
    (''STRIPE_PRICE_PRODUCER_ANNUAL_USD'', ''Producer (annual, USD)''),
    (''STRIPE_PRICE_STUDIO_ANNUAL_GBP'', ''Studio (annual, GBP)''),
    (''STRIPE_PRICE_STUDIO_ANNUAL_USD'', ''Studio (annual, USD)'')]"

definition find_missing_price_ids :: "settings \<Rightarrow> string list" where
  "find_missing_price_ids st =
     (if STRIPE_SECRET_KEY st = [] then []
      else map snd (filter (\<lambda>(attr, _). getattr_price st attr = []) REQUIRED_PRICE_SETTINGS))"

section \<open>Production safety\<close>

datatype config_problem =
    Debug_on
  | Weak_jwt_secret
  | Insecure_cookies
  | Auto_schema
  | Sqlite_database
  | No_distributed_rate_limit
  | Body_limit
  | Not_https string
  | No_cors_origins
  | Unsafe_cors_origin string
  | Wildcard_host
  | No_durable_storage
  | Missing_prices "string list"

definition https_url :: "string \<Rightarrow> bool" where
  "https_url u \<longleftrightarrow> url_scheme u = ''https'' \<and> url_hostname u \<noteq> None"

definition problem_if :: "bool \<Rightarrow> config_problem \<Rightarrow> config_problem list" where
  "problem_if b p = (if b then [p] else [])"

definition production_problems :: "settings \<Rightarrow> config_problem list" where
  "production_problems st =
     problem_if (DEBUG st) Debug_on
   @ problem_if (JWT_SECRET_KEY st = DEVELOPMENT_JWT_SECRET \<or> length (JWT_SECRET_KEY st) < 48) Weak_jwt_secret
   @ problem_if (\<not> AUTH_COOKIE_ENABLED st \<or> \<not> AUTH_COOKIE_SECURE st) Insecure_cookies
   @ problem_if (AUTO_CREATE_DB_SCHEMA st) Auto_schema
   @ problem_if (take 6 (lower (DB_URL st)) = ''sqlite'') Sqlite_database
   @ problem_if (\<not> RATE_LIMIT_ENABLED st \<or> rate_limit_storage_uri st = ''memory://'') No_distributed_rate_limit
   @ problem_if (\<not> (1024 * 1024 \<le> MAX_REQUEST_BODY_BYTES st \<and> MAX_REQUEST_BODY_BYTES st \<le> 100 * 1024 * 1024)) Body_limit
   @ problem_if (\<not> https_url (FRONTEND_URL st)) (Not_https ''FRONTEND_URL'')
   @ problem_if (\<not> https_url (BACKEND_URL st)) (Not_https ''BACKEND_URL'')
   @ problem_if (CORS_ORIGINS st = []) No_cors_origins
   @ map Unsafe_cors_origin (filter (\<lambda>u. u = ''*'' \<or> \<not> https_url u) (CORS_ORIGINS st))
   @ problem_if (list_ex (\<lambda>h. h = ''*'') (trusted_hosts st)) Wildcard_host
   @ problem_if (AWS_S3_BUCKET_NAME st = [] \<or> AWS_ACCESS_KEY_ID st = [] \<or> AWS_SECRET_ACCESS_KEY st = []) No_durable_storage
   @ (if STRIPE_SECRET_KEY st \<noteq> [] \<and> find_missing_price_ids st \<noteq> []
      then [Missing_prices (find_missing_price_ids st)] else [])"

definition validate_production_safety :: "settings \<Rightarrow> config_problem list + settings" where
  "validate_production_safety st =
     (if \<not> is_production st then Inr st
      else (let problems = production_problems st in
        if problems \<noteq> [] then Inl problems else Inr st))"

lemma validated_production:
  assumes "validate_production_safety st = Inr st'" and "is_production st"
  shows "st' = st" and "production_problems st = []"
  using assms by (auto simp: validate_production_safety_def Let_def split: if_splits)

lemma validated_prices:
  assumes "validate_production_safety st = Inr st'" and "is_production st"
    and "STRIPE_SECRET_KEY st \<noteq> []"
  shows "list_all (\<lambda>(attr, _). getattr_price st attr \<noteq> []) REQUIRED_PRICE_SETTINGS"
proof -
  have "find_missing_price_ids st = []"
    using validated_production(2) [OF assms(1,2)] assms(3)
    by (auto simp: production_problems_def split: if_splits)
  with assms(3) show ?thesis
    by (auto simp: find_missing_price_ids_def filter_empty_conv list_all_iff)
qed

end
