(* ===== verification/World.thy ===== *)
theory World
  imports Settings
begin

text \<open>
  The state a request handler runs in, and the computations over it.
  A computation takes the world and returns an exception or a result, with the world as it
  is afterwards: a Python exception does not undo what was committed before it was raised.
  The world holds the database tables, the Redis cache, the e-mails handed to the provider
  and the alert throttle of the process; the environment it meets is part of it too: the clock, the source of
  \<open>uuid4\<close>, whether Redis and the mail provider answer, and one flag per SQL statement still
  to come that says whether that statement fails. When the list of flags is used up every
  statement succeeds, so every finite pattern of failures is covered. The Stripe API is a
  parameter: \<open>stripe_api\<close> gives the answer or the error of a call from the calls made before
  it, the name of the operation and its arguments, and \<open>stripe_log\<close> records the calls.
  \<open>deferred\<close> holds the e-mails queued as background tasks of the response. \<open>files\<close> is the object store
  by key, and an attachment is a file name with its contents.
\<close>

section \<open>The world\<close>

text \<open>
  A row read back from a table maps every column of the table to its cell. The mapping is
  total: a column the table does not have reads as \<open>None\<close>, as \<open>row.get\<close> does.
\<close>

type_synonym row = "string \<Rightarrow> pyval"

record email =
  mail_to :: string
  mail_template :: string
  mail_context :: pydict
  mail_attachments :: "(string \<times> string) list"

record throttle_entry =
  window_started :: int
  suppressed :: nat

record world =
  tables :: "string \<Rightarrow> row list"
  faults :: "bool list"
  max_rows :: nat
  clock :: int
  uuid_source :: "nat \<Rightarrow> string"
  uuids_used :: nat
  cache :: "string \<Rightarrow> pyval"
  redis_up :: bool
  outbox :: "email list"
  mail_up :: bool
  deferred :: "email list"
  stripe_api :: "(string \<times> pydict) list \<Rightarrow> string \<Rightarrow> pydict \<Rightarrow> exc + pyval"
  stripe_log :: "(string \<times> pydict) list"
  throttle :: "(string \<times> throttle_entry) list"
  env_settings :: settings
  files :: "string \<Rightarrow> string option"
  storage_up :: bool

text \<open>No statement still to come fails.\<close>

definition healthy :: "world \<Rightarrow> bool" where
  "healthy w \<longleftrightarrow> faults w = []"

lemma healthy_simps [simp]:
  "healthy (w\<lparr>tables := t\<rparr>) = healthy w"
  "healthy (w\<lparr>clock := c\<rparr>) = healthy w"
  "healthy (w\<lparr>uuids_used := n\<rparr>) = healthy w"
  "healthy (w\<lparr>cache := h\<rparr>) = healthy w"
  "healthy (w\<lparr>outbox := ob\<rparr>) = healthy w"
  "healthy (w\<lparr>throttle := th\<rparr>) = healthy w"
  "healthy (w\<lparr>deferred := ob\<rparr>) = healthy w"
  "healthy (w\<lparr>stripe_log := sl\<rparr>) = healthy w"
  "healthy (w\<lparr>files := fl\<rparr>) = healthy w"
  by (simp_all add: healthy_def)

section \<open>Computations\<close>

type_synonym 'a comp = "world \<Rightarrow> (exc + 'a) \<times> world"

definition ret :: "'a \<Rightarrow> 'a comp" where
  "ret a w = (Inr a, w)"

definition throw :: "exc \<Rightarrow> 'a comp" where
  "throw e w = (Inl e, w)"

definition bindM :: "'a comp \<Rightarrow> ('a \<Rightarrow> 'b comp) \<Rightarrow> 'b comp" where
  "bindM m f w = (case m w of (Inl e, w') \<Rightarrow> (Inl e, w') | (Inr a, w') \<Rightarrow> f a w')"

definition thenM :: "'a comp \<Rightarrow> 'b comp \<Rightarrow> 'b comp" where
  "thenM m n = bindM m (\<lambda>_. n)"

text \<open>\<open>try: m / except Exception as e: h(e)\<close>.\<close>

definition tryM :: "'a comp \<Rightarrow> (exc \<Rightarrow> 'a comp) \<Rightarrow> 'a comp" where
  "tryM m h w = (case m w of (Inl e, w') \<Rightarrow> h e w' | (Inr a, w') \<Rightarrow> (Inr a, w'))"

text \<open>A pure step that may raise.\<close>

definition liftE :: "exc + 'a \<Rightarrow> 'a comp" where
  "liftE r w = (r, w)"

definition whenM :: "bool \<Rightarrow> unit comp \<Rightarrow> unit comp" where
  "whenM b m = (if b then m else ret ())"

definition gets :: "(world \<Rightarrow> 'a) \<Rightarrow> 'a comp" where
  "gets f w = (Inr (f w), w)"

definition modify :: "(world \<Rightarrow> world) \<Rightarrow> unit comp" where
  "modify f w = (Inr (), f w)"

text \<open>\<open>for x in xs: body(x)\<close>, and a loop that collects a result per element.\<close>

fun forM :: "'a list \<Rightarrow> ('a \<Rightarrow> unit comp) \<Rightarrow> unit comp" where
  "forM [] f = ret ()"
| "forM (x # xs) f = thenM (f x) (forM xs f)"

fun mapM :: "('a \<Rightarrow> 'b comp) \<Rightarrow> 'a list \<Rightarrow> 'b list comp" where
  "mapM f [] = ret []"
| "mapM f (x # xs) = bindM (f x) (\<lambda>y. bindM (mapM f xs) (\<lambda>ys. ret (y # ys)))"

text \<open>A simplifier evaluating a computation looks at its first step only.\<close>

lemma bindM_cong [cong]: "m = m' \<Longrightarrow> w = w' \<Longrightarrow> bindM m f w = bindM m' f w'"
  by simp

lemma bindM_eval [world_simps]:
  "bindM m f w = (case m w of (Inl e, w') \<Rightarrow> (Inl e, w') | (Inr a, w') \<Rightarrow> f a w')"
  by (rule bindM_def)

lemma comp_simps [world_simps]:
  "ret a w = (Inr a, w)"
  "throw e w = (Inl e, w)"
  "liftE r w = (r, w)"
  "gets g w = (Inr (g w), w)"
  "modify h w = (Inr (), h w)"
  "thenM m n w = bindM m (\<lambda>_. n) w"
  "whenM b k w = (if b then k w else (Inr (), w))"
  "tryM m' hd' w = (case m' w of (Inl e, w') \<Rightarrow> hd' e w' | (Inr a, w') \<Rightarrow> (Inr a, w'))"
  by (simp_all add: ret_def throw_def liftE_def gets_def modify_def thenM_def whenM_def tryM_def)

lemma bindM_ret [simp]: "bindM (ret a) f = f a"
  by (rule ext) (simp add: bindM_def ret_def)

lemma bindM_throw [simp]: "bindM (throw e) f = throw e"
  by (rule ext) (simp add: bindM_def throw_def)

lemma bindM_assoc: "bindM (bindM m f) g = bindM m (\<lambda>a. bindM (f a) g)"
  by (rule ext) (simp add: bindM_def split: prod.splits sum.splits)

lemma bindM_Inr_D:
  "bindM m f w = (Inr b, w') \<Longrightarrow> \<exists>a w1. m w = (Inr a, w1) \<and> f a w1 = (Inr b, w')"
  by (auto simp: bindM_def split: prod.splits sum.splits)

section \<open>Invariants of computations\<close>

text \<open>
  \<open>keeps I m\<close>: whatever the environment does, running \<open>m\<close> from a world where \<open>I\<close> holds
  ends in one where it holds, whether \<open>m\<close> returns or raises.
\<close>

definition keeps :: "(world \<Rightarrow> bool) \<Rightarrow> 'a comp \<Rightarrow> bool" where
  "keeps I m \<longleftrightarrow> (\<forall>w. I w \<longrightarrow> I (snd (m w)))"

lemma keepsD: "keeps I m \<Longrightarrow> I w \<Longrightarrow> I (snd (m w))"
  by (simp add: keeps_def)

lemma keeps_snd: "keeps I m \<Longrightarrow> I w \<Longrightarrow> m w = (r, w') \<Longrightarrow> I w'"
  by (metis keepsD snd_conv)

lemma keeps_ret [keeps_intros, intro!]: "keeps I (ret a)"
  by (simp add: keeps_def ret_def)

lemma keeps_liftE [keeps_intros, intro!]: "keeps I (liftE r)"
  by (simp add: keeps_def liftE_def)

lemma keeps_throw [keeps_intros, intro!]: "keeps I (throw e)"
  by (simp add: keeps_def throw_def)

lemma keeps_gets [keeps_intros, intro!]: "keeps I (gets f)"
  by (simp add: keeps_def gets_def)

lemma keeps_modify: "(\<And>w. I w \<Longrightarrow> I (f w)) \<Longrightarrow> keeps I (modify f)"
  by (simp add: keeps_def modify_def)

lemma keeps_bindM [keeps_intros, intro!]:
  "keeps I m \<Longrightarrow> (\<And>a. keeps I (f a)) \<Longrightarrow> keeps I (bindM m f)"
  by (fastforce simp: keeps_def bindM_def split: prod.splits sum.splits)

lemma keeps_thenM [keeps_intros, intro!]: "keeps I m \<Longrightarrow> keeps I n \<Longrightarrow> keeps I (thenM m n)"
  by (auto simp: thenM_def)

lemma keeps_tryM [keeps_intros, intro!]:
  "keeps I m \<Longrightarrow> (\<And>e. keeps I (h e)) \<Longrightarrow> keeps I (tryM m h)"
  by (fastforce simp: keeps_def tryM_def split: prod.splits sum.splits)

lemma keeps_whenM [keeps_intros, intro!]: "(b \<Longrightarrow> keeps I m) \<Longrightarrow> keeps I (whenM b m)"
  by (simp add: whenM_def keeps_ret)

lemma keeps_if [keeps_intros, intro!]:
  "(b \<Longrightarrow> keeps I m) \<Longrightarrow> (\<not> b \<Longrightarrow> keeps I n) \<Longrightarrow> keeps I (if b then m else n)"
  by simp

lemma keeps_option [keeps_intros, intro!]:
  "keeps I m \<Longrightarrow> (\<And>x. keeps I (f x)) \<Longrightarrow> keeps I (case v of None \<Rightarrow> m | Some x \<Rightarrow> f x)"
  by (cases v) auto

lemma keeps_list [keeps_intros, intro!]:
  "keeps I m \<Longrightarrow> (\<And>x xs. keeps I (f x xs)) \<Longrightarrow> keeps I (case v of [] \<Rightarrow> m | x # xs \<Rightarrow> f x xs)"
  by (cases v) auto

lemma keeps_Let [keeps_intros, intro!]: "(\<And>x. keeps I (f x)) \<Longrightarrow> keeps I (Let v f)"
  by (simp add: Let_def)

lemma keeps_case_prod [keeps_intros, intro!]:
  "(\<And>a b. keeps I (f a b)) \<Longrightarrow> keeps I (case p of (a, b) \<Rightarrow> f a b)"
  by (cases p) simp

lemma keeps_forM [keeps_intros, intro!]:
  "(\<And>x. x \<in> set xs \<Longrightarrow> keeps I (f x)) \<Longrightarrow> keeps I (forM xs f)"
  by (induction xs) auto

section \<open>Clock, identifiers, cache and mail\<close>

definition utcnow :: "pyval comp" where
  "utcnow = gets (\<lambda>w. PTime (clock w))"

definition uuid4 :: "pyval comp" where
  "uuid4 w = (Inr (PStr (uuid_source w (uuids_used w))), w\<lparr>uuids_used := Suc (uuids_used w)\<rparr>)"

text \<open>
  \<open>r.delete(key)\<close> on Redis, inside the handlers' \<open>try: ... except Exception: log\<close>: when Redis
  does not answer nothing happens.
\<close>

definition cache_delete :: "string \<Rightarrow> unit comp" where
  "cache_delete k = modify (\<lambda>w. if redis_up w then w\<lparr>cache := (cache w)(k := PNone)\<rparr> else w)"

text \<open>\<open>httpx.post\<close> to the mail provider followed by \<open>raise_for_status()\<close>.\<close>

definition post_mail_with :: "string \<Rightarrow> string \<Rightarrow> pydict \<Rightarrow> (string \<times> string) list \<Rightarrow> unit comp" where
  "post_mail_with to tmpl ctx atts w =
     (if mail_up w
      then (Inr (), w\<lparr>outbox := outbox w @
        [\<lparr>mail_to = to, mail_template = tmpl, mail_context = ctx, mail_attachments = atts\<rparr>]\<rparr>)
      else (Inl MailError, w))"

definition post_mail :: "string \<Rightarrow> string \<Rightarrow> pydict \<Rightarrow> unit comp" where
  "post_mail to tmpl ctx = post_mail_with to tmpl ctx []"

text \<open>A call of the Stripe library.\<close>

definition stripe_call :: "string \<Rightarrow> pydict \<Rightarrow> pyval comp" where
  "stripe_call op args w =
     (stripe_api w (stripe_log w) op args, w\<lparr>stripe_log := stripe_log w @ [(op, args)]\<rparr>)"

lemma effect_simps [world_simps]:
  "utcnow w = (Inr (PTime (clock w)), w)"
  "uuid4 w = (Inr (PStr (uuid_source w (uuids_used w))), w\<lparr>uuids_used := Suc (uuids_used w)\<rparr>)"
  "cache_delete k w = (Inr (), if redis_up w then w\<lparr>cache := (cache w)(k := PNone)\<rparr> else w)"
  "post_mail_with to tmpl ctx atts w =
     (if mail_up w
      then (Inr (), w\<lparr>outbox := outbox w @
        [\<lparr>mail_to = to, mail_template = tmpl, mail_context = ctx, mail_attachments = atts\<rparr>]\<rparr>)
      else (Inl MailError, w))"
  "post_mail to tmpl ctx w = post_mail_with to tmpl ctx [] w"
  "stripe_call op args w =
     (stripe_api w (stripe_log w) op args, w\<lparr>stripe_log := stripe_log w @ [(op, args)]\<rparr>)"
  by (simp_all add: utcnow_def uuid4_def cache_delete_def post_mail_def post_mail_with_def stripe_call_def gets_def modify_def)

text \<open>
  Effects that write neither a table nor the clock keep every invariant that reads only
  those. The two lemmas cover the invariants on tables used throughout.
\<close>

definition tables_inv :: "((string \<Rightarrow> row list) \<Rightarrow> bool) \<Rightarrow> world \<Rightarrow> bool" where
  "tables_inv P w \<longleftrightarrow> P (tables w)"

lemma keeps_utcnow [keeps_intros, intro!]: "keeps I utcnow"
  by (simp add: keeps_def utcnow_def gets_def)

lemma keeps_effects [keeps_intros, intro!]:
  "keeps (tables_inv P) uuid4"
  "keeps (tables_inv P) (cache_delete k)"
  "keeps (tables_inv P) (post_mail to tmpl ctx)"
  "keeps (tables_inv P) (post_mail_with to tmpl ctx atts)"
  "keeps (tables_inv P) (stripe_call op args)"
  by (simp_all add: keeps_def tables_inv_def uuid4_def cache_delete_def post_mail_def post_mail_with_def stripe_call_def
      modify_def)

end
