(* ===== verification/Schema.thy ===== *)
theory Schema
  imports World
begin

text \<open>
  The tables of \<open>app/models/sql_models.py\<close> the modelled services use, as the database
  reflects them: their columns, the columns that must not be null and get no value from the
  server, the unique keys (primary key first), and the values the server fills in.
  \<open>report_usage_events\<close> is created by its migration. Python-side defaults are a field of their
  own, empty for every table here: the client works on reflected metadata, which carries none.
\<close>

section \<open>Table schemas\<close>

record table_schema =
  table_columns :: "string list"
  required :: "string list"
  unique_keys :: "string list list"
  server_defaults :: pydict
  server_now :: "string list"
  python_defaults :: "(string \<times> pyval comp) list"

definition Admin_table :: table_schema where
  "Admin_table = \<lparr>
    table_columns = [''id'', ''email'', ''password_hash'', ''name'', ''role'', ''last_login'',
      ''created_at''],
    required = [''id'', ''email'', ''password_hash'', ''created_at''],
    unique_keys = [[''id''], [''email'']],
    server_defaults = [(''role'', PStr ''master_admin'')],
    server_now = [],
    python_defaults = []\<rparr>"

definition User_table :: table_schema where
  "User_table = \<lparr>
    table_columns = [''id'', ''email'', ''password_hash'', ''google_uid'', ''name'', ''company'',
      ''role'', ''user_type'', ''credits_remaining'', ''plan'', ''email_verified'',
      ''logo_key'', ''is_blocked'', ''blocked_at'', ''last_active'', ''country'',
      ''state'', ''created_at''],
    required = [''id'', ''email'', ''user_type'', ''credits_remaining'', ''plan'', ''created_at''],
    unique_keys = [[''id''], [''email'']],
    server_defaults = [(''email_verified'', PBool False), (''is_blocked'', PBool False)],
    server_now = [],
    python_defaults = []\<rparr>"

definition Subscription_table :: table_schema where
  "Subscription_table = \<lparr>
    table_columns = [''id'', ''user_id'', ''stripe_customer_id'', ''stripe_subscription_id'',
      ''plan_type'', ''status'', ''report_limit'', ''amount_cents'', ''currency'',
      ''current_period_start'', ''current_period_end'', ''cancel_at_period_end'',
      ''cancelled_at'', ''pending_plan'', ''past_due_since'', ''stripe_schedule_id'',
      ''created_at''],
    required = [''id'', ''cancel_at_period_end'', ''created_at''],
    unique_keys = [[''id'']],
    server_defaults = [],
    server_now = [],
    python_defaults = []\<rparr>"

definition B2BSubscription_table :: table_schema where
  "B2BSubscription_table = \<lparr>
    table_columns = [''id'', ''user_id'', ''product_type'', ''status'', ''source'',
      ''stripe_customer_id'', ''stripe_subscription_id'', ''price_id'', ''amount_cents'',
      ''currency'', ''delivery_frequency'', ''extra_recipient_email'',
      ''current_period_start'', ''current_period_end'', ''next_delivery_at'',
      ''cancel_at_period_end'', ''cancelled_at'', ''company_name'', ''admin_notes'',
      ''created_at'', ''updated_at''],
    required = [''id'', ''user_id'', ''product_type''],
    unique_keys = [[''id''], [''stripe_subscription_id'']],
    server_defaults = [(''status'', PStr ''active''), (''source'', PStr ''stripe''),
      (''delivery_frequency'', PStr ''monthly''),
      (''cancel_at_period_end'', PBool False)],
    server_now = [''created_at'', ''updated_at''],
    python_defaults = []\<rparr>"

definition B2BContractInvite_table :: table_schema where
  "B2BContractInvite_table = \<lparr>
    table_columns = [''id'', ''email'', ''product_type'', ''status'', ''token_hash'', ''token_prefix'',
      ''expires_at'', ''delivery_frequency'', ''extra_recipient_email'',
      ''company_name'', ''admin_notes'', ''created_by'', ''sent_count'',
      ''last_sent_at'', ''accepted_at'', ''accepted_by_user_id'',
      ''b2b_subscription_id'', ''revoked_at'', ''created_at'', ''updated_at''],
    required = [''id'', ''email'', ''product_type'', ''token_hash'', ''expires_at''],
    unique_keys = [[''id''], [''token_hash'']],
    server_defaults = [(''status'', PStr ''pending''), (''delivery_frequency'', PStr ''monthly''),
      (''sent_count'', PInt 0)],
    server_now = [''created_at'', ''updated_at''],
    python_defaults = []\<rparr>"

definition B2BClientEntitlement_table :: table_schema where
  "B2BClientEntitlement_table = \<lparr>
    table_columns = [''id'', ''b2b_subscription_id'', ''module_key'', ''module_label'',
      ''section_keys'', ''is_exclusive'', ''reverts_at'', ''notes'', ''created_at'',
      ''updated_at''],
    required = [''id'', ''b2b_subscription_id'', ''module_key''],
    unique_keys = [[''id''], [''b2b_subscription_id'', ''module_key'']],
    server_defaults = [(''is_exclusive'', PBool False)],
    server_now = [''created_at'', ''updated_at''],
    python_defaults = []\<rparr>"

definition Report_table :: table_schema where
  "Report_table = \<lparr>
    table_columns = [''id'', ''user_id'', ''script_title'', ''script_file_path'', ''status'',
      ''report_type'', ''share_token'', ''request_metadata'', ''report_data'',
      ''project_details'', ''pdf_url'', ''downloaded'', ''completed_at'', ''created_at''],
    required = [''id'', ''user_id'', ''script_title'', ''status'', ''report_type'', ''created_at''],
    unique_keys = [[''id'']],
    server_defaults = [(''downloaded'', PBool False)],
    server_now = [],
    python_defaults = []\<rparr>"

definition TerritoryWatchlist_table :: table_schema where
  "TerritoryWatchlist_table = \<lparr>
    table_columns = [''id'', ''user_id'', ''territory'', ''created_at''],
    required = [''id'', ''user_id'', ''territory'', ''created_at''],
    unique_keys = [[''id'']],
    server_defaults = [],
    server_now = [],
    python_defaults = []\<rparr>"

definition EmailGatingRecord_table :: table_schema where
  "EmailGatingRecord_table = \<lparr>
    table_columns = [''id'', ''email'', ''report_generated'', ''blocked'', ''created_at''],
    required = [''id'', ''email'', ''created_at''],
    unique_keys = [[''id'']],
    server_defaults = [(''report_generated'', PBool False), (''blocked'', PBool False)],
    server_now = [],
    python_defaults = []\<rparr>"

definition ProductionMilestone_table :: table_schema where
  "ProductionMilestone_table = \<lparr>
    table_columns = [''id'', ''user_id'', ''report_id'', ''title'', ''description'', ''status'',
      ''due_date'', ''sort_order'', ''is_template'', ''is_custom'', ''completed_at'',
      ''created_at'', ''updated_at''],
    required = [''id'', ''user_id'', ''title''],
    unique_keys = [[''id'']],
    server_defaults = [(''status'', PStr ''upcoming''), (''sort_order'', PInt 0),
      (''is_template'', PBool False), (''is_custom'', PBool False)],
    server_now = [''created_at'', ''updated_at''],
    python_defaults = []\<rparr>"

definition MilestoneTask_table :: table_schema where
  "MilestoneTask_table = \<lparr>
    table_columns = [''id'', ''milestone_id'', ''text'', ''completed'', ''territory'', ''deadline'',
      ''sort_order'', ''completed_at'', ''created_at''],
    required = [''id'', ''milestone_id'', ''text''],
    unique_keys = [[''id'']],
    server_defaults = [(''completed'', PBool False), (''sort_order'', PInt 0)],
    server_now = [''created_at''],
    python_defaults = []\<rparr>"

definition ProcessedWebhookEvent_table :: table_schema where
  "ProcessedWebhookEvent_table = \<lparr>
    table_columns = [''event_id'', ''processed_at''],
    required = [''event_id'', ''processed_at''],
    unique_keys = [[''event_id'']],
    server_defaults = [],
    server_now = [],
    python_defaults = []\<rparr>"

definition ReportUsageEvents_table :: table_schema where
  "ReportUsageEvents_table = \<lparr>
    table_columns = [''id'', ''user_id'', ''report_id'', ''report_type'', ''created_at'', ''voided_at''],
    required = [''id'', ''user_id''],
    unique_keys = [[''id''], [''report_id'']],
    server_defaults = [(''report_type'', PStr ''paid'')],
    server_now = [''created_at''],
    python_defaults = []\<rparr>"

definition ProductionSignal_table :: table_schema where
  "ProductionSignal_table = \<lparr>
    table_columns = [''id'', ''script_id'', ''home_country'', ''territories_considered'',
      ''territories_recommended'', ''territory'', ''state'', ''submission_date'', ''completion_window'',
      ''camera_equipment'', ''crew_size'', ''principal_cast'', ''supporting_cast'', ''background_extras'',
      ''budget_range'', ''budget_amount_gbp'', ''budget_currency'', ''fx_rate_date'', ''format'', ''genres'',
      ''target_audience'', ''audience_segments'', ''audience_skew'', ''primary_languages'',
      ''co_production_interest'', ''b2b_consent'', ''is_internal'', ''report_runs'', ''schema_version'',
      ''created_at'', ''updated_at''],
    required = [''id''],
    unique_keys = [[''id''], [''script_id'']],
    server_defaults = [(''b2b_consent'', PBool False), (''is_internal'', PBool False), (''report_runs'', PInt 1),
      (''schema_version'', PInt 1)],
    server_now = [''created_at'', ''updated_at''],
    python_defaults = []\<rparr>"

definition B2BMonthlyAggregate_table :: table_schema where
  "B2BMonthlyAggregate_table = \<lparr>
    table_columns = [''id'', ''product_type'', ''period_month'', ''signal_count'', ''facts'', ''created_at'', ''updated_at''],
    required = [''id'', ''product_type'', ''period_month'', ''facts''],
    unique_keys = [[''id''], [''product_type'', ''period_month'']],
    server_defaults = [(''signal_count'', PInt 0)],
    server_now = [''created_at'', ''updated_at''],
    python_defaults = []\<rparr>"

definition B2BIntelligenceRequest_table :: table_schema where
  "B2BIntelligenceRequest_table = \<lparr>
    table_columns = [''id'', ''user_id'', ''b2b_subscription_id'', ''product_type'', ''status'', ''request_type'',
      ''period_start'', ''period_end'', ''recipient_email'', ''extra_recipient_email'', ''pdf_url'', ''metrics'',
      ''error_message'', ''delivered_at'', ''completed_at'', ''created_at'', ''updated_at''],
    required = [''id'', ''user_id'', ''product_type'', ''period_start'', ''period_end'', ''recipient_email''],
    unique_keys = [[''id'']],
    server_defaults = [(''status'', PStr ''processing''), (''request_type'', PStr ''on_demand'')],
    server_now = [''created_at'', ''updated_at''],
    python_defaults = []\<rparr>"

definition B2BPackageTemplate_table :: table_schema where
  "B2BPackageTemplate_table = \<lparr>
    table_columns = [''id'', ''name'', ''description'', ''section_keys'', ''product_type'', ''created_by'',
      ''created_at'', ''updated_at''],
    required = [''id'', ''name'', ''section_keys''],
    unique_keys = [[''id''], [''name'']],
    server_defaults = [],
    server_now = [''created_at'', ''updated_at''],
    python_defaults = []\<rparr>"

text \<open>The columns of \<open>incentive_programs\<close>, which many migrations built up, that the modelled code names.\<close>

definition IncentiveProgrammes_table :: table_schema where
  "IncentiveProgrammes_table = \<lparr>
    table_columns = [''id'', ''programme_id'', ''program'', ''territory'', ''rate'', ''cap'', ''status'', ''source_url'',
      ''qs_engine_type'', ''qualifying_spend_cap_pct'', ''verification_status'', ''last_verified_at'',
      ''calculation_verification_status'', ''calculation_verified_by'', ''calculation_verified_at'',
      ''calculation_verification_note'', ''created_at'', ''updated_at''],
    required = [''id''],
    unique_keys = [[''id'']],
    server_defaults = [],
    server_now = [],
    python_defaults = []\<rparr>"

definition ProgrammeRequiredInputs_table :: table_schema where
  "ProgrammeRequiredInputs_table = \<lparr>
    table_columns = [''id'', ''programme_id'', ''rule_version'', ''input_key'', ''label'', ''input_type'',
      ''required_for_exact'', ''help_text'', ''dependency_rules_json'', ''validation_rules_json'',
      ''missing_input_behavior'', ''calculation_input_schema_version'', ''created_at''],
    required = [''id'', ''programme_id'', ''input_key'', ''label''],
    unique_keys = [[''id''], [''programme_id'', ''rule_version'', ''input_key'']],
    server_defaults = [(''input_type'', PStr ''currency''), (''required_for_exact'', PBool True)],
    server_now = [],
    python_defaults = []\<rparr>"

definition ComparableProduction_table :: table_schema where
  "ComparableProduction_table = \<lparr>
    table_columns = [''id'', ''title'', ''year'', ''budget_usd'', ''primary_territory'', ''incentive_used'',
      ''genre'', ''production_company'', ''director'', ''tmdb_id'', ''source'', ''created_at'', ''updated_at''],
    required = [''id'', ''title'', ''source'', ''created_at'', ''updated_at''],
    unique_keys = [[''id'']],
    server_defaults = [],
    server_now = [],
    python_defaults = []\<rparr>"

definition FilmFestivals_table :: table_schema where
  "FilmFestivals_table = \<lparr>
    table_columns = [''id'', ''name'', ''location'', ''submission_deadline'', ''website_url'', ''filmfreeway_url'',
      ''year'', ''genres'', ''budget_tiers'', ''festival_dates'', ''premiere_requirement'', ''tier'',
      ''acceptance_rate'', ''data_source'', ''verified'', ''is_new'', ''deadlines'', ''notable_alumni'',
      ''average_budget_of_accepted_films'', ''notes'', ''last_verified_at'', ''created_at'',
      ''updated_at'', ''content_restricted'', ''continent'', ''representation_focus'',
      ''eligible_formats'', ''min_months_after_completion'', ''max_months_after_completion'',
      ''deadline_pattern'', ''oscar_qualifying'', ''bafta_qualifying'', ''audience_focus''],
    required = [''id''],
    unique_keys = [[''id'']],
    server_defaults = [],
    server_now = [],
    python_defaults = []\<rparr>"

definition Distributors_table :: table_schema where
  "Distributors_table = \<lparr>
    table_columns = [''id'', ''name'', ''source_url'', ''specialty_genres'', ''specialty_representation'',
      ''territory_reach'', ''scouts_festivals'', ''rights_type'', ''budget_tier_fit'',
      ''submission_process'', ''notes'', ''verified_at'', ''active_status'', ''primary_market'',
      ''created_at'', ''updated_at'', ''audience_focus'',
      ''format_focus'', ''internal_audit_notes''],
    required = [''id''],
    unique_keys = [[''id''], [''name'']],
    server_defaults = [],
    server_now = [],
    python_defaults = []\<rparr>"

text \<open>\<open>grant_opportunities\<close> as it is created; the columns later migrations add are not named by the code modelled over this table.\<close>

definition GrantOpportunities_table :: table_schema where
  "GrantOpportunities_table = \<lparr>
    table_columns = [''id'', ''title'', ''territory'', ''funding_body'', ''max_amount'', ''currency'',
      ''application_opens'', ''application_deadline'', ''status'', ''days_until_deadline'',
      ''eligibility'', ''website_url'', ''data_source'', ''verified'', ''is_new'', ''created_at'',
      ''updated_at'', ''last_verified_at''],
    required = [''id''],
    unique_keys = [[''id'']],
    server_defaults = [],
    server_now = [],
    python_defaults = []\<rparr>"

definition PendingChanges_table :: table_schema where
  "PendingChanges_table = \<lparr>
    table_columns = [''id'', ''resource_type'', ''resource_id'', ''territory'', ''field'', ''current_value'',
      ''detected_value'', ''confidence'', ''source'', ''status'', ''created_at'', ''resolved_at'',
      ''resolved_by'', ''record_label''],
    required = [''id'', ''resource_type'', ''territory'', ''field'', ''detected_value'', ''confidence''],
    unique_keys = [[''id'']],
    server_defaults = [(''status'', PStr ''pending'')],
    server_now = [],
    python_defaults = []\<rparr>"

section \<open>The reflected metadata\<close>

definition reflected_metadata :: "(string \<times> table_schema) list" where
  "reflected_metadata = [
    (''admins'', Admin_table),
    (''users'', User_table),
    (''subscriptions'', Subscription_table),
    (''b2b_subscriptions'', B2BSubscription_table),
    (''b2b_contract_invites'', B2BContractInvite_table),
    (''b2b_client_entitlements'', B2BClientEntitlement_table),
    (''production_signals'', ProductionSignal_table),
    (''b2b_monthly_aggregates'', B2BMonthlyAggregate_table),
    (''b2b_intelligence_requests'', B2BIntelligenceRequest_table),
    (''b2b_package_templates'', B2BPackageTemplate_table),
    (''comparable_productions'', ComparableProduction_table),
    (''reports'', Report_table),
    (''territory_watchlist'', TerritoryWatchlist_table),
    (''email_gating_records'', EmailGatingRecord_table),
    (''production_milestones'', ProductionMilestone_table),
    (''milestone_tasks'', MilestoneTask_table),
    (''processed_webhook_events'', ProcessedWebhookEvent_table),
    (''report_usage_events'', ReportUsageEvents_table),
    (''incentive_programs'', IncentiveProgrammes_table),
    (''programme_required_inputs'', ProgrammeRequiredInputs_table),
    (''film_festivals'', FilmFestivals_table),
    (''distributors'', Distributors_table),
    (''grant_opportunities'', GrantOpportunities_table),
    (''pending_changes'', PendingChanges_table)]"

definition schema_of :: "string \<Rightarrow> table_schema option" where
  "schema_of t = map_of reflected_metadata t"

lemma schema_of_simps [simp]:
  "schema_of ''admins'' = Some Admin_table"
  "schema_of ''users'' = Some User_table"
  "schema_of ''subscriptions'' = Some Subscription_table"
  "schema_of ''b2b_subscriptions'' = Some B2BSubscription_table"
  "schema_of ''b2b_contract_invites'' = Some B2BContractInvite_table"
  "schema_of ''b2b_client_entitlements'' = Some B2BClientEntitlement_table"
  "schema_of ''production_signals'' = Some ProductionSignal_table"
  "schema_of ''b2b_monthly_aggregates'' = Some B2BMonthlyAggregate_table"
  "schema_of ''b2b_intelligence_requests'' = Some B2BIntelligenceRequest_table"
  "schema_of ''b2b_package_templates'' = Some B2BPackageTemplate_table"
  "schema_of ''comparable_productions'' = Some ComparableProduction_table"
  "schema_of ''reports'' = Some Report_table"
  "schema_of ''territory_watchlist'' = Some TerritoryWatchlist_table"
  "schema_of ''email_gating_records'' = Some EmailGatingRecord_table"
  "schema_of ''production_milestones'' = Some ProductionMilestone_table"
  "schema_of ''milestone_tasks'' = Some MilestoneTask_table"
  "schema_of ''processed_webhook_events'' = Some ProcessedWebhookEvent_table"
  "schema_of ''report_usage_events'' = Some ReportUsageEvents_table"
  "schema_of ''incentive_programs'' = Some IncentiveProgrammes_table"
  "schema_of ''programme_required_inputs'' = Some ProgrammeRequiredInputs_table"
  "schema_of ''film_festivals'' = Some FilmFestivals_table"
  "schema_of ''distributors'' = Some Distributors_table"
  "schema_of ''grant_opportunities'' = Some GrantOpportunities_table"
  "schema_of ''pending_changes'' = Some PendingChanges_table"
  by (simp_all add: schema_of_def reflected_metadata_def)

lemmas table_defs =
  Admin_table_def
  User_table_def
  Subscription_table_def
  B2BSubscription_table_def
  B2BContractInvite_table_def
  B2BClientEntitlement_table_def
  ProductionSignal_table_def
  B2BMonthlyAggregate_table_def
  B2BIntelligenceRequest_table_def
  B2BPackageTemplate_table_def
  ComparableProduction_table_def
  Report_table_def
  TerritoryWatchlist_table_def
  EmailGatingRecord_table_def
  ProductionMilestone_table_def
  MilestoneTask_table_def
  ProcessedWebhookEvent_table_def
  ReportUsageEvents_table_def
  IncentiveProgrammes_table_def
  ProgrammeRequiredInputs_table_def
  FilmFestivals_table_def
  Distributors_table_def
  GrantOpportunities_table_def
  PendingChanges_table_def

declare table_defs [query_simps]

end
