(* ===== verification/Database.thy ===== *)
theory Database
  imports Schema "HOL-Library.List_Lexorder" "HOL-Library.Char_ord"
begin

text \<open>
  The query builder of \<open>app/core/database_client.py\<close>. A \<open>query\<close> record is the state of a
  \<open>TableQuery\<close> object; each builder method returns it with one field changed, and
  \<open>tq_execute\<close> runs it. Every SQL statement goes through \<open>sql\<close>, which takes the next fault
  flag of the world: a write that fails leaves the table as it was, and a reload that fails
  leaves the committed write behind.
  A write and its commit are one step. Rows that the requested order leaves equal keep the
  order in which they are stored. Comparisons with a null cell are never true, and
  \<open>eq(key, None)\<close> is \<open>IS NULL\<close>, as SQLAlchemy renders it. Types of cells are not checked.
\<close>

section \<open>Comparing cells\<close>

datatype sql_key = K_num rat | K_text string | K_null

instantiation sql_key :: linorder
begin

fun less_eq_sql_key :: "sql_key \<Rightarrow> sql_key \<Rightarrow> bool" where
  "less_eq_sql_key (K_num a) (K_num b) = (a \<le> b)"
| "less_eq_sql_key (K_num _) _ = True"
| "less_eq_sql_key (K_text _) (K_num _) = False"
| "less_eq_sql_key (K_text a) (K_text b) = (a \<le> b)"
| "less_eq_sql_key (K_text _) K_null = True"
| "less_eq_sql_key K_null K_null = True"
| "less_eq_sql_key K_null _ = False"

definition less_sql_key :: "sql_key \<Rightarrow> sql_key \<Rightarrow> bool" where
  "less_sql_key a b = (a \<le> b \<and> \<not> b \<le> a)"

instance
proof
  fix a b c :: sql_key
  show "(a < b) = (a \<le> b \<and> \<not> b \<le> a)" by (simp add: less_sql_key_def)
  show "a \<le> a" by (cases a) auto
  show "a \<le> b \<Longrightarrow> b \<le> c \<Longrightarrow> a \<le> c" by (cases a; cases b; cases c) auto
  show "a \<le> b \<Longrightarrow> b \<le> a \<Longrightarrow> a = b" by (cases a; cases b) auto
  show "a \<le> b \<or> b \<le> a" by (cases a; cases b) auto
qed

end

fun key_of :: "pyval \<Rightarrow> sql_key" where
  "key_of (PInt i) = K_num (of_int i)"
| "key_of (PTime t) = K_num (of_int t)"
| "key_of (PDate d) = K_num (of_int d)"
| "key_of (PFloat x) = K_num x"
| "key_of (PBool b) = K_num (if b then 1 else 0)"
| "key_of (PStr s) = K_text s"
| "key_of _ = K_null"

definition sql_le :: "pyval \<Rightarrow> pyval \<Rightarrow> bool" where
  "sql_le a b = (key_of a \<noteq> K_null \<and> key_of b \<noteq> K_null \<and> key_of a \<le> key_of b)"

text \<open>\<open>LIKE\<close>, on lower-cased text: \<open>%\<close> is any text, \<open>_\<close> any one character.\<close>

fun like_match :: "string \<Rightarrow> string \<Rightarrow> bool" where
  "like_match [] s = (s = [])"
| "like_match (p # ps) [] = (p = CHR ''%'' \<and> like_match ps [])"
| "like_match (p # ps) (c # cs) =
     (if p = CHR ''%'' then like_match ps (c # cs) \<or> like_match (p # ps) cs
      else (p = CHR ''_'' \<or> p = c) \<and> like_match ps cs)"

section \<open>Queries\<close>

datatype filt =
    F_eq string pyval
  | F_gte string pyval
  | F_lte string pyval
  | F_in string "pyval list"
  | F_ilike string string

datatype action = A_select | A_insert | A_update | A_upsert | A_delete

datatype payload = No_payload | One pydict | Many "pydict list"

record query =
  q_table :: string
  q_action :: action
  q_columns :: "string list"
  q_count :: bool
  q_head :: bool
  q_single :: bool
  q_filters :: "filt list"
  q_order :: "(string \<times> bool) list"
  q_limit :: "nat option"
  q_offset :: "nat option"
  q_payload :: payload
  q_conflict :: string

definition tq :: "string \<Rightarrow> query" where
  "tq t = \<lparr>q_table = t, q_action = A_select, q_columns = [], q_count = False, q_head = False,
     q_single = False, q_filters = [], q_order = [], q_limit = None, q_offset = None,
     q_payload = No_payload, q_conflict = []\<rparr>"

definition tq_select :: "string \<Rightarrow> query \<Rightarrow> query" where
  "tq_select cols q =
     q\<lparr>q_columns := (if cols \<noteq> [] \<and> cols \<noteq> ''*'' then split_columns cols else q_columns q),
       q_count := False, q_head := False\<rparr>"

definition tq_select_count :: "string \<Rightarrow> bool \<Rightarrow> query \<Rightarrow> query" where
  "tq_select_count cols head q = (tq_select cols q)\<lparr>q_count := True, q_head := head\<rparr>"

definition tq_insert :: "pydict \<Rightarrow> query \<Rightarrow> query" where
  "tq_insert p q = q\<lparr>q_action := A_insert, q_payload := One p\<rparr>"

definition tq_insert_many :: "pydict list \<Rightarrow> query \<Rightarrow> query" where
  "tq_insert_many ps q = q\<lparr>q_action := A_insert, q_payload := Many ps\<rparr>"

definition tq_update :: "pydict \<Rightarrow> query \<Rightarrow> query" where
  "tq_update p q = q\<lparr>q_action := A_update, q_payload := One p\<rparr>"

definition tq_upsert :: "pydict \<Rightarrow> string \<Rightarrow> query \<Rightarrow> query" where
  "tq_upsert p conflict q = q\<lparr>q_action := A_upsert, q_payload := One p, q_conflict := conflict\<rparr>"

definition tq_delete :: "query \<Rightarrow> query" where
  "tq_delete q = q\<lparr>q_action := A_delete\<rparr>"

definition tq_filter :: "filt \<Rightarrow> query \<Rightarrow> query" where
  "tq_filter f q = q\<lparr>q_filters := q_filters q @ [f]\<rparr>"

definition tq_eq :: "string \<Rightarrow> pyval \<Rightarrow> query \<Rightarrow> query" where
  "tq_eq k v = tq_filter (F_eq k v)"

definition tq_gte :: "string \<Rightarrow> pyval \<Rightarrow> query \<Rightarrow> query" where
  "tq_gte k v = tq_filter (F_gte k v)"

definition tq_lte :: "string \<Rightarrow> pyval \<Rightarrow> query \<Rightarrow> query" where
  "tq_lte k v = tq_filter (F_lte k v)"

definition tq_in :: "string \<Rightarrow> pyval list \<Rightarrow> query \<Rightarrow> query" where
  "tq_in k vs = tq_filter (F_in k vs)"

definition tq_ilike :: "string \<Rightarrow> string \<Rightarrow> query \<Rightarrow> query" where
  "tq_ilike k s = tq_filter (F_ilike k s)"

definition tq_order :: "string \<Rightarrow> bool \<Rightarrow> query \<Rightarrow> query" where
  "tq_order k desc q = q\<lparr>q_order := q_order q @ [(k, desc)]\<rparr>"

definition tq_range :: "int \<Rightarrow> int \<Rightarrow> query \<Rightarrow> query" where
  "tq_range start end' q =
     q\<lparr>q_offset := Some (nat start), q_limit := Some (nat (max 0 (end' - start + 1)))\<rparr>"

definition tq_limit :: "nat \<Rightarrow> query \<Rightarrow> query" where
  "tq_limit n q = q\<lparr>q_limit := Some n\<rparr>"

definition tq_single :: "query \<Rightarrow> query" where
  "tq_single q = q\<lparr>q_single := True, q_limit := Some 1\<rparr>"

lemmas builder_defs =
  tq_def tq_select_def tq_select_count_def tq_insert_def tq_insert_many_def tq_update_def
  tq_upsert_def tq_delete_def tq_filter_def tq_eq_def tq_gte_def tq_lte_def tq_in_def
  tq_ilike_def tq_order_def tq_range_def tq_limit_def tq_single_def

lemma builder_actions [simp]:
  "q_action (tq t) = A_select" "q_action (tq_select cols q) = q_action q"
  "q_action (tq_select_count cols head q) = q_action q" "q_action (tq_insert p q) = A_insert"
  "q_action (tq_insert_many ps q) = A_insert" "q_action (tq_update p q) = A_update"
  "q_action (tq_upsert p c q) = A_upsert" "q_action (tq_delete q) = A_delete"
  "q_action (tq_eq k v q) = q_action q" "q_action (tq_gte k v q) = q_action q"
  "q_action (tq_lte k v q) = q_action q" "q_action (tq_in k vs q) = q_action q"
  "q_action (tq_ilike k s q) = q_action q" "q_action (tq_order k d q) = q_action q"
  "q_action (tq_range a b q) = q_action q" "q_action (tq_limit n q) = q_action q"
  "q_action (tq_single q) = q_action q"
  by (simp_all add: builder_defs)

lemma builder_tables [simp]:
  "q_table (tq t) = t" "q_table (tq_select cols q) = q_table q"
  "q_table (tq_select_count cols head q) = q_table q" "q_table (tq_insert p q) = q_table q"
  "q_table (tq_insert_many ps q) = q_table q" "q_table (tq_update p q) = q_table q"
  "q_table (tq_upsert p c q) = q_table q" "q_table (tq_delete q) = q_table q"
  "q_table (tq_eq k v q) = q_table q" "q_table (tq_gte k v q) = q_table q"
  "q_table (tq_lte k v q) = q_table q" "q_table (tq_in k vs q) = q_table q"
  "q_table (tq_ilike k s q) = q_table q" "q_table (tq_order k d q) = q_table q"
  "q_table (tq_range a b q) = q_table q" "q_table (tq_limit n q) = q_table q"
  "q_table (tq_single q) = q_table q"
  by (simp_all add: builder_defs)

section \<open>Rows\<close>

fun filt_key :: "filt \<Rightarrow> string" where
  "filt_key (F_eq k _) = k"
| "filt_key (F_gte k _) = k"
| "filt_key (F_lte k _) = k"
| "filt_key (F_in k _) = k"
| "filt_key (F_ilike k _) = k"

fun holds :: "row \<Rightarrow> filt \<Rightarrow> bool" where
  "holds r (F_eq k v) = (r k = v)"
| "holds r (F_gte k v) = sql_le v (r k)"
| "holds r (F_lte k v) = sql_le (r k) v"
| "holds r (F_in k vs) = (r k \<noteq> PNone \<and> r k \<in> set vs)"
| "holds r (F_ilike k s) =
     (case r k of PStr t \<Rightarrow> like_match (lower s) (lower t) | _ \<Rightarrow> False)"

definition matches :: "filt list \<Rightarrow> row \<Rightarrow> bool" where
  "matches fs r = list_all (holds r) fs"

fun order_rows :: "(string \<times> bool) list \<Rightarrow> row list \<Rightarrow> row list" where
  "order_rows [] rs = rs"
| "order_rows ((k, desc) # os) rs =
     (let rs' = order_rows os rs in
      if desc then rev (sort_key (\<lambda>r. key_of (r k)) (rev rs'))
      else sort_key (\<lambda>r. key_of (r k)) rs')"

definition limits :: "query \<Rightarrow> row list \<Rightarrow> row list" where
  "limits q rs =
     (let rs = order_rows (q_order q) rs;
          rs = (case q_offset q of None \<Rightarrow> rs | Some n \<Rightarrow> drop n rs)
      in (case q_limit q of None \<Rightarrow> rs | Some n \<Rightarrow> take n rs))"

definition project_row :: "string list \<Rightarrow> row \<Rightarrow> row" where
  "project_row cols r = (if cols = [] then r else (\<lambda>c. if c \<in> set cols then r c else PNone))"

definition set_cells :: "pydict \<Rightarrow> row \<Rightarrow> row" where
  "set_cells p r = (\<lambda>c. case map_of p c of None \<Rightarrow> r c | Some v \<Rightarrow> v)"

definition update_rows :: "filt list \<Rightarrow> pydict \<Rightarrow> row list \<Rightarrow> row list" where
  "update_rows fs p rs = map (\<lambda>r. if matches fs r then set_cells p r else r) rs"

definition new_row :: "table_schema \<Rightarrow> int \<Rightarrow> pydict \<Rightarrow> row" where
  "new_row sch t p = (\<lambda>c. if c \<notin> set (table_columns sch) then PNone
     else case map_of p c of Some v \<Rightarrow> v
       | None \<Rightarrow> (case map_of (server_defaults sch) c of Some v \<Rightarrow> v
           | None \<Rightarrow> if c \<in> set (server_now sch) then PTime t else PNone))"

definition not_null :: "table_schema \<Rightarrow> string list" where
  "not_null sch = required sch @ map fst (server_defaults sch) @ server_now sch"

text \<open>Two rows that agree on a unique key; null cells never clash.\<close>

definition clash :: "string list \<Rightarrow> row \<Rightarrow> row \<Rightarrow> bool" where
  "clash u r r' = list_all (\<lambda>c. r c \<noteq> PNone \<and> r c = r' c) u"

fun no_clash :: "string list \<Rightarrow> row list \<Rightarrow> bool" where
  "no_clash u [] = True"
| "no_clash u (r # rs) = (list_all (\<lambda>r'. \<not> clash u r r') rs \<and> no_clash u rs)"

definition insertable :: "table_schema \<Rightarrow> row \<Rightarrow> row list \<Rightarrow> bool" where
  "insertable sch r rs =
     (list_all (\<lambda>c. r c \<noteq> PNone) (not_null sch)
      \<and> list_all (\<lambda>u. list_all (\<lambda>r'. \<not> clash u r' r) rs) (unique_keys sch))"

fun store_rows :: "table_schema \<Rightarrow> int \<Rightarrow> pydict list \<Rightarrow> row list \<Rightarrow> row list option" where
  "store_rows sch t [] rs = Some rs"
| "store_rows sch t (p # ps) rs =
     (if insertable sch (new_row sch t p) rs
      then store_rows sch t ps (rs @ [new_row sch t p]) else None)"

definition updatable :: "table_schema \<Rightarrow> filt list \<Rightarrow> pydict \<Rightarrow> row list \<Rightarrow> bool" where
  "updatable sch fs p rs =
     ((list_all (\<lambda>c. map_of p c \<noteq> Some PNone) (not_null sch) \<or> filter (matches fs) rs = [])
      \<and> list_all (\<lambda>u. list_all (\<lambda>c. \<not> has_key p c) u \<or> no_clash u (update_rows fs p rs))
          (unique_keys sch))"

section \<open>Statements\<close>

definition sql :: "'a comp \<Rightarrow> 'a comp" where
  "sql m w = (case faults w of [] \<Rightarrow> m w
     | f # fs \<Rightarrow> if f then (Inl DBError, w\<lparr>faults := fs\<rparr>) else m (w\<lparr>faults := fs\<rparr>))"

definition set_table :: "string \<Rightarrow> row list \<Rightarrow> world \<Rightarrow> world" where
  "set_table t rs w = w\<lparr>tables := (tables w)(t := rs)\<rparr>"

definition sql_read :: "string \<Rightarrow> (row list \<Rightarrow> 'a) \<Rightarrow> 'a comp" where
  "sql_read t f = sql (gets (\<lambda>w. f (tables w t)))"

definition sql_store :: "table_schema \<Rightarrow> string \<Rightarrow> pydict list \<Rightarrow> unit comp" where
  "sql_store sch t ps = sql (\<lambda>w. case store_rows sch (clock w) ps (tables w t) of
     None \<Rightarrow> (Inl DBError, w) | Some rs \<Rightarrow> (Inr (), set_table t rs w))"

definition sql_update :: "table_schema \<Rightarrow> string \<Rightarrow> filt list \<Rightarrow> pydict \<Rightarrow> unit comp" where
  "sql_update sch t fs p = sql (\<lambda>w.
     if updatable sch fs p (tables w t) then (Inr (), set_table t (update_rows fs p (tables w t)) w)
     else (Inl DBError, w))"

definition sql_delete :: "string \<Rightarrow> filt list \<Rightarrow> unit comp" where
  "sql_delete t fs = sql (\<lambda>w.
     (Inr (), set_table t (filter (\<lambda>r. \<not> matches fs r) (tables w t)) w))"

section \<open>Executing a query\<close>

datatype qdata = D_none | D_one row | D_many "row list"

record qresult =
  data :: qdata
  row_count :: "nat option"

definition result_rows :: "query \<Rightarrow> row list \<Rightarrow> nat option \<Rightarrow> qresult" where
  "result_rows q rs n =
     \<lparr>data = (if q_single q then (case rs of [] \<Rightarrow> D_none | r # _ \<Rightarrow> D_one r) else D_many rs),
      row_count = n\<rparr>"

text \<open>\<open>result.data or []\<close> and \<open>result.data or {}\<close>.\<close>

definition rows_of :: "qresult \<Rightarrow> row list" where
  "rows_of res = (case data res of D_many rs \<Rightarrow> rs | _ \<Rightarrow> [])"

definition row_of :: "qresult \<Rightarrow> row option" where
  "row_of res = (case data res of D_one r \<Rightarrow> Some r | _ \<Rightarrow> None)"

definition empty_row :: row where
  "empty_row = (\<lambda>_. PNone)"

definition row_or_empty :: "qresult \<Rightarrow> row" where
  "row_or_empty res = (case row_of res of None \<Rightarrow> empty_row | Some r \<Rightarrow> r)"

definition first_or_empty :: "qresult \<Rightarrow> row" where
  "first_or_empty res = (case rows_of res of [] \<Rightarrow> empty_row | r # _ \<Rightarrow> r)"

definition data_truthy :: "qresult \<Rightarrow> bool" where
  "data_truthy res = (case data res of D_none \<Rightarrow> False | D_one _ \<Rightarrow> True | D_many rs \<Rightarrow> rs \<noteq> [])"

definition execute_select :: "query \<Rightarrow> qresult comp" where
  "execute_select q =
     bindM (if q_count q
            then bindM (sql_read (q_table q) (\<lambda>rs. length (filter (matches (q_filters q)) rs))) (\<lambda>n. ret (Some n))
            else ret None)
     (\<lambda>n. if q_count q \<and> q_head q then ret \<lparr>data = D_none, row_count = n\<rparr>
        else bindM (gets max_rows) (\<lambda>cap.
        bindM (sql_read (q_table q) (\<lambda>rs.
          let rs = limits q (filter (matches (q_filters q)) rs);
              capped = (q_limit q = None \<and> q_offset q = None \<and> \<not> q_single q)
          in map (project_row (q_columns q)) (if capped then take cap rs else rs)))
        (\<lambda>rs. ret (result_rows q rs n))))"

fun apply_insert_defaults :: "(string \<times> pyval comp) list \<Rightarrow> pydict \<Rightarrow> pydict comp" where
  "apply_insert_defaults [] p = ret p"
| "apply_insert_defaults ((c, d) # ds) p =
     (if has_key p c then apply_insert_defaults ds p
      else bindM d (\<lambda>v. apply_insert_defaults ds (p @ [(c, v)])))"

definition reload_after_write :: "query \<Rightarrow> pydict \<Rightarrow> qresult comp" where
  "reload_after_write q p =
     bindM (sql_read (q_table q) (\<lambda>rs.
       map (project_row (q_columns q))
        (if q_filters q \<noteq> [] then limits q (filter (matches (q_filters q)) rs)
         else if has_key p ''id'' then filter (\<lambda>r. r ''id'' = lookup p ''id'') rs
         else (case p of [] \<Rightarrow> take 1 rs
           | (k, v) # _ \<Rightarrow> take 1 (filter (\<lambda>r. r k = v) rs)))))
     (\<lambda>rs. ret (result_rows q rs None))"

text \<open>Without an \<open>id\<close> in any payload the client returns the payloads it was given.\<close>

definition reload_bulk_insert :: "table_schema \<Rightarrow> query \<Rightarrow> pydict list \<Rightarrow> qresult comp" where
  "reload_bulk_insert sch q ps =
     (let ids = map (\<lambda>p. lookup p ''id'') (filter (\<lambda>p. has_key p ''id'') ps) in
      if ids = [] then ret \<lparr>data = D_many (map (\<lambda>p. lookup p) ps), row_count = None\<rparr>
      else bindM (sql_read (q_table q) (\<lambda>rs.
             map (project_row (q_columns q)) (filter (\<lambda>r. r ''id'' \<noteq> PNone \<and> r ''id'' \<in> set ids) rs)))
           (\<lambda>rs. ret \<lparr>data = D_many rs, row_count = None\<rparr>))"

definition known_columns :: "table_schema \<Rightarrow> pydict \<Rightarrow> unit comp" where
  "known_columns sch p =
     (case filter (\<lambda>k. k \<notin> set (table_columns sch)) (map fst p) of
        [] \<Rightarrow> ret () | k # _ \<Rightarrow> throw (UnconsumedColumn k))"

definition execute_insert :: "table_schema \<Rightarrow> query \<Rightarrow> qresult comp" where
  "execute_insert sch q =
     (case q_payload q of
        No_payload \<Rightarrow> throw (ValueError ''Insert payload is required'')
      | Many ps \<Rightarrow>
          if ps = [] then throw (ValueError ''Insert payload is required'')
          else bindM (mapM (apply_insert_defaults (python_defaults sch)) ps) (\<lambda>ps.
            thenM (forM ps (known_columns sch))
            (thenM (sql_store sch (q_table q) ps) (reload_bulk_insert sch q ps)))
      | One p \<Rightarrow>
          if p = [] then throw (ValueError ''Insert payload is required'')
          else bindM (apply_insert_defaults (python_defaults sch) p) (\<lambda>p.
            thenM (known_columns sch p)
            (thenM (sql_store sch (q_table q) [p]) (reload_after_write q p))))"

definition execute_update :: "table_schema \<Rightarrow> query \<Rightarrow> qresult comp" where
  "execute_update sch q =
     (case q_payload q of
        No_payload \<Rightarrow> throw (ValueError ''Update payload is required'')
      | Many _ \<Rightarrow> throw (ValueError ''Update does not support bulk payloads'')
      | One p \<Rightarrow>
          thenM (known_columns sch p)
          (thenM (sql_update sch (q_table q) (q_filters q) p) (reload_after_write q p)))"

definition execute_delete :: "query \<Rightarrow> qresult comp" where
  "execute_delete q =
     (if q_filters q = [] then throw (ValueError ''Refusing DELETE with no filters'')
      else thenM (sql_delete (q_table q) (q_filters q))
             (ret \<lparr>data = D_many [], row_count = None\<rparr>))"

definition execute_upsert :: "table_schema \<Rightarrow> query \<Rightarrow> qresult comp" where
  "execute_upsert sch q =
     (case q_payload q of
        No_payload \<Rightarrow> throw (ValueError ''Upsert payload is required'')
      | Many ps \<Rightarrow> throw (ValueError (if ps = [] then ''Upsert payload is required''
                              else ''Upsert does not support bulk payloads''))
      | One p \<Rightarrow>
          if p = [] then throw (ValueError ''Upsert payload is required'')
          else if q_conflict q = [] then execute_insert sch q
          else
           (let cols = split_columns (q_conflict q);
                fs = map (\<lambda>c. F_eq c (lookup p c)) cols;
                q' = q\<lparr>q_filters := fs\<rparr> in
            case filter (\<lambda>c. c \<notin> set (table_columns sch)) cols of
              c # _ \<Rightarrow> throw (KeyError c)
            | [] \<Rightarrow>
              bindM (sql_read (q_table q) (\<lambda>rs. filter (matches fs) rs)) (\<lambda>existing.
              if existing \<noteq> []
              then (let p' = filter (\<lambda>(k, _). k \<noteq> ''id'') p in
                    thenM (known_columns sch p')
                    (thenM (sql_update sch (q_table q) fs p') (reload_after_write q' p)))
              else bindM (apply_insert_defaults (python_defaults sch) p) (\<lambda>p.
                    thenM (known_columns sch p)
                    (thenM (sql_store sch (q_table q) [p]) (reload_after_write q' p))))))"

text \<open>
  The builder methods look the column up in the reflected table, so an unknown table or
  column raises before any statement is sent.
\<close>

definition query_keys :: "query \<Rightarrow> string list" where
  "query_keys q = map filt_key (q_filters q) @ map fst (q_order q)"

definition tq_execute :: "query \<Rightarrow> qresult comp" where
  "tq_execute q =
     (case schema_of (q_table q) of
        None \<Rightarrow> throw (NoSuchTable (q_table q))
      | Some sch \<Rightarrow>
         (case filter (\<lambda>k. k \<notin> set (table_columns sch)) (query_keys q) of
            k # _ \<Rightarrow> throw (KeyError k)
          | [] \<Rightarrow>
             (case q_action q of
                A_select \<Rightarrow> execute_select q
              | A_insert \<Rightarrow> execute_insert sch q
              | A_update \<Rightarrow> execute_update sch q
              | A_upsert \<Rightarrow> execute_upsert sch q
              | A_delete \<Rightarrow> execute_delete q)))"


section \<open>Idioms of the services\<close>

text \<open>
  \<open>rows = q.execute().data or []\<close>, \<open>rows[0] if rows else None\<close>, \<open>(result.data or [row])[0]\<close>,
  and \<open>payload[key]\<close>.
\<close>

definition fetch :: "query \<Rightarrow> row list comp" where
  "fetch q = bindM (tq_execute q) (\<lambda>res. ret (rows_of res))"

definition run :: "query \<Rightarrow> unit comp" where
  "run q = bindM (tq_execute q) (\<lambda>_. ret ())"

definition first_row :: "row list \<Rightarrow> row option" where
  "first_row rs = (case rs of [] \<Rightarrow> None | r # _ \<Rightarrow> Some r)"

definition first_or :: "pydict \<Rightarrow> row list \<Rightarrow> row" where
  "first_or p rs = (case rs of [] \<Rightarrow> lookup p | r # _ \<Rightarrow> r)"

definition dict_item :: "pydict \<Rightarrow> string \<Rightarrow> pyval comp" where
  "dict_item p k = (if has_key p k then ret (lookup p k) else throw (KeyError k))"

lemma first_row_simps [simp]:
  "first_row [] = None" "first_row (r # rs) = Some r" "first_or p [] = lookup p" "first_or p (r # rs) = r"
  by (simp_all add: first_row_def first_or_def)

lemma keeps_dict_item [keeps_intros, intro!]: "keeps I (dict_item p k)"
  unfolding dict_item_def by auto

section \<open>Evaluation when no statement fails\<close>

lemma sql_healthy [world_simps]: "healthy w \<Longrightarrow> sql m w = m w"
  by (simp add: sql_def healthy_def)

lemma set_table_simps [simp]:
  "tables (set_table t rs w) = (tables w)(t := rs)"
  "faults (set_table t rs w) = faults w"
  "max_rows (set_table t rs w) = max_rows w"
  "clock (set_table t rs w) = clock w"
  "uuid_source (set_table t rs w) = uuid_source w"
  "uuids_used (set_table t rs w) = uuids_used w"
  "cache (set_table t rs w) = cache w"
  "redis_up (set_table t rs w) = redis_up w"
  "outbox (set_table t rs w) = outbox w"
  "mail_up (set_table t rs w) = mail_up w"
  "throttle (set_table t rs w) = throttle w"
  "deferred (set_table t rs w) = deferred w"
  "stripe_api (set_table t rs w) = stripe_api w"
  "stripe_log (set_table t rs w) = stripe_log w"
  "env_settings (set_table t rs w) = env_settings w"
  "healthy (set_table t rs w) = healthy w"
  by (simp_all add: set_table_def healthy_def)

lemma matches_simps [simp]:
  "matches [] r"
  "matches (f # fs) r \<longleftrightarrow> holds r f \<and> matches fs r"
  by (simp_all add: matches_def)

lemma matches_append [simp]: "matches (fs @ gs) r \<longleftrightarrow> matches fs r \<and> matches gs r"
  by (simp add: matches_def)

lemma set_cells_apply [simp]:
  "set_cells p r c = (case map_of p c of None \<Rightarrow> r c | Some v \<Rightarrow> v)"
  by (simp add: set_cells_def)

lemma has_key_map_of: "has_key p c \<longleftrightarrow> map_of p c \<noteq> None"
  by (auto simp: has_key_def map_of_eq_None_iff)

lemma holds_set_cells: "\<not> has_key p (filt_key f) \<Longrightarrow> holds (set_cells p r) f = holds r f"
  by (cases f) (simp_all add: has_key_map_of)

lemma matches_set_cells:
  "list_all (\<lambda>f. \<not> has_key p (filt_key f)) fs \<Longrightarrow> matches fs (set_cells p r) = matches fs r"
  by (induction fs) (auto simp: holds_set_cells)

text \<open>
  The rows an update hands back are the rows it matched, updated, unless the update writes a
  column its own filter reads.
\<close>

lemma filter_update_rows:
  assumes "list_all (\<lambda>f. \<not> has_key p (filt_key f)) fs"
  shows "filter (matches fs) (update_rows fs p rs) = map (set_cells p) (filter (matches fs) rs)"
  by (induction rs) (auto simp: update_rows_def matches_set_cells [OF assms])

text \<open>What an update leaves of the rows a predicate selects.\<close>

lemma filter_update_rows_frame:
  assumes "\<And>r. matches fs r \<Longrightarrow> \<not> Q r" and "\<And>r. matches fs r \<Longrightarrow> \<not> Q (set_cells p r)"
  shows "filter Q (update_rows fs p rs) = filter Q rs"
  using assms by (induction rs) (auto simp: update_rows_def)

lemma update_rows_Nil [simp]: "update_rows fs p [] = []"
  by (simp add: update_rows_def)

lemma update_rows_Cons [simp]:
  "update_rows fs p (r # rs) = (if matches fs r then set_cells p r else r) # update_rows fs p rs"
  by (simp add: update_rows_def)

lemma update_rows_none: "filter (matches fs) rs = [] \<Longrightarrow> update_rows fs p rs = rs"
  by (induction rs) (auto split: if_splits)

lemma length_update_rows [simp]: "length (update_rows fs p rs) = length rs"
  by (simp add: update_rows_def)

lemma set_update_rows:
  "set (update_rows fs p rs) = (\<lambda>r. if matches fs r then set_cells p r else r) ` set rs"
  by (simp add: update_rows_def)

lemma take_Suc_0_filter:
  "take (Suc 0) xs = (case xs of [] \<Rightarrow> [] | x # _ \<Rightarrow> [x])"
  by (cases xs) auto

lemma project_row_simps [simp]:
  "project_row [] r = r"
  "project_row (k # ks) r c = (if c \<in> set (k # ks) then r c else PNone)"
  by (simp_all add: project_row_def)

lemma map_project_all [simp]: "map (project_row []) rs = rs"
  by (induction rs) auto

lemma result_simps [simp]:
  "rows_of \<lparr>data = D_many rs, row_count = n\<rparr> = rs"
  "row_of \<lparr>data = D_one r, row_count = n\<rparr> = Some r"
  "row_of \<lparr>data = D_none, row_count = n\<rparr> = None"
  "row_or_empty \<lparr>data = D_one r, row_count = n\<rparr> = r"
  "row_or_empty \<lparr>data = D_none, row_count = n\<rparr> = empty_row"
  "data_truthy \<lparr>data = D_many rs, row_count = n\<rparr> \<longleftrightarrow> rs \<noteq> []"
  "data_truthy \<lparr>data = D_one r, row_count = n\<rparr>"
  "\<not> data_truthy \<lparr>data = D_none, row_count = n\<rparr>"
  "first_or_empty \<lparr>data = D_many (r # rs), row_count = n\<rparr> = r"
  "first_or_empty \<lparr>data = D_many [], row_count = n\<rparr> = empty_row"
  by (simp_all add: rows_of_def row_of_def row_or_empty_def data_truthy_def first_or_empty_def)

lemma empty_row_apply [simp]: "empty_row c = PNone"
  by (simp add: empty_row_def)

lemmas query_eval =
  fetch_def run_def tq_execute_def builder_defs query_keys_def execute_select_def execute_insert_def
  execute_update_def execute_delete_def execute_upsert_def reload_after_write_def
  sql_read_def sql_store_def sql_update_def sql_delete_def updatable_def not_null_def
  known_columns_def split_columns_def strip_def is_space_def limits_def result_rows_def
  filter_update_rows Let_def

section \<open>Invariants of queries\<close>

text \<open>
  Whatever statements fail, a query changes the tables in one way only: the way its action
  prescribes, on its own table, or not at all.
\<close>

lemma keeps_sql: "keeps (tables_inv P) m \<Longrightarrow> keeps (tables_inv P) (sql m)"
  by (auto simp: keeps_def sql_def tables_inv_def split: list.splits)

lemma keeps_sql_read [keeps_intros, intro!]: "keeps (tables_inv P) (sql_read t f)"
  unfolding sql_read_def by (rule keeps_sql) (rule keeps_gets)

lemma keeps_sql_store:
  assumes "\<And>ts c rs. P ts \<Longrightarrow> store_rows sch c ps (ts t) = Some rs \<Longrightarrow> P (ts(t := rs))"
  shows "keeps (tables_inv P) (sql_store sch t ps)"
  unfolding sql_store_def
  by (rule keeps_sql) (auto simp: keeps_def tables_inv_def split: option.splits intro: assms)

lemma keeps_sql_update:
  assumes "\<And>ts. P ts \<Longrightarrow> P (ts(t := update_rows fs p (ts t)))"
  shows "keeps (tables_inv P) (sql_update sch t fs p)"
  unfolding sql_update_def
  by (rule keeps_sql) (auto simp: keeps_def tables_inv_def intro: assms)

lemma keeps_sql_delete:
  assumes "\<And>ts. P ts \<Longrightarrow> P (ts(t := filter (\<lambda>r. \<not> matches fs r) (ts t)))"
  shows "keeps (tables_inv P) (sql_delete t fs)"
  unfolding sql_delete_def
  by (rule keeps_sql) (auto simp: keeps_def tables_inv_def intro: assms)

lemma keeps_known_columns [keeps_intros, intro!]: "keeps I (known_columns sch p)"
  unfolding known_columns_def by (auto split: list.splits)

lemma keeps_reload [keeps_intros, intro!]: "keeps (tables_inv P) (reload_after_write q p)"
  unfolding reload_after_write_def by auto

lemma keeps_execute_select [keeps_intros, intro!]: "keeps (tables_inv P) (execute_select q)"
  unfolding execute_select_def by auto

lemma python_defaults_none: "schema_of t = Some sch \<Longrightarrow> python_defaults sch = []"
proof -
  assume "schema_of t = Some sch"
  then have "(t, sch) \<in> set reflected_metadata" by (simp add: schema_of_def map_of_SomeD)
  then have "sch \<in> set (map snd reflected_metadata)" by force
  moreover have "\<forall>sch \<in> set (map snd reflected_metadata). python_defaults sch = []"
    by (simp add: reflected_metadata_def table_defs)
  ultimately show ?thesis by blast
qed

lemma keeps_query_select:
  assumes "q_action q = A_select"
  shows "keeps (tables_inv P) (tq_execute q)"
  unfolding tq_execute_def using assms by (auto split: option.splits list.splits)

lemma keeps_fetch_select [keeps_intros, intro!]:
  "q_action q = A_select \<Longrightarrow> keeps (tables_inv P) (fetch q)"
  unfolding fetch_def using keeps_query_select by auto

lemma keeps_query_update:
  assumes "q_action q = A_update"
    and "\<And>ts p. q_payload q = One p \<Longrightarrow> P ts
      \<Longrightarrow> P (ts(q_table q := update_rows (q_filters q) p (ts (q_table q))))"
  shows "keeps (tables_inv P) (tq_execute q)"
proof -
  have "keeps (tables_inv P) (execute_update sch q)" for sch
    unfolding execute_update_def
    by (cases "q_payload q") (auto intro!: keeps_sql_update assms(2))
  then show ?thesis
    unfolding tq_execute_def using assms(1) by (auto split: option.splits list.splits)
qed

lemma keeps_execute_insert:
  assumes "python_defaults sch = []"
    and "\<And>ts c ps rs. q_payload q = One (hd ps) \<and> tl ps = [] \<or> q_payload q = Many ps
      \<Longrightarrow> P ts \<Longrightarrow> store_rows sch c ps (ts (q_table q)) = Some rs \<Longrightarrow> P (ts(q_table q := rs))"
  shows "keeps (tables_inv P) (execute_insert sch q)"
proof -
  have mapM: "mapM ret ps = ret ps" for ps :: "'b list"
    by (induction ps) simp_all
  have nil: "apply_insert_defaults [] = ret"
    by (rule ext) simp
  have bulk: "keeps (tables_inv P) (reload_bulk_insert sch q ps)" for ps
    unfolding reload_bulk_insert_def by (auto simp: Let_def)
  show ?thesis
    unfolding execute_insert_def assms(1) nil mapM
    by (cases "q_payload q") (auto intro!: keeps_sql_store bulk keeps_forM assms(2))
qed

lemma keeps_query_insert:
  assumes "q_action q = A_insert" and "q_payload q = One p"
    and "\<And>ts c rs sch. schema_of (q_table q) = Some sch \<Longrightarrow> P ts
      \<Longrightarrow> insertable sch (new_row sch c p) (ts (q_table q))
      \<Longrightarrow> P (ts(q_table q := ts (q_table q) @ [new_row sch c p]))"
  shows "keeps (tables_inv P) (tq_execute q)"
proof -
  have one: "ps = [p]" if "q_payload q = One (hd ps) \<and> tl ps = [] \<or> q_payload q = Many ps" "ps \<noteq> []" for ps
    using that assms(2) by (cases ps) auto
  have "keeps (tables_inv P) (execute_insert sch q)" if s: "schema_of (q_table q) = Some sch" for sch
    unfolding execute_insert_def python_defaults_none [OF s] using assms(2)
    by (auto intro!: keeps_sql_store assms(3) [OF s] split: if_splits)
  then show ?thesis
    unfolding tq_execute_def using assms(1) by (auto split: option.splits list.splits)
qed

lemma keeps_query_delete:
  assumes "q_action q = A_delete"
    and "\<And>ts. P ts \<Longrightarrow> P (ts(q_table q := filter (\<lambda>r. \<not> matches (q_filters q) r) (ts (q_table q))))"
  shows "keeps (tables_inv P) (tq_execute q)"
proof -
  have "keeps (tables_inv P) (execute_delete q)"
    unfolding execute_delete_def by (auto intro!: keeps_sql_delete assms(2))
  then show ?thesis
    unfolding tq_execute_def using assms(1) by (auto split: option.splits list.splits)
qed

text \<open>
  An upsert is an update of the rows that agree on the conflict columns, or an insert.
\<close>

lemma keeps_query_upsert:
  assumes "q_action q = A_upsert" and "q_payload q = One p"
    and "\<And>ts. P ts \<Longrightarrow> P (ts(q_table q :=
        update_rows (map (\<lambda>c. F_eq c (lookup p c)) (split_columns (q_conflict q)))
          (filter (\<lambda>(k, _). k \<noteq> ''id'') p) (ts (q_table q))))"
    and "\<And>ts c rs sch. schema_of (q_table q) = Some sch \<Longrightarrow> P ts
      \<Longrightarrow> insertable sch (new_row sch c p) (ts (q_table q))
      \<Longrightarrow> P (ts(q_table q := ts (q_table q) @ [new_row sch c p]))"
  shows "keeps (tables_inv P) (tq_execute q)"
proof -
  have ins: "keeps (tables_inv P) (execute_insert sch q)" if s: "schema_of (q_table q) = Some sch" for sch
    unfolding execute_insert_def python_defaults_none [OF s] using assms(2)
    by (auto intro!: keeps_sql_store assms(4) [OF s] split: if_splits)
  have "keeps (tables_inv P) (execute_upsert sch q)" if s: "schema_of (q_table q) = Some sch" for sch
    unfolding execute_upsert_def python_defaults_none [OF s] Let_def apply_insert_defaults.simps bindM_ret
    using assms(2) by (auto intro!: keeps_sql_store keeps_sql_update ins [OF s] assms(3) assms(4) [OF s]
        split: if_splits list.splits)
  then show ?thesis
    unfolding tq_execute_def using assms(1) by (auto split: option.splits list.splits)
qed

text \<open>No query writes a table other than its own.\<close>

lemma keeps_other_table:
  assumes "q_table q \<noteq> t"
  shows "keeps (tables_inv (\<lambda>ts. R (ts t))) (tq_execute q)"
proof -
  let ?P = "\<lambda>ts. R (ts t)"
  have up: "keeps (tables_inv ?P) (sql_update sch (q_table q) fs p)" for sch fs p
    by (rule keeps_sql_update) (use assms in auto)
  have st: "keeps (tables_inv ?P) (sql_store sch (q_table q) ps)" for sch ps
    by (rule keeps_sql_store) (use assms in auto)
  have dl: "keeps (tables_inv ?P) (sql_delete (q_table q) fs)" for fs
    by (rule keeps_sql_delete) (use assms in auto)
  have ins: "keeps (tables_inv ?P) (execute_insert sch q)" if "python_defaults sch = []" for sch
    by (rule keeps_execute_insert [OF that]) (use assms in auto)
  have "keeps (tables_inv ?P) (execute_upsert sch q)" if d: "python_defaults sch = []" for sch
    unfolding execute_upsert_def d
    by (auto simp: Let_def intro!: up st ins [OF d] split: payload.splits list.splits)
  moreover have "keeps (tables_inv ?P) (execute_update sch q)" for sch
    unfolding execute_update_def by (auto intro!: up split: payload.splits)
  moreover have "keeps (tables_inv ?P) (execute_delete q)"
    unfolding execute_delete_def by (auto intro!: dl)
  ultimately show ?thesis
    unfolding tq_execute_def
    by (auto intro: ins dest: python_defaults_none split: option.splits list.splits action.splits)
qed

end
