(* ===== verification/Calendar.thy ===== *)
theory Calendar
  imports Prelude
begin

text \<open>
  The part of Python's \<open>datetime\<close> the services compute with: the proleptic Gregorian
  calendar, and the month arithmetic of \<open>app/modules/b2b/service.py\<close> and
  \<open>app/modules/milestones/service.py\<close> over it. A date is the number of days since
  1970-01-01 and an instant the number of microseconds since its midnight; both are read as
  year, month and day by the two conversions below, which are proved inverse to each other.
  Years outside 1 to 9999, which Python refuses, are not excluded.
\<close>

section \<open>Years and months\<close>

definition is_leap :: "int \<Rightarrow> bool" where
  "is_leap y \<longleftrightarrow> y mod 4 = 0 \<and> (y mod 100 \<noteq> 0 \<or> y mod 400 = 0)"

text \<open>\<open>calendar.monthrange(year, month)[1]\<close>.\<close>

definition days_in_month :: "int \<Rightarrow> int \<Rightarrow> int" where
  "days_in_month y m =
     (if m = 2 then (if is_leap y then 29 else 28)
      else if m \<in> {4, 6, 9, 11} then 30 else 31)"

definition all_months :: "int list" where
  "all_months = [1, 2, 3, 4, 5, 6, 7, 8, 9, 10, 11, 12]"

definition days_before_year :: "int \<Rightarrow> int" where
  "days_before_year y = (let k = y - 1 in k * 365 + k div 4 - k div 100 + k div 400)"

fun days_before_month :: "int \<Rightarrow> int \<Rightarrow> int list \<Rightarrow> int" where
  "days_before_month y m [] = 0"
| "days_before_month y m (k # ks) = (if k = m then 0 else days_in_month y k + days_before_month y m ks)"

definition epoch_ordinal :: int where
  "epoch_ordinal = 719162"

text \<open>The date of a year, month and day, and back.\<close>

definition date_of :: "int \<Rightarrow> int \<Rightarrow> int \<Rightarrow> int" where
  "date_of y m d = days_before_year y + days_before_month y m all_months + (d - 1) - epoch_ordinal"

fun split_month :: "int \<Rightarrow> int \<Rightarrow> int list \<Rightarrow> int \<times> int" where
  "split_month y r [] = (12, 31)"
| "split_month y r (k # ks) =
     (if r < days_in_month y k then (k, r + 1) else split_month y (r - days_in_month y k) ks)"

definition ymd_of :: "int \<Rightarrow> int \<times> int \<times> int" where
  "ymd_of date =
     (let n = date + epoch_ordinal;
          n400 = n div 146097; n = n mod 146097;
          n100 = n div 36524; n = n mod 36524;
          n4 = n div 1461; n = n mod 1461;
          n1 = n div 365; n = n mod 365;
          y = n400 * 400 + n100 * 100 + n4 * 4 + n1 + 1
      in if n1 = 4 \<or> n100 = 4 then (y - 1, 12, 31)
         else (y, split_month y n all_months))"

definition valid_ymd :: "int \<Rightarrow> int \<Rightarrow> int \<Rightarrow> bool" where
  "valid_ymd y m d \<longleftrightarrow> 1 \<le> m \<and> m \<le> 12 \<and> 1 \<le> d \<and> d \<le> days_in_month y m"

section \<open>The conversions are inverse\<close>

lemma days_in_month_pos [simp]: "0 < days_in_month y m" "1 \<le> days_in_month y m"
  by (simp_all add: days_in_month_def)

lemma valid_ymd_month: "valid_ymd y m d \<Longrightarrow> m \<in> set all_months"
  unfolding valid_ymd_def all_months_def by simp presburger

lemma days_before_month_ge [simp]: "0 \<le> days_before_month y m ks"
  by (induction ks) (auto simp: less_imp_le)

lemma split_month_inverse:
  assumes "m \<in> set ks" and "0 \<le> r" and "r < days_in_month y m"
  shows "split_month y (days_before_month y m ks + r) ks = (m, r + 1)"
  using assms
proof (induction ks)
  case Nil
  then show ?case by simp
next
  case (Cons k ks)
  show ?case
  proof (cases "k = m")
    case True
    then show ?thesis using Cons.prems by simp
  next
    case False
    have "0 \<le> days_before_month y m ks" by simp
    then have "\<not> days_before_month y m ks + r < 0" using Cons.prems by linarith
    then show ?thesis using False Cons by simp
  qed
qed

lemma year_length:
  "m \<in> set all_months \<Longrightarrow> 0 \<le> r \<Longrightarrow> r < days_in_month y m
    \<Longrightarrow> days_before_month y m all_months + r < (if is_leap y then 366 else 365)
      \<and> (days_before_month y m all_months + r = 365 \<longrightarrow> m = 12 \<and> r = 30)"
  by (auto simp: all_months_def days_in_month_def)

lemma year_digits:
  fixes y :: int
  obtains a b c d where "y - 1 = 400 * a + 100 * b + 4 * c + d"
    "0 \<le> b" "b \<le> 3" "0 \<le> c" "c \<le> 24" "0 \<le> d" "d \<le> 3"
proof -
  let ?k = "y - 1"
  have "?k = 400 * (?k div 400) + ?k mod 400"
    "?k mod 400 = 100 * (?k mod 400 div 100) + ?k mod 400 mod 100"
    "?k mod 400 mod 100 = 4 * (?k mod 400 mod 100 div 4) + ?k mod 400 mod 100 mod 4"
    by (simp_all only: mult_div_mod_eq)
  moreover have "0 \<le> ?k mod 400" "?k mod 400 < 400" "0 \<le> ?k mod 400 mod 100" "?k mod 400 mod 100 < 100"
    "0 \<le> ?k mod 400 mod 100 mod 4" "?k mod 400 mod 100 mod 4 < 4"
    by simp_all
  ultimately show thesis
    by (intro that [of "?k div 400" "?k mod 400 div 100" "?k mod 400 mod 100 div 4" "?k mod 400 mod 100 mod 4"])
       linarith+
qed

lemma days_before_year_digits:
  fixes a b c d :: int
  assumes "y - 1 = 400 * a + 100 * b + 4 * c + d"
    and "0 \<le> b" "b \<le> 3" "0 \<le> c" "c \<le> 24" "0 \<le> d" "d \<le> 3"
  shows "days_before_year y = 146097 * a + 36524 * b + 1461 * c + 365 * d"
    and "is_leap y \<longleftrightarrow> d = 3 \<and> (c \<noteq> 24 \<or> b = 3)"
proof -
  have 4: "(y - 1) div 4 = 100 * a + 25 * b + c" and 100: "(y - 1) div 100 = 4 * a + b"
    and 400: "(y - 1) div 400 = a"
    using assms by linarith+
  show "days_before_year y = 146097 * a + 36524 * b + 1461 * c + 365 * d"
    unfolding days_before_year_def Let_def 4 100 400 using assms(1) by simp
  have y: "y = 400 * a + 100 * b + 4 * c + d + 1" using assms(1) by simp
  have y4: "y = (d + 1) + 4 * (100 * a + 25 * b + c)" and y100: "y = (4 * c + d + 1) + 100 * (4 * a + b)"
    and y400: "y = (100 * b + 4 * c + d + 1) + 400 * a"
    unfolding y by simp_all
  have full: "k mod n = 0 \<longleftrightarrow> k = n" if "0 < k" "k \<le> n" for k n :: int
    using that by (cases "k = n") auto
  have "y mod 4 = 0 \<longleftrightarrow> d + 1 = 4" unfolding y4 mod_mult_self2 by (rule full) (use assms in linarith)+
  moreover have "y mod 100 = 0 \<longleftrightarrow> 4 * c + d + 1 = 100"
    unfolding y100 mod_mult_self2 by (rule full) (use assms in linarith)+
  moreover have "y mod 400 = 0 \<longleftrightarrow> 100 * b + 4 * c + d + 1 = 400"
    unfolding y400 mod_mult_self2 by (rule full) (use assms in linarith)+
  ultimately have "y mod 4 = 0 \<longleftrightarrow> d = 3" "y mod 100 = 0 \<longleftrightarrow> c = 24 \<and> d = 3"
    "y mod 400 = 0 \<longleftrightarrow> b = 3 \<and> c = 24 \<and> d = 3"
    using assms(2-) by linarith+
  then show "is_leap y \<longleftrightarrow> d = 3 \<and> (c \<noteq> 24 \<or> b = 3)"
    by (auto simp: is_leap_def)
qed

lemma divide_digits:
  fixes k n q r :: int
  assumes "k = n * q + r" and "0 \<le> r" and "r < n"
  shows "k div n = q \<and> k mod n = r"
  using assms by (simp add: int_div_pos_eq int_mod_pos_eq)

lemma ymd_of_date_of:
  assumes "valid_ymd y m d"
  shows "ymd_of (date_of y m d) = (y, m, d)"
proof -
  obtain a b c e where y: "y - 1 = 400 * a + 100 * b + 4 * c + e"
    and bds: "0 \<le> b" "b \<le> 3" "0 \<le> c" "c \<le> 24" "0 \<le> e" "e \<le> 3"
    by (rule year_digits)
  note dby = days_before_year_digits [OF y bds]
  let ?r = "days_before_month y m all_months + (d - 1)"
  have m: "m \<in> set all_months" using assms by (rule valid_ymd_month)
  have d: "0 \<le> d - 1" "d - 1 < days_in_month y m" using assms by (auto simp: valid_ymd_def)
  have r0: "0 \<le> ?r" using d days_before_month_ge [of y m all_months] by linarith
  have r1: "?r < (if is_leap y then 366 else 365)" and r2: "?r = 365 \<Longrightarrow> m = 12 \<and> d = 31"
    using year_length [OF m d] by auto
  have N: "date_of y m d + epoch_ordinal = 146097 * a + 36524 * b + 1461 * c + 365 * e + ?r"
    by (simp add: date_of_def dby(1))
  show ?thesis
  proof (cases "?r = 365")
    case False
    then have rle: "?r \<le> 364" using r1 by (auto split: if_splits)
    have "36524 * b + 1461 * c + 365 * e + ?r < 146097" "1461 * c + 365 * e + ?r < 36524"
      "365 * e + ?r < 1461"
      using bds rle by linarith+
    then have "(date_of y m d + epoch_ordinal) div 146097 = a
        \<and> (date_of y m d + epoch_ordinal) mod 146097 = 36524 * b + 1461 * c + 365 * e + ?r"
      and "(36524 * b + 1461 * c + 365 * e + ?r) div 36524 = b
        \<and> (36524 * b + 1461 * c + 365 * e + ?r) mod 36524 = 1461 * c + 365 * e + ?r"
      and "(1461 * c + 365 * e + ?r) div 1461 = c \<and> (1461 * c + 365 * e + ?r) mod 1461 = 365 * e + ?r"
      and "(365 * e + ?r) div 365 = e \<and> (365 * e + ?r) mod 365 = ?r"
      unfolding N by (intro divide_digits; use bds r0 rle in linarith)+
    moreover have "a * 400 + b * 100 + c * 4 + e + 1 = y" using y by simp
    ultimately show ?thesis
      using bds split_month_inverse [OF m d] by (simp add: ymd_of_def Let_def)
  next
    case True
    then have e: "e = 3" "c \<noteq> 24 \<or> b = 3" using r1 dby(2) by (auto split: if_splits)
    have md: "m = 12" "d = 31" using r2 [OF True] by auto
    show ?thesis
    proof (cases "c = 24")
      case c: True
      with e have b: "b = 3" by simp
      have "(date_of y m d + epoch_ordinal) div 146097 = a
        \<and> (date_of y m d + epoch_ordinal) mod 146097 = 146096"
        unfolding N True by (intro divide_digits; use c b e(1) in linarith)
      then show ?thesis
        using y c b e(1) md by (simp add: ymd_of_def Let_def)
    next
      case c: False
      have "(date_of y m d + epoch_ordinal) div 146097 = a
        \<and> (date_of y m d + epoch_ordinal) mod 146097 = 36524 * b + 1461 * c + 1460"
        and "(36524 * b + 1461 * c + 1460) div 36524 = b
        \<and> (36524 * b + 1461 * c + 1460) mod 36524 = 1461 * c + 1460"
        and "(1461 * c + 1460) div 1461 = c \<and> (1461 * c + 1460) mod 1461 = (1460 :: int)"
        unfolding N True by (intro divide_digits; use bds c e(1) in linarith)+
      then show ?thesis
        using y bds e(1) md by (simp add: ymd_of_def Let_def)
    qed
  qed
qed


text \<open>Every day is a day of some month: walk from one day to the next.\<close>

lemma days_before_next_year: "days_before_year (y + 1) = days_before_year y + (if is_leap y then 366 else 365)"
proof -
  obtain a b c d where y: "y - 1 = 400 * a + 100 * b + 4 * c + d"
    and bds: "0 \<le> b" "b \<le> 3" "0 \<le> c" "c \<le> 24" "0 \<le> d" "d \<le> 3"
    by (rule year_digits)
  note this_year = days_before_year_digits [OF y bds]
  consider "d < 3" | "d = 3" "c < 24" | "d = 3" "c = 24" "b < 3" | "d = 3" "c = 24" "b = 3"
    using bds by linarith
  then show ?thesis
  proof cases
    case 1
    have "days_before_year (y + 1) = 146097 * a + 36524 * b + 1461 * c + 365 * (d + 1)"
      by (rule days_before_year_digits) (use y bds 1 in linarith)+
    then show ?thesis using 1 this_year by simp
  next
    case 2
    have "days_before_year (y + 1) = 146097 * a + 36524 * b + 1461 * (c + 1) + 365 * 0"
      by (rule days_before_year_digits) (use y bds 2 in simp_all)
    then show ?thesis using 2 this_year by simp
  next
    case 3
    have "days_before_year (y + 1) = 146097 * a + 36524 * (b + 1) + 1461 * 0 + 365 * 0"
      by (rule days_before_year_digits) (use y bds 3 in simp_all)
    then show ?thesis using 3 this_year by simp
  next
    case 4
    have "days_before_year (y + 1) = 146097 * (a + 1) + 36524 * 0 + 1461 * 0 + 365 * 0"
      by (rule days_before_year_digits) (use y bds 4 in simp_all)
    then show ?thesis using 4 this_year by simp
  qed
qed

definition next_month :: "int \<Rightarrow> int \<Rightarrow> int \<times> int" where
  "next_month y m = (if m = 12 then (y + 1, 1) else (y, m + 1))"

lemma date_of_next_month:
  assumes "1 \<le> m" and "m \<le> 12" and "next_month y m = (y', m')"
  shows "date_of y' m' 1 = date_of y m 1 + days_in_month y m"
proof -
  have "m \<in> set all_months" using assms by (intro valid_ymd_month [of y m 1]) (simp add: valid_ymd_def)
  then consider "m = 12" "y' = y + 1" "m' = 1"
    | "m \<in> {1, 2, 3, 4, 5, 6, 7, 8, 9, 10, 11}" "y' = y" "m' = m + 1"
    using assms(3) by (auto simp: all_months_def next_month_def split: if_splits)
  then show ?thesis
  proof cases
    case 1
    have "days_before_month y 12 all_months + 31 = (if is_leap y then 366 else 365)"
      by (simp add: all_months_def days_in_month_def)
    moreover have "days_before_month (y + 1) 1 all_months = 0" by (simp add: all_months_def)
    ultimately show ?thesis using 1 by (simp add: date_of_def days_before_next_year days_in_month_def)
  next
    case 2
    have "days_before_month y (m + 1) all_months = days_before_month y m all_months + days_in_month y m"
      using 2(1) by (auto simp: all_months_def)
    then show ?thesis using 2 by (simp add: date_of_def)
  qed
qed

lemma date_of_add: "date_of y m (d + k) = date_of y m d + k"
  by (simp add: date_of_def)

lemma next_month_valid: "1 \<le> m \<Longrightarrow> m \<le> 12 \<Longrightarrow> next_month y m = (y', m') \<Longrightarrow> 1 \<le> m' \<and> m' \<le> 12"
  by (auto simp: next_month_def split: if_splits)

lemma every_day_up:
  assumes "valid_ymd y m d"
  shows "\<exists>y' m' d'. valid_ymd y' m' d' \<and> date_of y' m' d' = date_of y m d + 1"
proof (cases "d < days_in_month y m")
  case True
  then show ?thesis using assms by (intro exI [of _ y] exI [of _ m] exI [of _ "d + 1"])
      (simp add: valid_ymd_def date_of_add)
next
  case False
  then have d: "d = days_in_month y m" using assms by (simp add: valid_ymd_def)
  obtain y' m' where nx: "next_month y m = (y', m')" by fastforce
  have "date_of y' m' 1 = date_of y m d + 1"
    using date_of_next_month [OF _ _ nx] date_of_add [of y m 1 "d - 1"] assms d
    by (simp add: valid_ymd_def)
  moreover have "valid_ymd y' m' 1"
    using next_month_valid [OF _ _ nx] assms by (simp add: valid_ymd_def)
  ultimately show ?thesis by blast
qed

lemma every_day_down:
  assumes "valid_ymd y m d"
  shows "\<exists>y' m' d'. valid_ymd y' m' d' \<and> date_of y' m' d' = date_of y m d - 1"
proof (cases "1 < d")
  case True
  then show ?thesis using assms by (intro exI [of _ y] exI [of _ m] exI [of _ "d - 1"])
      (simp add: valid_ymd_def date_of_def)
next
  case False
  then have d: "d = 1" using assms by (simp add: valid_ymd_def)
  define p where "p = (if m = 1 then (y - 1, 12) else (y, m - 1))"
  obtain y' m' where p': "p = (y', m')" by fastforce
  then have nx: "next_month y' m' = (y, m)" and r: "1 \<le> m'" "m' \<le> 12"
    using assms by (auto simp: p_def next_month_def valid_ymd_def split: if_splits)
  have "date_of y' m' (days_in_month y' m') = date_of y m d - 1"
    using date_of_next_month [OF r nx] date_of_add [of y' m' 1 "days_in_month y' m' - 1"] d by simp
  moreover have "valid_ymd y' m' (days_in_month y' m')"
    using r by (simp add: valid_ymd_def)
  ultimately show ?thesis by blast
qed

lemma every_day: "\<exists>y m d. valid_ymd y m d \<and> date_of y m d = x"
proof (induction x rule: int_induct [where k = 0])
  case base
  show ?case
    by (intro exI [of _ 1970] exI [of _ 1])
       (simp add: valid_ymd_def days_in_month_def date_of_def days_before_year_def epoch_ordinal_def all_months_def)
next
  case (step1 i)
  then show ?case using every_day_up by metis
next
  case (step2 i)
  then show ?case using every_day_down by metis
qed

lemma date_of_ymd_of:
  assumes "ymd_of x = (y, m, d)"
  shows "date_of y m d = x" and "valid_ymd y m d"
proof -
  obtain y' m' d' where "valid_ymd y' m' d'" "date_of y' m' d' = x" using every_day by blast
  then have "ymd_of x = (y', m', d')" using ymd_of_date_of by blast
  with assms \<open>valid_ymd y' m' d'\<close> \<open>date_of y' m' d' = x\<close>
  show "date_of y m d = x" "valid_ymd y m d" by auto
qed

section \<open>Instants\<close>

definition day_us :: int where
  "day_us = 86400000000"

definition days_us :: "int \<Rightarrow> int" where
  "days_us n = n * day_us"

definition date_part :: "int \<Rightarrow> int" where
  "date_part t = t div day_us"

definition time_part :: "int \<Rightarrow> int" where
  "time_part t = t mod day_us"

lemma date_time_parts [simp]:
  "date_part (x * day_us + time_part t) = x" "time_part (x * day_us + time_part t) = time_part t"
  by (simp_all add: date_part_def time_part_def day_us_def)

end
