(* ===== verification/Alerts.thy ===== *)
theory Alerts
  imports World
begin

text \<open>
  \<open>EmailService.send\<close> of \<open>app/modules/email/service.py\<close> and the operational alerts of
  \<open>app/core/alerts.py\<close> with their per-process throttle. The throttle table is an association
  list in dict order. The monotonic clock is the world's clock. The rendered text of a mail,
  the prose message of an alert and the Sentry mirror are not modelled: a mail is its
  recipient, template and context.
\<close>

section \<open>Mail\<close>

text \<open>The files under \<open>app/templates/emails\<close>.\<close>

definition email_templates :: "string list" where
  "email_templates = [''admin_alert'', ''admin_invite'', ''b2b_admin_alert'', ''b2b_contract_invite'',
    ''b2b_intelligence_held'', ''b2b_intelligence_ready'', ''b2b_subscription_active'',
    ''b2b_subscription_updated'', ''contact_message'', ''contact_message_confirmation'',
    ''downgrade_applied'', ''downgrade_scheduled'', ''festival_deadline'', ''grant_alert'',
    ''payment_confirmation'', ''payment_failed'', ''plan_upgraded'', ''processing_started'',
    ''report_ready'', ''reset_password'', ''subscription_downgraded'', ''subscription_recovered'',
    ''support_inquiry'', ''support_inquiry_confirmation'', ''verify_email'', ''welcome'']"

definition email_send_with :: "settings \<Rightarrow> string \<Rightarrow> string \<Rightarrow> pydict \<Rightarrow> (string \<times> string) list \<Rightarrow> unit comp" where
  "email_send_with st to template_name context attachments =
     (if template_name \<notin> set email_templates then throw (ValueError ''Unknown email template'')
      else if BREVO_API_KEY st = [] then ret ()
      else post_mail_with to template_name context attachments)"

definition email_send :: "settings \<Rightarrow> string \<Rightarrow> string \<Rightarrow> pydict \<Rightarrow> unit comp" where
  "email_send st to template_name context =
     (if template_name \<notin> set email_templates then throw (ValueError ''Unknown email template'')
      else if BREVO_API_KEY st = [] then ret ()
      else post_mail to template_name context)"

lemma email_send_eq: "email_send st to t c = email_send_with st to t c []"
  by (simp add: email_send_def email_send_with_def post_mail_def)

lemma keeps_email_send [keeps_intros, intro!]:
  "keeps (tables_inv P) (email_send st to t c)" "keeps (tables_inv P) (email_send_with st to t c atts)"
  unfolding email_send_def email_send_with_def by auto

text \<open>
  \<open>type(exc).__name__: exc\<close>; the driver's own text of a database error is left out. And a value
  inside an f-string, for the strings and \<open>None\<close> the throttle keys are built from.
\<close>

fun exc_text :: "exc \<Rightarrow> string" where
  "exc_text (ValueError s) = ''ValueError: '' @ s"
| "exc_text (TypeError s) = ''TypeError: '' @ s"
| "exc_text (KeyError s) = ''KeyError: '' @ s"
| "exc_text (StripeError s) = ''StripeError: '' @ s"
| "exc_text (HTTPException _ s) = ''HTTPException: '' @ s"
| "exc_text DBError = ''SQLAlchemyError: ''"
| "exc_text _ = ''Exception: ''"

fun key_text :: "pyval \<Rightarrow> string" where
  "key_text PNone = ''None''"
| "key_text v = text_of v"

section \<open>Throttle\<close>

definition MAX_KEYS :: nat where
  "MAX_KEYS = 512"

definition microseconds :: "int \<Rightarrow> int" where
  "microseconds s = s * 1000000"

definition expired :: "int \<Rightarrow> int \<Rightarrow> throttle_entry \<Rightarrow> bool" where
  "expired now window e \<longleftrightarrow> now - window_started e \<ge> microseconds window"

text \<open>\<open>min(entries, key=...)\<close>: the first key with the least start of window.\<close>

fun oldest :: "(string \<times> throttle_entry) list \<Rightarrow> string option" where
  "oldest [] = None"
| "oldest ((k, e) # es) =
     (case oldest es of None \<Rightarrow> Some k
      | Some k' \<Rightarrow> (case map_of es k' of None \<Rightarrow> Some k
          | Some e' \<Rightarrow> if window_started e \<le> window_started e' then Some k else Some k'))"

definition evict_oldest :: "int \<Rightarrow> int \<Rightarrow> (string \<times> throttle_entry) list \<Rightarrow> (string \<times> throttle_entry) list" where
  "evict_oldest now window es =
     (if list_ex (\<lambda>(_, e). expired now window e) es
      then filter (\<lambda>(_, e). \<not> expired now window e) es
      else case oldest es of None \<Rightarrow> es | Some k \<Rightarrow> filter (\<lambda>(k', _). k' \<noteq> k) es)"

definition throttle_check :: "string \<Rightarrow> int \<Rightarrow> (bool \<times> nat) comp" where
  "throttle_check key window w =
     (let now = clock w; es = throttle w; entry = map_of es key;
          fresh = \<lparr>window_started = now, suppressed = 0\<rparr> in
      case entry of
        None \<Rightarrow>
          (let es = (if length es \<ge> MAX_KEYS then evict_oldest now window es else es)
           in (Inr (True, 0), w\<lparr>throttle := AList.update key fresh es\<rparr>))
      | Some e \<Rightarrow>
          if expired now window e
          then (Inr (True, suppressed e), w\<lparr>throttle := AList.update key fresh es\<rparr>)
          else (let e' = e\<lparr>suppressed := Suc (suppressed e)\<rparr>
                in (Inr (False, suppressed e'), w\<lparr>throttle := AList.update key e' es\<rparr>)))"

definition reset_throttle :: "unit comp" where
  "reset_throttle = modify (\<lambda>w. w\<lparr>throttle := []\<rparr>)"

section \<open>Alerts\<close>

definition recipient_of :: "settings \<Rightarrow> string" where
  "recipient_of st = strip
     (if ADMIN_ALERT_EMAIL st \<noteq> [] then ADMIN_ALERT_EMAIL st
      else if B2B_ADMIN_ALERT_EMAIL st \<noteq> [] then B2B_ADMIN_ALERT_EMAIL st
      else CONTACT_EMAIL st)"

definition SEVERITY_LABELS :: "(string \<times> string) list" where
  "SEVERITY_LABELS = [(''critical'', ''Critical''), (''error'', ''Error''), (''warning'', ''Warning'')]"

record alert =
  a_category :: string
  a_heading :: string
  a_details :: pydict
  a_key :: string
  a_window :: "int option"
  a_severity :: string

text \<open>
  With the recipient and the template given by the caller; an empty recipient is the default one.
\<close>

definition send_alert_to :: "string \<Rightarrow> string \<Rightarrow> alert \<Rightarrow> settings option \<Rightarrow> bool comp" where
  "send_alert_to recipient tmpl a settings =
     tryM
      (bindM (case settings of Some st \<Rightarrow> ret st | None \<Rightarrow> gets env_settings) (\<lambda>st.
       let key = (if a_key a \<noteq> [] then a_key a else a_category a);
           window = (case a_window a of Some n \<Rightarrow> n | None \<Rightarrow> ADMIN_ALERT_THROTTLE_SECONDS st) in
       bindM (throttle_check key window) (\<lambda>(should_send, suppressed).
       let recipient = (if recipient \<noteq> [] then recipient else recipient_of st) in
       if \<not> should_send then ret False
       else if recipient = [] then ret False
       else
        (let body = (if suppressed \<noteq> 0
                     then a_details a @ [(''Suppressed since last alert'', PInt (int suppressed))]
                     else a_details a) in
         thenM (email_send st recipient tmpl
           [(''heading'', PStr (a_heading a)), (''details'', PDict body),
            (''severity'', PStr (case map_of SEVERITY_LABELS (a_severity a) of
               Some l \<Rightarrow> l | None \<Rightarrow> ''Error'')),
            (''category'', PStr (a_category a))])
         (ret True)))))
      (\<lambda>_. ret False)"

definition send_admin_alert :: "alert \<Rightarrow> settings option \<Rightarrow> bool comp" where
  "send_admin_alert a settings = send_alert_to [] ''admin_alert'' a settings"

lemma keeps_throttle_check [keeps_intros, intro!]: "keeps (tables_inv P) (throttle_check k n)"
  by (auto simp: keeps_def tables_inv_def throttle_check_def Let_def split: option.splits)

lemma keeps_send_admin_alert [keeps_intros, intro!]:
  "keeps (tables_inv P) (send_alert_to recipient tmpl a st)" "keeps (tables_inv P) (send_admin_alert a st)"
  unfolding send_admin_alert_def send_alert_to_def by auto

text \<open>Alerting never raises, whatever fails.\<close>

lemma send_admin_alert_returns:
  "\<exists>b w'. send_alert_to recipient tmpl a st w = (Inr b, w')" "\<exists>b w'. send_admin_alert a st w = (Inr b, w')"
  unfolding send_admin_alert_def send_alert_to_def tryM_def by (auto simp: ret_def split: prod.splits sum.splits)

section \<open>The throttle's invariant\<close>

definition throttle_ok :: "world \<Rightarrow> bool" where
  "throttle_ok w \<longleftrightarrow> distinct (map fst (throttle w)) \<and> length (throttle w) \<le> MAX_KEYS"

lemma length_alist_update:
  "length (AList.update k v es) = (if k \<in> fst ` set es then length es else Suc (length es))"
  by (induction es) auto

lemma oldest_in: "oldest es = Some k \<Longrightarrow> k \<in> fst ` set es"
  by (induction es arbitrary: k) (auto split: option.splits if_splits)

lemma oldest_none: "oldest es = None \<Longrightarrow> es = []"
  by (cases es) (auto split: option.splits if_splits)

lemma evict_shrinks: "es \<noteq> [] \<Longrightarrow> length (evict_oldest now n es) < length es"
proof -
  assume ne: "es \<noteq> []"
  show ?thesis
  proof (cases "list_ex (\<lambda>(_, e). expired now n e) es")
    case True
    then obtain x where "x \<in> set es" "\<not> (\<lambda>(_, e). \<not> expired now n e) x"
      by (auto simp: list_ex_iff)
    then show ?thesis
      using True by (simp add: evict_oldest_def length_filter_less)
  next
    case False
    from ne obtain k where k: "oldest es = Some k" using oldest_none by (cases "oldest es") auto
    then obtain e where "(k, e) \<in> set es" using oldest_in by fastforce
    then show ?thesis
      using False k length_filter_less [of "(k, e)" es "\<lambda>(k', _). k' \<noteq> k"]
      by (simp add: evict_oldest_def)
  qed
qed

lemma evict_distinct: "distinct (map fst es) \<Longrightarrow> distinct (map fst (evict_oldest now n es))"
  by (auto simp: evict_oldest_def distinct_map_filter split: option.splits)

lemma evict_subset: "set (evict_oldest now n es) \<subseteq> set es"
  by (auto simp: evict_oldest_def split: option.splits)

lemma throttle_check_ok: "throttle_ok w \<Longrightarrow> throttle_ok (snd (throttle_check k n w))"
proof -
  assume ok: "throttle_ok w"
  show ?thesis
  proof (cases "map_of (throttle w) k")
    case None
    then have new: "k \<notin> fst ` set (throttle w)" by (simp add: map_of_eq_None_iff)
    let ?es = "if length (throttle w) \<ge> MAX_KEYS then evict_oldest (clock w) n (throttle w) else throttle w"
    have "throttle w \<noteq> []" if "length (throttle w) \<ge> MAX_KEYS"
      using that by (auto simp: MAX_KEYS_def)
    then have short: "length ?es < MAX_KEYS"
      using ok evict_shrinks [of "throttle w" "clock w" n] by (auto simp: throttle_ok_def)
    have "distinct (map fst ?es)" "k \<notin> fst ` set ?es"
      using ok new evict_subset [of "clock w" n "throttle w"]
      by (auto simp: throttle_ok_def evict_distinct)
    note this short
    then show ?thesis
      by (auto simp: throttle_check_def None Let_def throttle_ok_def length_alist_update distinct_update
          simp del: update.simps)
  next
    case (Some e)
    then have "k \<in> fst ` set (throttle w)" by (force dest: map_of_SomeD)
    then show ?thesis using ok
      by (auto simp: throttle_check_def Some Let_def throttle_ok_def length_alist_update distinct_update)
  qed
qed

lemma keeps_throttle_ok: "keeps throttle_ok (throttle_check k n)"
  by (simp add: keeps_def throttle_check_ok)

section \<open>What one key sends\<close>

lemma throttle_check_entry:
  "map_of (throttle (snd (throttle_check k n w))) k \<noteq> None"
  by (auto simp: throttle_check_def Let_def update_conv' split: option.splits)

lemma map_of_update_same [simp]: "map_of (AList.update k v es) k = Some v"
  by (simp add: update_conv')

lemma throttle_check_in_window:
  assumes "map_of (throttle w) k = Some e" and "\<not> expired (clock w) n e"
  shows "throttle_check k n w
    = (Inr (False, Suc (suppressed e)),
       w\<lparr>throttle := AList.update k (e\<lparr>suppressed := Suc (suppressed e)\<rparr>) (throttle w)\<rparr>)"
  using assms by (simp add: throttle_check_def Let_def)

text \<open>
  A sequence of checks of one key at given times: what each returned.
\<close>

fun check_at :: "string \<Rightarrow> int \<Rightarrow> int list \<Rightarrow> world \<Rightarrow> (bool \<times> nat) list \<times> world" where
  "check_at k n [] w = ([], w)"
| "check_at k n (t # ts) w =
     (case throttle_check k n (w\<lparr>clock := t\<rparr>) of
        (Inr r, w') \<Rightarrow> (case check_at k n ts w' of (rs, w'') \<Rightarrow> (r # rs, w''))
      | (Inl _, w') \<Rightarrow> ([], w'))"

lemma check_at_in_window:
  assumes "map_of (throttle w) k = Some e"
    and "\<forall>t \<in> set ts. t - window_started e < microseconds n"
  shows "map_of (throttle (snd (check_at k n ts w))) k
      = Some (e\<lparr>suppressed := suppressed e + length ts\<rparr>)
    \<and> list_all (\<lambda>(sent, _). \<not> sent) (fst (check_at k n ts w))"
  using assms
proof (induction ts arbitrary: w e)
  case Nil
  then show ?case by simp
next
  case (Cons t ts)
  let ?e = "e\<lparr>suppressed := Suc (suppressed e)\<rparr>"
  let ?w = "w\<lparr>clock := t, throttle := AList.update k ?e (throttle w)\<rparr>"
  have "throttle_check k n (w\<lparr>clock := t\<rparr>) = (Inr (False, Suc (suppressed e)), ?w)"
    using throttle_check_in_window [of "w\<lparr>clock := t\<rparr>" k e n] Cons.prems
    by (simp add: expired_def)
  moreover have "map_of (throttle ?w) k = Some ?e" by simp
  moreover have "\<forall>t \<in> set ts. t - window_started ?e < microseconds n" using Cons.prems by simp
  ultimately show ?case
    using Cons.IH [of ?w ?e] by (auto split: prod.splits)
qed

end
