(* ===== verification/Plan_Catalog.thy ===== *)
theory Plan_Catalog
  imports Settings
begin

text \<open>
  \<open>app/models/enums.py\<close> and \<open>app/modules/payments/plan_catalog.py\<close>: plans, their limits and
  prices, the map from Stripe price identifiers to plans, and the direction of a plan
  change. Plans travel through the code as strings, some of them read from JSON, so they
  are \<open>pyval\<close> here; \<open>PlanType\<close> is the enumeration that names the valid ones.
\<close>

section \<open>Enumerations\<close>

datatype PlanType = FREE | SINGLE | PROFESSIONAL | PRODUCER | STUDIO

fun plan_value :: "PlanType \<Rightarrow> string" where
  "plan_value FREE = ''free''"
| "plan_value SINGLE = ''single''"
| "plan_value PROFESSIONAL = ''professional''"
| "plan_value PRODUCER = ''producer''"
| "plan_value STUDIO = ''studio''"

definition normalize_plan :: "pyval \<Rightarrow> pyval" where
  "normalize_plan plan = (if plan = PStr ''single'' then PStr ''professional'' else plan)"

lemma normalize_plan_idem [simp]: "normalize_plan (normalize_plan p) = normalize_plan p"
  by (simp add: normalize_plan_def)

lemma truthy_normalize_plan [simp]: "truthy (normalize_plan p) = truthy p"
  by (auto simp: normalize_plan_def)

section \<open>Tables\<close>

definition table_get :: "(string \<times> 'a) list \<Rightarrow> pyval \<Rightarrow> 'a \<Rightarrow> 'a" where
  "table_get tbl k d =
     (case k of PStr s \<Rightarrow> (case map_of tbl s of None \<Rightarrow> d | Some v \<Rightarrow> v) | _ \<Rightarrow> d)"

definition PLAN_HIERARCHY :: "(string \<times> int) list" where
  "PLAN_HIERARCHY =
    [(''free'', 0), (''single'', 1), (''professional'', 1), (''producer'', 2), (''studio'', 3)]"

definition PLAN_REPORT_LIMITS :: "(string \<times> int) list" where
  "PLAN_REPORT_LIMITS = [(''free'', 1), (''professional'', 1), (''producer'', 3), (''studio'', 10)]"

definition PLAN_LIST_PRICE_USD_CENTS :: "(string \<times> int) list" where
  "PLAN_LIST_PRICE_USD_CENTS =
    [(''free'', 0), (''professional'', 6100), (''producer'', 14900), (''studio'', 29900)]"

definition list_price_usd_cents :: "pyval \<Rightarrow> int" where
  "list_price_usd_cents plan_type =
     table_get PLAN_LIST_PRICE_USD_CENTS (normalize_plan (py_or plan_type (PStr ''free''))) 0"

section \<open>Prices\<close>

text \<open>
  The dict literal of \<open>build_price_to_plan_map\<close>. Two settings that hold the same
  identifier are one key, which keeps the plan written last; empty identifiers are dropped.
\<close>

definition raw_price_map :: "settings \<Rightarrow> (string \<times> string) list" where
  "raw_price_map st = map (\<lambda>(attr, plan). (STRIPE_PRICE st attr, plan_value plan)) [
    (''STRIPE_PRICE_SINGLE_USD'', PROFESSIONAL),
    (''STRIPE_PRICE_SINGLE_GBP'', PROFESSIONAL),
    (''STRIPE_PRICE_PROFESSIONAL_USD'', PROFESSIONAL),
    (''STRIPE_PRICE_PROFESSIONAL_GBP'', PROFESSIONAL),
    (''STRIPE_PRICE_PROFESSIONAL_ANNUAL_GBP'', PROFESSIONAL),
    (''STRIPE_PRICE_PROFESSIONAL_ANNUAL_USD'', PROFESSIONAL),
    (''STRIPE_PRICE_PRODUCER_USD'', PRODUCER),
    (''STRIPE_PRICE_PRODUCER_GBP'', PRODUCER),
    (''STRIPE_PRICE_PRODUCER_ANNUAL_GBP'', PRODUCER),
    (''STRIPE_PRICE_PRODUCER_ANNUAL_USD'', PRODUCER),
    (''STRIPE_PRICE_STUDIO_USD'', STUDIO),
    (''STRIPE_PRICE_STUDIO_GBP'', STUDIO),
    (''STRIPE_PRICE_STUDIO_ANNUAL_GBP'', STUDIO),
    (''STRIPE_PRICE_STUDIO_ANNUAL_USD'', STUDIO)]"

definition build_price_to_plan_map :: "settings \<Rightarrow> string \<Rightarrow> string option" where
  "build_price_to_plan_map st = map_of (rev (filter (\<lambda>(price_id, _). price_id \<noteq> []) (raw_price_map st)))"

text \<open>\<open>price_map.get(v)\<close> for a value read from JSON.\<close>

definition plan_of_price :: "settings \<Rightarrow> pyval \<Rightarrow> pyval" where
  "plan_of_price st v =
     (case v of PStr s \<Rightarrow> (case build_price_to_plan_map st s of None \<Rightarrow> PNone | Some p \<Rightarrow> PStr p)
      | _ \<Rightarrow> PNone)"

definition items_of :: "pyval \<Rightarrow> pyval list" where
  "items_of subscription = list_of (dget (dget subscription ''items'') ''data'')"

definition resolve_plan_from_subscription :: "pyval \<Rightarrow> settings \<Rightarrow> pyval" where
  "resolve_plan_from_subscription subscription st =
     (case items_of subscription of
        [] \<Rightarrow> PNone
      | item # _ \<Rightarrow>
          (let price_id = dget (dget item ''price'') ''id'' in
           if \<not> truthy price_id then PNone
           else (let plan = plan_of_price st price_id in
                 if truthy plan then normalize_plan plan else PNone)))"

section \<open>Direction of a change\<close>

definition plan_level :: "pyval \<Rightarrow> int" where
  "plan_level plan = table_get PLAN_HIERARCHY (normalize_plan plan) 0"

definition classify_change :: "pyval \<Rightarrow> pyval \<Rightarrow> string" where
  "classify_change current_plan target_plan =
     (let current = plan_level current_plan; target = plan_level target_plan in
      if target > current then ''upgrade'' else if target < current then ''downgrade'' else ''same'')"

section \<open>Facts about the catalogue\<close>

lemma plan_of_price_cases:
  "plan_of_price st v \<in> {PNone, PStr ''professional'', PStr ''producer'', PStr ''studio''}"
proof (cases "\<exists>s p. v = PStr s \<and> build_price_to_plan_map st s = Some p")
  case True
  then obtain s p where "v = PStr s" and m: "build_price_to_plan_map st s = Some p" by blast
  from m have "(s, p) \<in> set (raw_price_map st)"
    unfolding build_price_to_plan_map_def by (auto dest: map_of_SomeD)
  then have "p \<in> {''professional'', ''producer'', ''studio''}"
    by (auto simp: raw_price_map_def)
  with \<open>v = PStr s\<close> m show ?thesis by (auto simp: plan_of_price_def)
next
  case False
  then show ?thesis by (auto simp: plan_of_price_def split: pyval.splits option.splits)
qed

lemma resolve_plan_cases:
  "resolve_plan_from_subscription sub st
     \<in> {PNone, PStr ''professional'', PStr ''producer'', PStr ''studio''}"
  using plan_of_price_cases [of st]
  by (auto simp: resolve_plan_from_subscription_def Let_def normalize_plan_def split: list.splits)

lemma plan_of_price_empty: "plan_of_price st (PStr []) = PNone"
proof -
  have "build_price_to_plan_map st [] = None"
    by (auto simp: build_price_to_plan_map_def map_of_eq_None_iff)
  then show ?thesis by (simp add: plan_of_price_def)
qed

lemma plan_of_price_truthy: "truthy (plan_of_price st v) \<Longrightarrow> truthy v"
  using plan_of_price_empty [of st] by (cases v) (auto simp: plan_of_price_def)

lemma report_limit_known:
  "p \<in> {PStr ''professional'', PStr ''producer'', PStr ''studio''}
    \<Longrightarrow> 1 \<le> table_get PLAN_REPORT_LIMITS p 3"
  by (auto simp: table_get_def PLAN_REPORT_LIMITS_def)

section \<open>Ranked plans\<close>

text \<open>
  Two parts of the code compare plans by rank: the direction of a change here, and the gate
  \<open>RequirePlan\<close>. What both rely on is a rank that does not see the legacy alias.
\<close>

locale ranked_plans =
  fixes rank :: "pyval \<Rightarrow> int"
  assumes rank_alias: "rank (normalize_plan p) = rank p"
    and rank_free: "rank (PStr ''free'') = 0"
    and rank_nonneg: "0 \<le> rank p"
begin

lemma free_least: "rank (PStr ''free'') \<le> rank p"
  using rank_free rank_nonneg by simp

lemma alias_eq: "rank (PStr ''single'') = rank (PStr ''professional'')"
  using rank_alias [of "PStr ''single''"] by (simp add: normalize_plan_def)

end

lemma table_get_nonneg: "list_all (\<lambda>(_, v). 0 \<le> v) tbl \<Longrightarrow> (0 :: int) \<le> table_get tbl k 0"
proof -
  assume a: "list_all (\<lambda>(_, v). 0 \<le> v) tbl"
  have "0 \<le> v" if "map_of tbl s = Some v" for s v
    using a map_of_SomeD [OF that] by (auto simp: list_all_iff)
  then show ?thesis by (auto simp: table_get_def split: pyval.splits option.splits)
qed

interpretation catalog_rank: ranked_plans plan_level
proof
  show "plan_level (normalize_plan p) = plan_level p" for p
    by (simp add: plan_level_def)
  show "plan_level (PStr ''free'') = 0"
    by (simp add: plan_level_def normalize_plan_def table_get_def PLAN_HIERARCHY_def)
  show "0 \<le> plan_level p" for p
    unfolding plan_level_def by (rule table_get_nonneg) (simp add: PLAN_HIERARCHY_def)
qed

end
