(* ===== verification/B2B_Subscriptions.thy ===== *)
theory B2B_Subscriptions
  imports Database Calendar Alerts Plan_Catalog
begin

text \<open>
  The product catalogue, the month helpers and the subscription operations of
  \<open>B2BService\<close> in \<open>app/modules/b2b/service.py\<close>. The service holds its settings, the first
  argument of its operations. Requests, aggregation and PDF delivery are not in this theory.
\<close>

section \<open>Months\<close>

definition month_start :: "int \<Rightarrow> int" where
  "month_start date = (case ymd_of date of (y, m, d) \<Rightarrow> date_of y m 1)"

definition month_end :: "int \<Rightarrow> int" where
  "month_end date = (case ymd_of (month_start date) of (y, m, d) \<Rightarrow> date_of y m (days_in_month y m))"

definition add_months :: "int \<Rightarrow> int \<Rightarrow> int" where
  "add_months t months =
     (case ymd_of (date_part t) of (y, m, d) \<Rightarrow>
       let month_index = m - 1 + months;
           year = y + month_index div 12;
           month = month_index mod 12 + 1;
           day = min d (days_in_month year month)
       in date_of year month day * day_us + time_part t)"

definition interval_months :: "pyval \<Rightarrow> int" where
  "interval_months frequency = (if frequency = PStr ''quarterly'' then 3 else 1)"

definition as_iso :: "pyval \<Rightarrow> pyval" where
  "as_iso v = v"

section \<open>Products\<close>

definition B2B_PRODUCTS :: "(string \<times> pydict) list" where
  "B2B_PRODUCTS = [
    (''camera_equipment'', [
      (''title'', PStr ''Camera & Equipment Demand Intelligence''),
      (''audience'', PStr ''Equipment Rental & Camera Houses''),
      (''description'', PStr ''Aggregated production volume, territory, format, genre, and camera equipment demand signals from anonymised platform metadata.''),
      (''features'', PList [
        PStr ''Territory-specific production volume trends'',
        PStr ''Camera and equipment demand mix'',
        PStr ''Production type distribution'',
        PStr ''Genre-based equipment implications'',
        PStr ''Seasonal trend analysis'']),
      (''price_gbp_cents'', PInt 60000),
      (''price_usd_cents'', PNone),
      (''self_service'', PBool False),
      (''pricing_status'', PStr ''waitlist''),
      (''price_attrs'', PDict [(''gbp'', PStr ''STRIPE_PRICE_B2B_CAMERA_EQUIPMENT_GBP''), (''usd'', PStr ''STRIPE_PRICE_B2B_CAMERA_EQUIPMENT_USD'')])]),
    (''production_services'', [
      (''title'', PStr ''Production Services Intelligence''),
      (''audience'', PStr ''Payroll, Accounting, Insurance & Logistics''),
      (''description'', PStr ''Crew size, cast demand, production scale, format, and budget range analytics for production service planning.''),
      (''features'', PList [
        PStr ''Crew size trend analytics by territory'',
        PStr ''Cast demand analytics'',
        PStr ''Production scale distribution reports'',
        PStr ''Total headcount trend analysis'',
        PStr ''Budget range breakdowns'']),
      (''price_gbp_cents'', PInt 75000),
      (''price_usd_cents'', PNone),
      (''self_service'', PBool False),
      (''pricing_status'', PStr ''waitlist''),
      (''price_attrs'', PDict [(''gbp'', PStr ''STRIPE_PRICE_B2B_PRODUCTION_SERVICES_GBP''), (''usd'', PStr ''STRIPE_PRICE_B2B_PRODUCTION_SERVICES_USD'')])]),
    (''crew_casting'', [
      (''title'', PStr ''Crew & Casting Demand Intelligence''),
      (''audience'', PStr ''Casting Agencies & Crew Agencies''),
      (''description'', PStr ''Aggregated genre, scale, territory, and cast-volume signals for crew and casting demand planning.''),
      (''features'', PList [
        PStr ''Genre distribution by territory and budget'',
        PStr ''Principal and supporting cast volume trends'',
        PStr ''Extras demand by territory'',
        PStr ''Submission timing clusters'',
        PStr ''Budget tier breakdown by format'']),
      (''price_gbp_cents'', PInt 30000),
      (''price_usd_cents'', PNone),
      (''self_service'', PBool False),
      (''pricing_status'', PStr ''waitlist''),
      (''price_attrs'', PDict [(''gbp'', PStr ''STRIPE_PRICE_B2B_CREW_CASTING_GBP''), (''usd'', PStr ''STRIPE_PRICE_B2B_CREW_CASTING_USD'')])]),
    (''production_trend'', [
      (''title'', PStr ''Strategic Production Trend Intelligence''),
      (''audience'', PStr ''Studios, Streamers, Agencies & Industry Bodies''),
      (''description'', PStr ''Strategic trend signals across territory, genre, budget, and format from anonymised production planning metadata.''),
      (''features'', PList [
        PStr ''Territory demand distribution'',
        PStr ''Budget range movement by format'',
        PStr ''Genre and format trend signals'',
        PStr ''Monthly production planning volume'',
        PStr ''Emerging territory demand signals'']),
      (''price_gbp_cents'', PInt 160),
      (''price_usd_cents'', PInt 200),
      (''self_service'', PBool False),
      (''pricing_status'', PStr ''coming_soon''),
      (''price_attrs'', PDict [(''gbp'', PStr ''STRIPE_PRICE_B2B_PRODUCTION_TREND_GBP''), (''usd'', PStr ''STRIPE_PRICE_B2B_PRODUCTION_TREND_USD'')])]),
    (''enterprise'', [
      (''title'', PStr ''Enterprise Slate Intelligence''),
      (''audience'', PStr ''Enterprise & Manual Contract Clients''),
      (''description'', PStr ''Custom production intelligence agreements with admin-managed access, recipients, cadence, and reporting scope.''),
      (''features'', PList [
        PStr ''Custom commercial contract'',
        PStr ''Admin-managed delivery cadence'',
        PStr ''Enterprise request history'',
        PStr ''Custom metrics review'']),
      (''price_gbp_cents'', PNone),
      (''price_usd_cents'', PNone),
      (''self_service'', PBool False),
      (''pricing_status'', PStr ''custom_contract''),
      (''price_attrs'', PDict [])])]"

definition b2b_product :: "pyval \<Rightarrow> pydict comp" where
  "b2b_product product_type =
     (case map_of B2B_PRODUCTS (text_of product_type) of
        None \<Rightarrow> throw (ValueError (''Unknown B2B product: '' @ text_of product_type))
      | Some p \<Rightarrow> ret p)"

definition product_payload :: "settings \<Rightarrow> string \<Rightarrow> pydict comp" where
  "product_payload st product_type =
     bindM (b2b_product (PStr product_type)) (\<lambda>product.
     ret [(''product_type'', PStr product_type),
          (''title'', lookup product ''title''),
          (''audience'', lookup product ''audience''),
          (''description'', lookup product ''description''),
          (''features'', lookup product ''features''),
          (''price_gbp_cents'', lookup product ''price_gbp_cents''),
          (''price_usd_cents'', lookup product ''price_usd_cents''),
          (''self_service'', PBool (truthy (lookup product ''self_service''))),
          (''pricing_status'', dget_or (PDict product) ''pricing_status'' (PStr ''listed'')),
          (''stripe_price_configured'',
             PDict (map (\<lambda>(currency, attr). (currency, PBool (getattr_price st (text_of attr) \<noteq> [])))
                      (dict_of (lookup product ''price_attrs''))))])"

definition list_products :: "settings \<Rightarrow> pydict list comp" where
  "list_products st = mapM (product_payload st) (map fst B2B_PRODUCTS)"

definition get_price_id :: "settings \<Rightarrow> string \<Rightarrow> string \<Rightarrow> pyval comp" where
  "get_price_id st product_type currency =
     bindM (b2b_product (PStr product_type)) (\<lambda>product.
     let attr = dget (lookup product ''price_attrs'') (lower currency) in
     if \<not> truthy attr then ret PNone
     else ret (py_or (PStr (getattr_price st (text_of attr))) PNone))"

section \<open>Values read from a request or from Stripe\<close>

text \<open>\<open>str(value).strip().lower() or None\<close>.\<close>

definition clean_email :: "pyval \<Rightarrow> pyval" where
  "clean_email v =
     (if v = PNone then PNone
      else (let email = lower (strip (text_of v)) in if email = [] then PNone else PStr email))"

definition stripe_timestamp_to_datetime :: "pyval \<Rightarrow> pyval" where
  "stripe_timestamp_to_datetime v =
     (if \<not> truthy v then PNone
      else (case v of PInt s \<Rightarrow> PTime (s * 1000000) | PBool _ \<Rightarrow> PTime 1000000
        | PStr s \<Rightarrow> (case parse_int s of Some n \<Rightarrow> PTime (n * 1000000) | None \<Rightarrow> PNone)
        | _ \<Rightarrow> PNone))"

text \<open>\<open>datetime.fromtimestamp(value, tz=timezone.utc)\<close>.\<close>

definition timestamp_value :: "pyval \<Rightarrow> exc + pyval" where
  "timestamp_value v = (case v of PInt s \<Rightarrow> Inr (PTime (s * 1000000)) | PBool b \<Rightarrow> Inr (PTime (if b then 1000000 else 0))
     | _ \<Rightarrow> Inl (TypeError ''fromtimestamp''))"

definition from_timestamp :: "pyval \<Rightarrow> pyval comp" where
  "from_timestamp v = liftE (timestamp_value v)"

lemma from_timestamp_Inr:
  "from_timestamp v w = (Inr x, w') \<longleftrightarrow> timestamp_value v = Inr x \<and> w' = w"
  by (auto simp: from_timestamp_def world_simps)

text \<open>The billing period of a Stripe subscription, on the object or on its first item.\<close>

definition stripe_period :: "pyval \<Rightarrow> pyval \<times> pyval" where
  "stripe_period subscription =
     (let period_start = dget subscription ''current_period_start'';
          period_end = dget subscription ''current_period_end'' in
      if \<not> truthy period_start \<or> \<not> truthy period_end then
        (case items_of subscription of
           [] \<Rightarrow> (period_start, period_end)
         | item # _ \<Rightarrow> (py_or period_start (dget item ''current_period_start''),
                        py_or period_end (dget item ''current_period_end'')))
      else (period_start, period_end))"

section \<open>Reading\<close>

definition b2b_get_user :: "pyval \<Rightarrow> row option comp" where
  "b2b_get_user user_id =
     (if \<not> truthy user_id then ret None
      else bindM (fetch (tq_limit 1 (tq_eq ''id'' user_id (tq_select ''id,email,company'' (tq ''users''))))) (\<lambda>rows.
      ret (first_row rows)))"

definition list_user_subscriptions :: "pyval \<Rightarrow> row list comp" where
  "list_user_subscriptions user_id =
     fetch (tq_order ''created_at'' True (tq_eq ''user_id'' user_id (tq_select ''*'' (tq ''b2b_subscriptions''))))"

definition active_subscription :: "pyval \<Rightarrow> pyval \<Rightarrow> row option comp" where
  "active_subscription user_id product_type =
     bindM (fetch (tq_limit 1 (tq_in ''status'' [PStr ''active'', PStr ''trialing'']
       (tq_eq ''product_type'' product_type (tq_eq ''user_id'' user_id
         (tq_select ''*'' (tq ''b2b_subscriptions'')))))))
     (\<lambda>rows. ret (first_row rows))"

definition get_subscription :: "pyval \<Rightarrow> row option comp" where
  "get_subscription subscription_id =
     bindM (fetch (tq_limit 1 (tq_eq ''id'' subscription_id (tq_select ''*'' (tq ''b2b_subscriptions'')))))
     (\<lambda>rows. ret (first_row rows))"

section \<open>Notices\<close>

definition rstrip_slash :: "string \<Rightarrow> string" where
  "rstrip_slash s = rev (dropWhile (\<lambda>c. c = CHR ''/'') (rev s))"

definition notify_subscription_active :: "settings \<Rightarrow> row \<Rightarrow> unit comp" where
  "notify_subscription_active st subscription =
     bindM (b2b_get_user (subscription ''user_id'')) (\<lambda>user.
     case user of
       None \<Rightarrow> ret ()
     | Some u \<Rightarrow>
       if \<not> truthy (u ''email'') then ret ()
       else bindM (b2b_product (subscription ''product_type'')) (\<lambda>product.
         email_send st (text_of (u ''email'')) ''b2b_subscription_active''
          [(''product_title'', lookup product ''title''),
           (''delivery_frequency'', subscription ''delivery_frequency''),
           (''b2b_url'', PStr (rstrip_slash (FRONTEND_URL st) @ ''/business-intelligence''))]))"

fun join_with :: "string \<Rightarrow> string list \<Rightarrow> string" where
  "join_with sep [] = []"
| "join_with sep [x] = x"
| "join_with sep (x # xs) = x @ sep @ join_with sep xs"

definition notify_subscription_updated :: "settings \<Rightarrow> row \<Rightarrow> string list \<Rightarrow> unit comp" where
  "notify_subscription_updated st subscription changed_fields =
     bindM (b2b_get_user (subscription ''user_id'')) (\<lambda>user.
     case user of
       None \<Rightarrow> ret ()
     | Some u \<Rightarrow>
       if \<not> truthy (u ''email'') then ret ()
       else bindM (b2b_product (subscription ''product_type'')) (\<lambda>product.
         email_send st (text_of (u ''email'')) ''b2b_subscription_updated''
          [(''product_title'', lookup product ''title''),
           (''changed_fields'', PStr (join_with '', '' changed_fields)),
           (''delivery_frequency'', subscription ''delivery_frequency''),
           (''extra_recipient_email'', py_or (subscription ''extra_recipient_email'') (PStr ''None'')),
           (''next_delivery_at'', py_or (as_iso (subscription ''next_delivery_at'')) (PStr ''Not scheduled''))]))"

section \<open>Contracts made by hand\<close>

record manual_subscription =
  ms_user_id :: pyval
  ms_product_type :: pyval
  ms_status :: pyval
  ms_delivery_frequency :: pyval
  ms_extra_recipient_email :: pyval
  ms_company_name :: pyval
  ms_admin_notes :: pyval

definition create_manual_subscription_for_user :: "manual_subscription \<Rightarrow> row comp" where
  "create_manual_subscription_for_user a =
     bindM (b2b_product (ms_product_type a)) (\<lambda>product.
     bindM (gets clock) (\<lambda>now.
     bindM uuid4 (\<lambda>i.
     let row = [
       (''id'', i),
       (''user_id'', ms_user_id a),
       (''product_type'', ms_product_type a),
       (''status'', ms_status a),
       (''source'', PStr ''manual_contract''),
       (''amount_cents'', lookup product ''price_gbp_cents''),
       (''currency'', if truthy (lookup product ''price_gbp_cents'') then PStr ''gbp'' else PNone),
       (''delivery_frequency'', ms_delivery_frequency a),
       (''extra_recipient_email'', clean_email (ms_extra_recipient_email a)),
       (''company_name'', ms_company_name a),
       (''admin_notes'', ms_admin_notes a),
       (''current_period_start'', PTime now),
       (''next_delivery_at'', PTime (add_months now (interval_months (ms_delivery_frequency a)))),
       (''created_at'', PTime now),
       (''updated_at'', PTime now)] in
     bindM (fetch (tq_insert row (tq ''b2b_subscriptions''))) (\<lambda>rows.
     ret (first_or row rows)))))"

definition create_manual_subscription :: "pydict \<Rightarrow> row comp" where
  "create_manual_subscription payload =
     bindM (dict_item payload ''user_email'') (\<lambda>user_email.
     bindM (fetch (tq_limit 1 (tq_eq ''email'' (PStr (lower (strip (text_of user_email))))
       (tq_select ''id,email,company'' (tq ''users''))))) (\<lambda>user_rows.
     case user_rows of
       [] \<Rightarrow> throw (ValueError ''User must sign up before a manual B2B subscription can be created'')
     | u # _ \<Rightarrow>
       bindM (dict_item payload ''product_type'') (\<lambda>product_type.
       create_manual_subscription_for_user
        \<lparr>ms_user_id = u ''id'',
         ms_product_type = product_type,
         ms_status = py_or (lookup payload ''status'') (PStr ''active''),
         ms_delivery_frequency = py_or (lookup payload ''delivery_frequency'') (PStr ''monthly''),
         ms_extra_recipient_email = lookup payload ''extra_recipient_email'',
         ms_company_name = py_or (lookup payload ''company_name'') (u ''company''),
         ms_admin_notes = lookup payload ''admin_notes''\<rparr>)))"

definition update_subscription :: "settings \<Rightarrow> pyval \<Rightarrow> pydict \<Rightarrow> row option comp" where
  "update_subscription st subscription_id payload =
     (let updates = filter (\<lambda>(key, v). v \<noteq> PNone \<and> key \<in> {''status'', ''delivery_frequency'',
            ''next_delivery_at'', ''company_name'', ''admin_notes''}) payload;
          updates = (if has_key payload ''extra_recipient_email''
            then updates @ [(''extra_recipient_email'', clean_email (lookup payload ''extra_recipient_email''))]
            else updates) in
      if updates = [] then get_subscription subscription_id
      else
       bindM utcnow (\<lambda>now.
       let updates = updates @ [(''updated_at'', now)] in
       bindM (fetch (tq_eq ''id'' subscription_id (tq_update updates (tq ''b2b_subscriptions'')))) (\<lambda>rows.
       case rows of
         [] \<Rightarrow> ret None
       | subscription # _ \<Rightarrow>
         thenM (notify_subscription_updated st subscription (sort (map fst updates)))
               (ret (Some subscription)))))"

definition set_extra_recipient :: "pyval \<Rightarrow> pyval \<Rightarrow> pyval \<Rightarrow> row option comp" where
  "set_extra_recipient subscription_id user_id email =
     bindM (get_subscription subscription_id) (\<lambda>subscription.
     case subscription of
       None \<Rightarrow> ret None
     | Some s \<Rightarrow>
       if s ''user_id'' \<noteq> user_id then ret None
       else
        bindM utcnow (\<lambda>now.
        let updates = [(''extra_recipient_email'', clean_email email), (''updated_at'', now)] in
        bindM (fetch (tq_eq ''id'' subscription_id (tq_update updates (tq ''b2b_subscriptions'')))) (\<lambda>rows.
        ret (Some (case rows of r # _ \<Rightarrow> r | [] \<Rightarrow> set_cells updates s)))))"

section \<open>Subscriptions bought through Stripe\<close>

definition create_or_update_subscription_from_checkout :: "settings \<Rightarrow> pyval \<Rightarrow> row comp" where
  "create_or_update_subscription_from_checkout st session =
     (let metadata = dget session ''metadata'';
          user_id = dget metadata ''userId'';
          product_type = dget metadata ''productType'' in
      if \<not> truthy user_id \<or> \<not> truthy product_type
      then throw (ValueError ''B2B checkout metadata is missing userId or productType'')
      else
       bindM (b2b_product product_type) (\<lambda>product.
       let currency = lower (text_of (py_or (dget metadata ''currency'') (PStr ''gbp'')));
           frequency = py_or (dget metadata ''deliveryFrequency'') (PStr ''monthly'') in
       bindM (gets clock) (\<lambda>now.
       let period_start = (case stripe_timestamp_to_datetime (dget session ''current_period_start'') of
             PTime t \<Rightarrow> t | _ \<Rightarrow> now) in
       bindM uuid4 (\<lambda>i.
       bindM (if truthy (dget metadata ''priceId'') then ret (dget metadata ''priceId'')
              else get_price_id st (text_of product_type) currency) (\<lambda>price_id.
       let row = [
         (''id'', i),
         (''user_id'', user_id),
         (''product_type'', product_type),
         (''status'', PStr ''active''),
         (''source'', PStr ''stripe''),
         (''stripe_customer_id'', dget session ''customer''),
         (''stripe_subscription_id'', dget session ''subscription''),
         (''price_id'', price_id),
         (''amount_cents'', lookup product (''price_'' @ currency @ ''_cents'')),
         (''currency'', PStr currency),
         (''delivery_frequency'', frequency),
         (''extra_recipient_email'', clean_email (dget metadata ''extraRecipientEmail'')),
         (''current_period_start'', PTime period_start),
         (''next_delivery_at'', PTime (add_months period_start (interval_months frequency))),
         (''cancel_at_period_end'', PBool False),
         (''created_at'', PTime now),
         (''updated_at'', PTime now)] in
       bindM (fetch (tq_upsert row ''stripe_subscription_id'' (tq ''b2b_subscriptions''))) (\<lambda>rows.
       let subscription = first_or row rows in
       thenM (notify_subscription_active st subscription) (ret subscription)))))))"

definition update_from_stripe_subscription :: "pyval \<Rightarrow> bool comp" where
  "update_from_stripe_subscription subscription =
     (let subscription_id = dget subscription ''id'' in
      if \<not> truthy subscription_id then ret False
      else
       bindM (fetch (tq_limit 1 (tq_eq ''stripe_subscription_id'' subscription_id
         (tq_select ''id'' (tq ''b2b_subscriptions''))))) (\<lambda>existing.
       if existing = [] then ret False
       else
        (case stripe_period subscription of (period_start, period_end) \<Rightarrow>
         bindM utcnow (\<lambda>now.
         bindM (if truthy period_start
                then bindM (from_timestamp period_start) (\<lambda>t. ret [(''current_period_start'', t)]) else ret [])
         (\<lambda>start_cell.
         bindM (if truthy period_end
                then bindM (from_timestamp period_end) (\<lambda>t. ret [(''current_period_end'', t)]) else ret [])
         (\<lambda>end_cell.
         thenM (run (tq_eq ''stripe_subscription_id'' subscription_id (tq_update
           ([(''status'', dget subscription ''status''),
             (''cancel_at_period_end'', dget_or subscription ''cancel_at_period_end'' (PBool False)),
             (''updated_at'', now)] @ start_cell @ end_cell) (tq ''b2b_subscriptions''))))
         (ret True)))))))"

definition mark_stripe_subscription_deleted :: "pyval \<Rightarrow> bool comp" where
  "mark_stripe_subscription_deleted subscription_id =
     bindM (fetch (tq_limit 1 (tq_eq ''stripe_subscription_id'' subscription_id
       (tq_select ''id'' (tq ''b2b_subscriptions''))))) (\<lambda>existing.
     if existing = [] then ret False
     else
      bindM utcnow (\<lambda>now.
      bindM (fetch (tq_eq ''stripe_subscription_id'' subscription_id (tq_update
        [(''status'', PStr ''cancelled''), (''cancelled_at'', now), (''updated_at'', now)]
        (tq ''b2b_subscriptions'')))) (\<lambda>rows.
      ret (rows \<noteq> []))))"

end
