(* ===== verification/Stripe_Service.thy ===== *)
theory Stripe_Service
  imports Database Alerts Plan_Catalog
begin

text \<open>
  \<open>app/modules/payments/service.py\<close>: the promotion rules and \<open>StripeService\<close>, each method as
  the calls of the Stripe library it makes, in order, and what it returns. A Stripe object is
  the \<open>pyval\<close> of its \<open>to_dict()\<close>; its attributes \<open>id\<close> and \<open>url\<close> are keys of that dict. The
  error class \<open>InvalidRequestError\<close> is \<open>StripeError ''InvalidRequestError''\<close>. Signature
  verification (\<open>construct_webhook_event\<close>) is Stripe's code and has no model.
\<close>

section \<open>Promotions\<close>

definition SINGLE_REPORT_PROMO_KEY :: string where
  "SINGLE_REPORT_PROMO_KEY = ''single''"

definition promo_plans :: "settings \<Rightarrow> string list" where
  "promo_plans st = remdups (map (\<lambda>p. lower (strip p))
     (filter (\<lambda>p. strip p \<noteq> []) (split_on (CHR '','') (STRIPE_PROMO_PLANS st))))"

definition promo_coupon_for :: "settings \<Rightarrow> pyval \<Rightarrow> string option" where
  "promo_coupon_for st plan_type =
     (let key = lower (strip (text_of (py_or plan_type (PStr []))));
          plans = promo_plans st;
          non_empty = (\<lambda>s. if s = [] then None else Some s) in
      if plans \<noteq> [] \<and> key \<notin> set plans then None
      else if key = SINGLE_REPORT_PROMO_KEY then non_empty (strip (STRIPE_PROMO_ONEOFF_COUPON_ID st))
      else non_empty (strip (STRIPE_PROMO_COUPON_ID st)))"

text \<open>
  The percentages a text states, as \<open>_PERCENT_IN_TEXT.findall\<close> finds them: digits, an optional
  fraction, blanks, a percent sign. Each is its digits before and after the point; the search
  goes on behind a match and, where none starts, at the next character.
\<close>

definition fraction_at :: "string \<Rightarrow> string" where
  "fraction_at s = (case s of c # cs \<Rightarrow> if c = CHR ''.'' then takeWhile is_digit cs else [] | [] \<Rightarrow> [])"

definition skip_fraction :: "string \<Rightarrow> string" where
  "skip_fraction s = (if fraction_at s = [] then s else drop (Suc (length (fraction_at s))) s)"

definition percent_at :: "string \<Rightarrow> ((string \<times> string) \<times> string) option" where
  "percent_at s =
     (let ds = takeWhile is_digit s; rest = dropWhile is_digit s in
      case dropWhile is_space (skip_fraction rest) of
        c # cs \<Rightarrow> if ds \<noteq> [] \<and> c = CHR ''%'' then Some ((ds, fraction_at rest), cs) else None
      | [] \<Rightarrow> None)"

lemma percent_at_shorter: "percent_at s = Some (p, rest) \<Longrightarrow> length rest < length s"
proof -
  assume "percent_at s = Some (p, rest)"
  then obtain c where "dropWhile is_space (skip_fraction (dropWhile is_digit s)) = c # rest"
    by (auto simp: percent_at_def Let_def split: list.splits if_splits)
  then have "Suc (length rest) \<le> length (skip_fraction (dropWhile is_digit s))"
    by (metis length_Cons length_dropWhile_le)
  also have "\<dots> \<le> length (dropWhile is_digit s)" by (simp add: skip_fraction_def)
  also have "\<dots> \<le> length s" by (rule length_dropWhile_le)
  finally show ?thesis by simp
qed

function find_percents :: "string \<Rightarrow> (string \<times> string) list" where
  "find_percents [] = []"
| "find_percents (c # cs) =
     (case percent_at (c # cs) of Some (p, rest) \<Rightarrow> p # find_percents rest | None \<Rightarrow> find_percents cs)"
  by pat_completeness auto
termination
  by (relation "measure length") (auto dest: percent_at_shorter)

definition digits_value :: "string \<Rightarrow> int" where
  "digits_value ds = foldl (\<lambda>a c. 10 * a + digit_value c) 0 ds"

text \<open>\<open>float(m) == float(percent)\<close>, without the rounding of long fractions.\<close>

definition states_percent :: "int \<Rightarrow> string \<times> string \<Rightarrow> bool" where
  "states_percent percent p \<longleftrightarrow>
     digits_value (fst p) = percent \<and> list_all (\<lambda>c. c = CHR ''0'') (snd p)"

definition promo_label :: "settings \<Rightarrow> int \<Rightarrow> string" where
  "promo_label st percent =
     (let configured = strip (STRIPE_PROMO_LABEL st); stated = find_percents configured in
      if configured \<noteq> [] \<and> list_all (states_percent percent) stated then configured
      else int_text percent @ ''% off'')"

definition advertised_promo_plans :: "settings \<Rightarrow> string list" where
  "advertised_promo_plans st = sort (filter (\<lambda>p. promo_coupon_for st (PStr p) \<noteq> None) (promo_plans st))"

definition promo_discounts :: "settings \<Rightarrow> pyval \<Rightarrow> pyval option" where
  "promo_discounts st plan_type =
     (case promo_coupon_for st plan_type of
        None \<Rightarrow> None | Some coupon \<Rightarrow> Some (PList [PDict [(''coupon'', PStr coupon)]]))"

definition discounts_arg :: "pyval option \<Rightarrow> pydict" where
  "discounts_arg d = (case d of None \<Rightarrow> [] | Some v \<Rightarrow> [(''discounts'', v)])"

section \<open>Reading Stripe objects\<close>

definition key_or_raise :: "pyval \<Rightarrow> string \<Rightarrow> pyval comp" where
  "key_or_raise v k = dict_item (dict_of v) k"

definition first_item :: "pyval \<Rightarrow> pyval comp" where
  "first_item sub = (case items_of sub of [] \<Rightarrow> throw (KeyError ''items'') | item # _ \<Rightarrow> ret item)"

definition first_item_id :: "pyval \<Rightarrow> pyval comp" where
  "first_item_id sub = bindM (first_item sub) (\<lambda>item. key_or_raise item ''id'')"

definition line_items :: "pyval \<Rightarrow> pyval \<Rightarrow> pyval" where
  "line_items price_id quantity = PList [PDict [(''price'', price_id), (''quantity'', quantity)]]"

definition session_result :: "pyval \<Rightarrow> pydict" where
  "session_result session = [(''session_id'', dget session ''id''), (''url'', dget session ''url'')]"

section \<open>Checkout\<close>

definition create_checkout_session :: "settings \<Rightarrow> pyval \<Rightarrow> pyval \<Rightarrow> pyval \<Rightarrow> pydict \<Rightarrow> pydict comp" where
  "create_checkout_session st price_id user_email user_id metadata =
     bindM (stripe_call ''checkout.Session.create'' [
       (''payment_method_types'', PList [PStr ''card'']),
       (''line_items'', line_items price_id (PInt 1)),
       (''mode'', PStr ''payment''),
       (''customer_email'', user_email),
       (''success_url'', PStr (FRONTEND_URL st @ ''/dashboard?payment=success'')),
       (''cancel_url'', PStr (FRONTEND_URL st @ ''/pricing?payment=cancelled'')),
       (''metadata'', PDict (dict_merge
          [(''userId'', user_id), (''priceId'', price_id), (''paymentType'', PStr ''credit'')] metadata))])
     (\<lambda>session. ret (session_result session))"

definition create_credit_checkout_session :: "settings \<Rightarrow> pyval \<Rightarrow> pyval \<Rightarrow> pyval \<Rightarrow> pydict comp" where
  "create_credit_checkout_session st price_id user_email user_id =
     bindM (stripe_call ''checkout.Session.create'' ([
       (''payment_method_types'', PList [PStr ''card'']),
       (''line_items'', line_items price_id (PInt 1)),
       (''mode'', PStr ''payment''),
       (''customer_email'', user_email),
       (''success_url'', PStr (FRONTEND_URL st @ ''/dashboard?credit=success'')),
       (''cancel_url'', PStr (FRONTEND_URL st @ ''/pay-per-report?payment=cancelled'')),
       (''metadata'', PDict
          [(''userId'', user_id), (''priceId'', price_id), (''paymentType'', PStr ''credit'')])]
       @ discounts_arg (promo_discounts st (PStr SINGLE_REPORT_PROMO_KEY))))
     (\<lambda>session. ret (session_result session))"

definition get_or_create_test_price :: "settings \<Rightarrow> pyval \<Rightarrow> pyval comp" where
  "get_or_create_test_price st real_price_id =
     (let interval_days = STRIPE_TEST_BILLING_INTERVAL_DAYS st;
          unit_amount = STRIPE_TEST_BILLING_UNIT_AMOUNT st;
          lookup_key = ''test_'' @ int_text interval_days @ ''d_'' @ int_text unit_amount @ ''_''
            @ text_of real_price_id in
      bindM (stripe_call ''Price.list'' [(''lookup_keys'', PList [PStr lookup_key]),
        (''active'', PBool True), (''limit'', PInt 1)]) (\<lambda>existing.
      case list_of (dget existing ''data'') of
        p # _ \<Rightarrow> ret (dget p ''id'')
      | [] \<Rightarrow>
        bindM (stripe_call ''Price.retrieve'' [(''id'', real_price_id)]) (\<lambda>real.
        if \<not> truthy (dget real ''recurring'')
        then throw (ValueError (''Price '' @ text_of real_price_id @ '' is not a recurring subscription price''))
        else
         bindM (key_or_raise real ''product'') (\<lambda>product.
         bindM (key_or_raise real ''currency'') (\<lambda>currency.
         bindM (stripe_call ''Price.create'' [
           (''product'', product),
           (''currency'', currency),
           (''unit_amount'', PInt unit_amount),
           (''recurring'', PDict [(''interval'', PStr ''day''), (''interval_count'', PInt interval_days)]),
           (''lookup_key'', PStr lookup_key),
           (''nickname'', PStr (''[TEST '' @ int_text interval_days @ ''d] cloned from '' @ text_of real_price_id)),
           (''metadata'', PDict [(''test_billing'', PStr ''true''), (''source_price_id'', real_price_id),
              (''interval_days'', PStr (int_text interval_days))])])
         (\<lambda>created. ret (dget created ''id'')))))))"

definition test_tags :: "settings \<Rightarrow> pydict" where
  "test_tags st = [(''testBilling'', PStr (int_text (STRIPE_TEST_BILLING_INTERVAL_DAYS st) @ ''day'')),
     (''autoRefund'', PStr ''true'')]"

definition create_subscription_checkout ::
    "settings \<Rightarrow> pyval \<Rightarrow> pyval \<Rightarrow> pyval \<Rightarrow> pydict \<Rightarrow> bool \<Rightarrow> pydict comp" where
  "create_subscription_checkout st price_id user_email user_id metadata test_billing =
     (let combined_metadata = dict_merge [(''userId'', user_id), (''priceId'', price_id)] metadata;
          plan_type = dget_or (PDict metadata) ''planType'' (PStr ''professional'') in
      bindM (if test_billing then get_or_create_test_price st price_id else ret price_id) (\<lambda>price_id.
      let combined_metadata =
        (if test_billing then dict_merge combined_metadata (test_tags st) else combined_metadata) in
      bindM (stripe_call ''checkout.Session.create'' ([
        (''payment_method_types'', PList [PStr ''card'']),
        (''line_items'', line_items price_id (PInt 1)),
        (''mode'', PStr ''subscription''),
        (''customer_email'', user_email),
        (''success_url'', PStr (FRONTEND_URL st @ ''/dashboard?subscription=success&plan='' @ text_of plan_type)),
        (''cancel_url'', PStr (FRONTEND_URL st @ ''/pricing?subscription=cancelled'')),
        (''metadata'', PDict combined_metadata),
        (''subscription_data'', PDict [(''metadata'', PDict combined_metadata)])]
        @ discounts_arg (if test_billing then None else promo_discounts st plan_type)))
      (\<lambda>session. ret (session_result session))))"

definition create_b2b_subscription_checkout ::
    "settings \<Rightarrow> pyval \<Rightarrow> pyval \<Rightarrow> pyval \<Rightarrow> pyval \<Rightarrow> pyval \<Rightarrow> pyval \<Rightarrow> pyval \<Rightarrow> bool \<Rightarrow> pydict comp" where
  "create_b2b_subscription_checkout st price_id user_email user_id product_type currency
       delivery_frequency extra_recipient_email test_billing =
     bindM (if test_billing then get_or_create_test_price st price_id else ret price_id) (\<lambda>price_id.
     let metadata = [(''userId'', user_id), (''subscriptionKind'', PStr ''b2b''), (''productType'', product_type),
            (''priceId'', price_id), (''currency'', currency), (''deliveryFrequency'', delivery_frequency)]
          @ (if truthy extra_recipient_email then [(''extraRecipientEmail'', extra_recipient_email)] else [])
          @ (if test_billing then test_tags st else []) in
     bindM (stripe_call ''checkout.Session.create'' [
       (''payment_method_types'', PList [PStr ''card'']),
       (''line_items'', line_items price_id (PInt 1)),
       (''mode'', PStr ''subscription''),
       (''customer_email'', user_email),
       (''success_url'', PStr (FRONTEND_URL st @ ''/b2b?b2b_subscription=success&product='' @ text_of product_type)),
       (''cancel_url'', PStr (FRONTEND_URL st @ ''/b2b?b2b_subscription=cancelled'')),
       (''metadata'', PDict metadata),
       (''subscription_data'', PDict [(''metadata'', PDict metadata)])])
     (\<lambda>session. ret (session_result session)))"

section \<open>Customers and invoices\<close>

text \<open>\<open>try: m / except stripe.StripeError: h\<close>.\<close>

definition catch_stripe :: "'a comp \<Rightarrow> 'a comp \<Rightarrow> 'a comp" where
  "catch_stripe m h = tryM m (\<lambda>e. case e of StripeError _ \<Rightarrow> h | _ \<Rightarrow> throw e)"

lemma keeps_catch_stripe [keeps_intros, intro!]: "keeps I m \<Longrightarrow> keeps I h \<Longrightarrow> keeps I (catch_stripe m h)"
  unfolding catch_stripe_def by (auto split: exc.split)

definition get_or_create_customer :: "pyval \<Rightarrow> pyval \<Rightarrow> pyval \<Rightarrow> pyval \<Rightarrow> pyval comp" where
  "get_or_create_customer user_id email name existing_customer_id =
     bindM (if truthy existing_customer_id
            then catch_stripe
              (bindM (stripe_call ''Customer.retrieve'' [(''id'', existing_customer_id)]) (\<lambda>customer.
               ret (\<not> truthy (dget_or customer ''deleted'' (PBool False)))))
              (ret False)
            else ret False) (\<lambda>usable.
     if usable then ret existing_customer_id
     else bindM (stripe_call ''Customer.create'' [(''email'', email), (''name'', py_or name PNone),
            (''metadata'', PDict [(''userId'', user_id)])])
          (\<lambda>customer. ret (dget customer ''id'')))"

definition create_invoice_billed_subscription ::
    "pyval \<Rightarrow> pyval \<Rightarrow> pyval \<Rightarrow> pyval \<Rightarrow> int \<Rightarrow> pydict \<Rightarrow> pydict comp" where
  "create_invoice_billed_subscription customer_id price_id user_id plan_type days_until_due metadata =
     bindM (stripe_call ''Subscription.create'' [
       (''customer'', customer_id),
       (''items'', PList [PDict [(''price'', price_id)]]),
       (''collection_method'', PStr ''send_invoice''),
       (''days_until_due'', PInt days_until_due),
       (''metadata'', PDict (dict_merge
         [(''userId'', user_id), (''planType'', plan_type), (''billingMode'', PStr ''invoice'')] metadata))])
     (\<lambda>sub.
     let invoice = dget sub ''latest_invoice'' in
     bindM (case invoice of
         PDict _ \<Rightarrow> ret (dget invoice ''hosted_invoice_url'', dget invoice ''id'')
       | _ \<Rightarrow> if truthy invoice
              then bindM (catch_stripe
                     (bindM (stripe_call ''Invoice.retrieve'' [(''id'', invoice)]) (\<lambda>i.
                      ret (dget i ''hosted_invoice_url'')))
                     (ret PNone)) (\<lambda>url. ret (url, invoice))
              else ret (PNone, invoice)) (\<lambda>(hosted_url, invoice_id).
     ret [(''subscription_id'', dget sub ''id''), (''customer_id'', customer_id),
          (''status'', dget sub ''status''), (''invoice_id'', invoice_id),
          (''hosted_invoice_url'', hosted_url)]))"

definition cancel_subscription :: "pyval \<Rightarrow> unit comp" where
  "cancel_subscription subscription_id =
     bindM (stripe_call ''Subscription.modify'' [(''id'', subscription_id), (''cancel_at_period_end'', PBool True)])
     (\<lambda>_. ret ())"

section \<open>Changing a subscription\<close>

definition interval_of :: "pyval \<Rightarrow> pyval" where
  "interval_of price = dget_or (dget price ''recurring'') ''interval'' (PStr ''month'')"

text \<open>The library either has \<open>Invoice.create_preview\<close> or the older \<open>Invoice.upcoming\<close>.\<close>

definition preview_subscription_change :: "bool \<Rightarrow> pyval \<Rightarrow> pyval \<Rightarrow> pydict comp" where
  "preview_subscription_change has_create_preview subscription_id new_price_id =
     bindM (stripe_call ''Subscription.retrieve'' [(''id'', subscription_id)]) (\<lambda>sub.
     bindM (first_item sub) (\<lambda>item.
     bindM (key_or_raise item ''id'') (\<lambda>item_id.
     let current_interval = interval_of (dget item ''price'');
         items = PList [PDict [(''id'', item_id), (''price'', new_price_id)]] in
     bindM (if has_create_preview
            then stripe_call ''Invoice.create_preview'' [(''subscription'', subscription_id),
                   (''subscription_details'', PDict [(''items'', items)])]
            else stripe_call ''Invoice.upcoming'' [(''subscription'', subscription_id),
                   (''subscription_items'', items)]) (\<lambda>invoice.
     let credits = map (\<lambda>line. if truthy (dget line ''proration'') \<and> int_of (dget line ''amount'') < 0
                              then - int_of (dget line ''amount'') else 0)
                     (list_of (dget (dget invoice ''lines'') ''data'')) in
     bindM (tryM (bindM (stripe_call ''Price.retrieve'' [(''id'', new_price_id)]) (\<lambda>p. ret (interval_of p)))
                 (\<lambda>_. ret current_interval)) (\<lambda>target_interval.
     ret [(''immediate_total'', py_or (dget invoice ''amount_due'') (PInt 0)),
          (''proration_credit'', PInt (sum_list credits)),
          (''next_invoice_total'', py_or (dget invoice ''total'') (PInt 0)),
          (''currency'', dget_or invoice ''currency'' (PStr ''usd'')),
          (''effective_date'', py_or (dget sub ''current_period_end'') (dget item ''current_period_end'')),
          (''billing_cycle_changes'', PBool (current_interval \<noteq> target_interval))])))))"

definition change_subscription_plan :: "pyval \<Rightarrow> pyval \<Rightarrow> bool \<Rightarrow> pyval \<Rightarrow> pyval comp" where
  "change_subscription_plan subscription_id new_price_id prorate idempotency_key =
     bindM (stripe_call ''Subscription.retrieve'' [(''id'', subscription_id)]) (\<lambda>sub.
     bindM (first_item_id sub) (\<lambda>item_id.
     stripe_call ''Subscription.modify''
       ([(''id'', subscription_id),
         (''items'', PList [PDict [(''id'', item_id), (''price'', new_price_id)]]),
         (''proration_behavior'', PStr (if prorate then ''always_invoice'' else ''none''))]
        @ (if prorate then [(''payment_behavior'', PStr ''error_if_incomplete'')] else [])
        @ (if truthy idempotency_key then [(''idempotency_key'', idempotency_key)] else []))))"

definition schedule_subscription_downgrade :: "pyval \<Rightarrow> pyval \<Rightarrow> pyval comp" where
  "schedule_subscription_downgrade subscription_id new_price_id =
     bindM (stripe_call ''Subscription.retrieve'' [(''id'', subscription_id)]) (\<lambda>sub.
     bindM (first_item sub) (\<lambda>item.
     bindM (key_or_raise item ''price'') (\<lambda>price.
     bindM (key_or_raise price ''id'') (\<lambda>current_price_id.
     bindM (stripe_call ''SubscriptionSchedule.create'' [(''from_subscription'', subscription_id)]) (\<lambda>schedule.
     let auto_phase = (case list_of (dget schedule ''phases'') of [] \<Rightarrow> PDict [] | p # _ \<Rightarrow> p);
         current_period_start = py_or (dget sub ''current_period_start'') (dget auto_phase ''start_date'');
         current_period_end = py_or (dget sub ''current_period_end'') (dget auto_phase ''end_date'') in
     if \<not> truthy current_period_start \<or> \<not> truthy current_period_end
     then throw (ValueError (''Cannot determine billing period for subscription '' @ text_of subscription_id))
     else
      bindM (key_or_raise schedule ''id'') (\<lambda>schedule_id.
      thenM (bindM (stripe_call ''SubscriptionSchedule.modify'' [
        (''id'', schedule_id),
        (''end_behavior'', PStr ''release''),
        (''phases'', PList [
          PDict [(''start_date'', current_period_start), (''end_date'', current_period_end),
                 (''items'', line_items current_price_id (PInt 1)), (''proration_behavior'', PStr ''none'')],
          PDict [(''start_date'', current_period_end), (''items'', line_items new_price_id (PInt 1)),
                 (''proration_behavior'', PStr ''none'')]])]) (\<lambda>_. ret ()))
      (ret schedule_id)))))))"

definition cancel_scheduled_plan_change :: "pyval \<Rightarrow> unit comp" where
  "cancel_scheduled_plan_change schedule_id =
     bindM (stripe_call ''SubscriptionSchedule.release'' [(''id'', schedule_id)]) (\<lambda>_. ret ())"

definition update_payment_method :: "pyval \<Rightarrow> pyval \<Rightarrow> unit comp" where
  "update_payment_method customer_id payment_method_id =
     bindM (stripe_call ''PaymentMethod.attach'' [(''id'', payment_method_id), (''customer'', customer_id)]) (\<lambda>_.
     bindM (stripe_call ''Customer.modify'' [(''id'', customer_id), (''invoice_settings'',
       PDict [(''default_payment_method'', payment_method_id)])]) (\<lambda>_. ret ()))"

definition create_customer_portal_session :: "settings \<Rightarrow> pyval \<Rightarrow> pyval comp" where
  "create_customer_portal_session st customer_id =
     bindM (stripe_call ''billing_portal.Session.create'' [(''customer'', customer_id),
       (''return_url'', PStr (FRONTEND_URL st @ ''/dashboard''))])
     (\<lambda>session. ret (dget session ''url''))"

definition first_line :: "pyval \<Rightarrow> pyval" where
  "first_line invoice = (case list_of (dget (dget invoice ''lines'') ''data'') of [] \<Rightarrow> PDict [] | l # _ \<Rightarrow> l)"

definition first_line_description :: "pyval \<Rightarrow> pyval" where
  "first_line_description invoice = dget_or (first_line invoice) ''description'' (PStr [])"

definition invoice_row :: "pyval \<Rightarrow> pydict" where
  "invoice_row invoice = [
     (''id'', dget invoice ''id''), (''number'', dget invoice ''number''), (''status'', dget invoice ''status''),
     (''amount_paid'', dget_or invoice ''amount_paid'' (PInt 0)), (''amount_due'', dget_or invoice ''amount_due'' (PInt 0)),
     (''currency'', dget_or invoice ''currency'' (PStr ''usd'')), (''created'', dget invoice ''created''),
     (''period_start'', dget (dget (first_line invoice) ''period'') ''start''),
     (''period_end'', dget (dget (first_line invoice) ''period'') ''end''),
     (''hosted_invoice_url'', dget invoice ''hosted_invoice_url''), (''invoice_pdf'', dget invoice ''invoice_pdf''),
     (''description'', py_or (dget invoice ''description'') (first_line_description invoice))]"

text \<open>
  The loop over the pages of \<open>auto_paging_iter\<close>, whose elements in order are the \<open>data\<close> of
  the answer here: it stops once \<open>limit\<close> rows are collected.
\<close>

fun collect_invoices :: "int \<Rightarrow> pydict list \<Rightarrow> pyval list \<Rightarrow> pydict list" where
  "collect_invoices limit results [] = results"
| "collect_invoices limit results (invoice # invs) =
     (if dget invoice ''status'' \<notin> {PStr ''paid'', PStr ''open''} then collect_invoices limit results invs
      else (let results = results @ [invoice_row invoice] in
            if int (length results) \<ge> limit then results else collect_invoices limit results invs))"

definition list_invoices :: "pyval \<Rightarrow> int \<Rightarrow> pydict list comp" where
  "list_invoices customer_id limit =
     bindM (stripe_call ''Invoice.list'' [(''customer'', customer_id), (''limit'', PInt limit)]) (\<lambda>invoices.
     ret (collect_invoices limit [] (list_of (dget invoices ''data''))))"

section \<open>Refunds of test invoices\<close>

definition auto_refund_test_invoice :: "pyval \<Rightarrow> pyval comp" where
  "auto_refund_test_invoice invoice =
     (let subscription_id = dget invoice ''subscription'' in
      if \<not> truthy subscription_id then ret PNone
      else
       bindM (stripe_call ''Subscription.retrieve'' [(''id'', subscription_id)]) (\<lambda>subscription.
       if dget (dget subscription ''metadata'') ''autoRefund'' \<noteq> PStr ''true'' then ret PNone
       else
        bindM (if truthy (dget invoice ''payment_intent'') then ret (dget invoice ''payment_intent'')
               else bindM (stripe_call ''Invoice.retrieve'' [(''id'', dget invoice ''id'')]) (\<lambda>fresh.
                    ret (dget fresh ''payment_intent''))) (\<lambda>payment_intent.
        if \<not> truthy payment_intent then ret PNone
        else
         tryM (bindM (stripe_call ''Refund.create'' [(''payment_intent'', payment_intent),
                 (''metadata'', PDict [(''auto_refund'', PStr ''test_billing''),
                    (''invoice_id'', py_or (dget invoice ''id'') (PStr [])),
                    (''subscription_id'', subscription_id)])])
               (\<lambda>refund. ret (dget refund ''id'')))
              (\<lambda>e. if e = StripeError ''InvalidRequestError'' then ret PNone else throw e))))"

lemma keeps_key_or_raise [keeps_intros, intro!]: "keeps I (key_or_raise v k)"
  unfolding key_or_raise_def by auto

lemma keeps_first_item [keeps_intros, intro!]: "keeps I (first_item sub)"
  unfolding first_item_def by auto

text \<open>Stripe calls write no table.\<close>

lemma keeps_stripe_service [keeps_intros, intro!]:
  "keeps (tables_inv P) (auto_refund_test_invoice invoice)"
  "keeps (tables_inv P) (change_subscription_plan s p b k)"
  "keeps (tables_inv P) (schedule_subscription_downgrade s p)"
  "keeps (tables_inv P) (cancel_scheduled_plan_change s)"
  "keeps (tables_inv P) (preview_subscription_change h s p)"
  "keeps (tables_inv P) (get_or_create_test_price st p)"
  unfolding auto_refund_test_invoice_def change_subscription_plan_def schedule_subscription_downgrade_def
    cancel_scheduled_plan_change_def preview_subscription_change_def get_or_create_test_price_def
    first_item_id_def Let_def
  by auto

end
