(* ===== verification/Query_Facts.thy ===== *)
theory Query_Facts
  imports Database Alerts
begin

text \<open>
  What the shapes of query the services use do when no statement fails, and the frame rules
  for whole operations: \<open>effect_frame\<close> is the interface between the effects an operation is
  built from and the invariants its callers want kept.
\<close>

section \<open>Queries when no statement fails\<close>

lemma columns_select [simp]:
  "q_columns (tq_select cols (tq t)) = (if cols \<noteq> [] \<and> cols \<noteq> ''*'' then split_columns cols else [])"
  by (simp add: builder_defs)

lemma single_simps [simp]: "q_single (tq_single q)" "\<not> q_single (tq t)"
  by (simp_all add: builder_defs)

lemmas split_simps = split_columns_def strip_def is_space_def

abbreviation select_eq :: "string \<Rightarrow> string \<Rightarrow> string \<Rightarrow> pyval \<Rightarrow> query" where
  "select_eq cols t k v \<equiv> tq_limit (Suc 0) (tq_eq k v (tq_select cols (tq t)))"

abbreviation update_eq :: "string \<Rightarrow> string \<Rightarrow> pyval \<Rightarrow> pydict \<Rightarrow> query" where
  "update_eq t k v p \<equiv> tq_eq k v (tq_update p (tq t))"

abbreviation rows_with :: "world \<Rightarrow> string \<Rightarrow> string \<Rightarrow> pyval \<Rightarrow> row list" where
  "rows_with w t k v \<equiv> filter (\<lambda>r. r k = v) (tables w t)"

lemma matches_eq [simp]: "matches [F_eq k v] = (\<lambda>r. r k = v)"
  by (rule ext) simp

lemma matches_eq2 [simp]: "matches [F_eq k v, F_eq k' v'] = (\<lambda>r. r k = v \<and> r k' = v')"
  by (rule ext) simp

lemma rows_with_updated:
  "\<not> has_key p k \<Longrightarrow> filter (\<lambda>r. r k = v) (update_rows [F_eq k v] p rs) = map (set_cells p) (filter (\<lambda>r. r k = v) rs)"
  using filter_update_rows [of p "[F_eq k v]" rs] by simp

lemma fetch_select_eq:
  assumes "healthy w" and "schema_of t = Some sch" and "k \<in> set (table_columns sch)"
  shows "fetch (select_eq cols t k v) w
    = (Inr (map (project_row (q_columns (tq_select cols (tq t)))) (take 1 (rows_with w t k v))), w)"
  using assms by (simp add: query_eval world_simps healthy_def sql_def)

lemma fetch_update_eq:
  assumes "healthy w" and "schema_of t = Some sch" and "k \<in> set (table_columns sch)"
    and "list_all (\<lambda>(c, _). c \<in> set (table_columns sch)) p"
    and "updatable sch [F_eq k v] p (tables w t)" and "\<not> has_key p k" and "p \<noteq> []"
  shows "fetch (update_eq t k v p) w
    = (Inr (map (set_cells p) (rows_with w t k v)), set_table t (update_rows [F_eq k v] p (tables w t)) w)"
proof -
  have "filter (\<lambda>c. c \<notin> set (table_columns sch)) (map fst p) = []"
    using assms(4) by (auto simp: filter_empty_conv list_all_iff)
  then show ?thesis
    using assms filter_update_rows [of p "[F_eq k v]" "tables w t"]
    by (simp add: query_eval world_simps healthy_def sql_def)
qed

lemma run_update_eq:
  assumes "healthy w" and "schema_of t = Some sch" and "k \<in> set (table_columns sch)"
    and "list_all (\<lambda>(c, _). c \<in> set (table_columns sch)) p"
    and "updatable sch [F_eq k v] p (tables w t)" and "p \<noteq> []"
  shows "run (update_eq t k v p) w = (Inr (), set_table t (update_rows [F_eq k v] p (tables w t)) w)"
proof -
  have "filter (\<lambda>c. c \<notin> set (table_columns sch)) (map fst p) = []"
    using assms(4) by (auto simp: filter_empty_conv list_all_iff)
  then show ?thesis
    using assms by (simp add: query_eval world_simps healthy_def sql_def)
qed

lemma execute_single_eq:
  assumes "healthy w" and "schema_of t = Some sch" and "k \<in> set (table_columns sch)"
  shows "tq_execute (tq_single (tq_eq k v (tq_select cols (tq t)))) w
    = (Inr (result_rows (tq_single (tq t))
        (map (project_row (q_columns (tq_select cols (tq t)))) (take 1 (rows_with w t k v))) None), w)"
  using assms by (simp add: query_eval world_simps healthy_def sql_def)

lemma run_insert:
  assumes "healthy w" and "schema_of t = Some sch" and "python_defaults sch = []"
    and "list_all (\<lambda>(c, _). c \<in> set (table_columns sch)) p" and "p \<noteq> []"
    and "insertable sch (new_row sch (clock w) p) (tables w t)"
  shows "run (tq_insert p (tq t)) w
    = (Inr (), set_table t (tables w t @ [new_row sch (clock w) p]) w)"
proof -
  have "filter (\<lambda>c. c \<notin> set (table_columns sch)) (map fst p) = []"
    using assms(4) by (auto simp: filter_empty_conv list_all_iff)
  then show ?thesis
    using assms by (simp add: query_eval world_simps healthy_def sql_def split: if_splits)
qed

text \<open>An upsert on one conflict column: an update when a row has that cell, an insert otherwise.\<close>

definition upserted :: "table_schema \<Rightarrow> int \<Rightarrow> string \<Rightarrow> pydict \<Rightarrow> row list \<Rightarrow> row list" where
  "upserted sch t c p rs =
     (if filter (\<lambda>r. r c = lookup p c) rs \<noteq> []
      then update_rows [F_eq c (lookup p c)] (filter (\<lambda>(k, _). k \<noteq> ''id'') p) rs
      else rs @ [new_row sch t p])"

lemma run_upsert:
  assumes "healthy w" and "schema_of t = Some sch" and "python_defaults sch = []"
    and "split_columns c = [c]" and "c \<noteq> []" and "c \<in> set (table_columns sch)"
    and "list_all (\<lambda>(c, _). c \<in> set (table_columns sch)) p" and "p \<noteq> []"
    and "rows_with w t c (lookup p c) = [] \<Longrightarrow> insertable sch (new_row sch (clock w) p) (tables w t)"
    and "rows_with w t c (lookup p c) \<noteq> [] \<Longrightarrow>
      updatable sch [F_eq c (lookup p c)] (filter (\<lambda>(k, _). k \<noteq> ''id'') p) (tables w t)"
  shows "run (tq_upsert p c (tq t)) w
    = (Inr (), set_table t (upserted sch (clock w) c p (tables w t)) w)"
proof -
  have cols: "filter (\<lambda>c. c \<notin> set (table_columns sch)) (map fst p) = []"
    using assms(7) by (auto simp: filter_empty_conv list_all_iff)
  have cols': "filter (\<lambda>c. c \<notin> set (table_columns sch)) (map fst (filter (\<lambda>(k, _). k \<noteq> ''id'') p)) = []"
    using assms(7) by (auto simp: filter_empty_conv list_all_iff)
  note [simp] = assms(2-6)
  note evals = run_def tq_execute_def builder_defs query_keys_def execute_upsert_def reload_after_write_def
    sql_read_def sql_store_def sql_update_def known_columns_def limits_def result_rows_def Let_def
    world_simps healthy_def sql_def
  show ?thesis
  proof (cases "rows_with w t c (lookup p c) = []")
    case True
    with assms show ?thesis using cols by (simp add: evals upserted_def)
  next
    case False
    with assms show ?thesis using cols' by (simp add: evals upserted_def)
  qed
qed

lemma update_rows_cells:
  assumes "r \<in> set (update_rows [F_eq k v] p rs)" and "r k = v" and "\<not> has_key p k"
  obtains r0 where "r0 \<in> set rs" and "r0 k = v" and "r = set_cells p r0"
proof -
  obtain r0 where r0: "r0 \<in> set rs" and c: "r = (if r0 k = v then set_cells p r0 else r0)"
    using assms(1) by (auto simp: set_update_rows simp del: set_cells_apply)
  have "r0 k = v" using c assms(2) by (cases "r0 k = v") simp_all
  then show thesis using that [OF r0] c by simp
qed

lemma map_of_filter_key: "k \<noteq> k' \<Longrightarrow> map_of (filter (\<lambda>(c, _). c \<noteq> k') p) k = map_of p k"
  by (induction p) auto

lemma upserted_cells:
  assumes "r \<in> set (upserted sch n c p rs)" and "r c = lookup p c"
    and "map_of p k = Some v" and "k \<noteq> ''id''" and "k \<in> set (table_columns sch)"
  shows "r k = v"
proof (cases "filter (\<lambda>r. r c = lookup p c) rs = []")
  case True
  then have "r = new_row sch n p" using assms(1,2) by (auto simp: upserted_def filter_empty_conv)
  then show ?thesis using assms(3,5) by (simp add: new_row_def)
next
  case False
  then obtain r0 where "r = set_cells (filter (\<lambda>(k, _). k \<noteq> ''id'') p) r0"
    using assms(1,2) by (auto simp: upserted_def set_update_rows split: if_splits)
  then show ?thesis using assms(3,4) by (simp add: map_of_filter_key)
qed

lemma upserted_exists:
  assumes "map_of p c = Some v" and "c \<noteq> ''id''" and "c \<in> set (table_columns sch)"
  shows "\<exists>r \<in> set (upserted sch n c p rs). r c = v"
proof -
  have l: "lookup p c = v" using assms(1) by (simp add: lookup_def)
  show ?thesis
  proof (cases "filter (\<lambda>r. r c = lookup p c) rs = []")
    case True
    then show ?thesis using assms by (auto simp: upserted_def new_row_def)
  next
    case False
    then obtain r0 where "r0 \<in> set rs" "r0 c = lookup p c" by (auto simp: filter_empty_conv)
    then have "set_cells (filter (\<lambda>(k, _). k \<noteq> ''id'') p) r0 \<in> set (upserted sch n c p rs)"
      using False by (auto simp: upserted_def set_update_rows image_iff)
    moreover have "set_cells (filter (\<lambda>(k, _). k \<noteq> ''id'') p) r0 c = v"
      using assms(1,2) by (simp add: map_of_filter_key)
    ultimately show ?thesis by blast
  qed
qed

section \<open>Computations that always return\<close>

definition returns :: "unit comp \<Rightarrow> bool" where
  "returns m \<longleftrightarrow> (\<forall>w. fst (m w) = Inr ())"

lemma returnsI: "(\<And>w. \<exists>w'. m w = (Inr (), w')) \<Longrightarrow> returns m"
  unfolding returns_def by (metis fst_conv)

lemma returnsE: "returns m \<Longrightarrow> (\<And>w'. m w = (Inr (), w') \<Longrightarrow> thesis) \<Longrightarrow> thesis"
  unfolding returns_def by (metis prod.collapse)

lemma returns_thenM: "returns m \<Longrightarrow> returns n \<Longrightarrow> returns (thenM m n)"
  by (simp add: returns_def thenM_def bindM_def split_beta split: sum.split)

lemma returns_whenM: "returns m \<Longrightarrow> returns (whenM b m)"
  by (simp add: returns_def whenM_def ret_def)

section \<open>Frames\<close>

text \<open>
  An invariant that every effect other than a write keeps, and that the writes \<open>allowed\<close> keep.
\<close>

locale effect_frame =
  fixes I :: "world \<Rightarrow> bool" and allowed :: "query \<Rightarrow> bool"
  assumes frame_query: "allowed q \<Longrightarrow> keeps I (tq_execute q)"
    and frame_select: "q_action q = A_select \<Longrightarrow> allowed q"
    and frame_uuid: "keeps I uuid4"
    and frame_cache: "keeps I (cache_delete k)"
    and frame_mail: "keeps I (post_mail_with to tmpl ctx atts)"
    and frame_stripe: "keeps I (stripe_call op args)"
    and frame_throttle: "keeps I (throttle_check key n)"
    and frame_defer: "keeps I (modify (\<lambda>w. w\<lparr>deferred := deferred w @ ms\<rparr>))"
begin

lemmas frame_effects [intro!] =
  frame_uuid frame_cache frame_mail frame_stripe frame_throttle frame_defer

lemma frame_fetch [intro!]: "allowed q \<Longrightarrow> keeps I (fetch q)"
  unfolding fetch_def using frame_query by auto

lemma frame_run [intro!]: "allowed q \<Longrightarrow> keeps I (run q)"
  unfolding run_def using frame_query by auto

lemma frame_execute [intro!]: "allowed q \<Longrightarrow> keeps I (tq_execute q)"
  by (rule frame_query)

lemma frame_selects [intro!]:
  "allowed (tq t)" "allowed (tq_limit n (tq_eq k v (tq_select cols (tq t))))"
    "allowed (tq_limit n (tq_eq a b (tq_eq k v (tq_select cols (tq t)))))"
    "allowed (tq_single (tq_eq k v (tq_select cols (tq t))))"
  by (rule frame_select; simp add: builder_defs)+

lemma frame_email_send [intro!]: "keeps I (email_send st to t c)" "keeps I (email_send_with st to t c atts)"
  unfolding email_send_eq email_send_with_def by auto

lemma frame_send_admin_alert [intro!]: "keeps I (send_alert_to recipient tmpl a st)" "keeps I (send_admin_alert a st)"
  unfolding send_admin_alert_def send_alert_to_def Let_def by (auto split: option.split)

end

text \<open>The interpretations: health of the connection, and a table nobody writes.\<close>

lemma keeps_sql_healthy: "keeps healthy m \<Longrightarrow> keeps healthy (sql m)"
  by (auto simp: keeps_def sql_def healthy_def split: list.splits)

lemma keeps_healthy_statements [intro!]:
  "keeps healthy (sql_read t f)" "keeps healthy (sql_store sch t ps)"
  "keeps healthy (sql_update sch t fs p)" "keeps healthy (sql_delete t fs)"
  unfolding sql_read_def sql_store_def sql_update_def sql_delete_def
  by (rule keeps_sql_healthy; auto simp: keeps_def gets_def split: option.split)+

lemma keeps_healthy_effects [intro!]:
  "keeps healthy uuid4" "keeps healthy (cache_delete k)" "keeps healthy (post_mail_with to tmpl ctx atts)"
  "keeps healthy (stripe_call op args)" "keeps healthy (throttle_check key n)"
  "keeps healthy (modify (\<lambda>w. w\<lparr>deferred := deferred w @ ms\<rparr>))"
  by (auto simp: keeps_def uuid4_def cache_delete_def post_mail_def post_mail_with_def stripe_call_def throttle_check_def
      modify_def Let_def split: option.split)

lemma keeps_mapM [intro!]: "(\<And>x. x \<in> set xs \<Longrightarrow> keeps I (f x)) \<Longrightarrow> keeps I (mapM f xs)"
  by (induction xs) auto

text \<open>An invariant every statement keeps is kept by every query.\<close>

lemma keeps_any_query:
  assumes read: "\<And>t (f :: row list \<Rightarrow> row list). keeps I (sql_read t f)"
    and count: "\<And>t (f :: row list \<Rightarrow> nat). keeps I (sql_read t f)"
    and st: "\<And>sch t ps. keeps I (sql_store sch t ps)"
    and up: "\<And>sch t fs p. keeps I (sql_update sch t fs p)"
    and dl: "\<And>t fs. keeps I (sql_delete t fs)"
  shows "keeps I (tq_execute q)"
proof -
  note [intro!] = read count st up dl
  have none: "mapM ret ps = ret ps" "apply_insert_defaults [] = ret" for ps :: "'b list"
    by (induction ps) (auto intro: ext)
  have reload: "keeps I (reload_after_write q p)" for q p
    unfolding reload_after_write_def by auto
  have bulk: "keeps I (reload_bulk_insert sch q ps)" for sch q ps
    unfolding reload_bulk_insert_def Let_def by auto
  have ins: "keeps I (execute_insert sch q)" if "python_defaults sch = []" for sch
    unfolding execute_insert_def that none by (auto intro!: reload bulk split: payload.split)
  have "keeps I (execute_select q)" unfolding execute_select_def by auto
  moreover have "keeps I (execute_update sch q)" for sch
    unfolding execute_update_def by (auto intro!: reload split: payload.split)
  moreover have "keeps I (execute_upsert sch q)" if "python_defaults sch = []" for sch
    unfolding execute_upsert_def Let_def that none
    by (auto intro!: reload ins [OF that] split: payload.split list.split)
  moreover have "keeps I (execute_delete q)" unfolding execute_delete_def by auto
  ultimately show ?thesis
    unfolding tq_execute_def
    by (auto intro: ins dest: python_defaults_none split: option.split list.split action.split)
qed

lemma keeps_healthy_query [intro!]: "keeps healthy (tq_execute q)"
  by (rule keeps_any_query) auto

lemma keeps_clock_sql: "keeps (\<lambda>w. clock w = n) m \<Longrightarrow> keeps (\<lambda>w. clock w = n) (sql m)"
  by (auto simp: keeps_def sql_def split: list.splits)

lemma keeps_clock_statements:
  "keeps (\<lambda>w. clock w = n) (sql_read t f)" "keeps (\<lambda>w. clock w = n) (sql_store sch t ps)"
  "keeps (\<lambda>w. clock w = n) (sql_update sch t fs p)" "keeps (\<lambda>w. clock w = n) (sql_delete t fs)"
  unfolding sql_read_def sql_store_def sql_update_def sql_delete_def
  by (rule keeps_clock_sql; auto simp: keeps_def gets_def split: option.split)+

lemma keeps_env_sql:
  "keeps (\<lambda>w. stripe_api w = a \<and> max_rows w = n) m \<Longrightarrow> keeps (\<lambda>w. stripe_api w = a \<and> max_rows w = n) (sql m)"
  by (auto simp: keeps_def sql_def split: list.splits)

lemma keeps_env_statements:
  "keeps (\<lambda>w. stripe_api w = a \<and> max_rows w = n) (sql_read t f)"
  "keeps (\<lambda>w. stripe_api w = a \<and> max_rows w = n) (sql_store sch t ps)"
  "keeps (\<lambda>w. stripe_api w = a \<and> max_rows w = n) (sql_update sch t fs p)"
  "keeps (\<lambda>w. stripe_api w = a \<and> max_rows w = n) (sql_delete t fs)"
  unfolding sql_read_def sql_store_def sql_update_def sql_delete_def
  by (rule keeps_env_sql; auto simp: keeps_def gets_def split: option.split)+

interpretation env_frame: effect_frame "\<lambda>w. stripe_api w = a \<and> max_rows w = n" "\<lambda>_. True" for a n
  by unfold_locales
    ((rule keeps_any_query; rule keeps_env_statements)
     | auto simp: keeps_def uuid4_def cache_delete_def post_mail_def post_mail_with_def
      stripe_call_def throttle_check_def modify_def Let_def split: option.split)+

interpretation clock_frame: effect_frame "\<lambda>w. clock w = n" "\<lambda>_. True" for n
  by unfold_locales
    ((rule keeps_any_query; rule keeps_clock_statements)
     | auto simp: keeps_def uuid4_def cache_delete_def post_mail_def post_mail_with_def
      stripe_call_def throttle_check_def modify_def Let_def split: option.split)+

interpretation healthy_frame: effect_frame healthy "\<lambda>_. True"
  by unfold_locales auto

lemma keeps_defer [intro!]: "keeps (tables_inv P) (modify (\<lambda>w. w\<lparr>deferred := deferred w @ ms\<rparr>))"
  by (rule keeps_modify) (simp add: tables_inv_def)

interpretation table_frame: effect_frame "tables_inv (\<lambda>ts. R (ts t))" "\<lambda>q. q_action q = A_select \<or> q_table q \<noteq> t"
  for R t
  by unfold_locales (auto intro: keeps_query_select keeps_other_table)

end
