(* ===== verification/Webhooks.thy ===== *)
theory Webhooks
  imports B2B_Subscriptions Stripe_Service Query_Facts
begin

text \<open>
  \<open>WebhookHandler\<close> of \<open>app/modules/payments/webhook_handler.py\<close>: one definition per method.
  The handler holds optional settings and whether it was given background tasks; without
  settings it has no e-mail service. Log lines and the session rollback after a failed
  marker write have no effect on the modelled state. \<open>_alert_webhook_failure\<close> and the alert
  of a checkout without a user go through \<open>send_admin_alert\<close>.
\<close>

record handler =
  h_settings :: "settings option"
  h_background :: bool

definition PLAN_LABEL :: "(string \<times> string) list" where
  "PLAN_LABEL = [(''free'', ''Explorer''), (''professional'', ''Professional''),
    (''producer'', ''Producer''), (''studio'', ''Studio'')]"

text \<open>\<open>_PLAN_LABEL.get(plan, plan.title())\<close>.\<close>

definition plan_label :: "pyval \<Rightarrow> pyval" where
  "plan_label plan = PStr (table_get PLAN_LABEL plan (title (text_of plan)))"

definition user_type_for :: "pyval \<Rightarrow> pyval" where
  "user_type_for plan = PStr (if plan \<noteq> PStr ''free'' then ''paid'' else ''free'')"

definition in_production :: "handler \<Rightarrow> bool" where
  "in_production h = (case h_settings h of None \<Rightarrow> False | Some st \<Rightarrow> is_production st)"

section \<open>Cache and mail\<close>

definition bust_user_cache :: "handler \<Rightarrow> pyval \<Rightarrow> unit comp" where
  "bust_user_cache h user_id =
     (case h_settings h of None \<Rightarrow> ret ()
      | Some _ \<Rightarrow> cache_delete (''user_profile:'' @ text_of user_id))"

definition dispatch_email :: "handler \<Rightarrow> string \<Rightarrow> string \<Rightarrow> pydict \<Rightarrow> unit comp" where
  "dispatch_email h email template_name context =
     (case h_settings h of
        None \<Rightarrow> ret ()
      | Some st \<Rightarrow>
         if h_background h
         then modify (\<lambda>w. w\<lparr>deferred := deferred w @
                [\<lparr>mail_to = email, mail_template = template_name, mail_context = context, mail_attachments = []\<rparr>]\<rparr>)
         else tryM (email_send st email template_name context) (\<lambda>_. ret ()))"

text \<open>The background tasks run after the response, each swallowing its error.\<close>

definition run_background :: "settings \<Rightarrow> unit comp" where
  "run_background st =
     bindM (gets deferred) (\<lambda>tasks.
     thenM (modify (\<lambda>w. w\<lparr>deferred := []\<rparr>))
     (forM tasks (\<lambda>m. tryM (email_send st (mail_to m) (mail_template m) (mail_context m)) (\<lambda>_. ret ()))))"

definition send_email_to_user_id :: "handler \<Rightarrow> pyval \<Rightarrow> string \<Rightarrow> pydict \<Rightarrow> unit comp" where
  "send_email_to_user_id h user_id template_name context =
     (if h_settings h = None then ret ()
      else
       bindM (tryM
         (bindM (fetch (tq_limit 1 (tq_eq ''id'' user_id (tq_select ''email'' (tq ''users''))))) (\<lambda>rows.
          case rows of
            [] \<Rightarrow> ret None
          | r # _ \<Rightarrow> if \<not> truthy (r ''email'') then ret None else ret (Some (text_of (r ''email'')))))
         (\<lambda>_. ret None)) (\<lambda>email.
       case email of None \<Rightarrow> ret () | Some e \<Rightarrow> dispatch_email h e template_name context))"

section \<open>Alerts\<close>

definition ALERT_STRIPE_WEBHOOK :: string where
  "ALERT_STRIPE_WEBHOOK = ''stripe_webhook''"

definition WEBHOOK_THROTTLE_SECONDS :: int where
  "WEBHOOK_THROTTLE_SECONDS = 86400"

definition alert_webhook_failure :: "handler \<Rightarrow> string \<Rightarrow> string \<Rightarrow> pyval \<Rightarrow> exc \<Rightarrow> unit comp" where
  "alert_webhook_failure h event_id event_type data_object exc =
     bindM (send_admin_alert
       \<lparr>a_category = ALERT_STRIPE_WEBHOOK,
        a_heading = ''Stripe webhook '' @ [CHR 0x27] @ event_type @ [CHR 0x27] @ '' failed to process'',
        a_details = [(''Event ID'', PStr event_id), (''Event type'', PStr event_type),
          (''Stripe object'', dget data_object ''id''), (''Customer'', dget data_object ''customer''),
          (''Error'', PStr (take 300 (exc_text exc)))],
        a_key = ALERT_STRIPE_WEBHOOK @ '':event:'' @ event_id,
        a_window = Some WEBHOOK_THROTTLE_SECONDS,
        a_severity = ''critical''\<rparr> (h_settings h)) (\<lambda>_. ret ())"

definition alert_unattributed_checkout :: "handler \<Rightarrow> pyval \<Rightarrow> unit comp" where
  "alert_unattributed_checkout h session =
     bindM (send_admin_alert
       \<lparr>a_category = ALERT_STRIPE_WEBHOOK,
        a_heading = ''A customer was charged but cannot be upgraded'',
        a_details = [(''Stripe session'', dget session ''id''), (''Stripe customer'', dget session ''customer''),
          (''Customer email'', dget (dget session ''customer_details'') ''email''),
          (''Amount'', dget session ''amount_total''), (''Currency'', dget session ''currency''),
          (''Mode'', dget session ''mode'')],
        a_key = ALERT_STRIPE_WEBHOOK @ '':session:'' @ key_text (dget session ''id''),
        a_window = Some WEBHOOK_THROTTLE_SECONDS,
        a_severity = ''critical''\<rparr> (h_settings h)) (\<lambda>_. ret ())"

section \<open>Checkout\<close>

definition billing_geo_from_session :: "pyval \<Rightarrow> pydict" where
  "billing_geo_from_session session =
     (let address = dget (dget session ''customer_details'') ''address'' in
      (if truthy (dget address ''country'') then [(''country'', dget address ''country'')] else [])
      @ (if truthy (dget address ''state'') then [(''state'', dget address ''state'')] else []))"

definition capture_billing_geo :: "pyval \<Rightarrow> pyval \<Rightarrow> unit comp" where
  "capture_billing_geo user_id session =
     (let geo = billing_geo_from_session session in
      if geo = [] then ret ()
      else tryM (run (tq_eq ''id'' user_id (tq_update geo (tq ''users'')))) (\<lambda>_. ret ()))"

definition handle_credit_purchase :: "handler \<Rightarrow> pyval \<Rightarrow> unit comp" where
  "handle_credit_purchase h user_id =
     bindM (tq_execute (tq_single (tq_eq ''id'' user_id (tq_select ''credits_remaining'' (tq ''users''))))) (\<lambda>result.
     let current = int_of (py_or (row_or_empty result ''credits_remaining'') (PInt 0)) in
     thenM (run (tq_eq ''id'' user_id (tq_update [(''credits_remaining'', PInt (current + 1))] (tq ''users''))))
     (thenM (bust_user_cache h user_id)
     (send_email_to_user_id h user_id ''payment_confirmation'' [(''payment_type'', PStr ''credit'')])))"

definition handle_b2b_checkout_completed :: "handler \<Rightarrow> pyval \<Rightarrow> unit comp" where
  "handle_b2b_checkout_completed h session =
     bindM (case h_settings h of Some st \<Rightarrow> ret st | None \<Rightarrow> gets env_settings) (\<lambda>st.
     bindM (create_or_update_subscription_from_checkout st session) (\<lambda>_. ret ()))"

definition allowed_single_prices :: "settings \<Rightarrow> string set" where
  "allowed_single_prices st =
     {STRIPE_PRICE st ''STRIPE_PRICE_SINGLE_USD'', STRIPE_PRICE st ''STRIPE_PRICE_SINGLE_GBP''} - {[]}"

definition credit_refused :: "handler \<Rightarrow> pyval \<Rightarrow> bool" where
  "credit_refused h metadata =
     (case h_settings h of
        None \<Rightarrow> False
      | Some st \<Rightarrow> is_production st \<and>
          (allowed_single_prices st = {}
           \<or> dget metadata ''paymentType'' \<noteq> PStr ''credit''
           \<or> dget metadata ''priceId'' \<notin> PStr ` allowed_single_prices st))"

definition plan_refused :: "handler \<Rightarrow> pyval \<Rightarrow> pyval \<Rightarrow> bool" where
  "plan_refused h metadata plan_type =
     (case h_settings h of
        None \<Rightarrow> False
      | Some st \<Rightarrow> is_production st \<and>
          (let verified_plan = plan_of_price st (dget metadata ''priceId'')
           in \<not> truthy verified_plan \<or> normalize_plan verified_plan \<noteq> plan_type))"

definition handle_checkout_completed :: "handler \<Rightarrow> pyval \<Rightarrow> unit comp" where
  "handle_checkout_completed h session =
     (let metadata = dget session ''metadata''; user_id = dget metadata ''userId'' in
      if \<not> truthy user_id then alert_unattributed_checkout h session
      else if dget session ''mode'' = PStr ''payment'' then
        (if credit_refused h metadata then ret () else handle_credit_purchase h user_id)
      else if dget metadata ''subscriptionKind'' = PStr ''b2b'' then handle_b2b_checkout_completed h session
      else
       (let plan_type = normalize_plan (dget_or metadata ''planType'' (PStr ''professional'')) in
        if plan_refused h metadata plan_type then ret ()
        else
         (let report_limit = table_get PLAN_REPORT_LIMITS plan_type 3 in
          bindM (tryM
            (bindM (fetch (tq_limit 1 (tq_eq ''id'' user_id (tq_select ''plan'' (tq ''users''))))) (\<lambda>rows.
             ret (normalize_plan (py_or (first_or [] rows ''plan'') (PStr ''free'')))))
            (\<lambda>_. ret (PStr ''free''))) (\<lambda>previous_plan.
          bindM uuid4 (\<lambda>i.
          bindM utcnow (\<lambda>now.
          thenM (run (tq_upsert [
            (''id'', i),
            (''user_id'', user_id),
            (''stripe_customer_id'', dget session ''customer''),
            (''stripe_subscription_id'', dget session ''subscription''),
            (''plan_type'', plan_type),
            (''status'', PStr ''active''),
            (''report_limit'', PInt report_limit),
            (''cancel_at_period_end'', PBool False),
            (''current_period_start'', now),
            (''created_at'', now)] ''stripe_subscription_id'' (tq ''subscriptions'')))
          (thenM (run (tq_eq ''id'' user_id (tq_update
             [(''plan'', plan_type), (''user_type'', user_type_for plan_type)] (tq ''users''))))
          (thenM (capture_billing_geo user_id session)
          (thenM (bust_user_cache h user_id)
          (thenM (send_email_to_user_id h user_id ''payment_confirmation''
            [(''plan_type'', plan_type), (''stripe_customer_id'', dget session ''customer''),
             (''stripe_subscription_id'', dget session ''subscription'')])
          (whenM (plan_type \<noteq> PStr ''free'' \<and> plan_type \<noteq> previous_plan)
            (send_email_to_user_id h user_id ''plan_upgraded''
              [(''previous_plan_name'', plan_label previous_plan), (''new_plan_name'', plan_label plan_type)]))))))))))))"

section \<open>Payment intents\<close>

text \<open>These two only write log lines.\<close>

definition handle_payment_succeeded :: "handler \<Rightarrow> pyval \<Rightarrow> unit comp" where
  "handle_payment_succeeded h payment_intent = ret ()"

definition handle_payment_failed :: "handler \<Rightarrow> pyval \<Rightarrow> unit comp" where
  "handle_payment_failed h payment_intent = ret ()"

section \<open>Subscription events\<close>

definition resolve_event_plan :: "handler \<Rightarrow> pyval \<Rightarrow> pyval" where
  "resolve_event_plan h subscription =
     (case h_settings h of
        None \<Rightarrow> PNone
      | Some st \<Rightarrow>
         (let resolved_plan = resolve_plan_from_subscription subscription st;
              sub_metadata = dget subscription ''metadata'' in
          if \<not> truthy resolved_plan \<and> dget sub_metadata ''autoRefund'' = PStr ''true''
          then plan_of_price st (dget sub_metadata ''priceId'') else resolved_plan))"

text \<open>
  What an event says of the schedule behind a pending downgrade, and the plan to trust: the
  resolved one, or the recorded \<open>pending_plan\<close> once the schedule has fired.
\<close>

definition schedule_fired :: "row \<Rightarrow> pyval \<Rightarrow> bool" where
  "schedule_fired pre_row subscription \<longleftrightarrow>
     (truthy (pre_row ''stripe_schedule_id'') \<or> truthy (pre_row ''pending_plan''))
     \<and> \<not> truthy (dget subscription ''schedule'')"

definition plan_to_trust :: "pyval \<Rightarrow> row \<Rightarrow> pyval \<Rightarrow> pyval" where
  "plan_to_trust resolved_plan pre_row subscription =
     (if \<not> truthy resolved_plan \<and> schedule_fired pre_row subscription \<and> truthy (pre_row ''pending_plan'')
      then normalize_plan (pre_row ''pending_plan'') else resolved_plan)"

definition period_cells :: "pyval \<Rightarrow> pydict comp" where
  "period_cells subscription =
     (case stripe_period subscription of (period_start, period_end) \<Rightarrow>
       bindM (if truthy period_start
              then bindM (from_timestamp period_start) (\<lambda>t. ret [(''current_period_start'', t)]) else ret [])
       (\<lambda>start_cell.
       bindM (if truthy period_end
              then bindM (from_timestamp period_end) (\<lambda>t. ret [(''current_period_end'', t)]) else ret [])
       (\<lambda>end_cell. ret (start_cell @ end_cell))))"

definition plan_cells :: "pyval \<Rightarrow> pydict" where
  "plan_cells resolved_plan =
     (if truthy resolved_plan
      then [(''plan_type'', resolved_plan), (''report_limit'', PInt (table_get PLAN_REPORT_LIMITS resolved_plan 3))]
      else [])"

definition mirror_plan :: "handler \<Rightarrow> pyval \<Rightarrow> pyval \<Rightarrow> unit comp" where
  "mirror_plan h user_id resolved_plan =
     thenM (run (tq_eq ''id'' user_id (tq_update
        [(''plan'', resolved_plan), (''user_type'', user_type_for resolved_plan)] (tq ''users''))))
     (bust_user_cache h user_id)"

definition downgrade_context :: "pyval \<Rightarrow> pyval \<Rightarrow> pydict" where
  "downgrade_context previous_plan resolved_plan =
     (let previous = py_or previous_plan (PStr []) in
      [(''previous_plan_name'', PStr (table_get PLAN_LABEL (normalize_plan previous) (title (text_of previous)))),
       (''new_plan_name'', plan_label resolved_plan)])"

definition finish_subscription_update :: "handler \<Rightarrow> pyval \<Rightarrow> row \<Rightarrow> pyval \<Rightarrow> pyval \<Rightarrow> unit comp" where
  "finish_subscription_update h subscription pre_row resolved_plan user_id =
     (if \<not> truthy resolved_plan then ret ()
      else if \<not> truthy user_id then ret ()
      else
       thenM (whenM (schedule_fired pre_row subscription \<and> truthy (pre_row ''pending_plan'')
                \<and> normalize_plan (pre_row ''pending_plan'') = resolved_plan)
         (send_email_to_user_id h user_id ''downgrade_applied''
           (downgrade_context (pre_row ''plan_type'') resolved_plan)))
       (mirror_plan h user_id resolved_plan))"

definition create_row_from_event :: "handler \<Rightarrow> pyval \<Rightarrow> pydict \<Rightarrow> row \<Rightarrow> pyval \<Rightarrow> unit comp" where
  "create_row_from_event h subscription payload pre_row resolved_plan =
     (let subscription_id = dget subscription ''id'';
          sub_metadata = dget subscription ''metadata'';
          meta_user_id = dget sub_metadata ''userId'' in
      if in_production h \<and> \<not> truthy resolved_plan then ret ()
      else if \<not> truthy meta_user_id then ret ()
      else
       (let plan_for_new_row = py_or resolved_plan
              (normalize_plan (py_or (dget sub_metadata ''planType'') (PStr ''professional''))) in
        bindM uuid4 (\<lambda>i.
        bindM utcnow (\<lambda>now.
        thenM (run (tq_upsert (dict_merge [
          (''id'', i),
          (''user_id'', meta_user_id),
          (''stripe_customer_id'', dget subscription ''customer''),
          (''stripe_subscription_id'', subscription_id),
          (''plan_type'', plan_for_new_row),
          (''report_limit'', PInt (table_get PLAN_REPORT_LIMITS plan_for_new_row 3)),
          (''created_at'', now)] payload) ''stripe_subscription_id'' (tq ''subscriptions'')))
        (finish_subscription_update h subscription pre_row plan_for_new_row meta_user_id)))))"

definition handle_subscription_updated :: "handler \<Rightarrow> pyval \<Rightarrow> unit comp" where
  "handle_subscription_updated h subscription =
     (let subscription_id = dget subscription ''id'' in
      if \<not> truthy subscription_id then ret ()
      else
       bindM (update_from_stripe_subscription subscription) (\<lambda>is_b2b.
       if is_b2b then ret ()
       else
        bindM (period_cells subscription) (\<lambda>periods.
        bindM (fetch (tq_limit 1 (tq_eq ''stripe_subscription_id'' subscription_id
          (tq_select ''plan_type, pending_plan, stripe_schedule_id, user_id'' (tq ''subscriptions''))))) (\<lambda>pre_rows.
        let pre_row = first_or [] pre_rows;
            resolved_plan = plan_to_trust (resolve_event_plan h subscription) pre_row subscription;
            payload = [(''status'', dget subscription ''status''),
              (''cancel_at_period_end'', dget_or subscription ''cancel_at_period_end'' (PBool False))]
              @ periods @ plan_cells resolved_plan
              @ (if schedule_fired pre_row subscription
                 then [(''pending_plan'', PNone), (''stripe_schedule_id'', PNone)] else []) in
        bindM (fetch (tq_eq ''stripe_subscription_id'' subscription_id
          (tq_update payload (tq ''subscriptions'')))) (\<lambda>rows.
        case rows of
          [] \<Rightarrow> create_row_from_event h subscription payload pre_row resolved_plan
        | r # _ \<Rightarrow> finish_subscription_update h subscription pre_row resolved_plan (r ''user_id''))))))"

definition handle_subscription_deleted :: "handler \<Rightarrow> pyval \<Rightarrow> unit comp" where
  "handle_subscription_deleted h subscription =
     (let subscription_id = dget subscription ''id'' in
      if \<not> truthy subscription_id then ret ()
      else
       bindM (mark_stripe_subscription_deleted subscription_id) (\<lambda>is_b2b.
       if is_b2b then ret ()
       else
        bindM utcnow (\<lambda>now.
        bindM (fetch (tq_eq ''stripe_subscription_id'' subscription_id (tq_update
          [(''status'', PStr ''cancelled''), (''cancelled_at'', now)] (tq ''subscriptions'')))) (\<lambda>rows.
        case rows of
          [] \<Rightarrow> ret ()
        | r # _ \<Rightarrow>
          (let user_id = r ''user_id'' in
           if \<not> truthy user_id then ret ()
           else
            bindM (fetch (tq_limit 1 (tq_eq ''status'' (PStr ''active'') (tq_eq ''user_id'' user_id
              (tq_select ''id'' (tq ''subscriptions'')))))) (\<lambda>active.
            if active \<noteq> [] then ret ()
            else
             thenM (run (tq_eq ''id'' user_id (tq_update
               [(''plan'', PStr ''free''), (''user_type'', PStr ''free'')] (tq ''users''))))
             (thenM (bust_user_cache h user_id)
             (send_email_to_user_id h user_id ''subscription_downgraded'' []))))))))"

definition handle_schedule_released :: "handler \<Rightarrow> pyval \<Rightarrow> unit comp" where
  "handle_schedule_released h schedule =
     (let subscription_id = dget schedule ''subscription'' in
      if \<not> truthy subscription_id then ret ()
      else run (tq_eq ''stripe_subscription_id'' subscription_id (tq_update
        [(''pending_plan'', PNone), (''stripe_schedule_id'', PNone)] (tq ''subscriptions''))))"

section \<open>Invoices\<close>

definition refund_if_test :: "handler \<Rightarrow> pyval \<Rightarrow> unit comp" where
  "refund_if_test h invoice =
     (case h_settings h of
        None \<Rightarrow> ret ()
      | Some st \<Rightarrow>
         whenM (STRIPE_TEST_BILLING_ENABLED st)
          (tryM (bindM (auto_refund_test_invoice invoice) (\<lambda>_. ret ())) (\<lambda>_. ret ())))"

definition subscription_of_customer :: "pyval \<Rightarrow> row list comp" where
  "subscription_of_customer customer_id =
     fetch (tq_limit 1 (tq_eq ''stripe_customer_id'' customer_id
       (tq_select ''user_id, past_due_since'' (tq ''subscriptions''))))"

definition handle_invoice_paid :: "handler \<Rightarrow> pyval \<Rightarrow> unit comp" where
  "handle_invoice_paid h invoice =
     thenM (refund_if_test h invoice)
     (let customer_id = dget invoice ''customer'' in
      if \<not> truthy customer_id then ret ()
      else
       bindM (subscription_of_customer customer_id) (\<lambda>rows.
       case rows of
         [] \<Rightarrow> ret ()
       | row # _ \<Rightarrow>
         if row ''past_due_since'' \<noteq> PNone
         then
          thenM (run (tq_eq ''stripe_customer_id'' customer_id (tq_update
            [(''status'', PStr ''active''), (''past_due_since'', PNone)] (tq ''subscriptions''))))
          (send_email_to_user_id h (row ''user_id'') ''subscription_recovered''
            [(''invoice_id'', dget invoice ''id'')])
         else
          send_email_to_user_id h (row ''user_id'') ''payment_confirmation''
            [(''invoice_id'', dget invoice ''id''), (''amount_paid'', dget invoice ''amount_paid'')]))"

definition handle_invoice_payment_failed :: "handler \<Rightarrow> pyval \<Rightarrow> unit comp" where
  "handle_invoice_payment_failed h invoice =
     (let customer_id = dget invoice ''customer'' in
      if \<not> truthy customer_id then ret ()
      else
       bindM (subscription_of_customer customer_id) (\<lambda>rows.
       case rows of
         [] \<Rightarrow> ret ()
       | row # _ \<Rightarrow>
         bindM utcnow (\<lambda>now.
         thenM (run (tq_eq ''stripe_customer_id'' customer_id (tq_update
           ([(''status'', PStr ''past_due'')]
            @ (if \<not> truthy (row ''past_due_since'') then [(''past_due_since'', now)] else []))
           (tq ''subscriptions''))))
         (whenM (truthy (row ''user_id''))
           (send_email_to_user_id h (row ''user_id'') ''payment_failed''
             [(''invoice_id'', dget invoice ''id''), (''amount_due'', dget invoice ''amount_due''),
              (''next_payment_attempt'', dget invoice ''next_payment_attempt'')])))))"

section \<open>Dispatch\<close>

definition event_handler :: "handler \<Rightarrow> string \<Rightarrow> (pyval \<Rightarrow> unit comp) option" where
  "event_handler h event_type = map_of [
     (''checkout.session.completed'', handle_checkout_completed h),
     (''payment_intent.succeeded'', handle_payment_succeeded h),
     (''payment_intent.payment_failed'', handle_payment_failed h),
     (''customer.subscription.created'', handle_subscription_updated h),
     (''customer.subscription.updated'', handle_subscription_updated h),
     (''customer.subscription.deleted'', handle_subscription_deleted h),
     (''invoice.paid'', handle_invoice_paid h),
     (''invoice.payment_failed'', handle_invoice_payment_failed h),
     (''subscription_schedule.released'', handle_schedule_released h)] event_type"

definition already_processed :: "string \<Rightarrow> bool comp" where
  "already_processed event_id =
     bindM (fetch (tq_limit 1 (tq_eq ''event_id'' (PStr event_id)
       (tq_select ''event_id'' (tq ''processed_webhook_events''))))) (\<lambda>existing.
     ret (existing \<noteq> []))"

definition record_processed :: "string \<Rightarrow> unit comp" where
  "record_processed event_id =
     bindM utcnow (\<lambda>now.
     tryM (run (tq_insert [(''event_id'', PStr event_id), (''processed_at'', now)]
            (tq ''processed_webhook_events'')))
       (\<lambda>_. ret ()))"

definition handle_event :: "handler \<Rightarrow> string \<Rightarrow> string \<Rightarrow> pyval \<Rightarrow> unit comp" where
  "handle_event h event_id event_type data_object =
     bindM (already_processed event_id) (\<lambda>duplicate.
     if duplicate then ret ()
     else
      thenM (case event_handler h event_type of
          None \<Rightarrow> ret ()
        | Some handle \<Rightarrow>
            tryM (handle data_object)
              (\<lambda>exc. thenM (alert_webhook_failure h event_id event_type data_object exc) (throw exc)))
      (record_processed event_id))"

section \<open>What the handlers touch\<close>

definition entitlement_tables :: "string set" where
  "entitlement_tables = {''users'', ''subscriptions'', ''b2b_subscriptions''}"

context effect_frame
begin

lemma frame_stripe_service:
  "keeps I (auto_refund_test_invoice invoice)"
  unfolding auto_refund_test_invoice_def Let_def by auto

lemma frame_from_timestamp [intro!]: "keeps I (from_timestamp v)"
  unfolding from_timestamp_def by auto

lemma frame_period_cells [intro!]: "keeps I (period_cells s)"
  unfolding period_cells_def by auto

lemma frame_b2b_product [intro!]: "keeps I (b2b_product p)"
  unfolding b2b_product_def by auto

lemma frame_get_price_id [intro!]: "keeps I (get_price_id st p c)"
  unfolding get_price_id_def Let_def by auto

lemma frame_b2b_get_user [intro!]: "keeps I (b2b_get_user u)"
  unfolding b2b_get_user_def by auto

lemma frame_notify_active [intro!]: "keeps I (notify_subscription_active st s)"
  unfolding notify_subscription_active_def by auto

lemma frame_dispatch_email [intro!]: "keeps I (dispatch_email h e t c)"
  unfolding dispatch_email_def by auto

lemma frame_send_email_to_user_id [intro!]: "keeps I (send_email_to_user_id h u t c)"
  unfolding send_email_to_user_id_def by auto

lemma frame_bust_user_cache [intro!]: "keeps I (bust_user_cache h u)"
  unfolding bust_user_cache_def by auto

lemma frame_alerts [intro!]:
  "keeps I (alert_webhook_failure h i t d e)" "keeps I (alert_unattributed_checkout h s)"
  unfolding alert_webhook_failure_def alert_unattributed_checkout_def by auto

lemma frame_refund [intro!]: "keeps I (refund_if_test h invoice)"
  unfolding refund_if_test_def using frame_stripe_service by auto

lemma frame_b2b_create:
  assumes "\<And>p c. allowed (tq_upsert p c (tq ''b2b_subscriptions''))"
  shows "keeps I (create_or_update_subscription_from_checkout st s)"
  unfolding create_or_update_subscription_from_checkout_def Let_def
  using assms by (auto split: pyval.split)

text \<open>The frame of every handler, given that the three entitlement tables may be written.\<close>

lemma frame_checkout:
  assumes w: "\<And>q. q_table q \<in> {''subscriptions'', ''b2b_subscriptions''} \<Longrightarrow> allowed q"
    and u: "\<And>p. \<not> has_key p ''id'' \<Longrightarrow> allowed (update_eq ''users'' ''id'' (dget (dget s ''metadata'') ''userId'') p)"
  shows "keeps I (handle_checkout_completed h s)"
proof -
  have [intro!]: "allowed (tq_upsert p c (tq ''subscriptions''))" "allowed (tq_upsert p c (tq ''b2b_subscriptions''))"
    for p c
    using w by (simp_all add: builder_defs)
  have credit: "keeps I (handle_credit_purchase h (dget (dget s ''metadata'') ''userId''))"
    unfolding handle_credit_purchase_def Let_def by (auto intro!: u)
  have geo: "keeps I (capture_billing_geo (dget (dget s ''metadata'') ''userId'') s)"
    unfolding capture_billing_geo_def Let_def by (auto intro!: u simp: billing_geo_from_session_def Let_def)
  have b2b: "keeps I (create_or_update_subscription_from_checkout st s)" for st
    by (rule frame_b2b_create) auto
  have "keeps I (handle_b2b_checkout_completed h s)"
    unfolding handle_b2b_checkout_completed_def using b2b by auto
  then show ?thesis
    unfolding handle_checkout_completed_def Let_def using credit geo by (auto intro!: u)
qed

lemma frame_event_handler:
  assumes w: "\<And>q. q_table q \<in> entitlement_tables \<Longrightarrow> allowed q"
    and h: "event_handler h event_type = Some handle"
  shows "keeps I (handle d)"
proof -
  have [intro!]: "allowed (update_eq t k v p)" "allowed (tq_upsert p c (tq t))"
    if "t \<in> entitlement_tables" for t k v p c
    using w that by (simp_all add: builder_defs)
  have [simp]: "''users'' \<in> entitlement_tables" "''subscriptions'' \<in> entitlement_tables"
    "''b2b_subscriptions'' \<in> entitlement_tables"
    by (simp_all add: entitlement_tables_def)
  have checkout: "keeps I (handle_checkout_completed h s)" for s
    by (rule frame_checkout) (auto simp: entitlement_tables_def intro: w)
  have mirror: "keeps I (mirror_plan h u p)" for u p
    unfolding mirror_plan_def by auto
  have finish: "keeps I (finish_subscription_update h s r p u)" for s r p u
    unfolding finish_subscription_update_def using mirror by auto
  have new: "keeps I (create_row_from_event h s p r q)" for s p r q
    unfolding create_row_from_event_def Let_def using finish by auto
  have "keeps I (update_from_stripe_subscription s)" for s
    unfolding update_from_stripe_subscription_def Let_def by auto
  then have updated: "keeps I (handle_subscription_updated h s)" for s
    unfolding handle_subscription_updated_def Let_def using finish new by auto
  have "keeps I (mark_stripe_subscription_deleted s)" for s
    unfolding mark_stripe_subscription_deleted_def by auto
  then have deleted: "keeps I (handle_subscription_deleted h s)" for s
    unfolding handle_subscription_deleted_def Let_def by auto
  have cust: "keeps I (subscription_of_customer c)" for c
    unfolding subscription_of_customer_def by auto
  have paid: "keeps I (handle_invoice_paid h s)" for s
    unfolding handle_invoice_paid_def Let_def using cust by auto
  have failed: "keeps I (handle_invoice_payment_failed h s)" for s
    unfolding handle_invoice_payment_failed_def Let_def using cust by auto
  have released: "keeps I (handle_schedule_released h s)" for s
    unfolding handle_schedule_released_def Let_def by auto
  show ?thesis
    using h checkout updated deleted paid failed released
    by (auto simp: event_handler_def handle_payment_succeeded_def handle_payment_failed_def split: if_splits)
qed

end

end
