(* ===== verification/Sample_World.thy ===== *)
theory Sample_World
  imports Query_Facts
begin

text \<open>
  A concrete environment for the instances at which the theorems are applied: settings of a
  production deployment with every price configured, and a world with given tables in which
  every statement succeeds and Stripe answers nothing.
\<close>

definition sample_settings :: settings where
  "sample_settings = \<lparr>
    APP_ENV = ''production'', DEBUG = False,
    FRONTEND_URL = ''https://app.example.com'', BACKEND_URL = ''https://api.example.com'',
    ALLOWED_HOSTS = [''api.example.com''], DB_URL = ''postgresql://db'', AUTO_CREATE_DB_SCHEMA = False,
    MAX_REQUEST_BODY_BYTES = 10485760, JWT_SECRET_KEY = replicate 48 (CHR ''k''),
    AUTH_COOKIE_ENABLED = True, AUTH_COOKIE_SECURE = True,
    REDIS_URL = ''redis://cache'', RATE_LIMIT_ENABLED = True, RATE_LIMIT_STORAGE_URI = [],
    AWS_ACCESS_KEY_ID = ''a'', AWS_SECRET_ACCESS_KEY = ''s'', AWS_S3_BUCKET_NAME = ''b'',
    AWS_S3_REPORTS_PREFIX = ''reports'', STORAGE_ROOT = ''./storage'',
    STRIPE_SECRET_KEY = ''sk'', STRIPE_PROMO_COUPON_ID = ''LAUNCH'', STRIPE_PROMO_ONEOFF_COUPON_ID = [],
    STRIPE_PROMO_PERCENT_OFF = 49, STRIPE_PROMO_LABEL = ''45% off'', STRIPE_PROMO_PLANS = ''professional, single'',
    STRIPE_PRICE = (\<lambda>name. ''price_'' @ name),
    STRIPE_TEST_BILLING_ENABLED = False, STRIPE_TEST_BILLING_INTERVAL_DAYS = 30,
    STRIPE_TEST_BILLING_UNIT_AMOUNT = 100, BREVO_API_KEY = [], CONTACT_EMAIL = ''ops@example.com'',
    B2B_ADMIN_ALERT_EMAIL = [], ADMIN_ALERT_EMAIL = [], ADMIN_ALERT_THROTTLE_SECONDS = 900,
    CORS_ORIGINS = [''https://app.example.com'']\<rparr>"

definition sample_world :: "(string \<times> row list) list \<Rightarrow> world" where
  "sample_world ts = \<lparr>
    tables = (\<lambda>t. case map_of ts t of None \<Rightarrow> [] | Some rs \<Rightarrow> rs),
    faults = [], max_rows = 1000, clock = 1000000,
    uuid_source = (\<lambda>n. ''uuid'' @ replicate n (CHR ''+'')), uuids_used = 0,
    cache = (\<lambda>_. PNone), redis_up = True, outbox = [], mail_up = True, deferred = [],
    stripe_api = (\<lambda>_ _ _. Inl (StripeError ''unreachable'')), stripe_log = [],
    throttle = [], env_settings = sample_settings, files = (\<lambda>_. None), storage_up = True\<rparr>"

lemma sample_world_simps [simp]:
  "tables (sample_world ts) t = (case map_of ts t of None \<Rightarrow> [] | Some rs \<Rightarrow> rs)"
  "faults (sample_world ts) = []" "clock (sample_world ts) = 1000000"
  "uuid_source (sample_world ts) n = ''uuid'' @ replicate n (CHR ''+'')" "uuids_used (sample_world ts) = 0"
  "healthy (sample_world ts)" "max_rows (sample_world ts) = 1000" "throttle (sample_world ts) = []"
  "stripe_log (sample_world ts) = []" "env_settings (sample_world ts) = sample_settings"
  "mail_up (sample_world ts)" "redis_up (sample_world ts)" "outbox (sample_world ts) = []"
  "files (sample_world ts) k = None" "storage_up (sample_world ts)"
  "stripe_api (sample_world ts) l op args = Inl (StripeError ''unreachable'')"
  by (simp_all add: sample_world_def healthy_def)

lemma sample_production: "is_production sample_settings"
  by (simp add: is_production_def sample_settings_def strip_def is_space_def lower_def lower_char_def)

end
