(* ===== verification/Webhook_Facts.thy ===== *)
theory Webhook_Facts
  imports Webhooks Sample_World
begin

text \<open>
  What \<open>Webhooks\<close> guarantees: the processed-events marker, the effect of each event on the
  entitlement tables, and what an event leaves alone.
\<close>

section \<open>Delivery of an event\<close>

abbreviation markers :: "world \<Rightarrow> row list" where
  "markers w \<equiv> tables w ''processed_webhook_events''"

lemma handler_keeps_markers:
  "event_handler h event_type = Some handle
    \<Longrightarrow> keeps (tables_inv (\<lambda>ts. R (ts ''processed_webhook_events''))) (handle d)"
  by (rule table_frame.frame_event_handler) (auto simp: entitlement_tables_def)

lemma handler_keeps_healthy: "event_handler h event_type = Some handle \<Longrightarrow> keeps healthy (handle d)"
  by (rule healthy_frame.frame_event_handler) auto

lemma unchanged_markers:
  assumes "\<And>R. keeps (tables_inv (\<lambda>ts. R (ts t))) m"
  shows "tables (snd (m w)) t = tables w t"
  using keepsD [OF assms [of "\<lambda>x. x = tables w t"], of w] by (simp add: tables_inv_def)

lemma record_processed_returns: "\<exists>w'. record_processed i w = (Inr (), w')"
  by (simp add: record_processed_def world_simps split: prod.split sum.split)

lemma already_processed_healthy:
  "healthy w \<Longrightarrow> already_processed i w = (Inr (rows_with w ''processed_webhook_events'' ''event_id'' (PStr i) \<noteq> []), w)"
  by (simp add: already_processed_def world_simps fetch_select_eq table_defs)

lemma already_processed_tables: "tables (snd (already_processed i w)) t = tables w t"
proof -
  have "keeps (tables_inv (\<lambda>ts. R (ts t))) (already_processed i)" for R
    unfolding already_processed_def by auto
  then show ?thesis by (rule unchanged_markers)
qed

lemma record_processed_healthy:
  assumes "healthy w" and "rows_with w ''processed_webhook_events'' ''event_id'' (PStr i) = []"
  shows "record_processed i w = (Inr (), set_table ''processed_webhook_events''
    (markers w @ [new_row ProcessedWebhookEvent_table (clock w)
       [(''event_id'', PStr i), (''processed_at'', PTime (clock w))]]) w)"
proof -
  have "insertable ProcessedWebhookEvent_table (new_row ProcessedWebhookEvent_table (clock w)
      [(''event_id'', PStr i), (''processed_at'', PTime (clock w))]) (markers w)"
    using assms(2) by (auto simp: insertable_def new_row_def not_null_def clash_def table_defs
        list_all_iff filter_empty_conv)
  then have "run (tq_insert [(''event_id'', PStr i), (''processed_at'', PTime (clock w))]
      (tq ''processed_webhook_events'')) w = (Inr (), set_table ''processed_webhook_events''
    (markers w @ [new_row ProcessedWebhookEvent_table (clock w)
       [(''event_id'', PStr i), (''processed_at'', PTime (clock w))]]) w)"
    using assms(1) by (intro run_insert) (auto simp: table_defs)
  then show ?thesis by (simp add: record_processed_def world_simps)
qed

text \<open>A failed delivery is not marked, whatever statement failed, so Stripe's retry runs it again.\<close>

lemma failed_event_not_marked:
  assumes "handle_event h event_id event_type d w = (Inl e, w')"
  shows "tables w' ''processed_webhook_events'' = tables w ''processed_webhook_events''"
proof (cases "already_processed event_id w")
  case (Pair r w1)
  have w1: "markers w1 = markers w"
    using already_processed_tables [of event_id w] Pair by (metis snd_conv)
  show ?thesis
  proof (cases r)
    case (Inl x)
    then show ?thesis using assms Pair w1 by (simp add: handle_event_def world_simps)
  next
    case (Inr dup)
    with assms Pair have nd: "\<not> dup" by (auto simp: handle_event_def world_simps)
    show ?thesis
    proof (cases "event_handler h event_type")
      case None
      then show ?thesis
        using assms Pair Inr nd record_processed_returns [of event_id w1]
        by (auto simp: handle_event_def world_simps)
    next
      case (Some handle)
      obtain r2 w2 where 2: "handle d w1 = (r2, w2)" by fastforce
      have w2: "markers w2 = markers w1"
        using unchanged_markers [OF handler_keeps_markers [OF Some], of d w1] 2 by (metis snd_conv)
      show ?thesis
      proof (cases r2)
        case (Inr u)
        then show ?thesis
          using assms Pair \<open>r = Inr dup\<close> nd Some 2 record_processed_returns [of event_id w2]
          by (auto simp: handle_event_def world_simps)
      next
        case (Inl x)
        obtain r3 w3 where 3: "alert_webhook_failure h event_id event_type d x w2 = (r3, w3)" by fastforce
        have "markers w3 = markers w2"
          using unchanged_markers [OF table_frame.frame_alerts(1), of h event_id event_type d x w2] 3
          by (metis snd_conv)
        then show ?thesis
          using assms Pair \<open>r = Inr dup\<close> nd Some 2 3 Inl w1 w2
          by (auto simp: handle_event_def world_simps split: sum.splits)
      qed
    qed
  qed
qed

lemma processed_event_is_skipped:
  assumes "healthy w" and "handle_event h event_id event_type d w = (Inr (), w1)"
  shows "handle_event h event_id event_type d' w1 = (Inr (), w1)"
proof -
  have "healthy w1 \<and> rows_with w1 ''processed_webhook_events'' ''event_id'' (PStr event_id) \<noteq> []"
  proof (cases "rows_with w ''processed_webhook_events'' ''event_id'' (PStr event_id) = []")
    case False
    then show ?thesis using assms by (auto simp: handle_event_def already_processed_healthy world_simps)
  next
    case True
    define m where "m = (case event_handler h event_type of None \<Rightarrow> ret ()
        | Some handle \<Rightarrow> tryM (handle d)
            (\<lambda>exc. thenM (alert_webhook_failure h event_id event_type d exc) (throw exc)))"
    have run: "thenM m (record_processed event_id) w = (Inr (), w1)"
      using assms True by (simp add: handle_event_def already_processed_healthy world_simps m_def)
    have "keeps healthy m"
      unfolding m_def by (auto intro: handler_keeps_healthy healthy_frame.frame_alerts split: option.split)
    moreover have "keeps (tables_inv (\<lambda>ts. R (ts ''processed_webhook_events''))) m" for R
      unfolding m_def by (auto intro: handler_keeps_markers table_frame.frame_alerts split: option.split)
    then have "markers (snd (m w)) = markers w" by (rule unchanged_markers)
    ultimately show ?thesis
      using run keepsD [of healthy m w] assms(1) True
      by (auto simp: thenM_def bindM_def record_processed_healthy new_row_def table_defs
          split: prod.splits sum.splits)
  qed
  then show ?thesis by (simp add: handle_event_def already_processed_healthy world_simps)
qed

section \<open>Checkout\<close>

lemma unchanged_table:
  assumes "\<And>R. keeps (tables_inv (\<lambda>ts. R (ts t))) m"
  shows "tables (snd (m w)) t = tables w t"
  using keepsD [OF assms [of "\<lambda>x. x = tables w t"], of w] by (simp add: tables_inv_def)

lemma unchanged_tables:
  assumes "\<And>P. keeps (tables_inv P) m"
  shows "tables (snd (m w)) = tables w"
  using keepsD [OF assms [of "\<lambda>x. x = tables w"], of w] by (simp add: tables_inv_def)

lemma single_price_is_catalogued:
  "pid \<in> allowed_single_prices st \<Longrightarrow> plan_of_price st (PStr pid) \<noteq> PNone"
proof -
  assume "pid \<in> allowed_single_prices st"
  then have "pid \<noteq> []" and "(pid, ''professional'') \<in> set (raw_price_map st)"
    by (auto simp: allowed_single_prices_def raw_price_map_def)
  then have "pid \<in> fst ` set (rev (filter (\<lambda>(price_id, _). price_id \<noteq> []) (raw_price_map st)))"
    by force
  then have "build_price_to_plan_map st pid \<noteq> None"
    unfolding build_price_to_plan_map_def map_of_eq_None_iff by simp
  then show ?thesis by (auto simp: plan_of_price_def split: option.split)
qed

lemma keeps_alert_unattributed: "keeps (tables_inv P) (alert_unattributed_checkout h s)"
  unfolding alert_unattributed_checkout_def by auto

text \<open>
  In production a price the catalogue does not list never mints an entitlement.
\<close>

lemma unknown_price_mints_nothing:
  assumes "h_settings h = Some st" and "is_production st"
    and "plan_of_price st (dget (dget session ''metadata'') ''priceId'') = PNone"
    and "dget session ''mode'' = PStr ''payment'' \<or> dget (dget session ''metadata'') ''subscriptionKind'' \<noteq> PStr ''b2b''"
  shows "tables (snd (handle_checkout_completed h session w)) = tables w"
proof -
  have "credit_refused h (dget session ''metadata'')"
    using assms single_price_is_catalogued [of _ st] by (auto simp: credit_refused_def)
  moreover have "plan_refused h (dget session ''metadata'') p" for p
    using assms by (auto simp: plan_refused_def)
  ultimately have "handle_checkout_completed h session
      = (if truthy (dget (dget session ''metadata'') ''userId'') then ret () else alert_unattributed_checkout h session)"
    using assms(4) by (auto simp: handle_checkout_completed_def Let_def)
  then show ?thesis
    by (auto intro!: unchanged_tables keeps_alert_unattributed)
qed

text \<open>A checkout of a B2B contract writes the table of contracts and no other.\<close>

lemma b2b_checkout_frame:
  assumes "dget session ''mode'' \<noteq> PStr ''payment''" and "dget (dget session ''metadata'') ''subscriptionKind'' = PStr ''b2b''"
    and "t \<noteq> ''b2b_subscriptions''"
  shows "tables (snd (handle_checkout_completed h session w)) t = tables w t"
proof (rule unchanged_table)
  fix R
  note [intro!] = table_frame.frame_alerts
  have "keeps (tables_inv (\<lambda>ts. R (ts t))) (create_or_update_subscription_from_checkout st session)" for st
    by (rule table_frame.frame_b2b_create) (use assms(3) in \<open>simp add: builder_defs\<close>)
  then have "keeps (tables_inv (\<lambda>ts. R (ts t))) (handle_b2b_checkout_completed h session)"
    unfolding handle_b2b_checkout_completed_def by auto
  then show "keeps (tables_inv (\<lambda>ts. R (ts t))) (handle_checkout_completed h session)"
    using assms(1,2) by (auto simp: handle_checkout_completed_def Let_def)
qed

definition same_for_others :: "pyval \<Rightarrow> row list \<Rightarrow> world \<Rightarrow> bool" where
  "same_for_others u rs w \<longleftrightarrow> filter (\<lambda>r. r ''id'' \<noteq> u) (tables w ''users'') = rs"

lemma update_others: "\<not> has_key p ''id'' \<Longrightarrow>
  filter (\<lambda>r. r ''id'' \<noteq> u) (update_rows [F_eq ''id'' u] p rs) = filter (\<lambda>r. r ''id'' \<noteq> u) rs"
  by (induction rs) (auto simp: has_key_map_of)

interpretation other_users: effect_frame "same_for_others u rs"
  "\<lambda>q. q_action q = A_select \<or> q_table q \<noteq> ''users'' \<or> (\<exists>p. \<not> has_key p ''id'' \<and> q = update_eq ''users'' ''id'' u p)"
  for u rs
proof -
  have eq: "same_for_others u rs = tables_inv (\<lambda>ts. filter (\<lambda>r. r ''id'' \<noteq> u) (ts ''users'') = rs)" for u rs
    by (rule ext) (simp add: same_for_others_def tables_inv_def)
  have "keeps (tables_inv (\<lambda>ts. filter (\<lambda>r. r ''id'' \<noteq> u) (ts ''users'') = rs)) (tq_execute q)"
    if "q_table q \<noteq> ''users''" for u q rs
    using keeps_other_table [OF that] .
  moreover have "keeps (tables_inv (\<lambda>ts. filter (\<lambda>r. r ''id'' \<noteq> u) (ts ''users'') = rs)) (tq_execute (update_eq ''users'' ''id'' u p))"
    if "\<not> has_key p ''id''" for u p rs
    by (rule keeps_query_update) (use that in \<open>auto simp: builder_defs update_others\<close>)
  ultimately have q: "keeps (tables_inv (\<lambda>ts. filter (\<lambda>r. r ''id'' \<noteq> u) (ts ''users'') = rs)) (tq_execute q)"
    if "q_action q = A_select \<or> q_table q \<noteq> ''users'' \<or> (\<exists>p. \<not> has_key p ''id'' \<and> q = update_eq ''users'' ''id'' u p)"
    for u q rs
    using that by (elim disjE exE conjE) (auto intro: keeps_query_select)
  show "effect_frame (same_for_others u rs)
      (\<lambda>q. q_action q = A_select \<or> q_table q \<noteq> ''users'' \<or> (\<exists>p. \<not> has_key p ''id'' \<and> q = update_eq ''users'' ''id'' u p))"
    for u rs
    unfolding eq by unfold_locales (rule q, assumption | auto)+
qed

lemma checkout_frames_users:
  "filter (\<lambda>r. r ''id'' \<noteq> dget (dget session ''metadata'') ''userId'')
     (tables (snd (handle_checkout_completed h session w)) ''users'')
   = filter (\<lambda>r. r ''id'' \<noteq> dget (dget session ''metadata'') ''userId'') (tables w ''users'')"
proof -
  let ?u = "dget (dget session ''metadata'') ''userId''"
  have "keeps (same_for_others ?u (filter (\<lambda>r. r ''id'' \<noteq> ?u) (tables w ''users''))) (handle_checkout_completed h session)"
    by (rule other_users.frame_checkout) auto
  from keepsD [OF this, of w] show ?thesis by (simp add: same_for_others_def)
qed


section \<open>The plan a checkout grants\<close>

lemma capture_billing_geo_returns: "\<exists>w'. capture_billing_geo u s w = (Inr (), w')"
  by (simp add: capture_billing_geo_def Let_def world_simps split: prod.split sum.split)

lemma bust_user_cache_returns: "\<exists>w'. bust_user_cache h u w = (Inr (), w')"
  by (simp add: bust_user_cache_def world_simps split: option.split)

lemma dispatch_email_returns: "\<exists>w'. dispatch_email h e t c w = (Inr (), w')"
  by (simp add: dispatch_email_def world_simps split: option.split prod.split sum.split)

lemma send_email_to_user_id_returns: "\<exists>w'. send_email_to_user_id h u t c w = (Inr (), w')"
  using dispatch_email_returns
  by (auto simp: send_email_to_user_id_def world_simps split: option.split prod.split sum.split)

lemma keeps_capture_billing_geo:
  assumes "\<And>ts p. set (map fst p) \<subseteq> {''country'', ''state''} \<Longrightarrow> P ts
    \<Longrightarrow> P (ts(''users'' := update_rows [F_eq ''id'' u] p (ts ''users'')))"
  shows "keeps (tables_inv P) (capture_billing_geo u s)"
proof -
  have "keeps (tables_inv P) (tq_execute (update_eq ''users'' ''id'' u (billing_geo_from_session s)))"
    by (rule keeps_query_update) (auto simp: builder_defs billing_geo_from_session_def Let_def intro!: assms)
  then show ?thesis unfolding capture_billing_geo_def Let_def run_def by auto
qed

abbreviation plan_write :: "pyval \<Rightarrow> pydict" where
  "plan_write p \<equiv> [(''plan'', p), (''user_type'', user_type_for p)]"

lemma run_plan_write:
  assumes "healthy w" and "truthy p"
  shows "run (update_eq ''users'' ''id'' u (plan_write p)) w
    = (Inr (), set_table ''users'' (update_rows [F_eq ''id'' u] (plan_write p) (tables w ''users'')) w)"
proof -
  have "p \<noteq> PNone" using assms(2) by auto
  then show ?thesis
    using assms by (intro run_update_eq) (auto simp: table_defs updatable_def not_null_def user_type_for_def)
qed

text \<open>What holds once \<open>u\<close> has plan \<open>p\<close> through the Stripe subscription \<open>sid\<close>.\<close>

definition user_has :: "pyval \<Rightarrow> pyval \<Rightarrow> row list \<Rightarrow> bool" where
  "user_has u p rs \<longleftrightarrow> (\<forall>r \<in> set rs. r ''id'' = u \<longrightarrow> r ''plan'' = p \<and> r ''user_type'' = user_type_for p)"

definition subscription_has :: "pyval \<Rightarrow> pyval \<Rightarrow> pyval \<Rightarrow> row list \<Rightarrow> bool" where
  "subscription_has u p sid rs \<longleftrightarrow>
     (\<exists>r \<in> set rs. r ''stripe_subscription_id'' = sid)
     \<and> (\<forall>r \<in> set rs. r ''stripe_subscription_id'' = sid \<longrightarrow>
          r ''user_id'' = u \<and> r ''plan_type'' = p \<and> r ''status'' = PStr ''active''
          \<and> r ''report_limit'' = PInt (table_get PLAN_REPORT_LIMITS p 3))"

definition entitled :: "pyval \<Rightarrow> pyval \<Rightarrow> pyval \<Rightarrow> (string \<Rightarrow> row list) \<Rightarrow> bool" where
  "entitled u p sid ts \<longleftrightarrow> user_has u p (ts ''users'') \<and> subscription_has u p sid (ts ''subscriptions'')"

lemma keeps_entitled_geo: "keeps (tables_inv (entitled u p sid)) (capture_billing_geo u s)"
proof (rule keeps_capture_billing_geo)
  fix ts and geo :: pydict
  assume k: "set (map fst geo) \<subseteq> {''country'', ''state''}" and e: "entitled u p sid ts"
  have "map_of geo ''plan'' = None" "map_of geo ''user_type'' = None" "map_of geo ''id'' = None"
    using k by (auto simp: map_of_eq_None_iff)
  then have same: "set_cells geo r ''plan'' = r ''plan''" "set_cells geo r ''user_type'' = r ''user_type''"
    "set_cells geo r ''id'' = r ''id''" for r
    by simp_all
  have old: "r ''plan'' = p \<and> r ''user_type'' = user_type_for p" if "r \<in> set (ts ''users'')" "r ''id'' = u" for r
    using e that unfolding entitled_def user_has_def by blast
  have "r ''plan'' = p \<and> r ''user_type'' = user_type_for p"
    if r: "r \<in> set (update_rows [F_eq ''id'' u] geo (ts ''users''))" "r ''id'' = u" for r
  proof -
    obtain r0 where r0: "r0 \<in> set (ts ''users'')" and c: "r = (if r0 ''id'' = u then set_cells geo r0 else r0)"
      using r(1) by (auto simp: set_update_rows simp del: set_cells_apply)
    show ?thesis using old [OF r0] r(2) same [of r0] c by (cases "r0 ''id'' = u") (simp_all del: set_cells_apply)
  qed
  then have "user_has u p (update_rows [F_eq ''id'' u] geo (ts ''users''))"
    unfolding user_has_def by blast
  then show "entitled u p sid (ts(''users'' := update_rows [F_eq ''id'' u] geo (ts ''users'')))"
    using e by (simp add: entitled_def)
qed

definition checkout_row :: "pyval \<Rightarrow> pyval \<Rightarrow> pyval \<Rightarrow> pyval \<Rightarrow> pyval \<Rightarrow> pyval \<Rightarrow> pydict" where
  "checkout_row i u c sid p now = [
     (''id'', i), (''user_id'', u), (''stripe_customer_id'', c), (''stripe_subscription_id'', sid),
     (''plan_type'', p), (''status'', PStr ''active''), (''report_limit'', PInt (table_get PLAN_REPORT_LIMITS p 3)),
     (''cancel_at_period_end'', PBool False), (''current_period_start'', now), (''created_at'', now)]"

lemma split_subscription_id [simp]: "split_columns ''stripe_subscription_id'' = [''stripe_subscription_id'']"
  by (simp add: split_columns_def strip_def is_space_def)

lemma run_checkout_upsert:
  assumes "healthy w" and "rows_with w ''subscriptions'' ''id'' (PStr i) = []" and "sid \<noteq> PNone"
  shows "run (tq_upsert (checkout_row (PStr i) u c sid p (PTime n)) ''stripe_subscription_id'' (tq ''subscriptions'')) w
    = (Inr (), set_table ''subscriptions'' (upserted Subscription_table (clock w) ''stripe_subscription_id''
         (checkout_row (PStr i) u c sid p (PTime n)) (tables w ''subscriptions'')) w)"
proof (rule run_upsert)
  show "insertable Subscription_table (new_row Subscription_table (clock w) (checkout_row (PStr i) u c sid p (PTime n)))
      (tables w ''subscriptions'')"
    using assms(2) by (auto simp: insertable_def new_row_def not_null_def clash_def table_defs checkout_row_def
        list_all_iff filter_empty_conv)
qed (use assms in \<open>auto simp: table_defs checkout_row_def updatable_def not_null_def\<close>)

lemma upserted_checkout_row:
  assumes "r \<in> set (upserted Subscription_table n ''stripe_subscription_id''
      (checkout_row i u c sid p now) rs)"
    and "r ''stripe_subscription_id'' = sid"
  shows "r ''user_id'' = u \<and> r ''plan_type'' = p \<and> r ''status'' = PStr ''active''
    \<and> r ''report_limit'' = PInt (table_get PLAN_REPORT_LIMITS p 3)"
  by (intro conjI; rule upserted_cells [OF assms(1)]) (use assms(2) in \<open>simp_all add: checkout_row_def table_defs\<close>)

lemma upserted_checkout_exists:
  "\<exists>r \<in> set (upserted Subscription_table n ''stripe_subscription_id'' (checkout_row i u c sid p now) rs).
     r ''stripe_subscription_id'' = sid"
  by (rule upserted_exists) (simp_all add: checkout_row_def table_defs)

lemma user_has_plan_write: "user_has u p (update_rows [F_eq ''id'' u] (plan_write p) rs)"
  unfolding user_has_def
proof (intro ballI impI)
  fix r
  assume "r \<in> set (update_rows [F_eq ''id'' u] (plan_write p) rs)" "r ''id'' = u"
  then obtain r0 where "r = set_cells (plan_write p) r0" by (rule update_rows_cells) simp
  then show "r ''plan'' = p \<and> r ''user_type'' = user_type_for p" by simp
qed

lemma subscription_has_upserted:
  "subscription_has u p sid (upserted Subscription_table n ''stripe_subscription_id'' (checkout_row i u c sid p now) rs)"
  unfolding subscription_has_def using upserted_checkout_row upserted_checkout_exists by blast

lemma keeps_entitled_mail: "keeps (tables_inv P) (send_email_to_user_id h u t c)"
  unfolding send_email_to_user_id_def dispatch_email_def by auto

lemma keeps_entitled_cache: "keeps (tables_inv P) (bust_user_cache h u)"
  unfolding bust_user_cache_def by auto

text \<open>What runs after the two writes of a checkout never raises and keeps what they granted.\<close>

definition checkout_tail :: "handler \<Rightarrow> pyval \<Rightarrow> pyval \<Rightarrow> pyval \<Rightarrow> pyval \<Rightarrow> unit comp" where
  "checkout_tail h u p previous session =
     thenM (capture_billing_geo u session)
     (thenM (bust_user_cache h u)
     (thenM (send_email_to_user_id h u ''payment_confirmation''
        [(''plan_type'', p), (''stripe_customer_id'', dget session ''customer''),
         (''stripe_subscription_id'', dget session ''subscription'')])
     (whenM (p \<noteq> PStr ''free'' \<and> p \<noteq> previous)
        (send_email_to_user_id h u ''plan_upgraded''
          [(''previous_plan_name'', plan_label previous), (''new_plan_name'', plan_label p)]))))"

lemma returns_tail: "returns (checkout_tail h u p previous session)"
  unfolding checkout_tail_def
  by (intro returns_thenM returns_whenM)
     (auto intro: returnsI capture_billing_geo_returns bust_user_cache_returns send_email_to_user_id_returns)

lemma keeps_entitled_tail: "keeps (tables_inv (entitled u p sid)) (checkout_tail h u p previous session)"
  unfolding checkout_tail_def
  by (intro keeps_thenM keeps_whenM keeps_entitled_geo keeps_entitled_cache keeps_entitled_mail)

text \<open>The checkout of a plan, as its two writes and its tail.\<close>

lemma checkout_plan_unfold:
  assumes "truthy (dget (dget session ''metadata'') ''userId'')" and "dget session ''mode'' \<noteq> PStr ''payment''"
    and "dget (dget session ''metadata'') ''subscriptionKind'' \<noteq> PStr ''b2b''"
    and p: "normalize_plan (dget_or (dget session ''metadata'') ''planType'' (PStr ''professional'')) = p"
    and "\<not> plan_refused h (dget session ''metadata'') p" and u: "u = dget (dget session ''metadata'') ''userId''"
  shows "handle_checkout_completed h session =
    bindM (tryM
        (bindM (fetch (tq_limit 1 (tq_eq ''id'' u (tq_select ''plan'' (tq ''users''))))) (\<lambda>rows.
         ret (normalize_plan (py_or (first_or [] rows ''plan'') (PStr ''free'')))))
        (\<lambda>_. ret (PStr ''free''))) (\<lambda>previous.
    bindM uuid4 (\<lambda>i. bindM utcnow (\<lambda>now.
    thenM (run (tq_upsert (checkout_row i u (dget session ''customer'') (dget session ''subscription'') p now)
             ''stripe_subscription_id'' (tq ''subscriptions'')))
    (thenM (run (update_eq ''users'' ''id'' u (plan_write p)))
     (checkout_tail h u p previous session)))))"
  using assms by (simp add: handle_checkout_completed_def Let_def checkout_row_def checkout_tail_def)

lemma checkout_grants:
  assumes "healthy w"
    and "truthy (dget (dget session ''metadata'') ''userId'')" and "dget session ''mode'' \<noteq> PStr ''payment''"
    and "dget (dget session ''metadata'') ''subscriptionKind'' \<noteq> PStr ''b2b''"
    and p: "normalize_plan (dget_or (dget session ''metadata'') ''planType'' (PStr ''professional'')) = p" and "truthy p"
    and "\<not> plan_refused h (dget session ''metadata'') p"
    and "dget session ''subscription'' \<noteq> PNone"
    and fresh: "rows_with w ''subscriptions'' ''id'' (PStr (uuid_source w (uuids_used w))) = []"
  shows "\<exists>w'. handle_checkout_completed h session w = (Inr (), w')
    \<and> entitled (dget (dget session ''metadata'') ''userId'') p (dget session ''subscription'') (tables w')"
proof -
  let ?u = "dget (dget session ''metadata'') ''userId''" and ?sid = "dget session ''subscription''"
  define w1 where "w1 = w\<lparr>uuids_used := Suc (uuids_used w)\<rparr>"
  let ?row = "checkout_row (PStr (uuid_source w (uuids_used w))) ?u (dget session ''customer'') ?sid p (PTime (clock w))"
  define w2 where "w2 = set_table ''subscriptions'' (upserted Subscription_table (clock w) ''stripe_subscription_id''
      ?row (tables w ''subscriptions'')) w1"
  define w3 where "w3 = set_table ''users'' (update_rows [F_eq ''id'' ?u] (plan_write p) (tables w2 ''users'')) w2"
  have up: "run (tq_upsert ?row ''stripe_subscription_id'' (tq ''subscriptions'')) w1 = (Inr (), w2)"
    using run_checkout_upsert [of w1 "uuid_source w (uuids_used w)" ?sid ?u "dget session ''customer''" p "clock w"]
      assms(1,8) fresh by (simp add: w1_def w2_def)
  have pw: "run (update_eq ''users'' ''id'' ?u (plan_write p)) w2 = (Inr (), w3)"
    using run_plan_write [of w2 p ?u] assms(1,6) by (simp add: w1_def w2_def w3_def)
  obtain previous where prev: "tryM
        (bindM (fetch (select_eq ''plan'' ''users'' ''id'' ?u)) (\<lambda>rows.
         ret (normalize_plan (py_or (first_or [] rows ''plan'') (PStr ''free'')))))
        (\<lambda>_. ret (PStr ''free'')) w = (Inr previous, w)"
    using assms(1) by (simp add: world_simps fetch_select_eq table_defs)
  have "entitled ?u p ?sid (tables w3)"
    by (simp add: entitled_def w3_def w2_def user_has_plan_write subscription_has_upserted)
  moreover obtain w' where "checkout_tail h ?u p previous session w3 = (Inr (), w')"
    by (rule returnsE [OF returns_tail])
  ultimately have "checkout_tail h ?u p previous session w3 = (Inr (), w') \<and> entitled ?u p ?sid (tables w')"
    using keeps_snd [OF keeps_entitled_tail, of ?u p ?sid w3] by (auto simp: tables_inv_def)
  then show ?thesis
    using checkout_plan_unfold [OF assms(2,3,4) p assms(7) refl] prev up pw
    by (simp add: world_simps w1_def)
qed

lemma record_processed_tables:
  "t \<noteq> ''processed_webhook_events'' \<Longrightarrow> tables (snd (record_processed i w)) t = tables w t"
proof -
  assume t: "t \<noteq> ''processed_webhook_events''"
  have "keeps (tables_inv (\<lambda>ts. R (ts t))) (record_processed i)" for R
    unfolding record_processed_def using t by (auto intro!: table_frame.frame_run)
  then show ?thesis by (rule unchanged_table)
qed

lemma handle_event_healthy:
  assumes "healthy w" and "rows_with w ''processed_webhook_events'' ''event_id'' (PStr event_id) = []"
    and "event_handler h event_type = Some handle" and "handle d w = (Inr (), w1)"
  shows "\<exists>w2. handle_event h event_id event_type d w = (Inr (), w2)
    \<and> (\<forall>t. t \<noteq> ''processed_webhook_events'' \<longrightarrow> tables w2 t = tables w1 t)
    \<and> rows_with w2 ''processed_webhook_events'' ''event_id'' (PStr event_id) \<noteq> []"
proof -
  have "healthy w1"
    using keeps_snd [OF handler_keeps_healthy [OF assms(3)] assms(1,4)] .
  moreover have "markers w1 = markers w"
    using unchanged_markers [OF handler_keeps_markers [OF assms(3)], of d w] assms(4) by simp
  then have "rows_with w1 ''processed_webhook_events'' ''event_id'' (PStr event_id) = []" using assms(2) by simp
  ultimately have r: "record_processed event_id w1 = (Inr (), set_table ''processed_webhook_events''
    (markers w1 @ [new_row ProcessedWebhookEvent_table (clock w1)
       [(''event_id'', PStr event_id), (''processed_at'', PTime (clock w1))]]) w1)"
    by (rule record_processed_healthy)
  then have "rows_with (snd (record_processed event_id w1)) ''processed_webhook_events'' ''event_id'' (PStr event_id) \<noteq> []"
    by (simp add: new_row_def table_defs)
  moreover have "handle_event h event_id event_type d w = record_processed event_id w1"
    using assms by (simp add: handle_event_def already_processed_healthy world_simps)
  ultimately show ?thesis using r by simp
qed

lemma event_handler_checkout: "event_handler h ''checkout.session.completed'' = Some (handle_checkout_completed h)"
  by (simp add: event_handler_def)

lemma checkout_retry_grants:
  assumes failed: "handle_event h event_id ''checkout.session.completed'' session w = (Inl e, w1)"
    and new: "rows_with w ''processed_webhook_events'' ''event_id'' (PStr event_id) = []"
    and "truthy (dget (dget session ''metadata'') ''userId'')" and "dget session ''mode'' \<noteq> PStr ''payment''"
    and "dget (dget session ''metadata'') ''subscriptionKind'' \<noteq> PStr ''b2b''"
    and "normalize_plan (dget_or (dget session ''metadata'') ''planType'' (PStr ''professional'')) = p" and "truthy p"
    and "\<not> plan_refused h (dget session ''metadata'') p"
    and "dget session ''subscription'' \<noteq> PNone"
    and fresh: "rows_with w1 ''subscriptions'' ''id'' (PStr (uuid_source w1 (uuids_used w1))) = []"
  shows "\<exists>w2. handle_event h event_id ''checkout.session.completed'' session (w1\<lparr>faults := []\<rparr>) = (Inr (), w2)
    \<and> entitled (dget (dget session ''metadata'') ''userId'') p (dget session ''subscription'') (tables w2)
    \<and> rows_with w2 ''processed_webhook_events'' ''event_id'' (PStr event_id) \<noteq> []"
proof -
  let ?w = "w1\<lparr>faults := []\<rparr>"
  have healthy: "healthy ?w" by (simp add: healthy_def)
  obtain w' where ran: "handle_checkout_completed h session ?w = (Inr (), w')"
    and ent: "entitled (dget (dget session ''metadata'') ''userId'') p (dget session ''subscription'') (tables w')"
    using checkout_grants [OF healthy assms(3-9)] fresh by auto
  have "rows_with ?w ''processed_webhook_events'' ''event_id'' (PStr event_id) = []"
    using failed_event_not_marked [OF failed] new by simp
  from handle_event_healthy [OF healthy this event_handler_checkout ran] ent
  show ?thesis unfolding entitled_def by auto
qed

section \<open>Credits\<close>

definition set_credits :: "row \<Rightarrow> int \<Rightarrow> row" where
  "set_credits r n = r(''credits_remaining'' := PInt n)"

lemma run_credit_write:
  assumes "healthy w"
  shows "run (update_eq ''users'' ''id'' u [(''credits_remaining'', PInt n)]) w
    = (Inr (), set_table ''users'' (update_rows [F_eq ''id'' u] [(''credits_remaining'', PInt n)] (tables w ''users'')) w)"
  using assms by (intro run_update_eq) (auto simp: table_defs updatable_def not_null_def)

lemma set_credits_cells: "set_cells [(''credits_remaining'', PInt n)] r = set_credits r n"
  by (rule ext) (simp add: set_credits_def)

lemma credit_purchase_adds_one:
  assumes "healthy w" and "rows_with w ''users'' ''id'' u = [r]" and "r ''credits_remaining'' = PInt c"
  shows "\<exists>w'. handle_credit_purchase h u w = (Inr (), w')
    \<and> rows_with w' ''users'' ''id'' u = [set_credits r (c + 1)]
    \<and> (\<forall>t. t \<noteq> ''users'' \<longrightarrow> tables w' t = tables w t)"
proof -
  define w1 where "w1 = set_table ''users''
    (update_rows [F_eq ''id'' u] [(''credits_remaining'', PInt (c + 1))] (tables w ''users'')) w"
  have wr: "run (update_eq ''users'' ''id'' u [(''credits_remaining'', PInt (c + 1))]) w = (Inr (), w1)"
    unfolding w1_def by (rule run_credit_write [OF assms(1)])
  have current: "int_of (py_or (PInt c) (PInt 0)) = c" by (simp add: py_or_def)
  define rest where "rest = thenM (bust_user_cache h u)
      (send_email_to_user_id h u ''payment_confirmation'' [(''payment_type'', PStr ''credit'')])"
  have "returns rest" unfolding rest_def
    by (intro returns_thenM) (auto intro: returnsI bust_user_cache_returns send_email_to_user_id_returns)
  then obtain w' where r: "rest w1 = (Inr (), w')" by (rule returnsE)
  have "keeps (tables_inv P) rest" for P
    unfolding rest_def by (intro keeps_thenM keeps_entitled_cache keeps_entitled_mail)
  then have "tables w' = tables w1" using unchanged_tables [of rest w1] r by simp
  moreover have "handle_credit_purchase h u w = rest w1"
    using assms wr current
    by (simp add: handle_credit_purchase_def world_simps execute_single_eq table_defs result_rows_def
        rest_def Let_def split_simps)
  ultimately show ?thesis
    using r assms(2) by (simp add: w1_def rows_with_updated set_credits_cells)
qed

section \<open>Failed and paid invoices\<close>

lemma subscription_of_customer_healthy:
  assumes "healthy w"
  shows "subscription_of_customer c w = (Inr (map (project_row [''user_id'', ''past_due_since''])
      (take 1 (rows_with w ''subscriptions'' ''stripe_customer_id'' c))), w)"
  using assms by (simp add: subscription_of_customer_def fetch_select_eq table_defs split_simps)

lemma run_customer_update:
  assumes "healthy w" and "p \<noteq> []" and "set (map fst p) \<subseteq> {''status'', ''past_due_since''}"
  shows "run (update_eq ''subscriptions'' ''stripe_customer_id'' c p) w
    = (Inr (), set_table ''subscriptions'' (update_rows [F_eq ''stripe_customer_id'' c] p (tables w ''subscriptions'')) w)"
proof (rule run_update_eq)
  have n: "map_of p ''id'' = None" "map_of p ''cancel_at_period_end'' = None" "map_of p ''created_at'' = None"
    using assms(3) by (auto simp: map_of_eq_None_iff)
  then show "updatable Subscription_table [F_eq ''stripe_customer_id'' c] p (tables w ''subscriptions'')"
    by (simp add: updatable_def not_null_def table_defs has_key_map_of)
  show "list_all (\<lambda>(c, _). c \<in> set (table_columns Subscription_table)) p"
    using assms(3) by (force simp: table_defs list_all_iff)
qed (use assms in \<open>simp_all add: table_defs\<close>)

text \<open>The first failure of a streak stamps every subscription of the customer.\<close>

definition failed_cells :: "row \<Rightarrow> int \<Rightarrow> pydict" where
  "failed_cells r now = [(''status'', PStr ''past_due'')]
     @ (if \<not> truthy (r ''past_due_since'') then [(''past_due_since'', PTime now)] else [])"

lemma payment_failed_effect:
  assumes "healthy w" and "truthy (dget invoice ''customer'')"
    and "rows_with w ''subscriptions'' ''stripe_customer_id'' (dget invoice ''customer'') = r # rs"
  shows "\<exists>w'. handle_invoice_payment_failed h invoice w = (Inr (), w')
    \<and> rows_with w' ''subscriptions'' ''stripe_customer_id'' (dget invoice ''customer'')
        = map (set_cells (failed_cells r (clock w))) (r # rs)
    \<and> healthy w' \<and> clock w' = clock w"
proof -
  let ?c = "dget invoice ''customer''"
  define w1 where "w1 = set_table ''subscriptions'' (update_rows [F_eq ''stripe_customer_id'' ?c]
      (failed_cells r (clock w)) (tables w ''subscriptions'')) w"
  have up: "run (update_eq ''subscriptions'' ''stripe_customer_id'' ?c (failed_cells r (clock w))) w = (Inr (), w1)"
    unfolding w1_def by (rule run_customer_update) (use assms(1) in \<open>auto simp: failed_cells_def\<close>)
  define rest where "rest = whenM (truthy (r ''user_id'')) (send_email_to_user_id h (r ''user_id'') ''payment_failed''
             [(''invoice_id'', dget invoice ''id''), (''amount_due'', dget invoice ''amount_due''),
              (''next_payment_attempt'', dget invoice ''next_payment_attempt'')])"
  have "returns rest" unfolding rest_def
    by (intro returns_whenM) (auto intro: returnsI send_email_to_user_id_returns)
  then obtain w' where r: "rest w1 = (Inr (), w')" by (rule returnsE)
  have "keeps (tables_inv P) rest" for P
    unfolding rest_def by (intro keeps_whenM keeps_entitled_mail)
  then have "tables w' = tables w1" using unchanged_tables [of rest w1] r by simp
  moreover have "keeps healthy rest" unfolding rest_def by (auto intro: healthy_frame.frame_send_email_to_user_id)
  then have "healthy w'" using keepsD [of healthy rest w1] r assms(1) by (simp add: w1_def)
  moreover have "keeps (\<lambda>w'. clock w' = clock w) rest"
    unfolding rest_def by (auto intro: clock_frame.frame_send_email_to_user_id)
  then have "clock w' = clock w" using keepsD [of "\<lambda>w'. clock w' = clock w" rest w1] r by (simp add: w1_def)
  moreover have "handle_invoice_payment_failed h invoice w = rest w1"
    using assms up by (simp add: handle_invoice_payment_failed_def world_simps subscription_of_customer_healthy
        Let_def rest_def failed_cells_def)
  moreover have "\<not> has_key (failed_cells r (clock w)) ''stripe_customer_id''"
    by (simp add: failed_cells_def)
  ultimately show ?thesis
    using r assms(3) by (simp add: w1_def rows_with_updated)
qed

text \<open>The failures of one invoice, at the given times.\<close>

fun failures :: "handler \<Rightarrow> pyval \<Rightarrow> int list \<Rightarrow> world \<Rightarrow> world" where
  "failures h invoice [] w = w"
| "failures h invoice (t # ts) w =
     failures h invoice ts (snd (handle_invoice_payment_failed h invoice (w\<lparr>clock := t\<rparr>)))"

abbreviation customer_rows :: "world \<Rightarrow> pyval \<Rightarrow> row list" where
  "customer_rows w invoice \<equiv> rows_with w ''subscriptions'' ''stripe_customer_id'' (dget invoice ''customer'')"

definition past_due_at :: "int \<Rightarrow> row list \<Rightarrow> bool" where
  "past_due_at t rs \<longleftrightarrow> rs \<noteq> [] \<and> list_all (\<lambda>r. r ''status'' = PStr ''past_due'' \<and> r ''past_due_since'' = PTime t) rs"

lemma later_failures_keep_stamp:
  assumes "healthy w" and "truthy (dget invoice ''customer'')" and "past_due_at t (customer_rows w invoice)"
  shows "past_due_at t (customer_rows (failures h invoice ts w) invoice) \<and> healthy (failures h invoice ts w)"
  using assms
proof (induction ts arbitrary: w)
  case Nil
  then show ?case by simp
next
  case (Cons t' ts)
  obtain r rs where rows: "customer_rows w invoice = r # rs" using Cons.prems by (auto simp: past_due_at_def neq_Nil_conv)
  then have stamped: "r ''past_due_since'' = PTime t" using Cons.prems by (simp add: past_due_at_def)
  obtain w' where w': "handle_invoice_payment_failed h invoice (w\<lparr>clock := t'\<rparr>) = (Inr (), w')"
    and "customer_rows w' invoice = map (set_cells (failed_cells r t')) (r # rs)" and "healthy w'"
    using payment_failed_effect [of "w\<lparr>clock := t'\<rparr>" invoice r rs h] Cons.prems rows by auto
  then have "past_due_at t (customer_rows w' invoice)"
    using Cons.prems(3) rows stamped by (auto simp: past_due_at_def failed_cells_def list_all_iff)
  then show ?case using Cons.IH [OF \<open>healthy w'\<close> Cons.prems(2)] w' by simp
qed

lemma first_failure_stamps:
  assumes "healthy w" and "truthy (dget invoice ''customer'')" and "customer_rows w invoice \<noteq> []"
    and "list_all (\<lambda>r. \<not> truthy (r ''past_due_since'')) (customer_rows w invoice)"
  shows "past_due_at t (customer_rows (failures h invoice [t] w) invoice) \<and> healthy (failures h invoice [t] w)"
proof -
  obtain r rs where rows: "customer_rows w invoice = r # rs" using assms(3) by (auto simp: neq_Nil_conv)
  obtain w' where w': "handle_invoice_payment_failed h invoice (w\<lparr>clock := t\<rparr>) = (Inr (), w')"
    and "customer_rows w' invoice = map (set_cells (failed_cells r t)) (r # rs)" and "healthy w'"
    using payment_failed_effect [of "w\<lparr>clock := t\<rparr>" invoice r rs h] assms rows by auto
  then show ?thesis
    using assms(4) rows by (auto simp: past_due_at_def failed_cells_def list_all_iff)
qed

lemma refund_if_test_returns: "\<exists>w'. refund_if_test h invoice w = (Inr (), w')"
  by (auto simp: refund_if_test_def world_simps split: option.split prod.split sum.split)

lemma invoice_paid_recovers:
  assumes "healthy w" and "truthy (dget invoice ''customer'')"
    and "customer_rows w invoice = r # rs" and "r ''past_due_since'' \<noteq> PNone"
  shows "\<exists>w'. handle_invoice_paid h invoice w = (Inr (), w')
    \<and> customer_rows w' invoice
        = map (set_cells [(''status'', PStr ''active''), (''past_due_since'', PNone)]) (r # rs)"
proof -
  let ?c = "dget invoice ''customer''" and ?p = "[(''status'', PStr ''active''), (''past_due_since'', PNone)]"
  obtain w0 where w0: "refund_if_test h invoice w = (Inr (), w0)" using refund_if_test_returns by blast
  have h0: "healthy w0" using keepsD [OF healthy_frame.frame_refund assms(1), of h invoice] w0 by simp
  have "keeps (tables_inv P) (refund_if_test h invoice)" for P
    unfolding refund_if_test_def by (auto intro: keeps_stripe_service)
  then have t0: "tables w0 = tables w" using unchanged_tables [of "refund_if_test h invoice" w] w0 by simp
  define w1 where "w1 = set_table ''subscriptions'' (update_rows [F_eq ''stripe_customer_id'' ?c] ?p
      (tables w0 ''subscriptions'')) w0"
  have up: "run (update_eq ''subscriptions'' ''stripe_customer_id'' ?c ?p) w0 = (Inr (), w1)"
    unfolding w1_def by (rule run_customer_update) (use h0 in auto)
  obtain w' where w': "send_email_to_user_id h (r ''user_id'') ''subscription_recovered''
            [(''invoice_id'', dget invoice ''id'')] w1 = (Inr (), w')"
    using send_email_to_user_id_returns by blast
  then have "tables w' = tables w1" using unchanged_tables [OF keeps_entitled_mail] by (metis snd_conv)
  moreover have "handle_invoice_paid h invoice w = (Inr (), w')"
    using assms w0 up w' h0 t0
    by (simp add: handle_invoice_paid_def world_simps Let_def subscription_of_customer_healthy)
  ultimately show ?thesis using assms(3) t0 by (simp add: w1_def rows_with_updated)
qed

section \<open>Deleted subscriptions\<close>

lemma not_b2b_event:
  assumes "healthy w" and "rows_with w ''b2b_subscriptions'' ''stripe_subscription_id'' sid = []"
  shows "mark_stripe_subscription_deleted sid w = (Inr False, w)"
  using assms by (simp add: mark_stripe_subscription_deleted_def world_simps fetch_select_eq table_defs)

lemma fetch_cancel:
  assumes "healthy w"
  shows "fetch (update_eq ''subscriptions'' ''stripe_subscription_id'' sid
      [(''status'', PStr ''cancelled''), (''cancelled_at'', now)]) w
    = (Inr (map (set_cells [(''status'', PStr ''cancelled''), (''cancelled_at'', now)])
            (rows_with w ''subscriptions'' ''stripe_subscription_id'' sid)),
       set_table ''subscriptions'' (update_rows [F_eq ''stripe_subscription_id'' sid]
          [(''status'', PStr ''cancelled''), (''cancelled_at'', now)] (tables w ''subscriptions'')) w)"
  by (rule fetch_update_eq) (use assms in \<open>auto simp: table_defs updatable_def not_null_def\<close>)

lemma fetch_active:
  assumes "healthy w"
  shows "fetch (tq_limit (Suc 0) (tq_eq ''status'' st (tq_eq ''user_id'' u (tq_select ''id'' (tq ''subscriptions''))))) w
    = (Inr (map (project_row [''id'']) (take 1
        (filter (\<lambda>r. r ''user_id'' = u \<and> r ''status'' = st) (tables w ''subscriptions'')))), w)"
  using assms by (simp add: query_eval world_simps table_defs healthy_def sql_def split_simps)

lemma active_after_cancel:
  "filter (\<lambda>r. r ''user_id'' = u \<and> r ''status'' = PStr ''active'') (update_rows [F_eq ''stripe_subscription_id'' sid]
      [(''status'', PStr ''cancelled''), (''cancelled_at'', now)] rs)
   = filter (\<lambda>r. r ''user_id'' = u \<and> r ''status'' = PStr ''active'' \<and> r ''stripe_subscription_id'' \<noteq> sid) rs"
  by (induction rs) auto

definition other_active :: "pyval \<Rightarrow> pyval \<Rightarrow> world \<Rightarrow> row list" where
  "other_active u sid w = filter (\<lambda>r. r ''user_id'' = u \<and> r ''status'' = PStr ''active''
     \<and> r ''stripe_subscription_id'' \<noteq> sid) (tables w ''subscriptions'')"

lemma subscription_deleted_effect:
  assumes "healthy w" and "truthy (dget s ''id'')"
    and "rows_with w ''b2b_subscriptions'' ''stripe_subscription_id'' (dget s ''id'') = []"
    and "rows_with w ''subscriptions'' ''stripe_subscription_id'' (dget s ''id'') = r # rs"
    and "truthy (r ''user_id'')"
  shows "\<exists>w'. handle_subscription_deleted h s w = (Inr (), w')
    \<and> list_all (\<lambda>r. r ''status'' = PStr ''cancelled'')
        (rows_with w' ''subscriptions'' ''stripe_subscription_id'' (dget s ''id''))
    \<and> tables w' ''users'' =
       (if other_active (r ''user_id'') (dget s ''id'') w \<noteq> [] then tables w ''users''
        else update_rows [F_eq ''id'' (r ''user_id'')] (plan_write (PStr ''free'')) (tables w ''users''))"
proof -
  let ?sid = "dget s ''id''" and ?u = "r ''user_id''"
  let ?p = "[(''status'', PStr ''cancelled''), (''cancelled_at'', PTime (clock w))]"
  define w1 where "w1 = set_table ''subscriptions'' (update_rows [F_eq ''stripe_subscription_id'' ?sid] ?p
      (tables w ''subscriptions'')) w"
  have subs: "list_all (\<lambda>r. r ''status'' = PStr ''cancelled'') (rows_with w1 ''subscriptions'' ''stripe_subscription_id'' ?sid)"
    using assms(4) by (simp add: w1_def rows_with_updated list_all_iff)
  have act: "filter (\<lambda>r. r ''user_id'' = ?u \<and> r ''status'' = PStr ''active'') (tables w1 ''subscriptions'')
      = other_active ?u ?sid w"
    by (simp add: w1_def active_after_cancel other_active_def)
  have prefix: "handle_subscription_deleted h s w =
      (if other_active ?u ?sid w \<noteq> [] then (Inr (), w1)
       else thenM (run (update_eq ''users'' ''id'' ?u (plan_write (PStr ''free''))))
         (thenM (bust_user_cache h ?u) (send_email_to_user_id h ?u ''subscription_downgraded'' [])) w1)"
    using assms fetch_active [of w1 "PStr ''active''" ?u] act
    by (simp add: handle_subscription_deleted_def world_simps Let_def not_b2b_event fetch_cancel w1_def
        user_type_for_def)
  show ?thesis
  proof (cases "other_active ?u ?sid w = []")
    case False
    then show ?thesis using prefix subs by (simp add: w1_def)
  next
    case True
    define w2 where "w2 = set_table ''users'' (update_rows [F_eq ''id'' ?u] (plan_write (PStr ''free''))
        (tables w1 ''users'')) w1"
    define rest where "rest = thenM (bust_user_cache h ?u) (send_email_to_user_id h ?u ''subscription_downgraded'' [])"
    have "run (update_eq ''users'' ''id'' ?u (plan_write (PStr ''free''))) w1 = (Inr (), w2)"
      unfolding w2_def by (rule run_plan_write) (use assms(1) in \<open>simp_all add: w1_def\<close>)
    moreover have "returns rest" unfolding rest_def
      by (intro returns_thenM) (auto intro: returnsI bust_user_cache_returns send_email_to_user_id_returns)
    then obtain w' where w': "rest w2 = (Inr (), w')" by (rule returnsE)
    moreover have "keeps (tables_inv P) rest" for P
      unfolding rest_def by (intro keeps_thenM keeps_entitled_cache keeps_entitled_mail)
    then have "tables w' = tables w2" using unchanged_tables [of rest w2] w' by simp
    ultimately show ?thesis
      using prefix True subs by (simp add: world_simps rest_def [symmetric]) (simp add: w1_def w2_def)
  qed
qed

section \<open>Updated subscriptions\<close>

lemma period_cells_keys:
  assumes "period_cells s w = (Inr ps, w')"
  shows "w' = w" and "set (map fst ps) \<subseteq> {''current_period_start'', ''current_period_end''}"
  using assms
  by (auto simp: period_cells_def world_simps from_timestamp_def split: prod.splits sum.splits if_splits)

lemma not_b2b_update:
  assumes "healthy w" and "rows_with w ''b2b_subscriptions'' ''stripe_subscription_id'' (dget s ''id'') = []"
  shows "update_from_stripe_subscription s w = (Inr False, w)"
  using assms
  by (simp add: update_from_stripe_subscription_def world_simps fetch_select_eq table_defs Let_def)

definition event_payload :: "pyval \<Rightarrow> row \<Rightarrow> pydict \<Rightarrow> pyval \<Rightarrow> pydict" where
  "event_payload s pre ps p =
     [(''status'', dget s ''status''), (''cancel_at_period_end'', dget_or s ''cancel_at_period_end'' (PBool False))]
     @ ps @ plan_cells p
     @ (if schedule_fired pre s then [(''pending_plan'', PNone), (''stripe_schedule_id'', PNone)] else [])"

abbreviation pre_columns :: "string list" where
  "pre_columns \<equiv> [''plan_type'', ''pending_plan'', ''stripe_schedule_id'', ''user_id'']"

lemma schedule_fired_project [simp]: "schedule_fired (project_row pre_columns r) s = schedule_fired r s"
  by (simp add: schedule_fired_def)

lemma plan_to_trust_project [simp]: "plan_to_trust p (project_row pre_columns r) s = plan_to_trust p r s"
  by (simp add: plan_to_trust_def)

lemma event_payload_project: "event_payload s (project_row pre_columns r) ps p = event_payload s r ps p"
  by (simp add: event_payload_def)

lemma fetch_event_update:
  assumes "healthy w" and "dget_or s ''cancel_at_period_end'' (PBool False) \<noteq> PNone"
    and ps: "set (map fst ps) \<subseteq> {''current_period_start'', ''current_period_end''}"
  shows "fetch (update_eq ''subscriptions'' ''stripe_subscription_id'' sid (event_payload s pre ps p)) w
    = (Inr (map (set_cells (event_payload s pre ps p)) (rows_with w ''subscriptions'' ''stripe_subscription_id'' sid)),
       set_table ''subscriptions'' (update_rows [F_eq ''stripe_subscription_id'' sid] (event_payload s pre ps p)
          (tables w ''subscriptions'')) w)"
proof (rule fetch_update_eq)
  let ?p = "event_payload s pre ps p"
  have ps0: "map_of ps ''id'' = None" "map_of ps ''created_at'' = None" "map_of ps ''stripe_subscription_id'' = None"
    using ps by (auto simp: map_of_eq_None_iff)
  then have n: "map_of ?p ''id'' = None" "map_of ?p ''created_at'' = None" "map_of ?p ''stripe_subscription_id'' = None"
    by (auto simp: event_payload_def plan_cells_def map_add_def)
  have c: "map_of ?p ''cancel_at_period_end'' = Some (dget_or s ''cancel_at_period_end'' (PBool False))"
    by (simp add: event_payload_def)
  show "updatable Subscription_table [F_eq ''stripe_subscription_id'' sid] ?p (tables w ''subscriptions'')"
    using n c assms(2) by (simp add: updatable_def not_null_def table_defs has_key_map_of)
  show "list_all (\<lambda>(c, _). c \<in> set (table_columns Subscription_table)) ?p"
    using ps by (force simp: table_defs list_all_iff event_payload_def plan_cells_def)
  show "\<not> has_key ?p ''stripe_subscription_id''" using n by (simp add: has_key_map_of)
qed (use assms in \<open>simp_all add: table_defs event_payload_def\<close>)

lemma event_payload_cells:
  assumes "set (map fst ps) \<subseteq> {''current_period_start'', ''current_period_end''}" and "truthy p"
  shows "set_cells (event_payload s pre ps p) r ''plan_type'' = p"
    and "set_cells (event_payload s pre ps p) r ''report_limit'' = PInt (table_get PLAN_REPORT_LIMITS p 3)"
    and "set_cells (event_payload s pre ps p) r ''user_id'' = r ''user_id''"
    and "schedule_fired pre s \<Longrightarrow> set_cells (event_payload s pre ps p) r ''pending_plan'' = PNone
      \<and> set_cells (event_payload s pre ps p) r ''stripe_schedule_id'' = PNone"
proof -
  have ps0: "map_of ps ''plan_type'' = None" "map_of ps ''report_limit'' = None" "map_of ps ''user_id'' = None"
    "map_of ps ''pending_plan'' = None" "map_of ps ''stripe_schedule_id'' = None"
    using assms(1) by (auto simp: map_of_eq_None_iff)
  show "set_cells (event_payload s pre ps p) r ''plan_type'' = p"
    "set_cells (event_payload s pre ps p) r ''report_limit'' = PInt (table_get PLAN_REPORT_LIMITS p 3)"
    "set_cells (event_payload s pre ps p) r ''user_id'' = r ''user_id''"
    using ps0 assms(2) by (simp_all add: event_payload_def plan_cells_def map_add_def)
  show "set_cells (event_payload s pre ps p) r ''pending_plan'' = PNone
      \<and> set_cells (event_payload s pre ps p) r ''stripe_schedule_id'' = PNone" if "schedule_fired pre s"
    using ps0 that by (simp add: event_payload_def plan_cells_def map_add_def)
qed

lemma mirror_plan_effect:
  assumes "healthy w" and "truthy p"
  shows "\<exists>w'. mirror_plan h u p w = (Inr (), w')
    \<and> tables w' = (tables w)(''users'' := update_rows [F_eq ''id'' u] (plan_write p) (tables w ''users''))"
proof -
  let ?w = "set_table ''users'' (update_rows [F_eq ''id'' u] (plan_write p) (tables w ''users'')) w"
  obtain w' where w': "bust_user_cache h u ?w = (Inr (), w')" using bust_user_cache_returns by blast
  then have "tables w' = tables ?w" using unchanged_tables [OF keeps_entitled_cache] by (metis snd_conv)
  then show ?thesis
    using w' run_plan_write [OF assms] by (simp add: mirror_plan_def world_simps)
qed

lemma finish_effect:
  assumes "healthy w" and "truthy p" and "truthy u"
  shows "\<exists>w'. finish_subscription_update h s pre p u w = (Inr (), w')
    \<and> tables w' = (tables w)(''users'' := update_rows [F_eq ''id'' u] (plan_write p) (tables w ''users''))"
proof -
  define m where "m = whenM (schedule_fired pre s \<and> truthy (pre ''pending_plan'')
                \<and> normalize_plan (pre ''pending_plan'') = p)
         (send_email_to_user_id h u ''downgrade_applied'' (downgrade_context (pre ''plan_type'') p))"
  have "returns m" unfolding m_def
    by (intro returns_whenM) (auto intro: returnsI send_email_to_user_id_returns)
  then obtain w1 where w1: "m w = (Inr (), w1)" by (rule returnsE)
  have "keeps (tables_inv P) m" for P unfolding m_def by (intro keeps_whenM keeps_entitled_mail)
  then have t1: "tables w1 = tables w" using unchanged_tables [of m w] w1 by simp
  have "keeps healthy m" unfolding m_def by (auto intro: healthy_frame.frame_send_email_to_user_id)
  then have "healthy w1" using keepsD [of healthy m w] w1 assms(1) by simp
  from mirror_plan_effect [OF this assms(2), of h u] obtain w' where
    "mirror_plan h u p w1 = (Inr (), w')"
    "tables w' = (tables w1)(''users'' := update_rows [F_eq ''id'' u] (plan_write p) (tables w1 ''users''))"
    by blast
  then show ?thesis
    using assms(2,3) w1 t1 by (simp add: finish_subscription_update_def m_def [symmetric] world_simps)
qed

lemma handle_subscription_updated_payload:
  "handle_subscription_updated h s =
     (if \<not> truthy (dget s ''id'') then ret ()
      else
       bindM (update_from_stripe_subscription s) (\<lambda>is_b2b.
       if is_b2b then ret ()
       else
        bindM (period_cells s) (\<lambda>ps.
        bindM (fetch (tq_limit 1 (tq_eq ''stripe_subscription_id'' (dget s ''id'')
          (tq_select ''plan_type, pending_plan, stripe_schedule_id, user_id'' (tq ''subscriptions''))))) (\<lambda>pre_rows.
        bindM (fetch (update_eq ''subscriptions'' ''stripe_subscription_id'' (dget s ''id'')
           (event_payload s (first_or [] pre_rows) ps
              (plan_to_trust (resolve_event_plan h s) (first_or [] pre_rows) s)))) (\<lambda>rows.
        case rows of
          [] \<Rightarrow> create_row_from_event h s (event_payload s (first_or [] pre_rows) ps
              (plan_to_trust (resolve_event_plan h s) (first_or [] pre_rows) s)) (first_or [] pre_rows)
              (plan_to_trust (resolve_event_plan h s) (first_or [] pre_rows) s)
        | r # _ \<Rightarrow> finish_subscription_update h s (first_or [] pre_rows)
              (plan_to_trust (resolve_event_plan h s) (first_or [] pre_rows) s) (r ''user_id''))))))"
  by (simp only: handle_subscription_updated_def Let_def event_payload_def append_assoc)

lemma subscription_updated_effect:
  assumes "healthy w" and "truthy (dget s ''id'')"
    and "rows_with w ''b2b_subscriptions'' ''stripe_subscription_id'' (dget s ''id'') = []"
    and "period_cells s w = (Inr ps, w)"
    and "dget_or s ''cancel_at_period_end'' (PBool False) \<noteq> PNone"
    and "rows_with w ''subscriptions'' ''stripe_subscription_id'' (dget s ''id'') = r # rs"
    and p: "plan_to_trust (resolve_event_plan h s) r s = p" and "truthy p" and "truthy (r ''user_id'')"
  shows "\<exists>w'. handle_subscription_updated h s w = (Inr (), w')
    \<and> rows_with w' ''subscriptions'' ''stripe_subscription_id'' (dget s ''id'')
        = map (set_cells (event_payload s r ps p)) (r # rs)
    \<and> tables w' ''users'' = update_rows [F_eq ''id'' (r ''user_id'')] (plan_write p) (tables w ''users'')"
proof -
  let ?sid = "dget s ''id''" and ?u = "r ''user_id''"
  have ps: "set (map fst ps) \<subseteq> {''current_period_start'', ''current_period_end''}"
    using period_cells_keys(2) [OF assms(4)] .
  define w1 where "w1 = set_table ''subscriptions'' (update_rows [F_eq ''stripe_subscription_id'' ?sid]
      (event_payload s r ps p) (tables w ''subscriptions'')) w"
  have upd: "fetch (update_eq ''subscriptions'' ''stripe_subscription_id'' ?sid (event_payload s r ps p)) w
    = (Inr (map (set_cells (event_payload s r ps p)) (r # rs)), w1)"
    using fetch_event_update [OF assms(1,5) ps, of ?sid r p] assms(6) by (simp add: w1_def)
  have pre: "fetch (select_eq ''plan_type, pending_plan, stripe_schedule_id, user_id'' ''subscriptions''
        ''stripe_subscription_id'' ?sid) w = (Inr [project_row pre_columns r], w)"
    using assms(1,6) by (simp add: fetch_select_eq table_defs split_simps)
  have user: "set_cells (event_payload s r ps p) r ''user_id'' = ?u"
    by (rule event_payload_cells(3) [OF ps assms(8)])
  obtain w' where w': "finish_subscription_update h s (project_row pre_columns r) p ?u w1 = (Inr (), w')"
    and t': "tables w' = (tables w1)(''users'' := update_rows [F_eq ''id'' ?u] (plan_write p) (tables w1 ''users''))"
    using finish_effect [of w1 p ?u h s "project_row pre_columns r"] assms(1,8,9) by (auto simp: w1_def)
  have "handle_subscription_updated h s w = (Inr (), w')"
    using assms(2) not_b2b_update [OF assms(1,3)] assms(4) pre upd user w' p
    by (simp add: handle_subscription_updated_payload world_simps event_payload_project del: set_cells_apply)
  moreover have "\<not> has_key (event_payload s r ps p) ''stripe_subscription_id''"
  proof -
    have "map_of ps ''stripe_subscription_id'' = None" using ps by (auto simp: map_of_eq_None_iff)
    then show ?thesis by (auto simp: has_key_map_of event_payload_def plan_cells_def map_add_def)
  qed
  ultimately show ?thesis
    using t' assms(6) by (simp add: w1_def rows_with_updated del: set_cells_apply)
qed

end
