(* ===== verification/Webhook_Properties.thy ===== *)
theory Webhook_Properties
  imports Webhook_Facts
begin

text \<open>
  The properties of the webhook handler: redelivery, what a checkout grants and to whom,
  credits, past-due streaks, deletion and plan changes, each with an instance on the sample world.
\<close>

text \<open>
  C4: whatever statement of it fails, a delivery that raises leaves the table of processed
  events as it was, so Stripe's retry of the event is processed again.
\<close>

theorem failed_delivery_leaves_no_marker:
  assumes "handle_event h event_id event_type d w = (Inl e, w')"
  shows "tables w' ''processed_webhook_events'' = tables w ''processed_webhook_events''"
  by (rule failed_event_not_marked [OF assms])

definition sample_handler :: handler where
  "sample_handler = \<lparr>h_settings = Some sample_settings, h_background = True\<rparr>"

definition sample_session :: pyval where
  "sample_session = PDict [(''id'', PStr ''cs_1''), (''mode'', PStr ''subscription''),
     (''customer'', PStr ''cus_1''), (''subscription'', PStr ''sub_1''),
     (''metadata'', PDict [(''userId'', PStr ''u1''), (''planType'', PStr ''producer''),
        (''priceId'', PStr ''price_STRIPE_PRICE_PRODUCER_GBP'')])]"

definition sample_user :: row where
  "sample_user = lookup [(''id'', PStr ''u1''), (''email'', PStr ''u1@example.com''),
     (''plan'', PStr ''free''), (''user_type'', PStr ''free''), (''credits_remaining'', PInt 2)]"

lemma sample_plan_accepted:
  "\<not> plan_refused sample_handler (dget sample_session ''metadata'') (PStr ''producer'')"
  by (simp add: plan_refused_def sample_handler_def sample_production sample_session_def plan_of_price_def
      build_price_to_plan_map_def raw_price_map_def sample_settings_def normalize_plan_def)

text \<open>A delivery whose first statement fails.\<close>

definition sample_down :: world where
  "sample_down = sample_world [(''users'', [sample_user])]\<lparr>faults := [True]\<rparr>"

lemma sample_first_delivery:
  "handle_event sample_handler ''evt_1'' ''checkout.session.completed'' sample_session sample_down
   = (Inl DBError, sample_world [(''users'', [sample_user])])"
  by (simp add: sample_down_def handle_event_def already_processed_def query_eval world_simps sql_def table_defs)

theorem failed_delivery_leaves_no_marker_witness:
  "tables (sample_world [(''users'', [sample_user])]) ''processed_webhook_events'' = tables sample_down ''processed_webhook_events''"
  by (rule failed_delivery_leaves_no_marker [OF sample_first_delivery])

text \<open>
  C1: a customer whose checkout was not processed the first time is upgraded by the retry.
  Whatever made the first delivery raise, and however far it got, delivering the event again
  while the database answers leaves every row of the user on the plan that was paid for, the
  subscription active with that plan's report limit, and the event marked as processed.
\<close>

theorem failed_checkout_is_retried:
  assumes failed: "handle_event h event_id ''checkout.session.completed'' session w = (Inl e, w1)"
    and new: "rows_with w ''processed_webhook_events'' ''event_id'' (PStr event_id) = []"
    and "truthy (dget (dget session ''metadata'') ''userId'')" and "dget session ''mode'' \<noteq> PStr ''payment''"
    and "dget (dget session ''metadata'') ''subscriptionKind'' \<noteq> PStr ''b2b''"
    and "normalize_plan (dget_or (dget session ''metadata'') ''planType'' (PStr ''professional'')) = p" and "truthy p"
    and "\<not> plan_refused h (dget session ''metadata'') p"
    and "dget session ''subscription'' \<noteq> PNone"
    and fresh: "rows_with w1 ''subscriptions'' ''id'' (PStr (uuid_source w1 (uuids_used w1))) = []"
  shows "\<exists>w2. handle_event h event_id ''checkout.session.completed'' session (w1\<lparr>faults := []\<rparr>) = (Inr (), w2)
    \<and> entitled (dget (dget session ''metadata'') ''userId'') p (dget session ''subscription'') (tables w2)
    \<and> rows_with w2 ''processed_webhook_events'' ''event_id'' (PStr event_id) \<noteq> []"
  by (rule checkout_retry_grants [OF assms])

theorem failed_checkout_is_retried_witness:
  "\<exists>w2. handle_event sample_handler ''evt_1'' ''checkout.session.completed'' sample_session
        (sample_world [(''users'', [sample_user])]\<lparr>faults := []\<rparr>) = (Inr (), w2)
    \<and> entitled (dget (dget sample_session ''metadata'') ''userId'') (PStr ''producer'')
        (dget sample_session ''subscription'') (tables w2)
    \<and> rows_with w2 ''processed_webhook_events'' ''event_id'' (PStr ''evt_1'') \<noteq> []"
proof (rule failed_checkout_is_retried [OF sample_first_delivery _ _ _ _ _ _ sample_plan_accepted])
qed (simp_all add: sample_down_def sample_session_def normalize_plan_def dget_or_def)

text \<open>C3: delivering a processed event again changes nothing, whatever the second payload says.\<close>

theorem second_delivery_is_noop:
  assumes "healthy w" and "handle_event h event_id event_type d w = (Inr (), w1)"
  shows "handle_event h event_id event_type d' w1 = (Inr (), w1)"
  by (rule processed_event_is_skipped [OF assms])

theorem second_delivery_is_noop_witness:
  "\<exists>w1. handle_event sample_handler ''evt_1'' ''payment_intent.succeeded'' (PDict []) (sample_world []) = (Inr (), w1)
    \<and> handle_event sample_handler ''evt_1'' ''payment_intent.succeeded'' sample_session w1 = (Inr (), w1)"
proof -
  obtain w1 where "handle_event sample_handler ''evt_1'' ''payment_intent.succeeded'' (PDict []) (sample_world []) = (Inr (), w1)"
    using handle_event_healthy [of "sample_world []" "''evt_1''" sample_handler "''payment_intent.succeeded''"
        "handle_payment_succeeded sample_handler" "PDict []" "sample_world []"]
    by (auto simp: event_handler_def handle_payment_succeeded_def ret_def)
  with second_delivery_is_noop [OF _ this] show ?thesis by auto
qed

text \<open>
  C6: in production a completed checkout whose price the catalogue does not list writes
  nothing, whatever plan or payment type its metadata claims; the one exception is a
  subscription checkout marked \<open>b2b\<close>, whose products are priced elsewhere: it can write the
  table of B2B contracts, and even then no plan, no credit, no subscription and no other table.
\<close>

theorem unlisted_price_mints_nothing:
  assumes "h_settings h = Some st" and "is_production st"
    and "plan_of_price st (dget (dget session ''metadata'') ''priceId'') = PNone"
    and w1_def: "w1 = snd (handle_checkout_completed h session w)"
  shows "if dget session ''mode'' \<noteq> PStr ''payment'' \<and> dget (dget session ''metadata'') ''subscriptionKind'' = PStr ''b2b''
    then tables w1 = (tables w)(''b2b_subscriptions'' := tables w1 ''b2b_subscriptions'')
    else tables w1 = tables w"
  using unknown_price_mints_nothing [OF assms(1-3)] b2b_checkout_frame [of session] unfolding w1_def by (auto simp: fun_eq_iff)

definition sample_forged :: pyval where
  "sample_forged = PDict [(''mode'', PStr ''payment''), (''metadata'', PDict [(''userId'', PStr ''u1''),
     (''planType'', PStr ''studio''), (''paymentType'', PStr ''credit''), (''priceId'', PStr ''price_made_up'')])]"

theorem unlisted_price_mints_nothing_witness:
  "tables (snd (handle_checkout_completed sample_handler sample_forged (sample_world [(''users'', [sample_user])])))
   = tables (sample_world [(''users'', [sample_user])])"
  using unlisted_price_mints_nothing [OF _ sample_production _ refl, of sample_handler sample_forged "sample_world [(''users'', [sample_user])]"]
  by (simp add: sample_handler_def sample_forged_def plan_of_price_def build_price_to_plan_map_def
      raw_price_map_def sample_settings_def)

text \<open>
  C7: a checkout writes no user row but those of the user its metadata names, whatever kind of
  checkout it is and whatever statement fails.
\<close>

theorem checkout_leaves_other_users:
  "filter (\<lambda>r. r ''id'' \<noteq> dget (dget session ''metadata'') ''userId'')
     (tables (snd (handle_checkout_completed h session w)) ''users'')
   = filter (\<lambda>r. r ''id'' \<noteq> dget (dget session ''metadata'') ''userId'') (tables w ''users'')"
  by (rule checkout_frames_users)

text \<open>
  A completed pay-per-report purchase adds exactly one credit to the user and writes no
  other table.
\<close>

theorem credit_purchase_adds_one_credit:
  assumes "healthy w" and "rows_with w ''users'' ''id'' u = [r]" and "r ''credits_remaining'' = PInt c"
  shows "\<exists>w'. handle_credit_purchase h u w = (Inr (), w')
    \<and> rows_with w' ''users'' ''id'' u = [set_credits r (c + 1)]
    \<and> (\<forall>t. t \<noteq> ''users'' \<longrightarrow> tables w' t = tables w t)"
  by (rule credit_purchase_adds_one [OF assms])

theorem credit_purchase_adds_one_credit_witness:
  "\<exists>w'. handle_credit_purchase sample_handler (PStr ''u1'') (sample_world [(''users'', [sample_user])]) = (Inr (), w')
    \<and> rows_with w' ''users'' ''id'' (PStr ''u1'') = [set_credits sample_user 3]
    \<and> (\<forall>t. t \<noteq> ''users'' \<longrightarrow> tables w' t = tables (sample_world [(''users'', [sample_user])]) t)"
  using credit_purchase_adds_one_credit [of "sample_world [(''users'', [sample_user])]" "PStr ''u1''" sample_user 2]
  by (simp add: sample_user_def)

text \<open>
  Over any number of failures of a customer's invoices the start of the past-due streak
  stays the instant of the first one, which is what the grace period is measured from.
\<close>

theorem streak_keeps_first_failure:
  assumes "healthy w" and "truthy (dget invoice ''customer'')" and "customer_rows w invoice \<noteq> []"
    and "list_all (\<lambda>r. \<not> truthy (r ''past_due_since'')) (customer_rows w invoice)"
  shows "past_due_at t (customer_rows (failures h invoice (t # ts) w) invoice)"
  using first_failure_stamps [OF assms, where h = h and t = t]
    later_failures_keep_stamp [OF _ assms(2), of "failures h invoice [t] w" t h ts]
  by simp

definition sample_subscription :: row where
  "sample_subscription = lookup [(''id'', PStr ''s1''), (''user_id'', PStr ''u1''),
     (''stripe_customer_id'', PStr ''cus_1''), (''stripe_subscription_id'', PStr ''sub_1''),
     (''plan_type'', PStr ''studio''), (''status'', PStr ''active''), (''cancel_at_period_end'', PBool False),
     (''pending_plan'', PStr ''producer''), (''stripe_schedule_id'', PStr ''sched_1'')]"

definition sample_invoice :: pyval where
  "sample_invoice = PDict [(''id'', PStr ''in_1''), (''customer'', PStr ''cus_1'')]"

theorem streak_keeps_first_failure_witness:
  "past_due_at 5 (customer_rows (failures sample_handler sample_invoice [5, 7, 9]
     (sample_world [(''subscriptions'', [sample_subscription])])) sample_invoice)"
  by (rule streak_keeps_first_failure) (simp_all add: sample_invoice_def sample_subscription_def)

text \<open>
  The invoice that ends a past-due streak makes every subscription row of the customer
  active and clears its streak, a row cancelled before included.
\<close>

theorem paid_invoice_recovers_all_rows:
  assumes "healthy w" and "truthy (dget invoice ''customer'')"
    and "customer_rows w invoice = r # rs" and "r ''past_due_since'' \<noteq> PNone"
  shows "\<exists>w'. handle_invoice_paid h invoice w = (Inr (), w')
    \<and> customer_rows w' invoice
        = map (set_cells [(''status'', PStr ''active''), (''past_due_since'', PNone)]) (r # rs)"
  by (rule invoice_paid_recovers [OF assms])

definition sample_past_due :: row where
  "sample_past_due = sample_subscription(''past_due_since'' := PTime 5, ''status'' := PStr ''past_due'')"

definition sample_cancelled :: row where
  "sample_cancelled = sample_subscription(''id'' := PStr ''s0'', ''status'' := PStr ''cancelled'')"

theorem paid_invoice_recovers_all_rows_witness:
  "\<exists>w'. handle_invoice_paid sample_handler sample_invoice
        (sample_world [(''subscriptions'', [sample_past_due, sample_cancelled])]) = (Inr (), w')
    \<and> customer_rows w' sample_invoice
        = map (set_cells [(''status'', PStr ''active''), (''past_due_since'', PNone)])
            [sample_past_due, sample_cancelled]"
  by (rule paid_invoice_recovers_all_rows)
     (simp_all add: sample_invoice_def sample_past_due_def sample_cancelled_def sample_subscription_def)

text \<open>
  C5: deleting a subscription cancels its rows and takes its owner to the free plan exactly
  when the owner has no other row with status active.
\<close>

theorem deleted_subscription_downgrades_iff_last:
  assumes "healthy w" and "truthy (dget s ''id'')"
    and "rows_with w ''b2b_subscriptions'' ''stripe_subscription_id'' (dget s ''id'') = []"
    and "rows_with w ''subscriptions'' ''stripe_subscription_id'' (dget s ''id'') = r # rs"
    and "truthy (r ''user_id'')"
  shows "\<exists>w'. handle_subscription_deleted h s w = (Inr (), w')
    \<and> list_all (\<lambda>r. r ''status'' = PStr ''cancelled'')
        (rows_with w' ''subscriptions'' ''stripe_subscription_id'' (dget s ''id''))
    \<and> tables w' ''users'' =
       (if other_active (r ''user_id'') (dget s ''id'') w \<noteq> [] then tables w ''users''
        else update_rows [F_eq ''id'' (r ''user_id'')] (plan_write (PStr ''free'')) (tables w ''users''))"
  by (rule subscription_deleted_effect [OF assms])

definition sample_event :: pyval where
  "sample_event = PDict [(''id'', PStr ''sub_1''), (''customer'', PStr ''cus_1''), (''status'', PStr ''active''),
     (''items'', PDict [(''data'', PList [PDict [
        (''price'', PDict [(''id'', PStr ''price_STRIPE_PRICE_PRODUCER_GBP'')]),
        (''current_period_start'', PInt 10), (''current_period_end'', PInt 20)]])])]"

theorem deleted_subscription_downgrades_iff_last_witness:
  "\<exists>w'. handle_subscription_deleted sample_handler sample_event
        (sample_world [(''users'', [sample_user]), (''subscriptions'', [sample_subscription])]) = (Inr (), w')
    \<and> list_all (\<lambda>r. r ''status'' = PStr ''cancelled'')
        (rows_with w' ''subscriptions'' ''stripe_subscription_id'' (dget sample_event ''id''))
    \<and> tables w' ''users'' = update_rows [F_eq ''id'' (PStr ''u1'')] (plan_write (PStr ''free'')) [sample_user]"
  using deleted_subscription_downgrades_iff_last [of "sample_world [(''users'', [sample_user]),
      (''subscriptions'', [sample_subscription])]" sample_event sample_subscription "[]" sample_handler]
  by (simp add: sample_event_def sample_subscription_def other_active_def)

text \<open>
  C2: a subscription event for a known subscription sets the plan its price resolves to, or,
  when the price is unknown and the schedule of a pending downgrade has ended, the recorded
  pending plan. The owner's row and every row of the subscription get that plan, the report
  limit follows it, and the pending markers are cleared once the schedule has ended.
\<close>

theorem subscription_event_sets_plan:
  assumes "healthy w" and "truthy (dget s ''id'')"
    and "rows_with w ''b2b_subscriptions'' ''stripe_subscription_id'' (dget s ''id'') = []"
    and "period_cells s w = (Inr ps, w)"
    and "dget_or s ''cancel_at_period_end'' (PBool False) \<noteq> PNone"
    and "rows_with w ''subscriptions'' ''stripe_subscription_id'' (dget s ''id'') = r # rs"
    and "if truthy (resolve_event_plan h s) then p = resolve_event_plan h s
         else schedule_fired r s \<and> truthy (r ''pending_plan'') \<and> p = normalize_plan (r ''pending_plan'')"
    and "truthy p" and "truthy (r ''user_id'')"
  shows "\<exists>w'. handle_subscription_updated h s w = (Inr (), w')
    \<and> user_has (r ''user_id'') p (tables w' ''users'')
    \<and> list_all (\<lambda>r'. r' ''plan_type'' = p \<and> r' ''report_limit'' = PInt (table_get PLAN_REPORT_LIMITS p 3)
          \<and> (if schedule_fired r s then r' ''pending_plan'' = PNone \<and> r' ''stripe_schedule_id'' = PNone else True))
        (rows_with w' ''subscriptions'' ''stripe_subscription_id'' (dget s ''id''))"
proof -
  have trusted: "plan_to_trust (resolve_event_plan h s) r s = p"
    using assms(7) by (auto simp: plan_to_trust_def split: if_splits)
  note cells = event_payload_cells [OF period_cells_keys(2) [OF assms(4)] assms(8), where s = s and pre = r]
  from subscription_updated_effect [OF assms(1-6) trusted assms(8,9)] obtain w' where
    w': "handle_subscription_updated h s w = (Inr (), w')"
      "rows_with w' ''subscriptions'' ''stripe_subscription_id'' (dget s ''id'')
        = map (set_cells (event_payload s r ps p)) (r # rs)"
      "tables w' ''users'' = update_rows [F_eq ''id'' (r ''user_id'')] (plan_write p) (tables w ''users'')"
    by blast
  have "list_all (\<lambda>r'. r' ''plan_type'' = p \<and> r' ''report_limit'' = PInt (table_get PLAN_REPORT_LIMITS p 3)
          \<and> (if schedule_fired r s then r' ''pending_plan'' = PNone \<and> r' ''stripe_schedule_id'' = PNone else True))
      (map (set_cells (event_payload s r ps p)) (r # rs))"
    using cells by (simp add: list_all_iff del: set_cells_apply)
  moreover have "user_has (r ''user_id'') p (tables w' ''users'')"
    unfolding w'(3) by (rule user_has_plan_write)
  ultimately show ?thesis using w'(1) unfolding w'(2) [symmetric] by blast
qed

theorem subscription_event_sets_plan_witness:
  "\<exists>w'. handle_subscription_updated sample_handler sample_event
        (sample_world [(''users'', [sample_user]), (''subscriptions'', [sample_subscription])]) = (Inr (), w')
    \<and> user_has (sample_subscription ''user_id'') (PStr ''producer'') (tables w' ''users'')
    \<and> list_all (\<lambda>r'. r' ''plan_type'' = PStr ''producer''
          \<and> r' ''report_limit'' = PInt (table_get PLAN_REPORT_LIMITS (PStr ''producer'') 3)
          \<and> (if schedule_fired sample_subscription sample_event
             then r' ''pending_plan'' = PNone \<and> r' ''stripe_schedule_id'' = PNone else True))
        (rows_with w' ''subscriptions'' ''stripe_subscription_id'' (dget sample_event ''id''))"
proof (rule subscription_event_sets_plan)
  show "period_cells sample_event (sample_world [(''users'', [sample_user]), (''subscriptions'', [sample_subscription])])
      = (Inr [(''current_period_start'', PTime 10000000), (''current_period_end'', PTime 20000000)],
         sample_world [(''users'', [sample_user]), (''subscriptions'', [sample_subscription])])"
    by (simp add: period_cells_def stripe_period_def sample_event_def items_of_def from_timestamp_def timestamp_value_def world_simps)
  show "if truthy (resolve_event_plan sample_handler sample_event)
      then PStr ''producer'' = resolve_event_plan sample_handler sample_event
      else schedule_fired sample_subscription sample_event \<and> truthy (sample_subscription ''pending_plan'')
        \<and> PStr ''producer'' = normalize_plan (sample_subscription ''pending_plan'')"
    by (simp add: resolve_event_plan_def sample_handler_def resolve_plan_from_subscription_def
        sample_event_def items_of_def plan_of_price_def build_price_to_plan_map_def raw_price_map_def
        sample_settings_def normalize_plan_def)
qed (simp_all add: sample_event_def sample_subscription_def dget_or_def)

end
