(* ===== verification/Dunning.thy ===== *)
theory Dunning
  imports Webhooks Sample_World
begin

text \<open>
  \<open>app/modules/payments/dunning.py\<close>: the hourly task that ends the grace period. The loop
  over the overdue rows is \<open>dunning_loop\<close>; a row without a user is skipped.
\<close>

definition GRACE_PERIOD_DAYS :: int where
  "GRACE_PERIOD_DAYS = 7"

definition dunning_bust_user_cache :: "pyval \<Rightarrow> unit comp" where
  "dunning_bust_user_cache user_id = cache_delete (''user_profile:'' @ text_of user_id)"

definition dunning_notice :: "settings \<Rightarrow> pyval \<Rightarrow> unit comp" where
  "dunning_notice st user_id =
     (if BREVO_API_KEY st = [] then ret ()
      else tryM
       (bindM (fetch (tq_limit 1 (tq_eq ''id'' user_id (tq_select ''email'' (tq ''users''))))) (\<lambda>user_row.
        let user_data = first_or [] user_row in
        whenM (truthy (user_data ''email''))
          (email_send st (text_of (user_data ''email'')) ''subscription_downgraded'' [])))
       (\<lambda>_. ret ()))"

definition dunning_downgrade :: "settings \<Rightarrow> row \<Rightarrow> unit comp" where
  "dunning_downgrade st row =
     bindM utcnow (\<lambda>now.
     thenM (run (tq_eq ''id'' (row ''id'') (tq_update
       [(''status'', PStr ''cancelled''), (''cancelled_at'', now)] (tq ''subscriptions''))))
     (thenM (run (tq_eq ''id'' (row ''user_id'') (tq_update
       [(''plan'', PStr ''free''), (''user_type'', PStr ''free'')] (tq ''users''))))
     (thenM (dunning_bust_user_cache (row ''user_id''))
     (dunning_notice st (row ''user_id'')))))"

fun dunning_loop :: "settings \<Rightarrow> row list \<Rightarrow> nat \<Rightarrow> nat comp" where
  "dunning_loop st [] downgraded = ret downgraded"
| "dunning_loop st (row # rows) downgraded =
     (if \<not> truthy (row ''user_id'') then dunning_loop st rows downgraded
      else thenM (dunning_downgrade st row) (dunning_loop st rows (Suc downgraded)))"

definition overdue_query :: "int \<Rightarrow> query" where
  "overdue_query cutoff =
     tq_lte ''past_due_since'' (PTime cutoff) (tq_eq ''status'' (PStr ''past_due'')
       (tq_select ''id, user_id, stripe_subscription_id, past_due_since'' (tq ''subscriptions'')))"

definition run_dunning_grace_check :: "settings \<Rightarrow> nat comp" where
  "run_dunning_grace_check st =
     bindM (gets clock) (\<lambda>now.
     bindM (fetch (overdue_query (now - days_us GRACE_PERIOD_DAYS))) (\<lambda>rows.
     dunning_loop st rows 0))"

section \<open>What one run does\<close>

definition overdue :: "int \<Rightarrow> row \<Rightarrow> bool" where
  "overdue now r \<longleftrightarrow> r ''status'' = PStr ''past_due'' \<and>
     sql_le (r ''past_due_since'') (PTime (now - days_us GRACE_PERIOD_DAYS))"

definition cancelled_row :: "int \<Rightarrow> row \<Rightarrow> row" where
  "cancelled_row now = set_cells [(''status'', PStr ''cancelled''), (''cancelled_at'', PTime now)]"

definition free_row :: "row \<Rightarrow> row" where
  "free_row = set_cells [(''plan'', PStr ''free''), (''user_type'', PStr ''free'')]"

definition on_column :: "string \<Rightarrow> pyval set \<Rightarrow> (row \<Rightarrow> row) \<Rightarrow> row list \<Rightarrow> row list" where
  "on_column c vs f rs = map (\<lambda>r. if r c \<in> vs then f r else r) rs"

lemma on_column_empty [simp]: "on_column c {} f rs = rs"
  by (simp add: on_column_def)

lemma update_rows_on_column: "update_rows [F_eq c v] p rs = on_column c {v} (set_cells p) rs"
  by (simp add: update_rows_def on_column_def)

lemma on_column_insert:
  assumes "\<And>r. f r c = r c" and "\<And>r. f (f r) = f r"
  shows "on_column c vs f (on_column c {v} f rs) = on_column c (insert v vs) f rs"
  using assms by (auto simp: on_column_def)

lemma dunning_notice_returns: "\<exists>w'. dunning_notice st u w = (Inr (), w')"
  by (simp add: dunning_notice_def world_simps split: prod.split sum.split)

lemma keeps_dunning_notice: "keeps (tables_inv P) (dunning_notice st u)"
  unfolding dunning_notice_def by (auto simp: Let_def)

lemma dunning_downgrade_effect:
  assumes "healthy w"
  shows "\<exists>w'. dunning_downgrade st r w = (Inr (), w') \<and> healthy w' \<and> clock w' = clock w
    \<and> tables w' ''subscriptions'' = on_column ''id'' {r ''id''} (cancelled_row (clock w)) (tables w ''subscriptions'')
    \<and> tables w' ''users'' = on_column ''id'' {r ''user_id''} free_row (tables w ''users'')"
proof -
  let ?p = "[(''status'', PStr ''cancelled''), (''cancelled_at'', PTime (clock w))]"
  let ?q = "[(''plan'', PStr ''free''), (''user_type'', PStr ''free'')]"
  define w1 where "w1 = set_table ''subscriptions'' (update_rows [F_eq ''id'' (r ''id'')] ?p (tables w ''subscriptions'')) w"
  define w2 where "w2 = set_table ''users'' (update_rows [F_eq ''id'' (r ''user_id'')] ?q (tables w1 ''users'')) w1"
  have 1: "run (update_eq ''subscriptions'' ''id'' (r ''id'') ?p) w = (Inr (), w1)"
    unfolding w1_def by (rule run_update_eq) (use assms in \<open>auto simp: table_defs updatable_def not_null_def\<close>)
  have h1: "healthy w1" using assms by (simp add: w1_def)
  have 2: "run (update_eq ''users'' ''id'' (r ''user_id'') ?q) w1 = (Inr (), w2)"
    unfolding w2_def by (rule run_update_eq) (use h1 in \<open>auto simp: table_defs updatable_def not_null_def\<close>)
  define rest where "rest = thenM (dunning_bust_user_cache (r ''user_id'')) (dunning_notice st (r ''user_id''))"
  have "returns rest" unfolding rest_def
    by (intro returns_thenM) (auto intro!: returnsI dunning_notice_returns simp: dunning_bust_user_cache_def world_simps)
  then obtain w' where w': "rest w2 = (Inr (), w')" by (rule returnsE)
  have "keeps (tables_inv P) rest" for P
    unfolding rest_def dunning_bust_user_cache_def by (auto intro: keeps_dunning_notice)
  then have "tables w' = tables w2"
    using keepsD [of "tables_inv (\<lambda>x. x = tables w2)" rest w2] w' by (simp add: tables_inv_def)
  moreover have "keeps healthy rest"
    unfolding rest_def dunning_bust_user_cache_def dunning_notice_def
    by (auto simp: Let_def intro!: healthy_frame.frame_email_send healthy_frame.frame_fetch)
  then have "healthy w'" using keepsD [of healthy rest w2] w' assms by (simp add: w1_def w2_def)
  moreover have "keeps (\<lambda>x. clock x = clock w) rest"
    unfolding rest_def dunning_bust_user_cache_def dunning_notice_def
    by (auto simp: Let_def intro!: clock_frame.frame_email_send clock_frame.frame_fetch clock_frame.frame_cache)
  then have "clock w' = clock w" using keepsD [of "\<lambda>x. clock x = clock w" rest w2] w' by (simp add: w1_def w2_def)
  moreover have "dunning_downgrade st r w = rest w2"
    using 1 2 by (simp add: dunning_downgrade_def world_simps rest_def)
  ultimately show ?thesis
    using w' by (simp add: w1_def w2_def update_rows_on_column cancelled_row_def free_row_def fun_upd_twist)
qed

definition chargeable :: "row list \<Rightarrow> row list" where
  "chargeable rs = filter (\<lambda>r. truthy (r ''user_id'')) rs"

lemma row_writes_stable [simp]:
  "cancelled_row n r ''id'' = r ''id''" "cancelled_row n (cancelled_row n r) = cancelled_row n r"
  "free_row r ''id'' = r ''id''" "free_row (free_row r) = free_row r"
  by (auto simp: cancelled_row_def free_row_def)

lemma dunning_loop_effect:
  assumes "healthy w"
  shows "\<exists>w'. dunning_loop st rs n w = (Inr (n + length (chargeable rs)), w') \<and> healthy w' \<and> clock w' = clock w
    \<and> tables w' ''subscriptions'' = on_column ''id'' ((\<lambda>r. r ''id'') ` set (chargeable rs)) (cancelled_row (clock w))
          (tables w ''subscriptions'')
    \<and> tables w' ''users'' = on_column ''id'' ((\<lambda>r. r ''user_id'') ` set (chargeable rs)) free_row (tables w ''users'')"
  using assms
proof (induction rs arbitrary: w n)
  case Nil
  then show ?case by (simp add: chargeable_def ret_def)
next
  case (Cons r rs)
  show ?case
  proof (cases "truthy (r ''user_id'')")
    case False
    then show ?thesis using Cons.IH [OF Cons.prems, of n] by (simp add: chargeable_def)
  next
    case True
    obtain w1 where w1: "dunning_downgrade st r w = (Inr (), w1)" "healthy w1" "clock w1 = clock w"
      and t1: "tables w1 ''subscriptions'' = on_column ''id'' {r ''id''} (cancelled_row (clock w)) (tables w ''subscriptions'')"
        "tables w1 ''users'' = on_column ''id'' {r ''user_id''} free_row (tables w ''users'')"
      using dunning_downgrade_effect [OF Cons.prems, of st r] by blast
    have ch: "chargeable (r # rs) = r # chargeable rs" using True by (simp add: chargeable_def)
    show ?thesis
      using Cons.IH [OF w1(2), of "Suc n"] w1 t1 True
      by (simp add: ch world_simps on_column_insert)
  qed
qed

lemma fetch_overdue:
  assumes "healthy w"
  shows "fetch (overdue_query (clock w - days_us GRACE_PERIOD_DAYS)) w
    = (Inr (map (project_row [''id'', ''user_id'', ''stripe_subscription_id'', ''past_due_since''])
        (take (max_rows w) (filter (overdue (clock w)) (tables w ''subscriptions'')))), w)"
proof -
  have "matches [F_eq ''status'' (PStr ''past_due''), F_lte ''past_due_since'' (PTime (n - days_us GRACE_PERIOD_DAYS))]
      = overdue n" for n
    by (rule ext) (simp add: overdue_def)
  then show ?thesis
    using assms by (simp add: overdue_query_def query_eval world_simps table_defs healthy_def sql_def split_simps)
qed

lemma chargeable_project:
  "map (\<lambda>r. r c) (chargeable (map (project_row [''id'', ''user_id'', ''stripe_subscription_id'', ''past_due_since'']) rs))
    = map (\<lambda>r. r c) (chargeable rs)" if "c \<in> {''id'', ''user_id''}"
  using that by (auto simp: chargeable_def filter_map o_def)

lemma run_dunning_effect:
  assumes "healthy w"
  shows "\<exists>w'. run_dunning_grace_check st w
      = (Inr (length (chargeable (take (max_rows w) (filter (overdue (clock w)) (tables w ''subscriptions''))))), w')
    \<and> healthy w' \<and> clock w' = clock w
    \<and> tables w' ''subscriptions'' = on_column ''id'' ((\<lambda>r. r ''id'') ` set (chargeable
         (take (max_rows w) (filter (overdue (clock w)) (tables w ''subscriptions'')))))
         (cancelled_row (clock w)) (tables w ''subscriptions'')
    \<and> tables w' ''users'' = on_column ''id'' ((\<lambda>r. r ''user_id'') ` set (chargeable
         (take (max_rows w) (filter (overdue (clock w)) (tables w ''subscriptions''))))) free_row (tables w ''users'')"
proof -
  let ?rs = "take (max_rows w) (filter (overdue (clock w)) (tables w ''subscriptions''))"
  let ?ps = "map (project_row [''id'', ''user_id'', ''stripe_subscription_id'', ''past_due_since'']) ?rs"
  have "length (chargeable ?ps) = length (chargeable ?rs)"
    "(\<lambda>r. r ''id'') ` set (chargeable ?ps) = (\<lambda>r. r ''id'') ` set (chargeable ?rs)"
    "(\<lambda>r. r ''user_id'') ` set (chargeable ?ps) = (\<lambda>r. r ''user_id'') ` set (chargeable ?rs)"
    using arg_cong [OF chargeable_project [of "''id''" ?rs], of length]
      arg_cong [OF chargeable_project [of "''id''" ?rs], of set]
      arg_cong [OF chargeable_project [of "''user_id''" ?rs], of set]
    by simp_all
  moreover have "run_dunning_grace_check st w = dunning_loop st ?ps 0 w"
    using fetch_overdue [OF assms] by (simp add: run_dunning_grace_check_def world_simps)
  ultimately show ?thesis
    using dunning_loop_effect [OF assms, of st ?ps 0] by simp
qed

lemma on_column_chosen:
  assumes "distinct (map (\<lambda>r. r ''id'') rs)"
  shows "on_column ''id'' ((\<lambda>r. r ''id'') ` set (filter P rs)) f rs = map (\<lambda>r. if P r then f r else r) rs"
proof -
  have "r ''id'' \<in> (\<lambda>r. r ''id'') ` set (filter P rs) \<longleftrightarrow> P r" if "r \<in> set rs" for r
    using that assms by (auto simp: distinct_map inj_on_def)
  then show ?thesis by (auto simp: on_column_def)
qed

section \<open>Properties\<close>

definition ends_grace :: "int \<Rightarrow> row \<Rightarrow> bool" where
  "ends_grace now r \<longleftrightarrow> overdue now r \<and> truthy (r ''user_id'')"

text \<open>
  C10: a run of the dunning task cancels exactly the past-due rows whose streak is at least seven
  days old, takes exactly their owners to the free plan, leaves every other row of both tables
  as it was and returns how many rows it cancelled.
\<close>

theorem dunning_ends_grace_only:
  assumes "healthy w" and "distinct (map (\<lambda>r. r ''id'') (tables w ''subscriptions''))"
    and "length (filter (overdue (clock w)) (tables w ''subscriptions'')) \<le> max_rows w"
  shows "\<exists>w'. run_dunning_grace_check st w
      = (Inr (length (filter (ends_grace (clock w)) (tables w ''subscriptions''))), w')
    \<and> tables w' ''subscriptions''
        = map (\<lambda>r. if ends_grace (clock w) r then cancelled_row (clock w) r else r) (tables w ''subscriptions'')
    \<and> tables w' ''users'' = map (\<lambda>u. if u ''id'' \<in> (\<lambda>r. r ''user_id'') ` set (filter (ends_grace (clock w))
         (tables w ''subscriptions'')) then free_row u else u) (tables w ''users'')"
proof -
  have ch: "chargeable (take (max_rows w) (filter (overdue (clock w)) (tables w ''subscriptions'')))
      = filter (ends_grace (clock w)) (tables w ''subscriptions'')"
    using assms(3) by (simp add: chargeable_def ends_grace_def [abs_def])
  from run_dunning_effect [OF assms(1), of st] show ?thesis
    unfolding ch on_column_chosen [OF assms(2)] by (auto simp: on_column_def)
qed

definition sample_overdue :: row where
  "sample_overdue = lookup [(''id'', PStr ''s1''), (''user_id'', PStr ''u1''), (''status'', PStr ''past_due''),
     (''past_due_since'', PTime (- 700000000000))]"

definition sample_in_grace :: row where
  "sample_in_grace = sample_overdue(''id'' := PStr ''s2'', ''past_due_since'' := PTime 0)"

theorem dunning_ends_grace_only_witness:
  "\<exists>w'. run_dunning_grace_check sample_settings (sample_world [(''subscriptions'', [sample_overdue, sample_in_grace])])
      = (Inr 1, w')
    \<and> tables w' ''subscriptions'' = [cancelled_row 1000000 sample_overdue, sample_in_grace]"
  using dunning_ends_grace_only [of "sample_world [(''subscriptions'', [sample_overdue, sample_in_grace])]" sample_settings]
  by (auto simp: sample_overdue_def sample_in_grace_def ends_grace_def overdue_def sql_le_def days_us_def day_us_def
      GRACE_PERIOD_DAYS_def)

text \<open>A second run at the same instant finds nothing left to do.\<close>

theorem dunning_run_is_idempotent:
  assumes "healthy w" and "distinct (map (\<lambda>r. r ''id'') (tables w ''subscriptions''))"
    and "length (filter (overdue (clock w)) (tables w ''subscriptions'')) \<le> max_rows w"
  shows "\<exists>n w' w''. run_dunning_grace_check st w = (Inr n, w') \<and> run_dunning_grace_check st w' = (Inr 0, w'')
    \<and> tables w'' ''subscriptions'' = tables w' ''subscriptions'' \<and> tables w'' ''users'' = tables w' ''users''"
proof -
  have ch: "chargeable (take (max_rows w) (filter (overdue (clock w)) (tables w ''subscriptions'')))
      = filter (ends_grace (clock w)) (tables w ''subscriptions'')"
    using assms(3) by (simp add: chargeable_def ends_grace_def [abs_def])
  from run_dunning_effect [OF assms(1), of st] obtain w' where
    w': "run_dunning_grace_check st w = (Inr (length (filter (ends_grace (clock w)) (tables w ''subscriptions''))), w')"
      "healthy w'" "clock w' = clock w"
      "tables w' ''subscriptions''
        = map (\<lambda>r. if ends_grace (clock w) r then cancelled_row (clock w) r else r) (tables w ''subscriptions'')"
    unfolding ch on_column_chosen [OF assms(2)] by blast
  have "\<not> ends_grace (clock w) (cancelled_row (clock w) r)" for r
    by (simp add: ends_grace_def overdue_def cancelled_row_def)
  then have "chargeable (take (max_rows w') (filter (overdue (clock w')) (tables w' ''subscriptions''))) = []"
    using w'(3,4) set_take_subset
    by (fastforce simp: chargeable_def filter_empty_conv ends_grace_def split: if_splits)
  with run_dunning_effect [OF w'(2), of st] obtain w'' where
    "run_dunning_grace_check st w' = (Inr 0, w'')"
    "tables w'' ''subscriptions'' = tables w' ''subscriptions''" "tables w'' ''users'' = tables w' ''users''"
    by auto
  with w'(1) show ?thesis by blast
qed

theorem dunning_run_is_idempotent_witness:
  "\<exists>n w' w''. run_dunning_grace_check sample_settings
        (sample_world [(''subscriptions'', [sample_overdue, sample_in_grace])]) = (Inr n, w')
    \<and> run_dunning_grace_check sample_settings w' = (Inr 0, w'')
    \<and> tables w'' ''subscriptions'' = tables w' ''subscriptions'' \<and> tables w'' ''users'' = tables w' ''users''"
proof (rule dunning_run_is_idempotent)
  have "length (filter P [a, b]) \<le> 1000" for P and a b :: row by simp
  then show "length (filter (overdue (clock (sample_world [(''subscriptions'', [sample_overdue, sample_in_grace])])))
      (tables (sample_world [(''subscriptions'', [sample_overdue, sample_in_grace])]) ''subscriptions''))
      \<le> max_rows (sample_world [(''subscriptions'', [sample_overdue, sample_in_grace])])"
    by simp
qed (simp_all add: sample_overdue_def sample_in_grace_def)

end
