(* ===== verification/Reconciler.thy ===== *)
theory Reconciler
  imports Webhooks Sample_World
begin

text \<open>
  \<open>app/modules/payments/reconciler.py\<close>: the hourly comparison of every tracked subscription
  with Stripe. \<open>diff_subscription\<close> is pure: the columns to correct, or the error a malformed
  period raises. The function \<open>run_subscription_reconciler\<close> loops over the tracked rows; a row
  Stripe cannot be asked about is skipped.
\<close>

definition RECONCILE_STATUSES :: "pyval list" where
  "RECONCILE_STATUSES = [PStr ''active'', PStr ''trialing'', PStr ''past_due'']"

text \<open>
  \<open>_to_utc_datetime\<close>: a text that is an instant is a \<open>PTime\<close> already, any other value is \<open>None\<close>.
\<close>

definition to_utc_datetime :: "pyval \<Rightarrow> pyval" where
  "to_utc_datetime v = (case v of PTime t \<Rightarrow> PTime t | _ \<Rightarrow> PNone)"

definition diff_cell :: "string \<Rightarrow> pyval \<Rightarrow> pyval \<Rightarrow> pydict" where
  "diff_cell c new old = (if new \<noteq> old then [(c, new)] else [])"

definition diff_period :: "string \<Rightarrow> pyval \<Rightarrow> pyval \<Rightarrow> exc + pydict" where
  "diff_period c stripe_value local_value =
     (if truthy stripe_value
      then bindE (timestamp_value stripe_value) (\<lambda>t. Inr (diff_cell c t (to_utc_datetime local_value)))
      else Inr [])"

definition diff_subscription :: "row \<Rightarrow> pyval \<Rightarrow> settings \<Rightarrow> exc + pydict" where
  "diff_subscription local stripe_sub st =
     (let stripe_status = dget stripe_sub ''status'';
          cancel_at_period_end = dget_or stripe_sub ''cancel_at_period_end'' (PBool False) in
      case stripe_period stripe_sub of (period_start, period_end) \<Rightarrow>
      bindE (diff_period ''current_period_start'' period_start (local ''current_period_start'')) (\<lambda>start_cell.
      bindE (diff_period ''current_period_end'' period_end (local ''current_period_end'')) (\<lambda>end_cell.
      let resolved_plan = plan_to_trust (resolve_plan_from_subscription stripe_sub st) local stripe_sub in
      Inr
       ((if truthy stripe_status then diff_cell ''status'' stripe_status (local ''status'') else [])
        @ diff_cell ''cancel_at_period_end'' cancel_at_period_end (local ''cancel_at_period_end'')
        @ start_cell @ end_cell
        @ (if truthy resolved_plan \<and> resolved_plan \<noteq> local ''plan_type'' then plan_cells resolved_plan else [])
        @ (if schedule_fired local stripe_sub
           then diff_cell ''pending_plan'' PNone (local ''pending_plan'')
                @ diff_cell ''stripe_schedule_id'' PNone (local ''stripe_schedule_id'')
           else [])))))"

definition reconcile_write :: "settings \<Rightarrow> row \<Rightarrow> pydict \<Rightarrow> unit comp" where
  "reconcile_write st row update =
     thenM (run (tq_eq ''id'' (row ''id'') (tq_update update (tq ''subscriptions''))))
     (let new_plan = lookup update ''plan_type''; user_id = row ''user_id'' in
      whenM (truthy new_plan \<and> truthy user_id)
       (thenM (run (tq_eq ''id'' user_id (tq_update
          [(''plan'', new_plan), (''user_type'', user_type_for new_plan)] (tq ''users''))))
        (cache_delete (''user_profile:'' @ text_of user_id))))"

text \<open>One row: whether it was corrected.\<close>

definition reconcile_row :: "settings \<Rightarrow> row \<Rightarrow> bool comp" where
  "reconcile_row st row =
     (let sub_id = row ''stripe_subscription_id'' in
      if \<not> truthy sub_id then ret False
      else
       bindM (catch_stripe (bindM (stripe_call ''Subscription.retrieve'' [(''id'', sub_id)]) (\<lambda>s. ret (Some s)))
                (ret None)) (\<lambda>stripe_sub.
       case stripe_sub of
         None \<Rightarrow> ret False
       | Some s \<Rightarrow>
         bindM (liftE (diff_subscription row s st)) (\<lambda>update.
         if update = [] then ret False
         else thenM (reconcile_write st row update) (ret True))))"

fun reconcile_loop :: "settings \<Rightarrow> row list \<Rightarrow> nat \<Rightarrow> nat comp" where
  "reconcile_loop st [] fixed = ret fixed"
| "reconcile_loop st (row # rows) fixed =
     bindM (reconcile_row st row) (\<lambda>corrected. reconcile_loop st rows (if corrected then Suc fixed else fixed))"

definition run_subscription_reconciler :: "settings \<Rightarrow> nat comp" where
  "run_subscription_reconciler st =
     (if STRIPE_SECRET_KEY st = [] then ret 0
      else
       bindM (fetch (tq_in ''status'' RECONCILE_STATUSES (tq_select ''*'' (tq ''subscriptions'')))) (\<lambda>rows.
       reconcile_loop st rows 0))"

section \<open>A corrected row has no drift left\<close>

lemma diff_cell_simps [simp]:
  "diff_cell c v v = []"
  "diff_cell c v u = [] \<longleftrightarrow> v = u"
  by (auto simp: diff_cell_def)

lemma timestamp_value_time: "timestamp_value v = Inr x \<Longrightarrow> \<exists>t. x = PTime t"
  by (auto simp: timestamp_value_def split: pyval.splits)

lemma diff_period_fixed:
  assumes "diff_period c s old = Inr d" and "map_of d c = None \<Longrightarrow> new = old" and "\<And>v. map_of d c = Some v \<Longrightarrow> new = v"
  shows "diff_period c s new = Inr []"
  using assms timestamp_value_time
  by (cases "timestamp_value s")
     (fastforce simp: diff_period_def diff_cell_def to_utc_datetime_def split: if_splits)+

lemma diff_period_keys: "diff_period c s old = Inr d \<Longrightarrow> fst ` set d \<subseteq> {c}"
  by (cases "timestamp_value s") (auto simp: diff_period_def diff_cell_def split: if_splits)

lemma diff_subscription_parts:
  assumes "diff_subscription r s st = Inr p" and "stripe_period s = (ps, pe)"
    and "plan_to_trust (resolve_plan_from_subscription s st) r s = plan"
  obtains sc ec where "diff_period ''current_period_start'' ps (r ''current_period_start'') = Inr sc"
    and "diff_period ''current_period_end'' pe (r ''current_period_end'') = Inr ec"
    and "p = (if truthy (dget s ''status'') then diff_cell ''status'' (dget s ''status'') (r ''status'') else [])
        @ diff_cell ''cancel_at_period_end'' (dget_or s ''cancel_at_period_end'' (PBool False)) (r ''cancel_at_period_end'')
        @ sc @ ec
        @ (if truthy plan \<and> plan \<noteq> r ''plan_type'' then plan_cells plan else [])
        @ (if schedule_fired r s
           then diff_cell ''pending_plan'' PNone (r ''pending_plan'')
                @ diff_cell ''stripe_schedule_id'' PNone (r ''stripe_schedule_id'')
           else [])"
  using assms unfolding diff_subscription_def Let_def
  by (auto dest!: bindE_Inr_D)

lemma map_of_diff_cell: "map_of (diff_cell c v u) k = (if c = k \<and> v \<noteq> u then Some v else None)"
  by (simp add: diff_cell_def)

lemma diff_converges_aux:
  assumes "diff_subscription r s st = Inr p"
  shows "diff_subscription (set_cells p r) s st = Inr []"
proof -
  obtain ps pe where per: "stripe_period s = (ps, pe)" by fastforce
  define plan where "plan = plan_to_trust (resolve_plan_from_subscription s st) r s"
  from diff_subscription_parts [OF assms per plan_def [symmetric]] obtain sc ec where
    sc: "diff_period ''current_period_start'' ps (r ''current_period_start'') = Inr sc" and
    ec: "diff_period ''current_period_end'' pe (r ''current_period_end'') = Inr ec" and
    p: "p = (if truthy (dget s ''status'') then diff_cell ''status'' (dget s ''status'') (r ''status'') else [])
        @ diff_cell ''cancel_at_period_end'' (dget_or s ''cancel_at_period_end'' (PBool False)) (r ''cancel_at_period_end'')
        @ sc @ ec
        @ (if truthy plan \<and> plan \<noteq> r ''plan_type'' then plan_cells plan else [])
        @ (if schedule_fired r s
           then diff_cell ''pending_plan'' PNone (r ''pending_plan'')
                @ diff_cell ''stripe_schedule_id'' PNone (r ''stripe_schedule_id'')
           else [])"
    by blast
  let ?r = "set_cells p r"
  have sk: "map_of sc k = None" if "k \<noteq> ''current_period_start''" for k
    using diff_period_keys [OF sc] that by (auto simp: map_of_eq_None_iff)
  have ek: "map_of ec k = None" if "k \<noteq> ''current_period_end''" for k
    using diff_period_keys [OF ec] that by (auto simp: map_of_eq_None_iff)
  note cells = map_of_diff_cell plan_cells_def map_add_def sk ek
  have status: "truthy (dget s ''status'') \<Longrightarrow> ?r ''status'' = dget s ''status''"
    by (simp add: p cells)
  have cancel: "?r ''cancel_at_period_end'' = dget_or s ''cancel_at_period_end'' (PBool False)"
    by (simp add: p cells)
  have start: "map_of p ''current_period_start'' = map_of sc ''current_period_start''"
    by (simp add: p cells split: option.split)
  have stop: "map_of p ''current_period_end'' = map_of ec ''current_period_end''"
    by (simp add: p cells split: option.split)
  have start': "diff_period ''current_period_start'' ps (?r ''current_period_start'') = Inr []"
    by (rule diff_period_fixed [OF sc]) (simp_all add: start)
  have stop': "diff_period ''current_period_end'' pe (?r ''current_period_end'') = Inr []"
    by (rule diff_period_fixed [OF ec]) (simp_all add: stop)
  have fired: "schedule_fired r s \<Longrightarrow> ?r ''pending_plan'' = PNone \<and> ?r ''stripe_schedule_id'' = PNone"
    and not_fired: "\<not> schedule_fired r s \<Longrightarrow> ?r ''pending_plan'' = r ''pending_plan''
      \<and> ?r ''stripe_schedule_id'' = r ''stripe_schedule_id''"
    by (simp_all add: p cells)
  have nf: "\<not> schedule_fired ?r s"
    using fired not_fired by (cases "schedule_fired r s") (auto simp: schedule_fired_def simp del: set_cells_apply)
  then have trust: "plan_to_trust (resolve_plan_from_subscription s st) ?r s = resolve_plan_from_subscription s st"
    by (simp add: plan_to_trust_def)
  have plan: "?r ''plan_type'' = resolve_plan_from_subscription s st" if "truthy (resolve_plan_from_subscription s st)"
  proof -
    have "plan = resolve_plan_from_subscription s st" using that by (simp add: plan_def plan_to_trust_def)
    then show ?thesis using that by (simp add: p cells)
  qed
  show ?thesis
    unfolding diff_subscription_def Let_def per prod.case start' stop' trust bindE_simps
    using status cancel nf plan by (auto simp del: set_cells_apply)
qed

section \<open>A whole run\<close>

text \<open>What Stripe says of a subscription, and the correction it asks for.\<close>

type_synonym stripe_view = "pydict \<Rightarrow> exc + pyval"

definition correction :: "settings \<Rightarrow> stripe_view \<Rightarrow> row \<Rightarrow> pydict" where
  "correction st answer r =
     (if \<not> truthy (r ''stripe_subscription_id'') then []
      else (case answer [(''id'', r ''stripe_subscription_id'')] of
          Inl _ \<Rightarrow> []
        | Inr s \<Rightarrow> (case diff_subscription r s st of Inl _ \<Rightarrow> [] | Inr p \<Rightarrow> p)))"

text \<open>
  Stripe answers the same whenever it is asked, with a well-formed subscription or an error of
  its own.
\<close>

definition steady_stripe :: "stripe_view \<Rightarrow> world \<Rightarrow> bool" where
  "steady_stripe answer w \<longleftrightarrow> (\<forall>log args. stripe_api w log ''Subscription.retrieve'' args = answer args)"

definition well_formed_view :: "settings \<Rightarrow> stripe_view \<Rightarrow> row list \<Rightarrow> bool" where
  "well_formed_view st answer rs \<longleftrightarrow> (\<forall>r \<in> set rs.
     case answer [(''id'', r ''stripe_subscription_id'')] of
       Inl e \<Rightarrow> (case e of StripeError _ \<Rightarrow> True | _ \<Rightarrow> False)
     | Inr s \<Rightarrow> dget_or s ''cancel_at_period_end'' (PBool False) \<noteq> PNone
         \<and> (case diff_subscription r s st of Inl _ \<Rightarrow> False | Inr _ \<Rightarrow> True))"

lemma diff_keys:
  assumes "diff_subscription r s st = Inr p"
  shows "set (map fst p) \<subseteq> {''status'', ''cancel_at_period_end'', ''current_period_start'', ''current_period_end'',
    ''plan_type'', ''report_limit'', ''pending_plan'', ''stripe_schedule_id''}"
    and "map_of p ''cancel_at_period_end'' \<in> {None, Some (dget_or s ''cancel_at_period_end'' (PBool False))}"
proof -
  obtain ps pe where per: "stripe_period s = (ps, pe)" by fastforce
  obtain plan where plan: "plan_to_trust (resolve_plan_from_subscription s st) r s = plan" by blast
  from diff_subscription_parts [OF assms per plan] obtain sc ec where
    sc: "diff_period ''current_period_start'' ps (r ''current_period_start'') = Inr sc" and
    ec: "diff_period ''current_period_end'' pe (r ''current_period_end'') = Inr ec" and
    p: "p = (if truthy (dget s ''status'') then diff_cell ''status'' (dget s ''status'') (r ''status'') else [])
        @ diff_cell ''cancel_at_period_end'' (dget_or s ''cancel_at_period_end'' (PBool False)) (r ''cancel_at_period_end'')
        @ sc @ ec
        @ (if truthy plan \<and> plan \<noteq> r ''plan_type'' then plan_cells plan else [])
        @ (if schedule_fired r s
           then diff_cell ''pending_plan'' PNone (r ''pending_plan'')
                @ diff_cell ''stripe_schedule_id'' PNone (r ''stripe_schedule_id'')
           else [])"
    by blast
  have dc: "set (map fst (diff_cell c v u)) \<subseteq> {c}" for c v u by (auto simp: diff_cell_def)
  have pc: "set (map fst (plan_cells q)) \<subseteq> {''plan_type'', ''report_limit''}" for q by (auto simp: plan_cells_def)
  have sck: "set (map fst sc) \<subseteq> {''current_period_start''}" and eck: "set (map fst ec) \<subseteq> {''current_period_end''}"
    using diff_period_keys [OF sc] diff_period_keys [OF ec] by auto
  show "set (map fst p) \<subseteq> {''status'', ''cancel_at_period_end'', ''current_period_start'', ''current_period_end'',
    ''plan_type'', ''report_limit'', ''pending_plan'', ''stripe_schedule_id''}"
  proof -
    define K where "K = {''status'', ''cancel_at_period_end'', ''current_period_start'', ''current_period_end'',
      ''plan_type'', ''report_limit'', ''pending_plan'', ''stripe_schedule_id''}"
    have app: "set (map fst a) \<subseteq> K \<Longrightarrow> set (map fst b) \<subseteq> K \<Longrightarrow> set (map fst (a @ b)) \<subseteq> K" for a b :: pydict
      by auto
    have cond: "set (map fst a) \<subseteq> K \<Longrightarrow> set (map fst (if b then a else [])) \<subseteq> K" for b and a :: pydict
      by (cases b) simp_all
    have dcK: "c \<in> K \<Longrightarrow> set (map fst (diff_cell c v u)) \<subseteq> K" for c v u
      using dc [of c v u] by auto
    have in_K: "''status'' \<in> K" "''cancel_at_period_end'' \<in> K" "''pending_plan'' \<in> K" "''stripe_schedule_id'' \<in> K"
      by (simp_all add: K_def)
    have pcK: "set (map fst (plan_cells q)) \<subseteq> K" for q using pc [of q] by (rule subset_trans) (simp add: K_def)
    have scK: "set (map fst sc) \<subseteq> K" using sck by (rule subset_trans) (simp add: K_def)
    have ecK: "set (map fst ec) \<subseteq> K" using eck by (rule subset_trans) (simp add: K_def)
    show ?thesis unfolding K_def [symmetric] unfolding p
      by (intro app cond dcK pcK scK ecK in_K)
  qed
  have "map_of sc ''cancel_at_period_end'' = None" "map_of ec ''cancel_at_period_end'' = None"
    using sck eck by (auto simp: map_of_eq_None_iff)
  then show "map_of p ''cancel_at_period_end'' \<in> {None, Some (dget_or s ''cancel_at_period_end'' (PBool False))}"
    by (simp add: p map_of_diff_cell plan_cells_def map_add_def)
qed

lemma correction_keys: "\<not> has_key (correction st answer r) ''id''"
    "\<not> has_key (correction st answer r) ''stripe_subscription_id''"
    "\<not> has_key (correction st answer r) ''created_at''"
proof -
  have "correction st answer r = [] \<or> (\<exists>s. diff_subscription r s st = Inr (correction st answer r))"
    by (auto simp: correction_def split: sum.splits)
  then have "set (map fst (correction st answer r)) \<subseteq> {''status'', ''cancel_at_period_end'', ''current_period_start'',
    ''current_period_end'', ''plan_type'', ''report_limit'', ''pending_plan'', ''stripe_schedule_id''}"
    by (elim disjE exE) (simp, erule diff_keys(1))
  then show "\<not> has_key (correction st answer r) ''id''"
    "\<not> has_key (correction st answer r) ''stripe_subscription_id''"
    "\<not> has_key (correction st answer r) ''created_at''"
    unfolding has_key_def by auto
qed

lemma set_cells_Nil [simp]: "set_cells [] r = r"
  by (rule ext) simp

lemma update_rows_Nil_cells [simp]: "update_rows fs [] rs = rs"
  by (induction rs) auto

lemma well_formed_Cons:
  "well_formed_view st answer (r # rs) \<longleftrightarrow> well_formed_view st answer [r] \<and> well_formed_view st answer rs"
  unfolding well_formed_view_def by (simp only: list.set ball_simps simp_thms)

lemma update_rows_id: "update_rows [F_eq ''id'' i] p rs = map (\<lambda>x. if x ''id'' = i then set_cells p x else x) rs"
  by (simp add: update_rows_def)

lemma reconcile_write_effect:
  assumes "healthy w" and "p \<noteq> []"
    and k: "set (map fst p) \<subseteq> {''status'', ''cancel_at_period_end'', ''current_period_start'', ''current_period_end'',
      ''plan_type'', ''report_limit'', ''pending_plan'', ''stripe_schedule_id''}"
    and c: "map_of p ''cancel_at_period_end'' \<noteq> Some PNone"
  shows "\<exists>w'. reconcile_write st r p w = (Inr (), w') \<and> healthy w'
    \<and> tables w' ''subscriptions'' = update_rows [F_eq ''id'' (r ''id'')] p (tables w ''subscriptions'')"
proof -
  define w1 where "w1 = set_table ''subscriptions'' (update_rows [F_eq ''id'' (r ''id'')] p (tables w ''subscriptions'')) w"
  have n: "map_of p ''id'' = None" "map_of p ''created_at'' = None" using k by (auto simp: map_of_eq_None_iff)
  have 1: "run (update_eq ''subscriptions'' ''id'' (r ''id'') p) w = (Inr (), w1)"
    unfolding w1_def
  proof (rule run_update_eq)
    show "updatable Subscription_table [F_eq ''id'' (r ''id'')] p (tables w ''subscriptions'')"
      using n c by (simp add: updatable_def not_null_def table_defs has_key_map_of)
    show "list_all (\<lambda>(c, _). c \<in> set (table_columns Subscription_table)) p"
      using k by (force simp: table_defs list_all_iff)
  qed (use assms in \<open>simp_all add: table_defs\<close>)
  have h1: "healthy w1" using assms(1) by (simp add: w1_def)
  define mirror where "mirror = whenM (truthy (lookup p ''plan_type'') \<and> truthy (r ''user_id''))
       (thenM (run (update_eq ''users'' ''id'' (r ''user_id'')
          [(''plan'', lookup p ''plan_type''), (''user_type'', user_type_for (lookup p ''plan_type''))]))
        (cache_delete (''user_profile:'' @ text_of (r ''user_id''))))"
  have "\<exists>w'. mirror w1 = (Inr (), w') \<and> healthy w' \<and> tables w' ''subscriptions'' = tables w1 ''subscriptions''"
  proof (cases "truthy (lookup p ''plan_type'') \<and> truthy (r ''user_id'')")
    case True
    then have np: "lookup p ''plan_type'' \<noteq> PNone" by auto
    have "run (update_eq ''users'' ''id'' (r ''user_id'')
          [(''plan'', lookup p ''plan_type''), (''user_type'', user_type_for (lookup p ''plan_type''))]) w1
      = (Inr (), set_table ''users'' (update_rows [F_eq ''id'' (r ''user_id'')]
          [(''plan'', lookup p ''plan_type''), (''user_type'', user_type_for (lookup p ''plan_type''))] (tables w1 ''users'')) w1)"
      by (rule run_update_eq) (use h1 np in \<open>auto simp: table_defs updatable_def not_null_def user_type_for_def\<close>)
    then show ?thesis using True h1 by (simp add: mirror_def world_simps)
  next
    case False
    then show ?thesis using h1 by (auto simp: mirror_def world_simps)
  qed
  moreover have "reconcile_write st r p w = mirror w1"
    by (simp only: reconcile_write_def Let_def thenM_def [of "run q" for q] bindM_def 1 mirror_def prod.case sum.case)
  moreover have "tables w1 ''subscriptions'' = update_rows [F_eq ''id'' (r ''id'')] p (tables w ''subscriptions'')"
    by (simp add: w1_def)
  ultimately show ?thesis by metis
qed

lemma reconcile_row_effect:
  assumes "healthy w" and "steady_stripe answer w" and "well_formed_view st answer [r]"
  shows "\<exists>w'. reconcile_row st r w = (Inr (correction st answer r \<noteq> []), w') \<and> healthy w'
    \<and> tables w' ''subscriptions'' = update_rows [F_eq ''id'' (r ''id'')] (correction st answer r) (tables w ''subscriptions'')"
proof (cases "truthy (r ''stripe_subscription_id'')")
  case False
  then show ?thesis using assms(1) by (simp add: reconcile_row_def correction_def world_simps)
next
  case True
  let ?args = "[(''id'', r ''stripe_subscription_id'')]"
  define w1 where "w1 = w\<lparr>stripe_log := stripe_log w @ [(''Subscription.retrieve'', ?args)]\<rparr>"
  have h1: "healthy w1" and t1: "tables w1 = tables w" using assms(1) by (simp_all add: w1_def)
  have a: "stripe_api w (stripe_log w) ''Subscription.retrieve'' ?args = answer ?args"
    using assms(2) by (simp add: steady_stripe_def)
  show ?thesis
  proof (cases "answer ?args")
    case (Inl e)
    then obtain m where "e = StripeError m" using assms(3) by (auto simp: well_formed_view_def split: exc.splits)
    then show ?thesis
      using True a Inl h1 t1
      by (simp add: reconcile_row_def correction_def world_simps catch_stripe_def w1_def [symmetric])
  next
    case (Inr s)
    then obtain p where p: "diff_subscription r s st = Inr p" and cap: "dget_or s ''cancel_at_period_end'' (PBool False) \<noteq> PNone"
      using assms(3) by (auto simp: well_formed_view_def split: sum.splits)
    have corr: "correction st answer r = p" using True Inr p by (simp add: correction_def)
    have row: "reconcile_row st r w = (if p = [] then (Inr False, w1) else thenM (reconcile_write st r p) (ret True) w1)"
      using True a Inr p by (simp add: reconcile_row_def world_simps catch_stripe_def w1_def [symmetric])
    show ?thesis
    proof (cases "p = []")
      case True
      then show ?thesis using row corr h1 t1 by simp
    next
      case False
      have "map_of p ''cancel_at_period_end'' \<noteq> Some PNone" using diff_keys(2) [OF p] cap by auto
      from reconcile_write_effect [OF h1 False diff_keys(1) [OF p] this, of st r] show ?thesis
        using row corr False t1 by (auto simp: world_simps)
    qed
  qed
qed

lemma keeps_reconcile_row_env: "keeps (\<lambda>w. stripe_api w = a \<and> max_rows w = n) (reconcile_row st r)"
  unfolding reconcile_row_def reconcile_write_def Let_def
  by (auto intro!: env_frame.frame_run env_frame.frame_cache env_frame.frame_stripe)

definition corrected :: "settings \<Rightarrow> stripe_view \<Rightarrow> row list \<Rightarrow> row \<Rightarrow> row" where
  "corrected st answer rs x =
     (case find (\<lambda>r. r ''id'' = x ''id'') rs of None \<Rightarrow> x | Some r \<Rightarrow> set_cells (correction st answer r) x)"

lemma set_cells_id: "set_cells (correction st answer r) x ''id'' = x ''id''"
  using correction_keys(1) [of st answer r] by (simp add: has_key_map_of)

lemma find_absent: "(\<And>r. r \<in> set rs \<Longrightarrow> \<not> P r) \<Longrightarrow> find P rs = None"
  by (induction rs) auto

lemma reconcile_loop_effect:
  assumes "healthy w" and "steady_stripe answer w" and "well_formed_view st answer rs"
    and "distinct (map (\<lambda>r. r ''id'') rs)"
  shows "\<exists>w'. reconcile_loop st rs n w = (Inr (n + length (filter (\<lambda>r. correction st answer r \<noteq> []) rs)), w')
    \<and> healthy w' \<and> stripe_api w' = stripe_api w \<and> max_rows w' = max_rows w
    \<and> tables w' ''subscriptions'' = map (corrected st answer rs) (tables w ''subscriptions'')"
  using assms
proof (induction rs arbitrary: w n)
  case Nil
  then show ?case by (simp add: ret_def corrected_def [abs_def])
next
  case (Cons r rs)
  have "well_formed_view st answer [r]" "well_formed_view st answer rs"
    using Cons.prems(3) well_formed_Cons [of st answer r rs] by blast+
  obtain w1 where w1: "reconcile_row st r w = (Inr (correction st answer r \<noteq> []), w1)" "healthy w1"
      "tables w1 ''subscriptions'' = update_rows [F_eq ''id'' (r ''id'')] (correction st answer r) (tables w ''subscriptions'')"
    using reconcile_row_effect [OF Cons.prems(1,2) \<open>well_formed_view st answer [r]\<close>] by blast
  have env: "stripe_api w1 = stripe_api w \<and> max_rows w1 = max_rows w"
    using keepsD [OF keeps_reconcile_row_env [of "stripe_api w" "max_rows w" st r], of w] w1(1) by simp
  then have "steady_stripe answer w1" using Cons.prems(2) by (simp add: steady_stripe_def)
  from Cons.IH [OF w1(2) this \<open>well_formed_view st answer rs\<close>,
      of "if correction st answer r \<noteq> [] then Suc n else n"] Cons.prems(4)
  obtain w' where w': "reconcile_loop st rs (if correction st answer r \<noteq> [] then Suc n else n) w1
      = (Inr ((if correction st answer r \<noteq> [] then Suc n else n) + length (filter (\<lambda>r. correction st answer r \<noteq> []) rs)), w')"
      "healthy w'" "stripe_api w' = stripe_api w1" "max_rows w' = max_rows w1"
      "tables w' ''subscriptions'' = map (corrected st answer rs) (tables w1 ''subscriptions'')"
    by auto
  have absent: "find (\<lambda>q. q ''id'' = r ''id'') rs = None"
    using Cons.prems(4) by (intro find_absent) (auto simp: image_iff)
  have step: "corrected st answer rs (if x ''id'' = r ''id'' then set_cells (correction st answer r) x else x)
      = corrected st answer (r # rs) x" for x
    using absent by (cases "x ''id'' = r ''id''") (auto simp: corrected_def set_cells_id simp del: set_cells_apply)
  have "tables w' ''subscriptions'' = map (corrected st answer (r # rs)) (tables w ''subscriptions'')"
    unfolding w'(5) w1(3) update_rows_id by (simp add: step del: set_cells_apply)
  then show ?case
    using w1(1) w'(1-4) env by (auto simp: world_simps)
qed

definition tracked :: "row \<Rightarrow> bool" where
  "tracked r \<longleftrightarrow> r ''status'' \<in> set RECONCILE_STATUSES"

lemma fetch_tracked:
  assumes "healthy w"
  shows "fetch (tq_in ''status'' RECONCILE_STATUSES (tq_select ''*'' (tq ''subscriptions''))) w
    = (Inr (take (max_rows w) (filter tracked (tables w ''subscriptions''))), w)"
proof -
  have "matches [F_in ''status'' RECONCILE_STATUSES] = tracked"
    by (rule ext) (auto simp: tracked_def RECONCILE_STATUSES_def)
  then show ?thesis
    using assms by (simp add: query_eval world_simps table_defs healthy_def sql_def)
qed

lemma correction_settled:
  assumes "well_formed_view st answer [r]"
  shows "correction st answer (set_cells (correction st answer r) r) = []"
    and "well_formed_view st answer [set_cells (correction st answer r) r]"
proof -
  let ?r = "set_cells (correction st answer r) r"
  have sid: "?r ''stripe_subscription_id'' = r ''stripe_subscription_id''"
    using correction_keys(2) [of st answer r] by (simp add: has_key_map_of)
  have diff: "diff_subscription ?r s st = Inr []" if "truthy (r ''stripe_subscription_id'')"
    "answer [(''id'', r ''stripe_subscription_id'')] = Inr s" for s
  proof -
    from assms that obtain p where p: "diff_subscription r s st = Inr p"
      by (auto simp: well_formed_view_def split: sum.splits)
    then have "correction st answer r = p" using that by (simp add: correction_def)
    then show ?thesis using diff_converges_aux [OF p] by simp
  qed
  then show "correction st answer ?r = []"
    unfolding correction_def [of st answer ?r] sid by (auto split: sum.splits simp del: set_cells_apply)
  show "well_formed_view st answer [?r]"
  proof (cases "truthy (r ''stripe_subscription_id'')")
    case True
    then show ?thesis
      using assms diff sid by (auto simp: well_formed_view_def simp del: set_cells_apply split: sum.splits)
  next
    case False
    then have "?r = r" by (simp add: correction_def del: set_cells_apply)
    then show ?thesis using assms by simp
  qed
qed

lemma find_SomeD: "find P xs = Some x \<Longrightarrow> x \<in> set xs \<and> P x"
  by (induction xs) (auto split: if_splits)

lemma corrected_tracked:
  assumes "distinct (map (\<lambda>r. r ''id'') xs)" and "x \<in> set xs"
  shows "corrected st answer (filter P xs) x = (if P x then set_cells (correction st answer x) x else x)"
proof -
  have uniq: "r = x" if "r \<in> set xs" "r ''id'' = x ''id''" for r
    using assms that by (auto simp: distinct_map inj_on_def)
  show ?thesis
  proof (cases "find (\<lambda>r. r ''id'' = x ''id'') (filter P xs)")
    case None
    then have "\<not> P x" using assms(2) by (auto simp: find_None_iff)
    then show ?thesis using None by (simp add: corrected_def)
  next
    case (Some r)
    then have "r \<in> set (filter P xs)" "r ''id'' = x ''id''" by (auto dest: find_SomeD)
    then show ?thesis using uniq Some by (auto simp: corrected_def)
  qed
qed

lemma corrected_none:
  assumes "\<And>r. r \<in> set rs \<Longrightarrow> correction st answer r = []"
  shows "corrected st answer rs x = x"
proof (cases "find (\<lambda>r. r ''id'' = x ''id'') rs")
  case None
  then show ?thesis by (simp add: corrected_def)
next
  case (Some r)
  then show ?thesis using assms find_SomeD [OF Some] by (simp add: corrected_def del: set_cells_apply)
qed

lemma well_formed_all: "well_formed_view st answer rs \<longleftrightarrow> (\<forall>r \<in> set rs. well_formed_view st answer [r])"
proof (induction rs)
  case Nil
  then show ?case by (simp add: well_formed_view_def)
next
  case (Cons a rs)
  then show ?case by (simp only: well_formed_Cons [of st answer a rs] list.set ball_simps)
qed

text \<open>Applying the difference the reconciler found leaves no difference with Stripe.\<close>

theorem correction_leaves_no_drift:
  assumes "diff_subscription r s st = Inr p"
  shows "diff_subscription (set_cells p r) s st = Inr []"
  by (rule diff_converges_aux [OF assms])

definition sample_stripe_sub :: pyval where
  "sample_stripe_sub = PDict [(''id'', PStr ''sub_1''), (''status'', PStr ''past_due''),
     (''current_period_start'', PInt 10), (''current_period_end'', PInt 20)]"

definition sample_drifted :: row where
  "sample_drifted = lookup [(''id'', PStr ''s1''), (''stripe_subscription_id'', PStr ''sub_1''),
     (''user_id'', PStr ''u1''), (''status'', PStr ''active''), (''plan_type'', PStr ''studio''),
     (''pending_plan'', PStr ''producer''), (''cancel_at_period_end'', PBool False)]"

definition sample_correction :: pydict where
  "sample_correction = [(''status'', PStr ''past_due''), (''current_period_start'', PTime 10000000),
     (''current_period_end'', PTime 20000000), (''plan_type'', PStr ''producer''), (''report_limit'', PInt 3),
     (''pending_plan'', PNone)]"

lemma sample_diff: "diff_subscription sample_drifted sample_stripe_sub sample_settings = Inr sample_correction"
  by (simp add: diff_subscription_def sample_drifted_def sample_stripe_sub_def sample_correction_def
      stripe_period_def items_of_def diff_period_def timestamp_value_def diff_cell_def to_utc_datetime_def
      resolve_plan_from_subscription_def plan_to_trust_def schedule_fired_def normalize_plan_def plan_cells_def
      table_get_def PLAN_REPORT_LIMITS_def dget_or_def Let_def)

theorem correction_leaves_no_drift_witness:
  "diff_subscription (set_cells sample_correction sample_drifted) sample_stripe_sub sample_settings = Inr []"
  by (rule correction_leaves_no_drift [OF sample_diff])

text \<open>
  C11: as long as Stripe answers the same, a second run of the reconciler corrects nothing: the
  first one leaves every tracked subscription as Stripe has it.
\<close>

theorem reconciler_converges:
  assumes "healthy w" and "steady_stripe answer w" and "STRIPE_SECRET_KEY st \<noteq> []"
    and "well_formed_view st answer (filter tracked (tables w ''subscriptions''))"
    and "distinct (map (\<lambda>r. r ''id'') (tables w ''subscriptions''))"
    and "length (filter tracked (tables w ''subscriptions'')) \<le> max_rows w"
  shows "\<exists>w' w''. run_subscription_reconciler st w
        = (Inr (length (filter (\<lambda>r. tracked r \<and> correction st answer r \<noteq> []) (tables w ''subscriptions''))), w')
    \<and> run_subscription_reconciler st w' = (Inr 0, w'')
    \<and> tables w'' ''subscriptions'' = tables w' ''subscriptions''"
proof -
  let ?subs = "tables w ''subscriptions''"
  have d: "distinct (map (\<lambda>r. r ''id'') (filter tracked ?subs))"
    using assms(5) by (simp add: distinct_map_filter)
  have sel: "take (max_rows w) (filter tracked ?subs) = filter tracked ?subs" using assms(6) by simp
  obtain w' where w': "reconcile_loop st (filter tracked ?subs) 0 w
      = (Inr (length (filter (\<lambda>r. correction st answer r \<noteq> []) (filter tracked ?subs))), w')"
      "healthy w'" "stripe_api w' = stripe_api w"
      "tables w' ''subscriptions'' = map (corrected st answer (filter tracked ?subs)) ?subs"
    using reconcile_loop_effect [OF assms(1,2,4) d, of 0] by auto
  have first: "run_subscription_reconciler st w
        = (Inr (length (filter (\<lambda>r. tracked r \<and> correction st answer r \<noteq> []) ?subs)), w')"
    using assms(3) fetch_tracked [OF assms(1)] w'(1) sel by (simp add: run_subscription_reconciler_def world_simps)
  have subs': "tables w' ''subscriptions''
      = map (\<lambda>x. if tracked x then set_cells (correction st answer x) x else x) ?subs"
    unfolding w'(4) using corrected_tracked [OF assms(5), where P = tracked] by auto
  have settled: "correction st answer x = [] \<and> well_formed_view st answer [x]"
    if x: "x \<in> set (filter tracked (tables w' ''subscriptions''))" for x
  proof -
    obtain r where r: "r \<in> set ?subs" "x = (if tracked r then set_cells (correction st answer r) r else r)" "tracked x"
      using x unfolding subs' by auto
    then have "tracked r" by (cases "tracked r") auto
    moreover have "well_formed_view st answer [r]"
      using assms(4) r(1) \<open>tracked r\<close> unfolding well_formed_all [of st answer "filter tracked ?subs"] by simp
    ultimately show ?thesis using correction_settled r(2) by simp
  qed
  let ?rs = "take (max_rows w') (filter tracked (tables w' ''subscriptions''))"
  have in_rs: "x \<in> set (filter tracked (tables w' ''subscriptions''))" if "x \<in> set ?rs" for x
    using that by (rule in_set_takeD)
  have ids: "(\<lambda>r. r ''id'') \<circ> (\<lambda>x. if tracked x then set_cells (correction st answer x) x else x) = (\<lambda>r. r ''id'')"
    by (rule ext) (simp add: set_cells_id del: set_cells_apply)
  have "map (\<lambda>r. r ''id'') (tables w' ''subscriptions'') = map (\<lambda>r. r ''id'') ?subs"
    unfolding subs' map_map ids ..
  then have "distinct (map (\<lambda>r. r ''id'') (filter tracked (tables w' ''subscriptions'')))"
    using assms(5) by (simp add: distinct_map_filter)
  then have d': "distinct (map (\<lambda>r. r ''id'') ?rs)" unfolding take_map [symmetric] by (rule distinct_take)
  have wf': "well_formed_view st answer ?rs"
    unfolding well_formed_all [of st answer ?rs] using settled in_rs by blast
  have steady': "steady_stripe answer w'" using assms(2) w'(3) by (simp add: steady_stripe_def)
  have none: "filter (\<lambda>r. correction st answer r \<noteq> []) ?rs = []"
    unfolding filter_empty_conv using settled in_rs by blast
  have same: "map (corrected st answer ?rs) xs = xs" for xs
    by (rule map_idI, rule corrected_none) (use settled in_rs in blast)
  from reconcile_loop_effect [OF w'(2) steady' wf' d', of 0] obtain w'' where
    e: "reconcile_loop st ?rs 0 w' = (Inr (0 + length (filter (\<lambda>r. correction st answer r \<noteq> []) ?rs)), w'')"
    and t: "tables w'' ''subscriptions'' = map (corrected st answer ?rs) (tables w' ''subscriptions'')"
    by (elim exE conjE)
  have t': "tables w'' ''subscriptions'' = tables w' ''subscriptions''" using t by (simp only: same)
  have "reconcile_loop st ?rs 0 w' = (Inr 0, w'')" using e by (simp only: none list.size add_0)
  then have "run_subscription_reconciler st w' = (Inr 0, w'')"
    using assms(3) fetch_tracked [OF w'(2)] by (simp add: run_subscription_reconciler_def world_simps)
  with first t' show ?thesis by blast
qed

definition sample_drift_world :: world where
  "sample_drift_world = (sample_world [(''subscriptions'', [sample_drifted])])\<lparr>stripe_api := \<lambda>_ _ _. Inr sample_stripe_sub\<rparr>"

theorem reconciler_converges_witness:
  "\<exists>w' w''. run_subscription_reconciler sample_settings sample_drift_world = (Inr 1, w')
    \<and> run_subscription_reconciler sample_settings w' = (Inr 0, w'')
    \<and> tables w'' ''subscriptions'' = tables w' ''subscriptions''"
proof -
  have subs: "tables sample_drift_world ''subscriptions'' = [sample_drifted]"
    "max_rows sample_drift_world = 1000" "healthy sample_drift_world"
    by (simp_all add: sample_drift_world_def healthy_def)
  have t: "tracked sample_drifted" by (simp add: tracked_def RECONCILE_STATUSES_def sample_drifted_def)
  have c: "correction sample_settings (\<lambda>_. Inr sample_stripe_sub) sample_drifted = sample_correction"
    using sample_diff by (simp add: correction_def sample_drifted_def)
  have "steady_stripe (\<lambda>_. Inr sample_stripe_sub) sample_drift_world"
    by (simp add: steady_stripe_def sample_drift_world_def)
  moreover have "STRIPE_SECRET_KEY sample_settings \<noteq> []" by (simp add: sample_settings_def)
  moreover have "well_formed_view sample_settings (\<lambda>_. Inr sample_stripe_sub) [sample_drifted]"
    using sample_diff by (simp add: well_formed_view_def sample_stripe_sub_def dget_or_def)
  moreover have "sample_correction \<noteq> []" by (simp add: sample_correction_def)
  ultimately show ?thesis
    using reconciler_converges [of sample_drift_world "\<lambda>_. Inr sample_stripe_sub" sample_settings] subs t c by simp
qed

end
