(* ===== verification/Subscriptions.thy ===== *)
theory Subscriptions
  imports Webhooks Sample_World
begin

text \<open>
  \<open>SubscriptionService\<close> of \<open>app/modules/subscriptions/service.py\<close>: plan changes, the report
  quota over the append-only usage ledger, and pay-per-report credits. Log lines are left out;
  the exceptions are the \<open>ValueError\<close>s the router maps to responses.
\<close>

section \<open>The active subscription\<close>

definition ACTIVE_STATUSES :: "pyval list" where
  "ACTIVE_STATUSES = [PStr ''active'', PStr ''trialing'', PStr ''past_due'']"

definition get_active_subscription :: "pyval \<Rightarrow> row option comp" where
  "get_active_subscription user_id =
     bindM (fetch (tq_limit 1 (tq_in ''status'' ACTIVE_STATUSES
       (tq_eq ''user_id'' user_id (tq_select ''*'' (tq ''subscriptions''))))))
     (\<lambda>rows. ret (first_row rows))"

definition subs_bust_user_cache :: "pyval \<Rightarrow> unit comp" where
  "subs_bust_user_cache user_id = cache_delete (''user_profile:'' @ text_of user_id)"

definition send_plan_email :: "settings \<Rightarrow> pyval \<Rightarrow> string \<Rightarrow> pydict \<Rightarrow> unit comp" where
  "send_plan_email st user_id template_name context =
     tryM
      (bindM (fetch (tq_limit 1 (tq_eq ''id'' user_id (tq_select ''email'' (tq ''users''))))) (\<lambda>rows.
       case rows of
         [] \<Rightarrow> ret ()
       | r # _ \<Rightarrow> whenM (truthy (r ''email'')) (email_send st (text_of (r ''email'')) template_name context)))
      (\<lambda>_. ret ())"

section \<open>Changing the plan\<close>

definition MONTH_NAMES :: "string list" where
  "MONTH_NAMES = [''January'', ''February'', ''March'', ''April'', ''May'', ''June'', ''July'', ''August'',
     ''September'', ''October'', ''November'', ''December'']"

definition two_digits :: "int \<Rightarrow> string" where
  "two_digits n = (if n < 10 then ''0'' @ int_text n else int_text n)"

definition format_period_end :: "pyval \<Rightarrow> string" where
  "format_period_end iso_str =
     (case iso_str of
        PTime t \<Rightarrow> (case ymd_of (date_part t) of (y, m, d) \<Rightarrow>
          MONTH_NAMES ! nat (m - 1) @ '' '' @ two_digits d @ '', '' @ int_text y)
      | _ \<Rightarrow> ''your next billing date'')"

definition resolve_plan_from_price :: "pyval \<Rightarrow> settings \<Rightarrow> pyval" where
  "resolve_plan_from_price price_id st = plan_of_price st price_id"

definition usable_subscription :: "row option \<Rightarrow> bool" where
  "usable_subscription s = (case s of None \<Rightarrow> False | Some r \<Rightarrow> truthy (r ''stripe_subscription_id''))"

definition current_plan_of :: "row \<Rightarrow> pyval" where
  "current_plan_of subscription = normalize_plan (py_or (subscription ''plan_type'') (PStr ''free''))"

definition preview_change :: "bool \<Rightarrow> settings \<Rightarrow> pyval \<Rightarrow> pyval \<Rightarrow> pydict comp" where
  "preview_change has_create_preview st user_id target_price_id =
     bindM (get_active_subscription user_id) (\<lambda>sub.
     case sub of
       None \<Rightarrow> throw (ValueError ''no_active_subscription'')
     | Some s \<Rightarrow>
       if \<not> truthy (s ''stripe_subscription_id'') then throw (ValueError ''no_active_subscription'')
       else
        (let target_plan = resolve_plan_from_price target_price_id st in
         if \<not> truthy target_plan then throw (ValueError ''unknown_price_id'')
         else
          bindM (preview_subscription_change has_create_preview (s ''stripe_subscription_id'') target_price_id) (\<lambda>preview.
          ret (dict_merge [(''direction'', PStr (classify_change (current_plan_of s) target_plan)),
                 (''target_plan'', target_plan)] preview))))"

definition plan_names :: "pyval \<Rightarrow> pyval \<Rightarrow> pydict" where
  "plan_names previous new = [(''previous_plan_name'', plan_label previous), (''new_plan_name'', plan_label new)]"

definition release_existing_schedule :: "row \<Rightarrow> unit comp" where
  "release_existing_schedule subscription =
     whenM (truthy (subscription ''stripe_schedule_id''))
      (thenM (tryM (cancel_scheduled_plan_change (subscription ''stripe_schedule_id'')) (\<lambda>_. ret ()))
       (run (tq_eq ''id'' (subscription ''id'') (tq_update
         [(''stripe_schedule_id'', PNone), (''pending_plan'', PNone)] (tq ''subscriptions'')))))"

definition apply_upgrade :: "settings \<Rightarrow> pyval \<Rightarrow> pyval \<Rightarrow> pyval \<Rightarrow> row \<Rightarrow> pyval \<Rightarrow> pydict comp" where
  "apply_upgrade st user_id target_price_id idempotency_key subscription target_plan =
     bindM (change_subscription_plan (subscription ''stripe_subscription_id'') target_price_id True idempotency_key) (\<lambda>_.
     thenM (run (tq_eq ''id'' (subscription ''id'') (tq_update
       [(''plan_type'', target_plan), (''report_limit'', PInt (table_get PLAN_REPORT_LIMITS target_plan 3)),
        (''pending_plan'', PNone)] (tq ''subscriptions''))))
     (thenM (run (tq_eq ''id'' user_id (tq_update
       [(''plan'', target_plan), (''user_type'', PStr ''paid'')] (tq ''users''))))
     (thenM (subs_bust_user_cache user_id)
     (thenM (send_plan_email st user_id ''plan_upgraded'' (plan_names (current_plan_of subscription) target_plan))
     (ret [(''status'', PStr ''applied''), (''direction'', PStr ''upgrade''),
           (''target_plan'', target_plan), (''effective_at'', PNone)])))))"

definition schedule_downgrade :: "settings \<Rightarrow> pyval \<Rightarrow> pyval \<Rightarrow> row \<Rightarrow> pyval \<Rightarrow> pydict comp" where
  "schedule_downgrade st user_id target_price_id subscription target_plan =
     bindM (schedule_subscription_downgrade (subscription ''stripe_subscription_id'') target_price_id) (\<lambda>schedule_id.
     thenM (run (tq_eq ''id'' (subscription ''id'') (tq_update
       [(''pending_plan'', target_plan), (''stripe_schedule_id'', schedule_id)] (tq ''subscriptions''))))
     (thenM (send_plan_email st user_id ''downgrade_scheduled''
       [(''current_plan_name'', plan_label (current_plan_of subscription)),
        (''new_plan_name'', plan_label target_plan),
        (''effective_date'', PStr (format_period_end (subscription ''current_period_end'')))])
     (ret [(''status'', PStr ''scheduled''), (''direction'', PStr ''downgrade''),
           (''target_plan'', target_plan), (''effective_at'', subscription ''current_period_end'')])))"

definition change_plan :: "settings \<Rightarrow> pyval \<Rightarrow> pyval \<Rightarrow> pyval \<Rightarrow> pydict comp" where
  "change_plan st user_id target_price_id idempotency_key =
     bindM (get_active_subscription user_id) (\<lambda>sub.
     case sub of
       None \<Rightarrow> throw (ValueError ''no_active_subscription'')
     | Some s \<Rightarrow>
       if \<not> truthy (s ''stripe_subscription_id'') then throw (ValueError ''no_active_subscription'')
       else
        (let target_plan = resolve_plan_from_price target_price_id st in
         if \<not> truthy target_plan then throw (ValueError ''unknown_price_id'')
         else
          (let direction = classify_change (current_plan_of s) target_plan in
           if direction = ''same'' then throw (ValueError ''same_plan'')
           else
            thenM (release_existing_schedule s)
            (if direction = ''upgrade''
             then apply_upgrade st user_id target_price_id idempotency_key s target_plan
             else schedule_downgrade st user_id target_price_id s target_plan))))"

definition cancel_scheduled_change :: "pyval \<Rightarrow> pydict comp" where
  "cancel_scheduled_change user_id =
     bindM (get_active_subscription user_id) (\<lambda>sub.
     case sub of
       None \<Rightarrow> throw (ValueError ''no_active_subscription'')
     | Some s \<Rightarrow>
       if \<not> truthy (s ''pending_plan'') then throw (ValueError ''no_scheduled_change'')
       else
        thenM (whenM (truthy (s ''stripe_schedule_id'')) (cancel_scheduled_plan_change (s ''stripe_schedule_id'')))
        (thenM (run (tq_eq ''id'' (s ''id'') (tq_update
          [(''pending_plan'', PNone), (''stripe_schedule_id'', PNone)] (tq ''subscriptions''))))
        (ret [(''cancelled'', PBool True)])))"

record current_plan_view =
  cv_subscription :: "row option"
  cv_plan :: pyval
  cv_pending_plan :: pyval
  cv_past_due_since :: pyval
  cv_cancel_at_period_end :: bool

definition get_current :: "pyval \<Rightarrow> pyval \<Rightarrow> current_plan_view comp" where
  "get_current user_id current_plan =
     bindM (get_active_subscription user_id) (\<lambda>subscription.
     let s = (case subscription of None \<Rightarrow> empty_row | Some r \<Rightarrow> r) in
     ret \<lparr>cv_subscription = subscription, cv_plan = normalize_plan current_plan,
          cv_pending_plan = s ''pending_plan'', cv_past_due_since = s ''past_due_since'',
          cv_cancel_at_period_end = truthy (s ''cancel_at_period_end'')\<rparr>)"

section \<open>Quota\<close>

definition count_chargeable :: "row list \<Rightarrow> nat" where
  "count_chargeable rows = length (filter (\<lambda>r. r ''status'' \<noteq> PStr ''failed'') rows)"

definition resolve_report_limit :: "row \<Rightarrow> pyval \<Rightarrow> int" where
  "resolve_report_limit subscription plan =
     (case subscription ''report_limit'' of
        PInt n \<Rightarrow> if n = -1 then -1 else if 0 \<le> n then n else table_get PLAN_REPORT_LIMITS plan 1
      | PBool b \<Rightarrow> if b then 1 else 0
      | _ \<Rightarrow> table_get PLAN_REPORT_LIMITS plan 1)"

definition usage_query :: "pyval \<Rightarrow> pyval \<Rightarrow> pyval \<Rightarrow> pyval \<Rightarrow> query" where
  "usage_query user_id period_start period_end report_type =
     (let q = tq_eq ''user_id'' user_id (tq_select ''id, voided_at'' (tq ''report_usage_events''));
          q = (if report_type \<noteq> PNone then tq_eq ''report_type'' report_type q else q);
          q = (if truthy period_start then tq_gte ''created_at'' period_start q else q)
      in if truthy period_end then tq_lte ''created_at'' period_end q else q)"

definition count_usage :: "pyval \<Rightarrow> pyval \<Rightarrow> pyval \<Rightarrow> pyval \<Rightarrow> int comp" where
  "count_usage user_id period_start period_end report_type =
     bindM (fetch (usage_query user_id period_start period_end report_type)) (\<lambda>rows.
     ret (int (length (filter (\<lambda>r. \<not> truthy (r ''voided_at'')) rows))))"

definition record_usage :: "pyval \<Rightarrow> pyval \<Rightarrow> pyval \<Rightarrow> unit comp" where
  "record_usage user_id report_id report_type =
     bindM uuid4 (\<lambda>i. bindM utcnow (\<lambda>now.
     tryM (run (tq_insert [(''id'', i), (''user_id'', user_id), (''report_id'', report_id),
            (''report_type'', py_or report_type (PStr ''paid'')), (''created_at'', now)]
            (tq ''report_usage_events''))) (\<lambda>_. ret ())))"

definition void_usage :: "pyval \<Rightarrow> unit comp" where
  "void_usage report_id =
     bindM utcnow (\<lambda>now.
     tryM (run (tq_eq ''report_id'' report_id (tq_update [(''voided_at'', now)] (tq ''report_usage_events''))))
       (\<lambda>_. ret ()))"

section \<open>Credits\<close>

definition get_credits_remaining :: "pyval \<Rightarrow> int comp" where
  "get_credits_remaining user_id =
     bindM (tq_execute (tq_single (tq_eq ''id'' user_id (tq_select ''credits_remaining'' (tq ''users''))))) (\<lambda>result.
     ret (int_of (py_or (row_or_empty result ''credits_remaining'') (PInt 0))))"

definition write_credits :: "pyval \<Rightarrow> int \<Rightarrow> unit comp" where
  "write_credits user_id n =
     run (tq_eq ''id'' user_id (tq_update [(''credits_remaining'', PInt n)] (tq ''users'')))"

definition consume_report_credit :: "pyval \<Rightarrow> unit comp" where
  "consume_report_credit user_id =
     bindM (get_credits_remaining user_id) (\<lambda>current. write_credits user_id (max 0 (current - 1)))"

definition refund_report_credit :: "pyval \<Rightarrow> unit comp" where
  "refund_report_credit user_id =
     bindM (get_credits_remaining user_id) (\<lambda>current. write_credits user_id (current + 1))"

section \<open>May the user generate a report?\<close>

definition credits_reason :: "int \<Rightarrow> string" where
  "credits_reason n = ''pay-per-report ('' @ int_text n @ '' credit(s) remaining)''"

definition can_generate_report :: "pyval \<Rightarrow> (bool \<times> string) comp" where
  "can_generate_report user_id =
     bindM (get_active_subscription user_id) (\<lambda>subscription.
     case subscription of
       None \<Rightarrow>
         bindM (get_credits_remaining user_id) (\<lambda>credits.
         if credits > 0 then ret (True, credits_reason credits)
         else
          bindM (count_usage user_id PNone PNone (PStr ''free'')) (\<lambda>free_report_count.
          if free_report_count > 0
          then ret (False, ''Free report already used. Please upgrade to generate more reports.'')
          else ret (True, ''Free report available'')))
     | Some s \<Rightarrow>
         (let report_limit = resolve_report_limit s (current_plan_of s) in
          if report_limit = -1 then ret (True, ''Unlimited reports'')
          else
           bindM (count_usage user_id (s ''current_period_start'') (s ''current_period_end'') PNone) (\<lambda>report_count.
           if report_count \<ge> report_limit
           then
            bindM (get_credits_remaining user_id) (\<lambda>credits.
            if credits > 0 then ret (True, credits_reason credits)
            else ret (False, ''Report limit reached ('' @ int_text report_count @ ''/'' @ int_text report_limit @ '').''))
           else ret (True, int_text (report_limit - report_count) @ '' reports remaining this period''))))"

record usage_view =
  uv_plan :: pyval
  uv_reports_used :: int
  uv_reports_limit :: "int option"
  uv_reports_remaining :: "int option"
  uv_credits_remaining :: int
  uv_period_start :: pyval
  uv_period_end :: pyval
  uv_can_generate :: bool
  uv_reason :: string

definition get_usage :: "pyval \<Rightarrow> pyval \<Rightarrow> usage_view comp" where
  "get_usage user_id current_plan =
     (let plan = normalize_plan current_plan in
      bindM (get_active_subscription user_id) (\<lambda>subscription.
      bindM (get_credits_remaining user_id) (\<lambda>credits.
      case subscription of
        None \<Rightarrow>
          bindM (count_usage user_id PNone PNone (PStr ''free'')) (\<lambda>used.
          bindM (can_generate_report user_id) (\<lambda>(can_gen, reason).
          ret \<lparr>uv_plan = plan, uv_reports_used = used, uv_reports_limit = Some 1,
               uv_reports_remaining = Some (max 0 (1 - used)), uv_credits_remaining = credits,
               uv_period_start = PNone, uv_period_end = PNone, uv_can_generate = can_gen, uv_reason = reason\<rparr>))
      | Some s \<Rightarrow>
          (let report_limit = resolve_report_limit s plan;
               period_start = s ''current_period_start''; period_end = s ''current_period_end'' in
           if report_limit = -1
           then
            bindM (can_generate_report user_id) (\<lambda>(can_gen, reason).
            ret \<lparr>uv_plan = plan, uv_reports_used = 0, uv_reports_limit = None,
                 uv_reports_remaining = None, uv_credits_remaining = credits,
                 uv_period_start = period_start, uv_period_end = period_end,
                 uv_can_generate = can_gen, uv_reason = reason\<rparr>)
           else
            bindM (count_usage user_id period_start period_end PNone) (\<lambda>used.
            bindM (can_generate_report user_id) (\<lambda>(can_gen, reason).
            ret \<lparr>uv_plan = plan, uv_reports_used = used, uv_reports_limit = Some report_limit,
                 uv_reports_remaining = Some (max 0 (report_limit - used)), uv_credits_remaining = credits,
                 uv_period_start = period_start, uv_period_end = period_end,
                 uv_can_generate = can_gen, uv_reason = reason\<rparr>))))))"

end
