(* ===== verification/Subscription_Facts.thy ===== *)
theory Subscription_Facts
  imports Subscriptions Webhook_Facts
begin

text \<open>
  What the operations of \<open>Subscriptions\<close> compute and change on a healthy connection: the
  active subscription, the usage count, the quota gate, the credit balance (through the
  interface \<open>report_credits\<close>) and the plan changes.
\<close>

section \<open>Reads\<close>

abbreviation live_subscriptions :: "world \<Rightarrow> pyval \<Rightarrow> row list" where
  "live_subscriptions w u \<equiv> filter (\<lambda>r. r ''user_id'' = u \<and> r ''status'' \<in> set ACTIVE_STATUSES)
     (tables w ''subscriptions'')"

definition live_subscription :: "world \<Rightarrow> pyval \<Rightarrow> row option" where
  "live_subscription w u = first_row (live_subscriptions w u)"

lemma matches_live: "matches [F_eq ''user_id'' u, F_in ''status'' ACTIVE_STATUSES]
    = (\<lambda>r. r ''user_id'' = u \<and> r ''status'' \<in> set ACTIVE_STATUSES)"
  by (rule ext) (auto simp: ACTIVE_STATUSES_def)

lemma get_active_healthy:
  "healthy w \<Longrightarrow> get_active_subscription u w = (Inr (live_subscription w u), w)"
  by (simp add: get_active_subscription_def live_subscription_def query_eval world_simps healthy_def sql_def
      table_defs matches_live first_row_def take_Suc split: list.split)

lemma live_subscription_cong:
  "tables w' ''subscriptions'' = tables w ''subscriptions'' \<Longrightarrow> live_subscription w' u = live_subscription w u"
  by (simp add: live_subscription_def)

definition counts :: "pyval \<Rightarrow> pyval \<Rightarrow> pyval \<Rightarrow> pyval \<Rightarrow> row \<Rightarrow> bool" where
  "counts u ps pe rt r \<longleftrightarrow> r ''user_id'' = u \<and> (rt \<noteq> PNone \<longrightarrow> r ''report_type'' = rt)
     \<and> (truthy ps \<longrightarrow> sql_le ps (r ''created_at'')) \<and> (truthy pe \<longrightarrow> sql_le (r ''created_at'') pe)"

definition used_reports :: "pyval \<Rightarrow> pyval \<Rightarrow> pyval \<Rightarrow> pyval \<Rightarrow> row list \<Rightarrow> int" where
  "used_reports u ps pe rt rs = int (length (filter (\<lambda>r. counts u ps pe rt r \<and> \<not> truthy (r ''voided_at'')) rs))"

lemma matches_Cons_fun: "matches (f # fs) = (\<lambda>r. holds r f \<and> matches fs r)" "matches [] = (\<lambda>r. True)"
  by (rule ext, simp)+

abbreviation ledger :: "world \<Rightarrow> row list" where
  "ledger w \<equiv> tables w ''report_usage_events''"

lemma fetch_usage:
  assumes "healthy w"
  shows "fetch (usage_query u ps pe rt) w
    = (Inr (map (project_row [''id'', ''voided_at'']) (take (max_rows w) (filter (counts u ps pe rt) (ledger w)))), w)"
proof -
  have c: "counts u ps pe rt = (\<lambda>r. r ''user_id'' = u \<and> (rt \<noteq> PNone \<longrightarrow> r ''report_type'' = rt)
     \<and> (truthy ps \<longrightarrow> sql_le ps (r ''created_at'')) \<and> (truthy pe \<longrightarrow> sql_le (r ''created_at'') pe))"
    by (rule ext) (simp add: counts_def)
  show ?thesis
    using assms
    by (simp add: c usage_query_def query_eval world_simps healthy_def sql_def table_defs matches_Cons_fun conj_assoc)
qed

lemma count_usage_healthy:
  assumes "healthy w" and "length (ledger w) \<le> max_rows w"
  shows "count_usage u ps pe rt w = (Inr (used_reports u ps pe rt (ledger w)), w)"
proof -
  have "length (filter (counts u ps pe rt) (ledger w)) \<le> max_rows w"
    using assms(2) length_filter_le [of "counts u ps pe rt" "ledger w"] by linarith
  then show ?thesis
    using assms(1) by (simp add: count_usage_def fetch_usage world_simps used_reports_def filter_map o_def conj_commute)
qed

definition balance :: "world \<Rightarrow> pyval \<Rightarrow> int" where
  "balance w u = int_of (py_or (first_or [] (rows_with w ''users'' ''id'' u) ''credits_remaining'') (PInt 0))"

lemma get_credits_healthy: "healthy w \<Longrightarrow> get_credits_remaining u w = (Inr (balance w u), w)"
  by (simp add: get_credits_remaining_def execute_single_eq table_defs split_simps world_simps balance_def
      result_rows_def row_or_empty_def row_of_def first_or_def lookup_def take_Suc project_row_def split: list.split)

section \<open>The quota gate\<close>

text \<open>What the gate promises: room in the allowance, or a credit to spend.\<close>

definition quota_open :: "world \<Rightarrow> pyval \<Rightarrow> bool" where
  "quota_open w u =
     (case live_subscription w u of
        None \<Rightarrow> balance w u > 0 \<or> used_reports u PNone PNone (PStr ''free'') (ledger w) \<le> 0
      | Some s \<Rightarrow>
          (let limit = resolve_report_limit s (current_plan_of s) in
           limit = -1
           \<or> used_reports u (s ''current_period_start'') (s ''current_period_end'') PNone (ledger w) < limit
           \<or> balance w u > 0))"

lemma can_generate_healthy:
  assumes "healthy w" and "length (ledger w) \<le> max_rows w"
  shows "\<exists>reason. can_generate_report u w = (Inr (quota_open w u, reason), w)"
  using assms
  by (auto simp: can_generate_report_def quota_open_def get_active_healthy get_credits_healthy count_usage_healthy
      world_simps Let_def split: option.split)

lemma resolve_report_limit_nonneg: "resolve_report_limit s p = -1 \<or> 0 \<le> resolve_report_limit s p"
proof -
  have "0 \<le> table_get PLAN_REPORT_LIMITS p 1" 
    by (auto simp: table_get_def PLAN_REPORT_LIMITS_def split: pyval.split)
  then show ?thesis by (auto simp: resolve_report_limit_def split: pyval.split)
qed

section \<open>The usage ledger\<close>

abbreviation usage_cells :: "string \<Rightarrow> pyval \<Rightarrow> pyval \<Rightarrow> pyval \<Rightarrow> int \<Rightarrow> pydict" where
  "usage_cells i u rid rt n \<equiv> [(''id'', PStr i), (''user_id'', u), (''report_id'', rid),
     (''report_type'', py_or rt (PStr ''paid'')), (''created_at'', PTime n)]"

abbreviation usage_row :: "string \<Rightarrow> pyval \<Rightarrow> pyval \<Rightarrow> pyval \<Rightarrow> int \<Rightarrow> row" where
  "usage_row i u rid rt n \<equiv> new_row ReportUsageEvents_table n (usage_cells i u rid rt n)"

text \<open>Identifiers still to be drawn are new to the ledger.\<close>

definition fresh_ids :: "world \<Rightarrow> bool" where
  "fresh_ids w \<longleftrightarrow> (\<forall>n \<ge> uuids_used w. \<forall>r \<in> set (ledger w). r ''id'' \<noteq> PStr (uuid_source w n))
     \<and> (\<forall>m \<ge> uuids_used w. \<forall>n \<ge> uuids_used w. uuid_source w m = uuid_source w n \<longrightarrow> m = n)"

lemma record_usage_healthy:
  assumes "healthy w" and "fresh_ids w" and "u \<noteq> PNone"
    and "\<forall>r \<in> set (ledger w). r ''report_id'' \<noteq> rid"
  shows "record_usage u rid rt w = (Inr (), set_table ''report_usage_events''
    (ledger w @ [usage_row (uuid_source w (uuids_used w)) u rid rt (clock w)]) (w\<lparr>uuids_used := Suc (uuids_used w)\<rparr>))"
proof -
  let ?i = "uuid_source w (uuids_used w)"
  let ?w = "w\<lparr>uuids_used := Suc (uuids_used w)\<rparr>"
  have "py_or rt (PStr ''paid'') \<noteq> PNone" by (cases "truthy rt") auto
  moreover have "\<forall>r \<in> set (ledger w). r ''id'' \<noteq> PStr ?i" using assms(2) by (simp add: fresh_ids_def)
  ultimately have ins: "insertable ReportUsageEvents_table (usage_row ?i u rid rt (clock w)) (ledger w)"
    using assms(3,4) by (auto simp: insertable_def new_row_def not_null_def clash_def table_defs list_all_iff)
  have "run (tq_insert (usage_cells ?i u rid rt (clock w)) (tq ''report_usage_events'')) ?w
      = (Inr (), set_table ''report_usage_events'' (ledger ?w @ [usage_row ?i u rid rt (clock ?w)]) ?w)"
    by (rule trans [OF run_insert [where sch = ReportUsageEvents_table]])
      (use assms(1) ins in \<open>simp_all add: ReportUsageEvents_table_def\<close>)
  then show ?thesis by (simp add: record_usage_def world_simps)
qed

lemma used_reports_append:
  "used_reports u ps pe rt (rs @ [r]) = used_reports u ps pe rt rs
     + (if counts u ps pe rt r \<and> \<not> truthy (r ''voided_at'') then 1 else 0)"
  by (simp add: used_reports_def)

definition within_period :: "pyval \<Rightarrow> pyval \<Rightarrow> int \<Rightarrow> bool" where
  "within_period ps pe n \<longleftrightarrow> (truthy ps \<longrightarrow> sql_le ps (PTime n)) \<and> (truthy pe \<longrightarrow> sql_le (PTime n) pe)"

lemma usage_row_cells:
  "usage_row i u rid rt n ''user_id'' = u" "usage_row i u rid rt n ''voided_at'' = PNone"
  "usage_row i u rid rt n ''created_at'' = PTime n" "usage_row i u rid rt n ''report_id'' = rid"
  "usage_row i u rid rt n ''id'' = PStr i" "usage_row i u rid rt n ''report_type'' = py_or rt (PStr ''paid'')"
  by (simp_all add: new_row_def table_defs)

lemma usage_row_counts: "within_period ps pe n \<Longrightarrow> counts u ps pe PNone (usage_row i u rid rt n)"
  by (simp add: counts_def usage_row_cells within_period_def)

text \<open>Generating a batch of reports records one event each.\<close>

lemma record_batch:
  assumes "healthy w" and "fresh_ids w" and "u \<noteq> PNone" and "distinct rids"
    and "\<forall>r \<in> set (ledger w). r ''report_id'' \<notin> set rids"
  shows "\<exists>w'. forM rids (\<lambda>rid. record_usage u rid rt) w = (Inr (), w') \<and> healthy w' \<and> max_rows w' = max_rows w
    \<and> length (ledger w') = length (ledger w) + length rids
    \<and> (\<forall>t. t \<noteq> ''report_usage_events'' \<longrightarrow> tables w' t = tables w t)
    \<and> (\<forall>ps pe. within_period ps pe (clock w) \<longrightarrow>
        used_reports u ps pe PNone (ledger w') = used_reports u ps pe PNone (ledger w) + int (length rids))"
  using assms
proof (induction rids arbitrary: w)
  case Nil
  then show ?case by (simp add: world_simps)
next
  case (Cons rid rids)
  define w1 where "w1 = set_table ''report_usage_events''
    (ledger w @ [usage_row (uuid_source w (uuids_used w)) u rid rt (clock w)]) (w\<lparr>uuids_used := Suc (uuids_used w)\<rparr>)"
  have step: "record_usage u rid rt w = (Inr (), w1)"
    unfolding w1_def using Cons.prems by (intro record_usage_healthy) auto
  have w1: "healthy w1" "clock w1 = clock w" "max_rows w1 = max_rows w" "length (ledger w1) = Suc (length (ledger w))"
    "\<And>t. t \<noteq> ''report_usage_events'' \<Longrightarrow> tables w1 t = tables w t"
    using Cons.prems(1) by (simp_all add: w1_def set_table_def)
  have "fresh_ids w1"
    using Cons.prems(2) by (auto simp: fresh_ids_def w1_def set_table_def usage_row_cells) (metis Suc_leD Suc_n_not_le_n order_refl)
  moreover have "\<forall>r \<in> set (ledger w1). r ''report_id'' \<notin> set rids"
    using Cons.prems(4,5) by (auto simp: w1_def set_table_def usage_row_cells)
  ultimately obtain w' where IH: "forM rids (\<lambda>rid. record_usage u rid rt) w1 = (Inr (), w')" "healthy w'"
    "max_rows w' = max_rows w1" "length (ledger w') = length (ledger w1) + length rids"
    "\<forall>t. t \<noteq> ''report_usage_events'' \<longrightarrow> tables w' t = tables w1 t"
    "\<forall>ps pe. within_period ps pe (clock w1) \<longrightarrow>
        used_reports u ps pe PNone (ledger w') = used_reports u ps pe PNone (ledger w1) + int (length rids)"
    using Cons.IH [of w1] Cons.prems(3,4) w1(1) by auto
  have more: "used_reports u ps pe PNone (ledger w1) = used_reports u ps pe PNone (ledger w) + 1"
    if "within_period ps pe (clock w)" for ps pe
    using usage_row_counts [OF that] by (simp add: w1_def set_table_def used_reports_append usage_row_cells)
  show ?case
    using step IH w1 more by (simp add: world_simps)
qed

section \<open>Report credits\<close>

text \<open>
  The account of pay-per-report credits, as its users see it: an operation that adds a credit,
  one that spends a credit, and a balance; neither touches what the account does not own.
\<close>

fun repeatM :: "nat \<Rightarrow> unit comp \<Rightarrow> unit comp" where
  "repeatM 0 m = ret ()"
| "repeatM (Suc n) m = thenM m (repeatM n m)"

locale report_credits =
  fixes add spend :: "pyval \<Rightarrow> unit comp"
    and bal :: "world \<Rightarrow> pyval \<Rightarrow> int"
    and ready :: "world \<Rightarrow> pyval \<Rightarrow> bool"
    and others :: "world \<Rightarrow> 'o"
  assumes add_one: "ready w u \<Longrightarrow>
      \<exists>w'. add u w = (Inr (), w') \<and> ready w' u \<and> bal w' u = bal w u + 1 \<and> others w' = others w"
    and spend_one: "ready w u \<Longrightarrow>
      \<exists>w'. spend u w = (Inr (), w') \<and> ready w' u \<and> bal w' u = max 0 (bal w u - 1) \<and> others w' = others w"
begin

lemma add_many: "ready w u \<Longrightarrow>
    \<exists>w'. repeatM n (add u) w = (Inr (), w') \<and> ready w' u \<and> bal w' u = bal w u + int n \<and> others w' = others w"
proof (induction n arbitrary: w)
  case 0
  then show ?case by (simp add: world_simps)
next
  case (Suc n)
  obtain w1 where w1: "add u w = (Inr (), w1)" "ready w1 u" "bal w1 u = bal w u + 1" "others w1 = others w"
    using add_one [OF Suc.prems] by blast
  with Suc.IH [of w1] show ?case by (fastforce simp: world_simps)
qed

lemma spend_many: "ready w u \<Longrightarrow> 0 \<le> bal w u \<Longrightarrow>
    \<exists>w'. repeatM n (spend u) w = (Inr (), w') \<and> ready w' u
      \<and> bal w' u = max 0 (bal w u - int n) \<and> others w' = others w"
proof (induction n arbitrary: w)
  case 0
  then show ?case by (simp add: world_simps)
next
  case (Suc n)
  obtain w1 where w1: "spend u w = (Inr (), w1)" "ready w1 u" "bal w1 u = max 0 (bal w u - 1)" "others w1 = others w"
    using spend_one [OF Suc.prems(1)] by blast
  then obtain w2 where "repeatM n (spend u) w1 = (Inr (), w2)" "ready w2 u"
    "bal w2 u = max 0 (bal w1 u - int n)" "others w2 = others w1"
    using Suc.IH [of w1] by auto
  with w1 show ?case by (auto simp: world_simps)
qed

lemma spend_then_add: "ready w u \<Longrightarrow>
    \<exists>w'. thenM (spend u) (add u) w = (Inr (), w') \<and> bal w' u = max 1 (bal w u) \<and> others w' = others w"
proof -
  assume r: "ready w u"
  obtain w1 where w1: "spend u w = (Inr (), w1)" "ready w1 u" "bal w1 u = max 0 (bal w u - 1)" "others w1 = others w"
    using spend_one [OF r] by blast
  obtain w2 where "add u w1 = (Inr (), w2)" "bal w2 u = bal w1 u + 1" "others w2 = others w1"
    using add_one [OF w1(2)] by blast
  with w1 show ?thesis by (auto simp: world_simps)
qed

lemma buy_then_spend: "ready w u \<Longrightarrow> bal w u = 0 \<Longrightarrow>
    \<exists>w'. thenM (repeatM n (add u)) (repeatM k (spend u)) w = (Inr (), w') \<and> ready w' u
      \<and> bal w' u = max 0 (int n - int k) \<and> others w' = others w"
proof -
  assume r: "ready w u" "bal w u = 0"
  obtain w1 where w1: "repeatM n (add u) w = (Inr (), w1)" "ready w1 u" "bal w1 u = int n" "others w1 = others w"
    using add_many [OF r(1), of n] r(2) by auto
  then show ?thesis using spend_many [OF w1(2), of k] by (auto simp: world_simps)
qed

end

text \<open>An account is ready when the connection is and the user's row holds an integer balance.\<close>

definition credit_account :: "world \<Rightarrow> pyval \<Rightarrow> bool" where
  "credit_account w u \<longleftrightarrow> healthy w \<and> (\<exists>r c. rows_with w ''users'' ''id'' u = [r] \<and> r ''credits_remaining'' = PInt c)"

definition quota_tables :: "world \<Rightarrow> row list \<times> row list \<times> nat" where
  "quota_tables w = (tables w ''subscriptions'', ledger w, max_rows w)"

lemma balance_row: "rows_with w ''users'' ''id'' u = [r] \<Longrightarrow> r ''credits_remaining'' = PInt c \<Longrightarrow> balance w u = c"
  by (simp add: balance_def py_or_def)

lemma write_credits_healthy:
  assumes "credit_account w u"
  shows "\<exists>w'. write_credits u n w = (Inr (), w') \<and> credit_account w' u \<and> balance w' u = n
    \<and> quota_tables w' = quota_tables w"
proof -
  obtain r c where r: "healthy w" "rows_with w ''users'' ''id'' u = [r]"
    using assms by (auto simp: credit_account_def)
  define w' where "w' = set_table ''users'' (update_rows [F_eq ''id'' u] [(''credits_remaining'', PInt n)] (tables w ''users'')) w"
  have "rows_with w' ''users'' ''id'' u = [set_credits r n]"
    using r(2) by (simp add: w'_def rows_with_updated set_credits_cells)
  moreover from this have "balance w' u = n" by (rule balance_row) (simp add: set_credits_def)
  moreover have "healthy w'" "quota_tables w' = quota_tables w"
    using r(1) by (simp_all add: w'_def set_table_def quota_tables_def)
  moreover have "write_credits u n w = (Inr (), w')"
    using run_credit_write [OF r(1)] by (simp add: write_credits_def w'_def)
  ultimately show ?thesis by (auto simp: credit_account_def set_credits_def)
qed

lemma account_healthy: "credit_account w u \<Longrightarrow> healthy w"
  by (simp add: credit_account_def)

lemma credit_write_steps:
  assumes "credit_account w u"
  shows "\<exists>w'. refund_report_credit u w = (Inr (), w') \<and> credit_account w' u
      \<and> balance w' u = balance w u + 1 \<and> quota_tables w' = quota_tables w"
    and "\<exists>w'. consume_report_credit u w = (Inr (), w') \<and> credit_account w' u
      \<and> balance w' u = max 0 (balance w u - 1) \<and> quota_tables w' = quota_tables w"
  using write_credits_healthy [OF assms] get_credits_healthy [OF account_healthy [OF assms], of u]
  by (simp_all add: refund_report_credit_def consume_report_credit_def world_simps)

interpretation refunds: report_credits refund_report_credit consume_report_credit balance credit_account quota_tables
  by unfold_locales (rule credit_write_steps, assumption)+

context effect_frame
begin

lemma frame_credit_purchase:
  assumes "\<And>n. allowed (tq_eq ''id'' u (tq_update [(''credits_remaining'', n)] (tq ''users'')))"
  shows "keeps I (handle_credit_purchase h u)"
  unfolding handle_credit_purchase_def by (auto intro!: assms)

end

lemma keeps_env_credit_purchase: "keeps (\<lambda>w. stripe_api w = a \<and> max_rows w = n) (handle_credit_purchase h u)"
  by (rule env_frame.frame_credit_purchase) auto

lemma purchase_step:
  assumes "credit_account w u"
  shows "\<exists>w'. handle_credit_purchase h u w = (Inr (), w') \<and> credit_account w' u
      \<and> balance w' u = balance w u + 1 \<and> quota_tables w' = quota_tables w"
proof -
  obtain r c where r: "healthy w" "rows_with w ''users'' ''id'' u = [r]" "r ''credits_remaining'' = PInt c"
    using assms by (auto simp: credit_account_def)
  obtain w' where w': "handle_credit_purchase h u w = (Inr (), w')"
    "rows_with w' ''users'' ''id'' u = [set_credits r (c + 1)]" "\<forall>t. t \<noteq> ''users'' \<longrightarrow> tables w' t = tables w t"
    using credit_purchase_adds_one [OF r] by blast
  have "healthy w'"
    using keepsD [OF healthy_frame.frame_credit_purchase, of w h u] r(1) w'(1) by auto
  moreover have "max_rows w' = max_rows w"
    using keepsD [OF keeps_env_credit_purchase [of "stripe_api w" "max_rows w" h u], of w] w'(1) by simp
  ultimately show ?thesis
    using w' r balance_row [OF r(2,3)] balance_row [OF w'(2), of "c + 1"]
    by (auto simp: credit_account_def quota_tables_def set_credits_def)
qed

interpretation purchases: report_credits "handle_credit_purchase h" consume_report_credit balance credit_account quota_tables
  for h
  by unfold_locales (rule purchase_step credit_write_steps, assumption)+

end
