(* ===== verification/Plan_Changes.thy ===== *)
theory Plan_Changes
  imports Subscription_Facts
begin

text \<open>
  The plan changes of \<open>Subscriptions\<close>: what refuses one, what an upgrade grants once Stripe has
  taken the payment, and what a change that has not been paid leaves alone.
\<close>

section \<open>Refusals\<close>

definition change_refused :: "settings \<Rightarrow> world \<Rightarrow> pyval \<Rightarrow> pyval \<Rightarrow> string option" where
  "change_refused st w u price =
     (case live_subscription w u of
        None \<Rightarrow> Some ''no_active_subscription''
      | Some s \<Rightarrow>
          if \<not> truthy (s ''stripe_subscription_id'') then Some ''no_active_subscription''
          else if \<not> truthy (plan_of_price st price) then Some ''unknown_price_id''
          else if classify_change (current_plan_of s) (plan_of_price st price) = ''same'' then Some ''same_plan''
          else None)"

lemma change_plan_refused:
  assumes "healthy w" and "change_refused st w u price = Some reason"
  shows "change_plan st u price key w = (Inl (ValueError reason), w)"
  using assms
  by (auto simp: change_plan_def change_refused_def get_active_healthy resolve_plan_from_price_def world_simps Let_def
      split: option.splits if_splits)

lemma change_plan_accepted:
  assumes "healthy w" and "change_refused st w u price = None" and "live_subscription w u = Some s"
  shows "change_plan st u price key w
    = thenM (release_existing_schedule s)
        (if classify_change (current_plan_of s) (plan_of_price st price) = ''upgrade''
         then apply_upgrade st u price key s (plan_of_price st price)
         else schedule_downgrade st u price s (plan_of_price st price)) w"
  using assms
  by (auto simp: change_plan_def change_refused_def get_active_healthy resolve_plan_from_price_def world_simps Let_def
      split: if_splits)

section \<open>What unpaid changes leave alone\<close>

text \<open>The users, and the plan and allowance of every subscription row.\<close>

definition entitlements :: "(string \<Rightarrow> row list) \<Rightarrow> row list \<times> (pyval \<times> pyval) list" where
  "entitlements ts = (ts ''users'', map (\<lambda>r. (r ''plan_type'', r ''report_limit'')) (ts ''subscriptions''))"

abbreviation entitlements_are :: "row list \<times> (pyval \<times> pyval) list \<Rightarrow> world \<Rightarrow> bool" where
  "entitlements_are e \<equiv> tables_inv (\<lambda>ts. entitlements ts = e)"

lemma map_update_rows:
  "\<not> has_key p a \<Longrightarrow> \<not> has_key p b \<Longrightarrow>
    map (\<lambda>r. (r a, r b)) (update_rows fs p rs) = map (\<lambda>r. (r a, r b)) rs"
  by (induction rs) (auto simp: has_key_map_of)

lemma keeps_pending_update:
  assumes "\<not> has_key p ''plan_type''" and "\<not> has_key p ''report_limit''"
  shows "keeps (entitlements_are e) (run (tq_eq k v (tq_update p (tq ''subscriptions''))))"
  unfolding run_def
  by (intro keeps_bindM keeps_ret keeps_query_update)
    (use assms in \<open>auto simp: builder_defs entitlements_def map_update_rows\<close>)

lemma keeps_send_plan_email [intro!]: "keeps (tables_inv P) (send_plan_email st u t c)"
  unfolding send_plan_email_def email_send_def by auto

lemma keeps_subs_cache [intro!]: "keeps (tables_inv P) (subs_bust_user_cache u)"
  unfolding subs_bust_user_cache_def by auto

lemma keeps_release: "keeps (entitlements_are e) (release_existing_schedule s)"
  unfolding release_existing_schedule_def by (auto intro!: keeps_pending_update)

lemma keeps_schedule_downgrade: "keeps (entitlements_are e) (schedule_downgrade st u price s p)"
  unfolding schedule_downgrade_def by (auto intro!: keeps_pending_update)

lemma downgrade_defers:
  assumes "healthy w" and "live_subscription w u = Some s"
    and "classify_change (current_plan_of s) (plan_of_price st price) \<noteq> ''upgrade''"
  shows "entitlements (tables (snd (change_plan st u price key w))) = entitlements (tables w)"
proof (cases "change_refused st w u price")
  case (Some reason)
  then show ?thesis using change_plan_refused [OF assms(1)] by simp
next
  case None
  have "keeps (entitlements_are e) (thenM (release_existing_schedule s) (schedule_downgrade st u price s p))" for e p
    by (intro keeps_thenM keeps_release keeps_schedule_downgrade)
  from keepsD [OF this, of "entitlements (tables w)" w]
  show ?thesis using change_plan_accepted [OF assms(1) None assms(2)] assms(3) by (simp add: tables_inv_def)
qed

section \<open>Upgrades\<close>

abbreviation charge :: "row \<Rightarrow> pyval \<Rightarrow> pyval \<Rightarrow> pyval comp" where
  "charge s price key \<equiv> change_subscription_plan (s ''stripe_subscription_id'') price True key"

text \<open>The world in which the payment is taken: any earlier schedule has been released.\<close>

definition before_charge :: "row \<Rightarrow> world \<Rightarrow> world" where
  "before_charge s w = snd (release_existing_schedule s w)"

lemma release_healthy:
  assumes "healthy w"
  shows "release_existing_schedule s w = (Inr (), before_charge s w)" and "healthy (before_charge s w)"
proof -
  let ?p = "[(''stripe_schedule_id'', PNone), (''pending_plan'', PNone)]"
  have up: "run (update_eq ''subscriptions'' ''id'' v ?p) x
      = (Inr (), set_table ''subscriptions'' (update_rows [F_eq ''id'' v] ?p (tables x ''subscriptions'')) x)"
    if "healthy x" for v x
    using that by (intro run_update_eq) (auto simp: table_defs updatable_def not_null_def)
  have rel: "cancel_scheduled_plan_change v w = (r, x) \<Longrightarrow> healthy x" for v r x
    using assms by (auto simp: cancel_scheduled_plan_change_def world_simps split: sum.splits)
  show "release_existing_schedule s w = (Inr (), before_charge s w)"
    using up rel by (auto simp: before_charge_def release_existing_schedule_def world_simps split: prod.split sum.split)
  show "healthy (before_charge s w)"
    using up rel assms
    by (auto simp: before_charge_def release_existing_schedule_def world_simps split: prod.split sum.split)
qed

text \<open>A payment Stripe refuses changes no entitlement, and the caller sees Stripe's error.\<close>

lemma unpaid_upgrade:
  assumes "healthy w" and "live_subscription w u = Some s" and "change_refused st w u price = None"
    and "classify_change (current_plan_of s) (plan_of_price st price) = ''upgrade''"
    and "fst (charge s price key (before_charge s w)) = Inl e"
  shows "fst (change_plan st u price key w) = Inl e"
    and "entitlements (tables (snd (change_plan st u price key w))) = entitlements (tables w)"
proof -
  obtain w' where c: "charge s price key (before_charge s w) = (Inl e, w')"
    using assms(5) by (metis prod.collapse)
  have run: "change_plan st u price key w = (Inl e, w')"
    using change_plan_accepted [OF assms(1,3,2)] assms(4) release_healthy [OF assms(1)] c
    by (simp add: apply_upgrade_def world_simps)
  then show "fst (change_plan st u price key w) = Inl e" by simp
  have "keeps (entitlements_are (entitlements (tables w))) (bindM (release_existing_schedule s) (\<lambda>_. charge s price key))"
    by (intro keeps_bindM keeps_release keeps_stripe_service)
  from keepsD [OF this, of w]
  show "entitlements (tables (snd (change_plan st u price key w))) = entitlements (tables w)"
    using run release_healthy(1) [OF assms(1), of s] c by (simp add: world_simps tables_inv_def)
qed

text \<open>A payment Stripe takes puts the user and the subscription row on the new plan.\<close>

definition upgraded :: "pyval \<Rightarrow> pyval \<Rightarrow> pyval \<Rightarrow> (string \<Rightarrow> row list) \<Rightarrow> bool" where
  "upgraded u sub_id p ts \<longleftrightarrow>
     (\<forall>r \<in> set (ts ''users''). r ''id'' = u \<longrightarrow> r ''plan'' = p \<and> r ''user_type'' = PStr ''paid'')
     \<and> (\<forall>r \<in> set (ts ''subscriptions''). r ''id'' = sub_id \<longrightarrow>
          r ''plan_type'' = p \<and> r ''report_limit'' = PInt (table_get PLAN_REPORT_LIMITS p 3) \<and> r ''pending_plan'' = PNone)"

abbreviation upgrade_cells :: "pyval \<Rightarrow> pydict" where
  "upgrade_cells p \<equiv> [(''plan_type'', p), (''report_limit'', PInt (table_get PLAN_REPORT_LIMITS p 3)), (''pending_plan'', PNone)]"

abbreviation paid_cells :: "pyval \<Rightarrow> pydict" where
  "paid_cells p \<equiv> [(''plan'', p), (''user_type'', PStr ''paid'')]"

lemma updated_cell:
  assumes "r \<in> set (update_rows [F_eq k v] p rs)" and "r k = v" and "\<not> has_key p k" and "map_of p c = Some x"
  shows "r c = x"
proof -
  obtain r0 where "r = set_cells p r0" using update_rows_cells [OF assms(1,2,3)] by metis
  then show ?thesis using assms(4) by simp
qed

lemma send_plan_email_returns: "\<exists>w'. send_plan_email st u t c w = (Inr (), w')"
  by (simp add: send_plan_email_def world_simps split: prod.split sum.split)

lemma keeps_healthy_charge: "keeps healthy (charge s price key)"
  unfolding change_subscription_plan_def first_item_id_def first_item_def key_or_raise_def by auto

lemma paid_upgrade:
  assumes "healthy w" and "live_subscription w u = Some s" and "change_refused st w u price = None"
    and "classify_change (current_plan_of s) (plan_of_price st price) = ''upgrade''"
    and "fst (charge s price key (before_charge s w)) = Inr paid"
  shows "\<exists>res. fst (change_plan st u price key w) = Inr res \<and> lookup res ''status'' = PStr ''applied''"
    and "upgraded u (s ''id'') (plan_of_price st price) (tables (snd (change_plan st u price key w)))"
proof -
  let ?p = "plan_of_price st price"
  obtain w1 where c: "charge s price key (before_charge s w) = (Inr paid, w1)"
    using assms(5) by (metis prod.collapse)
  have h: "healthy w1"
    using keepsD [OF keeps_healthy_charge release_healthy(2) [OF assms(1), of s], of s price key] c by simp
  define w2 where "w2 = set_table ''subscriptions'' (update_rows [F_eq ''id'' (s ''id'')] (upgrade_cells ?p) (tables w1 ''subscriptions'')) w1"
  define w3 where "w3 = set_table ''users'' (update_rows [F_eq ''id'' u] (paid_cells ?p) (tables w2 ''users'')) w2"
  have s2: "run (update_eq ''subscriptions'' ''id'' (s ''id'') (upgrade_cells ?p)) w1 = (Inr (), w2)"
    unfolding w2_def using h by (intro run_update_eq) (auto simp: table_defs updatable_def not_null_def)
  have "?p \<noteq> PNone" using assms(2,3) by (auto simp: change_refused_def split: if_splits)
  then have s3: "run (update_eq ''users'' ''id'' u (paid_cells ?p)) w2 = (Inr (), w3)"
    unfolding w3_def using h by (intro run_update_eq) (auto simp: table_defs updatable_def not_null_def w2_def set_table_def healthy_def)
  have users: "r c = x" if "r \<in> set (tables w3 ''users'')" "r ''id'' = u" "map_of (paid_cells ?p) c = Some x" for r c x
    by (rule updated_cell [where k = "''id''" and v = u and p = "paid_cells ?p" and rs = "tables w2 ''users''"])
      (use that in \<open>simp_all add: w3_def set_table_def\<close>)
  have rows: "r c = x" if "r \<in> set (tables w3 ''subscriptions'')" "r ''id'' = s ''id''"
    "map_of (upgrade_cells ?p) c = Some x" for r c x
    by (rule updated_cell [where k = "''id''" and v = "s ''id''" and p = "upgrade_cells ?p" and rs = "tables w1 ''subscriptions''"])
      (use that in \<open>simp_all add: w3_def w2_def set_table_def\<close>)
  have "upgraded u (s ''id'') ?p (tables w3)"
    unfolding upgraded_def using users rows by simp
  define rest where "rest = thenM (subs_bust_user_cache u) (send_plan_email st u ''plan_upgraded'' (plan_names (current_plan_of s) ?p))"
  have "returns rest" unfolding rest_def
    by (intro returns_thenM) (auto intro!: returnsI send_plan_email_returns simp: subs_bust_user_cache_def world_simps)
  then obtain w4 where r: "rest w3 = (Inr (), w4)" by (rule returnsE)
  have "keeps (tables_inv P) rest" for P
    unfolding rest_def by auto
  then have t: "tables w4 = tables w3" using unchanged_tables [of rest w3] r by simp
  have run: "change_plan st u price key w = (Inr [(''status'', PStr ''applied''), (''direction'', PStr ''upgrade''),
           (''target_plan'', ?p), (''effective_at'', PNone)], w4)"
    using change_plan_accepted [OF assms(1,3,2)] assms(4) release_healthy [OF assms(1)] c s2 s3 r
    by (auto simp: apply_upgrade_def world_simps rest_def split: prod.splits sum.splits)
  then show "\<exists>res. fst (change_plan st u price key w) = Inr res \<and> lookup res ''status'' = PStr ''applied''"
    by (simp add: lookup_def)
  show "upgraded u (s ''id'') ?p (tables (snd (change_plan st u price key w)))"
    using run t \<open>upgraded u (s ''id'') ?p (tables w3)\<close> by simp
qed

end
