(* ===== verification/Subscription_Properties.thy ===== *)
theory Subscription_Properties
  imports Plan_Changes
begin

text \<open>
  The properties of \<open>SubscriptionService\<close>: the report quota over the usage ledger, the credit
  account, and the plan changes. The instances use a user \<open>u\<close> with one active subscription.
\<close>

section \<open>A sample customer\<close>

definition quota_user :: "pyval \<Rightarrow> row" where
  "quota_user credits = lookup [(''id'', PStr ''u''), (''plan'', PStr ''producer''), (''email'', PStr ''u@example.com''),
     (''credits_remaining'', credits)]"

definition quota_subscription :: "pyval \<Rightarrow> row" where
  "quota_subscription plan = lookup [(''id'', PStr ''s''), (''user_id'', PStr ''u''), (''status'', PStr ''active''),
     (''stripe_subscription_id'', PStr ''sub''), (''plan_type'', plan), (''report_limit'', PInt 3)]"

definition sample_customer :: "int \<Rightarrow> world" where
  "sample_customer credits = sample_world [(''users'', [quota_user (PInt credits)]),
     (''subscriptions'', [quota_subscription (PStr ''producer'')])]"

definition sample_free_user :: world where
  "sample_free_user = sample_world [(''users'', [quota_user (PInt 0)]),
     (''report_usage_events'', [lookup [(''id'', PStr ''e''), (''user_id'', PStr ''u''), (''report_type'', PStr ''free'')]])]"

lemma sample_customer_tables:
  "healthy (sample_customer c)" "ledger (sample_customer c) = []"
  "live_subscription (sample_customer c) (PStr ''u'') = Some (quota_subscription (PStr ''producer''))"
  "credit_account (sample_customer c) (PStr ''u'')"
  "balance (sample_customer c) (PStr ''u'') = c"
  by (auto simp: sample_customer_def live_subscription_def quota_subscription_def quota_user_def lookup_def
      ACTIVE_STATUSES_def credit_account_def balance_def py_or_def)

section \<open>Quota\<close>

text \<open>C8: The quota is a bound: with no credits left, a subscriber within the period who has used
  \<open>k\<close> reports and generates \<open>n\<close> more may generate another exactly while \<open>k + n\<close> is below the
  allowance of the subscription.\<close>

theorem quota_bounds_generation:
  assumes "healthy w" and "fresh_ids w" and "u \<noteq> PNone" and "distinct rids"
    and "\<forall>r \<in> set (ledger w). r ''report_id'' \<notin> set rids"
    and "length (ledger w) + length rids \<le> max_rows w"
    and "live_subscription w u = Some s" and "resolve_report_limit s (current_plan_of s) = limit" and "limit \<noteq> -1"
    and "within_period (s ''current_period_start'') (s ''current_period_end'') (clock w)"
    and "used_reports u (s ''current_period_start'') (s ''current_period_end'') PNone (ledger w) = k"
    and "balance w u = 0"
  shows "\<exists>w' reason. forM rids (\<lambda>rid. record_usage u rid rt) w = (Inr (), w')
    \<and> can_generate_report u w' = (Inr (k + int (length rids) < limit, reason), w')"
proof -
  obtain w' where w': "forM rids (\<lambda>rid. record_usage u rid rt) w = (Inr (), w')" "healthy w'"
    "max_rows w' = max_rows w" "length (ledger w') = length (ledger w) + length rids"
    "\<forall>t. t \<noteq> ''report_usage_events'' \<longrightarrow> tables w' t = tables w t"
    "used_reports u (s ''current_period_start'') (s ''current_period_end'') PNone (ledger w') = k + int (length rids)"
    using record_batch [OF assms(1-5), of rt] assms(10,11) by auto
  have "live_subscription w' u = Some s"
    using live_subscription_cong [of w' w u] w'(5) assms(7) by simp
  moreover have "balance w' u = 0" using w'(5) assms(12) by (simp add: balance_def)
  ultimately have "quota_open w' u \<longleftrightarrow> k + int (length rids) < limit"
    using w'(6) assms(8,9) by (simp add: quota_open_def)
  moreover obtain reason where "can_generate_report u w' = (Inr (quota_open w' u, reason), w')"
    using can_generate_healthy [OF w'(2), of u] w'(3,4) assms(6) by auto
  ultimately show ?thesis using w'(1) by auto
qed

lemma sample_fresh: "fresh_ids (sample_customer c)"
  by (simp add: fresh_ids_def sample_customer_def)

lemma quota_bounds_generation_witness:
  "\<exists>w' reason. forM [PStr ''a'', PStr ''b'', PStr ''c''] (\<lambda>rid. record_usage (PStr ''u'') rid (PStr ''paid'')) (sample_customer 0)
       = (Inr (), w') \<and> can_generate_report (PStr ''u'') w' = (Inr (False, reason), w')"
proof -
  have "\<exists>w' reason. forM [PStr ''a'', PStr ''b'', PStr ''c''] (\<lambda>rid. record_usage (PStr ''u'') rid (PStr ''paid'')) (sample_customer 0)
       = (Inr (), w') \<and> can_generate_report (PStr ''u'') w' = (Inr (0 + int (length [PStr ''a'', PStr ''b'', PStr ''c'']) < 3, reason), w')"
    by (rule quota_bounds_generation [where s = "quota_subscription (PStr ''producer'')"])
      (simp_all add: sample_customer_tables sample_fresh within_period_def used_reports_def quota_subscription_def
        lookup_def resolve_report_limit_def, simp add: sample_customer_def)
  then show ?thesis by simp
qed

text \<open>Deleting reports hands no quota back: the gate's answer does not depend on the
  \<open>reports\<close> table.\<close>

theorem deleting_reports_frees_no_quota:
  assumes "healthy w" and "length (ledger w) \<le> max_rows w"
  shows "fst (can_generate_report u (set_table ''reports'' rs w)) = fst (can_generate_report u w)"
proof -
  have same: "tables (set_table ''reports'' rs w) t = tables w t" if "t \<noteq> ''reports''" for t
    using that by (simp add: set_table_def)
  have c: "count_usage u ps pe rt w = (Inr (used_reports u ps pe rt (ledger w)), w)"
    "count_usage u ps pe rt (set_table ''reports'' rs w) = (Inr (used_reports u ps pe rt (ledger w)), set_table ''reports'' rs w)" for ps pe rt
    using assms count_usage_healthy [of w] count_usage_healthy [of "set_table ''reports'' rs w"] by (simp_all add: set_table_def)
  have g: "get_credits_remaining u w = (Inr (balance w u), w)"
    "get_credits_remaining u (set_table ''reports'' rs w) = (Inr (balance w u), set_table ''reports'' rs w)"
    using assms get_credits_healthy [of w u] get_credits_healthy [of "set_table ''reports'' rs w" u]
    by (simp_all add: balance_def set_table_def)
  have a: "get_active_subscription u w = (Inr (live_subscription w u), w)"
    "get_active_subscription u (set_table ''reports'' rs w) = (Inr (live_subscription w u), set_table ''reports'' rs w)"
    using assms get_active_healthy [of w u] get_active_healthy [of "set_table ''reports'' rs w" u]
    by (simp_all add: live_subscription_def set_table_def)
  show ?thesis by (simp add: can_generate_report_def a g c world_simps Let_def split: option.split)
qed

lemma deleting_reports_frees_no_quota_witness:
  "fst (can_generate_report (PStr ''u'') (set_table ''reports'' [] sample_free_user))
     = fst (can_generate_report (PStr ''u'') sample_free_user)"
  by (rule deleting_reports_frees_no_quota) (simp_all add: sample_free_user_def)

text \<open>The usage view agrees with the gate when the subscription stores its allowance: a
  report may be generated exactly when the view shows an unlimited or a remaining allowance, or
  a credit.\<close>

theorem usage_view_matches_gate:
  assumes "healthy w" and "length (ledger w) \<le> max_rows w"
    and "live_subscription w u = Some s" and "s ''report_limit'' = PInt n" and "-1 \<le> n"
  shows "\<exists>v. get_usage u plan w = (Inr v, w)
    \<and> (uv_can_generate v \<longleftrightarrow> uv_reports_limit v = None \<or> (\<exists>k > 0. uv_reports_remaining v = Some k)
        \<or> uv_credits_remaining v > 0)"
proof -
  obtain reason where g: "can_generate_report u w = (Inr (quota_open w u, reason), w)"
    using can_generate_healthy [OF assms(1,2)] by blast
  have l: "resolve_report_limit s p = n" for p
    using assms(4,5) by (simp add: resolve_report_limit_def)
  show ?thesis
    using g assms(3) l get_active_healthy [OF assms(1), of u] get_credits_healthy [OF assms(1), of u]
      count_usage_healthy [OF assms(1,2)]
    by (auto simp: get_usage_def world_simps Let_def quota_open_def)
qed

lemma usage_view_matches_gate_witness:
  "\<exists>v. get_usage (PStr ''u'') (PStr ''free'') (sample_customer 2) = (Inr v, sample_customer 2)
    \<and> (uv_can_generate v \<longleftrightarrow> uv_reports_limit v = None \<or> (\<exists>k > 0. uv_reports_remaining v = Some k)
        \<or> uv_credits_remaining v > 0)"
  by (rule usage_view_matches_gate [where s = "quota_subscription (PStr ''producer'')" and n = 3])
    (simp_all add: sample_customer_tables, simp_all add: quota_subscription_def lookup_def)

text \<open>
  Without a stored allowance the view falls back to the plan of the user and the gate to the
  plan of the subscription, and the two can part.
\<close>

definition sample_unlimited_row :: row where
  "sample_unlimited_row = (quota_subscription (PStr ''studio''))(''report_limit'' := PNone)"

definition sample_disagreement :: world where
  "sample_disagreement = sample_world [(''users'', [quota_user (PInt 0)]), (''subscriptions'', [sample_unlimited_row]),
         (''report_usage_events'', [lookup [(''id'', PStr ''e''), (''user_id'', PStr ''u''), (''report_type'', PStr ''paid'')]])]"

text \<open>Without a stored allowance the view and the gate can part: here the view shows nothing
  remaining and no credit, and yet a report may be generated.\<close>

theorem usage_view_can_disagree:
  "\<exists>v. get_usage (PStr ''u'') (PStr ''free'') sample_disagreement = (Inr v, sample_disagreement)
    \<and> uv_can_generate v \<and> uv_reports_remaining v = Some 0 \<and> uv_credits_remaining v = 0"
proof -
  let ?w = sample_disagreement
  have a: "live_subscription ?w (PStr ''u'') = Some sample_unlimited_row"
    by (simp add: live_subscription_def sample_disagreement_def sample_unlimited_row_def quota_subscription_def lookup_def ACTIVE_STATUSES_def)
  have b: "balance ?w (PStr ''u'') = 0" by (simp add: sample_disagreement_def balance_def quota_user_def lookup_def py_or_def)
  have u: "used_reports (PStr ''u'') PNone PNone PNone (ledger ?w) = 1"
    by (simp add: sample_disagreement_def used_reports_def counts_def lookup_def)
  have row: "sample_unlimited_row ''report_limit'' = PNone" "sample_unlimited_row ''plan_type'' = PStr ''studio''"
    "sample_unlimited_row ''current_period_start'' = PNone" "sample_unlimited_row ''current_period_end'' = PNone"
    by (simp_all add: sample_unlimited_row_def quota_subscription_def lookup_def)
  have lim: "resolve_report_limit sample_unlimited_row (normalize_plan (PStr ''free'')) = 1"
    "resolve_report_limit sample_unlimited_row (current_plan_of sample_unlimited_row) = 10"
    by (simp_all add: resolve_report_limit_def row current_plan_of_def normalize_plan_def py_or_def table_get_def PLAN_REPORT_LIMITS_def)
  have h: "healthy ?w" "length (ledger ?w) \<le> max_rows ?w" by (simp_all add: sample_disagreement_def)
  obtain reason where g: "can_generate_report (PStr ''u'') ?w = (Inr (quota_open ?w (PStr ''u''), reason), ?w)"
    using can_generate_healthy [OF h] by blast
  have q: "quota_open ?w (PStr ''u'')" by (simp add: quota_open_def a lim u row)
  show ?thesis
    using g q a b u row lim get_active_healthy [OF h(1), of "PStr ''u''"] get_credits_healthy [OF h(1), of "PStr ''u''"]
      count_usage_healthy [OF h]
    by (simp add: get_usage_def world_simps Let_def)
qed

section \<open>Credits\<close>

text \<open>Credits buy reports one for one: a user without a subscription who has used the free
  report and has no credit, and then buys \<open>n\<close> credits and spends \<open>k\<close>, may generate a report
  exactly while \<open>k < n\<close>.\<close>

theorem credits_buy_reports:
  assumes "credit_account w u" and "length (ledger w) \<le> max_rows w"
    and "live_subscription w u = None" and "used_reports u PNone PNone (PStr ''free'') (ledger w) > 0"
    and "balance w u = 0"
  shows "\<exists>w' reason. thenM (repeatM n (handle_credit_purchase h u)) (repeatM k (consume_report_credit u)) w = (Inr (), w')
    \<and> can_generate_report u w' = (Inr (k < n, reason), w')"
proof -
  obtain w' where w': "thenM (repeatM n (handle_credit_purchase h u)) (repeatM k (consume_report_credit u)) w = (Inr (), w')"
    "credit_account w' u" "balance w' u = max 0 (int n - int k)" "quota_tables w' = quota_tables w"
    using purchases.buy_then_spend [OF assms(1,5), of n h k] by blast
  have t: "ledger w' = ledger w" "max_rows w' = max_rows w" "live_subscription w' u = None"
    using w'(4) assms(3) live_subscription_cong [of w' w u] by (simp_all add: quota_tables_def)
  obtain reason where "can_generate_report u w' = (Inr (quota_open w' u, reason), w')"
    using can_generate_healthy [OF account_healthy [OF w'(2)], of u] t assms(2) by auto
  moreover have "quota_open w' u \<longleftrightarrow> k < n"
    using t assms(4) w'(3) by (auto simp: quota_open_def)
  ultimately show ?thesis using w'(1) by auto
qed

lemma credits_buy_reports_witness:
  "\<exists>w' reason. thenM (repeatM 2 (handle_credit_purchase \<lparr>h_settings = None, h_background = False\<rparr> (PStr ''u'')))
      (repeatM 1 (consume_report_credit (PStr ''u''))) sample_free_user = (Inr (), w')
    \<and> can_generate_report (PStr ''u'') w' = (Inr (1 < (2::nat), reason), w')"
  by (rule credits_buy_reports)
    (auto simp: sample_free_user_def credit_account_def quota_user_def lookup_def live_subscription_def
      used_reports_def counts_def balance_def py_or_def)

text \<open>A refund undoes a consumption exactly when there was a credit to consume; at zero the
  pair leaves one credit.\<close>

theorem refund_undoes_consumption:
  assumes "credit_account w u"
  shows "\<exists>w'. thenM (consume_report_credit u) (refund_report_credit u) w = (Inr (), w')
    \<and> balance w' u = max 1 (balance w u)"
  using refunds.spend_then_add [OF assms] by blast

lemma refund_undoes_consumption_witness:
  "\<exists>w'. thenM (consume_report_credit (PStr ''u'')) (refund_report_credit (PStr ''u'')) (sample_customer 4) = (Inr (), w')
    \<and> balance w' (PStr ''u'') = max 1 4"
  using refund_undoes_consumption [OF sample_customer_tables(4) [of 4]] sample_customer_tables(5) [of 4] by simp

text \<open>The credit updates read and then write: when two refunds both read before either
  writes, one of the two credits is lost.\<close>

theorem interleaved_refunds_lose_one:
  assumes "credit_account w u"
  shows "\<exists>w'. bindM (get_credits_remaining u) (\<lambda>a. bindM (get_credits_remaining u) (\<lambda>b.
        thenM (write_credits u (a + 1)) (write_credits u (b + 1)))) w = (Inr (), w')
    \<and> balance w' u = balance w u + 1"
proof -
  obtain w1 where w1: "write_credits u (balance w u + 1) w = (Inr (), w1)" "credit_account w1 u"
    using write_credits_healthy [OF assms] by blast
  obtain w2 where "write_credits u (balance w u + 1) w1 = (Inr (), w2)" "balance w2 u = balance w u + 1"
    using write_credits_healthy [OF w1(2)] by blast
  then show ?thesis
    using w1 get_credits_healthy [OF account_healthy [OF assms], of u] by (simp add: world_simps)
qed

lemma interleaved_refunds_lose_one_witness:
  "\<exists>w'. bindM (get_credits_remaining (PStr ''u'')) (\<lambda>a. bindM (get_credits_remaining (PStr ''u'')) (\<lambda>b.
        thenM (write_credits (PStr ''u'') (a + 1)) (write_credits (PStr ''u'') (b + 1)))) (sample_customer 3) = (Inr (), w')
    \<and> balance w' (PStr ''u'') = 4"
  using interleaved_refunds_lose_one [OF sample_customer_tables(4) [of 3]] sample_customer_tables(5) [of 3] by simp

section \<open>Plan changes\<close>

text \<open>The customer on the producer plan, whose Stripe account answers the same to every call.\<close>

definition sample_stripe :: "exc + pyval \<Rightarrow> world" where
  "sample_stripe answer = (sample_customer 0)\<lparr>stripe_api := \<lambda>_ op _. if op = ''Subscription.retrieve''
     then Inr (PDict [(''items'', PDict [(''data'', PList [PDict [(''id'', PStr ''si'')]])])]) else answer\<rparr>"

abbreviation studio_price :: pyval where
  "studio_price \<equiv> PStr ''price_STRIPE_PRICE_STUDIO_GBP''"

lemma sample_stripe_state:
  "healthy (sample_stripe a)" "live_subscription (sample_stripe a) (PStr ''u'') = Some (quota_subscription (PStr ''producer''))"
  "before_charge (quota_subscription (PStr ''producer'')) (sample_stripe a) = sample_stripe a"
proof -
  have t: "tables (sample_stripe a) = tables (sample_customer 0)" by (simp add: sample_stripe_def)
  show "healthy (sample_stripe a)"
    using sample_customer_tables(1) [of 0] by (simp add: sample_stripe_def healthy_def)
  show "live_subscription (sample_stripe a) (PStr ''u'') = Some (quota_subscription (PStr ''producer''))"
    using sample_customer_tables(3) [of 0] by (simp add: live_subscription_def t)
  show "before_charge (quota_subscription (PStr ''producer'')) (sample_stripe a) = sample_stripe a"
    by (simp add: before_charge_def release_existing_schedule_def quota_subscription_def lookup_def world_simps)
qed

lemma studio_plan: "plan_of_price sample_settings studio_price = PStr ''studio''"
  by (simp add: plan_of_price_def build_price_to_plan_map_def raw_price_map_def sample_settings_def)

lemma sample_direction:
  "classify_change (current_plan_of (quota_subscription (PStr ''producer''))) (PStr ''studio'') = ''upgrade''"
  by (simp add: classify_change_def current_plan_of_def quota_subscription_def lookup_def py_or_def normalize_plan_def
      plan_level_def table_get_def PLAN_HIERARCHY_def)

lemma sample_not_refused: "change_refused sample_settings (sample_stripe a) (PStr ''u'') studio_price = None"
  using sample_stripe_state(2) [of a] sample_direction
  by (simp add: change_refused_def studio_plan) (simp add: quota_subscription_def lookup_def)

lemma sample_charge:
  "fst (charge (quota_subscription (PStr ''producer'')) studio_price PNone (sample_stripe a)) = a"
  by (simp add: change_subscription_plan_def first_item_id_def first_item_def items_of_def key_or_raise_def sample_stripe_def
      dict_item_def world_simps lookup_def has_key_map_of)

text \<open>A paid upgrade reports \<open>applied\<close> and leaves the user on the new plan as a paying user,
  and the subscription on the new plan with its allowance and no pending change.\<close>

theorem paid_upgrade_grants_plan:
  assumes "healthy w" and "live_subscription w u = Some s" and "change_refused st w u price = None"
    and "classify_change (current_plan_of s) (plan_of_price st price) = ''upgrade''"
    and "fst (charge s price key (before_charge s w)) = Inr paid"
  shows "(\<exists>res. fst (change_plan st u price key w) = Inr res \<and> lookup res ''status'' = PStr ''applied'')
    \<and> upgraded u (s ''id'') (plan_of_price st price) (tables (snd (change_plan st u price key w)))"
  using paid_upgrade [OF assms] by blast

lemma paid_upgrade_grants_plan_witness:
  "upgraded (PStr ''u'') (PStr ''s'') (PStr ''studio'')
     (tables (snd (change_plan sample_settings (PStr ''u'') studio_price PNone (sample_stripe (Inr (PDict []))))))"
  using paid_upgrade_grants_plan [OF sample_stripe_state(1,2) sample_not_refused, of PNone "Inr (PDict [])"]
  by (simp add: studio_plan sample_direction sample_stripe_state(3) sample_charge)
    (simp add: quota_subscription_def lookup_def)

text \<open>An upgrade whose payment Stripe refuses raises Stripe's error and grants nothing: no
  user and no plan or allowance of a subscription changes.\<close>

theorem unpaid_upgrade_grants_nothing:
  assumes "healthy w" and "live_subscription w u = Some s" and "change_refused st w u price = None"
    and "classify_change (current_plan_of s) (plan_of_price st price) = ''upgrade''"
    and "fst (charge s price key (before_charge s w)) = Inl e"
  shows "fst (change_plan st u price key w) = Inl e
    \<and> entitlements (tables (snd (change_plan st u price key w))) = entitlements (tables w)"
  using unpaid_upgrade [OF assms] by blast

lemma unpaid_upgrade_grants_nothing_witness:
  "fst (change_plan sample_settings (PStr ''u'') studio_price PNone (sample_stripe (Inl (StripeError ''card_declined''))))
     = Inl (StripeError ''card_declined'')"
  using unpaid_upgrade_grants_nothing [OF sample_stripe_state(1,2) sample_not_refused, of PNone "Inl (StripeError ''card_declined'')"]
  by (simp add: studio_plan sample_direction sample_stripe_state(3) sample_charge)

text \<open>A change that is not an upgrade grants and takes nothing now, even when Stripe or a
  statement fails half way: it only records what is pending.\<close>

theorem downgrade_changes_nothing_now:
  assumes "healthy w" and "live_subscription w u = Some s"
    and "classify_change (current_plan_of s) (plan_of_price st price) \<noteq> ''upgrade''"
  shows "entitlements (tables (snd (change_plan st u price key w))) = entitlements (tables w)"
  by (rule downgrade_defers [OF assms])

lemma downgrade_changes_nothing_now_witness:
  "entitlements (tables (snd (change_plan sample_settings (PStr ''u'') (PStr ''price_STRIPE_PRICE_SINGLE_GBP'') PNone (sample_customer 0))))
     = entitlements (tables (sample_customer 0))"
  by (rule downgrade_changes_nothing_now [OF sample_customer_tables(1,3)])
    (simp add: classify_change_def current_plan_of_def quota_subscription_def lookup_def py_or_def normalize_plan_def
      plan_level_def table_get_def PLAN_HIERARCHY_def plan_of_price_def build_price_to_plan_map_def raw_price_map_def sample_settings_def)

end
