(* ===== verification/Entitlements.thy ===== *)
theory Entitlements
  imports Query_Facts Sample_World Calendar
begin

text \<open>
  \<open>EntitlementService\<close> of \<open>app/modules/b2b/entitlement_service.py\<close>: which report sections are
  licensed to one client exclusively, until which date, and the refusal of a composition that
  would give them to another. A date the code may leave out is an option; a text that is not a
  date or an instant reads as \<open>None\<close>. Log lines are left out.
\<close>

section \<open>Reading\<close>

abbreviation ENTITLEMENTS :: string where
  "ENTITLEMENTS \<equiv> ''b2b_client_entitlements''"

definition as_date :: "pyval \<Rightarrow> int option" where
  "as_date v = (case v of PTime t \<Rightarrow> Some (date_part t) | PDate d \<Rightarrow> Some d | _ \<Rightarrow> None)"

definition list_entitlements :: "row list comp" where
  "list_entitlements = fetch (tq_select ''*'' (tq ENTITLEMENTS))"

definition list_for_subscription :: "pyval \<Rightarrow> row list comp" where
  "list_for_subscription subscription_id =
     fetch (tq_eq ''b2b_subscription_id'' subscription_id (tq_select ''*'' (tq ENTITLEMENTS)))"

definition get_entitlement :: "pyval \<Rightarrow> row option comp" where
  "get_entitlement entitlement_id =
     bindM (fetch (tq_eq ''id'' entitlement_id (tq_select ''*'' (tq ENTITLEMENTS)))) (\<lambda>rows. ret (first_row rows))"

section \<open>Exclusivity\<close>

text \<open>The reversion date is the day the module becomes generally available.\<close>

definition is_in_force :: "row \<Rightarrow> int \<Rightarrow> bool" where
  "is_in_force r on_date =
     (if \<not> truthy (r ''is_exclusive'') then False
      else (case as_date (r ''reverts_at'') of None \<Rightarrow> True | Some reverts_at \<Rightarrow> on_date < reverts_at))"

fun add_holders :: "row \<Rightarrow> pyval list \<Rightarrow> (pyval \<Rightarrow> row option) \<Rightarrow> (pyval \<Rightarrow> row option)" where
  "add_holders r [] holders = holders"
| "add_holders r (section_key # keys) holders = add_holders r keys (holders(section_key := Some r))"

fun section_holders :: "row list \<Rightarrow> int \<Rightarrow> (pyval \<Rightarrow> row option) \<Rightarrow> (pyval \<Rightarrow> row option)" where
  "section_holders [] on_date holders = holders"
| "section_holders (r # rows) on_date holders =
     section_holders rows on_date
      (if is_in_force r on_date then add_holders r (list_of (r ''section_keys'')) holders else holders)"

definition today_or :: "int option \<Rightarrow> int comp" where
  "today_or on_date = (case on_date of Some d \<Rightarrow> ret d | None \<Rightarrow> gets (\<lambda>w. date_part (clock w)))"

definition exclusive_section_holders :: "int option \<Rightarrow> (pyval \<Rightarrow> row option) comp" where
  "exclusive_section_holders on_date =
     bindM (today_or on_date) (\<lambda>d.
     bindM list_entitlements (\<lambda>rows. ret (section_holders rows d (\<lambda>_. None))))"

definition conflict_entry :: "pyval \<Rightarrow> row \<Rightarrow> pyval" where
  "conflict_entry section_key holder = PDict [
     (''section_key'', section_key),
     (''module_key'', holder ''module_key''),
     (''module_label'', holder ''module_label''),
     (''held_by_subscription_id'', holder ''b2b_subscription_id''),
     (''reverts_at'', case as_date (holder ''reverts_at'') of None \<Rightarrow> PNone | Some d \<Rightarrow> PDate d)]"

fun collect_conflicts :: "(pyval \<Rightarrow> row option) \<Rightarrow> pyval \<Rightarrow> pyval list \<Rightarrow> pyval list" where
  "collect_conflicts holders subscription_id [] = []"
| "collect_conflicts holders subscription_id (section_key # keys) =
     (case holders section_key of
        None \<Rightarrow> collect_conflicts holders subscription_id keys
      | Some holder \<Rightarrow>
          if truthy subscription_id \<and> holder ''b2b_subscription_id'' = subscription_id
          then collect_conflicts holders subscription_id keys
          else conflict_entry section_key holder # collect_conflicts holders subscription_id keys)"

definition conflicts_for :: "pyval \<Rightarrow> pyval list \<Rightarrow> int option \<Rightarrow> pyval list comp" where
  "conflicts_for subscription_id section_keys on_date =
     bindM (today_or on_date) (\<lambda>d.
     bindM (exclusive_section_holders (Some d)) (\<lambda>holders.
     ret (collect_conflicts holders subscription_id section_keys)))"

definition assert_available :: "pyval \<Rightarrow> pyval list \<Rightarrow> int option \<Rightarrow> unit comp" where
  "assert_available subscription_id section_keys on_date =
     bindM (conflicts_for subscription_id section_keys on_date) (\<lambda>conflicts.
     if conflicts \<noteq> [] then throw (EntitlementConflict conflicts) else ret ())"

definition allowed_section_keys :: "pyval \<Rightarrow> pyval list \<Rightarrow> int option \<Rightarrow> pyval list comp" where
  "allowed_section_keys subscription_id section_keys on_date =
     bindM (conflicts_for subscription_id section_keys on_date) (\<lambda>conflicts.
     let blocked = map (\<lambda>c. dget c ''section_key'') conflicts in
     ret (filter (\<lambda>key. key \<notin> set blocked) section_keys))"

section \<open>Writing\<close>

record grant_request =
  gr_subscription_id :: pyval
  gr_module_key :: pyval
  gr_module_label :: pyval
  gr_section_keys :: pyval
  gr_is_exclusive :: bool
  gr_reverts_at :: pyval
  gr_notes :: pyval

definition grant_entitlement :: "grant_request \<Rightarrow> row comp" where
  "grant_entitlement g =
     bindM (list_for_subscription (gr_subscription_id g)) (\<lambda>rows.
     let existing = filter (\<lambda>r. r ''module_key'' = gr_module_key g) rows in
     bindM (case existing of r # _ \<Rightarrow> ret (r ''id'') | [] \<Rightarrow> uuid4) (\<lambda>i.
     bindM utcnow (\<lambda>now.
     let record = [
           (''id'', i),
           (''b2b_subscription_id'', gr_subscription_id g),
           (''module_key'', gr_module_key g),
           (''module_label'', gr_module_label g),
           (''section_keys'', py_or (gr_section_keys g) (PList [])),
           (''is_exclusive'', PBool (gr_is_exclusive g)),
           (''reverts_at'', gr_reverts_at g),
           (''notes'', gr_notes g),
           (''updated_at'', now)] @ (if existing = [] then [(''created_at'', now)] else []) in
     bindM (fetch (tq_upsert record ''b2b_subscription_id,module_key'' (tq ENTITLEMENTS))) (\<lambda>stored.
     ret (first_or record stored)))))"

definition revoke_entitlement :: "pyval \<Rightarrow> bool comp" where
  "revoke_entitlement entitlement_id =
     bindM (get_entitlement entitlement_id) (\<lambda>found.
     case found of
       None \<Rightarrow> ret False
     | Some _ \<Rightarrow> thenM (run (tq_eq ''id'' entitlement_id (tq_delete (tq ENTITLEMENTS)))) (ret True))"

section \<open>Holders\<close>

abbreviation covers :: "row \<Rightarrow> pyval \<Rightarrow> bool" where
  "covers r key \<equiv> key \<in> set (list_of (r ''section_keys''))"

lemma add_holders_apply: "add_holders r keys h k = (if k \<in> set keys then Some r else h k)"
  by (induction keys arbitrary: h) auto

text \<open>The holder of a section is the last entitlement in force that covers it.\<close>

lemma section_holders_last:
  "section_holders rows d h k
    = (case filter (\<lambda>r. is_in_force r d \<and> covers r k) (rev rows) of [] \<Rightarrow> h k | r # _ \<Rightarrow> Some r)"
  by (induction rows arbitrary: h) (auto simp: add_holders_apply split: list.split)

lemma collect_conflicts_keys:
  "map (\<lambda>c. dget c ''section_key'') (collect_conflicts h s keys)
    = filter (\<lambda>k. \<exists>r. h k = Some r \<and> \<not> (truthy s \<and> r ''b2b_subscription_id'' = s)) keys"
  by (induction keys) (auto simp: conflict_entry_def split: option.split)

lemma collect_conflicts_empty:
  "collect_conflicts h s keys = [] \<longleftrightarrow> (\<forall>k \<in> set keys. \<forall>r. h k = Some r \<longrightarrow> truthy s \<and> r ''b2b_subscription_id'' = s)"
  by (induction keys) (auto split: option.split)

abbreviation grants :: "world \<Rightarrow> row list" where
  "grants w \<equiv> tables w ENTITLEMENTS"

lemma list_entitlements_healthy:
  "healthy w \<Longrightarrow> length (grants w) \<le> max_rows w \<Longrightarrow> list_entitlements w = (Inr (grants w), w)"
  by (simp add: list_entitlements_def query_eval world_simps healthy_def sql_def table_defs matches_def)

lemma conflicts_healthy:
  assumes "healthy w" and "length (grants w) \<le> max_rows w"
  shows "conflicts_for s keys (Some d) w = (Inr (collect_conflicts (section_holders (grants w) d (\<lambda>_. None)) s keys), w)"
  using assms by (simp add: conflicts_for_def exclusive_section_holders_def today_or_def list_entitlements_healthy world_simps)

definition held_by_another :: "world \<Rightarrow> pyval \<Rightarrow> int \<Rightarrow> pyval \<Rightarrow> bool" where
  "held_by_another w s d key \<longleftrightarrow>
     (\<exists>r \<in> set (grants w). is_in_force r d \<and> covers r key \<and> \<not> (truthy s \<and> r ''b2b_subscription_id'' = s))"

text \<open>No section is promised to two clients on the day.\<close>

definition single_holders :: "world \<Rightarrow> int \<Rightarrow> bool" where
  "single_holders w d \<longleftrightarrow> (\<forall>r \<in> set (grants w). \<forall>r' \<in> set (grants w). \<forall>key.
     is_in_force r d \<and> is_in_force r' d \<and> covers r key \<and> covers r' key
       \<longrightarrow> r ''b2b_subscription_id'' = r' ''b2b_subscription_id'')"

lemma holder_blocks:
  assumes "single_holders w d"
  shows "(\<exists>r. section_holders (grants w) d (\<lambda>_. None) key = Some r \<and> \<not> (truthy s \<and> r ''b2b_subscription_id'' = s))
    \<longleftrightarrow> held_by_another w s d key"
proof (cases "filter (\<lambda>r. is_in_force r d \<and> covers r key) (rev (grants w))")
  case Nil
  then show ?thesis by (auto simp: section_holders_last held_by_another_def filter_empty_conv)
next
  case (Cons r rs)
  then have r: "r \<in> set (grants w)" "is_in_force r d" "covers r key"
  proof -
    have "r \<in> set (filter (\<lambda>r. is_in_force r d \<and> covers r key) (rev (grants w)))" using Cons by simp
    then show "r \<in> set (grants w)" "is_in_force r d" "covers r key" by simp_all
  qed
  then have same: "r' ''b2b_subscription_id'' = r ''b2b_subscription_id''"
    if "r' \<in> set (grants w)" "is_in_force r' d" "covers r' key" for r'
    using assms that unfolding single_holders_def by blast
  have hold: "section_holders (grants w) d (\<lambda>_. None) key = Some r"
    unfolding section_holders_last Cons by simp
  show ?thesis
    unfolding hold held_by_another_def using r same by (metis option.inject)
qed

lemma availability:
  assumes "healthy w" and "length (grants w) \<le> max_rows w" and "single_holders w d"
  shows "fst (assert_available s keys (Some d) w) = Inr () \<longleftrightarrow> (\<forall>key \<in> set keys. \<not> held_by_another w s d key)"
  using holder_blocks [OF assms(3)]
  by (simp add: assert_available_def conflicts_healthy [OF assms(1,2)] world_simps collect_conflicts_empty)

lemma allowed_healthy:
  assumes "healthy w" and "length (grants w) \<le> max_rows w" and "single_holders w d"
  shows "allowed_section_keys s keys (Some d) w = (Inr (filter (\<lambda>key. \<not> held_by_another w s d key) keys), w)"
proof -
  let ?h = "section_holders (grants w) d (\<lambda>_. None)"
  have b: "map (\<lambda>c. dget c ''section_key'') (collect_conflicts ?h s keys) = filter (held_by_another w s d) keys"
    unfolding collect_conflicts_keys holder_blocks [OF assms(3)] ..
  have "filter (\<lambda>key. key \<notin> set (filter (held_by_another w s d) keys)) keys = filter (\<lambda>key. \<not> held_by_another w s d key) keys"
    by (rule filter_cong) auto
  then show ?thesis
    unfolding allowed_section_keys_def Let_def
    by (simp only: bindM_eval conflicts_healthy [OF assms(1,2)] b prod.case sum.case comp_simps)
qed

lemma revoked_cannot_block:
  "held_by_another (w\<lparr>tables := (tables w)(ENTITLEMENTS := filter P (grants w))\<rparr>) s d key \<Longrightarrow> held_by_another w s d key"
  by (auto simp: held_by_another_def)

lemma in_force_until_reversion:
  "is_in_force r d \<Longrightarrow> d' \<le> d \<Longrightarrow> is_in_force r d'"
  by (auto simp: is_in_force_def split: if_splits option.splits)

section \<open>Granting\<close>

definition grant_cells :: "grant_request \<Rightarrow> string \<Rightarrow> int \<Rightarrow> pydict" where
  "grant_cells g i n = [
     (''id'', PStr i), (''b2b_subscription_id'', gr_subscription_id g), (''module_key'', gr_module_key g),
     (''module_label'', gr_module_label g), (''section_keys'', py_or (gr_section_keys g) (PList [])),
     (''is_exclusive'', PBool (gr_is_exclusive g)), (''reverts_at'', gr_reverts_at g), (''notes'', gr_notes g),
     (''updated_at'', PTime n), (''created_at'', PTime n)]"

lemma split_conflict [simp]:
  "split_columns ''b2b_subscription_id,module_key'' = [''b2b_subscription_id'', ''module_key'']"
  by (simp add: split_simps)

text \<open>A module new to the client is stored as one more row.\<close>

lemma first_grant:
  assumes "healthy w" and "length (grants w) \<le> max_rows w"
    and "\<forall>r \<in> set (grants w). r ''b2b_subscription_id'' = gr_subscription_id g \<longrightarrow> r ''module_key'' \<noteq> gr_module_key g"
    and "\<forall>r \<in> set (grants w). r ''id'' \<noteq> PStr (uuid_source w (uuids_used w))"
    and "gr_subscription_id g \<noteq> PNone" and "gr_module_key g \<noteq> PNone"
  shows "\<exists>w' r. grant_entitlement g w = (Inr r, w') \<and> healthy w' \<and> max_rows w' = max_rows w
    \<and> grants w' = grants w @ [new_row B2BClientEntitlement_table (clock w) (grant_cells g (uuid_source w (uuids_used w)) (clock w))]"
proof -
  let ?i = "uuid_source w (uuids_used w)"
  let ?p = "grant_cells g ?i (clock w)"
  let ?row = "new_row B2BClientEntitlement_table (clock w) ?p"
  let ?w1 = "w\<lparr>uuids_used := Suc (uuids_used w)\<rparr>"
  let ?w2 = "set_table ENTITLEMENTS (grants w @ [?row]) ?w1"
  have none: "filter (\<lambda>r. r ''module_key'' = gr_module_key g) (filter (\<lambda>r. r ''b2b_subscription_id'' = gr_subscription_id g) (grants w)) = []"
    "filter (\<lambda>r. r ''b2b_subscription_id'' = gr_subscription_id g \<and> r ''module_key'' = gr_module_key g) (grants w) = []"
    using assms(3) by (auto simp: filter_empty_conv)
  have len: "length (filter P (grants w)) \<le> max_rows w" for P
    using assms(2) length_filter_le [of P "grants w"] by linarith
  have l: "list_for_subscription (gr_subscription_id g) w = (Inr (filter (\<lambda>r. r ''b2b_subscription_id'' = gr_subscription_id g) (grants w)), w)"
    using assms(1) len by (simp add: list_for_subscription_def query_eval world_simps healthy_def sql_def table_defs)
  have ins: "insertable B2BClientEntitlement_table ?row (grants w)"
    using assms(3-6) by (auto simp: insertable_def new_row_def not_null_def clash_def table_defs list_all_iff grant_cells_def)
  have cols: "map fst ?p = [''id'', ''b2b_subscription_id'', ''module_key'', ''module_label'', ''section_keys'',
      ''is_exclusive'', ''reverts_at'', ''notes'', ''updated_at'', ''created_at'']" "?p \<noteq> []"
    "lookup ?p ''b2b_subscription_id'' = gr_subscription_id g" "lookup ?p ''module_key'' = gr_module_key g"
    by (simp_all add: grant_cells_def)
  have up: "\<exists>rs. fetch (tq_upsert ?p ''b2b_subscription_id,module_key'' (tq ENTITLEMENTS)) ?w1 = (Inr rs, ?w2)"
    using assms(1) none(2) ins cols
    by (simp add: fetch_def tq_execute_def builder_defs query_keys_def execute_upsert_def reload_after_write_def
        sql_read_def sql_store_def known_columns_def Let_def world_simps healthy_def sql_def
        B2BClientEntitlement_table_def limits_def)
  have pc: "?p = [(''id'', PStr ?i), (''b2b_subscription_id'', gr_subscription_id g), (''module_key'', gr_module_key g),
     (''module_label'', gr_module_label g), (''section_keys'', py_or (gr_section_keys g) (PList [])),
     (''is_exclusive'', PBool (gr_is_exclusive g)), (''reverts_at'', gr_reverts_at g), (''notes'', gr_notes g),
     (''updated_at'', PTime (clock w)), (''created_at'', PTime (clock w))]"
    by (simp add: grant_cells_def)
  obtain rs where "fetch (tq_upsert ?p ''b2b_subscription_id,module_key'' (tq ENTITLEMENTS)) ?w1 = (Inr rs, ?w2)"
    using up by blast
  then have "\<exists>r. grant_entitlement g w = (Inr r, ?w2)"
    unfolding pc by (simp add: grant_entitlement_def l none world_simps Let_def)
  then show ?thesis using assms(1) by (auto simp: set_table_def)
qed

end
