(* ===== verification/Entitlement_Properties.thy ===== *)
theory Entitlement_Properties
  imports Entitlements
begin

text \<open>
  The properties of the entitlement registry. The instances use a client \<open>grey\<close> that holds the
  section \<open>ai\<close> exclusively until a day, as the contract pack's example does.
\<close>

definition sample_grant :: "string \<Rightarrow> row" where
  "sample_grant holder = lookup [(''id'', PStr holder), (''b2b_subscription_id'', PStr holder), (''module_key'', PStr ''m''),
     (''section_keys'', PList [PStr ''ai'']), (''is_exclusive'', PBool True), (''reverts_at'', PDate 21365)]"

definition sample_registry :: world where
  "sample_registry = sample_world [(ENTITLEMENTS, [sample_grant ''grey''])]"

lemma sample_registry_simps:
  "healthy sample_registry" "length (grants sample_registry) \<le> max_rows sample_registry" "single_holders sample_registry d"
  by (simp_all add: sample_registry_def single_holders_def)

text \<open>A composition is refused exactly when it asks for a section another client holds
  exclusively on that day, provided no section is promised to two clients.\<close>

theorem composition_respects_exclusivity:
  assumes "healthy w" and "length (grants w) \<le> max_rows w" and "single_holders w d"
  shows "fst (assert_available s keys (Some d) w) = Inr () \<longleftrightarrow> (\<forall>key \<in> set keys. \<not> held_by_another w s d key)"
  by (rule availability [OF assms])

lemma composition_respects_exclusivity_witness:
  "fst (assert_available (PStr ''blue'') [PStr ''ai''] (Some 21364) sample_registry) \<noteq> Inr ()
    \<and> fst (assert_available (PStr ''blue'') [PStr ''ai''] (Some 21365) sample_registry) = Inr ()"
  unfolding composition_respects_exclusivity [OF sample_registry_simps]
  by (simp add: held_by_another_def sample_registry_def sample_grant_def is_in_force_def as_date_def lookup_def)

text \<open>What \<open>allowed_section_keys\<close> lets through is available: the requested sections no other
  client holds, in the order asked for, and asking for just those raises nothing.\<close>

theorem allowed_sections_are_available:
  assumes "healthy w" and "length (grants w) \<le> max_rows w" and "single_holders w d"
  shows "\<exists>allowed. allowed_section_keys s keys (Some d) w = (Inr allowed, w)
    \<and> allowed = filter (\<lambda>key. \<not> held_by_another w s d key) keys
    \<and> fst (assert_available s allowed (Some d) w) = Inr ()"
  using allowed_healthy [OF assms] availability [OF assms] by simp

lemma allowed_sections_are_available_witness:
  "\<exists>allowed. allowed_section_keys (PStr ''blue'') [PStr ''tax'', PStr ''ai''] (Some 0) sample_registry = (Inr allowed, sample_registry)
    \<and> allowed = filter (\<lambda>key. \<not> held_by_another sample_registry (PStr ''blue'') 0 key) [PStr ''tax'', PStr ''ai'']
    \<and> fst (assert_available (PStr ''blue'') allowed (Some 0) sample_registry) = Inr ()"
  by (rule allowed_sections_are_available [OF sample_registry_simps])

text \<open>An exclusive grant protects its sections: once a module new to a client is granted
  exclusively, any other client that asks for one of its sections before the reversion date is
  refused.\<close>

theorem exclusive_grant_protects:
  assumes "healthy w" and "length (grants w) < max_rows w"
    and "\<forall>r \<in> set (grants w). r ''b2b_subscription_id'' = gr_subscription_id g \<longrightarrow> r ''module_key'' \<noteq> gr_module_key g"
    and "\<forall>r \<in> set (grants w). r ''id'' \<noteq> PStr (uuid_source w (uuids_used w))"
    and "gr_subscription_id g \<noteq> PNone" and "gr_module_key g \<noteq> PNone"
    and "gr_is_exclusive g" and "gr_reverts_at g = PDate reversion" and "d < reversion"
    and "gr_section_keys g = PList sections" and "key \<in> set sections" and "key \<in> set keys"
    and "s \<noteq> gr_subscription_id g"
  shows "\<exists>w' r conflicts. grant_entitlement g w = (Inr r, w')
    \<and> assert_available s keys (Some d) w' = (Inl (EntitlementConflict conflicts), w')"
proof -
  let ?row = "new_row B2BClientEntitlement_table (clock w) (grant_cells g (uuid_source w (uuids_used w)) (clock w))"
  obtain w' r where w': "grant_entitlement g w = (Inr r, w')" "healthy w'" "max_rows w' = max_rows w"
    "grants w' = grants w @ [?row]"
    using first_grant [OF assms(1) _ assms(3-6)] assms(2) by auto
  have row: "?row ''is_exclusive'' = PBool True" "?row ''reverts_at'' = PDate reversion"
    "?row ''section_keys'' = PList sections" "?row ''b2b_subscription_id'' = gr_subscription_id g"
    using assms(7,8,10,11) by (auto simp: new_row_def grant_cells_def table_defs py_or_def)
  have hold: "section_holders (grants w') d (\<lambda>_. None) key = Some ?row"
    using row assms(9,11) by (simp add: w'(4) section_holders_last is_in_force_def as_date_def)
  then have "collect_conflicts (section_holders (grants w') d (\<lambda>_. None)) s keys \<noteq> []"
    unfolding collect_conflicts_empty using row(4) assms(12,13) by auto
  then show ?thesis
    using w' assms(2) conflicts_healthy [OF w'(2), of s keys d] by (auto simp: assert_available_def world_simps)
qed

lemma exclusive_grant_protects_witness:
  "\<exists>w' r conflicts. grant_entitlement \<lparr>gr_subscription_id = PStr ''red'', gr_module_key = PStr ''m'', gr_module_label = PNone,
        gr_section_keys = PList [PStr ''vfx''], gr_is_exclusive = True, gr_reverts_at = PDate 30000, gr_notes = PNone\<rparr>
        sample_registry = (Inr r, w')
    \<and> assert_available (PStr ''grey'') [PStr ''vfx''] (Some 29999) w' = (Inl (EntitlementConflict conflicts), w')"
  by (rule exclusive_grant_protects [where reversion = 30000 and sections = "[PStr ''vfx'']" and key = "PStr ''vfx''"])
    (simp_all add: sample_registry_def sample_grant_def lookup_def)

text \<open>Two exclusive grants of one section: only the last row is enforced, so the holder of the
  last row is given a section the first client holds exclusively.\<close>

theorem overlapping_grants_hide_the_first:
  "let w = sample_world [(ENTITLEMENTS, [sample_grant ''grey'', sample_grant ''blue''])] in
     held_by_another w (PStr ''blue'') 0 (PStr ''ai'')
     \<and> fst (assert_available (PStr ''blue'') [PStr ''ai''] (Some 0) w) = Inr ()"
proof -
  let ?w = "sample_world [(ENTITLEMENTS, [sample_grant ''grey'', sample_grant ''blue''])]"
  have "section_holders (grants ?w) 0 (\<lambda>_. None) (PStr ''ai'') = Some (sample_grant ''blue'')"
    by (simp add: section_holders_last sample_grant_def is_in_force_def as_date_def lookup_def)
  then have "collect_conflicts (section_holders (grants ?w) 0 (\<lambda>_. None)) (PStr ''blue'') [PStr ''ai''] = []"
    by (simp add: collect_conflicts_empty del: sample_world_simps) (simp add: sample_grant_def lookup_def)
  moreover have "healthy ?w" "length (grants ?w) \<le> max_rows ?w" by simp_all
  ultimately have "conflicts_for (PStr ''blue'') [PStr ''ai''] (Some 0) ?w = (Inr [], ?w)"
    by (simp only: conflicts_healthy)
  then have "fst (assert_available (PStr ''blue'') [PStr ''ai''] (Some 0) ?w) = Inr ()"
    by (simp only: assert_available_def bindM_eval prod.case sum.case) (simp add: world_simps)
  then show ?thesis
    by (simp add: held_by_another_def sample_grant_def is_in_force_def as_date_def lookup_def)
qed

end
