(* ===== verification/Invites.thy ===== *)
theory Invites
  imports B2B_Subscriptions Sample_World "HOL-Library.Product_Lexorder"
begin

text \<open>
  \<open>B2BInviteService\<close> of \<open>app/modules/b2b/invite_service.py\<close>: a contract invite is issued for an
  e-mail address, resent with a fresh token, revoked, and accepted once by the invited user.
  The library functions the service uses are parameters: \<open>hash_token\<close> is SHA-256 as hex text and
  \<open>token_source\<close> the URL-safe random text of the next draw. Each refusal carries what the
  router reads from it: the status of an invite that cannot be claimed, the invited address of
  a mismatch. Log lines are left out.
\<close>

section \<open>Tokens and stored instants\<close>

record invite_env =
  inv_settings :: settings
  hash_token :: "string \<Rightarrow> string"
  token_source :: "nat \<Rightarrow> string"

abbreviation INVITES :: string where
  "INVITES \<equiv> ''b2b_contract_invites''"

definition DEFAULT_EXPIRY_DAYS :: int where
  "DEFAULT_EXPIRY_DAYS = 30"

definition MAX_EXPIRY_DAYS :: int where
  "MAX_EXPIRY_DAYS = 365"

definition TOKEN_PREFIX_CHARS :: nat where
  "TOKEN_PREFIX_CHARS = 8"

definition mint_token :: "invite_env \<Rightarrow> (string \<times> string \<times> string) comp" where
  "mint_token env w =
     (let raw = token_source env (uuids_used w) in
      (Inr (raw, hash_token env raw, take TOKEN_PREFIX_CHARS raw), w\<lparr>uuids_used := Suc (uuids_used w)\<rparr>))"

definition as_datetime :: "pyval \<Rightarrow> int option" where
  "as_datetime v = (case v of PTime t \<Rightarrow> Some t | PDate d \<Rightarrow> Some (d * day_us) | _ \<Rightarrow> None)"

definition accept_url :: "invite_env \<Rightarrow> string \<Rightarrow> string" where
  "accept_url env token = rstrip_slash (FRONTEND_URL (inv_settings env)) @ ''/b2b/invite/'' @ token"

text \<open>Expiry is computed, never stored.\<close>

definition effective_status :: "row \<Rightarrow> int \<Rightarrow> pyval" where
  "effective_status r now =
     (let stored = py_or (r ''status'') (PStr ''pending'') in
      if stored \<noteq> PStr ''pending'' then stored
      else (case as_datetime (r ''expires_at'') of
          Some expires_at \<Rightarrow> if expires_at \<le> now then PStr ''expired'' else PStr ''pending''
        | None \<Rightarrow> PStr ''pending''))"

definition to_api :: "row \<Rightarrow> int \<Rightarrow> pydict" where
  "to_api r now = [
     (''id'', r ''id''), (''email'', r ''email''), (''product_type'', r ''product_type''),
     (''status'', effective_status r now), (''token_prefix'', r ''token_prefix''),
     (''expires_at'', r ''expires_at''), (''delivery_frequency'', r ''delivery_frequency''),
     (''extra_recipient_email'', r ''extra_recipient_email''), (''company_name'', r ''company_name''),
     (''admin_notes'', r ''admin_notes''), (''created_by'', r ''created_by''),
     (''sent_count'', py_or (r ''sent_count'') (PInt 0)), (''last_sent_at'', r ''last_sent_at''),
     (''accepted_at'', r ''accepted_at''), (''accepted_by_user_id'', r ''accepted_by_user_id''),
     (''b2b_subscription_id'', r ''b2b_subscription_id''), (''revoked_at'', r ''revoked_at''),
     (''created_at'', r ''created_at''), (''updated_at'', r ''updated_at'')]"

section \<open>Reads\<close>

definition get_invite :: "pyval \<Rightarrow> row option comp" where
  "get_invite invite_id =
     bindM (fetch (tq_eq ''id'' invite_id (tq_select ''*'' (tq INVITES)))) (\<lambda>rows. ret (first_row rows))"

definition get_by_token :: "invite_env \<Rightarrow> string \<Rightarrow> row option comp" where
  "get_by_token env token =
     bindM (fetch (tq_limit 1 (tq_eq ''token_hash'' (PStr (hash_token env token)) (tq_select ''*'' (tq INVITES)))))
       (\<lambda>rows. ret (first_row rows))"

definition lower_email :: "pyval \<Rightarrow> string" where
  "lower_email v = lower (text_of (py_or v (PStr [])))"

definition clean_text :: "pyval \<Rightarrow> string" where
  "clean_text v = lower (strip (text_of (py_or v (PStr []))))"

text \<open>The text of an absent instant is empty and sorts first.\<close>

definition created_key :: "row \<Rightarrow> int \<times> int" where
  "created_key r = (case as_datetime (r ''created_at'') of None \<Rightarrow> (0, 0) | Some t \<Rightarrow> (1, t))"

definition list_invites :: "pyval \<Rightarrow> pyval \<Rightarrow> pyval \<Rightarrow> nat \<Rightarrow> nat \<Rightarrow> (pydict list \<times> nat) comp" where
  "list_invites status email product_type limit offset =
     bindM (fetch (tq_select ''*'' (tq INVITES))) (\<lambda>rows.
     bindM (gets clock) (\<lambda>now.
     let rows = (if truthy email
                 then filter (\<lambda>r. text_contains (lower (strip (text_of email))) (lower_email (r ''email''))) rows else rows);
         rows = (if truthy product_type then filter (\<lambda>r. r ''product_type'' = product_type) rows else rows);
         rows = (if truthy status then filter (\<lambda>r. effective_status r now = status) rows else rows);
         rows = rev (sort_key created_key (rev rows))
     in ret (map (\<lambda>r. to_api r now) (take limit (drop offset rows)), length rows)))"

fun first_pending :: "string \<Rightarrow> pyval \<Rightarrow> int \<Rightarrow> row list \<Rightarrow> row option" where
  "first_pending needle product_type now [] = None"
| "first_pending needle product_type now (r # rows) =
     (if lower_email (r ''email'') \<noteq> needle then first_pending needle product_type now rows
      else if r ''product_type'' \<noteq> product_type then first_pending needle product_type now rows
      else if effective_status r now = PStr ''pending'' then Some r
      else first_pending needle product_type now rows)"

definition pending_for :: "string \<Rightarrow> pyval \<Rightarrow> row option comp" where
  "pending_for email product_type =
     bindM (fetch (tq_select ''*'' (tq INVITES))) (\<lambda>rows.
     bindM (gets clock) (\<lambda>now. ret (first_pending (lower (strip email)) product_type now rows)))"

section \<open>Issue, resend, revoke\<close>

definition send_invite_email :: "invite_env \<Rightarrow> row \<Rightarrow> string \<Rightarrow> unit comp" where
  "send_invite_email env r url =
     (let product = (case map_of B2B_PRODUCTS (text_of (py_or (r ''product_type'') (PStr []))) of None \<Rightarrow> [] | Some p \<Rightarrow> p) in
      tryM (email_send (inv_settings env) (text_of (r ''email'')) ''b2b_contract_invite'' [
        (''product_title'', py_or (lookup product ''title'') (r ''product_type'')),
        (''product_description'', lookup product ''description''),
        (''company_name'', r ''company_name''),
        (''delivery_frequency'', r ''delivery_frequency''),
        (''accept_url'', PStr url),
        (''expires_at'', case as_datetime (r ''expires_at'') of None \<Rightarrow> PStr [] | Some t \<Rightarrow> PDate (date_part t))])
       (\<lambda>_. ret ()))"

record issue_request =
  is_email :: pyval
  is_product_type :: pyval
  is_delivery_frequency :: pyval
  is_extra_recipient_email :: pyval
  is_company_name :: pyval
  is_admin_notes :: pyval
  is_expires_in_days :: int
  is_created_by :: pyval
  is_send_email :: bool

definition invite_cells :: "issue_request \<Rightarrow> pyval \<Rightarrow> string \<Rightarrow> string \<Rightarrow> int \<Rightarrow> pydict" where
  "invite_cells a i token_hash prefix now = [
     (''id'', i),
     (''email'', PStr (clean_text (is_email a))),
     (''product_type'', is_product_type a),
     (''status'', PStr ''pending''),
     (''token_hash'', PStr token_hash),
     (''token_prefix'', PStr prefix),
     (''expires_at'', PTime (now + days_us (is_expires_in_days a))),
     (''delivery_frequency'', py_or (is_delivery_frequency a) (PStr ''monthly'')),
     (''extra_recipient_email'', py_or (PStr (clean_text (is_extra_recipient_email a))) PNone),
     (''company_name'', is_company_name a),
     (''admin_notes'', is_admin_notes a),
     (''created_by'', is_created_by a),
     (''sent_count'', PInt 0),
     (''created_at'', PTime now),
     (''updated_at'', PTime now)]"

definition issue_invite :: "invite_env \<Rightarrow> issue_request \<Rightarrow> (pydict \<times> string) comp" where
  "issue_invite env a =
     (let email = clean_text (is_email a) in
      if email = [] then throw (InviteError ''An email address is required to issue an invite'')
      else if \<not> (1 \<le> is_expires_in_days a \<and> is_expires_in_days a \<le> MAX_EXPIRY_DAYS)
      then throw (InviteError ''expires_in_days must be between 1 and 365'')
      else
       bindM (pending_for email (is_product_type a)) (\<lambda>existing.
       case existing of
         Some _ \<Rightarrow> throw (InviteError (email @ '' already has an outstanding invite for this product. ''
           @ ''Resend or revoke it instead of issuing a second one.''))
       | None \<Rightarrow>
         bindM (mint_token env) (\<lambda>(raw, token_hash, prefix).
         bindM (gets clock) (\<lambda>now.
         bindM uuid4 (\<lambda>i.
         let r = invite_cells a i token_hash prefix now in
         bindM (fetch (tq_insert r (tq INVITES))) (\<lambda>rows.
         let stored = first_or r rows; url = accept_url env raw in
         thenM (whenM (is_send_email a) (send_invite_email env stored url))
         (ret (to_api stored now, url))))))))"

definition resend_cells :: "row \<Rightarrow> string \<Rightarrow> string \<Rightarrow> int \<Rightarrow> pydict" where
  "resend_cells r token_hash prefix now = [
     (''token_hash'', PStr token_hash),
     (''token_prefix'', PStr prefix),
     (''status'', PStr ''pending''),
     (''expires_at'', PTime (now + days_us DEFAULT_EXPIRY_DAYS)),
     (''sent_count'', PInt (int_of (py_or (r ''sent_count'') (PInt 0)) + 1)),
     (''last_sent_at'', PTime now),
     (''updated_at'', PTime now)]"

definition resend_invite :: "invite_env \<Rightarrow> pyval \<Rightarrow> (pydict \<times> string) comp" where
  "resend_invite env invite_id =
     bindM (get_invite invite_id) (\<lambda>found.
     case found of
       None \<Rightarrow> throw (InviteNotFound ''Invite not found'')
     | Some r \<Rightarrow>
       bindM (gets clock) (\<lambda>now.
       let status = effective_status r now in
       if status \<in> {PStr ''accepted'', PStr ''revoked''} then throw (InviteNotClaimable (text_of status))
       else
        bindM (mint_token env) (\<lambda>(raw, token_hash, prefix).
        let updates = resend_cells r token_hash prefix now in
        bindM (fetch (tq_eq ''id'' invite_id (tq_update updates (tq INVITES)))) (\<lambda>rows.
        let stored = (case rows of s # _ \<Rightarrow> s | [] \<Rightarrow> set_cells updates r); url = accept_url env raw in
        thenM (send_invite_email env stored url)
        (ret (to_api stored now, url))))))"

definition revoke_invite :: "pyval \<Rightarrow> pydict comp" where
  "revoke_invite invite_id =
     bindM (get_invite invite_id) (\<lambda>found.
     case found of
       None \<Rightarrow> throw (InviteNotFound ''Invite not found'')
     | Some r \<Rightarrow>
       bindM (gets clock) (\<lambda>now.
       if effective_status r now = PStr ''accepted'' then throw (InviteNotClaimable ''accepted'')
       else
        (let updates = [(''status'', PStr ''revoked''), (''revoked_at'', PTime now), (''updated_at'', PTime now)] in
         thenM (run (tq_eq ''id'' invite_id (tq_update updates (tq INVITES))))
         (ret (to_api (set_cells updates r) now)))))"

section \<open>Preview and accept\<close>

definition preview_invite :: "invite_env \<Rightarrow> string \<Rightarrow> pydict comp" where
  "preview_invite env token =
     bindM (get_by_token env token) (\<lambda>found.
     case found of
       None \<Rightarrow> throw (InviteNotFound ''This invitation link is not valid'')
     | Some r \<Rightarrow>
       bindM (gets clock) (\<lambda>now.
       let status = effective_status r now in
       ret [(''email'', r ''email''), (''product_type'', r ''product_type''), (''company_name'', r ''company_name''),
            (''delivery_frequency'', r ''delivery_frequency''), (''expires_at'', r ''expires_at''),
            (''status'', status), (''claimable'', PBool (status = PStr ''pending''))]))"

definition contract_of :: "row \<Rightarrow> pyval \<Rightarrow> manual_subscription" where
  "contract_of r user_id = \<lparr>
     ms_user_id = user_id, ms_product_type = r ''product_type'', ms_status = PStr ''active'',
     ms_delivery_frequency = py_or (r ''delivery_frequency'') (PStr ''monthly''),
     ms_extra_recipient_email = r ''extra_recipient_email'', ms_company_name = r ''company_name'',
     ms_admin_notes = r ''admin_notes''\<rparr>"

definition accepted_cells :: "pyval \<Rightarrow> pyval \<Rightarrow> int \<Rightarrow> pydict" where
  "accepted_cells user_id subscription_id now = [
     (''status'', PStr ''accepted''), (''accepted_at'', PTime now), (''accepted_by_user_id'', user_id),
     (''b2b_subscription_id'', subscription_id), (''updated_at'', PTime now)]"

definition claim_invite :: "row \<Rightarrow> pyval \<Rightarrow> row comp" where
  "claim_invite r user_id =
     bindM (create_manual_subscription_for_user (contract_of r user_id)) (\<lambda>subscription.
     bindM (gets clock) (\<lambda>now.
     thenM (run (tq_eq ''id'' (r ''id'') (tq_update (accepted_cells user_id (subscription ''id'') now) (tq INVITES))))
     (ret subscription)))"

definition accept_invite :: "invite_env \<Rightarrow> string \<Rightarrow> pyval \<Rightarrow> pyval \<Rightarrow> row comp" where
  "accept_invite env token user_id user_email =
     bindM (get_by_token env token) (\<lambda>found.
     case found of
       None \<Rightarrow> throw (InviteNotFound ''This invitation link is not valid'')
     | Some r \<Rightarrow>
       bindM (gets clock) (\<lambda>now.
       let status = effective_status r now; invited = clean_text (r ''email'') in
       if status = PStr ''accepted'' then
         bindM (if r ''accepted_by_user_id'' = user_id then get_subscription (r ''b2b_subscription_id'') else ret None) (\<lambda>existing.
         case existing of Some s \<Rightarrow> ret s | None \<Rightarrow> throw (InviteNotClaimable ''accepted''))
       else if status = PStr ''revoked'' then throw (InviteNotClaimable ''revoked'')
       else if status = PStr ''expired'' then throw (InviteNotClaimable ''expired'')
       else if invited \<noteq> [] \<and> invited \<noteq> clean_text user_email then throw (InviteEmailMismatch invited)
       else claim_invite r user_id))"

end
