(* ===== verification/Invite_Facts.thy ===== *)
theory Invite_Facts
  imports Invites
begin

text \<open>
  What the invite operations of \<open>Invites\<close> read and change. The first part holds under every
  pattern of statement failures, the second on a healthy connection.
\<close>

section \<open>Reads\<close>

abbreviation invites :: "world \<Rightarrow> row list" where
  "invites w \<equiv> tables w INVITES"

abbreviation invite_rows :: "world \<Rightarrow> pyval \<Rightarrow> row list" where
  "invite_rows w i \<equiv> filter (\<lambda>r. r ''id'' = i) (invites w)"

lemma first_row_take: "first_row (take n rs) = Some r \<Longrightarrow> first_row rs = Some r"
  by (cases rs; cases n) auto

lemma sql_read_inv:
  assumes "sql_read t f w = (Inr x, w')"
  shows "x = f (tables w t) \<and> tables w' = tables w \<and> clock w' = clock w"
  using assms by (auto simp: sql_read_def sql_def world_simps split: list.splits if_splits)

lemma set_order_rows [simp]: "set (order_rows os rs) = set rs"
  by (induction os rs rule: order_rows.induct) (auto simp: Let_def)

lemma set_limits: "set (limits q rs) \<subseteq> set rs"
proof -
  have "set (take n (drop m xs)) \<subseteq> set xs" "set (take n xs) \<subseteq> set xs" "set (drop m xs) \<subseteq> set xs" for n m and xs :: "row list"
    by (meson order_trans set_drop_subset set_take_subset)+
  then show ?thesis
    by (auto simp: limits_def Let_def split: option.split)
      (metis set_order_rows subsetD)+
qed

text \<open>What a select that returned has read, whatever failed elsewhere.\<close>

lemma fetch_select_inv:
  assumes "fetch q w = (Inr rows, w')" and "q_action q = A_select" and "\<not> q_count q" and "\<not> q_single q"
  shows "set rows \<subseteq> project_row (q_columns q) ` set (filter (matches (q_filters q)) (tables w (q_table q)))
    \<and> tables w' = tables w \<and> clock w' = clock w"
proof -
  define read where "read = (\<lambda>cap rs. let rs = limits q (filter (matches (q_filters q)) rs);
      capped = (q_limit q = None \<and> q_offset q = None \<and> \<not> q_single q)
    in map (project_row (q_columns q)) (if capped then take cap rs else rs))"
  have sub: "set (read cap rs) \<subseteq> project_row (q_columns q) ` set (filter (matches (q_filters q)) rs)" for cap rs
  proof -
    have "set (if b then take cap xs else xs) \<subseteq> set xs" for b and xs :: "row list"
      using set_take_subset [of cap xs] by simp
    then show ?thesis
      unfolding read_def Let_def set_map using set_limits [of q "filter (matches (q_filters q)) rs"]
      by (meson image_mono order_trans)
  qed
  obtain res where r: "tq_execute q w = (Inr res, w')" "rows = rows_of res"
    using assms(1) by (auto simp: fetch_def world_simps split: prod.splits sum.splits)
  then have "execute_select q w = (Inr res, w')"
    using assms(2) by (auto simp: tq_execute_def world_simps split: option.splits list.splits)
  then obtain rs where "sql_read (q_table q) (read (max_rows w)) w = (Inr rs, w')" "res = result_rows q rs None"
    using assms(3) by (auto simp: execute_select_def world_simps read_def Let_def split: prod.splits sum.splits)
  then show ?thesis
    using sql_read_inv sub r(2) assms(4) by (fastforce simp: result_rows_def)
qed

lemma first_row_in: "first_row rs = Some r \<Longrightarrow> r \<in> set rs"
  by (cases rs) auto

lemma get_invite_inv:
  assumes "get_invite i w = (Inr found, w')"
  shows "tables w' = tables w \<and> clock w' = clock w \<and> (\<forall>r. found = Some r \<longrightarrow> r \<in> set (invites w) \<and> r ''id'' = i)"
proof -
  obtain rows where f: "fetch (tq_eq ''id'' i (tq_select ''*'' (tq INVITES))) w = (Inr rows, w')" and r: "found = first_row rows"
    using assms by (auto simp: get_invite_def world_simps split: prod.splits sum.splits)
  then show ?thesis
    using fetch_select_inv [OF f] first_row_in [of rows] by (auto simp: builder_defs)
qed

lemma get_by_token_inv:
  assumes "get_by_token env token w = (Inr found, w')"
  shows "tables w' = tables w \<and> clock w' = clock w
    \<and> (\<forall>r. found = Some r \<longrightarrow> r \<in> set (invites w) \<and> r ''token_hash'' = PStr (hash_token env token))"
proof -
  obtain rows where f: "fetch (tq_limit 1 (tq_eq ''token_hash'' (PStr (hash_token env token)) (tq_select ''*'' (tq INVITES)))) w = (Inr rows, w')"
    and r: "found = first_row rows"
    using assms by (auto simp: get_by_token_def world_simps split: prod.splits sum.splits)
  then show ?thesis
    using fetch_select_inv [OF f] first_row_in [of rows] by (auto simp: builder_defs)
qed

section \<open>An accepted invite\<close>

abbreviation settled :: "pyval \<Rightarrow> row \<Rightarrow> world \<Rightarrow> bool" where
  "settled i r \<equiv> tables_inv (\<lambda>ts. filter (\<lambda>x. x ''id'' = i) (ts INVITES) = [r])"

lemma settled_apply: "settled i r w \<longleftrightarrow> invite_rows w i = [r]"
  by (simp add: tables_inv_def)

lemma filter_other_update:
  "j \<noteq> i \<Longrightarrow> \<not> has_key p ''id'' \<Longrightarrow>
    filter (\<lambda>r. r ''id'' = i) (update_rows [F_eq ''id'' j] p rs) = filter (\<lambda>r. r ''id'' = i) rs"
  by (induction rs) (auto simp: has_key_map_of)

lemma keeps_settled_update:
  assumes "j \<noteq> i" and "\<not> has_key p ''id''"
  shows "keeps (settled i r) (tq_execute (tq_eq ''id'' j (tq_update p (tq INVITES))))"
  by (rule keeps_query_update) (use assms in \<open>auto simp: builder_defs filter_other_update\<close>)

lemma keeps_settled_insert:
  assumes "i \<noteq> PNone" and "r ''id'' = i"
  shows "keeps (settled i r) (tq_execute (tq_insert p (tq INVITES)))"
proof (rule keeps_query_insert)
  fix ts c rs sch
  assume t: "schema_of (q_table (tq_insert p (tq INVITES))) = Some sch"
    and s: "filter (\<lambda>x. x ''id'' = i) (ts INVITES) = [r]"
    and ins: "insertable sch (new_row sch c p) (ts (q_table (tq_insert p (tq INVITES))))"
  have "r \<in> set (ts INVITES)" 
  proof -
    have "r \<in> set (filter (\<lambda>x. x ''id'' = i) (ts INVITES))" using s by simp
    then show ?thesis by simp
  qed
  then have "new_row sch c p ''id'' \<noteq> i"
    using ins t assms by (auto simp: insertable_def builder_defs table_defs clash_def list_all_iff)
  then show "filter (\<lambda>x. x ''id'' = i) ((ts(q_table (tq_insert p (tq INVITES)) :=
      ts (q_table (tq_insert p (tq INVITES))) @ [new_row sch c p])) INVITES) = [r]"
    using s by (simp add: builder_defs)
qed (simp_all add: builder_defs)

lemma effective_accepted: "r ''status'' = PStr ''accepted'' \<Longrightarrow> effective_status r now = PStr ''accepted''"
  by (simp add: effective_status_def py_or_def)

lemma keeps_mint_token [intro!]: "keeps (tables_inv P) (mint_token env)"
  by (simp add: mint_token_def keeps_def tables_inv_def Let_def)

lemma keeps_send_invite [intro!]: "keeps (tables_inv P) (send_invite_email env r url)"
  unfolding send_invite_email_def Let_def by auto

lemma keeps_get_invite [intro!]: "keeps (tables_inv P) (get_invite i)"
  unfolding get_invite_def by auto

lemma keeps_get_by_token [intro!]: "keeps (tables_inv P) (get_by_token env token)"
  unfolding get_by_token_def by auto

lemma keeps_pending_for [intro!]: "keeps (tables_inv P) (pending_for email product)"
  unfolding pending_for_def by auto

lemma keeps_get_subscription [intro!]: "keeps (tables_inv P) (get_subscription s)"
  unfolding get_subscription_def by auto

text \<open>The contract goes into another table.\<close>

lemma keeps_contract: "keeps (tables_inv (\<lambda>ts. R (ts INVITES))) (create_manual_subscription_for_user a)"
proof -
  have "keeps (tables_inv (\<lambda>ts. R (ts INVITES))) (tq_execute (tq_insert p (tq ''b2b_subscriptions'')))" for p
    by (rule keeps_other_table) (simp add: builder_defs)
  then show ?thesis
    unfolding create_manual_subscription_for_user_def Let_def b2b_product_def fetch_def by auto
qed

lemma keeps_settled_claim: "r' ''id'' \<noteq> i \<Longrightarrow> keeps (settled i r) (claim_invite r' u)"
  unfolding claim_invite_def run_def
  by (intro keeps_bindM keeps_thenM keeps_ret keeps_gets keeps_contract keeps_settled_update)
    (simp_all add: accepted_cells_def)

text \<open>A read hands on rows of the table and leaves the tables alone.\<close>

lemma settled_after_read:
  assumes "\<And>P. keeps (tables_inv P) m" and "settled i r w"
    and "\<And>a w1. m w = (Inr a, w1) \<Longrightarrow> settled i r w1 \<Longrightarrow> settled i r (snd (f a w1))"
  shows "settled i r (snd (bindM m f w))"
proof (cases "m w")
  case (Pair x w1)
  then have "settled i r w1" using keepsD [OF assms(1) assms(2)] by simp
  then show ?thesis using Pair assms(3) by (cases x) (simp_all add: bindM_def)
qed

lemma settled_row: "settled i r w \<Longrightarrow> x \<in> set (invites w) \<Longrightarrow> x ''id'' = i \<Longrightarrow> x = r"
proof -
  assume s: "settled i r w" and x: "x \<in> set (invites w)" "x ''id'' = i"
  then have "x \<in> set (invite_rows w i)" by simp
  then show "x = r" using s unfolding tables_inv_def by (metis empty_iff empty_set set_ConsD)
qed

lemma found_settled:
  assumes "get_invite j w = (Inr found, w1)" and "settled i r w" and "j = i"
  shows "found = None \<or> found = Some r"
proof (cases found)
  case (Some x)
  then have "x \<in> set (invites w)" "x ''id'' = i" using get_invite_inv [OF assms(1)] assms(3) by auto
  then show ?thesis using settled_row [OF assms(2)] Some by blast
qed simp

lemma settled_issue:
  assumes known: "i \<noteq> PNone" "r ''id'' = i"
  shows "keeps (settled i r) (issue_invite env a)"
proof -
  have [intro!]: "keeps (settled i r) (fetch (tq_insert p (tq INVITES)))" for p
    unfolding fetch_def by (intro keeps_bindM keeps_ret keeps_settled_insert known)
  show ?thesis unfolding issue_invite_def Let_def by auto
qed

lemma settled_resend:
  assumes accepted: "r ''status'' = PStr ''accepted''" and w: "settled i r w"
  shows "settled i r (snd (resend_invite env j w))"
proof -
  have other [intro!]: "keeps (settled i r) (fetch (tq_eq ''id'' j (tq_update (resend_cells x h p n) (tq INVITES))))"
    if "j \<noteq> i" for x h p n
    unfolding fetch_def by (intro keeps_bindM keeps_ret keeps_settled_update that) (simp add: resend_cells_def)
  show ?thesis
    unfolding resend_invite_def
  proof (rule settled_after_read [OF keeps_get_invite w])
    fix found w1
    assume g: "get_invite j w = (Inr found, w1)" and w1: "settled i r w1"
    let ?f = "\<lambda>found. case found of None \<Rightarrow> throw (InviteNotFound ''Invite not found'') | Some x \<Rightarrow>
       bindM (gets clock) (\<lambda>now.
       let status = effective_status x now in
       if status \<in> {PStr ''accepted'', PStr ''revoked''} then throw (InviteNotClaimable (text_of status))
       else
        bindM (mint_token env) (\<lambda>(raw, token_hash, prefix).
        let updates = resend_cells x token_hash prefix now in
        bindM (fetch (tq_eq ''id'' j (tq_update updates (tq INVITES)))) (\<lambda>rows.
        let stored = (case rows of s # _ \<Rightarrow> s | [] \<Rightarrow> set_cells updates x); url = accept_url env raw in
        thenM (send_invite_email env stored url)
        (ret (to_api stored now, url)))))"
    have away: "keeps (settled i r) (?f found)" if "j \<noteq> i"
      using that unfolding Let_def by auto
    have same: "snd (?f found w1) = w1" if "j = i"
      using found_settled [OF g w that] by (elim disjE) (simp_all add: world_simps effective_accepted accepted)
    show "settled i r (snd (?f found w1))"
    proof (cases "j = i")
      case True
      show ?thesis unfolding same [OF True] by (rule w1)
    next
      case False
      show ?thesis by (rule keepsD [OF away [OF False] w1])
    qed
  qed
qed

lemma settled_revoke:
  assumes accepted: "r ''status'' = PStr ''accepted''" and w: "settled i r w"
  shows "settled i r (snd (revoke_invite j w))"
proof -
  let ?updates = "\<lambda>now. [(''status'', PStr ''revoked''), (''revoked_at'', PTime now), (''updated_at'', PTime now)]"
  let ?f = "\<lambda>found. case found of None \<Rightarrow> throw (InviteNotFound ''Invite not found'') | Some x \<Rightarrow>
       bindM (gets clock) (\<lambda>now.
       if effective_status x now = PStr ''accepted'' then throw (InviteNotClaimable ''accepted'')
       else thenM (run (tq_eq ''id'' j (tq_update (?updates now) (tq INVITES)))) (ret (to_api (set_cells (?updates now) x) now)))"
  have other [intro!]: "keeps (settled i r) (run (tq_eq ''id'' j (tq_update (?updates n) (tq INVITES))))" if "j \<noteq> i" for n
    unfolding run_def by (intro keeps_bindM keeps_ret keeps_settled_update that) simp
  show ?thesis
    unfolding revoke_invite_def Let_def
  proof (rule settled_after_read [OF keeps_get_invite w])
    fix found w1
    assume g: "get_invite j w = (Inr found, w1)" and w1: "settled i r w1"
    have away: "keeps (settled i r) (?f found)" if "j \<noteq> i" using that by auto
    have same: "snd (?f found w1) = w1" if "j = i"
      using found_settled [OF g w that] by (elim disjE) (simp_all add: world_simps effective_accepted accepted)
    show "settled i r (snd (?f found w1))"
    proof (cases "j = i")
      case True
      show ?thesis unfolding same [OF True] by (rule w1)
    next
      case False
      show ?thesis by (rule keepsD [OF away [OF False] w1])
    qed
  qed
qed

lemma settled_accept:
  assumes accepted: "r ''status'' = PStr ''accepted''" and w: "settled i r w"
  shows "settled i r (snd (accept_invite env token u email w))"
  unfolding accept_invite_def
proof (rule settled_after_read [OF keeps_get_by_token w])
  fix found w1
  assume g: "get_by_token env token w = (Inr found, w1)" and w1: "settled i r w1"
  let ?f = "\<lambda>found. case found of None \<Rightarrow> throw (InviteNotFound ''This invitation link is not valid'') | Some x \<Rightarrow>
       bindM (gets clock) (\<lambda>now.
       let status = effective_status x now; invited = clean_text (x ''email'') in
       if status = PStr ''accepted'' then
         bindM (if x ''accepted_by_user_id'' = u then get_subscription (x ''b2b_subscription_id'') else ret None) (\<lambda>existing.
         case existing of Some s \<Rightarrow> ret s | None \<Rightarrow> throw (InviteNotClaimable ''accepted''))
       else if status = PStr ''revoked'' then throw (InviteNotClaimable ''revoked'')
       else if status = PStr ''expired'' then throw (InviteNotClaimable ''expired'')
       else if invited \<noteq> [] \<and> invited \<noteq> clean_text email then throw (InviteEmailMismatch invited)
       else claim_invite x u)"
  have "keeps (settled i r) (?f found)"
  proof (cases found)
    case None
    then show ?thesis by auto
  next
    case (Some x)
    have claim: "keeps (settled i r) (claim_invite x v)" if "effective_status x n \<noteq> PStr ''accepted''" for n v
    proof (rule keeps_settled_claim)
      have x: "x \<in> set (invites w)" using get_by_token_inv [OF g] Some by blast
      have "x \<noteq> r" using that effective_accepted [of r n, OF accepted] by auto
      then show "x ''id'' \<noteq> i" using settled_row [OF w x] by blast
    qed
    show ?thesis unfolding Some option.case Let_def by (auto intro: claim)
  qed
  then show "settled i r (snd (?f found w1))" using w1 by (rule keepsD)
qed

section \<open>Runs of requests\<close>

datatype invite_request =
    Issue issue_request
  | Resend pyval
  | Revoke pyval
  | Accept string pyval pyval

fun handle_request :: "invite_env \<Rightarrow> invite_request \<Rightarrow> world \<Rightarrow> world" where
  "handle_request env (Issue a) w = snd (issue_invite env a w)"
| "handle_request env (Resend i) w = snd (resend_invite env i w)"
| "handle_request env (Revoke i) w = snd (revoke_invite i w)"
| "handle_request env (Accept token u email) w = snd (accept_invite env token u email w)"

text \<open>Requests come at later and later times; each succeeds or fails as it may.\<close>

fun handle_requests :: "invite_env \<Rightarrow> (nat \<times> invite_request) list \<Rightarrow> world \<Rightarrow> world" where
  "handle_requests env [] w = w"
| "handle_requests env ((dt, q) # qs) w =
     handle_requests env qs (handle_request env q (w\<lparr>clock := clock w + int dt\<rparr>))"

lemma settled_request:
  assumes "i \<noteq> PNone" and "r ''id'' = i" and "r ''status'' = PStr ''accepted''" and "settled i r w"
  shows "settled i r (handle_request env q w)"
  using keepsD [OF settled_issue [of i r, OF assms(1,2)] assms(4)] settled_resend [of r i w, OF assms(3,4)]
    settled_revoke [of r i w, OF assms(3,4)] settled_accept [of r i w, OF assms(3,4)]
  by (cases q) simp_all

lemma settled_requests:
  assumes "i \<noteq> PNone" and "r ''id'' = i" and "r ''status'' = PStr ''accepted''" and "settled i r w"
  shows "settled i r (handle_requests env qs w)"
  using assms(4)
proof (induction qs arbitrary: w rule: list.induct)
  case (Cons q qs)
  have "settled i r (w\<lparr>clock := clock w + int (fst q)\<rparr>)" using Cons.prems by (simp add: tables_inv_def)
  then show ?case
    using Cons.IH settled_request [of i r, OF assms(1-3)] by (cases q) simp
qed simp

section \<open>An invite is consumed only with its contract\<close>

lemma known_columns_inv: "known_columns sch p w = (Inr x, w') \<Longrightarrow> w' = w"
  by (auto simp: known_columns_def world_simps split: list.splits)

lemma sql_store_inv:
  assumes "sql_store sch t [p] w = (Inr x, w')"
  shows "tables w' = (tables w)(t := tables w t @ [new_row sch (clock w) p]) \<and> clock w' = clock w"
  using assms by (auto simp: sql_store_def sql_def set_table_def split: list.splits if_splits option.splits)

text \<open>An insert that returned has stored its row, and returns rows with the same key only.\<close>

lemma insert_inv:
  assumes "fetch (tq_insert p (tq t)) w = (Inr rows, w')" and "schema_of t = Some sch" and "python_defaults sch = []"
    and "has_key p ''id''"
  shows "tables w' = (tables w)(t := tables w t @ [new_row sch (clock w) p])
    \<and> (\<forall>r \<in> set rows. r ''id'' = lookup p ''id'')"
proof -
  have p: "p \<noteq> []" using assms(4) by auto
  obtain res where r: "tq_execute (tq_insert p (tq t)) w = (Inr res, w')" "rows = rows_of res"
    using assms(1) by (auto simp: fetch_def world_simps split: prod.splits sum.splits)
  then have "execute_insert sch (tq_insert p (tq t)) w = (Inr res, w')"
    using assms(2) by (simp add: tq_execute_def query_keys_def builder_defs)
  then obtain w1 w2 where k: "known_columns sch p w = (Inr (), w1)" and st: "sql_store sch t [p] w1 = (Inr (), w2)"
    and re: "reload_after_write (tq_insert p (tq t)) p w2 = (Inr res, w')"
    using p assms(3)
    by (auto simp: execute_insert_def builder_defs thenM_def world_simps split: if_splits prod.splits sum.splits)
  obtain rs where rd: "sql_read t (\<lambda>rs. map (project_row []) (filter (\<lambda>r. r ''id'' = lookup p ''id'') rs)) w2 = (Inr rs, w')"
    and res: "res = result_rows (tq_insert p (tq t)) rs None"
    using re assms(4) by (auto simp: reload_after_write_def builder_defs world_simps split: prod.splits sum.splits)
  have "rows = rs" by (simp add: r(2) res result_rows_def builder_defs)
  moreover have "rs = filter (\<lambda>r. r ''id'' = lookup p ''id'') (tables w2 t)" "tables w' = tables w2"
    using sql_read_inv [OF rd] by simp_all
  moreover have "tables w2 = (tables w)(t := tables w t @ [new_row sch (clock w) p])"
    using sql_store_inv [OF st] known_columns_inv [OF k] by simp
  ultimately show ?thesis by simp
qed

abbreviation contracts :: "world \<Rightarrow> row list" where
  "contracts w \<equiv> tables w ''b2b_subscriptions''"

lemma contract_stored:
  assumes "create_manual_subscription_for_user a w = (Inr s, w')"
  shows "\<exists>x \<in> set (contracts w'). x ''id'' = s ''id''"
proof -
  obtain p rows w1 where f: "fetch (tq_insert p (tq ''b2b_subscriptions'')) w1 = (Inr rows, w')" "s = first_or p rows"
    and i: "has_key p ''id''"
    using assms
    by (auto simp: create_manual_subscription_for_user_def b2b_product_def world_simps Let_def
        split: prod.splits sum.splits option.splits)
  let ?row = "new_row B2BSubscription_table (clock w1) p"
  have t: "tables w' = (tables w1)(''b2b_subscriptions'' := contracts w1 @ [?row])"
    and r: "\<forall>r \<in> set rows. r ''id'' = lookup p ''id''"
    using insert_inv [OF f(1)] i by (simp_all add: B2BSubscription_table_def)
  have "?row ''id'' = lookup p ''id''"
    using i by (auto simp: new_row_def B2BSubscription_table_def lookup_def has_key_map_of)
  also have "lookup p ''id'' = s ''id''"
    using r f(2) by (cases rows) simp_all
  finally show ?thesis unfolding t by (intro bexI [of _ ?row]) simp_all
qed

definition backed :: "row list \<Rightarrow> (string \<Rightarrow> row list) \<Rightarrow> bool" where
  "backed old ts \<longleftrightarrow> (\<forall>r \<in> set (ts INVITES). r \<in> set old \<or>
     r ''status'' = PStr ''accepted'' \<and> (\<exists>x \<in> set (ts ''b2b_subscriptions''). x ''id'' = r ''b2b_subscription_id''))"

lemma keeps_backed_update:
  assumes "\<exists>x \<in> set bs. x ''id'' = s"
  shows "keeps (tables_inv (\<lambda>ts. backed old ts \<and> ts ''b2b_subscriptions'' = bs))
    (run (tq_eq ''id'' i (tq_update (accepted_cells u s n) (tq INVITES))))"
  unfolding run_def
proof (intro keeps_bindM keeps_ret keeps_query_update)
  fix ts p
  assume "q_payload (tq_eq ''id'' i (tq_update (accepted_cells u s n) (tq INVITES))) = One p"
  then have p: "p = accepted_cells u s n" by (simp add: builder_defs)
  assume "backed old ts \<and> ts ''b2b_subscriptions'' = bs"
  then show "backed old (ts(q_table (tq_eq ''id'' i (tq_update (accepted_cells u s n) (tq INVITES))) :=
      update_rows (q_filters (tq_eq ''id'' i (tq_update (accepted_cells u s n) (tq INVITES)))) p
        (ts (q_table (tq_eq ''id'' i (tq_update (accepted_cells u s n) (tq INVITES)))))))
    \<and> (ts(q_table (tq_eq ''id'' i (tq_update (accepted_cells u s n) (tq INVITES))) :=
      update_rows (q_filters (tq_eq ''id'' i (tq_update (accepted_cells u s n) (tq INVITES)))) p
        (ts (q_table (tq_eq ''id'' i (tq_update (accepted_cells u s n) (tq INVITES))))))) ''b2b_subscriptions'' = bs"
    using assms unfolding p by (auto simp: builder_defs backed_def set_update_rows accepted_cells_def)
qed (simp add: builder_defs)

lemma claim_backed:
  "backed (invites w) (tables (snd (claim_invite r u w)))"
proof (cases "create_manual_subscription_for_user (contract_of r u) w")
  case (Pair x w1)
  have same: "invites w1 = invites w"
    using keepsD [OF keeps_contract [of "\<lambda>x. x = invites w"], of w "contract_of r u"] Pair by (simp add: tables_inv_def)
  show ?thesis
  proof (cases x)
    case (Inl e)
    then show ?thesis using Pair same by (simp add: claim_invite_def world_simps backed_def)
  next
    case (Inr s)
    have stored: "\<exists>x \<in> set (contracts w1). x ''id'' = s ''id''" using contract_stored Pair Inr by blast
    have w1: "backed (invites w) (tables w1) \<and> contracts w1 = contracts w1" using same by (simp add: backed_def)
    have "snd (claim_invite r u w) = snd (run (tq_eq ''id'' (r ''id'') (tq_update
        (accepted_cells u (s ''id'') (clock w1)) (tq INVITES))) w1)"
      using Pair Inr by (simp add: claim_invite_def world_simps split: prod.split sum.split)
    then show ?thesis
      using keepsD [OF keeps_backed_update [OF stored, of "invites w" "r ''id''" u "clock w1"], of w1] w1
      by (simp add: tables_inv_def)
  qed
qed

lemma accept_backed: "backed (invites w) (tables (snd (accept_invite env token u email w)))"
proof (cases "get_by_token env token w")
  case (Pair x w1)
  have t: "tables w1 = tables w"
    using keepsD [OF keeps_get_by_token [of "\<lambda>ts. ts = tables w"], of w env token] Pair by (simp add: tables_inv_def)
  have b: "backed (invites w) (tables w1)" by (simp add: t backed_def)
  have sub: "tables (snd (get_subscription s w1)) = tables w1" for s
    using keepsD [OF keeps_get_subscription [of "\<lambda>ts. ts = tables w1"], of w1 s] by (simp add: tables_inv_def)
  have c: "backed (invites w) (tables (snd (claim_invite r v w1)))" for r v
    using claim_backed [of w1 r v] t by simp
  show ?thesis
    using Pair b c sub
    by (auto simp: accept_invite_def world_simps Let_def split: sum.split option.split prod.split)
      (metis snd_conv)+
qed

section \<open>On a healthy connection\<close>

abbreviation token_rows :: "invite_env \<Rightarrow> string \<Rightarrow> world \<Rightarrow> row list" where
  "token_rows env token w \<equiv> rows_with w INVITES ''token_hash'' (PStr (hash_token env token))"

lemma get_by_token_healthy:
  "healthy w \<Longrightarrow> get_by_token env token w = (Inr (first_row (token_rows env token w)), w)"
  by (simp add: get_by_token_def fetch_select_eq table_defs world_simps first_row_def take_Suc split: list.split)

lemma get_subscription_healthy:
  "healthy w \<Longrightarrow> get_subscription s w = (Inr (first_row (rows_with w ''b2b_subscriptions'' ''id'' s)), w)"
  by (simp add: get_subscription_def fetch_select_eq table_defs world_simps first_row_def take_Suc split: list.split)

lemma keeps_healthy_contract: "keeps healthy (create_manual_subscription_for_user a)"
  unfolding create_manual_subscription_for_user_def Let_def b2b_product_def
  by (auto intro!: healthy_frame.frame_fetch)

lemma keeps_clock_contract: "keeps (\<lambda>w. clock w = n) (create_manual_subscription_for_user a)"
  unfolding create_manual_subscription_for_user_def Let_def b2b_product_def
  by (auto intro!: clock_frame.frame_fetch)

lemma filter_by_update:
  assumes "\<not> has_key p c"
  shows "filter (\<lambda>r. r c = v) (update_rows fs p rs) = map (\<lambda>r. if matches fs r then set_cells p r else r) (filter (\<lambda>r. r c = v) rs)"
  using assms by (induction rs) (auto simp: has_key_map_of)

lemma run_accepted:
  assumes "healthy w"
  shows "run (update_eq INVITES ''id'' i (accepted_cells u s n)) w
    = (Inr (), set_table INVITES (update_rows [F_eq ''id'' i] (accepted_cells u s n) (invites w)) w)"
  using assms by (intro run_update_eq) (auto simp: table_defs updatable_def not_null_def accepted_cells_def)

lemma accept_effect:
  assumes "healthy w" and "token_rows env token w = [r]" and "effective_status r (clock w) = PStr ''pending''"
    and "accept_invite env token u email w = (Inr s, w1)"
  shows "healthy w1 \<and> clock w1 = clock w
    \<and> token_rows env token w1 = [set_cells (accepted_cells u (s ''id'') (clock w)) r]
    \<and> (\<exists>x \<in> set (contracts w1). x ''id'' = s ''id'')
    \<and> invites w1 = update_rows [F_eq ''id'' (r ''id'')] (accepted_cells u (s ''id'') (clock w)) (invites w)"
proof -
  have claim: "claim_invite r u w = (Inr s, w1)"
    using assms by (auto simp: accept_invite_def get_by_token_healthy world_simps Let_def split: if_splits)
  then obtain wa where c: "create_manual_subscription_for_user (contract_of r u) w = (Inr s, wa)"
    and up: "run (update_eq INVITES ''id'' (r ''id'') (accepted_cells u (s ''id'') (clock wa))) wa = (Inr (), w1)"
    by (auto simp: claim_invite_def world_simps split: prod.splits sum.splits)
  have wa: "healthy wa" "clock wa = clock w" "invites wa = invites w"
    using keepsD [OF keeps_healthy_contract assms(1), of "contract_of r u"]
      keepsD [OF keeps_clock_contract [of "clock w"], of w "contract_of r u"]
      keepsD [OF keeps_contract [of "\<lambda>x. x = invites w"], of w "contract_of r u"] c by (simp_all add: tables_inv_def)
  have w1: "w1 = set_table INVITES (update_rows [F_eq ''id'' (r ''id'')] (accepted_cells u (s ''id'') (clock w)) (invites w)) wa"
    using up run_accepted [OF wa(1)] wa by simp
  have "\<not> has_key (accepted_cells u (s ''id'') (clock w)) ''token_hash''" by (simp add: accepted_cells_def)
  then have "token_rows env token w1 = [set_cells (accepted_cells u (s ''id'') (clock w)) r]"
    using assms(2) by (simp add: w1 filter_by_update)
  then show ?thesis using wa contract_stored [OF c] by (simp add: w1 set_table_def)
qed

lemma accepted_again:
  assumes "healthy w" and "token_rows env token w = [r]" and "r ''status'' = PStr ''accepted''"
  shows "accept_invite env token v email w =
    (case if r ''accepted_by_user_id'' = v then first_row (rows_with w ''b2b_subscriptions'' ''id'' (r ''b2b_subscription_id'')) else None of
       Some x \<Rightarrow> (Inr x, w) | None \<Rightarrow> (Inl (InviteNotClaimable ''accepted''), w))"
  using assms
  by (simp add: accept_invite_def get_by_token_healthy get_subscription_healthy world_simps effective_status_def py_or_def
      Let_def split: option.split)

text \<open>Resending replaces the token.\<close>

lemma no_clash_replace:
  assumes "no_clash [c] rs" and "\<forall>x \<in> set rs. x c \<noteq> v" and "length (filter (\<lambda>x. x k = i) rs) \<le> 1" and "map_of p c = Some v"
  shows "no_clash [c] (update_rows [F_eq k i] p rs)"
  using assms(1-3)
proof (induction rs)
  case (Cons y ys)
  show ?case
  proof (cases "y k = i")
    case True
    then have none: "filter (matches [F_eq k i]) ys = []" using Cons.prems(3) by simp
    have "list_all (\<lambda>r'. \<not> clash [c] (set_cells p y) r') ys"
      using Cons.prems(2) assms(4) by (auto simp: clash_def list_all_iff)
    then show ?thesis using True Cons.prems(1) by (simp add: update_rows_none [OF none])
  next
    case False
    have "\<not> clash [c] y x" if x: "x \<in> set (update_rows [F_eq k i] p ys)" for x
    proof -
      obtain z where z: "z \<in> set ys" "x = (if z k = i then set_cells p z else z)"
        using x by (auto simp: update_rows_def)
      then show ?thesis using Cons.prems(1,2) assms(4) by (auto simp: clash_def list_all_iff)
    qed
    then show ?thesis using False Cons by (simp add: list_all_iff)
  qed
qed simp

lemma run_resend:
  assumes "healthy w" and "\<forall>x \<in> set (invites w). x ''token_hash'' \<noteq> PStr h" and "invite_rows w i = [r]"
    and "no_clash [''token_hash''] (invites w)"
  shows "\<exists>rs. fetch (update_eq INVITES ''id'' i (resend_cells x h p n)) w
    = (Inr rs, set_table INVITES (update_rows [F_eq ''id'' i] (resend_cells x h p n) (invites w)) w)"
proof -
  have "no_clash [''token_hash''] (update_rows [F_eq ''id'' i] (resend_cells x h p n) (invites w))"
    by (rule no_clash_replace [OF assms(4,2)]) (simp_all add: assms(3) resend_cells_def)
  then have "fetch (update_eq INVITES ''id'' i (resend_cells x h p n)) w
    = (Inr (map (set_cells (resend_cells x h p n)) (invite_rows w i)),
       set_table INVITES (update_rows [F_eq ''id'' i] (resend_cells x h p n) (invites w)) w)"
    by (intro fetch_update_eq [where sch = B2BContractInvite_table])
      (use assms(1) in \<open>auto simp: B2BContractInvite_table_def updatable_def not_null_def resend_cells_def\<close>)
  then show ?thesis by blast
qed

lemma get_invite_healthy:
  "healthy w \<Longrightarrow> invite_rows w i = [r] \<Longrightarrow> 0 < max_rows w \<Longrightarrow> get_invite i w = (Inr (Some r), w)"
  by (simp add: get_invite_def query_eval table_defs world_simps healthy_def sql_def take_Cons')

lemma send_invite_returns: "\<exists>w'. send_invite_email env r url w = (Inr (), w')"
  by (simp add: send_invite_email_def world_simps Let_def split: prod.split sum.split)

lemma keeps_invite_mail: "keeps healthy (send_invite_email env r url)" "keeps (\<lambda>w. clock w = n) (send_invite_email env r url)"
  unfolding send_invite_email_def Let_def
  by (auto intro!: healthy_frame.frame_email_send clock_frame.frame_email_send)

lemma resend_rotates:
  assumes "healthy w" and "0 < max_rows w" and "invite_rows w i = [r]" and "token_rows env old w = [r]"
    and "no_clash [''token_hash''] (invites w)"
    and "effective_status r (clock w) \<notin> {PStr ''accepted'', PStr ''revoked''}"
    and "new = token_source env (uuids_used w)" and "\<forall>x \<in> set (invites w). x ''token_hash'' \<noteq> PStr (hash_token env new)"
  shows "\<exists>res w'. resend_invite env i w = (Inr res, w') \<and> healthy w' \<and> clock w' = clock w \<and> token_rows env old w' = []
    \<and> (\<exists>r'. token_rows env new w' = [r'] \<and> r' ''id'' = i \<and> effective_status r' (clock w') = PStr ''pending'')"
proof -
  let ?h = "hash_token env new"
  let ?p = "resend_cells r ?h (take TOKEN_PREFIX_CHARS new) (clock w)"
  let ?w1 = "w\<lparr>uuids_used := Suc (uuids_used w)\<rparr>"
  define w2 where "w2 = set_table INVITES (update_rows [F_eq ''id'' i] ?p (invites w)) ?w1"
  obtain rs where up: "fetch (update_eq INVITES ''id'' i ?p) ?w1 = (Inr rs, w2)"
    using run_resend [of ?w1 ?h i r r "take TOKEN_PREFIX_CHARS new" "clock w"] assms(1,3,5,8) by (auto simp: w2_def)
  define stored where "stored = (case rs of s # _ \<Rightarrow> s | [] \<Rightarrow> set_cells ?p r)"
  obtain w' where m: "send_invite_email env stored (accept_url env new) w2 = (Inr (), w')"
    using send_invite_returns by blast
  have w2: "healthy w2" "clock w2 = clock w" using assms(1) by (simp_all add: w2_def set_table_def)
  have w': "tables w' = tables w2" "healthy w'" "clock w' = clock w"
    using keepsD [OF keeps_send_invite [of "\<lambda>ts. ts = tables w2"], of w2 env stored "accept_url env new"]
      keepsD [OF keeps_invite_mail(1) w2(1)] keepsD [OF keeps_invite_mail(2) w2(2)] m
    by (simp_all add: tables_inv_def) (metis snd_conv)+
  have run: "resend_invite env i w = (Inr (to_api stored (clock w), accept_url env new), w')"
    using get_invite_healthy [OF assms(1,3,2)] assms(6) up m
    by (simp add: resend_invite_def world_simps Let_def mint_token_def assms(7) [symmetric] stored_def)
  have r: "r \<in> set (invites w)" "r ''id'' = i" "r ''token_hash'' = PStr (hash_token env old)"
    using arg_cong [OF assms(3), of set] arg_cong [OF assms(4), of set] by auto
  have only: "x = r" if "x \<in> set (invites w)" "x ''id'' = i \<or> x ''token_hash'' = PStr (hash_token env old)" for x
    using that arg_cong [OF assms(3), of set] arg_cong [OF assms(4), of set] by auto
  have old_only: "x ''id'' = i" if "x \<in> set (invites w)" "x ''token_hash'' = PStr (hash_token env old)" for x
    using only that r(2) by blast
  have ne: "PStr ?h \<noteq> PStr (hash_token env old)" using assms(8) r by metis
  have "token_rows env old w' = []"
    using old_only ne by (auto simp: w'(1) w2_def set_table_def filter_empty_conv set_update_rows resend_cells_def r(2) split: if_splits)
  moreover have "token_rows env new w' = [set_cells ?p r]"
  proof -
    have "filter (\<lambda>x. x ''token_hash'' = PStr ?h) (update_rows [F_eq ''id'' i] ?p rows) = map (set_cells ?p) (filter (\<lambda>x. x ''id'' = i) rows)"
      if "\<forall>x \<in> set rows. x ''token_hash'' \<noteq> PStr ?h" for rows
      using that by (induction rows) (auto simp: resend_cells_def)
    then show ?thesis using assms(3,8) by (simp add: w'(1) w2_def set_table_def)
  qed
  moreover have "effective_status (set_cells ?p r) (clock w') = PStr ''pending''"
    by (simp add: effective_status_def resend_cells_def py_or_def as_datetime_def w'(3) days_us_def day_us_def DEFAULT_EXPIRY_DAYS_def)
  moreover have "set_cells ?p r ''id'' = i" using r(2) by (simp add: resend_cells_def)
  ultimately show ?thesis using run w'(2,3) by blast
qed

end
