(* ===== verification/Invite_Runs.thy ===== *)
theory Invite_Runs
  imports Invite_Facts
begin

text \<open>
  Runs of invite requests on a healthy connection: what every request keeps, and what a link that was
  claimed answers after any run.
\<close>

section \<open>The unique key of the token\<close>

lemma keeps_checked_update:
  assumes "q_action q = A_update"
    and "\<And>ts p sch. schema_of (q_table q) = Some sch \<Longrightarrow> P ts \<Longrightarrow> updatable sch (q_filters q) p (ts (q_table q))
      \<Longrightarrow> P (ts(q_table q := update_rows (q_filters q) p (ts (q_table q))))"
  shows "keeps (tables_inv P) (tq_execute q)"
proof -
  have up: "keeps (tables_inv P) (sql_update sch (q_table q) (q_filters q) p)" if s: "schema_of (q_table q) = Some sch" for sch p
    unfolding sql_update_def
    by (rule keeps_sql) (auto simp: keeps_def tables_inv_def set_table_def intro: assms(2) [OF s])
  have "keeps (tables_inv P) (execute_update sch q)" if "schema_of (q_table q) = Some sch" for sch
    unfolding execute_update_def by (cases "q_payload q") (auto intro!: up [OF that])
  then show ?thesis
    unfolding tq_execute_def using assms(1) by (auto split: option.splits list.splits)
qed

lemma no_clash_append: "no_clash u (rs @ [x]) \<longleftrightarrow> no_clash u rs \<and> list_all (\<lambda>r. \<not> clash u r x) rs"
  by (induction rs) auto

lemma no_clash_same_column:
  assumes "\<And>r. (f r) c = r c"
  shows "no_clash [c] (map f rs) = no_clash [c] rs"
  by (induction rs) (simp_all add: clash_def assms list.pred_map comp_def)

lemma updated_column: "\<not> has_key p c \<Longrightarrow> no_clash [c] (update_rows fs p rs) = no_clash [c] rs"
  unfolding update_rows_def by (rule no_clash_same_column) (simp add: has_key_map_of)

lemma no_clash_single:
  assumes "no_clash [c] rs" and "filter (\<lambda>x. x k = i) rs = [r]" and "r c = v" and "v \<noteq> PNone"
  shows "filter (\<lambda>x. x c = v) rs = [r]"
proof -
  have "r \<in> set (filter (\<lambda>x. x k = i) rs)" using assms(2) by simp
  then have "r \<in> set rs" by simp
  then have "\<exists>x. filter (\<lambda>x. x c = v) rs = [x] \<and> x = r"
    using assms(1,3,4)
  proof (induction rs)
    case (Cons y ys)
    show ?case
    proof (cases "y c = v")
      case True
      then have none: "filter (\<lambda>x. x c = v) ys = []"
        using Cons.prems by (auto simp: clash_def list_all_iff filter_empty_conv)
      then have "r \<notin> set ys" using Cons.prems(3) by (auto simp: filter_empty_conv)
      then show ?thesis using Cons.prems(1) none True by simp
    next
      case False
      then have "r \<in> set ys" using Cons.prems(1,3) by auto
      then show ?thesis using Cons.IH Cons.prems False by simp
    qed
  qed simp
  then show ?thesis by simp
qed

section \<open>What every request keeps\<close>

context effect_frame
begin

lemma frame_requests:
  assumes "\<And>p. allowed (tq_insert p (tq INVITES))" and "\<And>i p. allowed (update_eq INVITES ''id'' i p)"
    and "\<And>p. allowed (tq_insert p (tq ''b2b_subscriptions''))" and "keeps I (mint_token env)"
  shows "keeps I (issue_invite env a)" "keeps I (resend_invite env i)" "keeps I (revoke_invite i)"
    "keeps I (accept_invite env token u email)"
proof -
  have mail [intro!]: "keeps I (send_invite_email env r url)" for r url
    unfolding send_invite_email_def Let_def by auto
  have reads [intro!]: "keeps I (get_invite j)" "keeps I (get_by_token env t)" "keeps I (get_subscription s)" "keeps I (pending_for e p)"
    for j t s e p
    unfolding get_invite_def get_by_token_def get_subscription_def pending_for_def
    by (auto intro!: frame_fetch frame_select simp: builder_defs)
  have writes [intro!]: "keeps I (fetch (tq_insert p (tq INVITES)))" "keeps I (fetch (update_eq INVITES ''id'' j p))"
    "keeps I (run (update_eq INVITES ''id'' j p))" "keeps I (fetch (tq_insert p (tq ''b2b_subscriptions'')))" for j p
    using assms by auto
  note [intro!] = assms(4)
  have contract [intro!]: "keeps I (create_manual_subscription_for_user m)" for m
    unfolding create_manual_subscription_for_user_def Let_def b2b_product_def by auto
  have claim [intro!]: "keeps I (claim_invite r v)" for r v
    unfolding claim_invite_def by auto
  show "keeps I (issue_invite env a)" unfolding issue_invite_def Let_def by auto
  show "keeps I (resend_invite env i)" unfolding resend_invite_def Let_def by auto
  show "keeps I (revoke_invite i)" unfolding revoke_invite_def Let_def by auto
  show "keeps I (accept_invite env token u email)" unfolding accept_invite_def Let_def by auto
qed

end

lemma keeps_requests:
  assumes "\<And>a. keeps I (issue_invite env a)" "\<And>i. keeps I (resend_invite env i)" "\<And>i. keeps I (revoke_invite i)"
    "\<And>token u email. keeps I (accept_invite env token u email)"
    and "\<And>w n. I w \<Longrightarrow> I (w\<lparr>clock := n\<rparr>)" and "I w"
  shows "I (handle_requests env qs w)"
  using assms(6)
proof (induction qs arbitrary: w rule: list.induct)
  case (Cons q qs)
  obtain dt rq where q: "q = (dt, rq)" by (cases q)
  let ?w = "w\<lparr>clock := clock w + int dt\<rparr>"
  have "I ?w" using assms(5) Cons.prems by blast
  then have "I (handle_request env rq ?w)" by (cases rq) (simp_all add: keepsD [OF assms(1)] keepsD [OF assms(2)] keepsD [OF assms(3)] keepsD [OF assms(4)])
  then show ?case using Cons.IH by (simp add: q)
qed simp

abbreviation unique_tokens :: "world \<Rightarrow> bool" where
  "unique_tokens \<equiv> tables_inv (\<lambda>ts. no_clash [''token_hash''] (ts INVITES))"

abbreviation has_contract :: "pyval \<Rightarrow> world \<Rightarrow> bool" where
  "has_contract s \<equiv> tables_inv (\<lambda>ts. \<exists>x \<in> set (ts ''b2b_subscriptions''). x ''id'' = s)"

interpretation token_frame: effect_frame unique_tokens
  "\<lambda>q. q_action q = A_select \<or> q_table q \<noteq> INVITES \<or> q_action q = A_update \<or> (\<exists>p. q = tq_insert p (tq INVITES))"
proof -
  have insert: "keeps unique_tokens (tq_execute (tq_insert p (tq INVITES)))" for p
    by (rule keeps_query_insert)
       (auto simp: builder_defs table_defs insertable_def no_clash_append list_all_iff)
  have update: "keeps unique_tokens (tq_execute q)" if "q_action q = A_update" "q_table q = INVITES" for q
    by (rule keeps_checked_update [OF that(1)])
       (use that(2) in \<open>auto simp: table_defs updatable_def updated_column\<close>)
  have "keeps unique_tokens (tq_execute q)"
    if "q_action q = A_select \<or> q_table q \<noteq> INVITES \<or> q_action q = A_update \<or> (\<exists>p. q = tq_insert p (tq INVITES))" for q
  proof (cases "q_table q = INVITES")
    case True
    with that consider "q_action q = A_select" | "q_action q = A_update" | p where "q = tq_insert p (tq INVITES)" by blast
    then show ?thesis using update True insert by cases (auto intro: keeps_query_select)
  qed (rule keeps_other_table)
  then show "effect_frame unique_tokens
      (\<lambda>q. q_action q = A_select \<or> q_table q \<noteq> INVITES \<or> q_action q = A_update \<or> (\<exists>p. q = tq_insert p (tq INVITES)))"
    by unfold_locales auto
qed

interpretation contract_frame: effect_frame "has_contract s"
  "\<lambda>q. q_action q = A_select \<or> q_table q \<noteq> ''b2b_subscriptions'' \<or> (\<exists>p. q = tq_insert p (tq ''b2b_subscriptions''))" for s
proof -
  have insert: "keeps (has_contract s) (tq_execute (tq_insert p (tq ''b2b_subscriptions'')))" for p s
    by (rule keeps_query_insert) (auto simp: builder_defs)
  have "keeps (has_contract s) (tq_execute q)"
    if "q_action q = A_select \<or> q_table q \<noteq> ''b2b_subscriptions'' \<or> (\<exists>p. q = tq_insert p (tq ''b2b_subscriptions''))" for q s
  proof (cases "q_table q = ''b2b_subscriptions''")
    case True
    with that consider "q_action q = A_select" | p where "q = tq_insert p (tq ''b2b_subscriptions'')" by blast
    then show ?thesis using insert by cases (auto intro: keeps_query_select)
  qed (rule keeps_other_table)
  then show "effect_frame (has_contract s)
      (\<lambda>q. q_action q = A_select \<or> q_table q \<noteq> ''b2b_subscriptions'' \<or> (\<exists>p. q = tq_insert p (tq ''b2b_subscriptions'')))" for s
    by unfold_locales auto
qed

lemma mint_keeps [simp]: "keeps healthy (mint_token env)" "keeps unique_tokens (mint_token env)" "keeps (has_contract s) (mint_token env)"
  by (simp_all add: mint_token_def keeps_def Let_def tables_inv_def)

lemma healthy_requests: "keeps healthy (issue_invite env a)" "keeps healthy (resend_invite env i)"
  "keeps healthy (revoke_invite i)" "keeps healthy (accept_invite env t u e)"
  by (rule healthy_frame.frame_requests; simp)+

lemma token_requests: "keeps unique_tokens (issue_invite env a)" "keeps unique_tokens (resend_invite env i)"
  "keeps unique_tokens (revoke_invite i)" "keeps unique_tokens (accept_invite env t u e)"
  by (rule token_frame.frame_requests; simp add: builder_defs)+

lemma contract_requests: "keeps (has_contract s) (issue_invite env a)" "keeps (has_contract s) (resend_invite env i)"
  "keeps (has_contract s) (revoke_invite i)" "keeps (has_contract s) (accept_invite env t u e)"
  by (rule contract_frame.frame_requests; simp add: builder_defs)+

lemma kept_by_requests:
  assumes "healthy w" and "unique_tokens w" and "has_contract s w"
  shows "healthy (handle_requests env qs w)" "unique_tokens (handle_requests env qs w)" "has_contract s (handle_requests env qs w)"
proof -
  show "healthy (handle_requests env qs w)"
    by (rule keeps_requests [OF healthy_requests]) (simp_all add: assms(1))
  show "unique_tokens (handle_requests env qs w)"
    using assms(2) by (intro keeps_requests [OF token_requests]) (simp_all add: tables_inv_def)
  show "has_contract s (handle_requests env qs w)"
    using assms(3) by (intro keeps_requests [OF contract_requests]) (simp_all add: tables_inv_def)
qed

section \<open>A claimed link\<close>

lemma claimed_link:
  assumes "healthy w" and "token_rows env token w = [r]" and "invite_rows w (r ''id'') = [r]" and "r ''id'' \<noteq> PNone"
    and "no_clash [''token_hash''] (invites w)" and "effective_status r (clock w) = PStr ''pending''"
    and "accept_invite env token u email w = (Inr s, w1)" and w2_def: "w2 = handle_requests env qs w1"
  shows "v \<noteq> u \<Longrightarrow> accept_invite env token v email' w2 = (Inl (InviteNotClaimable ''accepted''), w2)"
    and "\<exists>s'. accept_invite env token u email' w2 = (Inr s', w2) \<and> s' ''id'' = s ''id''"
proof -
  note e = accept_effect [OF assms(1,2,6,7)]
  let ?r = "set_cells (accepted_cells u (s ''id'') (clock w)) r"
  have cells: "?r ''status'' = PStr ''accepted''" "?r ''accepted_by_user_id'' = u" "?r ''b2b_subscription_id'' = s ''id''" "?r ''id'' = r ''id''"
    by (simp_all add: accepted_cells_def)
  have token: "token_rows env token w1 = [?r]" using e by blast
  have hash: "?r ''token_hash'' = PStr (hash_token env token)" 
  proof -
    have "?r \<in> set (token_rows env token w1)" unfolding token by simp
    then show ?thesis by (simp only: set_filter mem_Collect_eq)
  qed
  have u1: "unique_tokens w1"
    using keepsD [OF token_requests(4), of w env token u email] assms(5,7) by (simp add: tables_inv_def)
  have one: "settled (r ''id'') ?r w1"
  proof -
    have "filter (\<lambda>x. x ''id'' = r ''id'') (invites w1) = [?r]"
      using e assms(3) by (simp add: filter_by_update accepted_cells_def)
    then show ?thesis by (simp add: tables_inv_def)
  qed
  have "has_contract (s ''id'') w1" using e by (simp add: tables_inv_def)
  then have k: "healthy w2" "unique_tokens w2" "has_contract (s ''id'') w2"
    using e u1 unfolding w2_def by (auto intro: kept_by_requests)
  have "settled (r ''id'') ?r w2" unfolding w2_def by (rule settled_requests [OF assms(4) cells(4,1) one])
  then have only: "filter (\<lambda>x. x ''id'' = r ''id'') (invites w2) = [?r]" by (simp only: tables_inv_def)
  have uniq: "no_clash [''token_hash''] (invites w2)" using k(2) by (simp only: tables_inv_def)
  have tr: "token_rows env token w2 = [?r]" by (rule no_clash_single [OF uniq only hash]) simp
  note again = accepted_again [OF k(1) tr cells(1), unfolded cells(2,3)]
  show "v \<noteq> u \<Longrightarrow> accept_invite env token v email' w2 = (Inl (InviteNotClaimable ''accepted''), w2)"
    by (simp add: again)
  have "rows_with w2 ''b2b_subscriptions'' ''id'' (s ''id'') \<noteq> []" using k(3) by (auto simp: tables_inv_def filter_empty_conv)
  then obtain y ys where y: "rows_with w2 ''b2b_subscriptions'' ''id'' (s ''id'') = y # ys"
    by (cases "rows_with w2 ''b2b_subscriptions'' ''id'' (s ''id'')") auto
  then have "y \<in> set (rows_with w2 ''b2b_subscriptions'' ''id'' (s ''id''))" by simp
  then have "y ''id'' = s ''id''" by simp
  then show "\<exists>s'. accept_invite env token u email' w2 = (Inr s', w2) \<and> s' ''id'' = s ''id''" by (simp add: again y)
qed

end
