(* ===== verification/Invite_Properties.thy ===== *)
theory Invite_Properties
  imports Invite_Runs
begin

text \<open>
  The properties of contract invites. The instances use one pending invite \<open>i\<close> for the address
  \<open>a@b.co\<close>, reached by the token \<open>t\<close>.
\<close>

definition sample_env :: invite_env where
  "sample_env = \<lparr>inv_settings = sample_settings, hash_token = (\<lambda>s. CHR ''h'' # s),
     token_source = (\<lambda>n. replicate (n + 2) (CHR ''t''))\<rparr>"

definition sample_invite :: "string \<Rightarrow> row" where
  "sample_invite status = lookup [(''id'', PStr ''i''), (''email'', PStr ''a@b.co''), (''product_type'', PStr ''production_services''),
     (''status'', PStr status), (''token_hash'', PStr ''ht''), (''expires_at'', PTime 2000000)]"

definition sample_invites :: "string \<Rightarrow> world" where
  "sample_invites status = sample_world [(INVITES, [sample_invite status])]"

lemma sample_invites_simps [simp]:
  "healthy (sample_invites s)" "invites (sample_invites s) = [sample_invite s]" "clock (sample_invites s) = 1000000"
  "contracts (sample_invites s) = []" "max_rows (sample_invites s) = 1000" "uuids_used (sample_invites s) = 0"
  by (simp_all add: sample_invites_def)

lemma sample_invite_cells [simp]:
  "sample_invite s ''id'' = PStr ''i''" "sample_invite s ''status'' = PStr s" "sample_invite s ''token_hash'' = PStr ''ht''"
  "sample_invite s ''email'' = PStr ''a@b.co''" "effective_status (sample_invite ''pending'') 1000000 = PStr ''pending''"
  by (simp_all add: sample_invite_def effective_status_def as_datetime_def py_or_def)

lemma sample_hash [simp]: "hash_token sample_env t = CHR ''h'' # t" "token_source sample_env n = replicate (n + 2) (CHR ''t'')"
  by (simp_all add: sample_env_def)

text \<open>C9: An invite is single use. Once a claim of a pending invite has returned a subscription,
  then on a connection that answers, and with the unique keys of the table, the following holds
  after any run of further requests, whatever they issue, resend, revoke or claim and whenever:
  the same link is refused to every other user, and gives the claimant, who may submit twice, the
  subscription already made. Neither answer changes the database, so no later request on the link
  makes a second subscription.\<close>

theorem invite_is_single_use:
  assumes "healthy w" and "token_rows env token w = [r]" and "invite_rows w (r ''id'') = [r]" and "r ''id'' \<noteq> PNone"
    and "no_clash [''token_hash''] (invites w)" and "effective_status r (clock w) = PStr ''pending''"
    and "accept_invite env token u email w = (Inr s, w1)" and "w2 = handle_requests env qs w1"
  shows "(v \<noteq> u \<longrightarrow> accept_invite env token v email' w2 = (Inl (InviteNotClaimable ''accepted''), w2))
    \<and> (\<exists>s'. accept_invite env token u email'' w2 = (Inr s', w2) \<and> s' ''id'' = s ''id'')"
  using claimed_link [OF assms] by blast

lemma sample_claim:
  "\<exists>s w1. accept_invite sample_env ''t'' (PStr ''u'') (PStr ''A@b.co'') (sample_invites ''pending'') = (Inr s, w1)"
proof -
  have clean: "clean_text (PStr ''a@b.co'') = ''a@b.co''" "clean_text (PStr ''A@b.co'') = ''a@b.co''"
    by (simp_all add: clean_text_def py_or_def strip_def is_space_def lower_def lower_char_def char_of_def bit_Suc_0_iff)
  obtain s wa where c: "create_manual_subscription_for_user (contract_of (sample_invite ''pending'') (PStr ''u'')) (sample_invites ''pending'') = (Inr s, wa)"
  proof -
    have p: "contract_of (sample_invite ''pending'') (PStr ''u'') = \<lparr>ms_user_id = PStr ''u'', ms_product_type = PStr ''production_services'',
        ms_status = PStr ''active'', ms_delivery_frequency = PStr ''monthly'', ms_extra_recipient_email = PNone,
        ms_company_name = PNone, ms_admin_notes = PNone\<rparr>"
      by (simp add: contract_of_def sample_invite_def py_or_def)
    have q: "b2b_product (PStr ''production_services'') (sample_invites ''pending'')
        = (Inr (the (map_of B2B_PRODUCTS ''production_services'')), sample_invites ''pending'')"
      by (simp add: b2b_product_def B2B_PRODUCTS_def world_simps)
    have no_fail: "fetch (tq_insert d (tq ''b2b_subscriptions'')) w \<noteq> (Inl e, w')"
      if "healthy w" "contracts w = []" "d \<noteq> []" "list_all (\<lambda>(c, _). c \<in> set (table_columns B2BSubscription_table)) d"
        "list_all (\<lambda>c. new_row B2BSubscription_table (clock w) d c \<noteq> PNone) (not_null B2BSubscription_table)" for d w e w'
    proof -
      have "insertable B2BSubscription_table (new_row B2BSubscription_table (clock w) d) (contracts w)"
        using that by (simp add: insertable_def list_all_iff)
      then have "run (tq_insert d (tq ''b2b_subscriptions'')) w = (Inr (), set_table ''b2b_subscriptions''
          (contracts w @ [new_row B2BSubscription_table (clock w) d]) w)"
        using that by (intro run_insert) (simp_all add: B2BSubscription_table_def)
      then show ?thesis by (auto simp: run_def fetch_def world_simps split: prod.splits sum.splits)
    qed
    show ?thesis
    proof (cases "create_manual_subscription_for_user (contract_of (sample_invite ''pending'') (PStr ''u'')) (sample_invites ''pending'')")
      case (Pair x wa)
      show ?thesis
      proof (cases x)
        case (Inr s)
        then show ?thesis using that Pair by blast
      next
        case (Inl e)
        then show ?thesis
          using Pair no_fail
          by (auto simp: p create_manual_subscription_for_user_def q world_simps Let_def clean_email_def not_null_def
              B2BSubscription_table_def new_row_def split: prod.splits sum.splits)
      qed
    qed
  qed
  have wa: "healthy wa"
    using keepsD [OF keeps_healthy_contract, of "sample_invites ''pending''" "contract_of (sample_invite ''pending'') (PStr ''u'')"] c by simp
  have "token_rows sample_env ''t'' (sample_invites ''pending'') = [sample_invite ''pending'']" by simp
  then have "accept_invite sample_env ''t'' (PStr ''u'') (PStr ''A@b.co'') (sample_invites ''pending'')
      = claim_invite (sample_invite ''pending'') (PStr ''u'') (sample_invites ''pending'')"
    by (simp add: accept_invite_def get_by_token_healthy world_simps clean)
  moreover have "\<exists>w1. claim_invite (sample_invite ''pending'') (PStr ''u'') (sample_invites ''pending'') = (Inr s, w1)"
    using c run_accepted [OF wa] by (simp add: claim_invite_def world_simps)
  ultimately show ?thesis by auto
qed

lemma invite_is_single_use_witness:
  "\<exists>s w1 w2. accept_invite sample_env ''t'' (PStr ''u'') (PStr ''A@b.co'') (sample_invites ''pending'') = (Inr s, w1)
    \<and> w2 = handle_requests sample_env [(5, Resend (PStr ''i'')), (0, Revoke (PStr ''i'')), (9, Accept ''t'' (PStr ''v'') (PStr ''a@b.co''))] w1
    \<and> accept_invite sample_env ''t'' (PStr ''v'') (PStr ''a@b.co'') w2 = (Inl (InviteNotClaimable ''accepted''), w2)
    \<and> (\<exists>s'. accept_invite sample_env ''t'' (PStr ''u'') (PStr ''a@b.co'') w2 = (Inr s', w2) \<and> s' ''id'' = s ''id'')"
proof -
  obtain s w1 where claim: "accept_invite sample_env ''t'' (PStr ''u'') (PStr ''A@b.co'') (sample_invites ''pending'') = (Inr s, w1)"
    using sample_claim by blast
  define w2 where "w2 = handle_requests sample_env [(5, Resend (PStr ''i'')), (0, Revoke (PStr ''i'')), (9, Accept ''t'' (PStr ''v'') (PStr ''a@b.co''))] w1"
  from invite_is_single_use [OF _ _ _ _ _ _ claim w2_def, of "sample_invite ''pending''" "PStr ''v''" "PStr ''a@b.co''" "PStr ''a@b.co''"]
  have "accept_invite sample_env ''t'' (PStr ''v'') (PStr ''a@b.co'') w2 = (Inl (InviteNotClaimable ''accepted''), w2)
    \<and> (\<exists>s'. accept_invite sample_env ''t'' (PStr ''u'') (PStr ''a@b.co'') w2 = (Inr s', w2) \<and> s' ''id'' = s ''id'')" by simp
  with claim w2_def show ?thesis by blast
qed

text \<open>No request undoes an acceptance: whatever is issued, resent, revoked or claimed
  afterwards, at whatever times and whatever statements fail, the row of an accepted invite
  stays exactly as it is.\<close>

theorem accepted_invite_is_final:
  assumes "invite_rows w i = [r]" and "r ''status'' = PStr ''accepted''" and "i \<noteq> PNone"
  shows "invite_rows (handle_requests env qs w) i = [r]"
proof -
  have "r \<in> set (invite_rows w i)" using assms(1) by simp
  then have "r ''id'' = i" by simp
  from settled_requests [OF assms(3) this assms(2), of w env qs] assms(1) show ?thesis
    by (simp add: settled_apply)
qed

lemma accepted_invite_is_final_witness:
  "invite_rows (handle_requests sample_env [(5, Resend (PStr ''i'')), (0, Revoke (PStr ''i'')),
      (9, Accept ''t'' (PStr ''v'') (PStr ''a@b.co''))] (sample_invites ''accepted'')) (PStr ''i'')
     = [sample_invite ''accepted'']"
  by (rule accepted_invite_is_final) simp_all

text \<open>An invite is never consumed without its contract: after a claim, whatever statement
  failed, every invite row is one that was there before or an accepted one whose recorded
  subscription is stored.\<close>

theorem consumed_invite_has_contract:
  "\<forall>r \<in> set (invites (snd (accept_invite env token u email w))). r \<in> set (invites w)
    \<or> r ''status'' = PStr ''accepted''
      \<and> (\<exists>x \<in> set (contracts (snd (accept_invite env token u email w))). x ''id'' = r ''b2b_subscription_id'')"
  using accept_backed [of w env token u email] by (simp add: backed_def)

lemma consumed_invite_has_contract_witness:
  "list_all (\<lambda>r. r \<in> set [sample_invite ''pending''] \<or> r ''status'' = PStr ''accepted''
      \<and> (\<exists>x \<in> set (contracts (snd (accept_invite sample_env ''t'' (PStr ''u'') (PStr ''a@b.co'') (sample_invites ''pending'')))).
          x ''id'' = r ''b2b_subscription_id''))
     (invites (snd (accept_invite sample_env ''t'' (PStr ''u'') (PStr ''a@b.co'') (sample_invites ''pending''))))"
  using consumed_invite_has_contract [of sample_env "''t''" "PStr ''u''" "PStr ''a@b.co''" "sample_invites ''pending''"]
  by (simp add: list_all_iff)

text \<open>Resending rotates the token: with a fresh token whose hash no invite has, the old link
  finds no invite, and the new one finds the same invite, pending again.\<close>

theorem resend_rotates_token:
  assumes "healthy w" and "0 < max_rows w" and "invite_rows w i = [r]" and "token_rows env old w = [r]"
    and "no_clash [''token_hash''] (invites w)"
    and "effective_status r (clock w) \<notin> {PStr ''accepted'', PStr ''revoked''}"
    and "new = token_source env (uuids_used w)" and "\<forall>x \<in> set (invites w). x ''token_hash'' \<noteq> PStr (hash_token env new)"
  shows "\<exists>res w'. resend_invite env i w = (Inr res, w')
    \<and> accept_invite env old u email w' = (Inl (InviteNotFound ''This invitation link is not valid''), w')
    \<and> (\<exists>r'. get_by_token env new w' = (Inr (Some r'), w') \<and> r' ''id'' = i
        \<and> effective_status r' (clock w') = PStr ''pending'')"
proof -
  obtain res w' r' where w': "resend_invite env i w = (Inr res, w')" "healthy w'" "token_rows env old w' = []"
    "token_rows env new w' = [r']" "r' ''id'' = i" "effective_status r' (clock w') = PStr ''pending''"
    using resend_rotates [OF assms] by blast
  have "accept_invite env old u email w' = (Inl (InviteNotFound ''This invitation link is not valid''), w')"
    by (simp add: accept_invite_def get_by_token_healthy [OF w'(2)] w'(3) world_simps)
  moreover have "get_by_token env new w' = (Inr (Some r'), w')"
    by (simp add: get_by_token_healthy [OF w'(2)] w'(4))
  ultimately show ?thesis using w'(1,5,6) by blast
qed

lemma resend_rotates_token_witness:
  "\<exists>res w'. resend_invite sample_env (PStr ''i'') (sample_invites ''pending'') = (Inr res, w')
    \<and> accept_invite sample_env ''t'' (PStr ''u'') (PStr ''a@b.co'') w' = (Inl (InviteNotFound ''This invitation link is not valid''), w')
    \<and> (\<exists>r'. get_by_token sample_env ''tt'' w' = (Inr (Some r'), w') \<and> r' ''id'' = PStr ''i''
        \<and> effective_status r' (clock w') = PStr ''pending'')"
  by (rule resend_rotates_token [where r = "sample_invite ''pending''"]) simp_all

end
