(* ===== verification/Verification_Ledger.thy ===== *)
theory Verification_Ledger
  imports Prelude
begin

text \<open>
  \<open>app/modules/reports/verification_ledger.py\<close>: which asserted facts an engine may read, and how
  far a gate is from closed. Dates are day numbers. An absent text field is the empty text,
  which \<open>str(x or '')\<close> makes of it in the code; the reasons of a refusal are a datatype, one
  constructor for each sentence.
\<close>

section \<open>Review states and gates\<close>

definition REVIEW_STATES :: "string list" where
  "REVIEW_STATES = [''PENDING'', ''VERIFIED'', ''REJECTED'']"

definition READABLE_STATES :: "string list" where
  "READABLE_STATES = [''VERIFIED'']"

definition GATES :: "string list" where
  "GATES = [''INCENTIVE_ENGINE_CLASSIFICATION'', ''GRANTS_MIGRATION_DECISION'', ''GRANTS_SPLIT_PARENT'',
     ''COMMERCIAL_COMPANY_PROFILE'', ''COMPARABLE_TITLE_PROFILE'', ''MARKET_HARD_GATE'', ''MARKET_CYCLE'',
     ''FESTIVAL_SECTION'']"

definition GATES_REQUIRING_INDEPENDENT_QA :: "string list" where
  "GATES_REQUIRING_INDEPENDENT_QA = [''MARKET_HARD_GATE'', ''FESTIVAL_SECTION'']"

definition CIRCULAR_SOURCE_MARKERS :: "string list" where
  "CIRCULAR_SOURCE_MARKERS = [''prodculator'', ''localhost'', ''127.0.0.1'', ''file://'']"

section \<open>Claims\<close>

record source_claim =
  gate :: string
  subject_id :: string
  claim_field :: string
  claim_value :: pyval
  source_url :: string
  source_basis :: string
  verified_on :: int
  verified_by :: string
  review_state :: string
  reviewed_by :: string
  requires_independent_qa :: "bool option"
  qa_by :: string
  claim_notes :: string
  sole_owner_attestation :: string

definition qa_was_self_signed :: "source_claim \<Rightarrow> bool" where
  "qa_was_self_signed c = (strip (qa_by c) \<noteq> [] \<and> strip (qa_by c) = strip (verified_by c))"

definition needs_independent_qa :: "source_claim \<Rightarrow> bool" where
  "needs_independent_qa c =
     (case requires_independent_qa c of Some b \<Rightarrow> b | None \<Rightarrow> gate c \<in> set GATES_REQUIRING_INDEPENDENT_QA)"

datatype ledger_problem =
    Unknown_gate string
  | No_subject
  | No_field
  | Unknown_review_state string
  | No_source_url
  | Not_https
  | Circular_source
  | No_source_basis
  | No_verifier
  | Verified_in_future
  | No_reviewer
  | Qa_missing
  | Qa_self_signed

definition url_problems :: "string \<Rightarrow> ledger_problem list" where
  "url_problems url =
     (if url = [] then [No_source_url]
      else if \<not> starts_with ''https://'' (lower url) then [Not_https]
      else if list_ex (\<lambda>marker. text_contains marker (lower url)) CIRCULAR_SOURCE_MARKERS then [Circular_source]
      else [])"

definition review_problems :: "source_claim \<Rightarrow> ledger_problem list" where
  "review_problems c =
     (if strip (reviewed_by c) = [] then [No_reviewer] else [])
     @ (if needs_independent_qa c
        then (let qa = strip (qa_by c) in
              if qa = [] then [Qa_missing]
              else if qa = strip (verified_by c) \<and> strip (sole_owner_attestation c) = [] then [Qa_self_signed]
              else [])
        else [])"

definition validate_claim :: "source_claim \<Rightarrow> int \<Rightarrow> ledger_problem list" where
  "validate_claim c today =
     (if gate c \<notin> set GATES then [Unknown_gate (gate c)] else [])
     @ (if strip (subject_id c) = [] then [No_subject] else [])
     @ (if strip (claim_field c) = [] then [No_field] else [])
     @ (if review_state c \<notin> set REVIEW_STATES then [Unknown_review_state (review_state c)] else [])
     @ url_problems (strip (source_url c))
     @ (if strip (source_basis c) = [] then [No_source_basis] else [])
     @ (if strip (verified_by c) = [] then [No_verifier] else [])
     @ (if verified_on c > today then [Verified_in_future] else [])
     @ (if review_state c = ''VERIFIED'' then review_problems c else [])"

definition readable_claims :: "source_claim list \<Rightarrow> int \<Rightarrow> source_claim list" where
  "readable_claims claims today =
     filter (\<lambda>c. review_state c \<in> set READABLE_STATES \<and> validate_claim c today = []) claims"

section \<open>Progress of a gate\<close>

record gate_status =
  gs_gate :: string
  gs_required :: nat
  gs_verified :: nat

definition outstanding :: "gate_status \<Rightarrow> nat" where
  "outstanding p = gs_required p - gs_verified p"

definition is_closed :: "gate_status \<Rightarrow> bool" where
  "is_closed p = (gs_required p > 0 \<and> outstanding p = 0)"

definition gate_progress :: "string \<Rightarrow> string list \<Rightarrow> source_claim list \<Rightarrow> int \<Rightarrow> gate_status" where
  "gate_progress g required_subject_ids claims today =
     (let required = set (filter (\<lambda>item. strip item \<noteq> []) required_subject_ids);
          done_subjects = set (map subject_id
            (filter (\<lambda>c. gate c = g \<and> subject_id c \<in> required) (readable_claims claims today)))
      in \<lparr>gs_gate = g, gs_required = card required, gs_verified = card done_subjects\<rparr>)"

section \<open>What may be read\<close>

text \<open>A source that can stand: on an https page that is not our own.\<close>

definition official_source :: "string \<Rightarrow> bool" where
  "official_source url \<longleftrightarrow> starts_with ''https://'' (lower (strip url))
     \<and> (\<forall>m \<in> set CIRCULAR_SOURCE_MARKERS. \<not> text_contains m (lower (strip url)))"

text \<open>The two-person rule, with its written exception.\<close>

definition second_person_signed :: "source_claim \<Rightarrow> bool" where
  "second_person_signed c \<longleftrightarrow> strip (qa_by c) \<noteq> []
     \<and> (qa_was_self_signed c \<longrightarrow> strip (sole_owner_attestation c) \<noteq> [])"

lemma url_problems_empty: "url_problems (strip url) = [] \<longleftrightarrow> official_source url"
  by (auto simp: url_problems_def official_source_def starts_with_def lower_def list_ex_iff)

lemma review_problems_empty:
  "review_problems c = [] \<longleftrightarrow> strip (reviewed_by c) \<noteq> [] \<and> (needs_independent_qa c \<longrightarrow> second_person_signed c)"
  by (auto simp: review_problems_def second_person_signed_def qa_was_self_signed_def Let_def)

lemma validate_empty:
  "validate_claim c today = [] \<longleftrightarrow>
     gate c \<in> set GATES \<and> strip (subject_id c) \<noteq> [] \<and> strip (claim_field c) \<noteq> []
     \<and> review_state c \<in> set REVIEW_STATES \<and> official_source (source_url c) \<and> strip (source_basis c) \<noteq> []
     \<and> strip (verified_by c) \<noteq> [] \<and> verified_on c \<le> today
     \<and> (review_state c = ''VERIFIED'' \<longrightarrow> review_problems c = [])"
  by (auto simp: validate_claim_def url_problems_empty)

lemma readable_mono: "today \<le> later \<Longrightarrow> set (readable_claims cs today) \<subseteq> set (readable_claims (cs @ ds) later)"
  by (auto simp: readable_claims_def validate_empty)

lemma readable_iff:
  "c \<in> set (readable_claims cs today) \<longleftrightarrow>
     c \<in> set cs \<and> review_state c = ''VERIFIED'' \<and> gate c \<in> set GATES \<and> strip (subject_id c) \<noteq> [] \<and> strip (claim_field c) \<noteq> []
     \<and> official_source (source_url c) \<and> strip (source_basis c) \<noteq> [] \<and> strip (verified_by c) \<noteq> []
     \<and> verified_on c \<le> today \<and> strip (reviewed_by c) \<noteq> []
     \<and> (if needs_independent_qa c then second_person_signed c else True)"
  by (auto simp: readable_claims_def validate_empty review_problems_empty READABLE_STATES_def REVIEW_STATES_def)

lemma progress_sets:
  "gs_required (gate_progress g ids cs today) = card {i \<in> set ids. strip i \<noteq> []}"
  "gs_verified (gate_progress g ids cs today)
     = card {i \<in> set ids. strip i \<noteq> [] \<and> (\<exists>c \<in> set (readable_claims cs today). gate c = g \<and> subject_id c = i)}"
proof -
  show "gs_required (gate_progress g ids cs today) = card {i \<in> set ids. strip i \<noteq> []}"
    by (simp add: gate_progress_def Let_def)
  have "set (map subject_id (filter (\<lambda>c. gate c = g \<and> subject_id c \<in> set (filter (\<lambda>item. strip item \<noteq> []) ids))
      (readable_claims cs today)))
    = {i \<in> set ids. strip i \<noteq> [] \<and> (\<exists>c \<in> set (readable_claims cs today). gate c = g \<and> subject_id c = i)}"
    by auto
  then show "gs_verified (gate_progress g ids cs today)
     = card {i \<in> set ids. strip i \<noteq> [] \<and> (\<exists>c \<in> set (readable_claims cs today). gate c = g \<and> subject_id c = i)}"
    by (simp add: gate_progress_def Let_def)
qed

lemma progress_bound: "gs_verified (gate_progress g ids cs today) \<le> gs_required (gate_progress g ids cs today)"
  unfolding progress_sets by (intro card_mono) auto

lemma card_diff_zero:
  assumes "finite R" and "D \<subseteq> R"
  shows "card R - card D = 0 \<longleftrightarrow> D = R"
proof
  assume "card R - card D = 0"
  then have "card D = card R" using card_mono [OF assms] by simp
  then show "D = R" by (rule card_subset_eq [OF assms])
qed simp

lemma closed_iff:
  "is_closed (gate_progress g ids cs today) \<longleftrightarrow>
     (\<exists>i \<in> set ids. strip i \<noteq> [])
     \<and> (\<forall>i \<in> set ids. strip i \<noteq> [] \<longrightarrow> (\<exists>c \<in> set (readable_claims cs today). gate c = g \<and> subject_id c = i))"
proof -
  let ?R = "{i \<in> set ids. strip i \<noteq> []}"
  let ?D = "{i \<in> set ids. strip i \<noteq> [] \<and> (\<exists>c \<in> set (readable_claims cs today). gate c = g \<and> subject_id c = i)}"
  have f: "finite ?R" "?D \<subseteq> ?R" by auto
  have "card ?R - card ?D = 0 \<longleftrightarrow> ?D = ?R"
    by (rule card_diff_zero [OF f])
  moreover have "card ?R > 0 \<longleftrightarrow> (\<exists>i \<in> set ids. strip i \<noteq> [])"
    using f(1) by (auto simp: card_gt_0_iff)
  moreover have "?D = ?R \<longleftrightarrow> (\<forall>i \<in> set ids. strip i \<noteq> [] \<longrightarrow> (\<exists>c \<in> set (readable_claims cs today). gate c = g \<and> subject_id c = i))"
    by blast
  ultimately show ?thesis by (simp add: is_closed_def outstanding_def progress_sets)
qed

lemma closed_stays_closed:
  assumes "is_closed (gate_progress g ids cs today)" and "today \<le> later"
  shows "is_closed (gate_progress g ids (cs @ ds) later)"
proof -
  note now = assms(1) [unfolded closed_iff]
  show ?thesis
    unfolding closed_iff
  proof (intro conjI ballI impI)
    show "\<exists>i \<in> set ids. strip i \<noteq> []" using now by (rule conjunct1)
    fix i
    assume "i \<in> set ids" and "strip i \<noteq> []"
    then obtain c where "c \<in> set (readable_claims cs today)" "gate c = g \<and> subject_id c = i"
      using now by meson
    then show "\<exists>c \<in> set (readable_claims (cs @ ds) later). gate c = g \<and> subject_id c = i"
      by (intro bexI [of _ c] subsetD [OF readable_mono [OF assms(2)]])
  qed
qed

text \<open>What an engine may read: exactly the claims marked verified, of a known gate, with a
  subject, a field, a verifier, a reviewer, a quotation and an official source that is not our
  own, not verified in the future, and, where the gate needs it, signed by a second person or
  with the written sole-owner exception.\<close>

theorem readable_claims_stand:
  "c \<in> set (readable_claims cs today) \<longleftrightarrow>
     c \<in> set cs \<and> review_state c = ''VERIFIED'' \<and> gate c \<in> set GATES \<and> strip (subject_id c) \<noteq> [] \<and> strip (claim_field c) \<noteq> []
     \<and> official_source (source_url c) \<and> strip (source_basis c) \<noteq> [] \<and> strip (verified_by c) \<noteq> []
     \<and> verified_on c \<le> today \<and> strip (reviewed_by c) \<noteq> []
     \<and> (if needs_independent_qa c then second_person_signed c else True)"
  by (rule readable_iff)

text \<open>A gate is closed exactly when something is required and every required subject has a
  readable claim of that gate; and it stays closed on later days as claims are added.\<close>

theorem closed_gate_is_covered:
  "(is_closed (gate_progress g ids cs today) \<longleftrightarrow>
      (\<exists>i \<in> set ids. strip i \<noteq> [])
      \<and> (\<forall>i \<in> set ids. strip i \<noteq> [] \<longrightarrow> (\<exists>c \<in> set (readable_claims cs today). gate c = g \<and> subject_id c = i)))
   \<and> (is_closed (gate_progress g ids cs today) \<longrightarrow> is_closed (gate_progress g ids (cs @ ds) (today + int later)))"
  using closed_iff closed_stays_closed [of g ids cs today "today + int later" ds] by simp

definition sample_claim :: source_claim where
  "sample_claim = \<lparr>gate = ''MARKET_CYCLE'', subject_id = ''m1'', claim_field = ''deadline'', claim_value = PDate 20000,
     source_url = ''https://m.org'', source_basis = ''by 4 October'', verified_on = 19000, verified_by = ''a'',
     review_state = ''VERIFIED'', reviewed_by = ''b'', requires_independent_qa = None, qa_by = [], claim_notes = [],
     sole_owner_attestation = []\<rparr>"

lemma closed_gate_is_covered_witness:
  "is_closed (gate_progress ''MARKET_CYCLE'' [''m1''] ([sample_claim] @ []) (19000 + int 5))"
proof -
  have "sample_claim \<in> set (readable_claims [sample_claim] 19000)"
    unfolding readable_iff
    by (simp add: sample_claim_def GATES_def official_source_def starts_with_def strip_def is_space_def lower_def lower_char_def
        CIRCULAR_SOURCE_MARKERS_def needs_independent_qa_def GATES_REQUIRING_INDEPENDENT_QA_def)
  moreover have "gate sample_claim = ''MARKET_CYCLE''" "subject_id sample_claim = ''m1''" "strip ''m1'' = ''m1''"
    by (simp_all add: sample_claim_def strip_def is_space_def)
  ultimately have c: "is_closed (gate_progress ''MARKET_CYCLE'' [''m1''] [sample_claim] 19000)"
    unfolding closed_iff by (metis list.distinct(1) list.set_intros(1) empty_iff empty_set set_ConsD)
  show ?thesis
    using closed_gate_is_covered [of "''MARKET_CYCLE''" "[''m1'']" "[sample_claim]" 19000 "[]" 5] c by blast
qed

end
