(* ===== verification/Python_Text.thy ===== *)
theory Python_Text
  imports Calendar
begin

text \<open>
  Texts and numbers as the modules read and print them: joins, decimal numbers, ISO dates and
  \<open>str(value)\<close>. \<open>parse_float\<close> is \<open>float(text)\<close> on decimal text with an optional exponent; the texts
  of infinities and NaN and digits grouped by underscores are not read. Letters, digits and word
  boundaries are those of ASCII. \<open>str\<close> of a float is its decimal expansion, cut after seventeen
  places; the exponent notation of very large and very small ones is left out.
\<close>

section \<open>Joins\<close>

definition spaced :: "string \<Rightarrow> string" where
  "spaced key = map (\<lambda>c. if c = CHR ''_'' then CHR '' '' else c) key"

fun comma_join :: "string list \<Rightarrow> string" where
  "comma_join [] = []"
| "comma_join [s] = s"
| "comma_join (s # t # ss) = s @ '', '' @ comma_join (t # ss)"

fun spaced_join :: "string list \<Rightarrow> string" where
  "spaced_join [] = []"
| "spaced_join [s] = s"
| "spaced_join (s # t # ss) = s @ '' '' @ spaced_join (t # ss)"

definition EM_DASH :: string where
  "EM_DASH = [CHR 0xE2, CHR 0x80, CHR 0x94]"

section \<open>Numbers\<close>

definition is_digit_char :: "char \<Rightarrow> bool" where
  "is_digit_char c = (0 \<le> digit_value c \<and> digit_value c \<le> 9)"

definition decimal_value :: "string \<Rightarrow> int" where
  "decimal_value ds = foldl (\<lambda>a c. 10 * a + digit_value c) 0 ds"

definition parse_mantissa :: "string \<Rightarrow> rat option" where
  "parse_mantissa s =
     (let ip = takeWhile (\<lambda>c. c \<noteq> CHR ''.'') s; rest = dropWhile (\<lambda>c. c \<noteq> CHR ''.'') s; fp = drop 1 rest in
      if ip @ fp = [] \<or> \<not> list_all is_digit_char (ip @ fp) then None
      else Some (of_int (decimal_value (ip @ fp)) / 10 ^ length fp))"

definition split_sign :: "string \<Rightarrow> bool \<times> string" where
  "split_sign s = (case s of c # cs \<Rightarrow> if c = CHR ''-'' then (True, cs) else if c = CHR ''+'' then (False, cs) else (False, s)
     | [] \<Rightarrow> (False, []))"

definition parse_float :: "string \<Rightarrow> rat option" where
  "parse_float s =
     (case split_sign (strip s) of (neg, u) \<Rightarrow>
      let m = takeWhile (\<lambda>c. c \<noteq> CHR ''e'' \<and> c \<noteq> CHR ''E'') u;
          r = dropWhile (\<lambda>c. c \<noteq> CHR ''e'' \<and> c \<noteq> CHR ''E'') u in
      case parse_mantissa m of None \<Rightarrow> None
      | Some x \<Rightarrow>
         let y = (if neg then - x else x) in
         if r = [] then Some y
         else (case split_sign (drop 1 r) of (eneg, ds) \<Rightarrow>
           if ds = [] \<or> \<not> list_all is_digit_char ds then None
           else (let n = nat (decimal_value ds) in Some (if eneg then y / 10 ^ n else y * 10 ^ n))))"

definition is_word_char :: "char \<Rightarrow> bool" where
  "is_word_char c = (is_letter c \<or> is_digit_char c \<or> c = CHR ''_'')"

text \<open>\<open>round(x, 1)\<close>: to the nearest tenth, a half to the even one.\<close>

definition round_tenth :: "rat \<Rightarrow> rat" where
  "round_tenth x =
     (let n = \<lfloor>10 * x\<rfloor>; f = 10 * x - of_int n in
      of_int (if f < 1 / 2 then n else if 1 / 2 < f then n + 1 else if even n then n else n + 1) / 10)"

section \<open>Dates\<close>

text \<open>\<open>\\d{4}-\\d{2}-\\d{2}\<close> at the start of a text, and the date it is, if there is such a day.\<close>

definition iso_at :: "string \<Rightarrow> bool" where
  "iso_at s = (10 \<le> length s \<and> list_all is_digit_char (take 4 s) \<and> s ! 4 = CHR ''-''
     \<and> list_all is_digit_char (take 2 (drop 5 s)) \<and> s ! 7 = CHR ''-'' \<and> list_all is_digit_char (take 2 (drop 8 s)))"

definition iso_date :: "string \<Rightarrow> int option" where
  "iso_date s =
     (let y = decimal_value (take 4 s); m = decimal_value (take 2 (drop 5 s)); d = decimal_value (take 2 (drop 8 s)) in
      if 1 \<le> y \<and> valid_ymd y m d then Some (date_of y m d) else None)"

definition zero_padded :: "nat \<Rightarrow> string \<Rightarrow> string" where
  "zero_padded n s = replicate (n - length s) CHR ''0'' @ s"

definition iso_text :: "int \<Rightarrow> string" where
  "iso_text date =
     (case ymd_of date of (y, m, d) \<Rightarrow>
      zero_padded 4 (int_text y) @ ''-'' @ zero_padded 2 (int_text m) @ ''-'' @ zero_padded 2 (int_text d))"

text \<open>An instant in UTC.\<close>

definition clock_text :: "int \<Rightarrow> string" where
  "clock_text t =
     (let us = time_part t; s = us div 1000000; f = us mod 1000000 in
      zero_padded 2 (int_text (s div 3600)) @ '':'' @ zero_padded 2 (int_text (s div 60 mod 60)) @ '':''
      @ zero_padded 2 (int_text (s mod 60)) @ (if f = 0 then [] else ''.'' @ zero_padded 6 (int_text f)))"

section \<open>\<open>str(value)\<close>\<close>

fun fraction_text :: "nat \<Rightarrow> rat \<Rightarrow> string" where
  "fraction_text 0 x = []"
| "fraction_text (Suc n) x =
     (if x = 0 then [] else int_text \<lfloor>10 * x\<rfloor> @ fraction_text n (10 * x - of_int \<lfloor>10 * x\<rfloor>))"

definition float_text :: "rat \<Rightarrow> string" where
  "float_text x =
     (let a = \<bar>x\<bar>; f = fraction_text 17 (a - of_int \<lfloor>a\<rfloor>) in
      (if x < 0 then ''-'' else []) @ int_text \<lfloor>a\<rfloor> @ ''.'' @ (if f = [] then ''0'' else f))"

text \<open>\<open>repr\<close> of a text: double quotes when it has a single quote and no double one.\<close>

definition repr_char :: "char \<Rightarrow> char \<Rightarrow> string" where
  "repr_char q c =
     (if c = q \<or> c = CHR 0x5C then [CHR 0x5C, c]
      else if c = CHR 0x0A then [CHR 0x5C, CHR ''n''] else if c = CHR 0x0D then [CHR 0x5C, CHR ''r'']
      else if c = CHR 0x09 then [CHR 0x5C, CHR ''t''] else [c])"

definition repr_text :: "string \<Rightarrow> string" where
  "repr_text s =
     (let q = (if CHR 0x27 \<in> set s \<and> CHR 0x22 \<notin> set s then CHR 0x22 else CHR 0x27) in
      [q] @ concat (map (repr_char q) s) @ [q])"

fun py_repr :: "pyval \<Rightarrow> string" where
  "py_repr PNone = ''None''"
| "py_repr (PBool b) = (if b then ''True'' else ''False'')"
| "py_repr (PInt i) = int_text i"
| "py_repr (PFloat x) = float_text x"
| "py_repr (PStr s) = repr_text s"
| "py_repr (PTime t) = iso_text (date_part t) @ '' '' @ clock_text t @ ''+00:00''"
| "py_repr (PDate d) = iso_text d"
| "py_repr (PList xs) = ''['' @ comma_join (map py_repr xs) @ '']''"
| "py_repr (PDict kvs) = ''{'' @ comma_join (map (\<lambda>(k, v). repr_text k @ '': '' @ py_repr v) kvs) @ ''}''"

definition py_str :: "pyval \<Rightarrow> string" where
  "py_str v = (case v of PStr s \<Rightarrow> s | _ \<Rightarrow> py_repr v)"

lemma py_str_text [simp]: "py_str (PStr s) = s"
  by (simp add: py_str_def)

end
