(* ===== verification/Incentive_Contracts.thy ===== *)
theory Incentive_Contracts
  imports Python_Text
begin

text \<open>
  \<open>app/modules/incentives/v2_contracts.py\<close>: the vocabulary of the incentive engine and its null
  semantics. A statutory amount is unknown (\<open>None\<close>) or a number, never a number made from
  another one.
\<close>

section \<open>Numbers\<close>

text \<open>\<open>float(value) if value is not None else None\<close>, with the errors read as \<open>None\<close>.\<close>

definition to_float :: "pyval \<Rightarrow> rat option" where
  "to_float v = (case v of PBool b \<Rightarrow> Some (if b then 1 else 0) | PInt i \<Rightarrow> Some (of_int i) | PFloat x \<Rightarrow> Some x
     | PStr s \<Rightarrow> parse_float s | _ \<Rightarrow> None)"

definition resolve_statutory_amount :: "pyval \<Rightarrow> rat option" where
  "resolve_statutory_amount amount =
     (case amount of
        PNone \<Rightarrow> None
      | PBool _ \<Rightarrow> None
      | PInt i \<Rightarrow> Some (of_int i)
      | PFloat x \<Rightarrow> Some x
      | PStr s \<Rightarrow> (let text = filter (\<lambda>c. c \<noteq> CHR '','') (strip s) in if text = [] then None else parse_float text)
      | _ \<Rightarrow> None)"

definition is_unknown :: "pyval \<Rightarrow> bool" where
  "is_unknown amount = (amount = PNone)"

section \<open>Engines and statuses\<close>

definition QS_ENGINES :: "string list" where
  "QS_ENGINES = [''CORE_LOWER_OF'', ''ELIGIBLE_LOCAL_SPEND'', ''QUALIFIED_LABOUR'', ''MULTI_BUCKET'', ''QAPE'', ''QNZPE'',
     ''VFX_ONLY'', ''PDV_ONLY'', ''TIERED_SPEND'', ''INVESTOR_TAX_SHELTER'', ''COMPETITIVE_GRANT'', ''NO_PROGRAMME'']"

record status_spec =
  numeric :: bool
  in_ranking :: bool
  meaning :: string

definition CALCULATION_STATUSES :: "(string \<times> status_spec) list" where
  "CALCULATION_STATUSES = [
    (''ESTIMATED'', \<lparr>numeric = True, in_ranking = True,
       meaning = ''Every input the deterministic formula requires is present.''\<rparr>),
    (''CONDITIONAL'', \<lparr>numeric = True, in_ranking = True,
       meaning = ''A defensible scenario can be shown, but it rests on a planning assumption or an unresolved approval or eligibility condition.''\<rparr>),
    (''REQUIRES_COST_BREAKDOWN'', \<lparr>numeric = False, in_ranking = True,
       meaning = ''The programme is identified but the statutory cost base it calculates from has not been supplied. No number is invented.''\<rparr>),
    (''NOT_ELIGIBLE'', \<lparr>numeric = False, in_ranking = True,
       meaning = ''Known project facts fail a mandatory programme rule.''\<rparr>),
    (''PROGRAMME_UNVERIFIED'', \<lparr>numeric = False, in_ranking = False,
       meaning = ''Official rules are incomplete or conflicting.''\<rparr>),
    (''BLOCKED'', \<lparr>numeric = False, in_ranking = False,
       meaning = ''Calculation verification is blocked by an administrator.''\<rparr>),
    (''SUSPENDED'', \<lparr>numeric = False, in_ranking = False,
       meaning = ''The programme is not currently running.''\<rparr>),
    (''NO_PROGRAMME'', \<lparr>numeric = False, in_ranking = False,
       meaning = ''No claimable programme is recorded for this territory.''\<rparr>)]"

definition NUMERIC_STATUSES :: "string list" where
  "NUMERIC_STATUSES = map fst (filter (\<lambda>(_, spec). numeric spec) CALCULATION_STATUSES)"

definition EXCLUDED_FROM_RANKING :: "string list" where
  "EXCLUDED_FROM_RANKING = map fst (filter (\<lambda>(_, spec). \<not> in_ranking spec) CALCULATION_STATUSES)"

definition CALCULATION_READY :: string where
  "CALCULATION_READY = ''ready''"

definition ENGINE_REQUIRED_INPUTS :: "(string \<times> string list) list" where
  "ENGINE_REQUIRED_INPUTS = [
    (''CORE_LOWER_OF'', [''local_core_expenditure'', ''global_core_expenditure'']),
    (''ELIGIBLE_LOCAL_SPEND'', [''eligible_local_spend'']),
    (''QUALIFIED_LABOUR'', [''qualified_labour'']),
    (''MULTI_BUCKET'', []),
    (''QAPE'', [''qape'']),
    (''QNZPE'', [''qnzpe'']),
    (''VFX_ONLY'', [''vfx_expenditure'']),
    (''PDV_ONLY'', [''pdv_expenditure'']),
    (''TIERED_SPEND'', [''eligible_local_spend'']),
    (''INVESTOR_TAX_SHELTER'', []),
    (''COMPETITIVE_GRANT'', []),
    (''NO_PROGRAMME'', [])]"

definition engine_inputs :: "string \<Rightarrow> string list" where
  "engine_inputs engine = (case map_of ENGINE_REQUIRED_INPUTS engine of None \<Rightarrow> [] | Some keys \<Rightarrow> keys)"

definition missing_required_inputs :: "string \<Rightarrow> pydict \<Rightarrow> string list option \<Rightarrow> string list" where
  "missing_required_inputs engine supplied declared_required =
     (let required = (case declared_required of Some keys \<Rightarrow> keys | None \<Rightarrow> engine_inputs (upper engine)) in
      filter (\<lambda>key. resolve_statutory_amount (lookup supplied key) = None) required)"

definition status_for_inputs :: "string \<Rightarrow> pydict \<Rightarrow> (string \<times> string) list \<Rightarrow> string list option \<Rightarrow> string" where
  "status_for_inputs engine supplied provenance declared_required =
     (let engine_upper = upper engine in
      if engine_upper = ''NO_PROGRAMME'' then ''NO_PROGRAMME''
      else if engine_upper \<in> {''INVESTOR_TAX_SHELTER'', ''COMPETITIVE_GRANT''} then ''CONDITIONAL''
      else if missing_required_inputs engine_upper supplied declared_required \<noteq> [] then ''REQUIRES_COST_BREAKDOWN''
      else if list_ex (\<lambda>(_, v). v = ''planning_assumption'') provenance then ''CONDITIONAL''
      else ''ESTIMATED'')"

section \<open>Structure of the production\<close>

definition is_comparison_mode :: "pyval \<Rightarrow> bool" where
  "is_comparison_mode mode =
     (lower (strip (text_of (py_or mode (PStr ''comparison'')))) \<in> {''comparison'', ''undecided''})"

definition COMPARISON_TERRITORY_LIMITS :: "(string \<times> int option) list" where
  "COMPARISON_TERRITORY_LIMITS = [(''free'', Some 3), (''professional'', Some 5), (''producer'', None), (''studio'', None)]"

definition MAX_COPRODUCTION_PARTNERS :: int where
  "MAX_COPRODUCTION_PARTNERS = 6"

definition reconcile_allocations :: "rat option \<Rightarrow> rat option list \<Rightarrow> rat option \<Rightarrow> rat \<Rightarrow> string \<times> rat option" where
  "reconcile_allocations total_budget allocations unallocated tolerance =
     (case total_budget of
        None \<Rightarrow> (''not_assessable'', None)
      | Some budget \<Rightarrow>
        if budget \<le> 0 then (''not_assessable'', None)
        else if list_ex (\<lambda>a. a = None) allocations then (''not_assessable'', None)
        else
         (let allocated = sum_list (map (\<lambda>a. case a of Some x \<Rightarrow> x | None \<Rightarrow> 0) allocations)
                + (case unallocated of Some u \<Rightarrow> u | None \<Rightarrow> 0);
              remaining = budget - allocated in
          if \<bar>remaining\<bar> \<le> tolerance then (''reconciled'', Some 0)
          else if remaining > 0 then (''under_allocated'', Some remaining)
          else (''over_allocated'', Some remaining)))"

section \<open>Where a field of the specification lives\<close>

definition V2_FIELD_MAP :: "(string \<times> string) list" where
  "V2_FIELD_MAP = [
    (''programme_id'', ''programme_id''), (''programme_name'', ''program''),
    (''jurisdiction_country'', ''jurisdiction_country''), (''jurisdiction_subdivision'', ''jurisdiction_subdivision''),
    (''jurisdiction_level'', ''programme_level''), (''parent_programme_id'', ''parent_programme_id''),
    (''rule_version'', ''rule_version''), (''effective_from'', ''effective_from''), (''effective_to'', ''effective_to''),
    (''last_rule_verified'', ''last_verified_at''), (''programme_status'', ''status''),
    (''scenario_spend_supported'', ''scenario_spend_supported''),
    (''scenario_spend_currency_policy'', ''scenario_spend_currency_policy''),
    (''qs_engine_type'', ''qs_engine_type''), (''qs_statutory_definition'', ''qs_basis''),
    (''qs_formula_version'', ''qs_formula_version''), (''eligible_cost_definition'', ''eligible_cost_definition''),
    (''excluded_cost_definition'', ''excluded_cost_definition''), (''minimum_spend_amount'', ''qualifying_spend_min''),
    (''minimum_spend_basis'', ''minimum_spend_basis''), (''qs_percentage_cap'', ''qualifying_spend_cap_pct''),
    (''qs_absolute_cap'', ''qualifying_spend_cap_amount''), (''base_rate'', ''rate_gross''),
    (''rate_tiers_json'', ''rate_tier_json''), (''uplift_rules_json'', ''uplift_rules_json''),
    (''effective_rate_method'', ''effective_rate_method''), (''credit_output_cap'', ''rebate_cap_amount''),
    (''per_person_cap_json'', ''per_person_cap_json''), (''annual_pool'', ''annual_pool''),
    (''annual_pool_type'', ''annual_pool_type''), (''foreign_producer_access'', ''foreign_producer_access''),
    (''foreign_producer_route'', ''foreign_producer_route''), (''local_entity_requirement'', ''local_entity_requirement''),
    (''cultural_or_points_test'', ''cultural_test_required''),
    (''application_timing_requirement'', ''application_timing_requirement''),
    (''preapproval_required'', ''preapproval_required''), (''stacking_allowed'', ''stacking_allowed''),
    (''stackable_with_json'', ''stackable_with''), (''assistance_treatment_json'', ''assistance_treatment_json''),
    (''calculation_order'', ''calculation_order''), (''mutual_exclusion_group'', ''mutual_exclusion_group''),
    (''source_verification_status'', ''verification_status''),
    (''calculation_verification_status'', ''calculation_verification_status''),
    (''bankability_research_status'', ''bankability_research_status''), (''official_authority'', ''authority''),
    (''official_source_url'', ''source_url''), (''legal_reference'', ''legal_reference''),
    (''report_qualification_text'', ''report_qualification_text''), (''report_warning_text'', ''report_warning_text''),
    (''missing_input_message'', ''missing_input_message''), (''confidence_display'', ''confidence_display'')]"

definition REUSED_COLUMNS :: "(string \<times> string) list" where
  "REUSED_COLUMNS = filter (\<lambda>(v2, column). column \<noteq> v2) V2_FIELD_MAP"

definition v2_column :: "string \<Rightarrow> exc + string" where
  "v2_column field = (case map_of V2_FIELD_MAP field of None \<Rightarrow> Inl (KeyError field) | Some column \<Rightarrow> Inr column)"

section \<open>Facts\<close>

lemma missing_empty:
  "missing_required_inputs engine supplied declared = [] \<longleftrightarrow>
     (\<forall>key \<in> set (case declared of Some keys \<Rightarrow> keys | None \<Rightarrow> engine_inputs (upper engine)).
        resolve_statutory_amount (lookup supplied key) \<noteq> None)"
  by (simp add: missing_required_inputs_def Let_def filter_empty_conv)

lemma numeric_statuses: "NUMERIC_STATUSES = [''ESTIMATED'', ''CONDITIONAL'']"
  by (simp add: NUMERIC_STATUSES_def CALCULATION_STATUSES_def)

lemma zero_is_known: "resolve_statutory_amount (PInt 0) = Some 0" "resolve_statutory_amount PNone = None"
  by (simp_all add: resolve_statutory_amount_def)

text \<open>Two fields of the specification never share a column.\<close>

lemma columns_distinct: "distinct (map snd V2_FIELD_MAP)"
  by (simp add: V2_FIELD_MAP_def)

end
