(* ===== verification/Statutory_Calculation.thy ===== *)
theory Statutory_Calculation
  imports Incentive_Contracts
begin

text \<open>
  \<open>app/modules/reports/statutory_calculation.py\<close>: the qualifying base of a programme, from the
  statutory figures the producer supplied. A row of \<open>incentive_programs\<close> and a scenario are dicts;
  the entries of \<open>calculation_inputs\<close> are dicts too, as the JSON column holds them. The sentences of
  \<open>notes\<close> are a datatype, one constructor for each, with the values it prints.
\<close>

section \<open>Engines\<close>

definition NON_SPEND_ENGINES :: "string list" where
  "NON_SPEND_ENGINES = [''INVESTOR_TAX_SHELTER'', ''COMPETITIVE_GRANT'', ''NO_PROGRAMME'']"

definition SINGLE_INPUT_ENGINES :: "(string \<times> string) list" where
  "SINGLE_INPUT_ENGINES = [
    (''ELIGIBLE_LOCAL_SPEND'', ''eligible_local_spend''),
    (''TIERED_SPEND'', ''eligible_local_spend''),
    (''QUALIFIED_LABOUR'', ''qualified_labour''),
    (''QAPE'', ''qape''),
    (''QNZPE'', ''qnzpe''),
    (''VFX_ONLY'', ''vfx_expenditure''),
    (''PDV_ONLY'', ''pdv_expenditure'')]"

definition SPEND_SEEDABLE_ENGINES :: "string list" where
  "SPEND_SEEDABLE_ENGINES = [''ELIGIBLE_LOCAL_SPEND'', ''TIERED_SPEND'']"

definition LOCAL_CORE :: string where
  "LOCAL_CORE = ''local_core_expenditure''"

definition GLOBAL_CORE :: string where
  "GLOBAL_CORE = ''global_core_expenditure''"

definition CORE_SEEDABLE_ENGINES :: "string list" where
  "CORE_SEEDABLE_ENGINES = [''CORE_LOWER_OF'']"

definition SEEDABLE_ENGINES :: "string list" where
  "SEEDABLE_ENGINES = SPEND_SEEDABLE_ENGINES @ CORE_SEEDABLE_ENGINES"

text \<open>\<open>str(v or '').strip().upper()\<close>.\<close>

definition engine_name :: "pyval \<Rightarrow> string" where
  "engine_name v = upper (strip (text_of (py_or v (PStr []))))"

definition engine_of :: "pydict \<Rightarrow> string" where
  "engine_of row = engine_name (lookup row ''qs_engine_type'')"

section \<open>Inputs\<close>

definition dict_set :: "pydict \<Rightarrow> string \<Rightarrow> pyval \<Rightarrow> pydict" where
  "dict_set d k v = dict_merge d [(k, v)]"

fun collect_inputs :: "pyval list \<Rightarrow> pydict \<Rightarrow> pydict" where
  "collect_inputs [] resolved = resolved"
| "collect_inputs (entry # entries) resolved =
     (let key = py_or (dget entry ''input_key'') (dget entry ''inputKey'') in
      collect_inputs entries (if truthy key then dict_set resolved (text_of key) (dget entry ''amount'') else resolved))"

definition supplied_inputs :: "pydict option \<Rightarrow> pydict" where
  "supplied_inputs scenario =
     (case scenario of
        None \<Rightarrow> []
      | Some s \<Rightarrow> collect_inputs (list_of (py_or (lookup s ''calculation_inputs'') (lookup s ''calculationInputs''))) [])"

definition or_alias :: "pydict \<Rightarrow> string \<Rightarrow> string \<Rightarrow> pyval" where
  "or_alias s k k' = (if lookup s k \<noteq> PNone then lookup s k else lookup s k')"

definition absent :: "pydict \<Rightarrow> string \<Rightarrow> bool" where
  "absent supplied key = (resolve_statutory_amount (lookup supplied key) = None)"

definition seed_cell :: "pydict \<Rightarrow> string \<Rightarrow> rat option \<Rightarrow> (string \<times> rat) list" where
  "seed_cell supplied key amount =
     (case amount of None \<Rightarrow> [] | Some x \<Rightarrow> if absent supplied key then [(key, x)] else [])"

definition seeded_cells :: "string \<Rightarrow> pydict \<Rightarrow> pydict \<Rightarrow> (string \<times> rat) list" where
  "seeded_cells engine scenario supplied =
     (let spend = resolve_statutory_amount (or_alias scenario ''scenario_spend'' ''scenarioSpend'') in
      if engine \<in> set SPEND_SEEDABLE_ENGINES
      then (case map_of SINGLE_INPUT_ENGINES engine of None \<Rightarrow> [] | Some key \<Rightarrow> seed_cell supplied key spend)
      else if engine \<in> set CORE_SEEDABLE_ENGINES
      then seed_cell supplied LOCAL_CORE spend
           @ seed_cell supplied GLOBAL_CORE
               (resolve_statutory_amount (or_alias scenario ''production_budget'' ''productionBudget''))
      else [])"

text \<open>The second component, \<open>tuple(sorted(seeded))\<close>: the keys in alphabetical order.\<close>

definition sorted_keys :: "(string \<times> rat) list \<Rightarrow> string list" where
  "sorted_keys cells = filter (\<lambda>k. k \<in> fst ` set cells) [''eligible_local_spend'', GLOBAL_CORE, LOCAL_CORE]"

definition seed_spend_from_scenario :: "string \<Rightarrow> pydict option \<Rightarrow> pydict \<Rightarrow> pydict \<times> string list" where
  "seed_spend_from_scenario engine scenario supplied =
     (let normalised = upper (strip engine) in
      case scenario of
        None \<Rightarrow> (supplied, [])
      | Some s \<Rightarrow>
        if s = [] \<or> normalised \<notin> set SEEDABLE_ENGINES then (supplied, [])
        else if py_or (lookup s ''scenario_spend_source'') (lookup s ''scenarioSpendSource'') \<noteq> PStr ''user_entered''
        then (supplied, [])
        else
         (let seeded = seeded_cells normalised s supplied in
          if seeded = [] then (supplied, [])
          else (dict_merge supplied (map (\<lambda>(k, x). (k, PFloat x)) seeded), sorted_keys seeded)))"

section \<open>The qualifying base\<close>

datatype spend_note =
    Global_limb_binds rat
  | Local_limb_binds rat
  | No_percentage_limit
  | Sum_of_buckets "string list"
  | Planning_assumptions "string list"
  | Percentage_cap rat
  | Fixed_cap

record qualifying_spend =
  amount :: rat
  spend_engine :: string
  inputs_used :: "(string \<times> rat) list"
  spend_notes :: "spend_note list"
  cap_applied :: "string option"

definition input_amount :: "pydict \<Rightarrow> string \<Rightarrow> rat option" where
  "input_amount supplied key = resolve_statutory_amount (lookup supplied key)"

text \<open>\<open>cap_pct is not None and 0 < cap_pct < 100\<close>.\<close>

definition limits_base :: "rat option \<Rightarrow> bool" where
  "limits_base cap_pct = (case cap_pct of None \<Rightarrow> False | Some p \<Rightarrow> 0 < p \<and> p < 100)"

text \<open>The base of an engine and the percentage still to apply to it.\<close>

type_synonym base_result = "qualifying_spend \<times> rat option"

definition core_lower_of :: "pydict \<Rightarrow> rat option \<Rightarrow> base_result option" where
  "core_lower_of supplied cap_pct =
     (case (input_amount supplied LOCAL_CORE, input_amount supplied GLOBAL_CORE) of
        (Some local, Some global_core) \<Rightarrow>
          (let used = [(LOCAL_CORE, local), (GLOBAL_CORE, global_core)] in
           if limits_base cap_pct then
            (let p = the cap_pct; ceiling' = global_core * (p / 100) in
             if ceiling' < local
             then Some (\<lparr>amount = min local ceiling', spend_engine = ''CORE_LOWER_OF'', inputs_used = used,
                    spend_notes = [Global_limb_binds p], cap_applied = Some ''percentage_of_global_core''\<rparr>, None)
             else Some (\<lparr>amount = min local ceiling', spend_engine = ''CORE_LOWER_OF'', inputs_used = used,
                    spend_notes = [Local_limb_binds p], cap_applied = None\<rparr>, None))
           else Some (\<lparr>amount = local, spend_engine = ''CORE_LOWER_OF'', inputs_used = used,
                    spend_notes = [No_percentage_limit], cap_applied = None\<rparr>, None))
      | _ \<Rightarrow> None)"

fun sum_buckets :: "pydict \<Rightarrow> string list \<Rightarrow> (rat \<times> (string \<times> rat) list) option" where
  "sum_buckets supplied [] = Some (0, [])"
| "sum_buckets supplied (key # keys) =
     (case input_amount supplied key of
        None \<Rightarrow> None
      | Some x \<Rightarrow> (case sum_buckets supplied keys of None \<Rightarrow> None | Some (total', used) \<Rightarrow> Some (x + total', (key, x) # used)))"

definition multi_bucket :: "pydict \<Rightarrow> string list option \<Rightarrow> rat option \<Rightarrow> base_result option" where
  "multi_bucket supplied declared_inputs cap_pct =
     (let buckets = (case declared_inputs of
            Some keys \<Rightarrow> if keys \<noteq> [] then keys else engine_inputs ''MULTI_BUCKET''
          | None \<Rightarrow> engine_inputs ''MULTI_BUCKET'') in
      if buckets = [] then None
      else (case sum_buckets supplied buckets of
          None \<Rightarrow> None
        | Some (total', used) \<Rightarrow> Some (\<lparr>amount = total', spend_engine = ''MULTI_BUCKET'', inputs_used = used,
             spend_notes = [Sum_of_buckets buckets], cap_applied = None\<rparr>, cap_pct)))"

definition single_input :: "string \<Rightarrow> pydict \<Rightarrow> rat option \<Rightarrow> base_result option" where
  "single_input engine supplied cap_pct =
     (case map_of SINGLE_INPUT_ENGINES engine of
        None \<Rightarrow> None
      | Some key \<Rightarrow>
         (case input_amount supplied key of
            None \<Rightarrow> None
          | Some x \<Rightarrow> Some (\<lparr>amount = x, spend_engine = engine, inputs_used = [(key, x)], spend_notes = [],
               cap_applied = None\<rparr>, cap_pct)))"

definition engine_base :: "string \<Rightarrow> pydict \<Rightarrow> string list option \<Rightarrow> rat option \<Rightarrow> base_result option" where
  "engine_base engine supplied declared_inputs cap_pct =
     (if engine = ''CORE_LOWER_OF'' then core_lower_of supplied cap_pct
      else if engine = ''MULTI_BUCKET'' then multi_bucket supplied declared_inputs cap_pct
      else single_input engine supplied cap_pct)"

definition apply_percentage_cap :: "rat option \<Rightarrow> qualifying_spend \<Rightarrow> qualifying_spend" where
  "apply_percentage_cap cap_pct q =
     (if limits_base cap_pct then
       (let p = the cap_pct; capped = amount q * (p / 100) in
        if capped < amount q
        then q\<lparr>amount := capped, cap_applied := Some ''percentage'', spend_notes := spend_notes q @ [Percentage_cap p]\<rparr>
        else q\<lparr>amount := capped\<rparr>)
      else q)"

definition apply_absolute_cap :: "rat option \<Rightarrow> qualifying_spend \<Rightarrow> qualifying_spend" where
  "apply_absolute_cap absolute_cap q =
     (case absolute_cap of
        None \<Rightarrow> q
      | Some cap \<Rightarrow>
        if cap > 0 \<and> amount q > cap
        then q\<lparr>amount := cap, cap_applied := Some ''absolute'', spend_notes := spend_notes q @ [Fixed_cap]\<rparr>
        else q)"

definition resolve_statutory_qualifying_spend ::
  "pydict \<Rightarrow> pydict option \<Rightarrow> string list option \<Rightarrow> rat option \<Rightarrow> qualifying_spend option" where
  "resolve_statutory_qualifying_spend row scenario declared_inputs absolute_cap =
     (let engine = engine_of row in
      if engine = [] \<or> engine \<in> set NON_SPEND_ENGINES then None
      else
       (case seed_spend_from_scenario engine scenario (supplied_inputs scenario) of (supplied, seeded) \<Rightarrow>
        if missing_required_inputs engine supplied declared_inputs \<noteq> [] then None
        else
         (case engine_base engine supplied declared_inputs (to_float (lookup row ''qualifying_spend_cap_pct'')) of
            None \<Rightarrow> None
          | Some (q, cap_pct) \<Rightarrow>
             (let q = (if seeded \<noteq> [] then q\<lparr>spend_notes := spend_notes q @ [Planning_assumptions seeded]\<rparr> else q) in
              Some (apply_absolute_cap absolute_cap (apply_percentage_cap cap_pct q))))))"

end
