(* ===== verification/Calculation_Status.thy ===== *)
theory Calculation_Status
  imports Statutory_Calculation
begin

text \<open>
  \<open>app/modules/reports/calculation_status.py\<close>: the status of the figure of a programme, and the
  mechanisms of \<open>app/modules/reports/helpers.py\<close> that never carry one. The estimate so far (\<open>est\<close>),
  the row of \<open>incentive_programs\<close> and the scenario are dicts; \<open>declared_inputs\<close> is what
  \<open>programme_required_inputs\<close> declares for the programme, \<open>None\<close> if it has no row there.
\<close>

section \<open>Labels\<close>

definition STATUS_LABELS :: "(string \<times> string) list" where
  "STATUS_LABELS = [
    (''ESTIMATED'', ''Calculated''),
    (''CONDITIONAL'', ''Conditional''),
    (''REQUIRES_COST_BREAKDOWN'', ''Needs a cost breakdown''),
    (''NOT_ELIGIBLE'', ''Not available to this production''),
    (''PROGRAMME_UNVERIFIED'', ''Rules not confirmed''),
    (''BLOCKED'', ''Awaiting internal approval''),
    (''SUSPENDED'', ''Programme not running''),
    (''NO_PROGRAMME'', ''No programme recorded'')]"

definition VERIFICATION_LABELS :: "(string \<times> string) list" where
  "VERIFICATION_LABELS = [
    (''ready'', ''Formula approved''),
    (''conditional'', ''Formula approved with conditions''),
    (''blocked'', ''Formula awaiting approval'')]"

definition STATUS_NEXT_STEP :: "(string \<times> string) list" where
  "STATUS_NEXT_STEP = [
    (''CONDITIONAL'', ''Confirm the assumptions listed against this programme to move from a scenario to a calculation.''),
    (''REQUIRES_COST_BREAKDOWN'', ''Supply the statutory cost figures this programme calculates from. Until then no amount is shown, because one would have to be invented.''),
    (''PROGRAMME_UNVERIFIED'', ''We are resolving conflicting or incomplete official sources for this programme.''),
    (''SUSPENDED'', ''The territory remains viable for location, crew and currency reasons. The incentive returns to the analysis if the programme reopens.'')]"

section \<open>Mechanisms that are not an entitlement\<close>

definition NON_ENTITLEMENT_ENGINES :: "string list" where
  "NON_ENTITLEMENT_ENGINES = [''INVESTOR_TAX_SHELTER'', ''COMPETITIVE_GRANT'', ''NO_PROGRAMME'']"

definition MECHANISM_NO_FIGURE_REASON :: "(string \<times> string) list" where
  "MECHANISM_NO_FIGURE_REASON = [
    (''INVESTOR_TAX_SHELTER'', ''This programme is an investor tax shelter, not a production rebate. The benefit is delivered to an investor through the tax system, so the headline percentage is not a rate this production can claim against its spend. Model the investment structure with a tax adviser.''),
    (''COMPETITIVE_GRANT'', ''This programme is a competitive award decided by the awarding body, not an entitlement. No amount can be calculated from production spend, and any published maximum is a ceiling on what could be granted rather than a figure to budget against.''),
    (''NO_PROGRAMME'', ''No claimable production incentive programme is recorded for this territory. The record exists to state that absence rather than to imply an unverified opportunity.'')]"

definition non_entitlement_mechanism :: "pyval \<Rightarrow> bool" where
  "non_entitlement_mechanism row =
     (case row of PDict d \<Rightarrow> engine_name (lookup d ''qs_engine_type'') \<in> set NON_ENTITLEMENT_ENGINES | _ \<Rightarrow> False)"

definition mechanism_no_figure_reason :: "pyval \<Rightarrow> string option" where
  "mechanism_no_figure_reason row =
     (case row of PDict d \<Rightarrow> map_of MECHANISM_NO_FIGURE_REASON (engine_name (lookup d ''qs_engine_type'')) | _ \<Rightarrow> None)"

section \<open>What the status reads\<close>

definition is_suspended :: "pydict \<Rightarrow> bool" where
  "is_suspended db_row =
     (lower (strip (text_of (py_or (lookup db_row ''status'') (PStr []))))
        \<in> {''suspended'', ''paused'', ''closed'', ''expired'', ''inactive''})"

definition status_engine_of :: "pydict \<Rightarrow> string" where
  "status_engine_of db_row = upper (strip (text_of (py_or (lookup db_row ''qs_engine_type'') (PStr []))))"

fun supply_entries :: "pyval list \<Rightarrow> pydict \<Rightarrow> pydict" where
  "supply_entries [] supplied = supplied"
| "supply_entries (entry # entries) supplied =
     (let key = py_or (dget entry ''input_key'') (dget entry ''inputKey'') in
      supply_entries entries (if truthy key then dict_set supplied (text_of key) (dget entry ''amount'') else supplied))"

definition scenario_inputs :: "pydict \<Rightarrow> pyval list" where
  "scenario_inputs scenario = list_of (py_or (lookup scenario ''calculation_inputs'') (lookup scenario ''calculationInputs''))"

definition status_supplied_inputs :: "pydict option \<Rightarrow> pydict" where
  "status_supplied_inputs scenario =
     (case scenario of None \<Rightarrow> [] | Some s \<Rightarrow> if s = [] then [] else supply_entries (scenario_inputs s) [])"

fun provenance_entries :: "pyval list \<Rightarrow> (string \<times> string) list \<Rightarrow> (string \<times> string) list" where
  "provenance_entries [] provenance = provenance"
| "provenance_entries (entry # entries) provenance =
     (let key = py_or (dget entry ''input_key'') (dget entry ''inputKey'');
          status = py_or (dget entry ''input_status'') (dget entry ''inputStatus'') in
      provenance_entries entries
        (if truthy key \<and> truthy status then AList.update (text_of key) (text_of status) provenance else provenance))"

definition provenance_of :: "pydict option \<Rightarrow> (string \<times> string) list" where
  "provenance_of scenario =
     (case scenario of None \<Rightarrow> [] | Some s \<Rightarrow> if s = [] then [] else provenance_entries (scenario_inputs s) [])"

text \<open>\<open>', '.join(keys)\<close> with the underscores of each key as blanks.\<close>

section \<open>The result\<close>

record calculation_result =
  calculationStatus :: string
  calculationStatusLabel :: string
  calculationStatusMeaning :: string
  calculationStatusReasons :: "string list"
  calculationStatusNextStep :: "string option"
  calculationCarriesFigure :: bool
  calculationInRanking :: bool
  calculationVerification :: string
  calculationVerificationLabel :: string
  calculationIsApproved :: bool

text \<open>Both subscripts are on status names that the tables have.\<close>

definition status_result :: "pydict \<Rightarrow> string list \<Rightarrow> string \<Rightarrow> string option \<Rightarrow> calculation_result" where
  "status_result db_row reasons status reason =
     (let spec = the (map_of CALCULATION_STATUSES status);
          verification = lower (strip (text_of (py_or (lookup db_row ''calculation_verification_status'') (PStr ''blocked'')))) in
      \<lparr>calculationStatus = status,
       calculationStatusLabel = the (map_of STATUS_LABELS status),
       calculationStatusMeaning = meaning spec,
       calculationStatusReasons = (case reason of None \<Rightarrow> reasons | Some r \<Rightarrow> if r = [] then reasons else reasons @ [r]),
       calculationStatusNextStep = map_of STATUS_NEXT_STEP status,
       calculationCarriesFigure = (status \<in> set NUMERIC_STATUSES),
       calculationInRanking = in_ranking spec,
       calculationVerification = verification,
       calculationVerificationLabel = (case map_of VERIFICATION_LABELS verification of
          Some l \<Rightarrow> l | None \<Rightarrow> the (map_of VERIFICATION_LABELS ''blocked'')),
       calculationIsApproved = (verification = CALCULATION_READY)\<rparr>)"

definition availability_reason :: "pyval \<Rightarrow> pyval" where
  "availability_reason reason = (case reason of PDict d \<Rightarrow> lookup d ''detail'' | _ \<Rightarrow> reason)"

definition availability_reasons :: "pyval \<Rightarrow> string list" where
  "availability_reasons availability =
     map text_of (filter truthy (map availability_reason (list_of (py_or (dget availability ''reasons'') (PList [])))))"

definition eligibility_reasons :: "pydict \<Rightarrow> string list" where
  "eligibility_reasons est = map text_of (list_of (py_or (lookup est ''incentiveEligibilityReasons'') (PList [])))"

definition unless_reasons :: "string list \<Rightarrow> string \<Rightarrow> string option" where
  "unless_reasons reasons text = (if reasons \<noteq> [] then None else Some text)"

text \<open>Steps 5 and 6: the figure needs its inputs, and rests on what they rest on.\<close>

definition input_status ::
  "pydict \<Rightarrow> pydict \<Rightarrow> pydict option \<Rightarrow> string list option \<Rightarrow> calculation_result" where
  "input_status est db_row scenario declared_inputs =
     (let engine = status_engine_of db_row in
      case (if engine \<noteq> [] then seed_spend_from_scenario engine scenario (status_supplied_inputs scenario)
            else (status_supplied_inputs scenario, [])) of (supplied, seeded) \<Rightarrow>
      let absent_keys = (if engine \<noteq> [] then missing_required_inputs engine supplied declared_inputs else []);
          provenance = foldl (\<lambda>p key. AList.update key ''planning_assumption'' p) (provenance_of scenario) seeded;
          reasons = eligibility_reasons est in
      if absent_keys \<noteq> []
      then status_result db_row [] ''REQUIRES_COST_BREAKDOWN''
             (Some (''Not yet supplied: '' @ comma_join (map spaced absent_keys) @ ''.''))
      else if list_ex (\<lambda>(_, v). v = ''planning_assumption'') provenance
      then status_result db_row [] ''CONDITIONAL''
             (Some ''One or more figures are planning assumptions rather than confirmed costs.'')
      else if lookup est ''incentiveIsConfirmed'' = PBool False
      then status_result db_row reasons ''CONDITIONAL''
             (unless_reasons reasons ''Eligibility for this programme is unresolved.'')
      else if engine = []
      then status_result db_row [] ''CONDITIONAL''
             (Some ''This programme has not yet been migrated to a statutory engine, so its figure is indicative.'')
      else status_result db_row [] ''ESTIMATED'' None)"

definition no_programme :: "pydict \<Rightarrow> bool" where
  "no_programme db_row =
     (db_row = [] \<or> status_engine_of db_row = ''NO_PROGRAMME'' \<or> \<not> truthy (lookup db_row ''program''))"

definition unavailable :: "pydict \<Rightarrow> bool" where
  "unavailable est = (dget (py_or (lookup est ''programmeEligibility'') (PDict [])) ''available'' = PBool False)"

definition ineligible :: "pydict \<Rightarrow> bool" where
  "ineligible est = (lookup est ''incentiveEligibilityStatus'' = PStr ''ineligible'')"

definition resolve_calculation_status ::
  "pydict \<Rightarrow> pydict \<Rightarrow> pydict option \<Rightarrow> string list option \<Rightarrow> calculation_result" where
  "resolve_calculation_status est db_row scenario declared_inputs =
     (if no_programme db_row
      then status_result db_row [] ''NO_PROGRAMME''
             (Some ''No claimable incentive programme is recorded for this territory.'')
      else if is_suspended db_row
      then status_result db_row [] ''SUSPENDED''
             (Some (text_of (lookup db_row ''program'') @ '' is not currently accepting claims.''))
      else if unavailable est
      then status_result db_row (availability_reasons (py_or (lookup est ''programmeEligibility'') (PDict [])))
             ''NOT_ELIGIBLE'' None
      else if ineligible est
      then (let reasons = eligibility_reasons est in
            status_result db_row reasons ''NOT_ELIGIBLE''
              (unless_reasons reasons ''This production does not meet a mandatory rule.''))
      else if status_engine_of db_row \<in> set NON_ENTITLEMENT_ENGINES
      then status_result db_row [] ''CONDITIONAL'' (mechanism_no_figure_reason (PDict db_row))
      else input_status est db_row scenario declared_inputs)"

end
