(* ===== verification/Figure_Properties.thy ===== *)
theory Figure_Properties
  imports Calculation_Status
begin

text \<open>
  What the calculator and the status of a programme promise each other: the status carries a figure
  exactly when the calculator has one, the figure stays within the inputs and the caps, and no
  input means no figure.
\<close>

section \<open>Two readings of the same scenario\<close>

lemma supply_entries_collect: "supply_entries entries d = collect_inputs entries d"
  by (induction entries d rule: supply_entries.induct) (simp_all add: Let_def)

lemma same_supplied_inputs: "status_supplied_inputs scenario = supplied_inputs scenario"
  by (auto simp: status_supplied_inputs_def supplied_inputs_def scenario_inputs_def supply_entries_collect
        split: option.split)

lemma same_engine: "status_engine_of db_row = engine_of db_row"
  by (simp add: status_engine_of_def engine_of_def engine_name_def)

text \<open>What the calculator and the status compute from, and what they count as missing.\<close>

definition calculation_inputs_of :: "pydict \<Rightarrow> pydict option \<Rightarrow> pydict" where
  "calculation_inputs_of db_row scenario =
     fst (seed_spend_from_scenario (engine_of db_row) scenario (supplied_inputs scenario))"

definition seeded_keys_of :: "pydict \<Rightarrow> pydict option \<Rightarrow> string list" where
  "seeded_keys_of db_row scenario =
     snd (seed_spend_from_scenario (engine_of db_row) scenario (supplied_inputs scenario))"

lemma seeding_pair:
  "seed_spend_from_scenario (engine_of db_row) scenario (supplied_inputs scenario)
     = (calculation_inputs_of db_row scenario, seeded_keys_of db_row scenario)"
  by (simp add: calculation_inputs_of_def seeded_keys_of_def)

section \<open>The base of an engine\<close>

text \<open>The keys an engine adds up or compares.\<close>

definition base_keys :: "string \<Rightarrow> string list option \<Rightarrow> string list" where
  "base_keys engine declared =
     (if engine = ''MULTI_BUCKET'' then (case declared of Some keys \<Rightarrow> keys | None \<Rightarrow> [])
      else engine_inputs engine)"

lemma sum_buckets_known:
  "(sum_buckets supplied keys \<noteq> None) \<longleftrightarrow> (\<forall>k \<in> set keys. input_amount supplied k \<noteq> None)"
  by (induction keys) (auto split: option.splits)

lemma sum_buckets_sum:
  "sum_buckets supplied keys = Some (x, used) \<Longrightarrow> x = sum_list (map snd used) \<and> map fst used = keys"
  by (induction keys arbitrary: x used) (auto split: option.splits)

lemma engine_inputs_simps:
  "engine_inputs ''CORE_LOWER_OF'' = [LOCAL_CORE, GLOBAL_CORE]"
  "engine_inputs ''MULTI_BUCKET'' = []"
  by (simp_all add: engine_inputs_def ENGINE_REQUIRED_INPUTS_def LOCAL_CORE_def GLOBAL_CORE_def)

lemma single_input_keys:
  assumes "map_of SINGLE_INPUT_ENGINES engine = Some key"
  shows "engine_inputs engine = [key] \<and> engine \<noteq> ''CORE_LOWER_OF'' \<and> engine \<noteq> ''MULTI_BUCKET''"
  using assms
  by (auto simp: SINGLE_INPUT_ENGINES_def engine_inputs_def ENGINE_REQUIRED_INPUTS_def split: if_splits)

definition spend_engines :: "string list" where
  "spend_engines = [''CORE_LOWER_OF'', ''MULTI_BUCKET''] @ map fst SINGLE_INPUT_ENGINES"

lemma core_lower_of_iff:
  "core_lower_of supplied pct \<noteq> None
     \<longleftrightarrow> (\<forall>k \<in> set (base_keys ''CORE_LOWER_OF'' declared). input_amount supplied k \<noteq> None)"
  by (auto simp: core_lower_of_def base_keys_def engine_inputs_simps Let_def split: option.split)

lemma multi_bucket_iff:
  "multi_bucket supplied declared pct \<noteq> None
     \<longleftrightarrow> (\<forall>k \<in> set (base_keys ''MULTI_BUCKET'' declared). input_amount supplied k \<noteq> None)
         \<and> base_keys ''MULTI_BUCKET'' declared \<noteq> []"
  using sum_buckets_known [of supplied "base_keys ''MULTI_BUCKET'' declared"]
  by (auto simp: multi_bucket_def base_keys_def engine_inputs_simps Let_def split: option.splits if_splits)

lemma single_input_iff:
  "engine \<noteq> ''CORE_LOWER_OF'' \<Longrightarrow> engine \<noteq> ''MULTI_BUCKET'' \<Longrightarrow>
   single_input engine supplied pct \<noteq> None
     \<longleftrightarrow> engine \<in> set spend_engines \<and> (\<forall>k \<in> set (base_keys engine declared). input_amount supplied k \<noteq> None)"
proof (cases "map_of SINGLE_INPUT_ENGINES engine")
  case None
  assume ne: "engine \<noteq> ''CORE_LOWER_OF''" "engine \<noteq> ''MULTI_BUCKET''"
  have "engine \<notin> set spend_engines"
    using None ne by (auto simp: spend_engines_def map_of_eq_None_iff)
  then show ?thesis using None by (simp add: single_input_def)
next
  case (Some key)
  have "engine \<in> set spend_engines"
    using map_of_SomeD [OF Some] by (force simp: spend_engines_def)
  then show ?thesis
    using Some single_input_keys [OF Some] by (auto simp: single_input_def base_keys_def split: option.split)
qed

lemma engine_base_iff:
  "engine_base engine supplied declared pct \<noteq> None
     \<longleftrightarrow> engine \<in> set spend_engines \<and> base_keys engine declared \<noteq> []
         \<and> (\<forall>k \<in> set (base_keys engine declared). input_amount supplied k \<noteq> None)"
proof -
  have keys: "engine \<in> set spend_engines \<Longrightarrow> engine \<noteq> ''MULTI_BUCKET'' \<Longrightarrow> base_keys engine declared \<noteq> []"
    by (auto simp: spend_engines_def base_keys_def SINGLE_INPUT_ENGINES_def engine_inputs_def ENGINE_REQUIRED_INPUTS_def)
  consider "engine = ''CORE_LOWER_OF''" | "engine = ''MULTI_BUCKET''"
    | "engine \<noteq> ''CORE_LOWER_OF''" "engine \<noteq> ''MULTI_BUCKET''" by blast
  then show ?thesis
  proof cases
    case 1
    then show ?thesis
      using keys core_lower_of_iff [of supplied pct declared]
      by (simp add: engine_base_def spend_engines_def)
  next
    case 2
    then show ?thesis
      using multi_bucket_iff [of supplied declared pct] by (auto simp: engine_base_def spend_engines_def)
  next
    case 3
    then show ?thesis
      using keys single_input_iff [OF 3, of supplied pct declared] by (auto simp: engine_base_def)
  qed
qed

section \<open>The calculator\<close>

lemma upper_char_idem: "upper_char (upper_char c) = upper_char c"
proof -
  have "(of_char (char_of ((of_char c :: nat) - 32)) :: nat) = of_char c - 32"
    if "(of_char c :: nat) \<le> 122"
    using that by (simp add: of_char_of)
  then show ?thesis
    by (auto simp: upper_char_def Let_def)
qed

lemma upper_engine: "upper (engine_of row) = engine_of row"
  by (simp add: engine_of_def engine_name_def upper_def upper_char_idem)

lemma missing_iff:
  "missing_required_inputs (engine_of row) supplied declared = [] \<longleftrightarrow>
     (\<forall>k \<in> set (case declared of Some keys \<Rightarrow> keys | None \<Rightarrow> engine_inputs (engine_of row)).
        input_amount supplied k \<noteq> None)"
  unfolding missing_empty upper_engine input_amount_def ..

lemma spend_engine_spends:
  "engine \<in> set spend_engines \<Longrightarrow> engine \<noteq> [] \<and> engine \<notin> set NON_SPEND_ENGINES"
  by (auto simp: spend_engines_def NON_SPEND_ENGINES_def SINGLE_INPUT_ENGINES_def)

lemma spend_engine_entitles:
  "engine \<in> set spend_engines \<Longrightarrow> engine \<noteq> [] \<and> engine \<notin> set NON_ENTITLEMENT_ENGINES"
  by (auto simp: spend_engines_def NON_ENTITLEMENT_ENGINES_def SINGLE_INPUT_ENGINES_def)

text \<open>The calculator as its guards and its base, once seeding is named.\<close>

definition finish_spend :: "string list \<Rightarrow> rat option \<Rightarrow> base_result \<Rightarrow> qualifying_spend" where
  "finish_spend seeded absolute_cap r =
     (case r of (q, cap_pct) \<Rightarrow>
       let q = (if seeded \<noteq> [] then q\<lparr>spend_notes := spend_notes q @ [Planning_assumptions seeded]\<rparr> else q) in
       apply_absolute_cap absolute_cap (apply_percentage_cap cap_pct q))"

lemma calculator_eq:
  "resolve_statutory_qualifying_spend row scenario declared cap =
     (if engine_of row = [] \<or> engine_of row \<in> set NON_SPEND_ENGINES
         \<or> missing_required_inputs (engine_of row) (calculation_inputs_of row scenario) declared \<noteq> [] then None
      else map_option (finish_spend (seeded_keys_of row scenario) cap)
             (engine_base (engine_of row) (calculation_inputs_of row scenario) declared
                (to_float (lookup row ''qualifying_spend_cap_pct''))))"
  by (auto simp: resolve_statutory_qualifying_spend_def seeding_pair finish_spend_def Let_def
        split: option.splits prod.splits)

lemma calculator_iff:
  "resolve_statutory_qualifying_spend row scenario declared cap \<noteq> None \<longleftrightarrow>
     engine_of row \<in> set spend_engines \<and> base_keys (engine_of row) declared \<noteq> []
     \<and> (\<forall>k \<in> set (base_keys (engine_of row) declared). input_amount (calculation_inputs_of row scenario) k \<noteq> None)
     \<and> missing_required_inputs (engine_of row) (calculation_inputs_of row scenario) declared = []"
proof -
  note iff = engine_base_iff [of "engine_of row" "calculation_inputs_of row scenario" declared
      "to_float (lookup row ''qualifying_spend_cap_pct'')"]
  note spends = spend_engine_spends [of "engine_of row"]
  show ?thesis
    unfolding calculator_eq using iff spends by auto
qed

section \<open>The status\<close>

text \<open>Every earlier step of the precedence is passed.\<close>

definition claimable :: "pydict \<Rightarrow> pydict \<Rightarrow> bool" where
  "claimable est db_row =
     (\<not> no_programme db_row \<and> \<not> is_suspended db_row \<and> \<not> unavailable est \<and> \<not> ineligible est)"

lemma status_result_simps [simp]:
  "calculationStatus (status_result db_row reasons status reason) = status"
  "calculationCarriesFigure (status_result db_row reasons status reason) = (status \<in> {''ESTIMATED'', ''CONDITIONAL''})"
  by (simp_all add: status_result_def Let_def numeric_statuses)

lemma input_status_cases:
  "calculationStatus (input_status est db_row scenario declared) \<in> {''ESTIMATED'', ''CONDITIONAL''}
     \<longleftrightarrow> engine_of db_row = [] \<or> missing_required_inputs (engine_of db_row) (calculation_inputs_of db_row scenario) declared = []"
  "calculationCarriesFigure (input_status est db_row scenario declared)
     \<longleftrightarrow> engine_of db_row = [] \<or> missing_required_inputs (engine_of db_row) (calculation_inputs_of db_row scenario) declared = []"
  by (auto simp: input_status_def Let_def same_engine same_supplied_inputs seeding_pair split: prod.splits)

lemma status_of_claimable:
  assumes "claimable est db_row" and "engine_of db_row \<notin> set NON_ENTITLEMENT_ENGINES"
  shows "resolve_calculation_status est db_row scenario declared = input_status est db_row scenario declared"
  using assms by (simp add: resolve_calculation_status_def claimable_def same_engine)

lemma figure_needs_claimable:
  assumes "calculationCarriesFigure (resolve_calculation_status est db_row scenario declared)"
  shows "claimable est db_row"
  using assms
  by (auto simp: resolve_calculation_status_def claimable_def Let_def split: if_splits)

section \<open>Seeding\<close>

lemma seed_cell_D: "(k, x) \<in> set (seed_cell supplied key a) \<Longrightarrow> k = key \<and> a = Some x"
  by (auto simp: seed_cell_def split: option.splits if_splits)

lemma unseeded:
  assumes "seeded_keys_of row scenario = []"
  shows "calculation_inputs_of row scenario = supplied_inputs scenario"
proof -
  have no_cells: "cells = []"
    if "sorted_keys cells = []" "cells = seeded_cells engine s supplied" for cells engine s supplied
  proof (rule ccontr)
    assume "cells \<noteq> []"
    then obtain k x where kx: "(k, x) \<in> set cells" by (cases cells) auto
    then have "k \<in> {''eligible_local_spend'', LOCAL_CORE, GLOBAL_CORE}"
      unfolding that(2) seeded_cells_def SPEND_SEEDABLE_ENGINES_def SINGLE_INPUT_ENGINES_def Let_def
      by (auto split: if_splits dest!: seed_cell_D)
    then have "k \<in> set (sorted_keys cells)"
      using kx by (force simp: sorted_keys_def)
    then show False using that(1) by simp
  qed
  show ?thesis
    using assms no_cells
    by (auto simp: calculation_inputs_of_def seeded_keys_of_def seed_spend_from_scenario_def Let_def
          split: option.splits if_splits)
qed

lemma unseeded_without_answer:
  assumes "\<And>s. scenario = Some s \<Longrightarrow>
      py_or (lookup s ''scenario_spend_source'') (lookup s ''scenarioSpendSource'') \<noteq> PStr ''user_entered''"
  shows "calculation_inputs_of row scenario = supplied_inputs scenario"
  using assms
  by (auto simp: calculation_inputs_of_def seed_spend_from_scenario_def Let_def split: option.splits)

text \<open>A status that carries a figure of an engine it is computed by says ESTIMATED when nothing was assumed.\<close>

lemma update_has_value: "(k, v) \<in> set (AList.update k v al)"
  by (induction al) auto

lemma foldl_update_keeps:
  "(k, v) \<in> set al \<Longrightarrow> (k, v) \<in> set (foldl (\<lambda>p key. AList.update key v p) al keys)"
proof (induction keys arbitrary: al)
  case (Cons key keys)
  have "(k, v) \<in> set (AList.update key v al)"
    using Cons.prems by (induction al) auto
  then show ?case using Cons.IH by simp
qed simp

lemma seeded_is_assumed:
  assumes "keys \<noteq> []"
  shows "list_ex (\<lambda>(_, v). v = a) (foldl (\<lambda>p key. AList.update key a p) al keys)"
proof -
  obtain k ks where keys: "keys = k # ks" using assms by (cases keys) auto
  have "(k, a) \<in> set (foldl (\<lambda>p key. AList.update key a p) al keys)"
    unfolding keys foldl.simps by (rule foldl_update_keeps [OF update_has_value])
  then show ?thesis by (force simp: list_ex_iff)
qed

lemma estimated_input_status:
  assumes "calculationStatus (input_status est db_row scenario declared) = ''ESTIMATED''"
  shows "engine_of db_row \<noteq> []
    \<and> missing_required_inputs (engine_of db_row) (calculation_inputs_of db_row scenario) declared = []
    \<and> seeded_keys_of db_row scenario = []"
  using assms seeded_is_assumed [of "seeded_keys_of db_row scenario" "''planning_assumption''" "provenance_of scenario"]
  by (auto simp: input_status_def Let_def same_engine same_supplied_inputs seeding_pair split: prod.splits if_splits)

section \<open>The amount\<close>

definition used_total :: "qualifying_spend \<Rightarrow> rat" where
  "used_total q = sum_list (map snd (inputs_used q))"

definition nonnegative_inputs :: "qualifying_spend \<Rightarrow> bool" where
  "nonnegative_inputs q = list_all (\<lambda>(_, x). 0 \<le> x) (inputs_used q)"

lemma cap_simps [simp]:
  "inputs_used (apply_absolute_cap c q) = inputs_used q"
  "inputs_used (apply_percentage_cap p q) = inputs_used q"
  "spend_engine (apply_absolute_cap c q) = spend_engine q"
  "spend_engine (apply_percentage_cap p q) = spend_engine q"
  by (auto simp: apply_absolute_cap_def apply_percentage_cap_def Let_def split: option.split)

text \<open>
  The limits a programme sets on the spend that qualifies, read off the inputs it was computed
  from: the statutory base, the percentage (of the global core expenditure for the lower-of
  engine), the fixed cap.
\<close>

definition statutory_base :: "qualifying_spend \<Rightarrow> rat" where
  "statutory_base q =
     (if spend_engine q = ''CORE_LOWER_OF'' then the (map_of (inputs_used q) LOCAL_CORE) else used_total q)"

definition percentage_base :: "qualifying_spend \<Rightarrow> rat" where
  "percentage_base q =
     (if spend_engine q = ''CORE_LOWER_OF'' then the (map_of (inputs_used q) GLOBAL_CORE) else used_total q)"

definition spend_limits :: "rat option \<Rightarrow> rat option \<Rightarrow> qualifying_spend \<Rightarrow> rat list" where
  "spend_limits pct cap q =
     statutory_base q # (if limits_base pct then [percentage_base q * (the pct / 100)] else [])
       @ (case cap of None \<Rightarrow> [] | Some c \<Rightarrow> if c > 0 then [c] else [])"

lemma core_lower_of_amount:
  assumes "core_lower_of supplied pct = Some (q, rest)"
  shows "rest = None \<and> spend_engine q = ''CORE_LOWER_OF'' \<and> map fst (inputs_used q) = [LOCAL_CORE, GLOBAL_CORE]
    \<and> amount q = (if limits_base pct then min (statutory_base q) (percentage_base q * (the pct / 100)) else statutory_base q)"
  using assms
  by (auto simp: core_lower_of_def Let_def statutory_base_def percentage_base_def LOCAL_CORE_def GLOBAL_CORE_def
        split: option.splits if_splits)

lemma other_base_amount:
  assumes "engine_base engine supplied declared pct = Some (q, rest)" and "engine \<noteq> ''CORE_LOWER_OF''"
  shows "rest = pct \<and> spend_engine q = engine \<and> map fst (inputs_used q) = base_keys engine declared
    \<and> amount q = used_total q"
proof (cases "engine = ''MULTI_BUCKET''")
  case True
  then show ?thesis
    using assms
    by (auto simp: engine_base_def multi_bucket_def Let_def engine_inputs_simps base_keys_def used_total_def
          split: option.splits if_splits dest!: sum_buckets_sum)
next
  case False
  then show ?thesis
    using assms
    by (auto simp: engine_base_def single_input_def used_total_def base_keys_def
          dest: single_input_keys split: option.splits)
qed

lemma core_engine_base: "engine_base ''CORE_LOWER_OF'' supplied declared pct = core_lower_of supplied pct"
  by (simp add: engine_base_def)

lemma cap_amount:
  "amount (apply_absolute_cap cap (apply_percentage_cap pct q)) =
     (let x = (if limits_base pct then amount q * (the pct / 100) else amount q) in
      case cap of None \<Rightarrow> x | Some c \<Rightarrow> if c > 0 then min c x else x)"
  by (auto simp: apply_absolute_cap_def apply_percentage_cap_def Let_def split: option.split)

lemma finish_simps:
  "inputs_used (finish_spend seeded cap (q, rest)) = inputs_used q"
  "spend_engine (finish_spend seeded cap (q, rest)) = spend_engine q"
  "amount (finish_spend seeded cap (q, rest)) = amount (apply_absolute_cap cap (apply_percentage_cap rest q))"
  by (simp_all add: finish_spend_def cap_amount Let_def split: option.split)

lemma finish_bases:
  "statutory_base (finish_spend seeded cap (q, rest)) = statutory_base q"
  "percentage_base (finish_spend seeded cap (q, rest)) = percentage_base q"
  by (simp_all add: statutory_base_def percentage_base_def used_total_def finish_simps)

lemma percentage_lowers:
  fixes x :: rat
  assumes "0 \<le> x" and "limits_base pct"
  shows "x * (the pct / 100) \<le> x \<and> 0 \<le> x * (the pct / 100)"
proof -
  obtain p where p: "pct = Some p" "0 < p" "p < 100"
    using assms(2) by (auto simp: limits_base_def split: option.splits)
  then have "0 \<le> p / 100" "p / 100 \<le> 1" by simp_all
  then show ?thesis
    using assms(1) mult_left_mono [of "p / 100" 1 x] by (simp add: p)
qed

lemma least_limit:
  fixes x :: rat
  assumes "x = (if limits_base pct then min (statutory_base q) (percentage_base q * (the pct / 100)) else statutory_base q)"
  shows "(case cap of None \<Rightarrow> x | Some c \<Rightarrow> if c > 0 then min c x else x) = Min (set (spend_limits pct cap q))"
proof (cases "limits_base pct")
  case True
  show ?thesis
    unfolding assms spend_limits_def by (cases cap) (simp_all add: True min.left_commute min.commute)
next
  case False
  show ?thesis
    unfolding assms spend_limits_def by (cases cap) (simp_all add: False min.commute)
qed

lemma used_total_nonneg: "nonnegative_inputs q \<Longrightarrow> 0 \<le> used_total q"
proof -
  have "list_all (\<lambda>(_, x). 0 \<le> x) us \<Longrightarrow> 0 \<le> sum_list (map snd us)" for us :: "(string \<times> rat) list"
    by (induction us) auto
  then show "nonnegative_inputs q \<Longrightarrow> 0 \<le> used_total q"
    by (simp add: nonnegative_inputs_def used_total_def)
qed

lemma nonnegative_finish: "nonnegative_inputs (finish_spend seeded cap (q, rest)) = nonnegative_inputs q"
  by (simp add: nonnegative_inputs_def finish_simps)

lemma calculator_base:
  assumes "resolve_statutory_qualifying_spend row scenario declared cap = Some q"
  obtains q0 rest where
    "engine_base (engine_of row) (calculation_inputs_of row scenario) declared
       (to_float (lookup row ''qualifying_spend_cap_pct'')) = Some (q0, rest)"
    and "q = finish_spend (seeded_keys_of row scenario) cap (q0, rest)"
  using assms unfolding calculator_eq by (auto split: if_splits)

text \<open>The amount is the least limit, for every engine.\<close>

lemma amount_is_least_limit:
  assumes "resolve_statutory_qualifying_spend row scenario declared cap = Some q"
    and "nonnegative_inputs q"
  shows "amount q = Min (set (spend_limits (to_float (lookup row ''qualifying_spend_cap_pct'')) cap q))"
proof -
  let ?pct = "to_float (lookup row ''qualifying_spend_cap_pct'')"
  obtain q0 rest where q0: "engine_base (engine_of row) (calculation_inputs_of row scenario) declared ?pct = Some (q0, rest)"
    and q: "q = finish_spend (seeded_keys_of row scenario) cap (q0, rest)"
    using assms(1) by (rule calculator_base)
  have lim: "spend_limits ?pct cap q = spend_limits ?pct cap q0"
    by (simp add: spend_limits_def q finish_bases)
  show ?thesis
  proof (cases "engine_of row = ''CORE_LOWER_OF''")
    case True
    note core = core_lower_of_amount [OF q0 [unfolded True core_engine_base]]
    then have "amount q0 = (if limits_base ?pct then min (statutory_base q0) (percentage_base q0 * (the ?pct / 100))
        else statutory_base q0)" and rest: "rest = None" by blast+
    from least_limit [OF this(1), of cap] show ?thesis
      by (simp only: lim) (simp add: q finish_simps cap_amount rest limits_base_def)
  next
    case False
    note other = other_base_amount [OF q0 False]
    then have bases: "statutory_base q0 = amount q0" "percentage_base q0 = amount q0"
      using False by (simp_all add: statutory_base_def percentage_base_def)
    have "0 \<le> amount q0"
      using assms(2) other used_total_nonneg [of q0] by (simp add: q nonnegative_finish)
    then have "(if limits_base ?pct then amount q0 * (the ?pct / 100) else amount q0)
        = (if limits_base ?pct then min (statutory_base q0) (percentage_base q0 * (the ?pct / 100)) else statutory_base q0)"
      using percentage_lowers [of "amount q0" ?pct] by (simp only: bases min_absorb2 split: if_split) simp
    then show ?thesis
      using least_limit [of _ ?pct q0 cap] other unfolding lim by (simp add: q finish_simps cap_amount Let_def)
  qed
qed

lemma Min_set_ge: "\<forall>x \<in> set xs. a \<le> x \<Longrightarrow> xs \<noteq> [] \<Longrightarrow> a \<le> Min (set xs)" for a :: rat
  by (subst Min_ge_iff) auto

lemma amount_positive:
  assumes "resolve_statutory_qualifying_spend row scenario declared cap = Some q"
    and "nonnegative_inputs q"
  shows "0 \<le> amount q"
proof -
  let ?pct = "to_float (lookup row ''qualifying_spend_cap_pct'')"
  obtain q0 rest where q0: "engine_base (engine_of row) (calculation_inputs_of row scenario) declared ?pct = Some (q0, rest)"
    and q: "q = finish_spend (seeded_keys_of row scenario) cap (q0, rest)"
    using assms(1) by (rule calculator_base)
  have used: "nonnegative_inputs q0"
    using assms(2) by (simp add: q nonnegative_finish)
  have "0 \<le> statutory_base q0 \<and> 0 \<le> percentage_base q0"
  proof (cases "engine_of row = ''CORE_LOWER_OF''")
    case True
    note core = core_lower_of_amount [OF q0 [unfolded True core_engine_base]]
    then obtain a b where "inputs_used q0 = [(LOCAL_CORE, a), (GLOBAL_CORE, b)]"
      by (auto simp: map_eq_Cons_conv)
    with core used show ?thesis
      by (simp add: nonnegative_inputs_def statutory_base_def percentage_base_def LOCAL_CORE_def GLOBAL_CORE_def)
  next
    case False
    then show ?thesis
      using other_base_amount [OF q0 False] used_total_nonneg [OF used] by (simp add: statutory_base_def percentage_base_def)
  qed
  then have "\<forall>x \<in> set (spend_limits ?pct cap q). 0 \<le> x"
    using percentage_lowers [of "percentage_base q" ?pct]
    by (auto simp: spend_limits_def q finish_bases split: option.splits if_splits)
  then show ?thesis
    unfolding amount_is_least_limit [OF assms]
    by (rule Min_set_ge) (simp add: spend_limits_def)
qed

section \<open>Properties\<close>

text \<open>
  C12: for a claimable programme of a spend engine whose declared inputs name what the engine
  computes from, the status carries a figure exactly when the calculator has one.
\<close>

theorem figure_promised_iff_calculated:
  assumes "claimable est row"
    and "engine_of row \<in> set spend_engines"
    and "case declared of None \<Rightarrow> engine_of row \<noteq> ''MULTI_BUCKET''
         | Some keys \<Rightarrow> keys \<noteq> [] \<and> set (engine_inputs (engine_of row)) \<subseteq> set keys"
  shows "calculationCarriesFigure (resolve_calculation_status est row scenario declared)
     \<longleftrightarrow> resolve_statutory_qualifying_spend row scenario declared cap \<noteq> None"
proof -
  let ?missing = "missing_required_inputs (engine_of row) (calculation_inputs_of row scenario) declared"
  have engine: "engine_of row \<noteq> []" "engine_of row \<notin> set NON_ENTITLEMENT_ENGINES"
    using spend_engine_entitles [OF assms(2)] by auto
  have keys: "base_keys (engine_of row) declared \<noteq> []"
    "set (base_keys (engine_of row) declared)
       \<subseteq> set (case declared of Some keys \<Rightarrow> keys | None \<Rightarrow> engine_inputs (engine_of row))"
    using assms(2,3)
    by (auto simp: base_keys_def spend_engines_def SINGLE_INPUT_ENGINES_def engine_inputs_def
        ENGINE_REQUIRED_INPUTS_def split: option.splits)
  have "calculationCarriesFigure (resolve_calculation_status est row scenario declared) \<longleftrightarrow> ?missing = []"
    using engine by (simp add: status_of_claimable [OF assms(1)] input_status_cases)
  also have "\<dots> \<longleftrightarrow> resolve_statutory_qualifying_spend row scenario declared cap \<noteq> None"
    unfolding calculator_iff missing_iff using keys assms(2) by blast
  finally show ?thesis .
qed

definition avec_row :: pydict where
  "avec_row = [(''program'', PStr ''AVEC''), (''qs_engine_type'', PStr ''core_lower_of''), (''status'', PStr ''active''),
     (''qualifying_spend_cap_pct'', PInt 80)]"

definition core_scenario :: "pyval \<Rightarrow> pyval \<Rightarrow> pydict option" where
  "core_scenario local global_core = Some [(''calculation_inputs'', PList [
     PDict [(''input_key'', PStr LOCAL_CORE), (''amount'', local), (''input_status'', PStr ''confirmed'')],
     PDict [(''input_key'', PStr GLOBAL_CORE), (''amount'', global_core), (''input_status'', PStr ''confirmed'')]])]"

lemma avec_engine: "engine_of avec_row = ''CORE_LOWER_OF''"
  by code_simp

lemmas avec_upper = upper_engine [of avec_row, unfolded avec_engine]

lemma avec_cap: "to_float (lookup avec_row ''qualifying_spend_cap_pct'') = Some 80"
  by (simp add: avec_row_def to_float_def)

lemma avec_claimable: "claimable [] avec_row"
  by code_simp

lemma core_scenario_inputs:
  "calculation_inputs_of avec_row (core_scenario a b) = [(LOCAL_CORE, a), (GLOBAL_CORE, b)]"
  "seeded_keys_of avec_row (core_scenario a b) = []"
proof -
  have "supplied_inputs (core_scenario a b) = [(LOCAL_CORE, a), (GLOBAL_CORE, b)]"
    by (simp add: supplied_inputs_def core_scenario_def LOCAL_CORE_def GLOBAL_CORE_def dict_set_def dict_merge_def
        has_key_def)
  moreover have "seed_spend_from_scenario e (core_scenario a b) supplied = (supplied, [])" for e supplied
    by (simp add: seed_spend_from_scenario_def core_scenario_def Let_def)
  ultimately show "calculation_inputs_of avec_row (core_scenario a b) = [(LOCAL_CORE, a), (GLOBAL_CORE, b)]"
    "seeded_keys_of avec_row (core_scenario a b) = []"
    by (simp_all add: calculation_inputs_of_def seeded_keys_of_def)
qed

lemma avec_spend:
  "resolve_statutory_qualifying_spend avec_row (core_scenario (PInt 4200000) (PInt 5000000)) None None
     = Some \<lparr>amount = 4000000, spend_engine = ''CORE_LOWER_OF'',
         inputs_used = [(LOCAL_CORE, 4200000), (GLOBAL_CORE, 5000000)],
         spend_notes = [Global_limb_binds 80], cap_applied = Some ''percentage_of_global_core''\<rparr>"
  by (simp add: calculator_eq avec_engine core_scenario_inputs NON_SPEND_ENGINES_def missing_required_inputs_def
      avec_upper engine_inputs_simps engine_base_def core_lower_of_def input_amount_def
      resolve_statutory_amount_def LOCAL_CORE_def GLOBAL_CORE_def
      avec_cap limits_base_def finish_spend_def apply_percentage_cap_def apply_absolute_cap_def Let_def)

theorem figure_promised_iff_calculated_witness:
  "calculationCarriesFigure (resolve_calculation_status [] avec_row (core_scenario (PInt 4200000) (PInt 5000000)) None)
   \<and> \<not> calculationCarriesFigure (resolve_calculation_status [] avec_row (core_scenario PNone (PInt 5000000)) None)"
proof -
  have spends: "engine_of avec_row \<in> set spend_engines" "engine_of avec_row \<noteq> ''MULTI_BUCKET''"
    by (simp_all add: avec_engine spend_engines_def)
  have "resolve_statutory_qualifying_spend avec_row (core_scenario PNone (PInt 5000000)) None None = None"
    by (simp add: calculator_eq avec_engine core_scenario_inputs engine_base_def core_lower_of_def input_amount_def
        resolve_statutory_amount_def LOCAL_CORE_def GLOBAL_CORE_def)
  then show ?thesis
    using figure_promised_iff_calculated [OF avec_claimable spends(1), of None _ None] spends(2) avec_spend by simp
qed

text \<open>
  C13: the qualifying spend is the least of the limits the programme sets: the statutory base, the
  recorded percentage of it (for the lower-of engine, of the global core expenditure) and the
  fixed cap. It is never negative when no input is.
\<close>

theorem spend_is_least_limit:
  assumes "resolve_statutory_qualifying_spend row scenario declared cap = Some q"
    and "nonnegative_inputs q"
  shows "amount q = Min (set (spend_limits (to_float (lookup row ''qualifying_spend_cap_pct'')) cap q)) \<and> 0 \<le> amount q"
  using amount_is_least_limit [OF assms] amount_positive [OF assms] ..

theorem spend_is_least_limit_witness:
  "Min (set (spend_limits (Some 80) None \<lparr>amount = 4000000, spend_engine = ''CORE_LOWER_OF'',
         inputs_used = [(LOCAL_CORE, 4200000), (GLOBAL_CORE, 5000000)],
         spend_notes = [Global_limb_binds 80], cap_applied = Some ''percentage_of_global_core''\<rparr>)) = 4000000"
  using spend_is_least_limit [OF avec_spend] unfolding avec_cap by (simp add: nonnegative_inputs_def)

lemma no_inputs_known:
  assumes "supplied_inputs scenario = []"
    and "\<And>s. scenario = Some s \<Longrightarrow>
      py_or (lookup s ''scenario_spend_source'') (lookup s ''scenarioSpendSource'') \<noteq> PStr ''user_entered''"
  shows "input_amount (calculation_inputs_of row scenario) key = None"
proof -
  have "calculation_inputs_of row scenario = supplied_inputs scenario"
    by (rule unseeded_without_answer) (rule assms(2))
  then show ?thesis
    using assms(1) by (simp add: input_amount_def resolve_statutory_amount_def)
qed

text \<open>
  C14: with no statutory figure supplied, and no territory spend that the producer typed, the
  calculator returns nothing for any programme and any declaration of inputs: a blank field never
  becomes a zero or a figure.
\<close>

theorem no_inputs_no_figure:
  assumes "supplied_inputs scenario = []"
    and "\<And>s. scenario = Some s \<Longrightarrow>
      py_or (lookup s ''scenario_spend_source'') (lookup s ''scenarioSpendSource'') \<noteq> PStr ''user_entered''"
  shows "resolve_statutory_qualifying_spend row scenario declared cap = None"
proof (rule ccontr)
  assume "resolve_statutory_qualifying_spend row scenario declared cap \<noteq> None"
  then obtain key where "key \<in> set (base_keys (engine_of row) declared)"
    and "\<forall>k \<in> set (base_keys (engine_of row) declared). input_amount (calculation_inputs_of row scenario) k \<noteq> None"
    unfolding calculator_iff by (metis list.set_intros(1) neq_Nil_conv)
  moreover have "input_amount (calculation_inputs_of row scenario) key = None"
    by (rule no_inputs_known) (fact assms)+
  ultimately show False by blast
qed

theorem no_inputs_no_figure_witness:
  "resolve_statutory_qualifying_spend avec_row (Some [(''scenario_spend_source'', PStr ''unknown''),
     (''scenario_spend'', PInt 0)]) None None = None"
  by (rule no_inputs_no_figure) (simp_all add: supplied_inputs_def)

text \<open>
  A status carries a figure only for a recorded programme that runs, that no eligibility
  verdict excludes, and whose required inputs are all known or stood in for.
\<close>

theorem figure_has_grounds:
  assumes "calculationCarriesFigure (resolve_calculation_status est row scenario declared)"
  shows "truthy (lookup row ''program'') \<and> \<not> is_suspended row \<and> \<not> unavailable est \<and> \<not> ineligible est
     \<and> (engine_of row = [] \<or> engine_of row \<in> set NON_ENTITLEMENT_ENGINES
        \<or> missing_required_inputs (engine_of row) (calculation_inputs_of row scenario) declared = [])"
proof -
  note grounds = figure_needs_claimable [OF assms]
  have "calculationCarriesFigure (input_status est row scenario declared)"
    if "engine_of row \<notin> set NON_ENTITLEMENT_ENGINES"
    using assms unfolding status_of_claimable [OF grounds that] .
  then show ?thesis
    using grounds unfolding claimable_def no_programme_def input_status_cases by blast
qed

theorem figure_has_grounds_witness:
  "truthy (lookup avec_row ''program'')
   \<and> missing_required_inputs (engine_of avec_row)
       (calculation_inputs_of avec_row (core_scenario (PInt 4200000) (PInt 5000000))) None = []"
proof -
  have entitles: "engine_of avec_row \<noteq> []" "engine_of avec_row \<notin> set NON_ENTITLEMENT_ENGINES"
    by (simp_all add: avec_engine NON_ENTITLEMENT_ENGINES_def)
  have "calculationCarriesFigure (resolve_calculation_status [] avec_row (core_scenario (PInt 4200000) (PInt 5000000)) None)"
    unfolding status_of_claimable [OF avec_claimable entitles(2)] input_status_cases
    by (simp add: avec_engine core_scenario_inputs missing_required_inputs_def avec_upper engine_inputs_simps
        resolve_statutory_amount_def LOCAL_CORE_def GLOBAL_CORE_def)
  then show ?thesis
    using figure_has_grounds [of "[]" avec_row] entitles by blast
qed

text \<open>
  A figure is called ESTIMATED only when it is computed from the supplied inputs alone: every
  one it requires is there and no scenario spend or budget stands in for any.
\<close>

theorem estimated_rests_on_supplied_inputs:
  assumes "calculationStatus (resolve_calculation_status est row scenario declared) = ''ESTIMATED''"
  shows "seeded_keys_of row scenario = [] \<and> calculation_inputs_of row scenario = supplied_inputs scenario
     \<and> missing_required_inputs (engine_of row) (supplied_inputs scenario) declared = []"
proof -
  have "calculationCarriesFigure (resolve_calculation_status est row scenario declared)
      \<and> engine_of row \<notin> set NON_ENTITLEMENT_ENGINES"
    using assms
    by (auto simp: resolve_calculation_status_def Let_def same_engine input_status_cases
        dest: estimated_input_status split: if_splits)
  then have "calculationStatus (input_status est row scenario declared) = ''ESTIMATED''"
    using assms status_of_claimable [OF figure_needs_claimable] by metis
  from estimated_input_status [OF this] show ?thesis
    using unseeded [of row scenario] by simp
qed

theorem estimated_rests_on_supplied_inputs_witness:
  "seeded_keys_of avec_row (core_scenario (PInt 4200000) (PInt 5000000)) = []"
  by (rule estimated_rests_on_supplied_inputs [THEN conjunct1, of "[]" _ _ None]) code_simp

text \<open>
  A programme of the bucket engine without a declaration of its buckets: its status is ESTIMATED,
  while the calculator has no figure for it, whatever was supplied.
\<close>

lemma undeclared_buckets:
  assumes "claimable est row" and "engine_of row = ''MULTI_BUCKET''"
    and "provenance_of scenario = []" and "lookup est ''incentiveIsConfirmed'' = PNone"
  shows "resolve_calculation_status est row scenario None = status_result row [] ''ESTIMATED'' None"
    and "resolve_statutory_qualifying_spend row scenario None cap = None"
proof -
  have seeded: "seeded_keys_of row scenario = []"
    by (simp add: seeded_keys_of_def seed_spend_from_scenario_def assms(2) SEEDABLE_ENGINES_def SPEND_SEEDABLE_ENGINES_def
        CORE_SEEDABLE_ENGINES_def Let_def upper_engine [of row, unfolded assms(2)] strip_def is_space_def split: option.split)
  have none: "missing_required_inputs (engine_of row) supplied None = []" for supplied
    unfolding missing_iff by (simp add: assms(2) engine_inputs_simps)
  have "input_status est row scenario None = status_result row [] ''ESTIMATED'' None"
    using assms(2-4) seeded none
    by (simp add: input_status_def Let_def same_engine same_supplied_inputs
        seeding_pair [of row scenario, unfolded assms(2)])
  then show "resolve_calculation_status est row scenario None = status_result row [] ''ESTIMATED'' None"
    using status_of_claimable [OF assms(1), of scenario None] by (simp add: assms(2) NON_ENTITLEMENT_ENGINES_def)
  show "resolve_statutory_qualifying_spend row scenario None cap = None"
    using calculator_iff [of row scenario None cap] by (simp add: assms(2) base_keys_def)
qed

end
