(* ===== verification/Calculation_Approval.thy ===== *)
theory Calculation_Approval
  imports Calculation_Status Query_Facts Sample_World "HOL-Library.Product_Lexorder"
begin

text \<open>
  \<open>CalculationApprovalService\<close> of \<open>app/modules/incentives/calculation_approval.py\<close>: the queue of
  programmes at a gate value with what each still needs, and the change of the gate. The blockers
  and the refusals are the sentences of the code. \<open>repr\<close> of a status or an identifier is the
  text in single quotes, as Python prints text without quotes and escapes.
\<close>

section \<open>Blockers\<close>

abbreviation PROGRAMMES :: string where
  "PROGRAMMES \<equiv> ''incentive_programs''"

abbreviation REQUIRED_INPUTS :: string where
  "REQUIRED_INPUTS \<equiv> ''programme_required_inputs''"

definition ALLOWED_STATUSES :: "string list" where
  "ALLOWED_STATUSES = [''ready'', ''conditional'', ''blocked'']"

definition MECHANISM_ENGINES :: "string list" where
  "MECHANISM_ENGINES = [''INVESTOR_TAX_SHELTER'', ''COMPETITIVE_GRANT'', ''NO_PROGRAMME'']"

definition no_engine_text :: string where
  "no_engine_text = ''No statutory engine recorded. There is no formula to approve.''"

definition undeclared_text :: "string \<Rightarrow> string list \<Rightarrow> string" where
  "undeclared_text engine keys =
     engine @ '' calculates from '' @ comma_join (map spaced keys)
     @ '', and this programme declares no required inputs. Approving it would let the engine run without asking for them.''"

definition no_source_text :: string where
  "no_source_text = ''No official source recorded, so the rates cannot be checked against the statute.''"

definition approval_blockers :: "row \<Rightarrow> pyval list \<Rightarrow> string list" where
  "approval_blockers r declared =
     (let engine = engine_name (r ''qs_engine_type'') in
      if engine = [] then [no_engine_text]
      else if engine \<in> set MECHANISM_ENGINES then []
      else
       (let needed = engine_inputs engine in
        (if needed \<noteq> [] \<and> declared = [] then [undeclared_text engine needed] else [])
        @ (if \<not> truthy (r ''source_url'') then [no_source_text] else [])))"

fun declare_rows :: "row list \<Rightarrow> (pyval \<Rightarrow> pyval list) \<Rightarrow> (pyval \<Rightarrow> pyval list)" where
  "declare_rows [] declared = declared"
| "declare_rows (r # rows) declared =
     declare_rows rows
       (if truthy (r ''programme_id'') \<and> truthy (r ''input_key'')
        then declared(r ''programme_id'' := declared (r ''programme_id'') @ [r ''input_key'']) else declared)"

definition declared_inputs :: "(pyval \<Rightarrow> pyval list) comp" where
  "declared_inputs =
     bindM (fetch (tq_select ''programme_id, input_key'' (tq REQUIRED_INPUTS))) (\<lambda>rows.
     ret (declare_rows rows (\<lambda>_. [])))"

section \<open>The queue\<close>

definition queue_columns :: string where
  "queue_columns =
     ''id, programme_id, program, territory, status, qs_engine_type, calculation_verification_status, calculation_verified_by, calculation_verified_at, calculation_verification_note, source_verification_status, source_url, last_verified_at''"

record queue_entry =
  entry_row :: row
  approvalBlockers :: "string list"
  canApprove :: bool

definition queue_entry_of :: "(pyval \<Rightarrow> pyval list) \<Rightarrow> row \<Rightarrow> queue_entry" where
  "queue_entry_of declared r =
     (let blockers = approval_blockers r (declared (r ''programme_id'')) in
      \<lparr>entry_row = r, approvalBlockers = blockers, canApprove = (blockers = [])\<rparr>)"

definition queue_key :: "queue_entry \<Rightarrow> bool \<times> string" where
  "queue_key e = (\<not> canApprove e, text_of (py_or (entry_row e ''territory'') (PStr [])))"

definition approval_queue :: "string \<Rightarrow> queue_entry list comp" where
  "approval_queue status =
     bindM (fetch (tq_eq ''calculation_verification_status'' (PStr status) (tq_select queue_columns (tq PROGRAMMES)))) (\<lambda>rows.
     bindM declared_inputs (\<lambda>declared.
     ret (sort_key queue_key (map (queue_entry_of declared) rows))))"

section \<open>The gate\<close>

definition quoted :: "string \<Rightarrow> string" where
  "quoted s = CHR 0x27 # s @ [CHR 0x27]"

fun blank_join :: "string list \<Rightarrow> string" where
  "blank_join [] = []"
| "blank_join [s] = s"
| "blank_join (s # t # ss) = s @ '' '' @ blank_join (t # ss)"

definition gate_payload :: "string \<Rightarrow> string \<Rightarrow> string \<Rightarrow> int \<Rightarrow> pydict" where
  "gate_payload status reviewer recorded_note now = [
     (''calculation_verification_status'', PStr status),
     (''calculation_verified_by'', PStr reviewer),
     (''calculation_verified_at'', PTime now),
     (''calculation_verification_note'', PStr recorded_note)]"

definition gate_result :: "string \<Rightarrow> row \<Rightarrow> string \<Rightarrow> string \<Rightarrow> string \<Rightarrow> int \<Rightarrow> pydict" where
  "gate_result programme_id r status reviewer recorded_note now = [
     (''programmeId'', PStr programme_id), (''program'', r ''program''), (''territory'', r ''territory''),
     (''previousStatus'', r ''calculation_verification_status''), (''status'', PStr status),
     (''reviewer'', PStr reviewer), (''note'', PStr recorded_note), (''verifiedAt'', PTime now)]"

definition set_status :: "string \<Rightarrow> string \<Rightarrow> string \<Rightarrow> string \<Rightarrow> bool \<Rightarrow> pydict comp" where
  "set_status programme_id status reviewer note force =
     (if status \<notin> set ALLOWED_STATUSES
      then throw (ApprovalRefused (''status must be one of '' @ comma_join ALLOWED_STATUSES @ '', got '' @ quoted status))
      else
       (let reviewer = strip reviewer; note = strip note in
        if reviewer = [] then throw (ApprovalRefused ''A promotion must name the reviewer making it.'')
        else if note = []
        then throw (ApprovalRefused
          ''A promotion must say what was checked. An unexplained approval cannot be reviewed later.'')
        else
         bindM (fetch (tq_eq ''programme_id'' (PStr programme_id) (tq_select ''*'' (tq PROGRAMMES)))) (\<lambda>rows.
         case rows of
           [] \<Rightarrow> throw (ApprovalRefused (''No programme with programme_id '' @ quoted programme_id))
         | r # _ \<Rightarrow>
           bindM (if status \<noteq> ''blocked'' \<and> \<not> force
                  then bindM declared_inputs (\<lambda>declared. ret (approval_blockers r (declared (PStr programme_id))))
                  else ret []) (\<lambda>blockers.
           if blockers \<noteq> [] then throw (ApprovalRefused (blank_join blockers))
           else
            (let recorded_note = (if \<not> force then note else ''[override] '' @ note) in
             bindM (gets clock) (\<lambda>now.
             thenM (run (tq_eq ''programme_id'' (PStr programme_id)
               (tq_update (gate_payload status reviewer recorded_note now) (tq PROGRAMMES))))
             (ret (gate_result programme_id r status reviewer recorded_note now))))))))"

end
