(* ===== verification/Approval_Properties.thy ===== *)
theory Approval_Properties
  imports Calculation_Approval Figure_Properties
begin

text \<open>
  The calculation gate: what may be approved, what the queue says of it, and what an approval is
  worth to the status and the calculator of \<open>Figure_Properties\<close>.
\<close>

section \<open>Reads\<close>

definition declared_keys :: "row list \<Rightarrow> pyval \<Rightarrow> pyval list" where
  "declared_keys rows p =
     (if truthy p then map (\<lambda>r. r ''input_key'') (filter (\<lambda>r. r ''programme_id'' = p \<and> truthy (r ''input_key'')) rows) else [])"

lemma declare_rows_keys: "declare_rows rows d p = d p @ declared_keys rows p"
  by (induction rows arbitrary: d) (auto simp: declared_keys_def)

abbreviation programmes :: "world \<Rightarrow> row list" where
  "programmes w \<equiv> tables w PROGRAMMES"

definition all_read :: "world \<Rightarrow> bool" where
  "all_read w \<longleftrightarrow> healthy w \<and> length (programmes w) \<le> max_rows w \<and> length (tables w REQUIRED_INPUTS) \<le> max_rows w"

lemma split_declared [simp]: "split_columns ''programme_id, input_key'' = [''programme_id'', ''input_key'']"
  by (simp add: split_simps)

lemma declare_projected:
  "declare_rows (map (project_row [''programme_id'', ''input_key'']) rows) d = declare_rows rows d"
  by (induction rows arbitrary: d) (simp_all add: project_row_def)

lemma declared_inputs_read:
  assumes "all_read w"
  shows "declared_inputs w = (Inr (declared_keys (tables w REQUIRED_INPUTS)), w)"
proof -
  have "fetch (tq_select ''programme_id, input_key'' (tq REQUIRED_INPUTS)) w
      = (Inr (map (project_row [''programme_id'', ''input_key'']) (tables w REQUIRED_INPUTS)), w)"
    using assms by (simp add: all_read_def query_eval world_simps healthy_def sql_def matches_def)
  then show ?thesis
    by (simp add: declared_inputs_def world_simps declare_projected declare_rows_keys fun_eq_iff)
qed

lemma programme_read:
  assumes "all_read w"
  shows "fetch (tq_eq ''programme_id'' (PStr p) (tq_select ''*'' (tq PROGRAMMES))) w
    = (Inr (rows_with w PROGRAMMES ''programme_id'' (PStr p)), w)"
proof -
  have "length (rows_with w PROGRAMMES ''programme_id'' (PStr p)) \<le> max_rows w"
    using assms le_trans [OF length_filter_le] by (fastforce simp: all_read_def)
  then show ?thesis
    using assms by (simp add: all_read_def query_eval world_simps healthy_def sql_def IncentiveProgrammes_table_def)
qed

section \<open>The gate\<close>

text \<open>What the module's comment asks of an approval.\<close>

definition approvable :: "world \<Rightarrow> row \<Rightarrow> bool" where
  "approvable w r \<longleftrightarrow>
     (let engine = engine_name (r ''qs_engine_type'') in
      engine \<noteq> [] \<and> (engine \<in> set MECHANISM_ENGINES
        \<or> (engine_inputs engine = [] \<or> declared_keys (tables w REQUIRED_INPUTS) (r ''programme_id'') \<noteq> [])
          \<and> truthy (r ''source_url'')))"

lemma no_blockers:
  "approval_blockers r (declared_keys (tables w REQUIRED_INPUTS) (r ''programme_id'')) = [] \<longleftrightarrow> approvable w r"
  by (simp add: approval_blockers_def approvable_def Let_def)

definition recorded :: "bool \<Rightarrow> string \<Rightarrow> string" where
  "recorded force note = (if force then ''[override] '' @ strip note else strip note)"

definition gated :: "world \<Rightarrow> string \<Rightarrow> pydict \<Rightarrow> world" where
  "gated w p cells = set_table PROGRAMMES (update_rows [F_eq ''programme_id'' (PStr p)] cells (programmes w)) w"

lemma gate_write:
  assumes "all_read w" and "cells = gate_payload status reviewer note now"
  shows "run (tq_eq ''programme_id'' (PStr p) (tq_update cells (tq PROGRAMMES))) w = (Inr (), gated w p cells)"
  unfolding gated_def assms(2)
  by (rule run_update_eq)
    (use assms(1) in \<open>auto simp: all_read_def table_defs gate_payload_def updatable_def not_null_def\<close>)

text \<open>A request that names a reviewer, says what was checked and asks for a known value.\<close>

definition well_formed_request :: "string \<Rightarrow> string \<Rightarrow> string \<Rightarrow> bool" where
  "well_formed_request status reviewer note \<longleftrightarrow>
     status \<in> set ALLOWED_STATUSES \<and> strip reviewer \<noteq> [] \<and> strip note \<noteq> []"

lemma set_status_eval:
  assumes "all_read w" and "well_formed_request status reviewer note"
    and "rows_with w PROGRAMMES ''programme_id'' (PStr p) = r # rs"
  shows "set_status p status reviewer note force w =
     (if status = ''blocked'' \<or> force \<or> approvable w r
      then (Inr (gate_result p r status (strip reviewer) (recorded force note) (clock w)),
            gated w p (gate_payload status (strip reviewer) (recorded force note) (clock w)))
      else (Inl (ApprovalRefused (blank_join (approval_blockers r (declared_keys (tables w REQUIRED_INPUTS) (PStr p))))), w))"
proof -
  have "r \<in> set (rows_with w PROGRAMMES ''programme_id'' (PStr p))" using assms(3) by simp
  then have pid: "r ''programme_id'' = PStr p" by simp
  note none = no_blockers [of r w, unfolded pid]
  note reads = programme_read [OF assms(1), of p, unfolded assms(3)] declared_inputs_read [OF assms(1)]
  show ?thesis
  proof (cases "status = ''blocked'' \<or> force")
    case True
    then show ?thesis
      using assms(2) gate_write [OF assms(1) refl]
      by (auto simp: set_status_def well_formed_request_def Let_def world_simps reads recorded_def)
  next
    case False
    then show ?thesis
      using assms(2) gate_write [OF assms(1) refl] none
      by (auto simp: set_status_def well_formed_request_def Let_def world_simps reads recorded_def)
  qed
qed

section \<open>The queue\<close>

definition queue_cols :: "string list" where
  "queue_cols = [''id'', ''programme_id'', ''program'', ''territory'', ''status'', ''qs_engine_type'',
     ''calculation_verification_status'', ''calculation_verified_by'', ''calculation_verified_at'',
     ''calculation_verification_note'', ''source_verification_status'', ''source_url'', ''last_verified_at'']"

lemma split_queue_columns: "split_columns queue_columns = queue_cols"
  by (simp add: split_simps queue_columns_def queue_cols_def)

lemma queue_read:
  assumes "all_read w"
  shows "approval_queue status w =
    (Inr (sort_key queue_key (map (queue_entry_of (declared_keys (tables w REQUIRED_INPUTS)))
       (map (project_row queue_cols) (rows_with w PROGRAMMES ''calculation_verification_status'' (PStr status))))), w)"
proof -
  have len: "length (rows_with w PROGRAMMES ''calculation_verification_status'' (PStr status)) \<le> max_rows w"
    using assms le_trans [OF length_filter_le] by (fastforce simp: all_read_def)
  have ne: "queue_columns \<noteq> []" "queue_columns \<noteq> ''*''"
    by (simp_all add: queue_columns_def)
  have "fetch (tq_eq ''calculation_verification_status'' (PStr status) (tq_select queue_columns (tq PROGRAMMES))) w
      = (Inr (map (project_row queue_cols) (rows_with w PROGRAMMES ''calculation_verification_status'' (PStr status))), w)"
    using assms len ne
    by (simp add: all_read_def query_eval world_simps healthy_def sql_def IncentiveProgrammes_table_def
        split_queue_columns [unfolded split_columns_def])
  then show ?thesis
    by (simp add: approval_queue_def world_simps declared_inputs_read [OF assms])
qed

lemma projected_blockers: "approval_blockers (project_row queue_cols r) d = approval_blockers r d"
  by (simp add: approval_blockers_def project_row_def queue_cols_def)

lemma projected_id: "project_row queue_cols r ''programme_id'' = r ''programme_id''"
  by (simp add: project_row_def queue_cols_def)

lemma queue_entry_can:
  "canApprove (queue_entry_of (declared_keys (tables w REQUIRED_INPUTS)) (project_row queue_cols r)) \<longleftrightarrow> approvable w r"
  by (simp add: queue_entry_of_def Let_def projected_blockers projected_id no_blockers)

section \<open>Runs of requests\<close>

record gate_request =
  rq_programme :: string
  rq_status :: string
  rq_reviewer :: string
  rq_note :: string
  rq_force :: bool

fun gate_run :: "gate_request list \<Rightarrow> world \<Rightarrow> world" where
  "gate_run [] w = w"
| "gate_run (q # qs) w =
     gate_run qs (snd (set_status (rq_programme q) (rq_status q) (rq_reviewer q) (rq_note q) (rq_force q) w))"

lemma set_status_cases:
  assumes "all_read w"
  obtains (unchanged) "snd (set_status p status reviewer note force w) = w"
  | (changed) r rs where "well_formed_request status reviewer note"
      and "rows_with w PROGRAMMES ''programme_id'' (PStr p) = r # rs"
      and "status = ''blocked'' \<or> force \<or> approvable w r"
      and "snd (set_status p status reviewer note force w)
         = gated w p (gate_payload status (strip reviewer) (recorded force note) (clock w))"
proof (cases "well_formed_request status reviewer note")
  case False
  then show ?thesis
    by (intro unchanged) (auto simp: set_status_def well_formed_request_def Let_def world_simps)
next
  case True
  show ?thesis
  proof (cases "rows_with w PROGRAMMES ''programme_id'' (PStr p)")
    case Nil
    note read = programme_read [OF assms, of p, unfolded Nil]
    show ?thesis
      using True by (intro unchanged) (simp add: set_status_def well_formed_request_def Let_def world_simps read)
  next
    case (Cons r rs)
    show ?thesis
      using set_status_eval [OF assms True Cons, of force] unchanged changed [OF True Cons] by (auto split: if_splits)
  qed
qed

text \<open>No two programmes share an identifier, and what an approval must rest on.\<close>

definition one_row_each :: "world \<Rightarrow> bool" where
  "one_row_each w \<longleftrightarrow> distinct (map (\<lambda>r. r ''programme_id'') (filter (\<lambda>r. r ''programme_id'' \<noteq> PNone) (programmes w)))"

definition attributed :: "row \<Rightarrow> bool" where
  "attributed r \<longleftrightarrow> strip (text_of (r ''calculation_verified_by'')) \<noteq> []
     \<and> strip (text_of (r ''calculation_verification_note'')) \<noteq> []"

definition overridden :: "row \<Rightarrow> bool" where
  "overridden r \<longleftrightarrow> starts_with ''[override] '' (text_of (r ''calculation_verification_note''))"

definition grounded :: "world \<Rightarrow> bool" where
  "grounded w \<longleftrightarrow> (\<forall>r \<in> set (programmes w).
     r ''calculation_verification_status'' \<in> {PStr ''ready'', PStr ''conditional''}
       \<longrightarrow> attributed r \<and> (overridden r \<or> approvable w r))"

lemma gated_simps [simp]:
  "programmes (gated w p cells) = update_rows [F_eq ''programme_id'' (PStr p)] cells (programmes w)"
  "tables (gated w p cells) REQUIRED_INPUTS = tables w REQUIRED_INPUTS"
  "healthy (gated w p cells) = healthy w" "max_rows (gated w p cells) = max_rows w"
  by (simp_all add: gated_def set_table_def)

lemma approvable_gated:
  "approvable (gated w p cells) r = approvable w r"
  "approvable w (set_cells (gate_payload status reviewer note now) r) = approvable w r"
  by (simp_all add: approvable_def gate_payload_def)

lemma strip_nonempty:
  assumes "c \<in> set s" and "\<not> is_space c"
  shows "strip s \<noteq> []"
proof -
  let ?t = "dropWhile is_space s"
  have t: "?t \<noteq> []" using assms by (auto simp: dropWhile_eq_Nil_conv)
  have "hd ?t \<in> set (rev ?t)" "\<not> is_space (hd ?t)"
    using t hd_dropWhile [of is_space s] by simp_all
  then have "dropWhile is_space (rev ?t) \<noteq> []"
    by (metis dropWhile_eq_Nil_conv)
  then show ?thesis by (simp add: strip_def)
qed

lemma strip_override: "strip (''[override] '' @ s) \<noteq> []"
  by (rule strip_nonempty [of "CHR ''o''"]) (simp_all add: is_space_def)

lemma same_identifier:
  assumes "one_row_each w" and "rows_with w PROGRAMMES ''programme_id'' (PStr p) = r # rs"
    and "x \<in> set (programmes w)" and "x ''programme_id'' = PStr p"
  shows "x = r"
proof -
  have "r \<in> set (rows_with w PROGRAMMES ''programme_id'' (PStr p))" using assms(2) by simp
  then have r: "r \<in> set (filter (\<lambda>r. r ''programme_id'' \<noteq> PNone) (programmes w))" "r ''programme_id'' = PStr p" by auto
  have x: "x \<in> set (filter (\<lambda>r. r ''programme_id'' \<noteq> PNone) (programmes w))" using assms(3,4) by simp
  have inj: "inj_on (\<lambda>r. r ''programme_id'') (set (filter (\<lambda>r. r ''programme_id'' \<noteq> PNone) (programmes w)))"
    using assms(1) unfolding one_row_each_def distinct_map by blast
  show ?thesis
    by (rule inj_onD [OF inj _ x r(1)]) (simp add: r(2) assms(4))
qed

lemma gated_identifiers:
  "one_row_each (gated w p (gate_payload status reviewer note now)) = one_row_each w"
proof -
  have "map (\<lambda>r. r ''programme_id'') (filter (\<lambda>r. r ''programme_id'' \<noteq> PNone) (update_rows fs (gate_payload status reviewer note now) rs))
      = map (\<lambda>r. r ''programme_id'') (filter (\<lambda>r. r ''programme_id'' \<noteq> PNone) rs)" for fs rs
    by (induction rs) (auto simp: update_rows_def gate_payload_def)
  then show ?thesis by (simp add: one_row_each_def)
qed

lemma gated_grounded:
  assumes "grounded w" and "one_row_each w"
    and "rows_with w PROGRAMMES ''programme_id'' (PStr p) = r # rs"
    and "well_formed_request status reviewer note"
    and "status = ''blocked'' \<or> force \<or> approvable w r"
  shows "grounded (gated w p (gate_payload status (strip reviewer) (recorded force note) now))"
proof -
  let ?cells = "gate_payload status (strip reviewer) (recorded force note) now"
  have only: "x = r" if "x \<in> set (programmes w)" "x ''programme_id'' = PStr p" for x
    using same_identifier [OF assms(2,3) that] .
  have new: "attributed (set_cells ?cells r) \<and> (overridden (set_cells ?cells r) \<or> approvable w r)"
    if "set_cells ?cells r ''calculation_verification_status'' \<in> {PStr ''ready'', PStr ''conditional''}"
  proof -
    have "status \<noteq> ''blocked''" using that by (auto simp: gate_payload_def)
    then show ?thesis
      using assms(4,5) strip_override [of "strip note"]
      by (auto simp: attributed_def overridden_def gate_payload_def recorded_def well_formed_request_def starts_with_def)
  qed
  show ?thesis
    unfolding grounded_def
  proof (intro ballI impI)
    fix x
    assume x: "x \<in> set (programmes (gated w p ?cells))"
      "x ''calculation_verification_status'' \<in> {PStr ''ready'', PStr ''conditional''}"
    then consider (other) "x \<in> set (programmes w)" | (same) "x = set_cells ?cells r"
      using only by (auto simp: update_rows_def)
    then show "attributed x \<and> (overridden x \<or> approvable (gated w p ?cells) x)"
    proof cases
      case other
      then show ?thesis using assms(1) x(2) unfolding grounded_def approvable_gated by blast
    next
      case same
      then show ?thesis using new x(2) unfolding approvable_gated same by blast
    qed
  qed
qed

lemma gate_run_grounded:
  assumes "all_read w" and "one_row_each w" and "grounded w"
  shows "all_read (gate_run requests w) \<and> one_row_each (gate_run requests w) \<and> grounded (gate_run requests w)"
  using assms
proof (induction requests arbitrary: w)
  case (Cons q qs)
  let ?w = "snd (set_status (rq_programme q) (rq_status q) (rq_reviewer q) (rq_note q) (rq_force q) w)"
  have "all_read ?w \<and> one_row_each ?w \<and> grounded ?w"
  proof (cases rule: set_status_cases [OF Cons.prems(1), of "rq_programme q" "rq_status q" "rq_reviewer q" "rq_note q" "rq_force q"])
    case 1
    then show ?thesis using Cons.prems by simp
  next
    case (2 r rs)
    then show ?thesis
      using Cons.prems gated_grounded [OF Cons.prems(3,2) 2(2,1,3)]
      by (simp add: all_read_def gated_identifiers update_rows_def del: gated_simps(1)) (simp add: update_rows_def)
  qed
  then show ?case using Cons.IH [of ?w] by simp
qed simp

section \<open>Properties\<close>

definition sample_programme :: row where
  "sample_programme = lookup [(''id'', PStr ''1''), (''programme_id'', PStr ''credit''), (''program'', PStr ''Credit''),
     (''territory'', PStr ''UK''), (''source_url'', PStr ''https://gov.example''), (''qs_engine_type'', PStr ''QAPE''),
     (''calculation_verification_status'', PStr ''blocked'')]"

definition sample_input :: row where
  "sample_input = lookup [(''id'', PStr ''1''), (''programme_id'', PStr ''credit''), (''input_key'', PStr ''qape'')]"

definition approval_world :: "row list \<Rightarrow> row list \<Rightarrow> world" where
  "approval_world rows inputs = sample_world [(PROGRAMMES, rows), (REQUIRED_INPUTS, inputs)]"

lemma approval_world_simps [simp]:
  "programmes (approval_world rows inputs) = rows"
  "tables (approval_world rows inputs) REQUIRED_INPUTS = inputs"
  by (simp_all add: approval_world_def)

lemma sample_engine: "engine_name (PStr ''QAPE'') = ''QAPE''"
  by code_simp

lemma approval_world_read:
  "length rows \<le> 1000 \<Longrightarrow> length inputs \<le> 1000 \<Longrightarrow> all_read (approval_world rows inputs)"
  by (simp add: all_read_def approval_world_def)

text \<open>
  C40: Over any run of gate requests, refused ones included, and as long as the queries read every row
  and an identifier names one row, no programme is ever \<open>ready\<close> or \<open>conditional\<close>
  without a named reviewer and a note, and unless the note is marked as an override
  the programme has an engine that gives no figure, or a formula to approve, with a source and, where
  the contract lists inputs for the engine, declared inputs.
\<close>

theorem approvals_stay_grounded:
  assumes "all_read w" and "one_row_each w" and "grounded w"
  shows "grounded (gate_run requests w)"
  using gate_run_grounded [OF assms] by blast

lemma sample_strips: "strip ''ann'' = ''ann''" "strip ''checked'' = ''checked''" "strip ''1'' = ''1''"
  by (simp_all add: strip_def is_space_def)

lemma sample_request: "well_formed_request ''ready'' ''ann'' ''checked''"
  by (simp add: well_formed_request_def ALLOWED_STATUSES_def sample_strips)

lemma sample_approvable:
  "approvable (approval_world [sample_programme] [sample_input]) sample_programme"
  by (simp add: approvable_def sample_programme_def sample_input_def sample_engine MECHANISM_ENGINES_def
      engine_inputs_def ENGINE_REQUIRED_INPUTS_def declared_keys_def)

lemma sample_rows: "rows_with (approval_world [sample_programme] inputs) PROGRAMMES ''programme_id'' (PStr ''credit'') = [sample_programme]"
  by (simp add: sample_programme_def)

theorem approvals_stay_grounded_witness:
  "grounded (gate_run [\<lparr>rq_programme = ''credit'', rq_status = ''ready'', rq_reviewer = ''ann'', rq_note = ''checked'',
     rq_force = False\<rparr>] (approval_world [sample_programme] [sample_input]))"
  by (rule approvals_stay_grounded)
    (simp_all add: approval_world_read one_row_each_def grounded_def, simp_all add: sample_programme_def)

text \<open>
  The queue agrees with the gate: its entries are the programmes at the asked value, those
  that can be approved before the others, and an entry says it can be approved exactly when an
  approval of it without override succeeds.
\<close>

theorem queue_agrees_with_gate:
  assumes "all_read w" and "one_row_each w" and "well_formed_request ''ready'' reviewer note"
    and "r \<in> set (programmes w)" and "r ''programme_id'' = PStr p"
    and "r ''calculation_verification_status'' = PStr status"
  shows "\<exists>es e. approval_queue status w = (Inr es, w) \<and> sorted (map queue_key es) \<and> e \<in> set es
     \<and> entry_row e ''programme_id'' = PStr p
     \<and> (canApprove e \<longleftrightarrow> (\<exists>res. fst (set_status p ''ready'' reviewer note False w) = Inr res))"
proof -
  let ?entry = "queue_entry_of (declared_keys (tables w REQUIRED_INPUTS))"
  let ?es = "sort_key queue_key (map ?entry (map (project_row queue_cols)
    (rows_with w PROGRAMMES ''calculation_verification_status'' (PStr status))))"
  let ?e = "?entry (project_row queue_cols r)"
  have "r \<in> set (rows_with w PROGRAMMES ''programme_id'' (PStr p))" using assms(4,5) by simp
  then obtain r' rs where rows: "rows_with w PROGRAMMES ''programme_id'' (PStr p) = r' # rs"
    by (cases "rows_with w PROGRAMMES ''programme_id'' (PStr p)") auto
  then have "r = r'" by (rule same_identifier [OF assms(2) _ assms(4,5)])
  then have gate: "(\<exists>res. fst (set_status p ''ready'' reviewer note False w) = Inr res) \<longleftrightarrow> approvable w r"
    using set_status_eval [OF assms(1,3) rows, of False] by simp
  have "?e \<in> set ?es" using assms(4,6) by auto
  moreover have "entry_row ?e ''programme_id'' = PStr p"
    by (simp add: queue_entry_of_def Let_def projected_id assms(5))
  moreover have "canApprove ?e \<longleftrightarrow> approvable w r" by (rule queue_entry_can)
  moreover have "sorted (map queue_key ?es)" by (rule sorted_sort_key)
  ultimately show ?thesis
    using queue_read [OF assms(1), of status] gate by blast
qed

theorem queue_agrees_with_gate_witness:
  "\<exists>es e. approval_queue ''blocked'' (approval_world [sample_programme] [sample_input])
        = (Inr es, approval_world [sample_programme] [sample_input]) \<and> sorted (map queue_key es) \<and> e \<in> set es
     \<and> entry_row e ''programme_id'' = PStr ''credit''
     \<and> (canApprove e \<longleftrightarrow> (\<exists>res. fst (set_status ''credit'' ''ready'' ''ann'' ''checked'' False
           (approval_world [sample_programme] [sample_input])) = Inr res))"
  by (rule queue_agrees_with_gate [OF approval_world_read _ sample_request, where r = sample_programme])
    (simp_all add: one_row_each_def, simp_all add: sample_programme_def)

text \<open>The row of a programme as the dict the report reads.\<close>

definition row_dict :: "row \<Rightarrow> pydict" where
  "row_dict r = map (\<lambda>c. (c, r c)) (table_columns IncentiveProgrammes_table)"

lemma lookup_row_dict [simp]:
  "c \<in> set (table_columns IncentiveProgrammes_table) \<Longrightarrow> lookup (row_dict r) c = r c"
  by (auto simp: row_dict_def lookup_def map_of_map_restrict split: option.split)

lemma row_dict_nonempty [simp]: "row_dict r \<noteq> []"
  by (simp add: row_dict_def IncentiveProgrammes_table_def)

lemma ready_text: "lower (strip ''ready'') = ''ready''"
  by code_simp

text \<open>
  The gate approves a programme of the bucket engine that declares no bucket, though a
  programme must declare its inputs first; from then on the report calls its figure ESTIMATED and
  its formula approved, while the calculator has no figure for it, whatever the producer supplied.
\<close>

theorem approved_without_buckets:
  assumes "all_read w" and "well_formed_request ''ready'' reviewer note"
    and "rows_with w PROGRAMMES ''programme_id'' (PStr p) = [r]"
    and "declared_keys (tables w REQUIRED_INPUTS) (PStr p) = []"
    and "engine_name (r ''qs_engine_type'') = ''MULTI_BUCKET''" and "truthy (r ''source_url'')"
    and "truthy (r ''program'')" and "\<not> is_suspended (row_dict r)"
    and "\<not> unavailable est" and "\<not> ineligible est" and "lookup est ''incentiveIsConfirmed'' = PNone"
    and "provenance_of scenario = []"
  shows "\<exists>res w' r'. set_status p ''ready'' reviewer note False w = (Inr res, w')
     \<and> rows_with w' PROGRAMMES ''programme_id'' (PStr p) = [r']
     \<and> calculationIsApproved (resolve_calculation_status est (row_dict r') scenario None)
     \<and> calculationStatus (resolve_calculation_status est (row_dict r') scenario None) = ''ESTIMATED''
     \<and> resolve_statutory_qualifying_spend (row_dict r') scenario None cap = None"
proof -
  let ?cells = "gate_payload ''ready'' (strip reviewer) (recorded False note) (clock w)"
  let ?r = "set_cells ?cells r"
  have "r \<in> set (rows_with w PROGRAMMES ''programme_id'' (PStr p))" using assms(3) by simp
  then have pid: "r ''programme_id'' = PStr p" by simp
  have "approvable w r"
    using assms(5,6) by (simp add: approvable_def MECHANISM_ENGINES_def engine_inputs_simps)
  then have set: "set_status p ''ready'' reviewer note False w
      = (Inr (gate_result p r ''ready'' (strip reviewer) (recorded False note) (clock w)), gated w p ?cells)"
    using set_status_eval [OF assms(1-3), of False] by simp
  have row: "rows_with (gated w p ?cells) PROGRAMMES ''programme_id'' (PStr p) = [?r]"
    using rows_with_updated [of ?cells "''programme_id''" "PStr p" "programmes w"] assms(3)
    by (simp add: gate_payload_def)
  have keep: "?r c = r c" if "\<not> has_key ?cells c" for c
    using that by (simp add: set_cells_def has_key_map_of)
  have engine: "engine_of (row_dict ?r) = ''MULTI_BUCKET''"
    using assms(5) by (simp add: engine_of_def IncentiveProgrammes_table_def gate_payload_def)
  have "claimable est (row_dict ?r)"
    using assms(7-10) engine
    by (simp add: claimable_def no_programme_def is_suspended_def same_engine IncentiveProgrammes_table_def gate_payload_def
        row_dict_nonempty)
  note figure = undeclared_buckets [OF this engine assms(12,11)]
  have "calculationIsApproved (status_result (row_dict ?r) [] ''ESTIMATED'' None)"
    by (simp add: status_result_def Let_def CALCULATION_READY_def IncentiveProgrammes_table_def gate_payload_def ready_text)
  then show ?thesis
    using set row figure by (auto simp: status_result_simps)
qed

definition bucket_programme :: row where
  "bucket_programme = lookup [(''id'', PStr ''2''), (''programme_id'', PStr ''pool''), (''program'', PStr ''Pool''),
     (''source_url'', PStr ''https://gov.example''), (''qs_engine_type'', PStr ''MULTI_BUCKET''),
     (''calculation_verification_status'', PStr ''blocked'')]"

theorem approved_without_buckets_witness:
  "\<exists>res w' r'. set_status ''pool'' ''ready'' ''ann'' ''checked'' False (approval_world [bucket_programme] []) = (Inr res, w')
     \<and> rows_with w' PROGRAMMES ''programme_id'' (PStr ''pool'') = [r']
     \<and> calculationIsApproved (resolve_calculation_status [] (row_dict r') None None)
     \<and> calculationStatus (resolve_calculation_status [] (row_dict r') None None) = ''ESTIMATED''
     \<and> resolve_statutory_qualifying_spend (row_dict r') None None None = None"
proof (rule approved_without_buckets [OF approval_world_read sample_request, where r = bucket_programme])
  show "engine_name (bucket_programme ''qs_engine_type'') = ''MULTI_BUCKET''" by code_simp
  show "\<not> is_suspended (row_dict bucket_programme)" by code_simp
qed (simp_all add: bucket_programme_def declared_keys_def unavailable_def ineligible_def provenance_of_def)

end
