(* ===== verification/Incentive_Units.thy ===== *)
theory Incentive_Units
  imports Incentive_Contracts
begin

text \<open>
  \<open>app/modules/incentives/v2_units.py\<close>: rates are stored as percentages and calculated with as
  fractions; this is the boundary between the two. A refusal (\<open>UnitError\<close>) is a value of
  \<open>unit_error\<close>, one constructor per sentence of the code.
\<close>

datatype unit_error =
    Boolean_rate
  | Not_a_number pyval
  | Negative_rate rat
  | Above_hundred_percent rat
  | Above_one rat
  | Absent_rate

definition MAX_PERCENT :: rat where
  "MAX_PERCENT = 100"

definition MAX_FRACTION :: rat where
  "MAX_FRACTION = 1"

definition EPSILON :: rat where
  "EPSILON = 1 / 10 ^ 9"

definition rstrip_percent :: "string \<Rightarrow> string" where
  "rstrip_percent s = rev (dropWhile (\<lambda>c. c = CHR ''%'') (rev s))"

definition coerce_rate :: "pyval \<Rightarrow> unit_error + rat option" where
  "coerce_rate v =
     (case v of
        PNone \<Rightarrow> Inr None
      | PBool _ \<Rightarrow> Inl Boolean_rate
      | PInt i \<Rightarrow> Inr (Some (of_int i))
      | PFloat x \<Rightarrow> Inr (Some x)
      | PStr s \<Rightarrow>
          (let text = filter (\<lambda>c. c \<noteq> CHR '','') (rstrip_percent (strip s)) in
           if text = [] then Inr None
           else (case parse_float text of None \<Rightarrow> Inl (Not_a_number v) | Some x \<Rightarrow> Inr (Some x)))
      | _ \<Rightarrow> Inl (Not_a_number v))"

definition percent_to_fraction :: "pyval \<Rightarrow> unit_error + rat option" where
  "percent_to_fraction v =
     (case coerce_rate v of
        Inl e \<Rightarrow> Inl e
      | Inr None \<Rightarrow> Inr None
      | Inr (Some number) \<Rightarrow>
          if number < 0 then Inl (Negative_rate number)
          else if number > MAX_PERCENT + EPSILON then Inl (Above_hundred_percent number)
          else Inr (Some (number / 100)))"

definition fraction_to_percent :: "pyval \<Rightarrow> unit_error + rat option" where
  "fraction_to_percent v =
     (case coerce_rate v of
        Inl e \<Rightarrow> Inl e
      | Inr None \<Rightarrow> Inr None
      | Inr (Some number) \<Rightarrow>
          if number < 0 then Inl (Negative_rate number)
          else if number > MAX_FRACTION + EPSILON then Inl (Above_one number)
          else Inr (Some (number * 100)))"

definition apply_rate :: "rat \<Rightarrow> pyval \<Rightarrow> unit_error + rat" where
  "apply_rate base rate_percent =
     (case percent_to_fraction rate_percent of
        Inl e \<Rightarrow> Inl e
      | Inr None \<Rightarrow> Inl Absent_rate
      | Inr (Some fraction) \<Rightarrow> Inr (base * fraction))"

definition apply_cap_percent :: "rat \<Rightarrow> pyval \<Rightarrow> unit_error + rat" where
  "apply_cap_percent base cap_percent =
     (case percent_to_fraction cap_percent of
        Inl e \<Rightarrow> Inl e
      | Inr None \<Rightarrow> Inr base
      | Inr (Some fraction) \<Rightarrow> Inr (base * fraction))"

definition looks_like_a_fraction :: "pyval \<Rightarrow> unit_error + bool" where
  "looks_like_a_fraction v =
     (case coerce_rate v of
        Inl e \<Rightarrow> Inl e
      | Inr None \<Rightarrow> Inr False
      | Inr (Some number) \<Rightarrow> Inr (0 < number \<and> number \<le> MAX_FRACTION))"

section \<open>The two conversions\<close>

lemma percent_accepted:
  "percent_to_fraction (PFloat x) = Inr (Some (x / 100)) \<longleftrightarrow> 0 \<le> x \<and> x \<le> 100 + 1 / 10 ^ 9"
  by (auto simp: percent_to_fraction_def coerce_rate_def MAX_PERCENT_def EPSILON_def)

lemma fraction_accepted:
  "fraction_to_percent (PFloat x) = Inr (Some (x * 100)) \<longleftrightarrow> 0 \<le> x \<and> x \<le> 1 + 1 / 10 ^ 9"
  by (auto simp: fraction_to_percent_def coerce_rate_def MAX_FRACTION_def EPSILON_def)

lemma percent_accepted_value:
  assumes "percent_to_fraction v = Inr (Some x)"
  shows "coerce_rate v = Inr (Some (x * 100)) \<and> 0 \<le> x \<and> x * 100 \<le> 100 + 1 / 10 ^ 9"
  using assms
  by (auto simp: percent_to_fraction_def MAX_PERCENT_def EPSILON_def split: sum.splits option.splits if_splits)

text \<open>
  A stored percentage that converts to a fraction converts back to the number it was read as,
  for every spelling of it; and a fraction converts to a percentage and back unless it lies in the
  part of the tolerance above 1 that the percentage bound, a hundred times narrower, refuses.
\<close>

theorem rates_round_trip:
  assumes "percent_to_fraction v = Inr (Some x)" and "fraction_to_percent (PFloat y) = Inr (Some p)"
  shows "fraction_to_percent (PFloat x) = coerce_rate v
     \<and> (percent_to_fraction (PFloat p) = Inr (Some y) \<longleftrightarrow> y \<le> 1 + 1 / 10 ^ 11)"
proof -
  note v = percent_accepted_value [OF assms(1)]
  have p: "p = y * 100" "0 \<le> y"
    using assms(2) by (auto simp: fraction_to_percent_def coerce_rate_def split: if_splits)
  have "fraction_to_percent (PFloat x) = Inr (Some (x * 100))"
    unfolding fraction_accepted using v by simp
  moreover have "percent_to_fraction (PFloat p) = Inr (Some y) \<longleftrightarrow> y \<le> 1 + 1 / 10 ^ 11"
    using percent_accepted [of p] p by auto
  ultimately show ?thesis using v by simp
qed

theorem rates_round_trip_witness:
  "fraction_to_percent (PFloat (9 / 25)) = Inr (Some 36)
   \<and> percent_to_fraction (PFloat (100 + 5 / 10 ^ 8)) \<noteq> Inr (Some (1 + 5 / 10 ^ 10))"
proof -
  have v: "percent_to_fraction (PInt 36) = Inr (Some (9 / 25))" "coerce_rate (PInt 36) = Inr (Some 36)"
    by (simp_all add: percent_to_fraction_def coerce_rate_def MAX_PERCENT_def EPSILON_def)
  have y: "fraction_to_percent (PFloat (1 + 5 / 10 ^ 10)) = Inr (Some (100 + 5 / 10 ^ 8))"
    by (simp add: fraction_to_percent_def coerce_rate_def MAX_FRACTION_def EPSILON_def)
  show ?thesis
    using rates_round_trip [OF v(1) y] v(2) by simp
qed

end
