(* ===== verification/Grant_Contracts.thy ===== *)
theory Grant_Contracts
  imports Python_Text
begin

text \<open>
  \<open>app/modules/grants/v2_contracts.py\<close>: the vocabulary, weights and display limits of the funding
  engine; and the results it builds, \<open>app/modules/grants/schemas_v2.py\<close>. A field that may be
  \<open>None\<close> is an option; the constant version texts of the payload are left out.
\<close>

section \<open>Vocabulary\<close>

definition ROUTING_GRANTS :: string where
  "ROUTING_GRANTS = ''GRANTS_FUNDS''"

definition ACTIONABLE_STATUSES :: "string list" where
  "ACTIONABLE_STATUSES = [''OPEN_CURRENT_ROUND'', ''ROLLING'', ''CYCLE_BASED'', ''CURRENT_PROGRAMME'']"

definition NON_ACTIONABLE_STATUSES :: "string list" where
  "NON_ACTIONABLE_STATUSES = [''CLOSED_CURRENT_ROUND'', ''SUSPENDED'', ''INVITE_ONLY'', ''ROUTED_OUT'']"

datatype status_rule =
    Contains string
  | Equals string
  | Starts string
  | One_of "string list"

definition STATUS_RULES :: "(status_rule \<times> string) list" where
  "STATUS_RULES = [
    (Contains ''hiatus'', ''SUSPENDED''),
    (Equals ''no applications currently open'', ''CLOSED_CURRENT_ROUND''),
    (Contains ''closed'', ''CLOSED_CURRENT_ROUND''),
    (One_of [''open_until_budget_expended''], ''ROLLING''),
    (Contains ''rolling'', ''ROLLING''),
    (One_of [''opening_soon'', ''upcoming'', ''next_round_scheduled'', ''2027_deadline_tbc''], ''UPCOMING''),
    (Starts ''opens_'', ''UPCOMING''),
    (Starts ''next_cycle'', ''UPCOMING''),
    (Equals ''unknown'', ''UNKNOWN''),
    (Equals ''incentive_route'', ''ROUTED_OUT''),
    (Starts ''invite_only'', ''INVITE_ONLY''),
    (One_of [''festival_selection_dependent'', ''conditional_follow_on''], ''CONDITIONAL''),
    (Contains ''open'', ''OPEN_CURRENT_ROUND''),
    (Contains ''round'', ''CYCLE_BASED''),
    (Contains ''session'', ''CYCLE_BASED''),
    (Contains ''call'', ''CYCLE_BASED''),
    (Contains ''cycle'', ''CYCLE_BASED''),
    (One_of [''current'', ''verified_current'', ''current_programme'', ''current_2026_programme'', ''current programme'',
       ''active'', ''active_by_commissions''], ''CURRENT_PROGRAMME'')]"

datatype deadline_kind = ISO_DATE | ISO_MONTH_PARTIAL | ROLLING | TBC | FREE_TEXT | UNKNOWN

definition CLOSING_SOON_DAYS :: int where
  "CLOSING_SOON_DAYS = 90"

definition STALE_FLAG_MONTHS :: rat where
  "STALE_FLAG_MONTHS = 4"

definition STALE_EXCLUDE_MONTHS :: rat where
  "STALE_EXCLUDE_MONTHS = 6"

section \<open>Scores and caveats\<close>

text \<open>The reason codes of the signals, and the arguments of their labels.\<close>

datatype signal =
    TERRITORY_CONSIDERED
  | SCRIPT_ORIGIN_TERRITORY
  | GLOBAL_OPEN
  | CONTINENT_AFFINITY
  | GENRE_OVERLAP
  | SPECIALISED_FORMAT
  | BUDGET_FIT_VERIFIED
  | NATIONALITY_HOME
  | NATIONALITY_ROUTE_ONLY
  | REQUIRED_REGION_FIT

fun SCORE_WEIGHTS :: "signal \<Rightarrow> rat" where
  "SCORE_WEIGHTS TERRITORY_CONSIDERED = 3"
| "SCORE_WEIGHTS SCRIPT_ORIGIN_TERRITORY = 3"
| "SCORE_WEIGHTS GLOBAL_OPEN = 1 / 2"
| "SCORE_WEIGHTS CONTINENT_AFFINITY = 1"
| "SCORE_WEIGHTS GENRE_OVERLAP = 2"
| "SCORE_WEIGHTS SPECIALISED_FORMAT = 1"
| "SCORE_WEIGHTS BUDGET_FIT_VERIFIED = 2"
| "SCORE_WEIGHTS NATIONALITY_HOME = 2"
| "SCORE_WEIGHTS NATIONALITY_ROUTE_ONLY = -1"
| "SCORE_WEIGHTS REQUIRED_REGION_FIT = 1"

text \<open>A label with its argument filled in.\<close>

fun SCORE_REASON_LABELS :: "signal \<Rightarrow> string \<Rightarrow> string" where
  "SCORE_REASON_LABELS TERRITORY_CONSIDERED x = x @ '' is a production territory you are considering''"
| "SCORE_REASON_LABELS SCRIPT_ORIGIN_TERRITORY x = x @ '' is where your script is predominantly set''"
| "SCORE_REASON_LABELS GLOBAL_OPEN x = ''open to productions worldwide''"
| "SCORE_REASON_LABELS CONTINENT_AFFINITY x = ''open across '' @ x @ '', which includes your production territories''"
| "SCORE_REASON_LABELS GENRE_OVERLAP x = ''accepts '' @ x"
| "SCORE_REASON_LABELS SPECIALISED_FORMAT x = ''specifically funds '' @ x @ '' projects''"
| "SCORE_REASON_LABELS BUDGET_FIT_VERIFIED x = ''your budget sits inside this fund'' @ [CHR 0x27] @ ''s verified range''"
| "SCORE_REASON_LABELS NATIONALITY_HOME x = ''nationality requirement met '' @ EM_DASH @ '' you are based in '' @ x"
| "SCORE_REASON_LABELS NATIONALITY_ROUTE_ONLY x =
     ''restricted to '' @ x @ '' entities '' @ EM_DASH @ '' a local co-production structure would be required''"
| "SCORE_REASON_LABELS REQUIRED_REGION_FIT x = ''within this fund'' @ [CHR 0x27] @ ''s '' @ x @ '' remit''"

text \<open>The sentences of \<open>CAVEATS\<close> the engine attaches, by their codes.\<close>

datatype caveat =
    NOT_COMMITTED_FINANCE
  | SELECTIVE_SUPPORT
  | AMOUNT_NOT_VERIFIED
  | POOL_NOT_PER_PROJECT
  | CYCLE_UNVERIFIED
  | ROLLING_NO_DEADLINE
  | NEXT_CYCLE_TBC
  | VERIFICATION_AGEING
  | APPLICANT_STRUCTURE_REQUIRED
  | TREATY_ROUTE_NOT_CERTIFICATION

fun CAVEATS :: "caveat \<Rightarrow> string" where
  "CAVEATS NOT_COMMITTED_FINANCE =
     ''Matched opportunity, not committed finance. Treat as finance only once awarded and contracted.''"
| "CAVEATS SELECTIVE_SUPPORT = ''Selective support '' @ EM_DASH @ '' a match is not an award.''"
| "CAVEATS AMOUNT_NOT_VERIFIED = ''No verified per-project amount published for this programme.''"
| "CAVEATS POOL_NOT_PER_PROJECT = ''The figure stated is a total call pool, not a per-project maximum.''"
| "CAVEATS CYCLE_UNVERIFIED = ''Current round and next dates are not verified '' @ EM_DASH
     @ '' confirm on the official source before relying on this.''"
| "CAVEATS ROLLING_NO_DEADLINE = ''Rolling programme '' @ EM_DASH @ '' no fixed deadline.''"
| "CAVEATS NEXT_CYCLE_TBC = ''Next cycle dates are not yet published.''"
| "CAVEATS VERIFICATION_AGEING = ''Record last verified more than four months ago '' @ EM_DASH @ '' re-verify before use.''"
| "CAVEATS APPLICANT_STRUCTURE_REQUIRED = ''Requires a qualifying applicant entity '' @ EM_DASH
     @ '' confirm your company structure.''"
| "CAVEATS TREATY_ROUTE_NOT_CERTIFICATION = ''A treaty route identified is not co-production certification and not an award.''"

section \<open>Display limits\<close>

definition GRANT_DISPLAY_LIMITS :: "(string \<times> nat) list" where
  "GRANT_DISPLAY_LIMITS = [(''free'', 5), (''single'', 5), (''professional'', 5), (''producer'', 10), (''studio'', 10)]"

definition DEFAULT_GRANT_DISPLAY_LIMIT :: nat where
  "DEFAULT_GRANT_DISPLAY_LIMIT = 5"

text \<open>A missing package is the empty text, which the code treats alike.\<close>

definition display_limit :: "string \<Rightarrow> nat" where
  "display_limit package =
     (if package = [] then DEFAULT_GRANT_DISPLAY_LIMIT
      else (case map_of GRANT_DISPLAY_LIMITS (lower (strip package)) of Some n \<Rightarrow> n | None \<Rightarrow> DEFAULT_GRANT_DISPLAY_LIMIT))"

section \<open>Results\<close>

record hard_gate_result =
  gate :: string
  passed :: bool
  reason_code :: string
  reason :: "string option"
  tested :: bool

record score_component =
  score_code :: signal
  points :: rat
  detail :: string

record verification_state =
  record_verified :: "bool option"
  official_source_verified :: "bool option"
  current_cycle_verified :: "bool option"
  verified_at :: "int option"
  composite_state :: string
  staleness_days :: "int option"

record display =
  programme_title :: string
  funding_body :: "string option"
  display_territory :: "string option"
  amount :: "string option"
  deadline :: "string option"
  official_source :: "string option"
  amount_value :: "rat option"
  amount_currency :: "string option"
  amount_is_per_project :: "bool option"
  deadline_state :: deadline_kind
  deadline_date :: "int option"
  days_until_deadline :: "int option"
  opportunity_type :: "string option"
  production_stages :: "string list"
  eligible_formats :: "string list"
  key_rule :: "string option"
  eligibility_summary :: "string option"
  badges :: "string list"

record treaty_context =
  treaty_route_identified :: bool
  treaty_status :: string
  treaty_route :: "string option"
  treaty_note :: "string option"

datatype eligibility_status = ELIGIBLE | INELIGIBLE | CONDITIONAL | CURRENT_CYCLE_UNVERIFIED

record project_echo =
  echo_format :: "string option"
  echo_budget_usd :: "rat option"
  echo_territories :: "string list"

record match_result =
  opportunity_id :: string
  eligibility_status :: eligibility_status
  hard_gate_results :: "hard_gate_result list"
  raw_score :: rat
  score_components :: "score_component list"
  portfolio_rank :: "nat option"
  match_reasons :: "string list"
  caveats :: "string list"
  verification :: verification_state
  display_fields :: display
  source_project_facts :: "project_echo option"
  co_production_context :: "treaty_context option"

definition is_presentable :: "match_result \<Rightarrow> bool" where
  "is_presentable r = (eligibility_status r \<noteq> INELIGIBLE)"

definition is_actionable :: "match_result \<Rightarrow> bool" where
  "is_actionable r = (eligibility_status r = ELIGIBLE)"

text \<open>\<open>x or ''\<close> of an optional text.\<close>

definition or_empty :: "string option \<Rightarrow> string" where
  "or_empty x = (case x of Some s \<Rightarrow> s | None \<Rightarrow> [])"

end
