(* ===== verification/Grant_Portfolio.thy ===== *)
theory Grant_Portfolio
  imports Grant_Contracts "HOL-Library.Multiset" "HOL-Library.Product_Lexorder" "HOL-Library.List_Lexorder"
    "HOL-Library.Char_ord" "HOL-Library.Sublist"
begin

text \<open>
  \<open>app/modules/grants/portfolio.py\<close>: the order in which funding opportunities are presented.
  Titles are UTF-8, so the em dash of the code is its three bytes.
\<close>

section \<open>Routes and funders\<close>

definition ROUTE_RULES :: "(string list \<times> string) list" where
  "ROUTE_RULES = [
    ([''coproduction'', ''co_production'', ''co-production'', ''minority''], ''co_production''),
    ([''completion'', ''post_production'', ''post-production'', ''post''], ''completion''),
    ([''distribution'', ''festival_launch'', ''promotion'', ''sales'', ''impact'', ''exhibition''], ''distribution''),
    ([''development'', ''slate'', ''writing'', ''research'', ''talent''], ''development''),
    ([''production''], ''production'')]"

definition BUCKET_ORDER :: "(string \<times> string list) list" where
  "BUCKET_ORDER = [
    (''development'', [''development'', ''co_production'', ''production'', ''completion'', ''distribution'', ''other'']),
    (''production'', [''production'', ''co_production'', ''completion'', ''development'', ''distribution'', ''other'']),
    (''completion'', [''completion'', ''distribution'', ''co_production'', ''production'', ''development'', ''other'']),
    (''distribution'', [''distribution'', ''completion'', ''co_production'', ''production'', ''development'', ''other'']),
    (''promotion'', [''distribution'', ''completion'', ''co_production'', ''production'', ''development'', ''other''])]"

definition DEFAULT_BUCKET_ORDER :: "string list" where
  "DEFAULT_BUCKET_ORDER = [''development'', ''production'', ''co_production'', ''completion'', ''distribution'', ''other'']"

definition MAX_PER_FUNDING_BODY :: nat where
  "MAX_PER_FUNDING_BODY = 2"

definition BALANCED_WINDOW :: nat where
  "BALANCED_WINDOW = 10"

definition MAX_PER_ROUTE_IN_WINDOW :: nat where
  "MAX_PER_ROUTE_IN_WINDOW = 4"

fun first_route :: "(string list \<times> string) list \<Rightarrow> string \<Rightarrow> string" where
  "first_route [] haystack = ''other''"
| "first_route ((needles, route) # rules) haystack =
     (if list_ex (\<lambda>needle. text_contains needle haystack) needles then route else first_route rules haystack)"

definition route_class :: "match_result \<Rightarrow> string" where
  "route_class r =
     first_route ROUTE_RULES
      (spaced_join (filter (\<lambda>s. s \<noteq> []) [lower (or_empty (opportunity_type (display_fields r))),
         spaced_join (production_stages (display_fields r))]))"

text \<open>\<open>title.split(separator)[0]\<close>: the text before the first separator.\<close>

fun before :: "string \<Rightarrow> string \<Rightarrow> string" where
  "before sep [] = []"
| "before sep (c # cs) = (if take (length sep) (c # cs) = sep then [] else c # before sep cs)"

definition SEPARATORS :: "string list" where
  "SEPARATORS = [EM_DASH, '' - '', '':'']"

definition funder_key :: "match_result \<Rightarrow> string" where
  "funder_key r =
     (let body = lower (strip (or_empty (funding_body (display_fields r)))); title' = strip (programme_title (display_fields r)) in
      if body \<noteq> [] then body
      else (case filter (\<lambda>sep. text_contains sep title') SEPARATORS of
          sep # _ \<Rightarrow> lower (strip (before sep title'))
        | [] \<Rightarrow> if lower title' \<noteq> [] then lower title' else opportunity_id r))"

section \<open>Order\<close>

fun index_of :: "string list \<Rightarrow> string \<Rightarrow> nat" where
  "index_of [] x = 0"
| "index_of (y # ys) x = (if x = y then 0 else Suc (index_of ys x))"

type_synonym sort_tuple = "rat \<times> nat \<times> string \<times> string \<times> string"

definition portfolio_key :: "string list \<Rightarrow> match_result \<Rightarrow> sort_tuple" where
  "portfolio_key buckets r =
     (- raw_score r, index_of buckets (route_class r), lower (or_empty (funding_body (display_fields r))),
      lower (programme_title (display_fields r)), opportunity_id r)"

definition bucket_order :: "string \<Rightarrow> string list" where
  "bucket_order project_stage =
     (case map_of BUCKET_ORDER (lower (strip project_stage)) of Some order \<Rightarrow> order | None \<Rightarrow> DEFAULT_BUCKET_ORDER)"

section \<open>Selection\<close>

record selection =
  selected :: "match_result list"
  taken :: "string set"
  used_dup_keys :: "(string \<times> string) set"
  body_counts :: "string \<Rightarrow> nat"
  route_counts :: "string \<Rightarrow> nat"

definition dup_key :: "match_result \<Rightarrow> string \<times> string" where
  "dup_key r = (funder_key r, route_class r)"

definition admit :: "match_result \<Rightarrow> selection \<Rightarrow> selection" where
  "admit r st = \<lparr>
     selected = selected st @ [r],
     taken = insert (opportunity_id r) (taken st),
     used_dup_keys = insert (dup_key r) (used_dup_keys st),
     body_counts = (body_counts st)(funder_key r := body_counts st (funder_key r) + 1),
     route_counts = (route_counts st)(route_class r := route_counts st (route_class r) + 1)\<rparr>"

definition deferred_now :: "selection \<Rightarrow> match_result \<Rightarrow> bool" where
  "deferred_now st r =
     (dup_key r \<in> used_dup_keys st
      \<or> body_counts st (funder_key r) \<ge> MAX_PER_FUNDING_BODY
      \<or> length (selected st) < BALANCED_WINDOW \<and> route_counts st (route_class r) \<ge> MAX_PER_ROUTE_IN_WINDOW)"

fun spine :: "match_result list \<Rightarrow> selection \<Rightarrow> selection" where
  "spine [] st = st"
| "spine (r # rs) st =
     spine rs (if opportunity_id r \<in> taken st then st else if deferred_now st r then st else admit r st)"

fun backfill :: "bool \<Rightarrow> match_result list \<Rightarrow> selection \<Rightarrow> selection" where
  "backfill allow_repeat_body [] st = st"
| "backfill allow_repeat_body (r # rs) st =
     backfill allow_repeat_body rs
       (if opportunity_id r \<in> taken st then st
        else if \<not> allow_repeat_body \<and> body_counts st (funder_key r) \<ge> MAX_PER_FUNDING_BODY then st
        else admit r st)"

definition no_selection :: selection where
  "no_selection = \<lparr>selected = [], taken = {}, used_dup_keys = {}, body_counts = (\<lambda>_. 0), route_counts = (\<lambda>_. 0)\<rparr>"

fun ranked_from :: "nat \<Rightarrow> match_result list \<Rightarrow> match_result list" where
  "ranked_from n [] = []"
| "ranked_from n (r # rs) = r\<lparr>portfolio_rank := Some n\<rparr> # ranked_from (Suc n) rs"

definition select_portfolio :: "match_result list \<Rightarrow> string \<Rightarrow> match_result list" where
  "select_portfolio results project_stage =
     (if results = [] then []
      else
       (let ordered = sort_key (portfolio_key (bucket_order project_stage)) results;
            st = backfill True ordered (backfill False ordered (spine ordered no_selection)) in
        ranked_from 1 (selected st)))"

end
