(* ===== verification/Portfolio_Properties.thy ===== *)
theory Portfolio_Properties
  imports Grant_Portfolio
begin

text \<open>
  The order of the funding portfolio: nothing is lost or counted twice, the order does not depend
  on the order of the input, and score is overruled by diversification only.
\<close>

section \<open>The counters\<close>

definition consistent :: "selection \<Rightarrow> bool" where
  "consistent st \<longleftrightarrow>
     taken st = opportunity_id ` set (selected st) \<and> used_dup_keys st = dup_key ` set (selected st)
     \<and> body_counts st = (\<lambda>b. length (filter (\<lambda>x. funder_key x = b) (selected st)))
     \<and> route_counts st = (\<lambda>q. length (filter (\<lambda>x. route_class x = q) (selected st)))"

lemma consistent_none: "consistent no_selection"
  by (simp add: consistent_def no_selection_def)

lemma consistent_admit: "consistent st \<Longrightarrow> consistent (admit r st)"
  by (auto simp: consistent_def admit_def fun_eq_iff)

lemma selected_admit [simp]: "selected (admit r st) = selected st @ [r]"
  by (simp add: admit_def)

section \<open>The spine\<close>

text \<open>A list repeats itself by showing \<open>r\<close>: the same funder and route, two of the funder, four of the route.\<close>

definition crowded :: "match_result list \<Rightarrow> match_result \<Rightarrow> bool" where
  "crowded shown r \<longleftrightarrow>
     (\<exists>x \<in> set shown. funder_key x = funder_key r \<and> route_class x = route_class r)
     \<or> 2 \<le> length (filter (\<lambda>x. funder_key x = funder_key r) shown)
     \<or> 4 \<le> length (filter (\<lambda>x. route_class x = route_class r) shown)"

definition diversified :: "match_result list \<Rightarrow> bool" where
  "diversified shown \<longleftrightarrow>
     distinct (map dup_key shown)
     \<and> (\<forall>b. length (filter (\<lambda>x. funder_key x = b) shown) \<le> 2)
     \<and> (\<forall>q. length (filter (\<lambda>x. route_class x = q) (take 10 shown)) \<le> 4)"

lemma crowded_append: "crowded shown r \<Longrightarrow> crowded (shown @ later) r"
  by (auto simp: crowded_def)

lemma deferred_crowded: "consistent st \<Longrightarrow> deferred_now st r \<Longrightarrow> crowded (selected st) r"
  by (auto simp: consistent_def deferred_now_def crowded_def dup_key_def MAX_PER_FUNDING_BODY_def MAX_PER_ROUTE_IN_WINDOW_def)

lemma diversified_admit:
  assumes "consistent st" and "\<not> deferred_now st r" and "diversified (selected st)"
  shows "diversified (selected st @ [r])"
proof -
  have new: "dup_key r \<notin> dup_key ` set (selected st)"
    "length (filter (\<lambda>x. funder_key x = funder_key r) (selected st)) < 2"
    "length (selected st) < 10 \<Longrightarrow> length (filter (\<lambda>x. route_class x = route_class r) (selected st)) < 4"
    using assms(1,2)
    by (auto simp: consistent_def deferred_now_def MAX_PER_FUNDING_BODY_def MAX_PER_ROUTE_IN_WINDOW_def BALANCED_WINDOW_def)
  have route: "length (filter (\<lambda>x. route_class x = q) (take 10 (selected st @ [r]))) \<le> 4" for q
  proof (cases "length (selected st) < 10")
    case True
    then have "take 10 (selected st) = selected st" "take 10 (selected st @ [r]) = selected st @ [r]" by simp_all
    with assms(3) new(3) [OF True] show ?thesis
      unfolding diversified_def by (cases "route_class r = q") auto
  next
    case False
    then show ?thesis using assms(3) by (simp add: diversified_def)
  qed
  show ?thesis
    using assms(3) new(1,2) route by (auto simp: diversified_def)
qed

lemma spine_selects:
  assumes "consistent st" and "diversified (selected st)" and "distinct (map opportunity_id (selected st))"
  shows "\<exists>ys. selected (spine rs st) = selected st @ ys \<and> subseq ys rs \<and> consistent (spine rs st)
    \<and> diversified (selected st @ ys) \<and> distinct (map opportunity_id (selected st @ ys))
    \<and> (\<forall>r \<in> set rs. opportunity_id r \<in> opportunity_id ` set (selected st @ ys) \<or> crowded (selected st @ ys) r)"
  using assms
proof (induction rs arbitrary: st)
  case (Cons r rs)
  show ?case
  proof (cases "opportunity_id r \<in> taken st \<or> deferred_now st r")
    case True
    then have same: "spine (r # rs) st = spine rs st" by auto
    obtain ys where ys: "selected (spine rs st) = selected st @ ys" "subseq ys rs" "consistent (spine rs st)"
      "diversified (selected st @ ys)" "distinct (map opportunity_id (selected st @ ys))"
      "\<forall>x \<in> set rs. opportunity_id x \<in> opportunity_id ` set (selected st @ ys) \<or> crowded (selected st @ ys) x"
      using Cons.IH [OF Cons.prems] by blast
    have "opportunity_id r \<in> opportunity_id ` set (selected st @ ys) \<or> crowded (selected st @ ys) r"
      using True Cons.prems(1) crowded_append [OF deferred_crowded [OF Cons.prems(1)]]
      by (auto simp: consistent_def)
    then show ?thesis
      unfolding same using ys by (intro exI [of _ ys]) auto
  next
    case False
    then have same: "spine (r # rs) st = spine rs (admit r st)" by simp
    have d: "diversified (selected (admit r st))"
      using diversified_admit [OF Cons.prems(1) _ Cons.prems(2)] False by simp
    have i: "distinct (map opportunity_id (selected (admit r st)))"
      using Cons.prems(1,3) False by (auto simp: consistent_def)
    obtain ys where ys: "selected (spine rs (admit r st)) = (selected st @ [r]) @ ys" "subseq ys rs"
      "consistent (spine rs (admit r st))" "diversified ((selected st @ [r]) @ ys)"
      "distinct (map opportunity_id ((selected st @ [r]) @ ys))"
      "\<forall>x \<in> set rs. opportunity_id x \<in> opportunity_id ` set ((selected st @ [r]) @ ys) \<or> crowded ((selected st @ [r]) @ ys) x"
      using Cons.IH [OF consistent_admit [OF Cons.prems(1)] d i] by (simp only: selected_admit) blast
    then show ?thesis
      unfolding same by (intro exI [of _ "r # ys"]) auto
  qed
qed simp

section \<open>Backfill\<close>

lemma backfill_selects:
  assumes "consistent st" and "distinct (map opportunity_id (selected st))"
  shows "\<exists>ys. selected (backfill a rs st) = selected st @ ys \<and> set ys \<subseteq> set rs \<and> consistent (backfill a rs st)
    \<and> distinct (map opportunity_id (selected st @ ys))
    \<and> (a \<longrightarrow> opportunity_id ` set rs \<subseteq> opportunity_id ` set (selected st @ ys))"
  using assms
proof (induction rs arbitrary: st)
  case (Cons r rs)
  show ?case
  proof (cases "opportunity_id r \<in> taken st \<or> \<not> a \<and> body_counts st (funder_key r) \<ge> MAX_PER_FUNDING_BODY")
    case True
    then have same: "backfill a (r # rs) st = backfill a rs st" by auto
    obtain ys where ys: "selected (backfill a rs st) = selected st @ ys" "set ys \<subseteq> set rs" "consistent (backfill a rs st)"
      "distinct (map opportunity_id (selected st @ ys))"
      "a \<longrightarrow> opportunity_id ` set rs \<subseteq> opportunity_id ` set (selected st @ ys)"
      using Cons.IH [OF Cons.prems] by blast
    have "a \<longrightarrow> opportunity_id r \<in> opportunity_id ` set (selected st)"
      using True Cons.prems(1) by (auto simp: consistent_def)
    then show ?thesis
      unfolding same using ys by (intro exI [of _ ys]) auto
  next
    case False
    then have same: "backfill a (r # rs) st = backfill a rs (admit r st)" by auto
    have i: "distinct (map opportunity_id (selected (admit r st)))"
      using Cons.prems False by (auto simp: consistent_def)
    obtain ys where ys: "selected (backfill a rs (admit r st)) = (selected st @ [r]) @ ys" "set ys \<subseteq> set rs"
      "consistent (backfill a rs (admit r st))" "distinct (map opportunity_id ((selected st @ [r]) @ ys))"
      "a \<longrightarrow> opportunity_id ` set rs \<subseteq> opportunity_id ` set ((selected st @ [r]) @ ys)"
      using Cons.IH [OF consistent_admit [OF Cons.prems(1)] i] by (simp only: selected_admit) blast
    then show ?thesis
      unfolding same by (intro exI [of _ "r # ys"]) auto
  qed
qed simp

section \<open>The portfolio\<close>

lemma subseq_subset: "subseq xs ys \<Longrightarrow> set xs \<subseteq> set ys"
  by (auto elim: list_emb_set)

lemma subseq_sorted: "subseq xs ys \<Longrightarrow> sorted (map f ys) \<Longrightarrow> sorted (map f xs)"
proof (induction rule: list_emb.induct)
  case (list_emb_Cons2 x y xs ys)
  then show ?case using subseq_subset [OF list_emb_Cons2(2)] by auto
qed auto

definition ordered_results :: "match_result list \<Rightarrow> string \<Rightarrow> match_result list" where
  "ordered_results results stage = sort_key (portfolio_key (bucket_order stage)) results"

definition spine_of :: "match_result list \<Rightarrow> string \<Rightarrow> match_result list" where
  "spine_of results stage = selected (spine (ordered_results results stage) no_selection)"

definition chosen :: "match_result list \<Rightarrow> string \<Rightarrow> match_result list" where
  "chosen results stage =
     (let ordered = ordered_results results stage in
      selected (backfill True ordered (backfill False ordered (spine ordered no_selection))))"

lemma select_chosen: "select_portfolio results stage = ranked_from 1 (chosen results stage)"
proof (cases "results = []")
  case True
  then show ?thesis by (simp add: select_portfolio_def chosen_def ordered_results_def no_selection_def)
next
  case False
  then show ?thesis by (simp add: select_portfolio_def chosen_def ordered_results_def Let_def)
qed

lemma spine_facts:
  "subseq (spine_of results stage) (ordered_results results stage)"
  "diversified (spine_of results stage)"
  "\<forall>r \<in> set results. opportunity_id r \<in> opportunity_id ` set (spine_of results stage) \<or> crowded (spine_of results stage) r"
proof -
  have none: "diversified (selected no_selection)" "distinct (map opportunity_id (selected no_selection))"
    by (simp_all add: no_selection_def diversified_def)
  obtain ys where "selected (spine (ordered_results results stage) no_selection) = selected no_selection @ ys"
    "subseq ys (ordered_results results stage)" "diversified (selected no_selection @ ys)"
    "\<forall>r \<in> set (ordered_results results stage).
       opportunity_id r \<in> opportunity_id ` set (selected no_selection @ ys) \<or> crowded (selected no_selection @ ys) r"
    using spine_selects [OF consistent_none none] by blast
  then show "subseq (spine_of results stage) (ordered_results results stage)"
    "diversified (spine_of results stage)"
    "\<forall>r \<in> set results. opportunity_id r \<in> opportunity_id ` set (spine_of results stage) \<or> crowded (spine_of results stage) r"
    by (simp_all add: spine_of_def no_selection_def ordered_results_def)
qed

lemma chosen_facts:
  "\<exists>ys. chosen results stage = spine_of results stage @ ys"
  "set (chosen results stage) \<subseteq> set results"
  "distinct (map opportunity_id (chosen results stage))"
  "opportunity_id ` set results \<subseteq> opportunity_id ` set (chosen results stage)"
proof -
  let ?o = "ordered_results results stage"
  have none: "diversified (selected no_selection)" "distinct (map opportunity_id (selected no_selection))"
    by (simp_all add: no_selection_def diversified_def)
  obtain as where a: "selected (spine ?o no_selection) = as" "subseq as ?o" "consistent (spine ?o no_selection)"
    "distinct (map opportunity_id as)"
    using spine_selects [OF consistent_none none] by (auto simp: no_selection_def)
  obtain bs where b: "selected (backfill False ?o (spine ?o no_selection)) = as @ bs" "set bs \<subseteq> set ?o"
    "consistent (backfill False ?o (spine ?o no_selection))" "distinct (map opportunity_id (as @ bs))"
    using backfill_selects [OF a(3), of False ?o] a(1,4) by auto
  obtain cs where c: "chosen results stage = (as @ bs) @ cs" "set cs \<subseteq> set ?o"
    "distinct (map opportunity_id ((as @ bs) @ cs))"
    "opportunity_id ` set ?o \<subseteq> opportunity_id ` set ((as @ bs) @ cs)"
    using backfill_selects [OF b(3), of True ?o] b(1,4) by (auto simp: chosen_def Let_def)
  have o: "set ?o = set results" by (simp add: ordered_results_def)
  show "\<exists>ys. chosen results stage = spine_of results stage @ ys"
    using c(1) a(1) by (simp add: spine_of_def)
  show "set (chosen results stage) \<subseteq> set results"
    using c(1,2) b(2) subseq_subset [OF a(2)] o by auto
  show "distinct (map opportunity_id (chosen results stage))"
    using c(1,3) by simp
  show "opportunity_id ` set results \<subseteq> opportunity_id ` set (chosen results stage)"
    using c(1,4) o by simp
qed

lemma ordered_deterministic:
  assumes "mset results = mset results'" and "distinct (map opportunity_id results)"
  shows "ordered_results results stage = ordered_results results' stage"
proof -
  have "inj_on (portfolio_key (bucket_order stage)) (set results)"
    using assms(2) by (auto simp: distinct_map inj_on_def portfolio_key_def)
  then show ?thesis
    unfolding ordered_results_def using assms(1)
    by (intro sort_key_inj_key_eq) (auto dest: mset_eq_setD simp: sorted_sort_key)
qed

section \<open>Ranks\<close>

definition unranked :: "match_result \<Rightarrow> match_result" where
  "unranked r = r\<lparr>portfolio_rank := None\<rparr>"

lemma ranked_keys [simp]:
  "route_class (r\<lparr>portfolio_rank := n\<rparr>) = route_class r"
  "funder_key (r\<lparr>portfolio_rank := n\<rparr>) = funder_key r"
  by (simp_all add: funder_key_def route_class_def Let_def split: list.split)

lemma ranked_dup_key [simp]: "dup_key (r\<lparr>portfolio_rank := n\<rparr>) = dup_key r"
  by (simp add: dup_key_def)

lemma ranked_ranks: "map portfolio_rank (ranked_from n rs) = map Some [n..<n + length rs]"
proof (induction rs arbitrary: n)
  case (Cons r rs)
  have "[n..<n + length (r # rs)] = n # [Suc n..<Suc n + length rs]"
    by (simp add: upt_conv_Cons del: upt_Suc)
  then show ?case using Cons by (simp del: upt_Suc)
qed simp

lemma ranked_map:
  "map unranked (ranked_from n rs) = map unranked rs"
  "map (portfolio_key b) (ranked_from n rs) = map (portfolio_key b) rs"
  by (induction rs arbitrary: n) (simp_all add: unranked_def portfolio_key_def)

lemma crowded_unranked: "crowded (map unranked shown) (unranked r) = crowded shown r"
  by (simp add: crowded_def unranked_def filter_map o_def)

lemma diversified_unranked: "diversified (map unranked shown) = diversified shown"
  by (simp add: diversified_def unranked_def filter_map o_def take_map)

text \<open>
  Every opportunity is ranked once, with its score and fields as they were and the ranks from
  1 on, and the portfolio does not depend on the order in which the opportunities come.
\<close>

theorem portfolio_ranks_everything:
  assumes "distinct (map opportunity_id results)" and "mset results' = mset results"
  shows "mset (map unranked (select_portfolio results stage)) = mset (map unranked results)
     \<and> map portfolio_rank (select_portfolio results stage) = map Some [1..<Suc (length results)]
     \<and> select_portfolio results' stage = select_portfolio results stage"
proof -
  let ?c = "chosen results stage"
  note c = chosen_facts [of results stage]
  have "distinct ?c" using c(3) distinct_map by blast
  moreover have "distinct results" using assms(1) distinct_map by blast
  moreover have "set ?c = set results"
  proof
    show "set results \<subseteq> set ?c"
    proof
      fix r
      assume r: "r \<in> set results"
      then obtain x where "x \<in> set ?c" "opportunity_id x = opportunity_id r" using c(4) by force
      then show "r \<in> set ?c"
        using assms(1) r c(2) by (metis distinct_map inj_onD subsetD)
    qed
  qed (rule c(2))
  ultimately have all: "mset ?c = mset results"
    by (simp add: set_eq_iff_mset_eq_distinct)
  then have "length ?c = length results" by (rule mset_eq_length)
  moreover have "chosen results' stage = ?c"
    using ordered_deterministic [OF assms(2) [symmetric] assms(1)] by (simp add: chosen_def)
  ultimately show ?thesis
    using all by (simp add: select_chosen ranked_map ranked_ranks)
qed

text \<open>
  A list of opportunities in score order, with no two of a funder and route, at most two of a
  funder and at most four of a route among the first ten, comes first; and whatever is shown after
  it, however high its score, would have repeated it.
\<close>

theorem score_yields_to_diversity_only:
  "\<exists>k. let shown = take k (select_portfolio results stage) in
      sorted (map (portfolio_key (bucket_order stage)) shown) \<and> diversified shown
      \<and> list_all (crowded shown) (drop k (select_portfolio results stage))"
proof -
  let ?L = "select_portfolio results stage" and ?P = "spine_of results stage"
  obtain ys where ys: "chosen results stage = ?P @ ys" using chosen_facts(1) by blast
  have u: "map unranked ?L = map unranked ?P @ map unranked ys"
    by (simp add: select_chosen ranked_map ys)
  then have p: "map unranked (take (length ?P) ?L) = map unranked ?P"
    and d: "map unranked (drop (length ?P) ?L) = map unranked ys"
    by (simp_all flip: take_map drop_map)
  have "map (portfolio_key (bucket_order stage)) (take (length ?P) ?L) = map (portfolio_key (bucket_order stage)) ?P"
    by (simp add: select_chosen ranked_map ys flip: take_map)
  then have "sorted (map (portfolio_key (bucket_order stage)) (take (length ?P) ?L))"
    using subseq_sorted [OF spine_facts(1), of "portfolio_key (bucket_order stage)" results stage]
    by (simp add: ordered_results_def)
  moreover have "diversified (take (length ?P) ?L)"
    using spine_facts(2) [of results stage] p diversified_unranked by metis
  moreover have "crowded (take (length ?P) ?L) r" if "r \<in> set (drop (length ?P) ?L)" for r
  proof -
    have "unranked r \<in> unranked ` set ys" using that d by (metis image_eqI list.set_map)
    then obtain x where x: "x \<in> set ys" "unranked r = unranked x" by auto
    have "opportunity_id x \<notin> opportunity_id ` set ?P"
      using chosen_facts(3) [of results stage] x(1) unfolding ys by auto
    moreover have "x \<in> set results" using chosen_facts(2) [of results stage] x(1) unfolding ys by auto
    ultimately have "crowded ?P x" using spine_facts(3) [of results stage] by blast
    then show ?thesis using p x(2) crowded_unranked by metis
  qed
  ultimately show ?thesis
    by (intro exI [of _ "length ?P"]) (simp add: Let_def list_all_iff)
qed

definition sample_display :: "string \<Rightarrow> display" where
  "sample_display t = \<lparr>programme_title = t, funding_body = Some ''Screen'', display_territory = None, amount = None,
     deadline = None, official_source = None, amount_value = None, amount_currency = None, amount_is_per_project = None,
     deadline_state = UNKNOWN, deadline_date = None, days_until_deadline = None, opportunity_type = Some ''development'',
     production_stages = [], eligible_formats = [], key_rule = None, eligibility_summary = None, badges = []\<rparr>"

definition sample_fund :: "string \<Rightarrow> rat \<Rightarrow> match_result" where
  "sample_fund i score = \<lparr>opportunity_id = i, eligibility_status = ELIGIBLE, hard_gate_results = [], raw_score = score,
     score_components = [], portfolio_rank = None, match_reasons = [], caveats = [],
     verification = \<lparr>record_verified = None, official_source_verified = None, current_cycle_verified = None,
       verified_at = None, composite_state = ''NEEDS_REVIEW'', staleness_days = None\<rparr>,
     display_fields = sample_display i, source_project_facts = None, co_production_context = None\<rparr>"

theorem portfolio_ranks_everything_witness:
  "select_portfolio [sample_fund ''b'' 4, sample_fund ''a'' 6] [] = select_portfolio [sample_fund ''a'' 6, sample_fund ''b'' 4] []
   \<and> map portfolio_rank (select_portfolio [sample_fund ''a'' 6, sample_fund ''b'' 4] []) = [Some 1, Some 2]"
  using portfolio_ranks_everything [of "[sample_fund ''a'' 6, sample_fund ''b'' 4]"
      "[sample_fund ''b'' 4, sample_fund ''a'' 6]" "[]"]
  by (simp add: sample_fund_def upt_rec)

end
