(* ===== verification/Programme_Eligibility.thy ===== *)
theory Programme_Eligibility
  imports Calculation_Status Python_Text
begin

text \<open>
  \<open>app/modules/reports/programme_eligibility.py\<close>, with the conversions it takes from
  \<open>readiness.py\<close> and \<open>helpers.py\<close>: whether a production can use a programme at all. A row of
  \<open>incentive_programs\<close> and the project are dicts. The sentence of a gate is a constructor of
  \<open>gate_detail\<close> with the values it prints. Texts are UTF-8; the currency signs of the ceiling
  pattern are their bytes, and letters, digits and word boundaries are those of ASCII.
\<close>

section \<open>Money and dates\<close>

definition STATIC_FX_TO_GBP :: "(string \<times> rat) list" where
  "STATIC_FX_TO_GBP = [(''ZAR'', 119 / 5), (''AUD'', 39 / 20), (''USD'', 127 / 100), (''EUR'', 117 / 100),
     (''CAD'', 7 / 4), (''NZD'', 21 / 10), (''HUF'', 480), (''CZK'', 59 / 2), (''INR'', 106), (''KRW'', 1680),
     (''JPY'', 192), (''SGD'', 43 / 25), (''RON'', 117 / 20)]"

datatype money_basis = Already_GBP | Converted string rat

text \<open>The pair of \<open>None\<close>s of the code is \<open>None\<close> here.\<close>

definition to_gbp :: "rat \<Rightarrow> string \<Rightarrow> (rat \<times> money_basis) option" where
  "to_gbp value currency =
     (let cur = upper currency in
      if cur = ''GBP'' then Some (value, Already_GBP)
      else (case map_of STATIC_FX_TO_GBP cur of None \<Rightarrow> None | Some rate \<Rightarrow> Some (value / rate, Converted cur rate)))"

text \<open>The first occurrence of an ISO date in a text.\<close>

fun find_iso :: "string \<Rightarrow> string option" where
  "find_iso [] = None"
| "find_iso (c # cs) = (if iso_at (c # cs) then Some (take 10 (c # cs)) else find_iso cs)"

definition parse_date :: "pyval \<Rightarrow> int option" where
  "parse_date v =
     (case v of
        PTime t \<Rightarrow> Some (date_part t)
      | PDate d \<Rightarrow> Some d
      | PStr s \<Rightarrow> (case find_iso s of None \<Rightarrow> None | Some t \<Rightarrow> iso_date t)
      | _ \<Rightarrow> None)"

section \<open>Gates\<close>

datatype gate_outcome = Gate_pass | Gate_fail | Gate_untested

datatype gate_detail =
    Floor_without_rate string rat
  | Floor_without_budget string rat
  | Below_floor string rat rat money_basis rat rat
  | Clears_floor rat string rat
  | Ceiling_unread string
  | Ceiling_untested string rat
  | Above_ceiling rat string rat rat money_basis string
  | Within_ceiling rat string rat
  | Expiry_untested int
  | Expires_before int int
  | Runs_past int int
  | No_programme_recorded
  | Status_not_active string

record gate =
  gate_name :: string
  outcome :: gate_outcome
  detail :: gate_detail

abbreviation budget_gbp :: "pydict \<Rightarrow> rat option" where
  "budget_gbp project \<equiv> to_float (lookup project ''budget_gbp'')"

definition floor_gate :: "gate_outcome \<Rightarrow> gate_detail \<Rightarrow> gate option" where
  "floor_gate out det = Some \<lparr>gate_name = ''minimum qualifying spend'', outcome = out, detail = det\<rparr>"

definition row_currency :: "pydict \<Rightarrow> string" where
  "row_currency r = upper (text_of (py_or (py_or (lookup r ''qualifying_spend_currency'') (lookup r ''currency'')) (PStr ''GBP'')))"

definition check_minimum_spend :: "pydict \<Rightarrow> pydict \<Rightarrow> gate option" where
  "check_minimum_spend r project =
     (case to_float (lookup r ''qualifying_spend_min'') of
        None \<Rightarrow> None
      | Some minimum \<Rightarrow>
        if minimum \<le> 0 then None
        else
         (let currency = row_currency r in
          case to_gbp minimum currency of
            None \<Rightarrow> floor_gate Gate_untested (Floor_without_rate currency minimum)
          | Some (minimum_gbp, basis) \<Rightarrow>
            (case budget_gbp project of
               None \<Rightarrow> floor_gate Gate_untested (Floor_without_budget currency minimum)
             | Some budget \<Rightarrow>
               if budget < minimum_gbp
               then floor_gate Gate_fail (Below_floor currency minimum minimum_gbp basis budget (minimum_gbp - budget))
               else floor_gate Gate_pass (Clears_floor budget currency minimum))))"

section \<open>The ceiling pattern\<close>

definition CURRENCY_CODES :: "string list" where
  "CURRENCY_CODES = [''GBP'', ''USD'', ''EUR'', ''CAD'', ''AUD'', ''ZAR'', ''NZD'', ''JPY'', ''KRW'', ''INR'', ''MAD'', ''RSD'',
     ''RON'', ''CZK'', ''HUF'', ''PLN'', ''SGD'', ''ILS'', ''MXN'', ''BRL'']"

definition CURRENCY_SIGNS :: "string list" where
  "CURRENCY_SIGNS = [[CHR 0xC2, CHR 0xA3], ''$'', [CHR 0xE2, CHR 0x82, CHR 0xAC]]"

definition skip_sign :: "string \<Rightarrow> string" where
  "skip_sign s = (case filter (\<lambda>sign. starts_with sign s) CURRENCY_SIGNS of [] \<Rightarrow> s | sign # _ \<Rightarrow> drop (length sign) s)"

definition is_amount_char :: "char \<Rightarrow> bool" where
  "is_amount_char c = (is_digit_char c \<or> c = CHR '','' \<or> c = CHR ''.'')"

text \<open>\<open>\\s*[..]?\\s*([\\d][\\d,\\.]{3,})\<close> from here: the captured amount.\<close>

definition amount_at :: "string \<Rightarrow> string option" where
  "amount_at s =
     (let t = dropWhile is_space (skip_sign (dropWhile is_space s)); a = takeWhile is_amount_char t in
      if 4 \<le> length a \<and> is_digit_char (hd a) then Some a else None)"

text \<open>The optional code first; without one, the same from here.\<close>

definition ceiling_at :: "string \<Rightarrow> (string \<times> string) option" where
  "ceiling_at s =
     (let code = upper (take 3 s) in
      case (if code \<in> set CURRENCY_CODES then amount_at (drop 3 s) else None) of
        Some a \<Rightarrow> Some (a, code)
      | None \<Rightarrow> map_option (\<lambda>a. (a, ''GBP'')) (amount_at s))"

definition word_starts :: "bool \<Rightarrow> string \<Rightarrow> bool" where
  "word_starts after_word s = (after_word \<noteq> (case s of [] \<Rightarrow> False | c # _ \<Rightarrow> is_word_char c))"

fun find_ceiling :: "bool \<Rightarrow> string \<Rightarrow> (string \<times> string) option" where
  "find_ceiling after_word [] = None"
| "find_ceiling after_word (c # cs) =
     (case (if word_starts after_word (c # cs) then ceiling_at (c # cs) else None) of
        Some m \<Rightarrow> Some m
      | None \<Rightarrow> find_ceiling (is_word_char c) cs)"

definition stated_ceiling :: "string \<Rightarrow> (rat \<times> string) option" where
  "stated_ceiling text =
     (case find_ceiling False text of
        None \<Rightarrow> None
      | Some (amount_text, currency) \<Rightarrow>
          map_option (\<lambda>x. (x, currency)) (parse_float (filter (\<lambda>c. c \<noteq> CHR '','') amount_text)))"

definition ceiling_gate :: "gate_outcome \<Rightarrow> gate_detail \<Rightarrow> gate option" where
  "ceiling_gate out det = Some \<lparr>gate_name = ''budget eligibility ceiling'', outcome = out, detail = det\<rparr>"

definition check_budget_ceiling :: "pydict \<Rightarrow> pydict \<Rightarrow> gate option" where
  "check_budget_ceiling r project =
     (let text = strip (text_of (py_or (lookup r ''budget_eligibility_ceiling'') (PStr []))) in
      if text = [] then None
      else
       (case stated_ceiling text of
          None \<Rightarrow> ceiling_gate Gate_untested (Ceiling_unread text)
        | Some (ceiling_amount, currency) \<Rightarrow>
          (case (to_gbp ceiling_amount currency, budget_gbp project) of
             (Some (ceiling_in_gbp, basis), Some budget) \<Rightarrow>
               if budget > ceiling_in_gbp
               then ceiling_gate Gate_fail (Above_ceiling budget currency ceiling_amount ceiling_in_gbp basis text)
               else ceiling_gate Gate_pass (Within_ceiling budget currency ceiling_amount)
           | _ \<Rightarrow> ceiling_gate Gate_untested (Ceiling_untested currency ceiling_amount))))"

section \<open>Expiry and status\<close>

definition horizon_of :: "pydict \<Rightarrow> int option" where
  "horizon_of project =
     (case parse_date (lookup project ''completion_date'') of
        Some d \<Rightarrow> Some d
      | None \<Rightarrow> parse_date (lookup project ''filming_start_date''))"

definition expiry_gate :: "gate_outcome \<Rightarrow> gate_detail \<Rightarrow> gate option" where
  "expiry_gate out det = Some \<lparr>gate_name = ''programme expiry'', outcome = out, detail = det\<rparr>"

definition check_expiry :: "pydict \<Rightarrow> pydict \<Rightarrow> gate option" where
  "check_expiry r project =
     (case parse_date (lookup r ''expiry_date'') of
        None \<Rightarrow> None
      | Some expiry \<Rightarrow>
        (case horizon_of project of
           None \<Rightarrow> expiry_gate Gate_untested (Expiry_untested expiry)
         | Some horizon \<Rightarrow>
           if expiry < horizon then expiry_gate Gate_fail (Expires_before expiry horizon)
           else expiry_gate Gate_pass (Runs_past expiry horizon)))"

definition check_status :: "pydict \<Rightarrow> pydict \<Rightarrow> gate option" where
  "check_status r project =
     (let status = lower (strip (text_of (py_or (lookup r ''status'') (PStr [])))) in
      if status = [] \<or> status = ''active'' then None
      else Some \<lparr>gate_name = ''programme status'', outcome = Gate_fail,
        detail = (if status = ''no_programme'' then No_programme_recorded else Status_not_active status)\<rparr>)"

section \<open>The verdict\<close>

datatype verdict = Available | Unavailable | Unverifiable

definition verdict_rank :: "verdict option \<Rightarrow> nat" where
  "verdict_rank v = (case v of Some Unavailable \<Rightarrow> 0 | Some Unverifiable \<Rightarrow> 1 | Some Available \<Rightarrow> 2 | None \<Rightarrow> 1)"

definition verdict_label :: "verdict \<Rightarrow> string" where
  "verdict_label v = (case v of Available \<Rightarrow> ''Available at this budget''
     | Unavailable \<Rightarrow> ''Not available at this budget'' | Unverifiable \<Rightarrow> ''Availability unverified'')"

record eligibility =
  el_verdict :: verdict
  el_label :: string
  el_available :: bool
  el_claimable :: bool
  el_explanation :: "gate_detail option"
  el_reasons :: "gate list"
  el_failed :: "string list"
  el_untested :: "string list"

definition GATE_CHECKS :: "(pydict \<Rightarrow> pydict \<Rightarrow> gate option) list" where
  "GATE_CHECKS = [check_status, check_minimum_spend, check_budget_ceiling, check_expiry]"

definition evaluate_programme_eligibility :: "pydict \<Rightarrow> pydict \<Rightarrow> eligibility" where
  "evaluate_programme_eligibility r project =
     (let reasons = List.map_filter (\<lambda>check. check r project) GATE_CHECKS;
          failed = filter (\<lambda>g. outcome g = Gate_fail) reasons;
          untested = filter (\<lambda>g. outcome g = Gate_untested) reasons;
          v = (if failed \<noteq> [] then Unavailable else if untested \<noteq> [] then Unverifiable else Available);
          primary = (case failed of g # _ \<Rightarrow> Some g | [] \<Rightarrow> (case untested of g # _ \<Rightarrow> Some g | [] \<Rightarrow> None)) in
      \<lparr>el_verdict = v, el_label = verdict_label v, el_available = (v = Available), el_claimable = (v = Available),
       el_explanation = map_option detail primary, el_reasons = reasons,
       el_failed = map gate_name failed, el_untested = map gate_name untested\<rparr>)"

definition any_unavailable :: "pydict list \<Rightarrow> pydict \<Rightarrow> bool" where
  "any_unavailable rows project =
     list_ex (\<lambda>r. el_verdict (evaluate_programme_eligibility r project) \<in> {Unavailable, Unverifiable}) rows"

end
