(* ===== verification/Programme_Properties.thy ===== *)
theory Programme_Properties
  imports Programme_Eligibility Figure_Properties
begin

text \<open>
  The eligibility gate of a programme: its verdict stated over the facts of programme and project,
  what more information can change, and what the report may say of a programme it excludes.
\<close>

section \<open>The verdict\<close>

lemma verdict_iff:
  "el_verdict (evaluate_programme_eligibility r project) =
     (if \<exists>check \<in> set GATE_CHECKS. map_option outcome (check r project) = Some Gate_fail then Unavailable
      else if \<exists>check \<in> set GATE_CHECKS. map_option outcome (check r project) = Some Gate_untested then Unverifiable
      else Available)"
proof -
  have said: "filter (\<lambda>g. outcome g = x) (List.map_filter (\<lambda>check. check r project) checks) \<noteq> []
      \<longleftrightarrow> (\<exists>check \<in> set checks. map_option outcome (check r project) = Some x)" for checks x
    by (induction checks) (auto simp: List.map_filter_def split: option.splits)
  have "el_verdict (evaluate_programme_eligibility r project) =
      (if filter (\<lambda>g. outcome g = Gate_fail) (List.map_filter (\<lambda>check. check r project) GATE_CHECKS) \<noteq> [] then Unavailable
       else if filter (\<lambda>g. outcome g = Gate_untested) (List.map_filter (\<lambda>check. check r project) GATE_CHECKS) \<noteq> []
       then Unverifiable else Available)"
    by (simp add: evaluate_programme_eligibility_def Let_def)
  then show ?thesis unfolding said .
qed

text \<open>A gate as the fact it states: nothing, or a value that the project does not have, meets or misses.\<close>

datatype stated = Nothing_stated | Cannot_tell | Holds bool

definition says :: "gate option \<Rightarrow> stated" where
  "says g = (case g of None \<Rightarrow> Nothing_stated | Some x \<Rightarrow>
     (case outcome x of Gate_pass \<Rightarrow> Holds True | Gate_fail \<Rightarrow> Holds False | Gate_untested \<Rightarrow> Cannot_tell))"

definition floor_in_gbp :: "pydict \<Rightarrow> rat option" where
  "floor_in_gbp r = (case to_float (lookup r ''qualifying_spend_min'') of None \<Rightarrow> None
     | Some m \<Rightarrow> map_option fst (to_gbp m (row_currency r)))"

definition states_floor :: "pydict \<Rightarrow> bool" where
  "states_floor r = (case to_float (lookup r ''qualifying_spend_min'') of None \<Rightarrow> False | Some m \<Rightarrow> 0 < m)"

definition ceiling_text :: "pydict \<Rightarrow> string" where
  "ceiling_text r = strip (text_of (py_or (lookup r ''budget_eligibility_ceiling'') (PStr [])))"

definition ceiling_in_gbp :: "pydict \<Rightarrow> rat option" where
  "ceiling_in_gbp r = (case stated_ceiling (ceiling_text r) of None \<Rightarrow> None | Some (x, c) \<Rightarrow> map_option fst (to_gbp x c))"

definition compared :: "bool \<Rightarrow> 'a option \<Rightarrow> 'b option \<Rightarrow> ('a \<Rightarrow> 'b \<Rightarrow> bool) \<Rightarrow> stated" where
  "compared states limit known ok =
     (if \<not> states then Nothing_stated
      else (case limit of None \<Rightarrow> Cannot_tell | Some l \<Rightarrow> (case known of None \<Rightarrow> Cannot_tell | Some x \<Rightarrow> Holds (ok l x))))"

lemma floor_says:
  "says (check_minimum_spend r project) = compared (states_floor r) (floor_in_gbp r) (budget_gbp project) (\<le>)"
  by (auto simp: says_def check_minimum_spend_def compared_def states_floor_def floor_in_gbp_def floor_gate_def Let_def
      split: option.splits)

lemma ceiling_says:
  "says (check_budget_ceiling r project)
     = compared (ceiling_text r \<noteq> []) (ceiling_in_gbp r) (budget_gbp project) (\<lambda>limit budget. budget \<le> limit)"
  by (auto simp: says_def check_budget_ceiling_def compared_def ceiling_text_def ceiling_in_gbp_def ceiling_gate_def Let_def
      split: option.splits)

lemma expiry_says:
  "says (check_expiry r project)
     = compared (parse_date (lookup r ''expiry_date'') \<noteq> None) (parse_date (lookup r ''expiry_date'')) (horizon_of project)
         (\<lambda>expiry horizon. horizon \<le> expiry)"
  by (auto simp: says_def check_expiry_def compared_def expiry_gate_def split: option.splits)

definition status_active :: "pydict \<Rightarrow> bool" where
  "status_active r \<longleftrightarrow> lower (strip (text_of (py_or (lookup r ''status'') (PStr [])))) \<in> {[], ''active''}"

lemma status_says: "says (check_status r project) = (if status_active r then Nothing_stated else Holds False)"
  by (simp add: says_def check_status_def status_active_def Let_def)

lemma says_outcome:
  "map_option outcome g = Some Gate_fail \<longleftrightarrow> says g = Holds False"
  "map_option outcome g = Some Gate_untested \<longleftrightarrow> says g = Cannot_tell"
  by (auto simp: says_def split: option.split gate_outcome.split)

text \<open>A limit met and a limit missed, on what is known.\<close>

definition meets :: "bool \<Rightarrow> 'a option \<Rightarrow> 'b option \<Rightarrow> ('a \<Rightarrow> 'b \<Rightarrow> bool) \<Rightarrow> bool" where
  "meets states limit known ok =
     (if states then (case (limit, known) of (Some l, Some x) \<Rightarrow> ok l x | _ \<Rightarrow> False) else True)"

definition misses :: "bool \<Rightarrow> 'a option \<Rightarrow> 'b option \<Rightarrow> ('a \<Rightarrow> 'b \<Rightarrow> bool) \<Rightarrow> bool" where
  "misses states limit known ok = (states \<and> (case (limit, known) of (Some l, Some x) \<Rightarrow> \<not> ok l x | _ \<Rightarrow> False))"

lemma compared_iff:
  "compared states limit known ok = Holds False \<longleftrightarrow> misses states limit known ok"
  "compared states limit known ok \<noteq> Holds False \<and> compared states limit known ok \<noteq> Cannot_tell \<longleftrightarrow> meets states limit known ok"
  by (auto simp: compared_def misses_def meets_def split: option.splits)

lemma verdict_says:
  "el_verdict (evaluate_programme_eligibility r project) =
     (if \<exists>check \<in> set GATE_CHECKS. says (check r project) = Holds False then Unavailable
      else if \<exists>check \<in> set GATE_CHECKS. says (check r project) = Cannot_tell then Unverifiable
      else Available)"
  unfolding verdict_iff says_outcome ..

lemma gate_cases:
  "(\<exists>check \<in> set GATE_CHECKS. P (says (check r project))) \<longleftrightarrow>
     P (says (check_status r project)) \<or> P (says (check_minimum_spend r project))
     \<or> P (says (check_budget_ceiling r project)) \<or> P (says (check_expiry r project))"
  by (simp add: GATE_CHECKS_def)

definition all_met :: "pydict \<Rightarrow> pydict \<Rightarrow> bool" where
  "all_met r project \<longleftrightarrow> status_active r
     \<and> meets (states_floor r) (floor_in_gbp r) (budget_gbp project) (\<le>)
     \<and> meets (ceiling_text r \<noteq> []) (ceiling_in_gbp r) (budget_gbp project) (\<lambda>limit budget. budget \<le> limit)
     \<and> meets (parse_date (lookup r ''expiry_date'') \<noteq> None) (parse_date (lookup r ''expiry_date'')) (horizon_of project)
         (\<lambda>expiry horizon. horizon \<le> expiry)"

definition some_missed :: "pydict \<Rightarrow> pydict \<Rightarrow> bool" where
  "some_missed r project \<longleftrightarrow> \<not> status_active r
     \<or> misses (states_floor r) (floor_in_gbp r) (budget_gbp project) (\<le>)
     \<or> misses (ceiling_text r \<noteq> []) (ceiling_in_gbp r) (budget_gbp project) (\<lambda>limit budget. budget \<le> limit)
     \<or> misses (parse_date (lookup r ''expiry_date'') \<noteq> None) (parse_date (lookup r ''expiry_date'')) (horizon_of project)
         (\<lambda>expiry horizon. horizon \<le> expiry)"

lemma verdict_facts:
  "el_verdict (evaluate_programme_eligibility r project) =
     (if some_missed r project then Unavailable else if all_met r project then Available else Unverifiable)"
proof -
  let ?f = "says (check_minimum_spend r project)" and ?c = "says (check_budget_ceiling r project)"
    and ?e = "says (check_expiry r project)" and ?s = "says (check_status r project)"
  have missed: "(\<exists>check \<in> set GATE_CHECKS. says (check r project) = Holds False) \<longleftrightarrow> some_missed r project"
    unfolding gate_cases [of "\<lambda>x. x = Holds False"] some_missed_def floor_says ceiling_says expiry_says status_says compared_iff(1)
    by simp
  have "(\<exists>check \<in> set GATE_CHECKS. says (check r project) = Holds False)
      \<or> (\<exists>check \<in> set GATE_CHECKS. says (check r project) = Cannot_tell) \<longleftrightarrow> \<not> all_met r project"
    unfolding gate_cases [of "\<lambda>x. x = Holds False"] gate_cases [of "\<lambda>x. x = Cannot_tell"] all_met_def
      compared_iff(2) [symmetric] floor_says [symmetric] ceiling_says [symmetric] expiry_says [symmetric]
    by (auto simp: status_says split: if_splits)
  with missed show ?thesis
    unfolding verdict_says by auto
qed

text \<open>A project that adds facts to another and changes none.\<close>

definition adds_facts :: "pydict \<Rightarrow> pydict \<Rightarrow> bool" where
  "adds_facts project fuller \<longleftrightarrow>
     (budget_gbp project \<noteq> None \<longrightarrow> budget_gbp fuller = budget_gbp project)
     \<and> (horizon_of project \<noteq> None \<longrightarrow> horizon_of fuller = horizon_of project)"

lemma facts_mono:
  assumes "known \<noteq> None \<longrightarrow> known' = known"
  shows "meets states limit known ok \<Longrightarrow> meets states limit known' ok"
    and "misses states limit known ok \<Longrightarrow> misses states limit known' ok"
  using assms by (auto simp: meets_def misses_def split: option.splits if_splits)

lemma verdict_stable:
  assumes "adds_facts project fuller"
  shows "all_met r project \<Longrightarrow> all_met r fuller" and "some_missed r project \<Longrightarrow> some_missed r fuller"
proof -
  have f: "budget_gbp project \<noteq> None \<longrightarrow> budget_gbp fuller = budget_gbp project"
    "horizon_of project \<noteq> None \<longrightarrow> horizon_of fuller = horizon_of project"
    using assms by (auto simp: adds_facts_def)
  show "all_met r project \<Longrightarrow> all_met r fuller"
    unfolding all_met_def by (blast intro: facts_mono(1) [OF f(1)] facts_mono(1) [OF f(2)])
  show "some_missed r project \<Longrightarrow> some_missed r fuller"
    unfolding some_missed_def by (blast intro: facts_mono(2) [OF f(1)] facts_mono(2) [OF f(2)])
qed

lemma met_not_missed: "all_met r project \<Longrightarrow> \<not> some_missed r project"
  by (auto simp: all_met_def some_missed_def meets_def misses_def split: option.splits if_splits)

section \<open>Properties\<close>

text \<open>
  C39: a programme is available exactly when it is active and every limit it states is convertible,
  known of the project and met; it is unavailable exactly when it is not active or one is known to
  be missed; anything else is unverifiable, never available.
\<close>

theorem verdict_is_sound:
  "el_verdict (evaluate_programme_eligibility r project) =
     (if some_missed r project then Unavailable else if all_met r project then Available else Unverifiable)
   \<and> (el_claimable (evaluate_programme_eligibility r project) \<longleftrightarrow> all_met r project)"
proof -
  have "el_claimable (evaluate_programme_eligibility r project)
      \<longleftrightarrow> el_verdict (evaluate_programme_eligibility r project) = Available"
    by (simp add: evaluate_programme_eligibility_def Let_def)
  then show ?thesis
    using met_not_missed [of r project] by (auto simp: verdict_facts)
qed

text \<open>
  Learning more of a project settles an unverifiable programme and changes no settled one.
\<close>

theorem verdict_survives_more_facts:
  assumes "adds_facts project fuller"
    and "el_verdict (evaluate_programme_eligibility r project) \<noteq> Unverifiable"
  shows "el_verdict (evaluate_programme_eligibility r fuller) = el_verdict (evaluate_programme_eligibility r project)"
  using verdict_stable [OF assms(1), of r] met_not_missed [of r fuller] assms(2)
  unfolding verdict_facts by (auto split: if_splits)

definition floor_row :: pydict where
  "floor_row = [(''program'', PStr ''Fund''), (''qs_engine_type'', PStr ''QAPE''), (''qualifying_spend_min'', PInt 1000000),
     (''currency'', PStr ''USD'')]"

lemma floor_row_simps:
  "states_floor floor_row" "floor_in_gbp floor_row = Some (100000000 / 127)" "ceiling_text floor_row = []"
  "parse_date (lookup floor_row ''expiry_date'') = None" "status_active floor_row"
proof -
  have "row_currency floor_row = ''USD''" "upper ''USD'' = ''USD''" by code_simp+
  then show "floor_in_gbp floor_row = Some (100000000 / 127)"
    by (simp add: floor_in_gbp_def floor_row_def to_float_def to_gbp_def STATIC_FX_TO_GBP_def)
qed (simp_all add: states_floor_def floor_row_def to_float_def ceiling_text_def parse_date_def status_active_def
    lower_def strip_def)

theorem verdict_survives_more_facts_witness:
  "el_verdict (evaluate_programme_eligibility floor_row [(''budget_gbp'', PInt 900000), (''completion_date'', PDate 20000)])
     = el_verdict (evaluate_programme_eligibility floor_row [(''budget_gbp'', PInt 900000)])"
proof (rule verdict_survives_more_facts)
  show "adds_facts [(''budget_gbp'', PInt 900000)] [(''budget_gbp'', PInt 900000), (''completion_date'', PDate 20000)]"
    by (simp add: adds_facts_def horizon_of_def parse_date_def)
  show "el_verdict (evaluate_programme_eligibility floor_row [(''budget_gbp'', PInt 900000)]) \<noteq> Unverifiable"
    by (simp add: verdict_facts some_missed_def all_met_def misses_def meets_def floor_row_simps to_float_def)
qed

text \<open>The dict the estimate carries; \<open>render\<close> writes the sentence of a gate.\<close>

definition eligibility_dict :: "(gate_detail \<Rightarrow> string) \<Rightarrow> eligibility \<Rightarrow> pyval" where
  "eligibility_dict render e = PDict [
     (''available'', PBool (el_available e)),
     (''reasons'', PList (map (\<lambda>g. PDict [(''gate'', PStr (gate_name g)), (''detail'', PStr (render (detail g)))]) (el_reasons e)))]"

text \<open>
  A report that carries the verdict on a running programme never shows a figure unless the
  programme is available; and it says NOT ELIGIBLE of a programme that could not be tested in the
  same words as of one that is known to fail.
\<close>

theorem untested_reads_as_not_eligible:
  assumes "lookup est ''programmeEligibility'' = eligibility_dict render (evaluate_programme_eligibility r project)"
    and "\<not> no_programme r" and "\<not> is_suspended r"
    and "el_verdict (evaluate_programme_eligibility r project) \<noteq> Available"
  shows "calculationStatus (resolve_calculation_status est r scenario declared) = ''NOT_ELIGIBLE''
     \<and> \<not> calculationCarriesFigure (resolve_calculation_status est r scenario declared)"
proof -
  have "el_available (evaluate_programme_eligibility r project) = False"
    using assms(4) by (simp add: evaluate_programme_eligibility_def Let_def)
  then have "unavailable est"
    by (simp add: unavailable_def assms(1) eligibility_dict_def py_or_def)
  then show ?thesis
    using assms(2,3) by (simp add: resolve_calculation_status_def)
qed

definition dirham_row :: pydict where
  "dirham_row = [(''program'', PStr ''Fund''), (''qs_engine_type'', PStr ''QAPE''), (''qualifying_spend_min'', PInt 1000000),
     (''currency'', PStr ''MAD'')]"

lemma dirham_unverifiable: "el_verdict (evaluate_programme_eligibility dirham_row project) = Unverifiable"
proof -
  have "row_currency dirham_row = ''MAD''" "upper ''MAD'' = ''MAD''" by code_simp+
  then have "floor_in_gbp dirham_row = None"
    by (simp add: floor_in_gbp_def dirham_row_def to_float_def to_gbp_def STATIC_FX_TO_GBP_def)
  moreover have "states_floor dirham_row" "ceiling_text dirham_row = []"
    "parse_date (lookup dirham_row ''expiry_date'') = None" "status_active dirham_row"
    by (simp_all add: states_floor_def dirham_row_def to_float_def ceiling_text_def parse_date_def status_active_def
        lower_def strip_def)
  ultimately show ?thesis
    by (simp add: verdict_facts some_missed_def all_met_def misses_def meets_def)
qed

theorem untested_reads_as_not_eligible_witness:
  "calculationStatus (resolve_calculation_status
     [(''programmeEligibility'', eligibility_dict (\<lambda>_. []) (evaluate_programme_eligibility dirham_row []))] dirham_row
     None None) = ''NOT_ELIGIBLE''"
proof (rule untested_reads_as_not_eligible [THEN conjunct1])
  show "\<not> no_programme dirham_row" by code_simp
  show "\<not> is_suspended dirham_row" by code_simp
  show "el_verdict (evaluate_programme_eligibility dirham_row []) \<noteq> Available" by (simp add: dirham_unverifiable)
qed simp

text \<open>
  The ceiling is the first number of the text, whatever it is: a year in front of the amount is
  taken for it, and an amount in dollars or euros written with their sign is taken for pounds.
\<close>

lemma ceiling_examples:
  "stated_ceiling ''GBP 23,500,000 core expenditure'' = Some (23500000, ''GBP'')"
  "stated_ceiling ''From 2026, EUR 10,000,000'' = Some (2026, ''GBP'')"
  "stated_ceiling ''$25,000,000 total'' = Some (25000000, ''GBP'')"
  by code_simp+

end
