(* ===== verification/Json.thy ===== *)
theory Json
  imports Python_Text
begin

text \<open>
  The standard library's \<open>json.loads\<close>, which the grant and report modules call on columns that hold
  a JSON text, and \<open>json.dumps\<close> of a list of ASCII texts. Texts are UTF-8, so an escape stands for
  the bytes of its code point. The words NaN and Infinity, which Python accepts, are not read. The
  reader is bounded by a fuel that \<open>fuel_suffices\<close> shows to be no restriction.
\<close>

section \<open>Characters\<close>

definition is_json_space :: "char \<Rightarrow> bool" where
  "is_json_space c \<longleftrightarrow> c \<in> {CHR 0x20, CHR 0x09, CHR 0x0A, CHR 0x0D}"

definition skip_space :: "string \<Rightarrow> string" where
  "skip_space s = dropWhile is_json_space s"

definition hex_value :: "char \<Rightarrow> nat option" where
  "hex_value c =
     (let n = of_char c :: nat in
      if 48 \<le> n \<and> n \<le> 57 then Some (n - 48)
      else if 65 \<le> n \<and> n \<le> 70 then Some (n - 55)
      else if 97 \<le> n \<and> n \<le> 102 then Some (n - 87) else None)"

text \<open>The four digits of \<open>\\uXXXX\<close>.\<close>

definition hex4 :: "string \<Rightarrow> nat option" where
  "hex4 s =
     (case map hex_value (take 4 s) of
        [Some a, Some b, Some c, Some d] \<Rightarrow> Some (4096 * a + 256 * b + 16 * c + d)
      | _ \<Rightarrow> None)"

definition utf8_bytes :: "nat \<Rightarrow> string" where
  "utf8_bytes n =
     (if n < 0x80 then [char_of n]
      else if n < 0x800 then [char_of (0xC0 + n div 64), char_of (0x80 + n mod 64)]
      else if n < 0x10000 then [char_of (0xE0 + n div 4096), char_of (0x80 + n div 64 mod 64), char_of (0x80 + n mod 64)]
      else [char_of (0xF0 + n div 262144), char_of (0x80 + n div 4096 mod 64), char_of (0x80 + n div 64 mod 64),
        char_of (0x80 + n mod 64)])"

definition simple_escapes :: "(char \<times> char) list" where
  "simple_escapes = [(CHR 0x22, CHR 0x22), (CHR 0x5C, CHR 0x5C), (CHR ''/'', CHR ''/''), (CHR ''b'', CHR 0x08),
     (CHR ''f'', CHR 0x0C), (CHR ''n'', CHR 0x0A), (CHR ''r'', CHR 0x0D), (CHR ''t'', CHR 0x09)]"

text \<open>
  What follows a backslash: the bytes it stands for and the text after it. A high surrogate takes the
  low one that follows it.
\<close>

definition json_escape :: "string \<Rightarrow> (string \<times> string) option" where
  "json_escape s =
     (case s of [] \<Rightarrow> None
      | c # cs \<Rightarrow>
        (case map_of simple_escapes c of Some d \<Rightarrow> Some ([d], cs)
         | None \<Rightarrow>
           if c \<noteq> CHR ''u'' then None
           else (case hex4 cs of None \<Rightarrow> None
             | Some n \<Rightarrow>
               (case (if 0xD800 \<le> n \<and> n \<le> 0xDBFF \<and> take 2 (drop 4 cs) = [CHR 0x5C, CHR ''u''] then hex4 (drop 6 cs) else None) of
                  Some m \<Rightarrow>
                    if 0xDC00 \<le> m \<and> m \<le> 0xDFFF
                    then Some (utf8_bytes (0x10000 + (n - 0xD800) * 1024 + (m - 0xDC00)), drop 10 cs)
                    else Some (utf8_bytes n, drop 4 cs)
                | None \<Rightarrow> Some (utf8_bytes n, drop 4 cs)))))"

lemma json_escape_shorter: "json_escape s = Some (b, r) \<Longrightarrow> length r < length s"
  by (auto simp: json_escape_def split: list.splits option.splits if_splits)

section \<open>Scanning\<close>

text \<open>A string after its opening quote.\<close>

function json_string :: "string \<Rightarrow> (string \<times> string) option" where
  "json_string s =
     (case s of [] \<Rightarrow> None
      | c # cs \<Rightarrow>
        if c = CHR 0x22 then Some ([], cs)
        else if c = CHR 0x5C then
          (case json_escape cs of None \<Rightarrow> None
           | Some (b, r) \<Rightarrow> (case json_string r of None \<Rightarrow> None | Some (t, r') \<Rightarrow> Some (b @ t, r')))
        else if (of_char c :: nat) < 32 then None
        else (case json_string cs of None \<Rightarrow> None | Some (t, r) \<Rightarrow> Some (c # t, r)))"
  by pat_completeness auto
termination
  by (relation "measure length") (auto dest: json_escape_shorter)

declare json_string.simps [simp del]

text \<open>A number: the digits before the point, those after it, and the exponent with its sign.\<close>

definition split_minus :: "string \<Rightarrow> bool \<times> string" where
  "split_minus s = (if take 1 s = ''-'' then (True, drop 1 s) else (False, s))"

definition int_digits :: "string \<Rightarrow> string" where
  "int_digits u = (if take 1 u = ''0'' then ''0'' else takeWhile is_digit_char u)"

definition fraction_digits :: "string \<Rightarrow> string" where
  "fraction_digits r = (if take 1 r = ''.'' then takeWhile is_digit_char (drop 1 r) else [])"

definition exponent_of :: "string \<Rightarrow> bool \<times> string \<times> string" where
  "exponent_of r =
     (let sgn = take 1 (drop 1 r); k = (if sgn \<in> {''-'', ''+''} then 2 else 1); ep = takeWhile is_digit_char (drop k r) in
      if take 1 r \<notin> {''e'', ''E''} \<or> ep = [] then (False, [], r) else (sgn = ''-'', ep, drop (k + length ep) r))"

definition json_number :: "string \<Rightarrow> (pyval \<times> string) option" where
  "json_number s =
     (case split_minus s of (neg, u) \<Rightarrow>
      let ip = int_digits u; r = drop (length ip) u; fp = fraction_digits r in
      if ip = [] then None
      else
       (case exponent_of (if fp = [] then r else drop (1 + length fp) r) of (eneg, ep, rest) \<Rightarrow>
        if fp = [] \<and> ep = [] then Some (PInt ((if neg then - 1 else 1) * decimal_value ip), rest)
        else
         (let x = of_int (decimal_value (ip @ fp)) / 10 ^ length fp * (if neg then - 1 else 1); e = nat (decimal_value ep) in
          Some (PFloat (if eneg then x / 10 ^ e else x * 10 ^ e), rest))))"

definition json_literals :: "(string \<times> pyval) list" where
  "json_literals = [(''null'', PNone), (''true'', PBool True), (''false'', PBool False)]"

definition json_atom :: "string \<Rightarrow> (pyval \<times> string) option" where
  "json_atom s =
     (case filter (\<lambda>(w, v). starts_with w s) json_literals of
        (w, v) # _ \<Rightarrow> Some (v, drop (length w) s)
      | [] \<Rightarrow> json_number s)"

text \<open>An object keeps the last of several values of a key.\<close>

definition py_dict :: "(string \<times> pyval) list \<Rightarrow> pydict" where
  "py_dict kvs = fold (\<lambda>(k, v). AList.update k v) kvs []"

text \<open>The next character that is not a blank, and the text after it.\<close>

definition next_char :: "string \<Rightarrow> (char \<times> string) option" where
  "next_char s = (case skip_space s of [] \<Rightarrow> None | c # cs \<Rightarrow> Some (c, cs))"

fun json_value :: "nat \<Rightarrow> string \<Rightarrow> (pyval \<times> string) option"
  and json_items :: "nat \<Rightarrow> string \<Rightarrow> (pyval list \<times> string) option"
  and json_members :: "nat \<Rightarrow> string \<Rightarrow> ((string \<times> pyval) list \<times> string) option" where
  "json_value 0 s = None"
| "json_value (Suc n) s =
     (case s of [] \<Rightarrow> None
      | c # cs \<Rightarrow>
        if c = CHR 0x22 then map_option (\<lambda>(t, r). (PStr t, r)) (json_string cs)
        else if c = CHR ''['' then
          Option.bind (next_char cs) (\<lambda>(d, r).
            if d = CHR '']'' then Some (PList [], r) else map_option (\<lambda>(xs, r). (PList xs, r)) (json_items n (d # r)))
        else if c = CHR ''{'' then
          Option.bind (next_char cs) (\<lambda>(d, r).
            if d = CHR ''}'' then Some (PDict [], r)
            else map_option (\<lambda>(kvs, r). (PDict (py_dict kvs), r)) (json_members n (d # r)))
        else json_atom s)"
| "json_items 0 s = None"
| "json_items (Suc n) s =
     Option.bind (json_value n s) (\<lambda>(v, r).
     Option.bind (next_char r) (\<lambda>(c, cs).
       if c = CHR '']'' then Some ([v], cs)
       else if c = CHR '','' then map_option (\<lambda>(vs, r'). (v # vs, r')) (json_items n (skip_space cs))
       else None))"
| "json_members 0 s = None"
| "json_members (Suc n) s =
     (case s of [] \<Rightarrow> None
      | q # qs \<Rightarrow>
        if q \<noteq> CHR 0x22 then None
        else
          Option.bind (json_string qs) (\<lambda>(k, r).
          Option.bind (next_char r) (\<lambda>(c, cs).
            if c \<noteq> CHR '':'' then None
            else
              Option.bind (json_value n (skip_space cs)) (\<lambda>(v, r').
              Option.bind (next_char r') (\<lambda>(d, ds).
                if d = CHR ''}'' then Some ([(k, v)], ds)
                else if d = CHR '','' then map_option (\<lambda>(kvs, r''). ((k, v) # kvs, r'')) (json_members n (skip_space ds))
                else None)))))"

text \<open>\<open>json.loads(text)\<close>; \<open>None\<close> is the \<open>ValueError\<close>.\<close>

definition loads_with :: "nat \<Rightarrow> string \<Rightarrow> pyval option" where
  "loads_with fuel s =
     (case json_value fuel (skip_space s) of
        Some (v, r) \<Rightarrow> if skip_space r = [] then Some v else None
      | None \<Rightarrow> None)"

definition json_loads :: "string \<Rightarrow> pyval option" where
  "json_loads s = loads_with (2 * length s + 1) s"

section \<open>The fuel is no restriction\<close>

text \<open>Every piece that is read is taken off the text.\<close>

lemma skip_space_length: "length (skip_space s) \<le> length s"
  by (simp add: skip_space_def length_dropWhile_le)

lemma json_string_rest:
  assumes "json_string s = Some (t, r)"
  obtains c where "s = c # r"
    | c cs b u t' where "s = c # cs" "json_escape cs = Some (b, u)" "json_string u = Some (t', r)"
    | c cs t' where "s = c # cs" "json_string cs = Some (t', r)"
  using assms by (subst (asm) json_string.simps) (auto split: list.splits if_splits option.splits)

lemma json_string_shorter: "json_string s = Some (t, r) \<Longrightarrow> length r < length s"
proof (induction s arbitrary: t rule: length_induct)
  case (1 s)
  from "1.prems" show ?case
  proof (cases rule: json_string_rest)
    case (2 c cs b u t')
    then have "length u < length s" using json_escape_shorter by fastforce
    with "1.IH" 2 show ?thesis by (meson less_trans)
  next
    case (3 c cs t')
    then have "length r < length cs" using "1.IH" by fastforce
    with 3 show ?thesis by simp
  qed auto
qed

lemma split_minus_length: "split_minus s = (neg, u) \<Longrightarrow> length u \<le> length s"
  by (auto simp: split_minus_def split: if_splits)

lemma exponent_of_length: "exponent_of r = (eneg, ep, rest) \<Longrightarrow> length rest \<le> length r"
  by (auto simp: exponent_of_def Let_def split: if_splits)

lemma int_digits_rest: "int_digits u \<noteq> [] \<Longrightarrow> length (drop (length (int_digits u)) u) < length u"
  by (cases u) (auto simp: int_digits_def split: if_splits)

lemma json_number_shorter:
  assumes "json_number s = Some (v, r)"
  shows "length r < length s"
proof -
  obtain neg u where u: "split_minus s = (neg, u)" by fastforce
  let ?r = "drop (length (int_digits u)) u"
  let ?r' = "if fraction_digits ?r = [] then ?r else drop (1 + length (fraction_digits ?r)) ?r"
  obtain eneg ep rest where e: "exponent_of ?r' = (eneg, ep, rest)" by (metis prod.collapse)
  have "int_digits u \<noteq> []" and r: "r = rest"
    using assms unfolding json_number_def u prod.case Let_def e by (auto split: if_splits)
  have "length ?r < length s"
    using less_le_trans [OF int_digits_rest [OF \<open>int_digits u \<noteq> []\<close>] split_minus_length [OF u]] .
  moreover have "length ?r' \<le> length ?r" by (simp add: diff_le_mono2)
  ultimately show ?thesis
    unfolding r using exponent_of_length [OF e] by linarith
qed

lemma json_atom_shorter: "json_atom s = Some (v, r) \<Longrightarrow> length r < length s"
  by (cases s) (auto simp: json_atom_def json_literals_def starts_with_def dest: json_number_shorter split: if_splits)

lemma next_char_shorter: "next_char s = Some (c, cs) \<Longrightarrow> length cs < length s"
  using skip_space_length [of s] by (auto simp: next_char_def split: list.splits)

lemma json_shorter:
  "json_value n s = Some (v, r) \<Longrightarrow> length r < length s"
  "json_items n s = Some (vs, r) \<Longrightarrow> length r < length s"
  "json_members n s = Some (kvs, r) \<Longrightarrow> length r < length s"
proof (induction n arbitrary: s v vs kvs r)
  case (Suc n)
  {
    case 1
    then show ?case
      by (cases s) (auto simp: bind_eq_Some_conv split: if_splits
        dest!: json_atom_shorter json_string_shorter next_char_shorter Suc.IH)
  next
    case 2
    then show ?case
      using skip_space_length by (auto simp: bind_eq_Some_conv split: if_splits
        dest!: next_char_shorter Suc.IH) (meson le_trans less_le_trans less_imp_le)+
  next
    case 3
    then show ?case
      using skip_space_length by (cases s; auto simp: bind_eq_Some_conv split: if_splits
        dest!: next_char_shorter json_string_shorter Suc.IH; meson le_trans less_le_trans less_imp_le less_Suc_eq)
  }
qed simp_all

text \<open>
  The measure of a call is twice the length of its text, and one more for a list or a dict: with more
  fuel than that the result does not depend on the fuel.
\<close>

lemma fuel_irrelevant:
  "2 * length s < n \<Longrightarrow> 2 * length s < m \<Longrightarrow> json_value n s = json_value m s"
  "2 * length s + 1 < n \<Longrightarrow> 2 * length s + 1 < m \<Longrightarrow> json_items n s = json_items m s"
  "2 * length s + 1 < n \<Longrightarrow> 2 * length s + 1 < m \<Longrightarrow> json_members n s = json_members m s"
proof (induction n arbitrary: s m)
  case (Suc n)
  {
    case 1
    then obtain k where m: "m = Suc k" by (cases m) auto
    show ?case
    proof (cases s)
      case (Cons c cs)
      have "json_items n (d # r) = json_items k (d # r)" "json_members n (d # r) = json_members k (d # r)"
        if "next_char cs = Some (d, r)" for d r
        using next_char_shorter [OF that] 1 m Cons Suc.IH(2,3) [of "d # r" k] by auto
      then show ?thesis
        unfolding m Cons by (cases "next_char cs") (auto cong: if_cong)
    qed (simp add: m)
  next
    case 2
    then obtain k where m: "m = Suc k" by (cases m) auto
    have v: "json_value n s = json_value k s"
      using Suc.IH(1) [of s k] 2 m by auto
    show ?case
    proof (cases "json_value k s")
      case (Some vr)
      obtain x r where vr: "vr = (x, r)" by fastforce
      have "json_items n (skip_space cs) = json_items k (skip_space cs)" if "next_char r = Some (c, cs)" for c cs
        using json_shorter(1) [OF Some [unfolded vr]] next_char_shorter [OF that] skip_space_length [of cs] 2 m
          Suc.IH(2) [of "skip_space cs" k] by auto
      then show ?thesis
        unfolding m using v Some vr by (cases "next_char r") (auto cong: if_cong)
    qed (simp add: m v)
  next
    case 3
    then obtain k where m: "m = Suc k" by (cases m) auto
    show ?case
    proof (cases s)
      case (Cons q qs)
      have body: "json_value n (skip_space cs) = json_value k (skip_space cs)"
        if "json_string qs = Some (key, r)" "next_char r = Some (c, cs)" for key r c cs
        using json_string_shorter [OF that(1)] next_char_shorter [OF that(2)] skip_space_length [of cs] Cons 3 m
          Suc.IH(1) [of "skip_space cs" k] by auto
      have rest: "json_members n (skip_space ds) = json_members k (skip_space ds)"
        if "json_string qs = Some (key, r)" "next_char r = Some (c, cs)"
          "json_value k (skip_space cs) = Some (v, r')" "next_char r' = Some (d, ds)" for key r c cs v r' d ds
        using json_string_shorter [OF that(1)] next_char_shorter [OF that(2)] skip_space_length [of cs]
          json_shorter(1) [OF that(3)] next_char_shorter [OF that(4)] skip_space_length [of ds] Cons 3 m
          Suc.IH(3) [of "skip_space ds" k] by auto
      show ?thesis
        unfolding m Cons using body rest
        by (auto intro!: bind_option_cong cong: if_cong)
    qed (simp add: m)
  }
qed simp_all

lemma loads_fuel:
  assumes "2 * length s < n"
  shows "loads_with n s = json_loads s"
proof -
  have "2 * length (skip_space s) < n" "2 * length (skip_space s) < 2 * length s + 1"
    using assms skip_space_length [of s] by linarith+
  then show ?thesis
    unfolding json_loads_def loads_with_def using fuel_irrelevant(1) by metis
qed

section \<open>Writing a list of texts\<close>

definition hex_digit :: "nat \<Rightarrow> char" where
  "hex_digit n = (if n < 10 then char_of (48 + n) else char_of (87 + n))"

text \<open>\<open>json.dumps\<close> escapes the quote, the backslash and everything outside the printable ASCII characters.\<close>

definition json_char :: "char \<Rightarrow> string" where
  "json_char c =
     (if c = CHR 0x22 \<or> c = CHR 0x5C then [CHR 0x5C, c]
      else if c = CHR 0x0A then [CHR 0x5C, CHR ''n''] else if c = CHR 0x0D then [CHR 0x5C, CHR ''r'']
      else if c = CHR 0x09 then [CHR 0x5C, CHR ''t''] else if c = CHR 0x08 then [CHR 0x5C, CHR ''b'']
      else if c = CHR 0x0C then [CHR 0x5C, CHR ''f'']
      else (let n = of_char c :: nat in
        if n < 32 \<or> n = 127 then [CHR 0x5C, CHR ''u'', CHR ''0'', CHR ''0'', hex_digit (n div 16), hex_digit (n mod 16)]
        else [c]))"

definition json_quote :: "string \<Rightarrow> string" where
  "json_quote s = [CHR 0x22] @ concat (map json_char s) @ [CHR 0x22]"

definition json_dumps :: "string list \<Rightarrow> string" where
  "json_dumps xs = ''['' @ comma_join (map json_quote xs) @ '']''"

definition is_ascii :: "string \<Rightarrow> bool" where
  "is_ascii s = list_all (\<lambda>c. (of_char c :: nat) < 128) s"

lemma hex_value_digit: "n < 16 \<Longrightarrow> hex_value (hex_digit n) = Some n"
  by (auto simp: hex_value_def hex_digit_def of_char_of Let_def)

lemma hex4_code: "n < 128 \<Longrightarrow> hex4 (CHR ''0'' # CHR ''0'' # hex_digit (n div 16) # hex_digit (n mod 16) # t) = Some n"
proof -
  assume "n < 128"
  then have "n div 16 < 16" "n mod 16 < 16" by simp_all
  then have "hex_value (hex_digit (n div 16)) = Some (n div 16)" "hex_value (hex_digit (n mod 16)) = Some (n mod 16)"
    by (simp_all only: hex_value_digit)
  moreover have "hex_value CHR ''0'' = Some 0" by (simp add: hex_value_def Let_def)
  ultimately show ?thesis by (simp add: hex4_def)
qed

lemma escaped_code:
  "n < 128 \<Longrightarrow> json_escape (CHR ''u'' # CHR ''0'' # CHR ''0'' # hex_digit (n div 16) # hex_digit (n mod 16) # t)
    = Some ([char_of n], t)"
  using hex4_code [of n t] by (simp add: json_escape_def simple_escapes_def utf8_bytes_def)

lemma json_string_escape:
  "json_string (CHR 0x5C # s) =
    (case json_escape s of None \<Rightarrow> None
     | Some (b, r) \<Rightarrow> (case json_string r of None \<Rightarrow> None | Some (t, r') \<Rightarrow> Some (b @ t, r')))"
  by (simp add: json_string.simps [of "CHR 0x5C # _"])

lemma json_string_plain:
  "c \<noteq> CHR 0x22 \<Longrightarrow> c \<noteq> CHR 0x5C \<Longrightarrow> \<not> (of_char c :: nat) < 32
    \<Longrightarrow> json_string (c # cs) = map_option (\<lambda>(t, r). (c # t, r)) (json_string cs)"
  by (simp add: json_string.simps [of "c # _"] split: option.splits)

lemma json_string_char:
  assumes "(of_char c :: nat) < 128"
  shows "json_string (json_char c @ t) = map_option (\<lambda>(u, r). (c # u, r)) (json_string t)"
proof (cases "c \<in> {CHR 0x22, CHR 0x5C, CHR 0x0A, CHR 0x0D, CHR 0x09, CHR 0x08, CHR 0x0C}")
  case True
  then obtain d where d: "json_char c = [CHR 0x5C, d]" "map_of simple_escapes d = Some c"
    by (elim insertE) (simp_all add: json_char_def simple_escapes_def)
  then have "json_escape (d # t) = Some ([c], t)" by (simp add: json_escape_def)
  then show ?thesis by (simp add: d(1) json_string_escape split: option.splits)
next
  case special: False
  show ?thesis
  proof (cases "(of_char c :: nat) < 32 \<or> (of_char c :: nat) = 127")
    case True
    then have "json_char c = [CHR 0x5C, CHR ''u'', CHR ''0'', CHR ''0'', hex_digit (of_char c div 16), hex_digit (of_char c mod 16)]"
      using special by (simp add: json_char_def Let_def)
    then show ?thesis
      using escaped_code [OF assms, of t] by (simp add: json_string_escape split: option.splits)
  next
    case False
    then have "json_char c = [c]" using special by (simp add: json_char_def Let_def)
    then show ?thesis
      using False special by (simp add: json_string_plain)
  qed
qed

lemma json_string_quote:
  "is_ascii s \<Longrightarrow> json_string (concat (map json_char s) @ CHR 0x22 # r) = Some (s, r)"
proof (induction s)
  case Nil
  then show ?case by (simp add: json_string.simps [of "CHR 0x22 # _"])
next
  case (Cons c s)
  then show ?case by (simp add: is_ascii_def json_string_char)
qed

lemma json_value_quote: "is_ascii s \<Longrightarrow> json_value (Suc n) (json_quote s @ r) = Some (PStr s, r)"
  by (simp add: json_quote_def json_string_quote)

lemma skip_space_quote: "skip_space (json_quote s @ r) = json_quote s @ r"
  by (simp add: json_quote_def skip_space_def is_json_space_def)

lemma json_items_step:
  "is_ascii s \<Longrightarrow> skip_space r = r
    \<Longrightarrow> json_items (Suc (Suc n)) (json_quote s @ '', '' @ r) = map_option (\<lambda>(vs, r'). (PStr s # vs, r')) (json_items (Suc n) r)"
  unfolding json_items.simps(2) [of "Suc n"] json_value_quote
  by (simp add: next_char_def skip_space_def is_json_space_def del: json_items.simps)

lemma json_items_quotes:
  "xs \<noteq> [] \<Longrightarrow> list_all is_ascii xs \<Longrightarrow> length xs < n
    \<Longrightarrow> json_items n (comma_join (map json_quote xs) @ '']'') = Some (map PStr xs, [])"
proof (induction xs arbitrary: n rule: induct_list012)
  case (2 x)
  then obtain k where n: "n = Suc (Suc k)" by (cases n; cases "n - 1") auto
  show ?case
    using 2 by (simp add: n json_value_quote next_char_def skip_space_def is_json_space_def del: json_value.simps)
next
  case (3 x y zs)
  then obtain k where n: "n = Suc (Suc k)" by (cases n; cases "n - 1") auto
  let ?r = "comma_join (map json_quote (y # zs)) @ '']''"
  have "json_items (Suc k) ?r = Some (map PStr (y # zs), [])"
    using 3 n by (intro "3.IH"(2)) auto
  moreover have "skip_space ?r = ?r"
    by (cases zs) (simp_all add: skip_space_quote)
  moreover have "comma_join (map json_quote (x # y # zs)) @ '']'' = json_quote x @ '', '' @ ?r" by simp
  ultimately show ?case
    using 3 json_items_step [of x ?r k] by (simp only: n) simp
qed simp

text \<open>A list of ASCII texts written by \<open>json.dumps\<close> is read back.\<close>

lemma json_round_trip:
  assumes "list_all is_ascii xs"
  shows "json_loads (json_dumps xs) = Some (PList (map PStr xs))"
proof (cases "xs = []")
  case True
  show ?thesis unfolding True by code_simp
next
  case False
  let ?n = "length xs + 2 * length (json_dumps xs) + 2"
  let ?r = "comma_join (map json_quote xs) @ '']''"
  have r: "skip_space ?r = ?r"
    using False by (induction xs rule: induct_list012) (simp_all add: skip_space_quote)
  obtain c cs where c: "?r = c # cs" "c \<noteq> CHR '']''"
    using False by (induction xs rule: induct_list012) (auto simp: json_quote_def)
  have "json_value (Suc (length xs + 2 * length (json_dumps xs) + 1)) (CHR ''['' # ?r) = Some (PList (map PStr xs), [])"
    using json_items_quotes [OF False assms, of "length xs + 2 * length (json_dumps xs) + 1"] c r
    unfolding json_value.simps(2) by (simp add: next_char_def del: json_value.simps json_items.simps)
  then have "loads_with ?n (json_dumps xs) = Some (PList (map PStr xs))"
    by (simp add: loads_with_def json_dumps_def skip_space_def is_json_space_def del: json_value.simps)
  then show ?thesis by (simp add: loads_fuel)
qed

end
