(* ===== verification/Formats_Regions.thy ===== *)
theory Formats_Regions
  imports Python_Text
begin

text \<open>
  \<open>app/core/formats.py\<close> and \<open>app/core/regions.py\<close>: the production formats and the regions of a
  territory. The keys of the territory table are UTF-8 and lowered as the module does when it is
  loaded; a text looked up in it is lowered as ASCII. A \<open>frozenset\<close> of regions is a list
  without duplicates, of which only membership is read.
\<close>

section \<open>Formats\<close>

definition FORMAT_MAP :: "(string \<times> string) list" where
  "FORMAT_MAP = [
     (''feature film'', ''feature''), (''feature'', ''feature''), (''short'', ''short''),
     (''short film'', ''short''), (''short-film'', ''short''), (''short_film'', ''short''),
     (''shorts'', ''short''), (''documentary'', ''documentary''), (''docuseries'', ''documentary''),
     (''tv series'', ''tv_series''), (''tv pilot'', ''tv_series''), (''tv'', ''tv_series''),
     (''tv movie'', ''tv_series''), (''tv_movie'', ''tv_series''), (''limited series'', ''tv_series''),
     (''mini-series'', ''tv_series''), (''mini series'', ''tv_series''), (''series'', ''tv_series''),
     (''animation'', ''animation''), (''animated feature'', ''animation''),
     (''animation series'', ''animation'')]"

definition FORMAT_DISPLAY :: "(string \<times> string) list" where
  "FORMAT_DISPLAY = [(''feature'', ''Feature Film''), (''short'', ''Short''), (''documentary'', ''Documentary''), (''tv_series'', ''TV / Series''), (''animation'', ''Animation'')]"

definition CANONICAL_FORMATS :: "string list" where
  "CANONICAL_FORMATS = map fst FORMAT_DISPLAY"

definition replace_char :: "char \<Rightarrow> char \<Rightarrow> string \<Rightarrow> string" where
  "replace_char a b s = map (\<lambda>c. if c = a then b else c) s"

definition canonical_format :: "pyval \<Rightarrow> string option" where
  "canonical_format value =
     (if value = PNone then None
      else
       (let key = lower (strip (py_str value)) in
        if key = [] then None
        else (case map_of FORMAT_MAP key of Some f \<Rightarrow> Some f
          | None \<Rightarrow> Some (replace_char CHR ''-'' CHR ''_'' (replace_char CHR '' '' CHR ''_'' key)))))"

definition format_display :: "pyval \<Rightarrow> string option" where
  "format_display value =
     map_option (\<lambda>token. case map_of FORMAT_DISPLAY token of Some d \<Rightarrow> d
       | None \<Rightarrow> title (replace_char CHR ''_'' CHR '' '' token)) (canonical_format value)"

section \<open>Regions\<close>

definition REGION_CONTAINMENT :: "(string \<times> string list) list" where
  "REGION_CONTAINMENT = [
     (''Africa'', [''Africa'']),
     (''Asia'', [''Asia'']),
     (''Southeast Asia'', [''Asia'', ''Southeast Asia'']),
     (''Central Asia'', [''Asia'', ''Central Asia'']),
     (''Europe'', [''Europe'']),
     (''Eastern Europe'', [''Europe'', ''Eastern Europe'']),
     (''Middle East'', [''Middle East'']),
     (''Latin America'', [''Latin America'']),
     (''North America'', [''North America'']),
     (''Oceania'', [''Oceania''])]"

text \<open>\<open>_add(regions, *names)\<close>: the names of each call with their regions.\<close>

definition TERRITORY_GROUPS :: "(string list \<times> string list) list" where
  "TERRITORY_GROUPS = [
   ([''Africa''], [
     ''nigeria'', ''benin'', ''ghana'', ''senegal'', ''kenya'', ''tanzania'', ''uganda'', ''rwanda'',
     ''ethiopia'', ''zimbabwe'', ''zambia'', ''botswana'', ''namibia'', ''mozambique'', ''angola'',
     ''cameroon'', ''ivory coast'', ''c'' @ [CHR 0xC3] @ [CHR 0xB4] @ ''te d'' @ [CHR 0x27] @ ''ivoire'',
     ''burkina faso'', ''mali'', ''niger'', ''chad'', ''guinea'', ''sierra leone'', ''liberia'', ''togo'',
     ''gabon'', ''congo'', ''democratic republic of the congo'', ''south africa'', ''western cape'',
     ''gauteng'', ''kwazulu-natal'', ''morocco'', ''algeria'', ''tunisia'', ''libya'', ''sudan'', ''somalia'']),
   ([''Africa'', ''Middle East''], [
     ''egypt'']),
   ([''Europe''], [
     ''united kingdom'', ''scotland'', ''wales'', ''northern ireland'', ''england'', ''ireland'', ''france'',
     [CHR 0xC3] @ [CHR 0xAE] @ ''le-de-france'', ''ile-de-france'', ''germany'', ''bavaria'', ''spain'',
     ''canary islands'', ''portugal'', ''italy'', ''netherlands'', ''belgium'', ''luxembourg'', ''austria'',
     ''switzerland'', ''denmark'', ''sweden'', ''norway'', ''finland'', ''iceland'', ''malta'', ''cyprus'',
     ''greece'']),
   ([''Europe'', ''Eastern Europe''], [
     ''hungary'', ''czech republic'', ''poland'', ''romania'', ''serbia'', ''bulgaria'', ''croatia'',
     ''slovakia'', ''slovenia'', ''estonia'', ''latvia'', ''lithuania'', ''ukraine'',
     ''bosnia and herzegovina'', ''north macedonia'', ''albania'', ''montenegro'', ''moldova'', ''georgia'']),
   ([''North America''], [
     ''united states'', ''usa'', ''united states of america'', ''canada'', ''california'', ''new york'',
     ''new mexico'', ''louisiana'', ''illinois'', ''georgia (usa)'', ''ontario'', ''quebec'',
     ''british columbia'', ''alberta'', ''nova scotia'', ''manitoba'']),
   ([''Latin America''], [
     ''mexico'', ''brazil'', ''argentina'', ''chile'', ''colombia'', ''peru'', ''uruguay'', ''bolivia'',
     ''ecuador'', ''paraguay'', ''venezuela'', ''costa rica'', ''panama'', ''guatemala'', ''cuba'',
     ''dominican republic'', ''puerto rico'']),
   ([''Asia''], [
     ''japan'', ''south korea'', ''korea'', ''china'', ''hong kong'', ''taiwan'', ''mongolia'', ''india'',
     ''pakistan'', ''bangladesh'', ''sri lanka'', ''nepal'', ''bhutan'', ''maldives'']),
   ([''Asia'', ''Southeast Asia''], [
     ''singapore'', ''malaysia'', ''indonesia'', ''thailand'', ''philippines'', ''vietnam'', ''myanmar'',
     ''cambodia'', ''laos'', ''brunei'', ''timor-leste'']),
   ([''Asia'', ''Central Asia''], [
     ''kazakhstan'', ''uzbekistan'', ''kyrgyzstan'', ''tajikistan'', ''turkmenistan'']),
   ([''Middle East''], [
     ''united arab emirates'', ''uae'', ''saudi arabia'', ''qatar'', ''kuwait'', ''bahrain'', ''oman'',
     ''jordan'', ''lebanon'', ''israel'', ''palestine'', ''iraq'', ''iran'', ''syria'', ''yemen'', ''turkey'']),
   ([''Oceania''], [
     ''australia'', ''new south wales'', ''victoria'', ''queensland'', ''south australia'',
     ''western australia'', ''new zealand'', ''fiji'', ''papua new guinea''])]"

definition TERRITORY_REGIONS :: "(string \<times> string list) list" where
  "TERRITORY_REGIONS = concat (map (\<lambda>(regions, names). map (\<lambda>n. (n, regions)) names) TERRITORY_GROUPS)"

definition regions_for_territory :: "string \<Rightarrow> string list" where
  "regions_for_territory territory =
     (case map_of TERRITORY_REGIONS (lower (strip territory)) of Some rs \<Rightarrow> rs | None \<Rightarrow> [])"

definition regions_for_territories :: "string option list \<Rightarrow> string list" where
  "regions_for_territories territories =
     remdups (concat (map (\<lambda>t. case t of None \<Rightarrow> [] | Some name \<Rightarrow> regions_for_territory name) territories))"

definition containment :: "string \<Rightarrow> string list" where
  "containment region = (case map_of REGION_CONTAINMENT region of Some rs \<Rightarrow> rs | None \<Rightarrow> [region])"

definition satisfies :: "string list \<Rightarrow> string list \<Rightarrow> bool" where
  "satisfies production_regions required_regions =
     (let required = filter (\<lambda>r. r \<noteq> []) (map strip required_regions) in
      required = [] \<or> production_regions = []
      \<or> list_ex (\<lambda>region. list_ex (\<lambda>r. r \<in> set required) (containment region)) production_regions)"

end
