(* ===== verification/Grant_Normalise.thy ===== *)
theory Grant_Normalise
  imports Json Formats_Regions Grant_Contracts "HOL-Library.List_Lexorder" "HOL-Library.Char_ord"
begin

text \<open>
  \<open>app/modules/grants/normalise.py\<close>: the cells of a grant record as the facts the engine gates on.
  A cell that says nothing is \<open>None\<close>, never an empty list. The two regular expressions that split
  and trim a format are scanners here; a day count is exact where the code divides floats.
\<close>

section \<open>Unknown\<close>

definition UNKNOWN_TOKENS :: "string list" where
  "UNKNOWN_TOKENS = ['''', ''[]'', ''{}'', ''none'', ''null'', ''n/a'', ''na'', ''-'', EM_DASH, ''tbc'']"

definition cell_text :: "pyval \<Rightarrow> string" where
  "cell_text value = lower (strip (py_str value))"

fun unstated :: "pyval \<Rightarrow> bool" where
  "unstated PNone = True"
| "unstated (PBool _) = False"
| "unstated (PInt _) = False"
| "unstated (PFloat _) = False"
| "unstated (PList xs) = (xs = [])"
| "unstated (PDict kvs) = (kvs = [])"
| "unstated v = (cell_text v \<in> set UNKNOWN_TOKENS)"

fun parse_bool :: "pyval \<Rightarrow> bool option" where
  "parse_bool PNone = None"
| "parse_bool (PBool b) = Some b"
| "parse_bool v =
     (if cell_text v \<in> {''true'', ''t'', ''yes'', ''y'', ''1''} then Some True
      else if cell_text v \<in> {''false'', ''f'', ''no'', ''n'', ''0''} then Some False else None)"

section \<open>Dates\<close>

definition parse_date_cell :: "pyval \<Rightarrow> int option" where
  "parse_date_cell value =
     (case value of
        PNone \<Rightarrow> None
      | PTime t \<Rightarrow> Some (date_part t)
      | PDate d \<Rightarrow> Some d
      | v \<Rightarrow> (let s = strip (py_str v) in if iso_at s then iso_date (take 10 s) else None))"

definition months_between :: "int \<Rightarrow> int \<Rightarrow> rat" where
  "months_between start until =
     (case (ymd_of start, ymd_of until) of ((y, m, d), (y', m', d')) \<Rightarrow>
      of_int ((y' - y) * 12 + (m' - m)) + of_int (d' - d) / 30)"

section \<open>Status\<close>

fun rule_matches :: "status_rule \<Rightarrow> string \<Rightarrow> bool" where
  "rule_matches (Contains needle) text = text_contains needle text"
| "rule_matches (Equals needle) text = (text = needle)"
| "rule_matches (Starts needle) text = starts_with needle text"
| "rule_matches (One_of needles) text = (text \<in> set needles)"

definition canonical_status :: "pyval \<Rightarrow> string" where
  "canonical_status raw =
     (if unstated raw then ''UNKNOWN''
      else (case filter (\<lambda>(rule, status). rule_matches rule (cell_text raw)) STATUS_RULES of
          (_, status) # _ \<Rightarrow> status
        | [] \<Rightarrow> ''UNKNOWN''))"

definition status_date_at :: "string \<Rightarrow> bool" where
  "status_date_at s = (10 \<le> length s \<and> list_all is_digit_char (take 4 s) \<and> s ! 4 \<in> {CHR ''-'', CHR ''_''}
     \<and> list_all is_digit_char (take 2 (drop 5 s)) \<and> s ! 7 \<in> {CHR ''-'', CHR ''_''} \<and> list_all is_digit_char (take 2 (drop 8 s)))"

fun status_dates :: "string \<Rightarrow> int list" where
  "status_dates [] = []"
| "status_dates (c # cs) =
     (if status_date_at (c # cs)
      then (case iso_date (take 10 (c # cs)) of Some d \<Rightarrow> d # status_dates (drop 9 cs) | None \<Rightarrow> status_dates (drop 9 cs))
      else status_dates cs)"

definition status_window :: "pyval \<Rightarrow> int option \<times> int option" where
  "status_window raw =
     (if unstated raw then (None, None)
      else (case status_dates (strip (py_str raw)) of
          [] \<Rightarrow> (None, None)
        | opens # closes # _ \<Rightarrow> (Some opens, Some closes)
        | [d] \<Rightarrow> if text_contains ''opens_'' (cell_text raw) then (Some d, None) else (None, Some d)))"

section \<open>Deadlines\<close>

definition ROLLING_TOKENS :: "string list" where
  "ROLLING_TOKENS = [''rolling'', ''ongoing'', ''year-round'', ''year round'', ''continuous'']"

definition iso_month :: "string \<Rightarrow> bool" where
  "iso_month s = (length s = 7 \<and> list_all is_digit_char (take 4 s) \<and> s ! 4 = CHR ''-'' \<and> list_all is_digit_char (drop 5 s))"

definition parse_deadline :: "pyval \<Rightarrow> pyval \<Rightarrow> deadline_kind \<times> int option" where
  "parse_deadline raw recurrence =
     (let text = strip (py_str raw); lowered = lower text in
      if \<not> unstated recurrence \<and> cell_text recurrence \<in> set ROLLING_TOKENS then (ROLLING, None)
      else if unstated raw then (UNKNOWN, None)
      else if lowered \<in> set ROLLING_TOKENS \<or> text_contains ''rolling'' lowered \<or> text_contains ''year-round'' lowered
      then (ROLLING, None)
      else if text_contains ''tbc'' lowered then (TBC, None)
      else (case parse_date_cell (PStr text) of
          Some d \<Rightarrow> (ISO_DATE, Some d)
        | None \<Rightarrow> if iso_month text then (ISO_MONTH_PARTIAL, None) else (FREE_TEXT, None)))"

section \<open>Lists in a cell\<close>

text \<open>\<open>re.split(r"[;,/]| and ", text)\<close>.\<close>

function split_list :: "string \<Rightarrow> string list" where
  "split_list s =
     (case s of [] \<Rightarrow> [[]]
      | c # cs \<Rightarrow>
        if c \<in> {CHR '';'', CHR '','', CHR ''/''} then [] # split_list cs
        else if starts_with '' and '' s then [] # split_list (drop 5 s)
        else (case split_list cs of [] \<Rightarrow> [[c]] | w # ws \<Rightarrow> (c # w) # ws))"
  by pat_completeness auto
termination
  by (relation "measure length") auto

declare split_list.simps [simp del]

definition cell_tokens :: "pyval \<Rightarrow> string list" where
  "cell_tokens raw =
     (case raw of
        PList xs \<Rightarrow> map py_str xs
      | v \<Rightarrow>
        (let text = strip (py_str v);
             tokens = (if starts_with ''['' text
               then (case json_loads text of Some (PList ys) \<Rightarrow> map py_str ys | _ \<Rightarrow> []) else []) in
         if tokens = [] then split_list text else tokens))"

section \<open>Formats\<close>

definition GRANT_FORMAT_ALIASES :: "(string \<times> string) list" where
  "GRANT_FORMAT_ALIASES = [
     (''film'', ''feature''), (''films'', ''feature''), (''fiction feature'', ''feature''), (''feature fiction'', ''feature''),
     (''live-action feature'', ''feature''), (''narrative feature'', ''feature''), (''long-form scripted'', ''feature''),
     (''feature documentary'', ''documentary''), (''documentaries'', ''documentary''), (''doc'', ''documentary''),
     (''television'', ''tv_series''), (''tv drama'', ''tv_series''), (''scripted series'', ''tv_series''),
     (''drama series'', ''tv_series''), (''animated series'', ''animation''), (''animated short'', ''animation''),
     (''shorts'', ''short''), (''short fiction'', ''short''), (''children'' @ [CHR 0x27] @ ''s'', ''tv_series'')]"

definition FORMAT_KEYWORDS :: "(string \<times> string) list" where
  "FORMAT_KEYWORDS = [(''documentary'', ''documentary''), (''animation'', ''animation''), (''animated'', ''animation''),
     (''series'', ''tv_series''), (''television'', ''tv_series''), (''short'', ''short''), (''feature'', ''feature''),
     (''film'', ''feature'')]"

definition format_from_keywords :: "string \<Rightarrow> string option" where
  "format_from_keywords text =
     (case filter (\<lambda>(keyword, _). text_contains keyword text) FORMAT_KEYWORDS of
        (_, canonical) # _ \<Rightarrow> Some canonical
      | [] \<Rightarrow> None)"

text \<open>
  \<open>\\s*\\b\\d+\\+?\\s*(min|minutes|mins)\\b.*$\<close> at the start of a text that follows a word character
  or not; \<open>.*$\<close> stops the match at a line break that is not the last character.
\<close>

definition noise_at :: "bool \<Rightarrow> string \<Rightarrow> bool" where
  "noise_at after_word s =
     (let t = dropWhile is_space s; ds = takeWhile is_digit_char t; u = drop (length ds) t;
          u = (if take 1 u = ''+'' then drop 1 u else u); u = dropWhile is_space u in
      ds \<noteq> [] \<and> \<not> (after_word \<and> t = s)
      \<and> list_ex (\<lambda>w. starts_with w (lower u)
          \<and> (case drop (length w) u of [] \<Rightarrow> True | c # _ \<Rightarrow> \<not> is_word_char c)
          \<and> CHR 0x0A \<notin> set (butlast (drop (length w) u))) [''min'', ''minutes'', ''mins''])"

fun cut_noise :: "bool \<Rightarrow> string \<Rightarrow> string" where
  "cut_noise after_word [] = []"
| "cut_noise after_word (c # cs) =
     (if noise_at after_word (c # cs) then (if last (c # cs) = CHR 0x0A then [CHR 0x0A] else [])
      else c # cut_noise (is_word_char c) cs)"

definition format_of_token :: "string \<Rightarrow> string option" where
  "format_of_token cleaned =
     (let mapped = (case map_of GRANT_FORMAT_ALIASES cleaned of Some f \<Rightarrow> Some f | None \<Rightarrow> canonical_format (PStr cleaned));
          mapped = (if mapped \<in> Some ` set CANONICAL_FORMATS then mapped else format_from_keywords cleaned) in
      if mapped \<in> Some ` set CANONICAL_FORMATS then mapped else None)"

fun collect_formats :: "string list \<Rightarrow> string list \<Rightarrow> string list" where
  "collect_formats canonical [] = canonical"
| "collect_formats canonical (token # tokens) =
     (let cleaned = lower (strip (cut_noise False token)) in
      if cleaned = [] then collect_formats canonical tokens
      else if cleaned = ''all'' then [''all'']
      else (case format_of_token cleaned of
          Some f \<Rightarrow> collect_formats (if f \<in> set canonical then canonical else canonical @ [f]) tokens
        | None \<Rightarrow> collect_formats canonical tokens))"

definition some_list :: "'a list \<Rightarrow> 'a list option" where
  "some_list xs = (if xs = [] then None else Some xs)"

definition parse_format_list :: "pyval \<Rightarrow> string list option" where
  "parse_format_list raw = (if unstated raw then None else some_list (collect_formats [] (cell_tokens raw)))"

section \<open>Stages\<close>

definition STAGE_ALIASES :: "(string \<times> string) list" where
  "STAGE_ALIASES = [
     (''development'', ''development''), (''early development'', ''development''), (''writing'', ''development''),
     (''script development'', ''development''), (''slate development'', ''development''), (''research'', ''development''),
     (''production'', ''production''),
     (''co_production'', ''co_production''), (''co-production'', ''co_production''), (''coproduction'', ''co_production''),
     (''post-production'', ''completion''), (''post_production'', ''completion''), (''post production'', ''completion''),
     (''post'', ''completion''), (''completion'', ''completion''), (''archive'', ''completion''),
     (''distribution'', ''distribution''), (''sales'', ''distribution''), (''marketing'', ''distribution''),
     (''audience_development'', ''distribution''), (''festival_launch'', ''distribution''),
     (''promotion'', ''promotion''), (''festival'', ''promotion''), (''exhibition'', ''promotion'')]"

definition CANONICAL_STAGES :: "string list" where
  "CANONICAL_STAGES = [''development'', ''production'', ''completion'', ''distribution'', ''co_production'', ''promotion'']"

definition stage_of_token :: "string \<Rightarrow> string option" where
  "stage_of_token cleaned =
     (case map_of STAGE_ALIASES cleaned of Some s \<Rightarrow> Some s
      | None \<Rightarrow> map_of STAGE_ALIASES (replace_char CHR ''_'' CHR ''-'' cleaned))"

fun collect_stages :: "string list \<Rightarrow> string list \<Rightarrow> string list" where
  "collect_stages stages [] = stages"
| "collect_stages stages (token # tokens) =
     (let cleaned = replace_char CHR '' '' CHR ''_'' (lower (strip token)) in
      if cleaned = [] then collect_stages stages tokens
      else if cleaned \<in> {''multi'', ''all''} then CANONICAL_STAGES
      else (case stage_of_token cleaned of
          Some s \<Rightarrow> collect_stages (if s \<in> set stages then stages else stages @ [s]) tokens
        | None \<Rightarrow> collect_stages stages tokens))"

definition parse_stage_list :: "pyval \<Rightarrow> string list option" where
  "parse_stage_list raw = (if unstated raw then None else some_list (collect_stages [] (cell_tokens raw)))"

section \<open>Amounts and prose\<close>

definition POOL_MARKERS :: "string list" where
  "POOL_MARKERS = [''total call'', ''total pool'', ''total fund'', ''annual budget'', ''programme budget'',
     ''overall budget'', ''total programme'', ''fund size'']"

definition pure_numeric :: "string \<Rightarrow> bool" where
  "pure_numeric s =
     (let t = dropWhile is_space s; ip = takeWhile (\<lambda>c. is_digit_char c \<or> is_space c \<or> c = CHR '','') t;
          rest = drop (length ip) t; fp = takeWhile is_digit_char (drop 1 rest) in
      t \<noteq> [] \<and> is_digit_char (hd t)
      \<and> (rest = [] \<or> hd rest = CHR ''.'' \<and> fp \<noteq> [] \<and> list_all is_space (drop (1 + length fp) rest)))"

definition parse_amount :: "pyval \<Rightarrow> string option \<times> rat option \<times> bool" where
  "parse_amount raw =
     (if unstated raw then (None, None, False)
      else
       (let text = strip (py_str raw); is_pool = list_ex (\<lambda>m. text_contains m (lower text)) POOL_MARKERS in
        (Some text,
         if pure_numeric text then parse_float (filter (\<lambda>c. c \<noteq> CHR '','' \<and> c \<noteq> CHR '' '') text) else None,
         is_pool)))"

definition stripped_items :: "pyval list \<Rightarrow> string list" where
  "stripped_items xs = filter (\<lambda>s. s \<noteq> []) (map (\<lambda>x. strip (py_str x)) xs)"

definition parse_text_list :: "pyval \<Rightarrow> string list" where
  "parse_text_list raw =
     (if unstated raw then []
      else (case raw of
          PList xs \<Rightarrow> stripped_items xs
        | v \<Rightarrow>
          (let text = strip (py_str v) in
           case (if starts_with ''['' text then json_loads text else None) of
             Some (PList ys) \<Rightarrow> stripped_items ys
           | _ \<Rightarrow> if text = [] then [] else [text])))"

text \<open>\<open>_region_list\<close> of \<open>reports/matching.py\<close>.\<close>

definition region_list :: "pyval \<Rightarrow> string list" where
  "region_list raw =
     (if \<not> truthy raw then []
      else (case (case raw of PStr s \<Rightarrow> json_loads s | v \<Rightarrow> Some v) of
          Some (PList xs) \<Rightarrow> sort (remdups (stripped_items xs))
        | _ \<Rightarrow> []))"

end
