(* ===== verification/Grant_Engine.thy ===== *)
theory Grant_Engine
  imports Grant_Normalise Grant_Portfolio
begin

text \<open>
  \<open>app/modules/grants/engine.py\<close>: one record of the grants table against one project. The gates in
  the order they run, the verification state, the score of a record no gate excluded, the display
  fields, and the payload the report consumes. A record is a dict whose budget bounds are numbers;
  a text of the project that may be missing is an option. The flags a gate appends to
  \<open>admin_flags\<close> are returned with its result.
\<close>

section \<open>The project\<close>

record project_facts =
  format_fact :: "string option"
  genres :: "string list"
  budget_usd :: "rat option"
  home_country :: "string option"
  producer_country :: "string option"
  script_origin :: "string option"
  ranked_territories :: "string list"
  stage_fact :: "string option"
  production_stage_declared :: bool
  co_production_status :: "string option"
  co_production_interest :: "string option"
  treaty_fact :: "treaty_context option"
  package_fact :: "string option"

definition REGION_TO_CONTINENT :: "(string \<times> string) list" where
  "REGION_TO_CONTINENT = [(''Africa'', ''Africa''), (''Asia'', ''Asia-Pacific''), (''Southeast Asia'', ''Asia-Pacific''),
     (''Central Asia'', ''Asia-Pacific''), (''Oceania'', ''Asia-Pacific''), (''Europe'', ''Europe''),
     (''Eastern Europe'', ''Europe''), (''Middle East'', ''Middle East''), (''Latin America'', ''Americas''),
     (''North America'', ''Americas'')]"

definition origin_regions :: "project_facts \<Rightarrow> string list" where
  "origin_regions facts = regions_for_territories [script_origin facts, home_country facts, producer_country facts]"

definition affinity_continents :: "project_facts \<Rightarrow> string list" where
  "affinity_continents facts =
     List.map_filter (map_of REGION_TO_CONTINENT)
       (origin_regions facts @ regions_for_territories (map Some (ranked_territories facts)))"

text \<open>\<open>(x or '').lower()\<close>.\<close>

definition lower_or_empty :: "string option \<Rightarrow> string" where
  "lower_or_empty x = lower (or_empty x)"

fun first_text :: "pydict \<Rightarrow> string list \<Rightarrow> string" where
  "first_text rec [] = []"
| "first_text rec (key # keys) = (if unstated (lookup rec key) then first_text rec keys else strip (py_str (lookup rec key)))"

definition or_default :: "string \<Rightarrow> string \<Rightarrow> string" where
  "or_default s d = (if s = [] then d else s)"

definition num_of :: "pyval \<Rightarrow> rat option" where
  "num_of v = (case v of PInt i \<Rightarrow> Some (of_int i) | PFloat x \<Rightarrow> Some x | _ \<Rightarrow> None)"

definition canonical_first :: "pydict \<Rightarrow> string \<Rightarrow> string \<Rightarrow> pyval" where
  "canonical_first rec key fallback = py_or (lookup rec key) (lookup rec fallback)"

record admin_flag =
  flag_opportunity :: string
  flag :: string
  flag_detail :: string

definition flag_of :: "pydict \<Rightarrow> string \<Rightarrow> string \<Rightarrow> admin_flag" where
  "flag_of rec name text = \<lparr>flag_opportunity = first_text rec [''canonical_title'', ''title''], flag = name, flag_detail = text\<rparr>"

section \<open>Gate results\<close>

definition gate_pass :: "string \<Rightarrow> string \<Rightarrow> hard_gate_result" where
  "gate_pass g code = \<lparr>gate = g, passed = True, reason_code = code, reason = None, tested = True\<rparr>"

definition gate_fail :: "string \<Rightarrow> string \<Rightarrow> string \<Rightarrow> hard_gate_result" where
  "gate_fail g code text = \<lparr>gate = g, passed = False, reason_code = code, reason = Some text, tested = True\<rparr>"

definition gate_untested :: "string \<Rightarrow> string \<Rightarrow> string option \<Rightarrow> hard_gate_result" where
  "gate_untested g code text = \<lparr>gate = g, passed = True, reason_code = code, reason = text, tested = False\<rparr>"

lemma gate_result_simps [simp]:
  "passed (gate_pass g code)" "tested (gate_pass g code)" "reason_code (gate_pass g code) = code" "gate (gate_pass g code) = g"
  "reason (gate_pass g code) = None"
  "\<not> passed (gate_fail g code text)" "reason_code (gate_fail g code text) = code" "gate (gate_fail g code text) = g"
  "tested (gate_fail g code text)" "reason (gate_fail g code text) = Some text"
  "passed (gate_untested g code note)" "\<not> tested (gate_untested g code note)" "reason (gate_untested g code note) = note"
  "reason_code (gate_untested g code note) = code" "gate (gate_untested g code note) = g"
  by (simp_all add: gate_pass_def gate_fail_def gate_untested_def)

section \<open>Routing, state and cycle\<close>

text \<open>\<open>' '.join(char if char.isalnum() else ' ' for char in title).split())\<close>.\<close>

definition words_of :: "string \<Rightarrow> string list" where
  "words_of s =
     filter (\<lambda>w. w \<noteq> []) (split_on CHR '' '' (map (\<lambda>c. if is_letter c \<or> is_digit_char c then c else CHR '' '') s))"

definition gate_routing :: "pydict \<Rightarrow> hard_gate_result" where
  "gate_routing rec =
     (let routing = or_default (upper (first_text rec [''routing''])) ROUTING_GRANTS;
          title' = lower (first_text rec [''canonical_title'', ''title'', ''name'']);
          routing = (if spaced_join (words_of title') = ''film london production finance market'' then ''MARKETS_LABS_WIP''
            else routing) in
      if routing \<noteq> ROUTING_GRANTS
      then gate_fail ''routing'' ''GATE_ROUTING_NOT_GRANTS'' (''Routed to '' @ routing @ '', not Grants/Funds.'')
      else gate_pass ''routing'' ''GATE_ROUTING_GRANTS_FUNDS'')"

definition LIFECYCLE_EXCLUSIONS :: "(string \<times> string \<times> string) list" where
  "LIFECYCLE_EXCLUSIONS = [
     (''ARCHIVED'', ''GATE_RECORD_ARCHIVED'', ''Archived '' @ EM_DASH @ '' retained for history only.''),
     (''RECLASSIFIED'', ''GATE_RECORD_RECLASSIFIED'', ''Reclassified to another engine.''),
     (''SPLIT_PARENT'', ''GATE_SPLIT_PARENT_RETIRED'', ''Superseded by its individual strands.''),
     (''SUSPENDED'', ''GATE_CYCLE_SUSPENDED'', ''Programme suspended.''),
     (''NEEDS_REVIEW'', ''GATE_RECORD_NEEDS_REVIEW'', ''Held for admin review before paid matching.'')]"

definition gate_record_state :: "pydict \<Rightarrow> hard_gate_result" where
  "gate_record_state rec =
     (case map_of LIFECYCLE_EXCLUSIONS (or_default (upper (first_text rec [''lifecycle_state''])) ''LIVE'') of
        Some (code, text) \<Rightarrow> gate_fail ''record_state'' code text
      | None \<Rightarrow>
        if parse_bool (lookup rec ''paid_match_eligible'') = Some False
        then gate_fail ''record_state'' ''GATE_NOT_PAID_MATCH_ELIGIBLE'' ''Not currently surfaced for paid matching.''
        else gate_pass ''record_state'' ''GATE_RECORD_LIVE'')"

definition cycle_status :: "pydict \<Rightarrow> string" where
  "cycle_status rec =
     or_default (first_text rec [''canonical_status''])
       (canonical_status (PStr (first_text rec [''current_status'', ''status''])))"

definition CYCLE_EXCLUSIONS :: "(string \<times> string) list" where
  "CYCLE_EXCLUSIONS = [(''CLOSED_CURRENT_ROUND'', ''GATE_CYCLE_CLOSED''), (''SUSPENDED'', ''GATE_CYCLE_SUSPENDED''),
     (''INVITE_ONLY'', ''GATE_CYCLE_INVITE_ONLY''), (''ROUTED_OUT'', ''GATE_ROUTING_NOT_GRANTS'')]"

definition gate_current_cycle :: "pydict \<Rightarrow> hard_gate_result" where
  "gate_current_cycle rec =
     (let status = cycle_status rec in
      if status \<in> set NON_ACTIONABLE_STATUSES
      then gate_fail ''current_cycle'' (case map_of CYCLE_EXCLUSIONS status of Some code \<Rightarrow> code | None \<Rightarrow> ''GATE_CYCLE_CLOSED'')
        (''Current round is '' @ lower (replace_char CHR ''_'' CHR '' '' status) @ ''.'')
      else if status \<in> set ACTIONABLE_STATUSES \<and> parse_bool (lookup rec ''current_cycle_verified'') = Some True
      then gate_pass ''current_cycle'' (if status = ''ROLLING'' then ''GATE_CYCLE_ROLLING'' else ''GATE_CYCLE_OPEN'')
      else gate_untested ''current_cycle'' ''GATE_CYCLE_UNVERIFIED'' (Some ''Current round and next dates are not verified.''))"

definition record_deadline :: "pydict \<Rightarrow> deadline_kind \<times> int option" where
  "record_deadline rec =
     parse_deadline (PStr (first_text rec [''next_deadline'', ''application_deadline'', ''deadline''])) (lookup rec ''recurrence'')"

definition gate_deadline :: "int \<Rightarrow> pydict \<Rightarrow> hard_gate_result \<times> admin_flag list" where
  "gate_deadline today rec =
     (case record_deadline rec of
        (ROLLING, _) \<Rightarrow> (gate_pass ''deadline'' ''GATE_DEADLINE_ROLLING'', [])
      | (ISO_DATE, Some due) \<Rightarrow>
        if due < today
        then (gate_fail ''deadline'' ''GATE_DEADLINE_PASSED'' (''Deadline passed on '' @ iso_text due @ ''.''),
              [flag_of rec ''dead_deadline'' (''deadline '' @ iso_text due @ '' has passed'')])
        else (gate_pass ''deadline'' ''GATE_DEADLINE_FUTURE'', [])
      | (TBC, _) \<Rightarrow>
        (gate_untested ''deadline'' ''GATE_DEADLINE_TBC_UNVERIFIED'' (Some ''Next cycle dates are not yet published.''), [])
      | (ISO_MONTH_PARTIAL, _) \<Rightarrow>
        (gate_untested ''deadline'' ''GATE_DEADLINE_TBC_UNVERIFIED'' (Some ''Next cycle dates are not yet published.''), [])
      | (FREE_TEXT, _) \<Rightarrow>
        (gate_untested ''deadline'' ''GATE_DEADLINE_UNPARSEABLE''
           (Some (''Deadline is stated as prose '' @ EM_DASH @ '' confirm on the official source.'')),
         [flag_of rec ''deadline_unparseable''
           (''deadline '' @ [CHR 0x27] @ first_text rec [''next_deadline''] @ [CHR 0x27] @ '' is not a date'')])
      | _ \<Rightarrow> (gate_untested ''deadline'' ''GATE_DEADLINE_TBC_UNVERIFIED'' (Some ''No deadline stated.''), []))"

section \<open>Format, stage and budget\<close>

definition accepted_formats :: "pydict \<Rightarrow> string list option" where
  "accepted_formats rec = parse_format_list (canonical_first rec ''eligible_formats_canonical'' ''eligible_formats'')"

definition wanted_format :: "project_facts \<Rightarrow> string option" where
  "wanted_format facts = canonical_format (case format_fact facts of Some f \<Rightarrow> PStr f | None \<Rightarrow> PNone)"

definition gate_format :: "pydict \<Rightarrow> project_facts \<Rightarrow> hard_gate_result" where
  "gate_format rec facts =
     (case (accepted_formats rec, wanted_format facts) of
        (Some accepted, Some wanted) \<Rightarrow>
          if ''all'' \<in> set accepted \<or> wanted \<in> set accepted then gate_pass ''format'' ''GATE_FORMAT_MATCH''
          else gate_fail ''format'' ''GATE_FORMAT_MISMATCH''
            (''Funds '' @ comma_join accepted @ '' '' @ EM_DASH @ '' not '' @ spaced wanted @ ''.'')
      | _ \<Rightarrow> gate_untested ''format'' ''GATE_FORMAT_UNSTATED'' None)"

definition gate_stage :: "pydict \<Rightarrow> project_facts \<Rightarrow> hard_gate_result" where
  "gate_stage rec facts =
     (let wanted = lower (strip (or_empty (stage_fact facts))) in
      case parse_stage_list (canonical_first rec ''production_stage_canonical'' ''production_stage'') of
        None \<Rightarrow> gate_untested ''stage'' ''GATE_STAGE_UNSTATED'' None
      | Some accepted \<Rightarrow>
        if wanted = [] then gate_untested ''stage'' ''GATE_STAGE_UNSTATED'' None
        else if wanted \<in> set accepted then gate_pass ''stage'' ''GATE_STAGE_MATCH''
        else if \<not> production_stage_declared facts
        then gate_untested ''stage'' ''GATE_STAGE_UNSTATED''
          (Some (''Supports '' @ comma_join accepted @ ''; confirm your project stage.''))
        else gate_fail ''stage'' ''GATE_STAGE_MISMATCH'' (''Supports '' @ comma_join accepted @ '' '' @ EM_DASH @ '' not '' @ wanted @ ''.''))"

definition gate_budget :: "pydict \<Rightarrow> project_facts \<Rightarrow> hard_gate_result" where
  "gate_budget rec facts =
     (let low = num_of (lookup rec ''budget_min_usd''); high = num_of (lookup rec ''budget_max_usd'') in
      if low = None \<and> high = None then gate_untested ''budget'' ''GATE_BUDGET_UNVERIFIED_SKIPPED'' None
      else (case budget_usd facts of
        None \<Rightarrow> gate_untested ''budget'' ''GATE_BUDGET_UNVERIFIED_SKIPPED'' None
      | Some budget \<Rightarrow>
        if (case high of Some h \<Rightarrow> h < budget | None \<Rightarrow> False)
        then gate_fail ''budget'' ''GATE_BUDGET_ABOVE_VERIFIED_MAX''
          (''Project budget is above this fund'' @ [CHR 0x27] @ ''s stated ceiling.'')
        else if (case low of Some l \<Rightarrow> budget < l | None \<Rightarrow> False)
        then gate_fail ''budget'' ''GATE_BUDGET_BELOW_VERIFIED_MIN''
          (''Project budget is below this fund'' @ [CHR 0x27] @ ''s stated floor.'')
        else gate_pass ''budget'' ''GATE_BUDGET_WITHIN_VERIFIED_BOUNDS''))"

section \<open>Nationality, region and structure\<close>

definition gate_nationality :: "pydict \<Rightarrow> project_facts \<Rightarrow> hard_gate_result" where
  "gate_nationality rec facts =
     (let territory = lower (first_text rec [''territory'']); home = lower_or_empty (home_country facts);
          producer = lower_or_empty (producer_country facts); origin = lower_or_empty (script_origin facts) in
      if \<not> truthy (lookup rec ''nationality_required'') then gate_pass ''nationality'' ''GATE_NATIONALITY_NOT_REQUIRED''
      else if territory = []
      then gate_untested ''nationality'' ''GATE_NATIONALITY_UNKNOWN'' (Some ''Fund states a nationality rule but no territory.'')
      else if home = [] \<and> producer = []
      then gate_untested ''nationality'' ''GATE_NATIONALITY_UNKNOWN'' (Some ''Your applicant nationality has not been stated.'')
      else if territory = home \<or> territory = producer then gate_pass ''nationality'' ''GATE_NATIONALITY_MET''
      else if territory \<in> set (map lower (ranked_territories facts)) \<or> (origin \<noteq> [] \<and> territory = origin)
      then (gate_pass ''nationality'' ''GATE_NATIONALITY_MET'')
             \<lparr>reason := Some ''Reachable only via a local co-production structure.''\<rparr>
      else gate_fail ''nationality'' ''GATE_NATIONALITY_NO_ROUTE''
        (''Restricted to '' @ first_text rec [''territory''] @ '' applicants.''))"

definition gate_region :: "pydict \<Rightarrow> project_facts \<Rightarrow> hard_gate_result \<times> admin_flag list" where
  "gate_region rec facts =
     (let required = region_list (lookup rec ''eligible_regions''); origins = origin_regions facts; label = comma_join required in
      if required = [] then (gate_pass ''territory_region'' ''GATE_REGION_UNRESTRICTED'', [])
      else if origins = []
      then (gate_untested ''territory_region'' ''GATE_REGION_ORIGIN_UNKNOWN''
        (Some (''Open to filmmakers from '' @ label @ '' '' @ EM_DASH @ '' confirm your eligibility.'')), [])
      else if \<not> satisfies origins required
      then (gate_fail ''territory_region'' ''GATE_REGION_MISMATCH'' (''Restricted to filmmakers from '' @ label @ ''.''),
            [flag_of rec ''region_mismatch'' (''restricted to '' @ label)])
      else (gate_pass ''territory_region'' ''GATE_REGION_MATCH'', []))"

definition gate_co_production :: "pydict \<Rightarrow> project_facts \<Rightarrow> hard_gate_result" where
  "gate_co_production rec facts =
     (let status = lower (strip (or_empty (co_production_status facts)));
          interest = lower (strip (or_empty (co_production_interest facts))) in
      if \<not> truthy (lookup rec ''co_production_required'') then gate_pass ''co_production'' ''GATE_COPRODUCTION_NOT_REQUIRED''
      else if (case treaty_fact facts of Some t \<Rightarrow> treaty_route_identified t | None \<Rightarrow> False)
      then (gate_pass ''co_production'' ''GATE_COPRODUCTION_ROUTE_PRESENT'')
             \<lparr>reason := Some ''A treaty co-production route has been identified.''\<rparr>
      else if status = ''co_production_treaty'' then gate_pass ''co_production'' ''GATE_COPRODUCTION_ROUTE_PRESENT''
      else if status = ''sole_producer'' \<or> interest = ''no''
      then gate_fail ''co_production'' ''GATE_COPRODUCTION_REQUIRED_NO_ROUTE''
        ''Requires an official co-production; you have declared sole production.''
      else gate_untested ''co_production'' ''GATE_COPRODUCTION_ROUTE_UNCONFIRMED''
        (Some ''Requires an official co-production structure you have not confirmed.''))"

definition gate_applicant_structure :: "pydict \<Rightarrow> project_facts \<Rightarrow> hard_gate_result" where
  "gate_applicant_structure rec facts =
     (if \<not> truthy (lookup rec ''nationality_required'') then gate_pass ''applicant_structure'' ''GATE_APPLICANT_STRUCTURE_OK''
      else if or_empty (producer_country facts) = []
      then gate_untested ''applicant_structure'' ''GATE_APPLICANT_STRUCTURE_UNKNOWN''
        (Some ''Applicant company jurisdiction has not been stated.'')
      else gate_pass ''applicant_structure'' ''GATE_APPLICANT_STRUCTURE_OK'')"

section \<open>Verification\<close>

definition stale_record :: "int \<Rightarrow> pydict \<Rightarrow> bool" where
  "stale_record today rec =
     (case parse_date_cell (lookup rec ''last_verified_at'') of None \<Rightarrow> False
      | Some verified \<Rightarrow> STALE_EXCLUDE_MONTHS < months_between verified today)"

definition ageing_record :: "int \<Rightarrow> pydict \<Rightarrow> bool" where
  "ageing_record today rec =
     (case parse_date_cell (lookup rec ''last_verified_at'') of None \<Rightarrow> False
      | Some verified \<Rightarrow> \<not> STALE_EXCLUDE_MONTHS < months_between verified today
          \<and> STALE_FLAG_MONTHS < months_between verified today)"

definition verify_record :: "int \<Rightarrow> pydict \<Rightarrow> verification_state \<times> caveat list \<times> bool" where
  "verify_record today rec =
     (let verified = parse_date_cell (lookup rec ''last_verified_at'');
          identity = parse_bool (lookup rec ''record_verified'');
          source = parse_bool (lookup rec ''official_source_verified'');
          cycle = parse_bool (lookup rec ''current_cycle_verified'') in
      (\<lparr>record_verified = identity, official_source_verified = source, current_cycle_verified = cycle,
        verified_at = verified,
        composite_state =
          (if cycle = Some True \<and> source = Some True then ''VERIFIED_CURRENT''
           else if source = Some True \<or> cycle = Some True then ''PARTIALLY_VERIFIED''
           else if identity = Some True then ''IDENTITY_ONLY'' else ''NEEDS_REVIEW''),
        staleness_days = map_option (\<lambda>d. today - d) verified\<rparr>,
       if ageing_record today rec then [VERIFICATION_AGEING] else [],
       stale_record today rec))"

section \<open>Score\<close>

definition component :: "signal \<Rightarrow> string \<Rightarrow> score_component" where
  "component code arg = \<lparr>score_code = code, points = SCORE_WEIGHTS code, detail = SCORE_REASON_LABELS code arg\<rparr>"

definition only_if :: "bool \<Rightarrow> 'a \<Rightarrow> 'a list" where
  "only_if b x = (if b then [x] else [])"

definition genre_tags_of :: "pydict \<Rightarrow> string list" where
  "genre_tags_of rec =
     (let tags = py_or (lookup rec ''genre_tags'') (PList []) in
      filter (\<lambda>t. t \<noteq> []) (case tags of PStr s \<Rightarrow> map (\<lambda>t. lower (strip t)) (parse_text_list tags) | _ \<Rightarrow> map cell_text (list_of tags)))"

definition territory_signals :: "pydict \<Rightarrow> project_facts \<Rightarrow> score_component list" where
  "territory_signals rec facts =
     (let label = first_text rec [''territory'']; territory = lower label; origin = lower_or_empty (script_origin facts);
          hit_ranked = (territory \<noteq> [] \<and> territory \<in> set (map lower (ranked_territories facts)));
          hit_origin = (territory \<noteq> [] \<and> origin \<noteq> [] \<and> territory = origin);
          continent = first_text rec [''continent''] in
      only_if hit_ranked (component TERRITORY_CONSIDERED label) @ only_if hit_origin (component SCRIPT_ORIGIN_TERRITORY label)
      @ (if hit_ranked \<or> hit_origin then []
         else if territory \<in> {''global'', ''international''} \<or> text_contains ''global'' territory
         then [component GLOBAL_OPEN []]
         else only_if (continent \<noteq> [] \<and> continent \<in> set (affinity_continents facts)) (component CONTINENT_AFFINITY continent)))"

definition genre_signals :: "pydict \<Rightarrow> project_facts \<Rightarrow> score_component list" where
  "genre_signals rec facts =
     (let tags = genre_tags_of rec; wanted = filter (\<lambda>g. g \<noteq> []) (map (\<lambda>g. lower (strip g)) (genres facts));
          overlap = sort (remdups (filter (\<lambda>g. g \<in> set tags) wanted)) in
      only_if (wanted \<noteq> [] \<and> tags \<noteq> [] \<and> (overlap \<noteq> [] \<or> ''all'' \<in> set tags))
        (component GENRE_OVERLAP (if overlap \<noteq> [] then comma_join overlap else ''all genres'')))"

definition format_signals :: "pydict \<Rightarrow> project_facts \<Rightarrow> score_component list" where
  "format_signals rec facts =
     (case (accepted_formats rec, wanted_format facts) of
        (Some accepted, Some wanted) \<Rightarrow>
          only_if (wanted \<in> set accepted \<and> length accepted \<le> 2) (component SPECIALISED_FORMAT (spaced wanted))
      | _ \<Rightarrow> [])"

definition budget_signals :: "pydict \<Rightarrow> project_facts \<Rightarrow> score_component list" where
  "budget_signals rec facts =
     (case (budget_usd facts, num_of (lookup rec ''budget_min_usd''), num_of (lookup rec ''budget_max_usd'')) of
        (Some budget, Some low, Some high) \<Rightarrow> only_if (low \<le> budget \<and> budget \<le> high) (component BUDGET_FIT_VERIFIED [])
      | _ \<Rightarrow> [])"

definition nationality_signals :: "pydict \<Rightarrow> project_facts \<Rightarrow> score_component list" where
  "nationality_signals rec facts =
     (let label = first_text rec [''territory'']; territory = lower label; origin = lower_or_empty (script_origin facts) in
      if truthy (lookup rec ''nationality_required'') \<and> territory \<noteq> [] then
        (if territory \<in> {lower_or_empty (home_country facts), lower_or_empty (producer_country facts)}
         then [component NATIONALITY_HOME label]
         else only_if (territory \<in> set (map lower (ranked_territories facts)) \<or> (origin \<noteq> [] \<and> territory = origin))
           (component NATIONALITY_ROUTE_ONLY label))
      else [])"

definition region_signals :: "pydict \<Rightarrow> hard_gate_result list \<Rightarrow> score_component list" where
  "region_signals rec gates =
     (case filter (\<lambda>g. gate g = ''territory_region'') gates of
        g # _ \<Rightarrow> only_if (reason_code g = ''GATE_REGION_MATCH'')
          (component REQUIRED_REGION_FIT (comma_join (region_list (lookup rec ''eligible_regions''))))
      | [] \<Rightarrow> [])"

definition score_record :: "pydict \<Rightarrow> project_facts \<Rightarrow> hard_gate_result list \<Rightarrow> score_component list" where
  "score_record rec facts gates =
     territory_signals rec facts @ genre_signals rec facts @ format_signals rec facts @ budget_signals rec facts
     @ nationality_signals rec facts @ region_signals rec gates"

section \<open>Display\<close>

definition none_if_empty :: "string \<Rightarrow> string option" where
  "none_if_empty s = (if s = [] then None else Some s)"

definition first_cycle_gate :: "hard_gate_result list \<Rightarrow> hard_gate_result option" where
  "first_cycle_gate gates = (case filter (\<lambda>g. gate g = ''current_cycle'') gates of g # _ \<Rightarrow> Some g | [] \<Rightarrow> None)"

definition display_badges :: "int \<Rightarrow> pydict \<Rightarrow> hard_gate_result list \<Rightarrow> string list" where
  "display_badges today rec gates =
     (let (kind, due) = record_deadline rec in
      only_if (truthy (lookup rec ''nationality_required'')) ''NATIONALITY RESTRICTION''
      @ only_if (truthy (lookup rec ''co_production_required'')) ''CO-PRODUCTION REQUIRED''
      @ only_if (kind = ROLLING) ''ROLLING''
      @ only_if (case due of Some d \<Rightarrow> 0 \<le> d - today \<and> d - today \<le> CLOSING_SOON_DAYS | None \<Rightarrow> False) ''CLOSING SOON''
      @ only_if (case first_cycle_gate gates of Some g \<Rightarrow> reason_code g = ''GATE_CYCLE_UNVERIFIED'' | None \<Rightarrow> False)
          ''CURRENT CYCLE UNVERIFIED'')"

definition display_of :: "int \<Rightarrow> pydict \<Rightarrow> hard_gate_result list \<Rightarrow> display" where
  "display_of today rec gates =
     (let (amount_text, value, is_pool) = parse_amount (canonical_first rec ''max_amount_text'' ''max_amount'');
          (kind, due) = record_deadline rec in
      \<lparr>programme_title = or_default (first_text rec [''canonical_title'', ''title'']) ''Untitled programme'',
       funding_body = none_if_empty (first_text rec [''funding_body'']),
       display_territory = none_if_empty (first_text rec [''territory'']),
       amount = amount_text,
       deadline =
         (case (kind, due) of (ISO_DATE, Some d) \<Rightarrow> Some (iso_text d) | (ROLLING, _) \<Rightarrow> Some ''Rolling'' | _ \<Rightarrow> None),
       official_source = none_if_empty (first_text rec [''official_source'', ''website_url'']),
       amount_value = value,
       amount_currency = none_if_empty (first_text rec [''currency'']),
       amount_is_per_project = map_option (\<lambda>_. \<not> is_pool) value,
       deadline_state = kind,
       deadline_date = due,
       days_until_deadline = map_option (\<lambda>d. d - today) due,
       opportunity_type = none_if_empty (first_text rec [''opportunity_type'', ''grant_type'']),
       production_stages = (case parse_stage_list (lookup rec ''production_stage'') of Some l \<Rightarrow> l | None \<Rightarrow> []),
       eligible_formats = (case parse_format_list (lookup rec ''eligible_formats'') of Some l \<Rightarrow> l | None \<Rightarrow> []),
       key_rule = none_if_empty (first_text rec [''key_rule'']),
       eligibility_summary =
         none_if_empty (spaced_join (parse_text_list (canonical_first rec ''eligibility_summary'' ''eligibility''))),
       badges = display_badges today rec gates\<rparr>)"

section \<open>Evaluation\<close>

definition hard_gates :: "int \<Rightarrow> pydict \<Rightarrow> project_facts \<Rightarrow> hard_gate_result list" where
  "hard_gates today rec facts =
     [gate_routing rec, gate_record_state rec, gate_current_cycle rec, fst (gate_deadline today rec), gate_format rec facts,
      gate_stage rec facts, gate_nationality rec facts, gate_applicant_structure rec facts, fst (gate_region rec facts),
      gate_budget rec facts, gate_co_production rec facts]
     @ only_if (stale_record today rec)
         (gate_fail ''current_cycle'' ''GATE_VERIFICATION_STALE'' ''Not verified in over 6 months.'')"

definition record_flags :: "int \<Rightarrow> pydict \<Rightarrow> project_facts \<Rightarrow> admin_flag list" where
  "record_flags today rec facts =
     snd (gate_deadline today rec) @ snd (gate_region rec facts)
     @ only_if (stale_record today rec)
         (flag_of rec ''stale_excluded''
           (''last verified '' @ (case parse_date_cell (lookup rec ''last_verified_at'') of Some d \<Rightarrow> iso_text d | None \<Rightarrow> ''None'')))"

definition record_id :: "pydict \<Rightarrow> string" where
  "record_id rec =
     (if truthy (lookup rec ''id'') then py_str (lookup rec ''id'') else first_text rec [''canonical_title'', ''title''])"

definition status_of_gates :: "hard_gate_result list \<Rightarrow> eligibility_status" where
  "status_of_gates gates =
     (if list_ex (\<lambda>g. reason_code g = ''GATE_CYCLE_UNVERIFIED'') gates then CURRENT_CYCLE_UNVERIFIED
      else if list_ex (\<lambda>g. \<not> tested g) gates then CONDITIONAL else ELIGIBLE)"

definition match_caveats ::
    "pydict \<Rightarrow> eligibility_status \<Rightarrow> display \<Rightarrow> hard_gate_result list \<Rightarrow> caveat list \<Rightarrow> caveat list" where
  "match_caveats rec status shown gates verification_caveats =
     [NOT_COMMITTED_FINANCE, SELECTIVE_SUPPORT] @ verification_caveats
     @ only_if (status = CURRENT_CYCLE_UNVERIFIED) CYCLE_UNVERIFIED
     @ only_if (deadline_state shown = ROLLING) ROLLING_NO_DEADLINE
     @ only_if (deadline_state shown \<in> {TBC, ISO_MONTH_PARTIAL}) NEXT_CYCLE_TBC
     @ only_if (amount_value shown = None) AMOUNT_NOT_VERIFIED
     @ only_if (amount_is_per_project shown = Some False) POOL_NOT_PER_PROJECT
     @ only_if (truthy (lookup rec ''co_production_required'')) TREATY_ROUTE_NOT_CERTIFICATION
     @ map (\<lambda>_. APPLICANT_STRUCTURE_REQUIRED)
         (filter (\<lambda>g. \<not> tested g \<and> reason_code g = ''GATE_APPLICANT_STRUCTURE_UNKNOWN'') gates)"

text \<open>\<open>dict.fromkeys(xs)\<close>: the first of equal elements.\<close>

fun first_occurrences :: "'a list \<Rightarrow> 'a list" where
  "first_occurrences [] = []"
| "first_occurrences (x # xs) = x # filter (\<lambda>y. y \<noteq> x) (first_occurrences xs)"

definition failed_reasons :: "hard_gate_result list \<Rightarrow> string list" where
  "failed_reasons gates = List.map_filter reason (filter (\<lambda>g. \<not> passed g \<and> or_empty (reason g) \<noteq> []) gates)"

definition untested_reasons :: "hard_gate_result list \<Rightarrow> string list" where
  "untested_reasons gates = List.map_filter reason (filter (\<lambda>g. \<not> tested g \<and> or_empty (reason g) \<noteq> []) gates)"

definition evaluate :: "int \<Rightarrow> pydict \<Rightarrow> project_facts \<Rightarrow> match_result" where
  "evaluate today rec facts =
     (let gates = hard_gates today rec facts; (state, verification_caveats, _) = verify_record today rec;
          shown = display_of today rec gates in
      if list_ex (\<lambda>g. \<not> passed g) gates
      then \<lparr>opportunity_id = record_id rec, eligibility_status = INELIGIBLE, hard_gate_results = gates, raw_score = 0,
        score_components = [], portfolio_rank = None, match_reasons = [], caveats = failed_reasons gates,
        verification = state, display_fields = shown, source_project_facts = None, co_production_context = None\<rparr>
      else
       (let components = score_record rec facts gates; status = status_of_gates gates in
        \<lparr>opportunity_id = record_id rec, eligibility_status = status, hard_gate_results = gates,
         raw_score = round_tenth (sum_list (map points components)), score_components = components, portfolio_rank = None,
         match_reasons = filter (\<lambda>d. d \<noteq> []) (map detail components) @ untested_reasons gates,
         caveats = map CAVEATS (first_occurrences (match_caveats rec status shown gates verification_caveats)),
         verification = state, display_fields = shown,
         source_project_facts = Some \<lparr>echo_format = format_fact facts, echo_budget_usd = budget_usd facts,
           echo_territories = ranked_territories facts\<rparr>,
         co_production_context = treaty_fact facts\<rparr>))"

definition match_records :: "int \<Rightarrow> pydict list \<Rightarrow> project_facts \<Rightarrow> match_result list" where
  "match_records today records facts = map (\<lambda>r. evaluate today r facts) (filter (\<lambda>r. r \<noteq> []) records)"

section \<open>The payload\<close>

record grants_payload =
  eligible_match_count :: nat
  payload_limit :: nat
  recommendations :: "match_result list"
  all_qualified_match_ids :: "string list"
  summary_statement :: string
  payload_package :: "string option"
  evaluated_at :: string
  ineligible_count :: nat
  routed_out_count :: nat
  admin_flags :: "admin_flag list"

definition package_or :: "string option \<Rightarrow> project_facts \<Rightarrow> string option" where
  "package_or package facts = (if or_empty package = [] then package_fact facts else package)"

definition build_payload :: "int \<Rightarrow> pydict list \<Rightarrow> project_facts \<Rightarrow> string option \<Rightarrow> grants_payload" where
  "build_payload today records facts package =
     (let results = match_records today records facts;
          ranked = select_portfolio (filter is_presentable results) (or_empty (stage_fact facts));
          ineligible = filter (\<lambda>r. \<not> is_presentable r) results;
          limit = display_limit (or_empty (package_or package facts)) in
      \<lparr>eligible_match_count = length ranked,
       payload_limit = limit,
       recommendations = take limit ranked,
       all_qualified_match_ids = map opportunity_id ranked,
       summary_statement = nat_text (min limit (length ranked)) @ '' shown from '' @ nat_text (length ranked)
         @ '' eligible funding opportunities.'',
       payload_package = package_or package facts,
       evaluated_at = iso_text today,
       ineligible_count = length ineligible,
       routed_out_count =
         length (filter (\<lambda>r. list_ex (\<lambda>g. reason_code g = ''GATE_ROUTING_NOT_GRANTS'') (hard_gate_results r)) ineligible),
       admin_flags = concat (map (\<lambda>r. record_flags today r facts) (filter (\<lambda>r. r \<noteq> []) records))\<rparr>)"

end
