(* ===== verification/Grant_Properties.thy ===== *)
theory Grant_Properties
  imports Grant_Engine Portfolio_Properties
begin

text \<open>
  The funding engine: what excludes a record, what a score can be, what the payload shows, and how
  the cells of the master are read.
\<close>

section \<open>Gates\<close>

lemma evaluate_fields [simp]:
  "hard_gate_results (evaluate today rec facts) = hard_gates today rec facts"
  "opportunity_id (evaluate today rec facts) = record_id rec"
  "portfolio_rank (evaluate today rec facts) = None"
  "display_fields (evaluate today rec facts) = display_of today rec (hard_gates today rec facts)"
  by (auto simp: evaluate_def Let_def split: prod.splits)

lemma evaluate_status:
  "eligibility_status (evaluate today rec facts) =
    (if list_ex (\<lambda>g. \<not> passed g) (hard_gates today rec facts) then INELIGIBLE else status_of_gates (hard_gates today rec facts))"
  by (simp add: evaluate_def Let_def split: prod.splits)

lemma status_of_gates_presentable: "status_of_gates gates \<noteq> INELIGIBLE"
  by (simp add: status_of_gates_def)

lemma ineligible_iff:
  "eligibility_status (evaluate today rec facts) = INELIGIBLE \<longleftrightarrow> list_ex (\<lambda>g. \<not> passed g) (hard_gates today rec facts)"
  by (simp add: evaluate_status status_of_gates_presentable)

text \<open>The gates that look at the record alone.\<close>

definition record_gates :: "int \<Rightarrow> pydict \<Rightarrow> hard_gate_result list" where
  "record_gates today rec =
     [gate_routing rec, gate_record_state rec, gate_current_cycle rec, fst (gate_deadline today rec)]
     @ only_if (stale_record today rec)
         (gate_fail ''current_cycle'' ''GATE_VERIFICATION_STALE'' ''Not verified in over 6 months.'')"

definition project_gates :: "pydict \<Rightarrow> project_facts \<Rightarrow> hard_gate_result list" where
  "project_gates rec facts =
     [gate_format rec facts, gate_stage rec facts, gate_nationality rec facts, gate_applicant_structure rec facts,
      fst (gate_region rec facts), gate_budget rec facts, gate_co_production rec facts]"

lemma some_gate_fails:
  "list_ex P (hard_gates today rec facts) \<longleftrightarrow> list_ex P (record_gates today rec) \<or> list_ex P (project_gates rec facts)"
  by (auto simp: hard_gates_def record_gates_def project_gates_def)

definition no_facts :: project_facts where
  "no_facts = \<lparr>format_fact = None, genres = [], budget_usd = None, home_country = None, producer_country = None,
     script_origin = None, ranked_territories = [], stage_fact = None, production_stage_declared = False,
     co_production_status = None, co_production_interest = None, treaty_fact = None, package_fact = None\<rparr>"

lemma no_origin: "origin_regions no_facts = []"
  by (simp add: origin_regions_def no_facts_def regions_for_territories_def)

lemma nothing_known_passes: "list_all passed (project_gates rec no_facts)"
proof -
  have "passed (gate_format rec no_facts)"
    by (auto simp: gate_format_def wanted_format_def no_facts_def canonical_format_def split: option.splits)
  moreover have "passed (gate_stage rec no_facts)"
    by (auto simp: gate_stage_def no_facts_def or_empty_def lower_def strip_def Let_def split: option.splits)
  moreover have "passed (gate_nationality rec no_facts)"
    by (auto simp: gate_nationality_def no_facts_def lower_or_empty_def or_empty_def lower_def Let_def)
  moreover have "passed (gate_applicant_structure rec no_facts)"
    by (auto simp: gate_applicant_structure_def)
  moreover have "passed (fst (gate_region rec no_facts))"
    by (auto simp: gate_region_def no_origin Let_def)
  moreover have "passed (gate_budget rec no_facts)"
    by (auto simp: gate_budget_def no_facts_def Let_def)
  moreover have "passed (gate_co_production rec no_facts)"
    by (auto simp: gate_co_production_def no_facts_def or_empty_def lower_def strip_def Let_def)
  ultimately show ?thesis by (simp add: project_gates_def)
qed

text \<open>
  A fact that is not known excludes nothing: a record is ineligible for the project of which
  nothing is known exactly when it is ineligible for every project.
\<close>

theorem unknown_facts_never_exclude:
  "eligibility_status (evaluate today rec no_facts) = INELIGIBLE
   \<longleftrightarrow> (\<forall>facts. eligibility_status (evaluate today rec facts) = INELIGIBLE)"
proof -
  have "\<not> list_ex (\<lambda>g. \<not> passed g) (project_gates rec no_facts)"
    using nothing_known_passes [of rec] by (auto simp: list_ex_iff list_all_iff)
  then show ?thesis by (auto simp: ineligible_iff some_gate_fails)
qed

section \<open>Status\<close>


















section \<open>Scores\<close>

lemma component_simps [simp]:
  "score_code (component c a) = c" "points (component c a) = SCORE_WEIGHTS c"
  by (simp_all add: component_def)

definition weighted :: "score_component \<Rightarrow> bool" where
  "weighted s = (points s = SCORE_WEIGHTS (score_code s))"

text \<open>The signals each group can add.\<close>

lemma territory_codes:
  "map score_code (territory_signals rec facts) \<in>
    {[], [TERRITORY_CONSIDERED], [SCRIPT_ORIGIN_TERRITORY], [TERRITORY_CONSIDERED, SCRIPT_ORIGIN_TERRITORY],
     [GLOBAL_OPEN], [CONTINENT_AFFINITY]} \<and> list_all weighted (territory_signals rec facts)"
  by (simp add: territory_signals_def Let_def only_if_def weighted_def)

lemma genre_codes:
  "map score_code (genre_signals rec facts) \<in> {[], [GENRE_OVERLAP]} \<and> list_all weighted (genre_signals rec facts)"
  by (simp add: genre_signals_def Let_def only_if_def weighted_def)

lemma format_codes:
  "map score_code (format_signals rec facts) \<in> {[], [SPECIALISED_FORMAT]} \<and> list_all weighted (format_signals rec facts)"
  by (simp add: format_signals_def only_if_def weighted_def split: option.split)

lemma budget_codes:
  "map score_code (budget_signals rec facts) \<in> {[], [BUDGET_FIT_VERIFIED]} \<and> list_all weighted (budget_signals rec facts)"
  by (simp add: budget_signals_def only_if_def weighted_def split: option.split)

lemma nationality_codes:
  "map score_code (nationality_signals rec facts) \<in> {[], [NATIONALITY_HOME], [NATIONALITY_ROUTE_ONLY]}
    \<and> list_all weighted (nationality_signals rec facts)"
  by (simp add: nationality_signals_def Let_def only_if_def weighted_def)

lemma region_codes:
  "map score_code (region_signals rec gates) \<in> {[], [REQUIRED_REGION_FIT]} \<and> list_all weighted (region_signals rec gates)"
  by (simp add: region_signals_def only_if_def weighted_def split: list.split)

text \<open>The malus of a route that needs a local partner comes with the bonus of the territory.\<close>

lemma route_has_territory:
  "map score_code (nationality_signals rec facts) = [NATIONALITY_ROUTE_ONLY] \<Longrightarrow>
    map score_code (territory_signals rec facts) \<in>
      {[TERRITORY_CONSIDERED], [SCRIPT_ORIGIN_TERRITORY], [TERRITORY_CONSIDERED, SCRIPT_ORIGIN_TERRITORY]}"
proof -
  let ?t = "lower (first_text rec [''territory''])" and ?o = "lower_or_empty (script_origin facts)"
  assume "map score_code (nationality_signals rec facts) = [NATIONALITY_ROUTE_ONLY]"
  then have "?t \<noteq> [] \<and> (?t \<in> set (map lower (ranked_territories facts)) \<or> ?o \<noteq> [] \<and> ?t = ?o)"
    by (simp add: nationality_signals_def Let_def only_if_def split: if_split_asm)
  then show ?thesis
    by (elim conjE disjE) (simp_all add: territory_signals_def Let_def only_if_def del: set_map)
qed

lemma weighted_points: "list_all weighted xs \<Longrightarrow> map points xs = map SCORE_WEIGHTS (map score_code xs)"
  by (induction xs) (simp_all add: weighted_def)

lemma score_weighted: "list_all weighted (score_record rec facts gates)"
  using territory_codes [of rec facts] genre_codes [of rec facts] format_codes [of rec facts] budget_codes [of rec facts]
    nationality_codes [of rec facts] region_codes [of rec gates]
  by (simp add: score_record_def)

lemma score_of_codes:
  "sum_list (map points (score_record rec facts gates)) = sum_list (map SCORE_WEIGHTS (map score_code (score_record rec facts gates)))"
  by (simp only: weighted_points [OF score_weighted])

definition score_of :: "signal list \<Rightarrow> rat" where
  "score_of codes = sum_list (map SCORE_WEIGHTS codes)"

lemma score_range:
  "0 \<le> score_of (map score_code (score_record rec facts gates)) \<and> score_of (map score_code (score_record rec facts gates)) \<le> 14
   \<and> distinct (map score_code (score_record rec facts gates))
   \<and> 2 * score_of (map score_code (score_record rec facts gates)) \<in> \<int>"
proof -
  define ts where "ts = map score_code (territory_signals rec facts)"
  define gs where "gs = map score_code (genre_signals rec facts)"
  define fs where "fs = map score_code (format_signals rec facts)"
  define bs where "bs = map score_code (budget_signals rec facts)"
  define ns where "ns = map score_code (nationality_signals rec facts)"
  define rs where "rs = map score_code (region_signals rec gates)"
  have c: "map score_code (score_record rec facts gates) = ts @ gs @ fs @ bs @ ns @ rs"
    by (simp add: score_record_def ts_def gs_def fs_def bs_def ns_def rs_def)
  have t: "ts \<in> {[], [TERRITORY_CONSIDERED], [SCRIPT_ORIGIN_TERRITORY], [TERRITORY_CONSIDERED, SCRIPT_ORIGIN_TERRITORY],
         [GLOBAL_OPEN], [CONTINENT_AFFINITY]}"
    using territory_codes unfolding ts_def by blast
  have g: "gs \<in> {[], [GENRE_OVERLAP]}" using genre_codes unfolding gs_def by blast
  have f: "fs \<in> {[], [SPECIALISED_FORMAT]}" using format_codes unfolding fs_def by blast
  have b: "bs \<in> {[], [BUDGET_FIT_VERIFIED]}" using budget_codes unfolding bs_def by blast
  have n: "ns \<in> {[], [NATIONALITY_HOME], [NATIONALITY_ROUTE_ONLY]}" using nationality_codes unfolding ns_def by blast
  have r: "rs \<in> {[], [REQUIRED_REGION_FIT]}" using region_codes unfolding rs_def by blast
  have route: "3 \<le> score_of ts" if "ns = [NATIONALITY_ROUTE_ONLY]"
    using route_has_territory [of rec facts] that unfolding ts_def [symmetric] ns_def [symmetric]
    by (auto simp: score_of_def)
  have s: "score_of (ts @ gs @ fs @ bs @ ns @ rs)
      = score_of ts + score_of gs + score_of fs + score_of bs + score_of ns + score_of rs"
    by (simp add: score_of_def)
  have "0 \<le> score_of ts" "score_of ts \<le> 6" and i1: "2 * score_of ts \<in> \<int>" using t by (auto simp: score_of_def)
  moreover have "0 \<le> score_of gs" "score_of gs \<le> 2" and i2: "score_of gs \<in> \<int>" using g by (auto simp: score_of_def)
  moreover have "0 \<le> score_of fs" "score_of fs \<le> 1" and i3: "score_of fs \<in> \<int>" using f by (auto simp: score_of_def)
  moreover have "0 \<le> score_of bs" "score_of bs \<le> 2" and i4: "score_of bs \<in> \<int>" using b by (auto simp: score_of_def)
  moreover have "0 \<le> score_of ns + score_of ts" "score_of ns \<le> 2" and i5: "score_of ns \<in> \<int>"
    using n route \<open>0 \<le> score_of ts\<close> by (auto simp: score_of_def)
  moreover have "0 \<le> score_of rs" "score_of rs \<le> 1" and i6: "score_of rs \<in> \<int>" using r by (auto simp: score_of_def)
  ultimately have "0 \<le> score_of (ts @ gs @ fs @ bs @ ns @ rs)" "score_of (ts @ gs @ fs @ bs @ ns @ rs) \<le> 14"
    unfolding s by linarith+
  moreover have "distinct (ts @ gs @ fs @ bs @ ns @ rs)"
  proof -
    have "distinct ts \<and> set ts \<subseteq> {TERRITORY_CONSIDERED, SCRIPT_ORIGIN_TERRITORY, GLOBAL_OPEN, CONTINENT_AFFINITY}"
      using t by auto
    moreover have "distinct gs \<and> set gs \<subseteq> {GENRE_OVERLAP}" using g by auto
    moreover have "distinct fs \<and> set fs \<subseteq> {SPECIALISED_FORMAT}" using f by auto
    moreover have "distinct bs \<and> set bs \<subseteq> {BUDGET_FIT_VERIFIED}" using b by auto
    moreover have "distinct ns \<and> set ns \<subseteq> {NATIONALITY_HOME, NATIONALITY_ROUTE_ONLY}" using n by auto
    moreover have "distinct rs \<and> set rs \<subseteq> {REQUIRED_REGION_FIT}" using r by auto
    ultimately show ?thesis unfolding distinct_append set_append by (intro conjI; fast)
  qed
  moreover have "2 * score_of (ts @ gs @ fs @ bs @ ns @ rs) \<in> \<int>"
  proof -
    have "score_of gs + score_of fs + score_of bs + score_of ns + score_of rs \<in> \<int>"
      by (intro Ints_add i2 i3 i4 i5 i6)
    then have "2 * score_of ts + 2 * (score_of gs + score_of fs + score_of bs + score_of ns + score_of rs) \<in> \<int>"
      by (intro Ints_add [OF i1] Ints_mult Ints_numeral)
    then show ?thesis unfolding s by (simp add: algebra_simps)
  qed
  ultimately show ?thesis unfolding c by blast
qed

lemma round_halves:
  assumes "2 * x \<in> \<int>"
  shows "round_tenth x = x"
proof -
  obtain k where "2 * x = of_int k" using assms by (elim Ints_cases)
  then have x: "10 * x = of_int (5 * k)" and k: "of_int (5 * k) / 10 = x" by simp_all
  then have "\<lfloor>10 * x\<rfloor> = 5 * k" by (simp only: floor_of_int)
  then show ?thesis unfolding round_tenth_def Let_def using x k by simp
qed

lemma evaluate_score:
  assumes "eligibility_status (evaluate today rec facts) \<noteq> INELIGIBLE"
  shows "score_components (evaluate today rec facts) = score_record rec facts (hard_gates today rec facts)"
    and "raw_score (evaluate today rec facts) = score_of (map score_code (score_record rec facts (hard_gates today rec facts)))"
proof -
  have g: "\<not> list_ex (\<lambda>g. \<not> passed g) (hard_gates today rec facts)"
    using assms by (simp add: ineligible_iff)
  show "score_components (evaluate today rec facts) = score_record rec facts (hard_gates today rec facts)"
    using g by (simp add: evaluate_def Let_def split: prod.splits)
  have "raw_score (evaluate today rec facts) = round_tenth (sum_list (map points (score_record rec facts (hard_gates today rec facts))))"
    using g by (simp add: evaluate_def Let_def split: prod.splits)
  also have "\<dots> = round_tenth (score_of (map score_code (score_record rec facts (hard_gates today rec facts))))"
    by (simp only: score_of_codes score_of_def)
  also have "\<dots> = score_of (map score_code (score_record rec facts (hard_gates today rec facts)))"
    using score_range by (intro round_halves) blast
  finally show "raw_score (evaluate today rec facts) = score_of (map score_code (score_record rec facts (hard_gates today rec facts)))" .
qed

lemma evaluate_ineligible:
  assumes "eligibility_status (evaluate today rec facts) = INELIGIBLE"
  shows "raw_score (evaluate today rec facts) = 0" "score_components (evaluate today rec facts) = []"
  using assms unfolding ineligible_iff by (simp_all add: evaluate_def Let_def split: prod.splits)

text \<open>
  A score is the sum of the weights of its signals, no signal twice; it lies between 0 and 14,
  so the malus for a route through a partner never outweighs the territory that opened it, and
  rounding changes nothing.
\<close>

theorem score_bounds:
  "let r = evaluate today rec facts in
     raw_score r = sum_list (map (\<lambda>c. SCORE_WEIGHTS (score_code c)) (score_components r))
     \<and> distinct (map score_code (score_components r)) \<and> 0 \<le> raw_score r \<and> raw_score r \<le> 14"
proof (cases "eligibility_status (evaluate today rec facts) = INELIGIBLE")
  case True
  then show ?thesis by (simp add: evaluate_ineligible Let_def)
next
  case False
  then show ?thesis
    using score_range [of rec facts "hard_gates today rec facts"]
    by (simp add: evaluate_score Let_def score_of_def o_def)
qed

section \<open>The payload\<close>

definition ranked_matches :: "int \<Rightarrow> pydict list \<Rightarrow> project_facts \<Rightarrow> match_result list" where
  "ranked_matches today records facts =
     select_portfolio (filter is_presentable (match_records today records facts)) (or_empty (stage_fact facts))"

lemma payload_simps [simp]:
  "recommendations (build_payload today records facts package)
    = take (display_limit (or_empty (package_or package facts))) (ranked_matches today records facts)"
  "eligible_match_count (build_payload today records facts package) = length (ranked_matches today records facts)"
  "all_qualified_match_ids (build_payload today records facts package)
    = map opportunity_id (ranked_matches today records facts)"
  "payload_limit (build_payload today records facts package) = display_limit (or_empty (package_or package facts))"
  by (simp_all add: build_payload_def ranked_matches_def Let_def)

text \<open>
  Packages differ in depth only: the counts, the matches and their order are those of every other
  package, and a smaller package shows the first of what a larger one shows.
\<close>

theorem packages_share_the_ranking:
  assumes "payload_limit (build_payload today records facts small) \<le> payload_limit (build_payload today records facts large)"
  shows "recommendations (build_payload today records facts small)
       = take (payload_limit (build_payload today records facts small)) (recommendations (build_payload today records facts large))
    \<and> all_qualified_match_ids (build_payload today records facts small) = all_qualified_match_ids (build_payload today records facts large)
    \<and> eligible_match_count (build_payload today records facts small) = eligible_match_count (build_payload today records facts large)
    \<and> ineligible_count (build_payload today records facts small) = ineligible_count (build_payload today records facts large)"
  using assms by (simp add: min_def) (simp add: build_payload_def Let_def)

lemma ranked_are_evaluated:
  assumes "r \<in> set (ranked_matches today records facts)"
  shows "\<exists>rec \<in> set records. unranked r = evaluate today rec facts \<and> eligibility_status (evaluate today rec facts) \<noteq> INELIGIBLE"
proof -
  let ?ps = "filter is_presentable (match_records today records facts)"
  have "unranked r \<in> unranked ` set (select_portfolio ?ps (or_empty (stage_fact facts)))"
    using assms by (simp add: ranked_matches_def)
  then have "unranked r \<in> unranked ` set (chosen ?ps (or_empty (stage_fact facts)))"
    by (metis list.set_map ranked_map(1) select_chosen)
  then have "unranked r \<in> unranked ` set ?ps"
    using chosen_facts(2) by (meson image_mono subsetD)
  then obtain rec where "rec \<in> set records" "is_presentable (evaluate today rec facts)"
    "unranked r = unranked (evaluate today rec facts)"
    by (auto simp: match_records_def)
  moreover have "unranked (evaluate today rec facts) = evaluate today rec facts" for rec
    by (simp add: unranked_def)
  ultimately show ?thesis by (auto simp: is_presentable_def)
qed

text \<open>
  The qualified matches are those of the records no gate excludes, and of each only one, and
  together with the excluded ones they are all records.
\<close>

theorem qualified_are_the_unexcluded:
  "i \<in> set (all_qualified_match_ids (build_payload today records facts package))
     \<longleftrightarrow> (\<exists>rec \<in> set records. rec \<noteq> [] \<and> record_id rec = i \<and> list_all passed (hard_gates today rec facts))"
proof -
  let ?ps = "filter is_presentable (match_records today records facts)"
  have "opportunity_id ` set (ranked_matches today records facts) = opportunity_id ` set ?ps"
  proof
    have "opportunity_id ` unranked ` set (ranked_matches today records facts)
        = opportunity_id ` unranked ` set (chosen ?ps (or_empty (stage_fact facts)))"
      unfolding ranked_matches_def by (metis list.set_map ranked_map(1) select_chosen)
    then have "opportunity_id ` set (ranked_matches today records facts) = opportunity_id ` set (chosen ?ps (or_empty (stage_fact facts)))"
      by (simp add: image_image unranked_def)
    then show "opportunity_id ` set (ranked_matches today records facts) \<subseteq> opportunity_id ` set ?ps"
      "opportunity_id ` set ?ps \<subseteq> opportunity_id ` set (ranked_matches today records facts)"
      using chosen_facts(2,4) [of ?ps "or_empty (stage_fact facts)"] by auto
  qed
  then have "i \<in> set (all_qualified_match_ids (build_payload today records facts package)) \<longleftrightarrow> i \<in> opportunity_id ` set ?ps"
    by simp
  also have "\<dots> \<longleftrightarrow> (\<exists>rec \<in> set records. rec \<noteq> [] \<and> record_id rec = i \<and> is_presentable (evaluate today rec facts))"
    by (auto simp: match_records_def image_iff)
  finally show ?thesis
    by (auto simp: is_presentable_def ineligible_iff list_ex_iff list_all_iff)
qed

lemma display_deadline [simp]:
  "deadline_date (display_of today rec gates) = snd (record_deadline rec)"
  "deadline_state (display_of today rec gates) = fst (record_deadline rec)"
  unfolding display_of_def Let_def by (simp_all only: case_prod_unfold display.simps)

lemma dated_deadline: "parse_deadline raw recurrence = (kind, Some due) \<Longrightarrow> kind = ISO_DATE"
  unfolding parse_deadline_def Let_def by (simp split: if_split_asm option.split_asm)

lemma shown_deadline:
  assumes "passed (fst (gate_deadline today rec))" and "snd (record_deadline rec) = Some due"
  shows "today \<le> due"
proof -
  obtain kind where kind: "record_deadline rec = (kind, Some due)" using assms(2) by (metis prod.collapse)
  then have "kind = ISO_DATE" unfolding record_deadline_def by (rule dated_deadline)
  then show ?thesis using assms(1) kind by (simp add: gate_deadline_def split: if_split_asm)
qed

text \<open>
  C16: whatever a report recommends comes from a record that no gate excludes, a stale verification
  and a passed deadline included, with the score that record earned.
\<close>

theorem recommendations_are_earned:
  assumes "r \<in> set (recommendations (build_payload today records facts package))"
  shows "\<exists>rec \<in> set records. unranked r = evaluate today rec facts \<and> list_all passed (hard_gates today rec facts)
      \<and> \<not> stale_record today rec
      \<and> raw_score r = sum_list (map (\<lambda>c. SCORE_WEIGHTS (score_code c)) (score_record rec facts (hard_gates today rec facts)))
      \<and> (case deadline_date (display_fields r) of Some due \<Rightarrow> today \<le> due | None \<Rightarrow> True)"
proof -
  have "r \<in> set (ranked_matches today records facts)" using assms by (auto dest: in_set_takeD)
  then obtain rec where rec: "rec \<in> set records" "unranked r = evaluate today rec facts"
    "eligibility_status (evaluate today rec facts) \<noteq> INELIGIBLE"
    using ranked_are_evaluated by blast
  then have gates: "list_all passed (hard_gates today rec facts)"
    by (simp add: ineligible_iff list_ex_iff list_all_iff)
  moreover have "\<not> stale_record today rec" using gates by (auto simp: hard_gates_def only_if_def)
  moreover have "raw_score r = sum_list (map (\<lambda>c. SCORE_WEIGHTS (score_code c)) (score_record rec facts (hard_gates today rec facts)))"
  proof -
    have "raw_score r = raw_score (evaluate today rec facts)" unfolding rec(2) [symmetric] by (simp add: unranked_def)
    then show ?thesis by (simp add: evaluate_score(2) [OF rec(3)] score_of_def o_def)
  qed
  moreover have "case deadline_date (display_fields r) of Some due \<Rightarrow> today \<le> due | None \<Rightarrow> True"
  proof -
    have "display_fields r = display_fields (evaluate today rec facts)" unfolding rec(2) [symmetric] by (simp add: unranked_def)
    then have d: "deadline_date (display_fields r) = snd (record_deadline rec)" by simp
    have "passed (fst (gate_deadline today rec))" using gates by (simp add: hard_gates_def)
    then show ?thesis unfolding d using shown_deadline by (simp split: option.split)
  qed
  ultimately show ?thesis using rec(1,2) by blast
qed

section \<open>The cells of the master\<close>

text \<open>What a list of formats can be: all of them, or some of the canonical ones, each once.\<close>

definition format_list :: "string list \<Rightarrow> bool" where
  "format_list fs \<longleftrightarrow> fs \<noteq> [] \<and> distinct fs \<and> (fs = [''all''] \<or> set fs \<subseteq> set CANONICAL_FORMATS)"

lemma format_of_token_canonical: "format_of_token c = Some f \<Longrightarrow> f \<in> set CANONICAL_FORMATS"
  unfolding format_of_token_def Let_def by (auto split: if_split_asm)

lemma collect_formats_type:
  "distinct acc \<Longrightarrow> set acc \<subseteq> set CANONICAL_FORMATS
    \<Longrightarrow> distinct (collect_formats acc ts) \<and> (collect_formats acc ts = [''all''] \<or> set (collect_formats acc ts) \<subseteq> set CANONICAL_FORMATS)"
proof (induction ts arbitrary: acc)
  case (Cons t ts)
  define c where "c = lower (strip (cut_noise False t))"
  have step: "collect_formats acc (t # ts) =
      (if c = [] then collect_formats acc ts else if c = ''all'' then [''all'']
       else (case format_of_token c of Some f \<Rightarrow> collect_formats (if f \<in> set acc then acc else acc @ [f]) ts
         | None \<Rightarrow> collect_formats acc ts))"
    by (simp only: collect_formats.simps Let_def c_def)
  have "distinct (if f \<in> set acc then acc else acc @ [f])" "set (if f \<in> set acc then acc else acc @ [f]) \<subseteq> set CANONICAL_FORMATS"
    if "format_of_token c = Some f" for f
    using format_of_token_canonical [OF that] Cons.prems by auto
  then show ?case
    unfolding step using Cons.IH Cons.prems by (simp split: option.split)
qed simp

lemma parse_format_list_type: "parse_format_list raw = Some fs \<Longrightarrow> format_list fs"
  using collect_formats_type [of "[]" "cell_tokens raw"]
  by (auto simp: parse_format_list_def some_list_def format_list_def split: if_split_asm)

lemma strip_brackets: "strip (CHR ''['' # s @ '']'') = CHR ''['' # s @ '']''"
  by (simp add: strip_def is_space_def)

lemma strip_dumps: "strip (json_dumps xs) = json_dumps xs"
  unfolding json_dumps_def using strip_brackets by simp

lemma dumps_stated:
  assumes "xs \<noteq> []"
  shows "\<not> unstated (PStr (json_dumps xs))"
proof -
  obtain r where r: "comma_join (map json_quote xs) = CHR 0x22 # r"
    using assms by (induction xs rule: induct_list012) (auto simp: json_quote_def)
  have "lower_char CHR ''['' = CHR ''[''" "lower_char CHR 0x22 = CHR 0x22" by code_simp+
  then show ?thesis
    by (simp add: cell_text_def strip_dumps)
       (simp add: json_dumps_def r lower_def UNKNOWN_TOKENS_def EM_DASH_def)
qed

lemma dumps_tokens:
  assumes "xs \<noteq> []" and "list_all is_ascii xs"
  shows "cell_tokens (PStr (json_dumps xs)) = xs"
proof -
  have "starts_with ''['' (json_dumps xs)" by (simp add: json_dumps_def starts_with_def)
  then show ?thesis
    using assms by (simp add: cell_tokens_def strip_dumps json_round_trip Let_def o_def)
qed

lemma list_tokens: "cell_tokens (PList (map PStr xs)) = xs"
  by (simp add: cell_tokens_def o_def)

lemma format_tokens_fixed:
  assumes "f \<in> set CANONICAL_FORMATS"
  shows "lower (strip (cut_noise False f)) = f" "f \<noteq> []" "f \<noteq> ''all''" "format_of_token f = Some f" "is_ascii f"
proof -
  have "list_all (\<lambda>f. lower (strip (cut_noise False f)) = f \<and> f \<noteq> [] \<and> f \<noteq> ''all'' \<and> format_of_token f = Some f \<and> is_ascii f)
      CANONICAL_FORMATS"
    by code_simp
  then show "lower (strip (cut_noise False f)) = f" "f \<noteq> []" "f \<noteq> ''all''" "format_of_token f = Some f" "is_ascii f"
    using assms by (auto simp only: list_all_iff)
qed

lemma collect_canonical_formats:
  "distinct (acc @ fs) \<Longrightarrow> set fs \<subseteq> set CANONICAL_FORMATS \<Longrightarrow> collect_formats acc fs = acc @ fs"
proof (induction fs arbitrary: acc)
  case (Cons f fs)
  then have "f \<in> set CANONICAL_FORMATS" by simp
  note fixed = format_tokens_fixed [OF this]
  have "collect_formats acc (f # fs) = collect_formats (acc @ [f]) fs"
    unfolding collect_formats.simps Let_def fixed(1) using fixed(2-4) Cons.prems(1) by simp
  then show ?case using Cons by simp
qed simp

lemma collect_format_list:
  assumes "format_list fs"
  shows "collect_formats [] fs = fs" and "list_all is_ascii fs"
proof -
  have "collect_formats [] [''all''] = [''all'']" "list_all is_ascii [''all'']" by code_simp+
  then show "collect_formats [] fs = fs" "list_all is_ascii fs"
    using assms collect_canonical_formats [of "[]" fs] format_tokens_fixed(5)
    by (auto simp: format_list_def list_all_iff simp del: collect_formats.simps)
qed

text \<open>
  A list of formats that was read is a non-empty list of canonical formats without repetition, or
  all of them, and reads back as itself from either form it is stored in, a JSON text or a list.
\<close>

theorem formats_read_back:
  assumes "parse_format_list raw = Some fs"
  shows "format_list fs \<and> parse_format_list (PList (map PStr fs)) = Some fs \<and> parse_format_list (PStr (json_dumps fs)) = Some fs"
proof -
  have fs: "format_list fs" using assms by (rule parse_format_list_type)
  then have "fs \<noteq> []" by (simp add: format_list_def)
  with collect_format_list [OF fs] fs show ?thesis
    by (simp add: parse_format_list_def some_list_def list_tokens dumps_tokens dumps_stated del: unstated.simps(6-8))
qed

theorem formats_read_back_witness:
  "parse_format_list (PStr ''Documentary Feature; Animated Series (52 min); Film'') = Some [''documentary'', ''animation'', ''feature'']
   \<and> parse_format_list (PStr (json_dumps [''documentary'', ''animation'', ''feature''])) = Some [''documentary'', ''animation'', ''feature'']"
proof -
  have "parse_format_list (PStr ''Documentary Feature; Animated Series (52 min); Film'') = Some [''documentary'', ''animation'', ''feature'']"
    by code_simp
  with formats_read_back [OF this] show ?thesis by blast
qed

section \<open>At concrete records\<close>

definition sample_facts :: project_facts where
  "sample_facts = \<lparr>format_fact = Some ''Feature Film'', genres = [''Drama''], budget_usd = Some 500000,
     home_country = Some ''Nigeria'', producer_country = Some ''Nigeria'', script_origin = Some ''Nigeria'',
     ranked_territories = [''Nigeria''], stage_fact = Some ''development'', production_stage_declared = False,
     co_production_status = None, co_production_interest = None, treaty_fact = None, package_fact = Some ''producer''\<rparr>"

text \<open>A fund that says everything, and the same without a deadline.\<close>

definition sample_record :: pydict where
  "sample_record = [(''id'', PStr ''g1''), (''title'', PStr ''Fund A''), (''canonical_status'', PStr ''OPEN_CURRENT_ROUND''),
     (''current_cycle_verified'', PBool True), (''next_deadline'', PStr ''2026-12-01''),
     (''eligible_formats'', PList [PStr ''feature'']), (''production_stage'', PStr ''Development''),
     (''budget_max_usd'', PFloat 1000000)]"

definition undated_record :: pydict where
  "undated_record = filter (\<lambda>(k, _). k \<noteq> ''next_deadline'') sample_record"

lemma undated_is_conditional:
  "eligibility_status (evaluate 20700 sample_record sample_facts) = ELIGIBLE
   \<and> eligibility_status (evaluate 20700 undated_record sample_facts) = CONDITIONAL"
  by code_simp

lemma select_one: "select_portfolio [r] stage = [r\<lparr>portfolio_rank := Some 1\<rparr>]"
  by (simp add: select_portfolio_def no_selection_def admit_def deferred_now_def MAX_PER_FUNDING_BODY_def
      MAX_PER_ROUTE_IN_WINDOW_def BALANCED_WINDOW_def)

lemma sample_ranked:
  "ranked_matches 20700 [sample_record] sample_facts = [(evaluate 20700 sample_record sample_facts)\<lparr>portfolio_rank := Some 1\<rparr>]"
proof -
  have "match_records 20700 [sample_record] sample_facts = [evaluate 20700 sample_record sample_facts]"
    by (simp add: match_records_def sample_record_def)
  moreover have "is_presentable (evaluate 20700 sample_record sample_facts)"
    using undated_is_conditional by (simp add: is_presentable_def)
  ultimately show ?thesis by (simp add: ranked_matches_def select_one)
qed

lemma sample_limits:
  "payload_limit (build_payload 20700 [sample_record] sample_facts (Some ''single'')) = 5"
  "payload_limit (build_payload 20700 [sample_record] sample_facts (Some ''studio'')) = 10"
  unfolding payload_simps by code_simp+

theorem recommendations_are_earned_witness:
  "list_all passed (hard_gates 20700 sample_record sample_facts) \<and> \<not> stale_record 20700 sample_record
   \<and> recommendations (build_payload 20700 [sample_record] sample_facts (Some ''single''))
      = [(evaluate 20700 sample_record sample_facts)\<lparr>portfolio_rank := Some 1\<rparr>]"
proof -
  let ?r = "(evaluate 20700 sample_record sample_facts)\<lparr>portfolio_rank := Some 1\<rparr>"
  have recs: "recommendations (build_payload 20700 [sample_record] sample_facts (Some ''single'')) = [?r]"
    using sample_limits(1) unfolding payload_simps sample_ranked by simp
  then have "?r \<in> set (recommendations (build_payload 20700 [sample_record] sample_facts (Some ''single'')))" by simp
  from recommendations_are_earned [OF this] recs show ?thesis by auto
qed

theorem packages_share_the_ranking_witness:
  "recommendations (build_payload 20700 [sample_record] sample_facts (Some ''single''))
     = take 5 (recommendations (build_payload 20700 [sample_record] sample_facts (Some ''studio'')))"
proof -
  have "payload_limit (build_payload 20700 [sample_record] sample_facts (Some ''single''))
      \<le> payload_limit (build_payload 20700 [sample_record] sample_facts (Some ''studio''))"
    unfolding sample_limits by simp
  from packages_share_the_ranking [OF this] show ?thesis unfolding sample_limits by blast
qed

text \<open>Aliases of more than one word are written with blanks, and are looked for with underscores or hyphens.\<close>

lemma spaced_stages_are_lost:
  "parse_stage_list (PStr ''script development'') = None \<and> parse_stage_list (PStr ''slate development'') = None
   \<and> parse_stage_list (PStr ''early development'') = None \<and> parse_stage_list (PStr ''development'') = Some [''development'']"
  by code_simp

end
