(* ===== verification/Signal_Facts.thy ===== *)
theory Signal_Facts
  imports Python_Text B2B_Subscriptions
begin

text \<open>
  Raw facts of business intelligence, from \<open>app/modules/b2b/service.py\<close>: which sections a product
  has, how rows of \<open>production_signals\<close> are reduced to counters, and how the facts of several months
  are summed. No privacy floor is applied here. A \<open>Counter\<close> is an association list in the order its
  labels were first seen. An absent \<open>counts\<close> or \<open>stats\<close> is the empty one, as the readers take it.
\<close>

section \<open>Section layouts\<close>

record section_spec =
  spec_kind :: string
  spec_key :: string
  spec_title :: string
  spec_flatten :: bool
  spec_row_key :: string
  spec_row_flatten :: bool
  spec_col_key :: string
  spec_col_flatten :: bool

definition spec :: "string \<Rightarrow> string \<Rightarrow> string \<Rightarrow> bool \<Rightarrow> section_spec" where
  "spec kind key tt flatten = \<lparr>spec_kind = kind, spec_key = key, spec_title = tt, spec_flatten = flatten,
     spec_row_key = [], spec_row_flatten = False, spec_col_key = [], spec_col_flatten = False\<rparr>"

definition DEFAULT_SECTION_SPECS :: "section_spec list" where
  "DEFAULT_SECTION_SPECS = [
     spec ''distribution'' ''territory'' ''Territory Demand Distribution'' False,
     spec ''distribution'' ''budget_range'' ''Budget Range Mix'' False,
     spec ''distribution'' ''genres'' ''Genre Trend Signals'' True,
     spec ''distribution'' ''format'' ''Format Mix'' False,
     spec ''month'' ''submission_month'' ''Monthly Planning Volume'' False]"

definition SECTION_SPECS :: "(string \<times> section_spec list) list" where
  "SECTION_SPECS = [
     (''camera_equipment'', [
       spec ''distribution'' ''territory'' ''Production Volume by Territory'' False,
       spec ''distribution'' ''camera_equipment'' ''Camera & Equipment Mix'' True,
       spec ''distribution'' ''format'' ''Production Type Distribution'' False,
       spec ''distribution'' ''genres'' ''Genre Mix'' True,
       spec ''month'' ''submission_month'' ''Monthly Upload Volume'' False]),
     (''production_services'', [
       spec ''numeric_band'' ''crew_size'' ''Crew Size Distribution'' False,
       spec ''headcount'' ''headcount'' ''Total Headcount Trend Analysis'' False,
       spec ''distribution'' ''budget_range'' ''Budget Range Breakdown'' False,
       spec ''distribution'' ''territory'' ''Territory Demand Mix'' False,
       spec ''distribution'' ''format'' ''Format Distribution'' False]),
     (''production_trend'', [
       spec ''distribution'' ''territories_considered'' ''Territories Under Consideration'' True,
       spec ''distribution'' ''territories_recommended'' ''Engine-Recommended Territories'' True,
       spec ''distribution'' ''budget_range'' ''Budget Band Breakdown'' False,
       spec ''distribution'' ''format'' ''Production Type Distribution'' False,
       spec ''distribution'' ''genres'' ''Genre Mix'' True,
       spec ''month'' ''submission_month'' ''Monthly Planning Volume'' False,
       (spec ''crosstab'' ''genre_format'' ''Genre by Format'' False)
         \<lparr>spec_row_key := ''genres'', spec_row_flatten := True, spec_col_key := ''format''\<rparr>,
       (spec ''crosstab'' ''format_month'' ''Format Volume by Month'' False)
         \<lparr>spec_row_key := ''format'', spec_col_key := ''submission_month''\<rparr>]),
     (''crew_casting'', [
       spec ''numeric_band'' ''principal_cast'' ''Principal Cast Demand'' False,
       spec ''numeric_band'' ''supporting_cast'' ''Supporting Cast Demand'' False,
       spec ''numeric_band'' ''background_extras'' ''Extras Demand'' False,
       spec ''distribution'' ''genres'' ''Genre Mix'' True,
       spec ''month'' ''submission_month'' ''Submission Timing Clusters'' False])]"

definition HEADCOUNT_KEYS :: "string list" where
  "HEADCOUNT_KEYS = [''crew_size'', ''principal_cast'', ''supporting_cast'', ''background_extras'']"

definition section_specs :: "string \<Rightarrow> section_spec list" where
  "section_specs product_type =
     (case map_of SECTION_SPECS product_type of Some specs \<Rightarrow> specs | None \<Rightarrow> DEFAULT_SECTION_SPECS)"

section \<open>Counters\<close>

type_synonym counter = "(string \<times> int) list"

definition counter_get :: "counter \<Rightarrow> string \<Rightarrow> int" where
  "counter_get c label = (case map_of c label of None \<Rightarrow> 0 | Some n \<Rightarrow> n)"

definition counter_add :: "counter \<Rightarrow> string \<Rightarrow> int \<Rightarrow> counter" where
  "counter_add c label n = AList.update label (counter_get c label + n) c"

text \<open>\<open>for label in labels: counter[label] += 1\<close>, \<open>counter.update(counts)\<close> and \<open>counter.most_common()\<close>.\<close>

fun tally_onto :: "counter \<Rightarrow> string list \<Rightarrow> counter" where
  "tally_onto c [] = c"
| "tally_onto c (label # labels) = tally_onto (counter_add c label 1) labels"

abbreviation tally :: "string list \<Rightarrow> counter" where
  "tally labels \<equiv> tally_onto [] labels"

fun counter_update :: "counter \<Rightarrow> counter \<Rightarrow> counter" where
  "counter_update c [] = c"
| "counter_update c ((label, n) # counts) = counter_update (counter_add c label n) counts"

definition most_common :: "counter \<Rightarrow> counter" where
  "most_common c = sort_key (\<lambda>(label, n). - n) c"

section \<open>Reading a signal\<close>

definition is_missing :: "pyval \<Rightarrow> bool" where
  "is_missing v = (case v of PNone \<Rightarrow> True | PStr s \<Rightarrow> strip s = [] | _ \<Rightarrow> False)"

definition label_of :: "pyval \<Rightarrow> string" where
  "label_of v = (case v of PNone \<Rightarrow> ''Unspecified''
     | PStr s \<Rightarrow> (if strip s = [] then ''Unspecified'' else strip s)
     | _ \<Rightarrow> py_str v)"

text \<open>\<open>int(value)\<close>: a float loses its fraction.\<close>

definition int_cast :: "pyval \<Rightarrow> exc + int" where
  "int_cast v = (case v of
       PInt i \<Rightarrow> Inr i
     | PBool b \<Rightarrow> Inr (if b then 1 else 0)
     | PFloat x \<Rightarrow> Inr (if x < 0 then \<lceil>x\<rceil> else \<lfloor>x\<rfloor>)
     | PStr s \<Rightarrow> (case parse_int s of Some i \<Rightarrow> Inr i | None \<Rightarrow> Inl (ValueError s))
     | _ \<Rightarrow> Inl (TypeError ''int''))"

definition numeric_band :: "pyval \<Rightarrow> string" where
  "numeric_band v =
     (case int_cast v of
        Inl _ \<Rightarrow> ''Unspecified''
      | Inr number \<Rightarrow>
          if number \<le> 10 then ''1-10'' else if number \<le> 50 then ''11-50''
          else if number \<le> 100 then ''51-100'' else ''100+'')"

text \<open>
  A cell with no date counts as today. A text that holds an instant is the \<open>PTime\<close> it stands
  for, so \<open>fromisoformat\<close> meets the text of a date only.
\<close>

definition parse_day :: "int \<Rightarrow> pyval \<Rightarrow> exc + int" where
  "parse_day today v =
     (case v of
        PTime t \<Rightarrow> Inr (date_part t)
      | PDate d \<Rightarrow> Inr d
      | _ \<Rightarrow>
        if \<not> truthy v then Inr today
        else (let s = py_str v in
          if length s = 10 \<and> iso_at s
          then (case iso_date s of Some d \<Rightarrow> Inr d | None \<Rightarrow> Inl (ValueError s))
          else Inl (ValueError s)))"

definition month_label :: "int \<Rightarrow> string" where
  "month_label date = (case ymd_of date of (y, m, d) \<Rightarrow> int_text y @ ''-'' @ zero_padded 2 (int_text m))"

definition field_values :: "row \<Rightarrow> string \<Rightarrow> bool \<Rightarrow> pyval list" where
  "field_values r key flatten =
     (case r key of PList vs \<Rightarrow> if flatten then vs else [PList vs] | v \<Rightarrow> [v])"

definition field_labels :: "row \<Rightarrow> string \<Rightarrow> bool \<Rightarrow> string list" where
  "field_labels r key flatten = map label_of (filter (\<lambda>v. \<not> is_missing v) (field_values r key flatten))"

definition month_labels :: "int \<Rightarrow> row \<Rightarrow> exc + string list" where
  "month_labels today r = bindE (parse_day today (r ''submission_date'')) (\<lambda>d. Inr [month_label d])"

definition spec_values :: "int \<Rightarrow> row \<Rightarrow> string \<Rightarrow> bool \<Rightarrow> exc + string list" where
  "spec_values today r key flatten =
     (if key \<in> {''submission_month'', ''submission_date''} then month_labels today r
      else Inr (field_labels r key flatten))"

text \<open>The labels one signal adds to the counter of a section.\<close>

definition crosstab_labels :: "int \<Rightarrow> section_spec \<Rightarrow> row \<Rightarrow> exc + string list" where
  "crosstab_labels today s r =
     bindE (spec_values today r (spec_row_key s) (spec_row_flatten s)) (\<lambda>rvs.
     if rvs = [] then Inr [] else
     bindE (spec_values today r (spec_col_key s) (spec_col_flatten s)) (\<lambda>cvs.
     Inr (concat (map (\<lambda>rv. map (\<lambda>cv. rv @ ''||'' @ cv) cvs) rvs))))"

definition band_labels :: "section_spec \<Rightarrow> row \<Rightarrow> string list" where
  "band_labels s r = (if is_missing (r (spec_key s)) then [] else [numeric_band (r (spec_key s))])"

definition row_labels_of :: "int \<Rightarrow> section_spec \<Rightarrow> row \<Rightarrow> exc + string list" where
  "row_labels_of today s r =
     (if spec_kind s = ''crosstab'' then crosstab_labels today s r
      else if spec_kind s = ''distribution'' then Inr (field_labels r (spec_key s) (spec_flatten s))
      else if spec_kind s = ''numeric_band'' then Inr (band_labels s r)
      else month_labels today r)"

fun collectE :: "('a \<Rightarrow> exc + 'b list) \<Rightarrow> 'a list \<Rightarrow> exc + 'b list" where
  "collectE f [] = Inr []"
| "collectE f (x # xs) = bindE (f x) (\<lambda>ys. bindE (collectE f xs) (\<lambda>zs. Inr (ys @ zs)))"

section \<open>Headcounts\<close>

record headcount_figures =
  values_count :: int
  values_sum :: int
  values_max :: int
  rows_total :: int

definition no_stats :: headcount_figures where
  "no_stats = \<lparr>values_count = 0, values_sum = 0, values_max = 0, rows_total = 0\<rparr>"

definition cell_or_zero :: "pyval \<Rightarrow> exc + int" where
  "cell_or_zero v = int_cast (py_or v (PInt 0))"

fun sum_cells :: "row \<Rightarrow> string list \<Rightarrow> exc + int" where
  "sum_cells r [] = Inr 0"
| "sum_cells r (key # keys) = bindE (cell_or_zero (r key)) (\<lambda>n. bindE (sum_cells r keys) (\<lambda>m. Inr (n + m)))"

definition declared_headcount :: "row \<Rightarrow> exc + int list" where
  "declared_headcount r = bindE (sum_cells r HEADCOUNT_KEYS) (\<lambda>n. Inr (if 0 < n then [n] else []))"

definition headcount_stats :: "row list \<Rightarrow> exc + headcount_figures" where
  "headcount_stats rows =
     bindE (collectE declared_headcount rows) (\<lambda>values.
     Inr \<lparr>values_count = int (length values), values_sum = sum_list values,
          values_max = (if values = [] then 0 else Max (set values)), rows_total = int (length rows)\<rparr>)"

section \<open>Facts\<close>

record facts_section =
  fs_title :: string
  fs_key :: string
  fs_kind :: string
  fs_counts :: counter
  fs_stats :: headcount_figures

record signal_facts =
  signal_count :: int
  fact_sections :: "facts_section list"

definition known_kind :: "string \<Rightarrow> bool" where
  "known_kind kind = (kind \<in> {''headcount'', ''crosstab'', ''distribution'', ''numeric_band'', ''month''})"

definition section_facts :: "int \<Rightarrow> row list \<Rightarrow> section_spec \<Rightarrow> exc + facts_section list" where
  "section_facts today rows s =
     (if spec_kind s = ''headcount'' then
        bindE (headcount_stats rows) (\<lambda>stats.
        Inr [\<lparr>fs_title = spec_title s, fs_key = spec_key s, fs_kind = ''headcount'', fs_counts = [], fs_stats = stats\<rparr>])
      else if \<not> known_kind (spec_kind s) then Inl (ValueError (''Unknown section kind: '' @ spec_kind s))
      else
        bindE (collectE (row_labels_of today s) rows) (\<lambda>labels.
        Inr [\<lparr>fs_title = spec_title s, fs_key = spec_key s,
              fs_kind = (if spec_kind s = ''crosstab'' then ''crosstab'' else ''counter''),
              fs_counts = tally labels, fs_stats = no_stats\<rparr>]))"

definition facts_from_specs :: "int \<Rightarrow> section_spec list \<Rightarrow> row list \<Rightarrow> exc + signal_facts" where
  "facts_from_specs today specs rows =
     bindE (collectE (section_facts today rows) specs) (\<lambda>sections.
     Inr \<lparr>signal_count = int (length rows), fact_sections = sections\<rparr>)"

definition build_raw_facts :: "int \<Rightarrow> string \<Rightarrow> row list \<Rightarrow> exc + signal_facts" where
  "build_raw_facts today product_type rows = facts_from_specs today (section_specs product_type) rows"

section \<open>Summing months\<close>

type_synonym section_ident = "string \<times> string \<times> string"

definition section_id :: "facts_section \<Rightarrow> section_ident" where
  "section_id s = (fs_kind s, fs_title s, fs_key s)"

definition add_stats :: "headcount_figures \<Rightarrow> headcount_figures \<Rightarrow> headcount_figures" where
  "add_stats agg stats =
     \<lparr>values_count = values_count agg + values_count stats, values_sum = values_sum agg + values_sum stats,
      values_max = max (values_max agg) (values_max stats), rows_total = rows_total agg + rows_total stats\<rparr>"

record composition =
  section_order :: "section_ident list"
  counters :: "(section_ident \<times> counter) list"
  headcounts :: "(section_ident \<times> headcount_figures) list"

definition compose_section :: "facts_section \<Rightarrow> composition \<Rightarrow> composition" where
  "compose_section s st =
     (let ident = section_id s;
          order = (if map_of (counters st) ident = None \<and> map_of (headcounts st) ident = None
                   then section_order st @ [ident] else section_order st) in
      if fs_kind s = ''headcount''
      then st\<lparr>section_order := order, headcounts := AList.update ident
             (add_stats (case map_of (headcounts st) ident of Some agg \<Rightarrow> agg | None \<Rightarrow> no_stats) (fs_stats s))
             (headcounts st)\<rparr>
      else st\<lparr>section_order := order, counters := AList.update ident
             (counter_update (case map_of (counters st) ident of Some c \<Rightarrow> c | None \<Rightarrow> []) (fs_counts s))
             (counters st)\<rparr>)"

definition compose_sections :: "facts_section list \<Rightarrow> composition \<Rightarrow> composition" where
  "compose_sections ss st = fold compose_section ss st"

definition composed_section :: "composition \<Rightarrow> section_ident \<Rightarrow> facts_section" where
  "composed_section st ident =
     (case ident of (kind, tt, key) \<Rightarrow>
      if kind = ''headcount''
      then \<lparr>fs_title = tt, fs_key = key, fs_kind = ''headcount'', fs_counts = [],
            fs_stats = (case map_of (headcounts st) ident of Some agg \<Rightarrow> agg | None \<Rightarrow> no_stats)\<rparr>
      else \<lparr>fs_title = tt, fs_key = key, fs_kind = (if kind = [] then ''counter'' else kind),
            fs_counts = (case map_of (counters st) ident of Some c \<Rightarrow> c | None \<Rightarrow> []), fs_stats = no_stats\<rparr>)"

definition compose_facts :: "signal_facts list \<Rightarrow> signal_facts" where
  "compose_facts facts_list =
     (let st = fold (\<lambda>facts. compose_sections (fact_sections facts)) facts_list
                 \<lparr>section_order = [], counters = [], headcounts = []\<rparr> in
      \<lparr>signal_count = sum_list (map signal_count facts_list),
       fact_sections = map (composed_section st) (section_order st)\<rparr>)"

section \<open>Facts as they are stored\<close>

definition counts_value :: "counter \<Rightarrow> pyval" where
  "counts_value c = PDict (map (\<lambda>(label, n). (label, PInt n)) c)"

definition stats_value :: "headcount_figures \<Rightarrow> pyval" where
  "stats_value h = PDict [(''values_count'', PInt (values_count h)), (''sum'', PInt (values_sum h)),
     (''max'', PInt (values_max h)), (''rows_total'', PInt (rows_total h))]"

definition section_value :: "facts_section \<Rightarrow> pyval" where
  "section_value s = PDict ([(''title'', PStr (fs_title s)), (''key'', PStr (fs_key s)), (''kind'', PStr (fs_kind s))]
     @ (if fs_kind s = ''headcount'' then [(''stats'', stats_value (fs_stats s))] else [(''counts'', counts_value (fs_counts s))]))"

definition facts_value :: "signal_facts \<Rightarrow> pyval" where
  "facts_value f = PDict [(''signal_count'', PInt (signal_count f)), (''sections'', PList (map section_value (fact_sections f)))]"

definition read_counts :: "pyval \<Rightarrow> counter" where
  "read_counts v = map (\<lambda>(label, n). (label, int_of n)) (dict_of v)"

definition read_stats :: "pyval \<Rightarrow> headcount_figures" where
  "read_stats v = \<lparr>values_count = int_of (dget v ''values_count''), values_sum = int_of (dget v ''sum''),
     values_max = int_of (dget v ''max''), rows_total = int_of (dget v ''rows_total'')\<rparr>"

definition read_section :: "pyval \<Rightarrow> facts_section" where
  "read_section v = \<lparr>fs_title = text_of (dget v ''title''), fs_key = text_of (dget v ''key''),
     fs_kind = text_of (dget v ''kind''), fs_counts = read_counts (dget v ''counts''), fs_stats = read_stats (dget v ''stats'')\<rparr>"

definition read_facts :: "pyval \<Rightarrow> signal_facts" where
  "read_facts v = \<lparr>signal_count = int_of (dget v ''signal_count''),
     fact_sections = map read_section (list_of (dget v ''sections''))\<rparr>"

end
