(* ===== verification/Intelligence_Metrics.thy ===== *)
theory Intelligence_Metrics
  imports Signal_Facts
begin

text \<open>
  From raw facts to what a client is shown: the renderer of \<open>app/modules/b2b/service.py\<close>, where the two
  privacy floors are applied, and the comparison of two periods. A rendered section is a datatype with
  a case for each shape of section dictionary.
\<close>

section \<open>Rendered sections\<close>

definition PRIVACY_MIN_OVERALL :: int where
  "PRIVACY_MIN_OVERALL = 10"

definition PRIVACY_MIN_SEGMENT :: int where
  "PRIVACY_MIN_SEGMENT = 5"

record table_row =
  tr_label :: string
  tr_count :: pyval
  tr_percentage :: "rat option"

record movement =
  mv_label :: string
  mv_current :: int
  mv_previous :: int
  mv_delta :: int
  mv_change :: "rat option"

record suppressed_segment =
  sp_section :: string
  sp_field :: string
  sp_label :: string
  sp_count :: int
  sp_minimum :: int

datatype report_section =
    Notice string string
  | Headcount_section string string "table_row list"
  | Distribution_section string string string "table_row list"
  | Crosstab_section string string string "string list" "string list" "int list list"
  | Comparison_section string string "movement list"
  | Dataset_section string string "string list" "(string \<times> string) list list"

record metrics =
  mt_product_type :: string
  mt_title :: string
  mt_period_start :: int
  mt_period_end :: int
  mt_generated_at :: int
  source_signal_count :: int
  insufficient_data :: bool
  mt_sections :: "report_section list"
  suppressed_segments :: "suppressed_segment list"
  mt_extra :: pydict

section \<open>Headcounts\<close>

text \<open>\<open>f"{x:.1f}"\<close> of a number that is not negative.\<close>

definition tenths_text :: "rat \<Rightarrow> string" where
  "tenths_text x = (let n = \<lfloor>10 * round_tenth x\<rfloor> in int_text (n div 10) @ ''.'' @ int_text (n mod 10))"

definition or_text :: "string \<Rightarrow> string \<Rightarrow> string" where
  "or_text s d = (if s = [] then d else s)"

definition headcount_section_from_stats :: "facts_section \<Rightarrow> report_section" where
  "headcount_section_from_stats s =
     (let h = fs_stats s; tt = or_text (fs_title s) ''Total Headcount Trend Analysis'' in
      if values_count h = 0
      then Headcount_section tt ''No headcount metadata was available for the selected period.'' []
      else (let average = of_int (values_sum h) / of_int (values_count h) in
        Headcount_section tt (''Average declared headcount across anonymised productions: '' @ tenths_text average) [
          \<lparr>tr_label = ''Signals with headcount metadata'', tr_count = PInt (values_count h),
           tr_percentage = (if rows_total h \<noteq> 0
             then Some (round_tenth (of_int (values_count h) / of_int (rows_total h) * 100)) else None)\<rparr>,
          \<lparr>tr_label = ''Average declared headcount'', tr_count = PFloat (round_tenth average), tr_percentage = None\<rparr>,
          \<lparr>tr_label = ''Maximum declared headcount'', tr_count = PInt (values_max h), tr_percentage = None\<rparr>]))"

section \<open>Distributions\<close>

definition withheld_segment :: "string \<Rightarrow> string \<Rightarrow> string \<Rightarrow> int \<Rightarrow> suppressed_segment" where
  "withheld_segment tt key label n =
     \<lparr>sp_section = tt, sp_field = key, sp_label = label, sp_count = n, sp_minimum = PRIVACY_MIN_SEGMENT\<rparr>"

definition count_total :: "counter \<Rightarrow> int" where
  "count_total c = (let n = sum_list (map snd c) in if n = 0 then 1 else n)"

definition counter_section :: "counter \<Rightarrow> string \<Rightarrow> string \<Rightarrow> report_section \<times> suppressed_segment list" where
  "counter_section c tt key =
     (let kept = filter (\<lambda>(label, n). \<not> n < PRIVACY_MIN_SEGMENT) (most_common c);
          dropped = filter (\<lambda>(label, n). n < PRIVACY_MIN_SEGMENT) (most_common c);
          rows = map (\<lambda>(label, n). \<lparr>tr_label = label, tr_count = PInt n,
            tr_percentage = Some (round_tenth (of_int n / of_int (count_total c) * 100))\<rparr>) kept;
          summary = (if rows \<noteq> [] then int_text (int (length rows)) @ '' segment(s) met the 5-record display threshold.''
            else ''No segment met the 5-record display threshold.'') in
      (Distribution_section tt key summary rows, map (\<lambda>(label, n). withheld_segment tt key label n) dropped))"

section \<open>Cross tabulations\<close>

text \<open>\<open>compound.partition("||")\<close>, without the separator.\<close>

fun partition_bars :: "string \<Rightarrow> string \<times> string" where
  "partition_bars [] = ([], [])"
| "partition_bars (c # cs) =
     (if c = CHR ''|'' \<and> take 1 cs = ''|'' then ([], drop 1 cs)
      else (case partition_bars cs of (a, b) \<Rightarrow> (c # a, b)))"

fun crosstab_cells :: "counter \<Rightarrow> ((string \<times> string) \<times> int) list \<Rightarrow> ((string \<times> string) \<times> int) list" where
  "crosstab_cells [] cells = cells"
| "crosstab_cells ((compound, n) # counts) cells =
     (let rc = partition_bars compound in
      crosstab_cells counts (if snd rc = [] then cells else AList.update rc n cells))"

definition ends_with :: "string \<Rightarrow> string \<Rightarrow> bool" where
  "ends_with suffix s = (length suffix \<le> length s \<and> drop (length s - length suffix) s = suffix)"

definition axis_totals :: "(string \<times> int) list \<Rightarrow> counter" where
  "axis_totals ps = counter_update [] ps"

definition crosstab_section :: "facts_section \<Rightarrow> report_section \<times> suppressed_segment list" where
  "crosstab_section s =
     (let tt = or_text (fs_title s) ''Cross Tabulation'';
          key = or_text (fs_key s) ''crosstab'';
          cells = crosstab_cells (fs_counts s) [];
          kept = filter (\<lambda>(rc, n). PRIVACY_MIN_SEGMENT \<le> n) cells;
          dropped = map (\<lambda>((r, c), n). withheld_segment tt key (r @ '' x '' @ c) n)
                      (filter (\<lambda>(rc, n). n < PRIVACY_MIN_SEGMENT) cells) in
      if kept = [] then
        (Crosstab_section tt key ''No combination reached the 5-record threshold, so this cross-tabulation is withheld.'' [] [] [], dropped)
      else
       (let row_totals = axis_totals (map (\<lambda>((r, c), n). (r, n)) kept);
            col_totals = axis_totals (map (\<lambda>((r, c), n). (c, n)) kept);
            cols = (if ends_with ''_month'' key then sort (map fst col_totals) else map fst (most_common col_totals));
            rows = map fst (most_common row_totals);
            cell = (\<lambda>r c. case map_of kept (r, c) of Some n \<Rightarrow> n | None \<Rightarrow> 0) in
        (Crosstab_section tt key (int_text (int (length kept)) @ '' combination(s) met the 5-record threshold.'')
           cols rows (map (\<lambda>r. map (cell r) cols) rows), dropped)))"

section \<open>The renderer\<close>

definition render_section :: "facts_section \<Rightarrow> report_section \<times> suppressed_segment list" where
  "render_section s =
     (if fs_kind s = ''headcount'' then (headcount_section_from_stats s, [])
      else if fs_kind s = ''crosstab'' then crosstab_section s
      else counter_section (fs_counts s) (fs_title s) (fs_key s))"

definition privacy_notice :: report_section where
  "privacy_notice = Notice ''Privacy Threshold'' (''The selected period does not contain enough anonymised ''
     @ ''production signals to produce customer-facing segments. Choose a wider date range.'')"

definition render_facts :: "string \<Rightarrow> string \<Rightarrow> signal_facts \<Rightarrow> int \<Rightarrow> int \<Rightarrow> int \<Rightarrow> pydict \<Rightarrow> metrics" where
  "render_facts product_type tt facts period_start period_end now extra =
     (let low = signal_count facts < PRIVACY_MIN_OVERALL;
          rendered = (if low then [] else map render_section (fact_sections facts)) in
      \<lparr>mt_product_type = product_type, mt_title = tt, mt_period_start = period_start, mt_period_end = period_end,
       mt_generated_at = now, source_signal_count = signal_count facts, insufficient_data = low,
       mt_sections = (if low then [privacy_notice] else map fst rendered),
       suppressed_segments = concat (map snd rendered), mt_extra = extra\<rparr>)"

definition facts_to_metrics :: "string \<Rightarrow> signal_facts \<Rightarrow> int \<Rightarrow> int \<Rightarrow> pydict \<Rightarrow> string \<Rightarrow> metrics comp" where
  "facts_to_metrics product_type facts period_start period_end extra tt =
     bindM (if tt \<noteq> [] then ret (PStr tt)
            else bindM (b2b_product (PStr product_type)) (\<lambda>product. ret (lookup product ''title''))) (\<lambda>name.
     bindM (gets clock) (\<lambda>now.
     ret (render_facts product_type (text_of name) facts period_start period_end now extra)))"

section \<open>Two periods compared\<close>

definition segment_key :: "facts_section \<Rightarrow> string \<Rightarrow> string" where
  "segment_key s label = fs_key s @ ''::'' @ label"

definition counted :: "signal_facts \<Rightarrow> (facts_section \<times> string \<times> int) list" where
  "counted facts = concat (map (\<lambda>s. map (\<lambda>(label, n). (s, label, n)) (fs_counts s))
     (filter (\<lambda>s. fs_kind s \<noteq> ''headcount'') (fact_sections facts)))"

definition previous_totals :: "signal_facts \<Rightarrow> (string \<times> int) list" where
  "previous_totals facts = fold (\<lambda>(s, label, n). AList.update (segment_key s label) n) (counted facts) []"

definition movement_row :: "(string \<times> int) list \<Rightarrow> facts_section \<times> string \<times> int \<Rightarrow> movement" where
  "movement_row totals entry =
     (case entry of (s, label, current) \<Rightarrow>
      let prior = (case map_of totals (segment_key s label) of Some n \<Rightarrow> n | None \<Rightarrow> 0);
          delta = current - prior in
      \<lparr>mv_label = fs_title s @ '' - '' @ label, mv_current = current, mv_previous = prior, mv_delta = delta,
       mv_change = (if prior \<noteq> 0 then Some (round_tenth (of_int delta / of_int prior * 100)) else None)\<rparr>)"

definition month_on_month :: "signal_facts \<Rightarrow> signal_facts \<Rightarrow> report_section option" where
  "month_on_month current_facts previous_facts =
     (let rows = filter (\<lambda>row. \<not> (mv_current row < PRIVACY_MIN_SEGMENT \<and> mv_previous row < PRIVACY_MIN_SEGMENT))
            (map (movement_row (previous_totals previous_facts)) (counted current_facts)) in
      if rows = [] then None
      else
       (let rows = sort_key (\<lambda>row. - \<bar>mv_delta row\<bar>) rows;
            risers = length (filter (\<lambda>row. 0 < mv_delta row) rows);
            fallers = length (filter (\<lambda>row. mv_delta row < 0) rows) in
        Some (Comparison_section ''Period-on-Period Movement''
          (int_text (int risers) @ '' segment(s) grew and '' @ int_text (int fallers) @ '' declined against the preceding period.'') rows)))"

section \<open>Metrics as they are stored\<close>

definition percentage_value :: "rat option \<Rightarrow> pyval" where
  "percentage_value p = (case p of None \<Rightarrow> PNone | Some x \<Rightarrow> PFloat x)"

definition table_row_value :: "table_row \<Rightarrow> pyval" where
  "table_row_value r = PDict [(''label'', PStr (tr_label r)), (''count'', tr_count r),
     (''percentage'', percentage_value (tr_percentage r))]"

definition movement_value :: "movement \<Rightarrow> pyval" where
  "movement_value r = PDict [(''label'', PStr (mv_label r)), (''current'', PInt (mv_current r)), (''previous'', PInt (mv_previous r)),
     (''delta'', PInt (mv_delta r)), (''percentage_change'', percentage_value (mv_change r))]"

definition texts :: "string list \<Rightarrow> pyval" where
  "texts ss = PList (map PStr ss)"

fun report_section_value :: "report_section \<Rightarrow> pyval" where
  "report_section_value (Notice tt summary) =
     PDict [(''title'', PStr tt), (''summary'', PStr summary), (''rows'', PList [])]"
| "report_section_value (Headcount_section tt summary rows) =
     PDict [(''title'', PStr tt), (''summary'', PStr summary), (''rows'', PList (map table_row_value rows))]"
| "report_section_value (Distribution_section tt key summary rows) =
     PDict [(''title'', PStr tt), (''key'', PStr key), (''kind'', PStr ''distribution''), (''summary'', PStr summary),
       (''rows'', PList (map table_row_value rows))]"
| "report_section_value (Crosstab_section tt key summary cols rows cells) =
     PDict [(''title'', PStr tt), (''key'', PStr key), (''kind'', PStr ''crosstab''), (''summary'', PStr summary),
       (''cols'', texts cols), (''row_labels'', texts rows), (''data'', PList (map (\<lambda>ns. PList (map PInt ns)) cells)), (''rows'', PList [])]"
| "report_section_value (Comparison_section tt summary rows) =
     PDict [(''title'', PStr tt), (''summary'', PStr summary), (''rows'', PList (map movement_value rows)), (''kind'', PStr ''comparison'')]"
| "report_section_value (Dataset_section tt summary columns records) =
     PDict [(''title'', PStr tt), (''summary'', PStr summary), (''kind'', PStr ''dataset''), (''columns'', texts columns),
       (''records'', PList (map (\<lambda>r. PDict (map (\<lambda>(c, v). (c, PStr v)) r)) records)), (''rows'', PList [])]"

definition suppressed_value :: "suppressed_segment \<Rightarrow> pyval" where
  "suppressed_value s = PDict [(''section'', PStr (sp_section s)), (''field'', PStr (sp_field s)), (''label'', PStr (sp_label s)),
     (''count'', PInt (sp_count s)), (''minimum'', PInt (sp_minimum s))]"

definition metrics_dict :: "metrics \<Rightarrow> pydict" where
  "metrics_dict m = [
     (''product_type'', PStr (mt_product_type m)), (''title'', PStr (mt_title m)),
     (''period_start'', PDate (mt_period_start m)), (''period_end'', PDate (mt_period_end m)),
     (''generated_at'', PTime (mt_generated_at m)), (''source_signal_count'', PInt (source_signal_count m)),
     (''thresholds'', PDict [(''minimum_overall_records'', PInt PRIVACY_MIN_OVERALL),
        (''minimum_segment_records'', PInt PRIVACY_MIN_SEGMENT)]),
     (''insufficient_data'', PBool (insufficient_data m)),
     (''sections'', PList (map report_section_value (mt_sections m))),
     (''suppressed_segments'', PList (map suppressed_value (suppressed_segments m)))] @ mt_extra m"

end
