(* ===== verification/Monthly_Aggregates.thy ===== *)
theory Monthly_Aggregates
  imports Intelligence_Metrics Sample_World
begin

text \<open>
  Signals read for a period, the stored facts of single months, and the metrics composed from them,
  as in \<open>app/modules/b2b/service.py\<close>. The ISO text of a month is the month's first day. A computation
  reads one instant, so every read of the clock in a request gives the same day.
\<close>

section \<open>Signals\<close>

definition load_signals :: "int \<Rightarrow> int \<Rightarrow> bool \<Rightarrow> row list comp" where
  "load_signals period_start period_end include_internal =
     (let query = tq_eq ''b2b_consent'' (PBool True) (tq_lte ''submission_date'' (PDate period_end)
            (tq_gte ''submission_date'' (PDate period_start) (tq_select ''*'' (tq ''production_signals'')))) in
      fetch (if include_internal then query else tq_eq ''is_internal'' (PBool False) query))"

definition today :: "int comp" where
  "today = gets (\<lambda>w. date_part (clock w))"

definition facts_of_period :: "string \<Rightarrow> int \<Rightarrow> int \<Rightarrow> signal_facts comp" where
  "facts_of_period product_type period_start period_end =
     bindM (load_signals period_start period_end False) (\<lambda>rows.
     bindM today (\<lambda>d. liftE (build_raw_facts d product_type rows)))"

definition build_metrics :: "string \<Rightarrow> int \<Rightarrow> int \<Rightarrow> metrics comp" where
  "build_metrics product_type period_start period_end =
     bindM (facts_of_period product_type period_start period_end) (\<lambda>facts.
     facts_to_metrics product_type facts period_start period_end [] [])"

section \<open>Stored months\<close>

abbreviation AGGREGATES :: string where
  "AGGREGATES \<equiv> ''b2b_monthly_aggregates''"

type_synonym stored_months = "(int \<times> row) list"

fun key_months :: "int \<Rightarrow> row list \<Rightarrow> stored_months \<Rightarrow> exc + stored_months" where
  "key_months d [] stored = Inr stored"
| "key_months d (r # rows) stored =
     bindE (parse_day d (r ''period_month'')) (\<lambda>m. key_months d rows (AList.update m r stored))"

definition get_monthly_aggregates :: "string \<Rightarrow> int list \<Rightarrow> stored_months comp" where
  "get_monthly_aggregates product_type months =
     (let query = tq_eq ''product_type'' (PStr product_type) (tq_select ''*'' (tq AGGREGATES)) in
      bindM (fetch (if months = [] then query
                    else tq_in ''period_month'' (map (\<lambda>m. PDate (month_start m)) months) query)) (\<lambda>rows.
      bindM today (\<lambda>d. liftE (key_months d rows []))))"

definition aggregate_cells :: "pyval \<Rightarrow> string \<Rightarrow> int \<Rightarrow> signal_facts \<Rightarrow> int \<Rightarrow> pydict" where
  "aggregate_cells i product_type start facts now = [
     (''id'', i),
     (''product_type'', PStr product_type),
     (''period_month'', PDate start),
     (''signal_count'', PInt (signal_count facts)),
     (''facts'', facts_value facts),
     (''updated_at'', PTime now)]"

definition build_monthly_aggregate :: "string \<Rightarrow> int \<Rightarrow> row comp" where
  "build_monthly_aggregate product_type month =
     (let start = month_start month in
      bindM (facts_of_period product_type start (month_end start)) (\<lambda>facts.
      bindM uuid4 (\<lambda>i.
      bindM (gets clock) (\<lambda>now.
      let record = aggregate_cells i product_type start facts now in
      bindM (get_monthly_aggregates product_type [start]) (\<lambda>existing.
      let record = (if existing = [] then record @ [(''created_at'', PTime now)] else record) in
      thenM (run (tq_upsert record ''product_type,period_month'' (tq AGGREGATES)))
        (ret (lookup record)))))))"

fun ensure_each :: "string \<Rightarrow> int list \<Rightarrow> stored_months \<Rightarrow> stored_months comp" where
  "ensure_each product_type [] stored = ret stored"
| "ensure_each product_type (month # months) stored =
     (let key = month_start month in
      if map_of stored key \<noteq> None then ensure_each product_type months stored
      else bindM (build_monthly_aggregate product_type month) (\<lambda>r.
           ensure_each product_type months (AList.update key r stored)))"

definition ensure_monthly_aggregates :: "string \<Rightarrow> int list \<Rightarrow> stored_months comp" where
  "ensure_monthly_aggregates product_type months =
     bindM (get_monthly_aggregates product_type months) (\<lambda>stored. ensure_each product_type months stored)"

section \<open>Months\<close>

definition shift_month :: "int \<Rightarrow> int \<Rightarrow> int" where
  "shift_month month n = month_start (date_part (add_months (days_us month) n))"

lemma days_us_parts [simp]: "date_part (days_us d) = d" "time_part (days_us d) = 0"
  by (simp_all add: days_us_def date_part_def time_part_def day_us_def)

lemma ymd_month_start: "ymd_of d = (y, m, k) \<Longrightarrow> month_start d = date_of y m 1 \<and> ymd_of (month_start d) = (y, m, 1)"
proof -
  assume a: "ymd_of d = (y, m, k)"
  then have "valid_ymd y m 1" using date_of_ymd_of(2) [OF a] by (simp add: valid_ymd_def)
  then show ?thesis using a ymd_of_date_of [of y m 1] by (simp add: month_start_def)
qed

lemma month_start_le: "month_start d \<le> d"
proof -
  obtain y m k where a: "ymd_of d = (y, m, k)" by (metis prod_cases3)
  then have "date_of y m k = d" "1 \<le> k" using date_of_ymd_of [OF a] by (auto simp: valid_ymd_def)
  then show ?thesis using ymd_month_start [OF a] date_of_add [of y m 1 "k - 1"] by simp
qed

lemma month_end_eq: "ymd_of d = (y, m, k) \<Longrightarrow> month_end d = date_of y m 1 + days_in_month y m - 1"
  using ymd_month_start [of d y m k] date_of_add [of y m 1 "days_in_month y m - 1"] by (auto simp: month_end_def)

lemma shift_one:
  assumes "ymd_of d = (y, m, k)" and "next_month y m = (y', m')"
  shows "shift_month d 1 = date_of y' m' 1"
proof -
  have v: "valid_ymd y m k" using date_of_ymd_of(2) [OF assms(1)] .
  then have r: "1 \<le> m" "m \<le> 12" "1 \<le> k" by (auto simp: valid_ymd_def)
  have mi: "(m - 1 + 1) mod 12 + 1 = m'" "y + (m - 1 + 1) div 12 = y'"
  proof -
    consider "m = 12" | "m < 12" using r by linarith
    then show "(m - 1 + 1) mod 12 + 1 = m'" "y + (m - 1 + 1) div 12 = y'"
      using assms(2) r by (cases; auto simp: next_month_def)+
  qed
  have m': "1 \<le> m' \<and> m' \<le> 12" using next_month_valid [OF r(1,2) assms(2)] .
  let ?k = "min k (days_in_month y' m')"
  have "valid_ymd y' m' ?k" using m' r(3) by (auto simp: valid_ymd_def min_def)
  then have "ymd_of (date_of y' m' ?k) = (y', m', ?k)" by (rule ymd_of_date_of)
  moreover have "date_part (add_months (days_us d) 1) = date_of y' m' ?k"
    using mi unfolding add_months_def Let_def by (simp add: assms(1) date_time_parts del: diff_add_cancel) (simp add: date_part_def day_us_def)
  ultimately show ?thesis unfolding shift_month_def using ymd_month_start by simp
qed

lemma shift_one_after: "month_end d + 1 = shift_month d 1" and shift_one_less: "d < shift_month d 1"
proof -
  obtain y m k where a: "ymd_of d = (y, m, k)" by (metis prod_cases3)
  obtain y' m' where n: "next_month y m = (y', m')" by fastforce
  have v: "valid_ymd y m k" "date_of y m k = d" using date_of_ymd_of [OF a] by auto
  have e: "date_of y' m' 1 = date_of y m 1 + days_in_month y m"
    using date_of_next_month [OF _ _ n] v by (simp add: valid_ymd_def)
  show "month_end d + 1 = shift_month d 1" using shift_one [OF a n] month_end_eq [OF a] e by simp
  show "d < shift_month d 1"
    using shift_one [OF a n] e v date_of_add [of y m 1 "k - 1"] by (simp add: valid_ymd_def)
qed

text \<open>\<open>while cursor <= last\<close>: each round moves the cursor to a later day.\<close>

function months_from :: "int \<Rightarrow> int \<Rightarrow> int list" where
  "months_from cursor end_month =
     (if cursor \<le> end_month then cursor # months_from (shift_month cursor 1) end_month else [])"
  by auto
termination
  by (relation "measure (\<lambda>(cursor, end_month). nat (end_month + 1 - cursor))") (use shift_one_less in \<open>auto simp: nat_mono_iff\<close>)

declare months_from.simps [simp del]

definition months_in_range :: "int \<Rightarrow> int \<Rightarrow> int list" where
  "months_in_range start until = months_from (month_start start) (month_start until)"

section \<open>Metrics of several months\<close>

definition SHORT_MONTHS :: "string list" where
  "SHORT_MONTHS = [''Jan'', ''Feb'', ''Mar'', ''Apr'', ''May'', ''Jun'', ''Jul'', ''Aug'', ''Sep'', ''Oct'', ''Nov'', ''Dec'']"

definition window_label :: "int list \<Rightarrow> string" where
  "window_label window =
     (case ymd_of (hd window) of (y, m, d) \<Rightarrow>
      let year = zero_padded 2 (int_text (y mod 100)) in
      if length window = 3 then ''Q'' @ int_text ((m - 1) div 3 + 1) @ '' '' @ year
      else SHORT_MONTHS ! nat (m - 1) @ '' '' @ year)"

definition volume_windows :: "int list \<Rightarrow> int list \<Rightarrow> int list list" where
  "volume_windows current previous =
     (let span = int (length current);
          back = map (\<lambda>m. shift_month m (- span));
          cursor = (if previous \<noteq> [] then previous else back current) in
      [back (back cursor), back cursor, cursor, current])"

definition window_volume :: "stored_months \<Rightarrow> int list \<Rightarrow> pyval list" where
  "window_volume stored window =
     (case filter (\<lambda>x. x \<noteq> None) (map (map_of stored) window) of
        [] \<Rightarrow> []
      | present \<Rightarrow> [PDict [(''label'', PStr (window_label window)),
          (''value'', PInt (sum_list (map (\<lambda>x. int_of ((the x) ''signal_count'')) present)))]])"

definition period_volumes :: "string \<Rightarrow> int list \<Rightarrow> int list \<Rightarrow> pyval list comp" where
  "period_volumes product_type current previous =
     (let windows = volume_windows current previous in
      bindM (get_monthly_aggregates product_type (concat windows)) (\<lambda>stored.
      ret (concat (map (window_volume stored) windows))))"

definition stored_facts :: "stored_months \<Rightarrow> int list \<Rightarrow> signal_facts list" where
  "stored_facts stored months =
     map (\<lambda>m. read_facts ((the (map_of stored m)) ''facts'')) (filter (\<lambda>m. map_of stored m \<noteq> None) months)"

definition composition_name :: "int list \<Rightarrow> string" where
  "composition_name months = (if length months = 1 then ''monthly'' else int_text (int (length months)) @ ''-month'')"

definition with_comparison :: "metrics \<Rightarrow> report_section option \<Rightarrow> pydict \<Rightarrow> metrics" where
  "with_comparison m comparison extra =
     m\<lparr>mt_sections := mt_sections m @ (case comparison of None \<Rightarrow> []
          | Some s \<Rightarrow> if insufficient_data m then [] else [s]),
       mt_extra := mt_extra m @ extra\<rparr>"

definition compose_from_months :: "string \<Rightarrow> int list \<Rightarrow> int list \<Rightarrow> metrics comp" where
  "compose_from_months product_type months compare_to =
     (if months = [] then throw (ValueError ''compose_from_months requires at least one month'')
      else
       (let ordered = sort (map month_start months) in
        bindM (ensure_monthly_aggregates product_type ordered) (\<lambda>stored.
        let composed = compose_facts (stored_facts stored ordered);
            extra = [(''composed_from_months'', PList (map PDate ordered)), (''composition'', PStr (composition_name ordered))] in
        bindM (facts_to_metrics product_type composed (hd ordered) (month_end (last ordered)) extra []) (\<lambda>metrics.
        if compare_to = [] then ret metrics
        else
         (let previous_months = sort (map month_start compare_to) in
          bindM (ensure_monthly_aggregates product_type previous_months) (\<lambda>previous_stored.
          let previous = compose_facts (stored_facts previous_stored previous_months) in
          bindM (period_volumes product_type ordered previous_months) (\<lambda>volumes.
          ret (with_comparison metrics (month_on_month composed previous) [
            (''comparison_months'', PList (map PDate previous_months)),
            (''previous_signal_count'', PInt (signal_count previous)),
            (''period_volumes'', PList volumes)]))))))))"

definition whole_months :: "int \<Rightarrow> int \<Rightarrow> bool" where
  "whole_months start until \<longleftrightarrow> start = month_start start \<and> until = month_end until \<and> start \<le> until"

definition build_period_metrics :: "string \<Rightarrow> int \<Rightarrow> int \<Rightarrow> bool \<Rightarrow> metrics comp" where
  "build_period_metrics product_type start until compare =
     (if \<not> whole_months start until then build_metrics product_type start until
      else
       (let months = months_in_range start until;
            compare_to = (if compare then map (\<lambda>m. shift_month m (- int (length months))) months else []) in
        compose_from_months product_type months compare_to))"

definition yearly_available :: "string \<Rightarrow> int list \<Rightarrow> bool comp" where
  "yearly_available product_type months =
     bindM (get_monthly_aggregates product_type months) (\<lambda>stored.
     ret (12 \<le> length months \<and> 12 \<le> length stored))"

definition backfill_monthly_aggregates :: "string \<Rightarrow> int \<Rightarrow> int \<Rightarrow> int comp" where
  "backfill_monthly_aggregates product_type start until =
     (let months = months_in_range start until in
      thenM (forM months (\<lambda>m. bindM (build_monthly_aggregate product_type m) (\<lambda>_. ret ())))
        (ret (int (length months))))"

section \<open>The closing of a month\<close>

fun close_products :: "string list \<Rightarrow> int \<Rightarrow> int \<Rightarrow> int comp" where
  "close_products [] closed_month stored = ret stored"
| "close_products (product_type # products) closed_month stored =
     bindM (tryM (bindM (build_monthly_aggregate product_type closed_month) (\<lambda>_. ret (stored + 1))) (\<lambda>_. ret stored))
       (\<lambda>stored. close_products products closed_month stored)"

definition run_b2b_monthly_aggregate_close :: "int option \<Rightarrow> int comp" where
  "run_b2b_monthly_aggregate_close day =
     bindM (case day of Some d \<Rightarrow> ret d | None \<Rightarrow> today) (\<lambda>reference.
     close_products (map fst B2B_PRODUCTS) (shift_month reference (-1)) 0)"

end
