(* ===== verification/Packages.thy ===== *)
theory Packages
  imports Monthly_Aggregates
begin

text \<open>
  \<open>app/modules/b2b/package_service.py\<close>: the library of sections an admin composes a package from, the
  preview of what would render, and the package itself. The curated data sets are read through the
  fetcher the service is given, a record of its operations; \<open>dataset_fetcher\<close> is the one the application
  uses. The repository defines no columns for \<open>film_festivals\<close> and \<open>distributors\<close>, so these two are
  missing tables here. A record of a data set is a dict in the order of its columns.
\<close>

section \<open>The section library\<close>

record section_def =
  sd_key :: string
  sd_title :: string
  sd_part :: string
  sd_group :: string
  sd_signal_field :: string
  sd_flatten :: bool
  sd_dataset :: string
  sd_kind :: string
  sd_note :: string

definition library_section :: "string \<Rightarrow> string \<Rightarrow> string \<Rightarrow> string \<Rightarrow> string \<Rightarrow> bool \<Rightarrow> string \<Rightarrow> string \<Rightarrow> string \<Rightarrow> section_def" where
  "library_section key tt part grp field flatten dataset kind note =
     \<lparr>sd_key = key, sd_title = tt, sd_part = part, sd_group = grp, sd_signal_field = field, sd_flatten = flatten,
      sd_dataset = dataset, sd_kind = kind, sd_note = note\<rparr>"

definition SECTION_LIBRARY :: "section_def list" where
  "SECTION_LIBRARY = [
     library_section ''sig_territory_home'' ''Production Volume by Home Country'' ''signals'' ''Territory Signals'' ''home_country'' False [] ''distribution''
       ''Declared production-company base.'',
     library_section ''sig_territory_considered'' ''Territories Under Consideration'' ''signals'' ''Territory Signals'' ''territories_considered'' True [] ''distribution''
       ''Declared by producers at intake. Forward-looking demand.'',
     library_section ''sig_territory_recommended'' ''Engine-Recommended Territories'' ''signals'' ''Territory Signals'' ''territories_recommended'' True [] ''distribution''
       ''Prodculator engine output. Proprietary and unavailable elsewhere.'',
     library_section ''sig_format'' ''Production Type Distribution'' ''signals'' ''Production Signals'' ''format'' False [] ''distribution''
       [],
     library_section ''sig_genre'' ''Genre Mix'' ''signals'' ''Production Signals'' ''genres'' True [] ''distribution''
       [],
     library_section ''sig_budget'' ''Budget Band Breakdown (GBP-normalised)'' ''signals'' ''Production Signals'' ''budget_range'' False [] ''distribution''
       ''FX-normalised to GBP before banding.'',
     library_section ''sig_camera'' ''Camera & Equipment Mix'' ''signals'' ''Equipment Signals'' ''camera_equipment'' True [] ''distribution''
       [],
     library_section ''sig_crew'' ''Crew Size Distribution'' ''signals'' ''Crew & Cast Signals'' ''crew_size'' False [] ''numeric_band''
       [],
     library_section ''sig_principal'' ''Principal Cast Demand'' ''signals'' ''Crew & Cast Signals'' ''principal_cast'' False [] ''numeric_band''
       [],
     library_section ''sig_supporting'' ''Supporting Cast Demand'' ''signals'' ''Crew & Cast Signals'' ''supporting_cast'' False [] ''numeric_band''
       [],
     library_section ''sig_extras'' ''Extras Demand'' ''signals'' ''Crew & Cast Signals'' ''background_extras'' False [] ''numeric_band''
       ''Requires background_extras at intake (R-4 decision).'',
     library_section ''sig_audience'' ''Target Audience Quadrants'' ''signals'' ''Audience Signals'' ''target_audience'' True [] ''distribution''
       ''Declared only, never inferred. Seed of Audience Intent product.'',
     library_section ''sig_audience_seg'' ''Audience Segments'' ''signals'' ''Audience Signals'' ''audience_segments'' True [] ''distribution''
       [],
     library_section ''sig_language'' ''Primary Language Demand'' ''signals'' ''Audience Signals'' ''primary_languages'' True [] ''distribution''
       [],
     library_section ''sig_month'' ''Monthly Submission Volume'' ''signals'' ''Timing Signals'' ''submission_date'' False [] ''month''
       [],
     library_section ''sig_completion'' ''Completion Window Clusters'' ''signals'' ''Timing Signals'' ''completion_window'' False [] ''distribution''
       ''When productions expect to be market-ready.'',
     library_section ''ctx_incentives'' ''Incentive Programme Landscape'' ''context'' ''Market Context'' [] False ''incentives'' ''dataset_table''
       [],
     library_section ''ctx_festivals'' ''Festival Calendar & Deadlines'' ''context'' ''Market Context'' [] False ''festivals'' ''dataset_table''
       [],
     library_section ''ctx_distributors'' ''Distributor Market Map'' ''context'' ''Market Context'' [] False ''distributors'' ''dataset_table''
       [],
     library_section ''ctx_comparables'' ''Comparable Productions'' ''context'' ''Market Context'' [] False ''comparables'' ''dataset_table''
       []]"

definition section_by_key :: "string \<Rightarrow> section_def option" where
  "section_by_key key = List.find (\<lambda>s. sd_key s = key) SECTION_LIBRARY"

definition PRODUCT_TEMPLATES :: "(string \<times> string list) list" where
  "PRODUCT_TEMPLATES = [
     (''camera_equipment'', [''ctx_incentives'', ''sig_territory_considered'', ''sig_camera'', ''sig_format'', ''sig_genre'', ''sig_month'']),
     (''production_services'', [''sig_crew'', ''sig_budget'', ''sig_territory_considered'', ''sig_format'']),
     (''crew_casting'', [''sig_principal'', ''sig_supporting'', ''sig_extras'', ''sig_genre'', ''sig_completion'']),
     (''strategic_trend'', [''ctx_incentives'', ''ctx_festivals'', ''sig_territory_recommended'', ''sig_budget'', ''sig_genre'', ''sig_format'', ''sig_audience'']),
     (''audience_intent'', [''sig_audience'', ''sig_audience_seg'', ''sig_language'', ''sig_genre'', ''sig_budget'', ''sig_territory_recommended'']),
     (''territory_demand_index'', [''ctx_incentives'', ''sig_territory_considered'', ''sig_territory_recommended'', ''sig_completion'', ''sig_budget''])]"

definition package_library :: "pydict list" where
  "package_library = map (\<lambda>s. [
     (''key'', PStr (sd_key s)), (''title'', PStr (sd_title s)), (''part'', PStr (sd_part s)), (''group'', PStr (sd_group s)),
     (''kind'', PStr (sd_kind s)), (''note'', PStr (sd_note s)),
     (''source'', if sd_signal_field s \<noteq> [] then PStr (sd_signal_field s)
        else if sd_dataset s \<noteq> [] then PStr (sd_dataset s) else PNone)]) SECTION_LIBRARY"

definition product_template :: "string \<Rightarrow> string list" where
  "product_template product_type =
     (case map_of PRODUCT_TEMPLATES product_type of Some keys \<Rightarrow> keys
      | None \<Rightarrow> the (map_of PRODUCT_TEMPLATES ''strategic_trend''))"

section \<open>Signal sections\<close>

definition spec_for :: "section_def \<Rightarrow> section_spec" where
  "spec_for sec = spec (sd_kind sec) (sd_signal_field sec) (sd_title sec) (sd_flatten sec)"

definition defs_of :: "string \<Rightarrow> string list \<Rightarrow> section_def list" where
  "defs_of part section_keys = concat (map (\<lambda>key. case section_by_key key of None \<Rightarrow> []
     | Some sec \<Rightarrow> if sd_part sec = part then [sec] else []) section_keys)"

definition signal_counts :: "int \<Rightarrow> string list \<Rightarrow> row list \<Rightarrow> exc + (string \<times> counter) list" where
  "signal_counts d section_keys rows =
     (let defs = defs_of ''signals'' section_keys in
      if defs = [] then Inr []
      else bindE (facts_from_specs d (map spec_for defs) rows) (\<lambda>facts.
        Inr (fold (\<lambda>(sec, section). AList.update (sd_key sec) (fs_counts section)) (zip defs (fact_sections facts)) [])))"

section \<open>Market context\<close>

record dataset_source =
  ds_count :: "string \<Rightarrow> int comp"
  ds_fetch :: "string \<Rightarrow> int \<Rightarrow> pydict list comp"

definition DATASET_TABLES :: "(string \<times> string) list" where
  "DATASET_TABLES = [(''incentives'', ''incentive_programs''), (''festivals'', ''film_festivals''),
     (''distributors'', ''distributors''), (''comparables'', ''comparable_productions'')]"

text \<open>
  \<open>DatasetFetcher\<close>: an error counts as no records, a negative limit is one. A record has the columns of its table, in their order.
\<close>

definition record_of :: "string \<Rightarrow> row \<Rightarrow> pydict" where
  "record_of table r = (case schema_of table of None \<Rightarrow> [] | Some sch \<Rightarrow> map (\<lambda>c. (c, r c)) (table_columns sch))"

definition dataset_count :: "string \<Rightarrow> int comp" where
  "dataset_count dataset =
     (case map_of DATASET_TABLES dataset of
        None \<Rightarrow> ret 0
      | Some table \<Rightarrow>
          tryM (bindM (tq_execute (tq_select_count ''id'' True (tq table))) (\<lambda>res.
            ret (case row_count res of None \<Rightarrow> 0 | Some k \<Rightarrow> int k))) (\<lambda>_. ret 0))"

definition dataset_fetch :: "string \<Rightarrow> int \<Rightarrow> pydict list comp" where
  "dataset_fetch dataset limit =
     (case map_of DATASET_TABLES dataset of
        None \<Rightarrow> ret []
      | Some table \<Rightarrow>
          if limit < 0 then ret []
          else tryM (bindM (fetch (tq_limit (nat limit) (tq_select ''*'' (tq table)))) (\<lambda>rows. ret (map (record_of table) rows)))
            (\<lambda>_. ret []))"

definition dataset_fetcher :: dataset_source where
  "dataset_fetcher = \<lparr>ds_count = dataset_count, ds_fetch = dataset_fetch\<rparr>"

definition DISPLAY_COLUMNS :: "(string \<times> string list) list" where
  "DISPLAY_COLUMNS = [
     (''incentives'', [''territory'', ''program'', ''rate'', ''cap'', ''status'']),
     (''festivals'', [''name'', ''location'', ''submission_deadline'', ''tier'', ''year'']),
     (''distributors'', [''name'', ''primary_market'', ''rights_type'', ''budget_tier_fit'']),
     (''comparables'', [''title'', ''year'', ''primary_territory'', ''budget_usd'', ''incentive_used''])]"

definition HIDDEN_COLUMNS :: "string list" where
  "HIDDEN_COLUMNS = [''id'', ''created_at'', ''updated_at'', ''source_url'', ''filmfreeway_url'']"

definition display_columns :: "string \<Rightarrow> pydict list \<Rightarrow> string list" where
  "display_columns dataset records =
     (case records of [] \<Rightarrow> []
      | r # _ \<Rightarrow>
        (let preferred = filter (has_key r) (case map_of DISPLAY_COLUMNS dataset of Some cols \<Rightarrow> cols | None \<Rightarrow> []) in
         if preferred \<noteq> [] then preferred
         else take 5 (filter (\<lambda>c. c \<notin> set HIDDEN_COLUMNS) (map fst r))))"

definition dataset_cell :: "pyval \<Rightarrow> string" where
  "dataset_cell v =
     (case v of PNone \<Rightarrow> ''-''
      | PList vs \<Rightarrow> or_text (comma_join (map py_str (filter (\<lambda>v. v \<noteq> PNone) vs))) ''-''
      | PDict kvs \<Rightarrow> or_text (comma_join (map (\<lambda>(k, v). k @ '': '' @ py_str v) kvs)) ''-''
      | _ \<Rightarrow> py_str v)"

definition context_section :: "dataset_source \<Rightarrow> int \<Rightarrow> section_def \<Rightarrow> report_section comp" where
  "context_section ds limit sec =
     bindM (ds_fetch ds (sd_dataset sec) limit) (\<lambda>records.
     ret (if records = []
       then Dataset_section (sd_title sec) (''No '' @ sd_dataset sec @ '' records are currently available.'') [] []
       else
        (let columns = display_columns (sd_dataset sec) records in
         Dataset_section (sd_title sec)
          (int_text (int (length records)) @ '' curated '' @ sd_dataset sec
             @ '' record(s). Market context is editorially maintained and volume-independent.'')
          columns (map (\<lambda>r. map (\<lambda>col. (col, dataset_cell (lookup r col))) columns) records))))"

section \<open>Preview\<close>

record preview_section =
  pv_key :: string
  pv_status :: string
  pv_renderable :: bool
  pv_fields :: pydict

record preview =
  pv_signal_count :: int
  pv_overall_met :: bool
  pv_sections :: "preview_section list"

definition preview_signal :: "bool \<Rightarrow> counter \<Rightarrow> section_def \<Rightarrow> preview_section" where
  "preview_signal overall_ok segs sec =
     (let qualifying = length (filter (\<lambda>(label, n). PRIVACY_MIN_SEGMENT \<le> n) segs);
          renderable = (overall_ok \<and> 0 < qualifying) in
      \<lparr>pv_key = sd_key sec, pv_status = (if renderable then ''ok'' else if overall_ok then ''below_threshold'' else ''insufficient_overall''),
       pv_renderable = renderable,
       pv_fields = [(''title'', PStr (sd_title sec)), (''part'', PStr ''signals''),
         (''qualifying_segments'', PInt (int qualifying)), (''suppressed_segments'', PInt (int (length segs) - int qualifying)),
         (''source'', PStr (sd_signal_field sec))]\<rparr>)"

definition preview_key :: "dataset_source \<Rightarrow> bool \<Rightarrow> (string \<times> counter) list \<Rightarrow> pydict \<Rightarrow> string \<Rightarrow> preview_section comp" where
  "preview_key ds overall_ok counts_by_key blocked_keys key =
     (case section_by_key key of
        None \<Rightarrow> ret \<lparr>pv_key = key, pv_status = ''unknown'', pv_renderable = False, pv_fields = []\<rparr>
      | Some sec \<Rightarrow>
          if has_key blocked_keys key
          then ret \<lparr>pv_key = key, pv_status = ''blocked_exclusive'', pv_renderable = False,
                 pv_fields = [(''title'', PStr (sd_title sec)), (''part'', PStr (sd_part sec)), (''exclusivity'', lookup blocked_keys key)]\<rparr>
          else if sd_part sec = ''context''
          then bindM (ds_count ds (sd_dataset sec)) (\<lambda>available.
               ret \<lparr>pv_key = key, pv_status = (if available \<noteq> 0 then ''ok'' else ''empty_dataset''), pv_renderable = available \<noteq> 0,
                 pv_fields = [(''title'', PStr (sd_title sec)), (''part'', PStr ''context''), (''record_count'', PInt available)]\<rparr>)
          else ret (preview_signal overall_ok (case map_of counts_by_key key of Some c \<Rightarrow> c | None \<Rightarrow> []) sec))"

definition preview_package :: "dataset_source \<Rightarrow> string list \<Rightarrow> int \<Rightarrow> int \<Rightarrow> pydict \<Rightarrow> preview comp" where
  "preview_package ds section_keys period_start period_end blocked_keys =
     bindM (load_signals period_start period_end False) (\<lambda>rows.
     let signals = int (length rows); overall_ok = PRIVACY_MIN_OVERALL \<le> signals in
     bindM today (\<lambda>d.
     bindM (liftE (signal_counts d section_keys rows)) (\<lambda>counts_by_key.
     bindM (mapM (preview_key ds overall_ok counts_by_key blocked_keys) section_keys) (\<lambda>sections.
     ret \<lparr>pv_signal_count = signals, pv_overall_met = overall_ok, pv_sections = sections\<rparr>))))"

definition renderable_sections :: "preview \<Rightarrow> nat" where
  "renderable_sections p = length (filter pv_renderable (pv_sections p))"

section \<open>Composition\<close>

record package_request =
  pk_section_keys :: "string list"
  pk_period_start :: int
  pk_period_end :: int
  pk_title :: string
  pk_client_name :: pyval
  pk_dataset_limit :: int

definition known_keys :: "string list \<Rightarrow> string list" where
  "known_keys section_keys = filter (\<lambda>key. section_by_key key \<noteq> None) section_keys"

definition package_extra :: "package_request \<Rightarrow> pydict" where
  "package_extra p = [
     (''client_name'', pk_client_name p),
     (''composed_section_keys'', texts (known_keys (pk_section_keys p))),
     (''unknown_section_keys'', texts (filter (\<lambda>key. section_by_key key = None) (pk_section_keys p)))]"

definition compose_package :: "dataset_source \<Rightarrow> package_request \<Rightarrow> metrics comp" where
  "compose_package ds p =
     (let signal_defs = defs_of ''signals'' (known_keys (pk_section_keys p));
          context_defs = defs_of ''context'' (known_keys (pk_section_keys p)) in
      bindM (if signal_defs = [] then ret [] else load_signals (pk_period_start p) (pk_period_end p) False) (\<lambda>rows.
      bindM today (\<lambda>d.
      bindM (liftE (facts_from_specs d (map spec_for signal_defs) rows)) (\<lambda>facts.
      bindM (facts_to_metrics ''bespoke'' facts (pk_period_start p) (pk_period_end p) (package_extra p) (pk_title p)) (\<lambda>metrics.
      let metrics = (if signal_defs = [] then metrics\<lparr>insufficient_data := False, mt_sections := []\<rparr> else metrics) in
      if insufficient_data metrics then ret metrics
      else bindM (mapM (context_section ds (pk_dataset_limit p)) context_defs) (\<lambda>contexts.
           ret (metrics\<lparr>mt_sections := contexts @ mt_sections metrics\<rparr>)))))))"

end
