(* ===== verification/Storage.thy ===== *)
theory Storage
  imports World
begin

text \<open>
  \<open>app/core/storage.py\<close>: the object store, on S3 when the credentials are set and on local disk
  otherwise. \<open>files\<close> of the world holds an object under its S3 key, or under its path below the
  storage root; \<open>storage_up\<close> says whether S3 or the disk answers. A path is resolved segment by segment
  as \<open>Path.resolve\<close> does without symbolic links; the root itself is taken as resolved. The presigned
  URL is a parameter, and the start-up probe and its log lines are left out.
\<close>

section \<open>Keys\<close>

definition strip_slashes :: "string \<Rightarrow> string" where
  "strip_slashes s = rev (dropWhile (\<lambda>c. c = CHR ''/'') (rev (dropWhile (\<lambda>c. c = CHR ''/'') s)))"

fun slash_join :: "string list \<Rightarrow> string" where
  "slash_join [] = []"
| "slash_join [s] = s"
| "slash_join (s # t # ss) = s @ ''/'' @ slash_join (t # ss)"

definition s3_key :: "string \<Rightarrow> string \<Rightarrow> string \<Rightarrow> string" where
  "s3_key prefix bucket path = slash_join (filter (\<lambda>p. p \<noteq> []) [prefix, bucket, strip_slashes path])"

text \<open>Segments of a path under a root: \<open>.\<close> and empty ones vanish, \<open>..\<close> goes up.\<close>

fun resolve :: "string list \<Rightarrow> string list \<Rightarrow> string list" where
  "resolve here [] = here"
| "resolve here (s # ss) =
     (if s = [] \<or> s = ''.'' then resolve here ss
      else if s = ''..'' then resolve (butlast here) ss
      else resolve (here @ [s]) ss)"

definition safe_path :: "string list \<Rightarrow> string \<Rightarrow> exc + string list" where
  "safe_path folder path =
     (let candidate = (if take 1 path = ''/'' then resolve [] (split_on (CHR ''/'') path)
                       else resolve folder (split_on (CHR ''/'') path)) in
      if take (length folder) candidate = folder then Inr candidate else Inl (ValueError ''Invalid storage path''))"

section \<open>The two buckets\<close>

definition uses_s3 :: "settings \<Rightarrow> bool" where
  "uses_s3 st \<longleftrightarrow> AWS_S3_BUCKET_NAME st \<noteq> [] \<and> AWS_ACCESS_KEY_ID st \<noteq> [] \<and> AWS_SECRET_ACCESS_KEY st \<noteq> []"

definition backend_name :: "settings \<Rightarrow> string" where
  "backend_name st = (if uses_s3 st then ''s3'' else ''local'')"

definition bucket_root :: "settings \<Rightarrow> string \<Rightarrow> string list" where
  "bucket_root st bucket = [STORAGE_ROOT st, bucket]"

definition storage_location :: "settings \<Rightarrow> string \<Rightarrow> string \<Rightarrow> exc + string" where
  "storage_location st bucket path =
     (if uses_s3 st then Inr (s3_key (AWS_S3_REPORTS_PREFIX st) bucket path)
      else bindE (safe_path (bucket_root st bucket) path) (\<lambda>p. Inr (slash_join p)))"

definition storage_upload :: "settings \<Rightarrow> string \<Rightarrow> string \<Rightarrow> string \<Rightarrow> unit comp" where
  "storage_upload st bucket path payload =
     bindM (liftE (storage_location st bucket path)) (\<lambda>key w.
     if storage_up w then (Inr (), w\<lparr>files := (files w)(key := Some payload)\<rparr>)
     else (Inl (StorageError key), w))"

definition read_file :: "string \<Rightarrow> string comp" where
  "read_file key w =
     (if \<not> storage_up w then (Inl (StorageError key), w)
      else case files w key of Some payload \<Rightarrow> (Inr payload, w) | None \<Rightarrow> (Inl (StorageError key), w))"

definition storage_download :: "settings \<Rightarrow> string \<Rightarrow> string \<Rightarrow> string comp" where
  "storage_download st bucket path = bindM (liftE (storage_location st bucket path)) read_file"

text \<open>A key read back from the database is complete on S3 and a path below the root on disk.\<close>

definition download_key :: "settings \<Rightarrow> string \<Rightarrow> string \<Rightarrow> string comp" where
  "download_key st bucket key = (if uses_s3 st then read_file key else storage_download st bucket key)"

definition get_s3_key :: "settings \<Rightarrow> string \<Rightarrow> string \<Rightarrow> string" where
  "get_s3_key st bucket path =
     (if uses_s3 st then s3_key (AWS_S3_REPORTS_PREFIX st) bucket path else strip_slashes path)"

definition get_public_url :: "(string \<Rightarrow> string) \<Rightarrow> settings \<Rightarrow> string \<Rightarrow> string \<Rightarrow> string" where
  "get_public_url presigned st bucket path =
     (if uses_s3 st then presigned (s3_key (AWS_S3_REPORTS_PREFIX st) bucket path)
      else BACKEND_URL st @ ''/api/storage/'' @ bucket @ ''/'' @ strip_slashes path)"

definition get_file_size :: "settings \<Rightarrow> string \<Rightarrow> string \<Rightarrow> int option comp" where
  "get_file_size st bucket path =
     (if uses_s3 st
      then tryM (bindM (read_file (s3_key (AWS_S3_REPORTS_PREFIX st) bucket path)) (\<lambda>payload. ret (Some (int (length payload)))))
             (\<lambda>_. ret None)
      else bindM (liftE (storage_location st bucket path)) (\<lambda>key w.
        if \<not> storage_up w then (Inl (StorageError key), w)
        else (Inr (map_option (\<lambda>payload. int (length payload)) (files w key)), w)))"

section \<open>Facts\<close>

lemma uploaded_is_read_back:
  assumes "storage_upload st bucket path payload w = (Inr (), w')"
  shows "storage_download st bucket path w' = (Inr payload, w')"
  using assms
  by (auto simp: storage_upload_def storage_download_def read_file_def world_simps split: sum.splits if_splits)

lemma local_paths_stay_inside:
  "safe_path folder path = Inr p \<Longrightarrow> take (length folder) p = folder"
  by (auto simp: safe_path_def Let_def split: if_splits)

lemma keeps_storage [keeps_intros, intro!]:
  "keeps (tables_inv P) (storage_upload st bucket path payload)" "keeps (tables_inv P) (storage_download st bucket path)"
  by (auto simp: keeps_def storage_upload_def storage_download_def read_file_def world_simps tables_inv_def
      split: sum.splits option.splits)

end
