(* ===== verification/Intelligence_Requests.thy ===== *)
theory Intelligence_Requests
  imports Packages Entitlements Storage
begin

text \<open>
  Requests for an intelligence report in \<open>app/modules/b2b/service.py\<close>: the entitlement test, the row,
  its processing to a stored PDF, a hold or a failure, and the delivery by mail. The markup of the report and the PDF writer are parameters (\<open>render_pdf_html\<close> over the
  metrics dict, \<open>generate_pdf_bytes\<close>), so every statement about a request holds for any of them. A service is the record of its settings and these two. Log lines are left out.
\<close>

section \<open>The service\<close>

record intelligence_service =
  is_settings :: settings
  render_pdf_html :: "pydict \<Rightarrow> exc + string"
  generate_pdf_bytes :: "string \<Rightarrow> string option"

abbreviation REQUESTS :: string where
  "REQUESTS \<equiv> ''b2b_intelligence_requests''"

definition business_url :: "intelligence_service \<Rightarrow> pyval" where
  "business_url sv = PStr (rstrip_slash (FRONTEND_URL (is_settings sv)) @ ''/business-intelligence'')"

section \<open>What a client may ask for\<close>

record request_scope =
  sc_product_type :: string
  sc_section_keys :: "string list"
  sc_allowed :: "pyval list"
  sc_withheld :: "pyval list"
  sc_can_request :: bool

definition withheld_entry :: "pyval \<Rightarrow> pyval" where
  "withheld_entry c = PDict [
     (''section_key'', dget c ''section_key''),
     (''section_title'', case section_by_key (text_of (dget c ''section_key'')) of
        Some sec \<Rightarrow> PStr (sd_title sec) | None \<Rightarrow> dget c ''section_key''),
     (''module_label'', py_or (dget c ''module_label'') (dget c ''module_key'')),
     (''available_from'', dget c ''reverts_at'')]"

definition request_entitlement :: "string \<Rightarrow> pyval \<Rightarrow> request_scope comp" where
  "request_entitlement product_type subscription_id =
     (let keys = product_template product_type in
      bindM (conflicts_for subscription_id (map PStr keys) None) (\<lambda>withheld.
      bindM (allowed_section_keys subscription_id (map PStr keys) None) (\<lambda>allowed.
      ret \<lparr>sc_product_type = product_type, sc_section_keys = keys, sc_allowed = allowed,
           sc_withheld = map withheld_entry withheld, sc_can_request = (allowed \<noteq> [])\<rparr>)))"

definition assert_request_within_entitlement :: "string \<Rightarrow> pyval \<Rightarrow> unit comp" where
  "assert_request_within_entitlement product_type subscription_id =
     bindM (request_entitlement product_type subscription_id) (\<lambda>scope.
     if sc_can_request scope then ret () else throw (EntitlementScope (sc_withheld scope)))"

section \<open>Creating a request\<close>

record request_form =
  rf_user_id :: pyval
  rf_user_email :: string
  rf_product_type :: string
  rf_period_start :: int
  rf_period_end :: int
  rf_extra_recipient :: pyval
  rf_request_type :: string

definition request_cells :: "pyval \<Rightarrow> request_form \<Rightarrow> pyval \<Rightarrow> int \<Rightarrow> pydict" where
  "request_cells i f subscription_id now = [
     (''id'', i),
     (''user_id'', rf_user_id f),
     (''b2b_subscription_id'', subscription_id),
     (''product_type'', PStr (rf_product_type f)),
     (''status'', PStr ''processing''),
     (''request_type'', PStr (rf_request_type f)),
     (''period_start'', PDate (rf_period_start f)),
     (''period_end'', PDate (rf_period_end f)),
     (''recipient_email'', PStr (lower (strip (rf_user_email f)))),
     (''extra_recipient_email'', clean_email (rf_extra_recipient f)),
     (''created_at'', PTime now),
     (''updated_at'', PTime now)]"

definition create_intelligence_request :: "request_form \<Rightarrow> row option \<Rightarrow> row comp" where
  "create_intelligence_request f subscription =
     bindM (case subscription of Some s \<Rightarrow> ret (Some s)
            | None \<Rightarrow> active_subscription (rf_user_id f) (PStr (rf_product_type f))) (\<lambda>subscription.
     case subscription of
       None \<Rightarrow> throw PermissionError
     | Some s \<Rightarrow>
       thenM (assert_request_within_entitlement (rf_product_type f) (s ''id''))
       (bindM uuid4 (\<lambda>i.
        bindM (gets clock) (\<lambda>now.
        let r = request_cells i f (s ''id'') now in
        bindM (fetch (tq_insert r (tq REQUESTS))) (\<lambda>rows. ret (first_or r rows))))))"

section \<open>Reading\<close>

definition add_download_url :: "row \<Rightarrow> row" where
  "add_download_url r =
     r(''download_url'' := (if truthy (r ''pdf_url'') \<and> r ''status'' = PStr ''completed''
        then PStr (''/api/b2b/requests/'' @ text_of (r ''id'') @ ''/pdf'') else PNone))"

definition without_metrics :: "bool \<Rightarrow> row \<Rightarrow> row" where
  "without_metrics include_metrics r = (if include_metrics then r else r(''metrics'' := PNone))"

definition get_request :: "pyval \<Rightarrow> pyval \<Rightarrow> bool \<Rightarrow> row option comp" where
  "get_request request_id user_id include_metrics =
     (let query = tq_eq ''id'' request_id (tq_select ''*'' (tq REQUESTS)) in
      bindM (fetch (tq_limit 1 (if truthy user_id then tq_eq ''user_id'' user_id query else query))) (\<lambda>rows.
      ret (map_option (\<lambda>r. add_download_url (without_metrics include_metrics r)) (first_row rows))))"

definition list_requests :: "pyval \<Rightarrow> int \<Rightarrow> int \<Rightarrow> bool \<Rightarrow> (row list \<times> int) comp" where
  "list_requests user_id limit offset include_metrics =
     (let query = tq_select_count ''*'' False (tq REQUESTS);
          query = (if truthy user_id then tq_eq ''user_id'' user_id query else query) in
      bindM (tq_execute (tq_range offset (offset + limit - 1) (tq_order ''created_at'' True query))) (\<lambda>res.
      let rows = rows_of res;
          n = (case row_count res of Some k \<Rightarrow> int k | None \<Rightarrow> 0) in
      ret (map (\<lambda>r. add_download_url (without_metrics include_metrics r)) rows,
           if n \<noteq> 0 then n else int (length rows))))"

definition storage_path :: "row \<Rightarrow> string" where
  "storage_path r = ''b2b/'' @ text_of (r ''user_id'') @ ''/'' @ text_of (r ''id'') @ ''.pdf''"

definition download_request_pdf :: "intelligence_service \<Rightarrow> row \<Rightarrow> string comp" where
  "download_request_pdf sv r = storage_download (is_settings sv) ''reports'' (storage_path r)"

section \<open>Alerts and notices\<close>

definition ALERT_BI_GENERATION :: string where
  "ALERT_BI_GENERATION = ''bi_generation''"

definition ALERT_BI_HELD :: string where
  "ALERT_BI_HELD = ''bi_held''"

definition bi_recipient :: "settings \<Rightarrow> string" where
  "bi_recipient st = strip
     (if ADMIN_ALERT_EMAIL st \<noteq> [] then ADMIN_ALERT_EMAIL st
      else if B2B_ADMIN_ALERT_EMAIL st \<noteq> [] then B2B_ADMIN_ALERT_EMAIL st
      else CONTACT_EMAIL st)"

definition notify_admin_alert :: "intelligence_service \<Rightarrow> string \<Rightarrow> pydict \<Rightarrow> string \<Rightarrow> unit comp" where
  "notify_admin_alert sv heading details category =
     (let recipient = bi_recipient (is_settings sv) in
      if recipient = [] then ret ()
      else bindM (send_alert_to recipient ''b2b_admin_alert''
             \<lparr>a_category = category, a_heading = heading, a_details = details, a_key = [], a_window = None, a_severity = ''error''\<rparr>
             (Some (is_settings sv))) (\<lambda>_. ret ()))"

definition period_text :: "row \<Rightarrow> pyval" where
  "period_text r = PStr (py_str (r ''period_start'') @ '' to '' @ py_str (r ''period_end''))"

definition metrics_title :: "row \<Rightarrow> pydict \<Rightarrow> pyval comp" where
  "metrics_title r m =
     (if truthy (lookup m ''title'') then ret (lookup m ''title'')
      else bindM (b2b_product (r ''product_type'')) (\<lambda>product. ret (lookup product ''title'')))"

definition recipients_raw :: "row \<Rightarrow> pyval list" where
  "recipients_raw r = [r ''recipient_email'', clean_email (r ''extra_recipient_email'')]"

definition notify_request_held :: "intelligence_service \<Rightarrow> row \<Rightarrow> metrics \<Rightarrow> unit comp" where
  "notify_request_held sv r m =
     bindM (metrics_title r (metrics_dict m)) (\<lambda>name.
     forM (filter truthy (recipients_raw r)) (\<lambda>email.
       tryM (email_send (is_settings sv) (text_of email) ''b2b_intelligence_held'' [
         (''product_title'', name), (''period_start'', r ''period_start''), (''period_end'', r ''period_end''),
         (''request_id'', r ''id''), (''reason'', r ''error_message''), (''signal_count'', PInt (source_signal_count m)),
         (''minimum_signals'', PInt PRIVACY_MIN_OVERALL), (''b2b_url'', business_url sv)]) (\<lambda>_. ret ())))"

definition hold_reason :: "metrics \<Rightarrow> string" where
  "hold_reason m = ''On hold: '' @ int_text (source_signal_count m)
     @ '' consented production signal(s) in this period, below the '' @ int_text PRIVACY_MIN_OVERALL @ '' required to protect privacy.''"

definition hold_cells :: "metrics \<Rightarrow> pydict" where
  "hold_cells m = [(''status'', PStr ''held''), (''metrics'', PDict (metrics_dict m)), (''error_message'', PStr (hold_reason m))]"

definition hold_request :: "intelligence_service \<Rightarrow> row \<Rightarrow> metrics \<Rightarrow> unit comp" where
  "hold_request sv r m =
     bindM utcnow (\<lambda>held_at.
     thenM (run (tq_eq ''id'' (r ''id'') (tq_update (hold_cells m @ [(''updated_at'', held_at)]) (tq REQUESTS))))
     (let r = set_cells (hold_cells m) r in
      thenM (notify_request_held sv r m)
      (notify_admin_alert sv ''A scheduled Business Intelligence report was held'' [
         (''Request ID'', r ''id''), (''Product'', r ''product_type''), (''Period'', period_text r),
         (''Signals'', PStr (int_text (source_signal_count m) @ '' (need '' @ int_text PRIVACY_MIN_OVERALL @ '')''))]
         ALERT_BI_HELD)))"

section \<open>Delivery\<close>

text \<open>Base 64 of a text of bytes.\<close>

definition base64_char :: "nat \<Rightarrow> char" where
  "base64_char n = ''ABCDEFGHIJKLMNOPQRSTUVWXYZabcdefghijklmnopqrstuvwxyz0123456789+/'' ! n"

fun base64_text :: "string \<Rightarrow> string" where
  "base64_text [] = []"
| "base64_text [a] = (let x = of_char a :: nat in [base64_char (x div 4), base64_char (x mod 4 * 16), CHR ''='', CHR ''=''])"
| "base64_text [a, b] = (let x = of_char a :: nat; y = of_char b :: nat in
     [base64_char (x div 4), base64_char (x mod 4 * 16 + y div 16), base64_char (y mod 16 * 4), CHR ''=''])"
| "base64_text (a # b # c # cs) = (let x = of_char a :: nat; y = of_char b :: nat; z = of_char c :: nat in
     [base64_char (x div 4), base64_char (x mod 4 * 16 + y div 16), base64_char (y mod 16 * 4 + z div 64), base64_char (z mod 64)]
     @ base64_text cs)"

fun unique_recipients :: "pyval list \<Rightarrow> string list \<Rightarrow> string list" where
  "unique_recipients [] seen = []"
| "unique_recipients (email # emails) seen =
     (if \<not> truthy email \<or> lower (text_of email) \<in> set seen then unique_recipients emails seen
      else text_of email # unique_recipients emails (lower (text_of email) # seen))"

definition recipients_for :: "row \<Rightarrow> string list" where
  "recipients_for r = unique_recipients (recipients_raw r) []"

definition rendered_pdf :: "intelligence_service \<Rightarrow> pydict \<Rightarrow> exc + string option" where
  "rendered_pdf sv m = bindE (render_pdf_html sv m) (\<lambda>html. Inr (generate_pdf_bytes sv html))"

definition watermarked_pdf :: "intelligence_service \<Rightarrow> pydict \<Rightarrow> string \<Rightarrow> exc + string option" where
  "watermarked_pdf sv m recipient = rendered_pdf sv (dict_merge m [(''watermark_recipient'', PStr recipient)])"

definition personal_copy :: "intelligence_service \<Rightarrow> pydict \<Rightarrow> string \<Rightarrow> string option" where
  "personal_copy sv m email =
     (if m = [] then None else (case watermarked_pdf sv m email of Inl _ \<Rightarrow> None | Inr pdf \<Rightarrow> pdf))"

definition attachment_name :: "row \<Rightarrow> string" where
  "attachment_name r = text_of (r ''product_type'') @ ''-'' @ py_str (r ''period_start'') @ ''-'' @ py_str (r ''period_end'') @ ''.pdf''"

fun deliver_each :: "intelligence_service \<Rightarrow> row \<Rightarrow> pydict \<Rightarrow> string list \<Rightarrow> string option \<Rightarrow> unit comp" where
  "deliver_each sv r m [] fallback = ret ()"
| "deliver_each sv r m (email # emails) fallback =
     bindM (case personal_copy sv m email of
              Some pdf \<Rightarrow> ret (pdf, fallback)
            | None \<Rightarrow> (case fallback of Some pdf \<Rightarrow> ret (pdf, fallback)
                | None \<Rightarrow> bindM (download_request_pdf sv r) (\<lambda>pdf. ret (pdf, Some pdf)))) (\<lambda>(pdf, fallback).
     bindM (metrics_title r m) (\<lambda>name.
     thenM (email_send_with (is_settings sv) email ''b2b_intelligence_ready'' [
         (''product_title'', name), (''period_start'', r ''period_start''), (''period_end'', r ''period_end''),
         (''request_id'', r ''id''), (''b2b_url'', business_url sv)] [(attachment_name r, base64_text pdf)])
     (deliver_each sv r m emails fallback)))"

definition deliver_request_pdf :: "intelligence_service \<Rightarrow> row \<Rightarrow> string option \<Rightarrow> string list comp" where
  "deliver_request_pdf sv r pdf =
     thenM (deliver_each sv r (dict_of (r ''metrics'')) (recipients_for r) pdf)
     (bindM utcnow (\<lambda>now.
      thenM (run (tq_eq ''id'' (r ''id'') (tq_update [(''delivered_at'', now), (''updated_at'', now)] (tq REQUESTS))))
      (ret (recipients_for r))))"

section \<open>Processing a request\<close>

definition completed_cells :: "metrics \<Rightarrow> string \<Rightarrow> pyval \<Rightarrow> pydict" where
  "completed_cells m pdf_url completed_at = [
     (''status'', PStr ''completed''), (''metrics'', PDict (metrics_dict m)), (''pdf_url'', PStr pdf_url),
     (''completed_at'', completed_at), (''updated_at'', completed_at)]"

definition publish :: "intelligence_service \<Rightarrow> row \<Rightarrow> metrics \<Rightarrow> (row \<times> string) comp" where
  "publish sv r m =
     bindM (liftE (rendered_pdf sv (metrics_dict m))) (\<lambda>pdf.
     case pdf of
       None \<Rightarrow> throw (RuntimeError ''PDF generation temporarily unavailable'')
     | Some bytes \<Rightarrow>
       if bytes = [] then throw (RuntimeError ''PDF generation temporarily unavailable'')
       else
        thenM (storage_upload (is_settings sv) ''reports'' (storage_path r) bytes)
        (bindM utcnow (\<lambda>completed_at.
         let update = completed_cells m (get_s3_key (is_settings sv) ''reports'' (storage_path r)) completed_at in
         thenM (run (tq_eq ''id'' (r ''id'') (tq_update update (tq REQUESTS))))
         (ret (set_cells update r, bytes)))))"

definition str_of_exc :: "exc \<Rightarrow> string" where
  "str_of_exc e = (case e of ValueError s \<Rightarrow> s | TypeError s \<Rightarrow> s | RuntimeError s \<Rightarrow> s | StorageError s \<Rightarrow> s
     | KeyError s \<Rightarrow> repr_text s | _ \<Rightarrow> [])"

definition mark_failed :: "pyval \<Rightarrow> exc \<Rightarrow> unit comp" where
  "mark_failed request_id e =
     bindM utcnow (\<lambda>now. run (tq_eq ''id'' request_id (tq_update [
       (''status'', PStr ''failed''), (''error_message'', PStr (str_of_exc e)), (''updated_at'', now)] (tq REQUESTS))))"

definition process_found :: "intelligence_service \<Rightarrow> row \<Rightarrow> unit comp" where
  "process_found sv r =
     bindM today (\<lambda>d.
     bindM (liftE (parse_day d (r ''period_start''))) (\<lambda>period_start.
     bindM (liftE (parse_day d (r ''period_end''))) (\<lambda>period_end.
     bindM (build_period_metrics (text_of (r ''product_type'')) period_start period_end True) (\<lambda>m.
     if insufficient_data m then hold_request sv r m
     else bindM (publish sv r m) (\<lambda>(r, bytes).
          bindM (deliver_request_pdf sv r (Some bytes)) (\<lambda>_. ret ()))))))"

definition process_request :: "intelligence_service \<Rightarrow> pyval \<Rightarrow> unit comp" where
  "process_request sv request_id =
     bindM (get_request request_id PNone True) (\<lambda>found.
     case found of
       None \<Rightarrow> ret ()
     | Some r \<Rightarrow>
       tryM (process_found sv r) (\<lambda>e.
         thenM (mark_failed request_id e)
         (notify_admin_alert sv ''A Business Intelligence report failed to generate'' [
            (''Request ID'', request_id), (''Product'', r ''product_type''), (''Period'', period_text r),
            (''Error'', PStr (take 300 (str_of_exc e)))] ALERT_BI_GENERATION)))"

section \<open>Bespoke packages\<close>

definition bespoke_form :: "pyval \<Rightarrow> string \<Rightarrow> int \<Rightarrow> int \<Rightarrow> pyval \<Rightarrow> pyval \<Rightarrow> pyval \<Rightarrow> int \<Rightarrow> pydict" where
  "bespoke_form user_id recipient_email period_start period_end subscription_id extra i now = [
     (''id'', i),
     (''user_id'', user_id),
     (''b2b_subscription_id'', subscription_id),
     (''product_type'', PStr ''enterprise''),
     (''status'', PStr ''processing''),
     (''request_type'', PStr ''admin''),
     (''period_start'', PDate period_start),
     (''period_end'', PDate period_end),
     (''recipient_email'', PStr recipient_email),
     (''extra_recipient_email'', clean_email extra),
     (''created_at'', PTime now),
     (''updated_at'', PTime now)]"

definition generate_bespoke_report ::
  "intelligence_service \<Rightarrow> metrics \<Rightarrow> pyval \<Rightarrow> string \<Rightarrow> int \<Rightarrow> int \<Rightarrow> pyval \<Rightarrow> pyval \<Rightarrow> bool \<Rightarrow> row comp" where
  "generate_bespoke_report sv m user_id recipient_email period_start period_end subscription_id extra deliver =
     (if insufficient_data m
      then throw (ValueError ''The composed package does not clear the privacy floor for this period.'')
      else
       bindM uuid4 (\<lambda>request_id.
       bindM (gets clock) (\<lambda>now.
       let row = bespoke_form user_id recipient_email period_start period_end subscription_id extra request_id now in
       bindM (fetch (tq_insert row (tq REQUESTS))) (\<lambda>rows.
       let r = first_or row rows in
       tryM
        (bindM (publish sv r m) (\<lambda>(r, bytes).
         if deliver then bindM (deliver_request_pdf sv r (Some bytes)) (\<lambda>_. ret r) else ret r))
        (\<lambda>e. thenM (mark_failed request_id e) (throw e))))))"

end
