(* ===== verification/Deliveries.thy ===== *)
theory Deliveries
  imports Intelligence_Requests
begin

text \<open>
  The scheduled task \<open>run_due_b2b_auto_deliveries\<close> of \<open>app/modules/b2b/service.py\<close>: every active
  subscription whose delivery is due gets a request for the months just completed, and its next
  delivery is moved past the present. An error of one subscription ends the task, as in the code.
\<close>

section \<open>Adding months moves forward\<close>

text \<open>Months counted from year 0, and their first day.\<close>

definition month_number :: "int \<Rightarrow> int" where
  "month_number d = (case ymd_of d of (y, m, k) \<Rightarrow> 12 * y + m - 1)"

definition month_first :: "int \<Rightarrow> int" where
  "month_first n = date_of (n div 12) (n mod 12 + 1) 1"

lemma month_first_split: "0 \<le> r \<Longrightarrow> r < 12 \<Longrightarrow> month_first (12 * q + r) = date_of q (r + 1) 1"
  by (simp add: month_first_def divide_digits [of _ 12 q r])

lemma month_first_next: "month_first n < month_first (n + 1)"
proof -
  define q r where "q = n div 12" and "r = n mod 12"
  then have n: "n = 12 * q + r" and r: "0 \<le> r" "r < 12" by simp_all
  have following: "month_first (n + 1) = date_of q (r + 1) 1 + days_in_month q (r + 1)"
  proof (cases "r = 11")
    case True
    then have "n + 1 = 12 * (q + 1) + 0" using n by simp
    moreover have "date_of (q + 1) 1 1 = date_of q 12 1 + days_in_month q 12"
      by (rule date_of_next_month) (simp_all add: next_month_def)
    ultimately show ?thesis using month_first_split [of 0 "q + 1"] True by (simp add: add.commute)
  next
    case False
    have "n + 1 = 12 * q + (r + 1)" using n by simp
    moreover have "date_of q (r + 1 + 1) 1 = date_of q (r + 1) 1 + days_in_month q (r + 1)"
      by (rule date_of_next_month) (use r False in \<open>simp_all add: next_month_def\<close>)
    ultimately show ?thesis using month_first_split [of "r + 1" q] r False by (simp add: add.assoc)
  qed
  show ?thesis
    using month_first_split [OF r, of q] following days_in_month_pos(1) [of q "r + 1"] by (simp add: n)
qed

lemma month_first_mono: "a < b \<Longrightarrow> month_first a < month_first b"
proof (induction "nat (b - a)" arbitrary: b)
  case (Suc k)
  show ?case
  proof (cases "b = a + 1")
    case False
    then have "k = nat (b - 1 - a)" "a < b - 1" using Suc by linarith+
    then have "month_first a < month_first (b - 1)" using Suc.hyps(1) by blast
    then show ?thesis using month_first_next [of "b - 1"] by simp
  qed (simp add: month_first_next)
qed simp

lemma month_start_first: "month_start d = month_first (month_number d)"
proof -
  obtain y m k where a: "ymd_of d = (y, m, k)" by (metis prod_cases3)
  then have "1 \<le> m" "m \<le> 12" using date_of_ymd_of(2) [OF a] by (auto simp: valid_ymd_def)
  then have "(12 * y + m - 1) div 12 = y" "(12 * y + m - 1) mod 12 + 1 = m" by presburger+
  then show ?thesis using ymd_month_start [OF a] a by (simp add: month_number_def month_first_def)
qed

lemma before_next_first: "d < month_first (month_number d + 1)"
proof -
  obtain y m k where a: "ymd_of d = (y, m, k)" by (metis prod_cases3)
  obtain y' m' where n: "next_month y m = (y', m')" by fastforce
  have v: "1 \<le> m" "m \<le> 12" using date_of_ymd_of(2) [OF a] by (auto simp: valid_ymd_def)
  have "(12 * y + m) div 12 = y' \<and> (12 * y + m) mod 12 + 1 = m'"
  proof (cases "m = 12")
    case False
    then have "(12 * y + m) div 12 = y" "(12 * y + m) mod 12 = m" using v by presburger+
    then show ?thesis using False n by (simp add: next_month_def)
  qed (use n in \<open>auto simp: next_month_def\<close>)
  then have "month_first (month_number d + 1) = date_of y' m' 1"
    using a by (simp add: month_number_def month_first_def)
  then show ?thesis using shift_one [OF a n] shift_one_less [of d] by simp
qed

lemma month_number_date: "valid_ymd y m k \<Longrightarrow> month_number (date_of y m k) = 12 * y + m - 1"
  by (simp add: month_number_def ymd_of_date_of)

lemma add_months_month: "month_number (date_part (add_months t n)) = month_number (date_part t) + n"
proof -
  obtain y m k where a: "ymd_of (date_part t) = (y, m, k)" by (metis prod_cases3)
  let ?i = "m - 1 + n"
  let ?y = "y + ?i div 12" and ?m = "?i mod 12 + 1"
  have "1 \<le> k" using date_of_ymd_of(2) [OF a] by (auto simp: valid_ymd_def)
  then have v: "valid_ymd ?y ?m (min k (days_in_month ?y ?m))" by (auto simp: valid_ymd_def min_def)
  have "date_part (add_months t n) = date_of ?y ?m (min k (days_in_month ?y ?m))"
    by (simp add: add_months_def a Let_def)
  moreover have "12 * ?y + ?m - 1 = 12 * y + m - 1 + n" by presburger
  ultimately show ?thesis using month_number_date [OF v] a by (simp add: month_number_def)
qed

lemma month_first_le: "month_first (month_number d) \<le> d"
  using month_start_le [of d] by (simp add: month_start_first)

lemma before_day: "date_part a < date_part b \<Longrightarrow> a < b"
  using zdiv_mono1 [of b a day_us] by (rule_tac ccontr) (auto simp: date_part_def day_us_def)

lemma add_months_later:
  assumes "0 < n"
  shows "t < add_months t n"
proof -
  let ?a = "month_number (date_part t)"
  have "date_part t < month_first (?a + 1)" by (rule before_next_first)
  also have "\<dots> \<le> month_first (?a + n)" using month_first_mono [of "?a + 1" "?a + n"] assms by (cases "n = 1") auto
  also have "\<dots> \<le> date_part (add_months t n)" using month_first_le [of "date_part (add_months t n)"] by (simp add: add_months_month)
  finally show ?thesis by (rule before_day)
qed

lemma interval_positive: "0 < interval_months f"
  by (simp add: interval_months_def)

section \<open>The next delivery\<close>

definition due_instant :: "pyval \<Rightarrow> exc + int" where
  "due_instant v =
     (case v of PTime t \<Rightarrow> Inr t
      | _ \<Rightarrow> (let s = py_str v in
          if length s = 10 \<and> iso_at s
          then (case iso_date s of Some d \<Rightarrow> Inr (days_us d) | None \<Rightarrow> Inl (ValueError s))
          else Inl (ValueError s)))"

text \<open>\<open>while next_delivery_at <= now\<close>.\<close>

function catch_up :: "pyval \<Rightarrow> int \<Rightarrow> int \<Rightarrow> int" where
  "catch_up frequency now t =
     (if t \<le> now then catch_up frequency now (add_months t (interval_months frequency)) else t)"
  by auto
termination
  by (relation "measure (\<lambda>(frequency, now, t). nat (now + 1 - t))")
     (use add_months_later [OF interval_positive] in \<open>auto simp: nat_mono_iff\<close>)

declare catch_up.simps [simp del]

definition next_delivery :: "pyval \<Rightarrow> int \<Rightarrow> int \<Rightarrow> int" where
  "next_delivery frequency now due_at = catch_up frequency now (add_months due_at (interval_months frequency))"

definition frequency_of :: "row \<Rightarrow> pyval" where
  "frequency_of s = py_or (s ''delivery_frequency'') (PStr ''monthly'')"

definition due_form :: "row \<Rightarrow> row \<Rightarrow> int \<Rightarrow> request_form" where
  "due_form s user due_at =
     \<lparr>rf_user_id = s ''user_id'', rf_user_email = text_of (user ''email''), rf_product_type = text_of (s ''product_type''),
      rf_period_start = month_start (date_part (add_months due_at (- interval_months (frequency_of s)))),
      rf_period_end = month_end (date_part (add_months due_at (- 1))),
      rf_extra_recipient = s ''extra_recipient_email'', rf_request_type = ''auto''\<rparr>"

definition deliver_due :: "intelligence_service \<Rightarrow> int \<Rightarrow> row \<Rightarrow> row \<Rightarrow> int \<Rightarrow> unit comp" where
  "deliver_due sv now s user due_at =
     bindM (create_intelligence_request (due_form s user due_at) (Some s)) (\<lambda>request.
     thenM (process_request sv (request ''id''))
     (run (tq_eq ''id'' (s ''id'') (tq_update [
        (''next_delivery_at'', PTime (next_delivery (frequency_of s) now due_at)),
        (''updated_at'', PTime now)] (tq ''b2b_subscriptions'')))))"

definition deliver_subscription :: "intelligence_service \<Rightarrow> int \<Rightarrow> row \<Rightarrow> bool comp" where
  "deliver_subscription sv now s =
     (if \<not> truthy (s ''next_delivery_at'') then ret False
      else
       bindM (liftE (due_instant (s ''next_delivery_at''))) (\<lambda>due_at.
       if now < due_at then ret False
       else
        bindM (b2b_get_user (s ''user_id'')) (\<lambda>user.
        case user of
          None \<Rightarrow> ret False
        | Some u \<Rightarrow>
          if \<not> truthy (u ''email'') then ret False
          else thenM (deliver_due sv now s u due_at) (ret True))))"

fun deliver_all :: "intelligence_service \<Rightarrow> int \<Rightarrow> row list \<Rightarrow> int \<Rightarrow> int comp" where
  "deliver_all sv now [] generated = ret generated"
| "deliver_all sv now (s # ss) generated =
     bindM (deliver_subscription sv now s) (\<lambda>done_one. deliver_all sv now ss (if done_one then generated + 1 else generated))"

definition run_due_b2b_auto_deliveries :: "intelligence_service \<Rightarrow> int comp" where
  "run_due_b2b_auto_deliveries sv =
     bindM (gets clock) (\<lambda>now.
     bindM (fetch (tq_eq ''status'' (PStr ''active'') (tq_select ''*'' (tq ''b2b_subscriptions'')))) (\<lambda>rows.
     deliver_all sv now rows 0))"

section \<open>What the loop returns\<close>

lemma catch_up_after: "now < catch_up frequency now t"
proof (induction frequency now t rule: catch_up.induct)
  case (1 frequency now t)
  then show ?case by (cases "t \<le> now") (subst catch_up.simps, simp)+
qed

end
