(* ===== verification/Request_Frames.thy ===== *)
theory Request_Frames
  imports Deliveries
begin

text \<open>
  What the operations on intelligence requests leave alone. \<open>mailing_frame\<close> extends the frame of
  effects by reads of the object store, \<open>intelligence_frame\<close> by its writes and by writes to the stored months; under it the metrics of a period, the
  notices and the mails keep an invariant. \<open>request_frame\<close> allows writes to the requests as well, and
  covers processing as a whole. The interpretations are the health of the connection, the clock, the
  environment, and the tables that are not written.
\<close>

section \<open>Invariants across a report\<close>

locale mailing_frame = effect_frame I allowed for I allowed +
  assumes frame_download: "keeps I (storage_download st bucket path)"
begin

lemma frame_product [intro!]: "keeps I (b2b_product v)"
  unfolding b2b_product_def by (auto split: option.split)

lemma frame_metrics_title [intro!]: "keeps I (metrics_title r m)"
  unfolding metrics_title_def by auto

lemma frame_deliver_each [intro!]: "keeps I (deliver_each sv r m emails fallback)"
  by (induction sv r m emails fallback rule: deliver_each.induct)
    (auto simp: download_request_pdf_def intro!: frame_download split: option.split)

end

locale intelligence_frame = mailing_frame I allowed for I allowed +
  assumes frame_upload: "keeps I (storage_upload st bucket path payload)"
    and frame_aggregates: "q_table q = AGGREGATES \<Longrightarrow> allowed q"
begin

lemmas frame_store [intro!] = frame_upload frame_download

lemma frame_reads [intro!]:
  "keeps I (load_signals s e b)" "keeps I today" "keeps I (b2b_get_user u)"
  "keeps I (get_monthly_aggregates p months)"
  unfolding load_signals_def today_def b2b_get_user_def get_monthly_aggregates_def Let_def
  by (auto intro!: frame_select simp: builder_defs split: option.split)

lemma frame_month [intro!]: "keeps I (build_monthly_aggregate p m)"
  unfolding build_monthly_aggregate_def facts_of_period_def Let_def
  by (auto intro!: frame_aggregates simp: builder_defs)

lemma frame_ensure_each [intro!]: "keeps I (ensure_each p months stored)"
  by (induction p months stored rule: ensure_each.induct) (auto simp: Let_def)

lemma frame_facts_to_metrics [intro!]: "keeps I (facts_to_metrics p f s e x tt)"
  unfolding facts_to_metrics_def by auto

lemma frame_metrics [intro!]: "keeps I (build_period_metrics p s e c)"
  unfolding build_period_metrics_def build_metrics_def facts_of_period_def compose_from_months_def
    ensure_monthly_aggregates_def period_volumes_def Let_def
  by auto

lemma frame_notify_admin [intro!]: "keeps I (notify_admin_alert sv h d c)"
  unfolding notify_admin_alert_def Let_def by auto

lemma frame_notify_held [intro!]: "keeps I (notify_request_held sv r m)"
  unfolding notify_request_held_def by auto

lemma frame_get_request [intro!]: "keeps I (get_request i u b)"
  unfolding get_request_def Let_def by (auto intro!: frame_select simp: builder_defs)

lemma frame_conflicts [intro!]: "keeps I (conflicts_for s keys d)" "keeps I (active_subscription u p)"
  unfolding conflicts_for_def exclusive_section_holders_def today_or_def list_entitlements_def active_subscription_def
  by (auto intro!: frame_select simp: builder_defs split: option.split)

lemma frame_within_entitlement [intro!]: "keeps I (assert_request_within_entitlement p s)"
  unfolding assert_request_within_entitlement_def request_entitlement_def allowed_section_keys_def Let_def by auto

end

locale request_frame = intelligence_frame I allowed for I allowed +
  assumes frame_requests: "q_table q = REQUESTS \<Longrightarrow> allowed q"
begin

lemma frame_create [intro!]: "keeps I (create_intelligence_request f s)"
  unfolding create_intelligence_request_def Let_def
  by (auto intro!: frame_requests simp: builder_defs split: option.split)

lemma frame_publish [intro!]: "keeps I (publish sv r m)"
  unfolding publish_def Let_def by (auto intro!: frame_requests simp: builder_defs split: option.split)

lemma frame_hold [intro!]: "keeps I (hold_request sv r m)"
  unfolding hold_request_def Let_def by (auto intro!: frame_requests simp: builder_defs)

lemma frame_deliver [intro!]: "keeps I (deliver_request_pdf sv r pdf)"
  unfolding deliver_request_pdf_def by (auto intro!: frame_requests simp: builder_defs)

lemma frame_mark_failed [intro!]: "keeps I (mark_failed i e)"
  unfolding mark_failed_def by (auto intro!: frame_requests simp: builder_defs)

lemma frame_process_found [intro!]: "keeps I (process_found sv r)"
  unfolding process_found_def by auto

lemma frame_process [intro!]: "keeps I (process_request sv i)"
  unfolding process_request_def by (auto split: option.split)

end

section \<open>The invariants of the code\<close>

lemma keeps_storage_env:
  "keeps healthy (storage_upload st b p x)" "keeps healthy (storage_download st b p)"
  "keeps (\<lambda>w. clock w = n) (storage_upload st b p x)" "keeps (\<lambda>w. clock w = n) (storage_download st b p)"
  "keeps (\<lambda>w. stripe_api w = a \<and> max_rows w = k) (storage_upload st b p x)"
  "keeps (\<lambda>w. stripe_api w = a \<and> max_rows w = k) (storage_download st b p)"
  "keeps (\<lambda>w. files w = g \<and> storage_up w = up) (storage_download st b p)"
  by (auto simp: keeps_def storage_upload_def storage_download_def read_file_def healthy_def world_simps
      split: sum.splits option.splits)

interpretation healthy_requests: request_frame healthy "\<lambda>_. True"
  by unfold_locales (auto intro: keeps_storage_env)

interpretation clock_requests: request_frame "\<lambda>w. clock w = n" "\<lambda>_. True" for n
  by unfold_locales (auto intro: keeps_storage_env)

interpretation env_requests: request_frame "\<lambda>w. stripe_api w = a \<and> max_rows w = n" "\<lambda>_. True" for a n
  by unfold_locales (auto intro: keeps_storage_env)

text \<open>Only an upload changes the store.\<close>

lemma keeps_store_sql:
  "keeps (\<lambda>w. files w = g \<and> storage_up w = up) m \<Longrightarrow> keeps (\<lambda>w. files w = g \<and> storage_up w = up) (sql m)"
  by (auto simp: keeps_def sql_def split: list.splits)

lemma keeps_store_statements:
  "keeps (\<lambda>w. files w = g \<and> storage_up w = up) (sql_read t f)"
  "keeps (\<lambda>w. files w = g \<and> storage_up w = up) (sql_store sch t ps)"
  "keeps (\<lambda>w. files w = g \<and> storage_up w = up) (sql_update sch t fs p)"
  "keeps (\<lambda>w. files w = g \<and> storage_up w = up) (sql_delete t fs)"
  unfolding sql_read_def sql_store_def sql_update_def sql_delete_def
  by (rule keeps_store_sql; auto simp: keeps_def gets_def set_table_def split: option.split)+

interpretation store_kept: mailing_frame "\<lambda>w. files w = g \<and> storage_up w = up" "\<lambda>_. True" for g up
  by unfold_locales
    ((rule keeps_any_query; rule keeps_store_statements)
     | rule keeps_storage_env
     | (auto simp: keeps_def uuid4_def cache_delete_def post_mail_with_def
      stripe_call_def throttle_check_def modify_def Let_def split: option.split) [1])+

interpretation subscriptions_apart: request_frame "tables_inv (\<lambda>ts. R (ts ''b2b_subscriptions''))"
  "\<lambda>q. q_action q = A_select \<or> q_table q \<noteq> ''b2b_subscriptions''" for R
  by unfold_locales auto

interpretation users_apart: request_frame "tables_inv (\<lambda>ts. R (ts ''users''))"
  "\<lambda>q. q_action q = A_select \<or> q_table q \<noteq> ''users''" for R
  by unfold_locales auto

interpretation requests_apart: intelligence_frame "tables_inv (\<lambda>ts. R (ts REQUESTS))"
  "\<lambda>q. q_action q = A_select \<or> q_table q \<noteq> REQUESTS" for R
  by unfold_locales auto

end
