(* ===== verification/Delivery_Runs.thy ===== *)
theory Delivery_Runs
  imports Request_Frames
begin

text \<open>
  What a run of the delivery task leaves behind: subscriptions are only ever moved past the present, and
  whoever was due and could be served is, so that a second run at the same instant finds nothing to do.
\<close>

section \<open>A subscription is served or waits\<close>

abbreviation SUBSCRIPTIONS :: string where
  "SUBSCRIPTIONS \<equiv> ''b2b_subscriptions''"

definition user_of :: "row list \<Rightarrow> pyval \<Rightarrow> row option" where
  "user_of us v = (if truthy v
     then first_row (map (project_row [''id'', ''email'', ''company'']) (take 1 (filter (\<lambda>r. r ''id'' = v) us))) else None)"

lemma b2b_get_user_healthy: "healthy w \<Longrightarrow> b2b_get_user v w = (Inr (user_of (tables w ''users'') v), w)"
  by (simp add: b2b_get_user_def user_of_def fetch_select_eq table_defs split_simps world_simps)

definition waits :: "row list \<Rightarrow> int \<Rightarrow> row \<Rightarrow> bool" where
  "waits us now s \<longleftrightarrow> \<not> truthy (s ''next_delivery_at'')
     \<or> (case due_instant (s ''next_delivery_at'') of Inl _ \<Rightarrow> False | Inr due_at \<Rightarrow> now < due_at
         \<or> (case user_of us (s ''user_id'') of None \<Rightarrow> True | Some u \<Rightarrow> \<not> truthy (u ''email'')))"

lemma waiting_is_skipped:
  assumes "healthy w" and "waits (tables w ''users'') now s"
  shows "deliver_subscription sv now s w = (Inr False, w)"
  using assms(2) b2b_get_user_healthy [OF assms(1)]
  by (auto simp: deliver_subscription_def waits_def world_simps split: sum.splits option.splits if_splits)

text \<open>A row after a run: the same row, but for a next delivery past the present.\<close>

definition moved :: "int \<Rightarrow> row \<Rightarrow> row \<Rightarrow> bool" where
  "moved now r r' \<longleftrightarrow> (\<exists>n u. r' = r(''next_delivery_at'' := n, ''updated_at'' := u)
     \<and> (n = r ''next_delivery_at'' \<or> (\<exists>t > now. n = PTime t)))"

abbreviation ahead :: "int \<Rightarrow> row \<Rightarrow> bool" where
  "ahead now r \<equiv> \<exists>t > now. r ''next_delivery_at'' = PTime t"

lemma moved_refl: "moved now r r"
  unfolding moved_def by (rule exI [of _ "r ''next_delivery_at''"], rule exI [of _ "r ''updated_at''"]) simp

lemma moved_trans: 
  assumes "moved now r r'" and "moved now r' r''"
  shows "moved now r r''"
proof -
  from assms obtain n u n' u' where r: "r' = r(''next_delivery_at'' := n, ''updated_at'' := u)"
    "r'' = r'(''next_delivery_at'' := n', ''updated_at'' := u')"
    and n: "n = r ''next_delivery_at'' \<or> (\<exists>t > now. n = PTime t)" "n' = n \<or> (\<exists>t > now. n' = PTime t)"
    unfolding moved_def by (elim exE conjE) (simp only: fun_upd_apply, auto)
  have "r'' = r(''next_delivery_at'' := n', ''updated_at'' := u')" unfolding r by (rule ext) simp
  then show ?thesis using n unfolding moved_def by blast
qed

lemma moved_cell: "moved now r r' \<Longrightarrow> k \<noteq> ''next_delivery_at'' \<Longrightarrow> k \<noteq> ''updated_at'' \<Longrightarrow> r' k = r k"
  by (auto simp: moved_def)

lemma moved_ahead: "moved now r r' \<Longrightarrow> ahead now r \<Longrightarrow> ahead now r'"
  by (auto simp: moved_def)

lemma moved_next: "moved now r r' \<Longrightarrow> r' ''next_delivery_at'' = r ''next_delivery_at'' \<or> ahead now r'"
  by (auto simp: moved_def)

lemma ahead_waits: "ahead now r \<Longrightarrow> waits us now r"
  by (auto simp: waits_def due_instant_def)

lemma moved_waits:
  assumes "moved now r r'" and "waits us now r"
  shows "waits us now r'"
  using moved_next [OF assms(1)]
proof
  assume "r' ''next_delivery_at'' = r ''next_delivery_at''"
  moreover have "r' ''user_id'' = r ''user_id''" using moved_cell [OF assms(1)] by simp
  ultimately show ?thesis using assms(2) unfolding waits_def by (simp only:)
qed (rule ahead_waits)

lemma all2_moved_refl: "list_all2 (moved now) rs rs"
  by (simp add: list.rel_refl moved_refl)

lemma all2_moved_trans:
  "list_all2 (moved now) rs rs' \<Longrightarrow> list_all2 (moved now) rs' rs'' \<Longrightarrow> list_all2 (moved now) rs rs''"
  by (rule list_all2_trans [where ?P1.0 = "moved now" and ?P2.0 = "moved now"]) (auto intro: moved_trans)

section \<open>One delivery\<close>

definition moved_cells :: "row \<Rightarrow> int \<Rightarrow> int \<Rightarrow> pydict" where
  "moved_cells s now due_at = [(''next_delivery_at'', PTime (next_delivery (frequency_of s) now due_at)), (''updated_at'', PTime now)]"

lemma run_moved:
  assumes "healthy w" and "run (update_eq SUBSCRIPTIONS ''id'' i (moved_cells s now due_at)) w = (Inr (), w')"
  shows "w' = set_table SUBSCRIPTIONS (update_rows [F_eq ''id'' i] (moved_cells s now due_at) (tables w SUBSCRIPTIONS)) w"
  using assms
  by (simp add: moved_cells_def query_eval world_simps healthy_def sql_def table_defs del: matches_eq split: if_splits)

lemma request_keeps:
  assumes "healthy w" and "snd (m w) = w1"
    and "\<And>R. keeps (tables_inv (\<lambda>ts. R (ts SUBSCRIPTIONS))) m" and "\<And>R. keeps (tables_inv (\<lambda>ts. R (ts ''users''))) m"
    and "keeps healthy m" and "\<And>n. keeps (\<lambda>w. clock w = n) m" and "\<And>a n. keeps (\<lambda>w. stripe_api w = a \<and> max_rows w = n) m"
  shows "healthy w1 \<and> tables w1 SUBSCRIPTIONS = tables w SUBSCRIPTIONS \<and> tables w1 ''users'' = tables w ''users''
    \<and> clock w1 = clock w \<and> max_rows w1 = max_rows w"
  using keepsD [OF assms(3) [of "\<lambda>rs. rs = tables w SUBSCRIPTIONS"], of w]
    keepsD [OF assms(4) [of "\<lambda>rs. rs = tables w ''users''"], of w]
    keepsD [OF assms(5,1)] keepsD [OF assms(6) [of "clock w"], of w] keepsD [OF assms(7) [of "stripe_api w" "max_rows w"], of w]
    assms(2)
  by (auto simp: tables_inv_def)

definition same_surroundings :: "world \<Rightarrow> world \<Rightarrow> bool" where
  "same_surroundings w w' \<longleftrightarrow> healthy w' \<and> tables w' ''users'' = tables w ''users'' \<and> clock w' = clock w \<and> max_rows w' = max_rows w"

lemma deliver_due_moves:
  assumes "healthy w" and "deliver_due sv now s u due_at w = (Inr (), w')"
  shows "same_surroundings w w' \<and> tables w' SUBSCRIPTIONS
    = update_rows [F_eq ''id'' (s ''id'')] (moved_cells s now due_at) (tables w SUBSCRIPTIONS)"
proof -
  let ?m = "bindM (create_intelligence_request (due_form s u due_at) (Some s)) (\<lambda>request. process_request sv (request ''id''))"
  have split: "deliver_due sv now s u due_at
      = bindM ?m (\<lambda>_. run (update_eq SUBSCRIPTIONS ''id'' (s ''id'') (moved_cells s now due_at)))"
    by (simp add: deliver_due_def moved_cells_def bindM_assoc thenM_def)
  obtain w1 where w1: "?m w = (Inr (), w1)"
    "run (update_eq SUBSCRIPTIONS ''id'' (s ''id'') (moved_cells s now due_at)) w1 = (Inr (), w')"
    using bindM_Inr_D [OF assms(2) [unfolded split]] by auto
  have k: "healthy w1 \<and> tables w1 SUBSCRIPTIONS = tables w SUBSCRIPTIONS \<and> tables w1 ''users'' = tables w ''users''
      \<and> clock w1 = clock w \<and> max_rows w1 = max_rows w"
    by (rule request_keeps [OF assms(1), of ?m]) (use w1 in \<open>auto\<close>)
  then have "w' = set_table SUBSCRIPTIONS (update_rows [F_eq ''id'' (s ''id'')] (moved_cells s now due_at) (tables w SUBSCRIPTIONS)) w1"
    using run_moved [OF _ w1(2)] by simp
  then show ?thesis using k by (simp add: same_surroundings_def)
qed

lemma update_moves:
  "list_all2 (moved now) rs (update_rows [F_eq ''id'' i] (moved_cells s now due_at) rs)"
  "r \<in> set (update_rows [F_eq ''id'' i] (moved_cells s now due_at) rs) \<Longrightarrow> r ''id'' = i \<Longrightarrow> ahead now r"
proof -
  let ?t = "next_delivery (frequency_of s) now due_at"
  have t: "now < ?t" using catch_up_after by (simp add: next_delivery_def)
  have cells: "set_cells (moved_cells s now due_at) r = r(''next_delivery_at'' := PTime ?t, ''updated_at'' := PTime now)" for r
    by (rule ext) (simp add: moved_cells_def set_cells_def)
  have "moved now r (set_cells (moved_cells s now due_at) r)" for r
    unfolding moved_def cells using t by blast
  then show "list_all2 (moved now) rs (update_rows [F_eq ''id'' i] (moved_cells s now due_at) rs)"
    by (auto simp: update_rows_def list_all2_map2 moved_refl intro: list.rel_refl_strong)
  assume "r \<in> set (update_rows [F_eq ''id'' i] (moved_cells s now due_at) rs)" and "r ''id'' = i"
  then have "r \<in> (\<lambda>r0. if r0 ''id'' = i then set_cells (moved_cells s now due_at) r0 else r0) ` set rs"
    by (simp add: update_rows_def del: set_cells_apply)
  then obtain r0 where "r = (if r0 ''id'' = i then set_cells (moved_cells s now due_at) r0 else r0)"
    by (elim imageE) blast
  then show "ahead now r" using t \<open>r ''id'' = i\<close> unfolding cells by (cases "r0 ''id'' = i") auto
qed

section \<open>The loop\<close>

lemma all2_origin: "list_all2 R xs ys \<Longrightarrow> y \<in> set ys \<Longrightarrow> \<exists>x \<in> set xs. R x y"
  by (induction rule: list_all2_induct) auto

text \<open>What is true of a subscription the loop has passed.\<close>

definition passed :: "int \<Rightarrow> world \<Rightarrow> row \<Rightarrow> bool" where
  "passed now w s \<longleftrightarrow> waits (tables w ''users'') now s
     \<or> (\<forall>r \<in> set (tables w SUBSCRIPTIONS). r ''id'' = s ''id'' \<longrightarrow> ahead now r)"

definition run_step :: "int \<Rightarrow> world \<Rightarrow> world \<Rightarrow> bool" where
  "run_step now w w' \<longleftrightarrow> same_surroundings w w' \<and> list_all2 (moved now) (tables w SUBSCRIPTIONS) (tables w' SUBSCRIPTIONS)"

lemma run_step_refl: "healthy w \<Longrightarrow> run_step now w w"
  by (simp add: run_step_def same_surroundings_def all2_moved_refl)

lemma run_step_trans: "run_step now w w' \<Longrightarrow> run_step now w' w'' \<Longrightarrow> run_step now w w''"
  using all2_moved_trans by (auto simp: run_step_def same_surroundings_def)

lemma passed_stays:
  assumes "run_step now w w'" and "passed now w s"
  shows "passed now w' s"
proof (cases "waits (tables w ''users'') now s")
  case False
  have "ahead now r'" if r': "r' \<in> set (tables w' SUBSCRIPTIONS)" "r' ''id'' = s ''id''" for r'
  proof -
    obtain r where r: "r \<in> set (tables w SUBSCRIPTIONS)" "moved now r r'"
      using all2_origin [of "moved now"] assms(1) r'(1) unfolding run_step_def by blast
    then have "r ''id'' = s ''id''" using moved_cell [OF r(2), of "''id''"] r'(2) by simp
    then show ?thesis using moved_ahead [OF r(2)] assms(2) False r(1) unfolding passed_def by blast
  qed
  then show ?thesis unfolding passed_def by blast
qed (use assms in \<open>simp add: passed_def run_step_def same_surroundings_def\<close>)

lemma subscription_passed:
  assumes "healthy w" and "deliver_subscription sv now s w = (Inr b, w')"
  shows "run_step now w w' \<and> passed now w' s"
proof (cases "waits (tables w ''users'') now s")
  case True
  then show ?thesis using waiting_is_skipped [OF assms(1) True] assms run_step_refl by (simp add: passed_def)
next
  case False
  then obtain due_at u where d: "truthy (s ''next_delivery_at'')" "due_instant (s ''next_delivery_at'') = Inr due_at" "\<not> now < due_at"
      "user_of (tables w ''users'') (s ''user_id'') = Some u" "truthy (u ''email'')"
    using assms(2) by (auto simp: waits_def deliver_subscription_def world_simps split: sum.splits option.splits if_splits)
  then have "thenM (deliver_due sv now s u due_at) (ret True) w = (Inr b, w')"
    using assms b2b_get_user_healthy [OF assms(1), of "s ''user_id''"]
    by (simp add: deliver_subscription_def world_simps)
  then have "deliver_due sv now s u due_at w = (Inr (), w')"
    by (auto simp: world_simps ret_def split: prod.splits sum.splits)
  then have m: "same_surroundings w w'" "tables w' SUBSCRIPTIONS
      = update_rows [F_eq ''id'' (s ''id'')] (moved_cells s now due_at) (tables w SUBSCRIPTIONS)"
    using deliver_due_moves [OF assms(1)] by blast+
  then show ?thesis using update_moves unfolding run_step_def passed_def by simp
qed

lemma loop_passes:
  assumes "healthy w" and "deliver_all sv now ss n w = (Inr k, w')"
  shows "run_step now w w' \<and> list_all (passed now w') ss"
  using assms
proof (induction ss arbitrary: n w)
  case (Cons s ss)
  obtain b w1 where w1: "deliver_subscription sv now s w = (Inr b, w1)"
    "deliver_all sv now ss (if b then n + 1 else n) w1 = (Inr k, w')"
    using bindM_Inr_D [OF Cons.prems(2) [unfolded deliver_all.simps]] by auto
  then have s: "run_step now w w1" "passed now w1 s" using subscription_passed [OF Cons.prems(1)] by blast+
  then have "healthy w1" by (simp add: run_step_def same_surroundings_def)
  then have "run_step now w1 w'" "list_all (passed now w') ss" using Cons.IH w1(2) by blast+
  then show ?case using passed_stays [OF _ s(2)] run_step_trans [OF s(1)] by simp
qed (simp add: world_simps run_step_refl)

section \<open>A run\<close>

definition active_rows :: "world \<Rightarrow> row list" where
  "active_rows w = take (max_rows w) (rows_with w SUBSCRIPTIONS ''status'' (PStr ''active''))"

lemma fetch_subscribers:
  "healthy w \<Longrightarrow> fetch (tq_eq ''status'' (PStr ''active'') (tq_select ''*'' (tq SUBSCRIPTIONS))) w = (Inr (active_rows w), w)"
  by (simp add: active_rows_def query_eval world_simps healthy_def sql_def table_defs)

lemma all2_filter:
  "list_all2 R xs ys \<Longrightarrow> (\<And>x y. R x y \<Longrightarrow> P x = P y) \<Longrightarrow> list_all2 R (filter P xs) (filter P ys)"
  by (induction rule: list_all2_induct) auto

lemma active_moved:
  assumes "run_step now w w'"
  shows "list_all2 (moved now) (active_rows w) (active_rows w')"
proof -
  have "list_all2 (moved now) (rows_with w SUBSCRIPTIONS ''status'' (PStr ''active''))
      (rows_with w' SUBSCRIPTIONS ''status'' (PStr ''active''))"
    proof (rule all2_filter)
    show "list_all2 (moved now) (tables w SUBSCRIPTIONS) (tables w' SUBSCRIPTIONS)" using assms by (simp add: run_step_def)
  next
    fix r r' assume "moved now r r'"
    then have "r' ''status'' = r ''status''" by (rule moved_cell) simp_all
    then show "(r ''status'' = PStr ''active'') = (r' ''status'' = PStr ''active'')" by simp
  qed
  moreover have "max_rows w' = max_rows w" using assms by (simp add: run_step_def same_surroundings_def)
  ultimately show ?thesis unfolding active_rows_def by (simp add: list_all2_takeI)
qed

lemma all_waiting: "healthy w \<Longrightarrow> list_all (waits (tables w ''users'') now) ss \<Longrightarrow> deliver_all sv now ss n w = (Inr n, w)"
  by (induction ss) (auto simp: world_simps waiting_is_skipped)

lemma run_leaves_nobody_due:
  assumes "healthy w" and "run_due_b2b_auto_deliveries sv w = (Inr n, w')"
  shows "run_step (clock w) w w' \<and> list_all (waits (tables w' ''users'') (clock w)) (active_rows w')"
proof -
  have "deliver_all sv (clock w) (active_rows w) 0 w = (Inr n, w')"
    using assms fetch_subscribers [OF assms(1)] by (simp add: run_due_b2b_auto_deliveries_def world_simps)
  then have l: "run_step (clock w) w w'" "list_all (passed (clock w) w') (active_rows w)"
    using loop_passes [OF assms(1)] by blast+
  have "waits (tables w' ''users'') (clock w) r'" if r': "r' \<in> set (active_rows w')" for r'
  proof -
    obtain r where r: "r \<in> set (active_rows w)" "moved (clock w) r r'"
      using all2_origin [OF active_moved [OF l(1)] r'] by blast
    have mem: "r' \<in> set (tables w' SUBSCRIPTIONS)" using r' by (auto simp: active_rows_def dest: in_set_takeD)
    have "r' ''id'' = r ''id''" using moved_cell [OF r(2)] by simp
    then show ?thesis
      using l(2) r mem moved_waits [OF r(2)] ahead_waits [of "clock w" r'] unfolding list_all_iff passed_def by metis
  qed
  then show ?thesis using l(1) by (simp add: list_all_iff)
qed

lemma second_run:
  assumes "healthy w" and "run_due_b2b_auto_deliveries sv w = (Inr n, w')"
  shows "run_due_b2b_auto_deliveries sv w' = (Inr 0, w')"
proof -
  have "healthy w'" "clock w' = clock w" "list_all (waits (tables w' ''users'') (clock w)) (active_rows w')"
    using run_leaves_nobody_due [OF assms] by (auto simp: run_step_def same_surroundings_def)
  then show ?thesis
    using all_waiting fetch_subscribers [of w'] by (simp add: run_due_b2b_auto_deliveries_def world_simps)
qed

end
