(* ===== verification/Request_Lifecycle.thy ===== *)
theory Request_Lifecycle
  imports Request_Frames
begin

text \<open>
  The life of a request: what each step of \<open>process_request\<close> does to the request's own rows and to the
  others. \<open>confined i others\<close> says that the request has a row and the rows of the others are the given ones; \<open>in_state P i others\<close>
  adds what its rows are. A small logic of outcomes carries the proofs.
\<close>

section \<open>States of a request\<close>

definition confined :: "pyval \<Rightarrow> row list \<Rightarrow> world \<Rightarrow> bool" where
  "confined i others w \<longleftrightarrow> healthy w \<and> rows_with w REQUESTS ''id'' i \<noteq> []
     \<and> filter (\<lambda>r. r ''id'' \<noteq> i) (tables w REQUESTS) = others"

definition in_state :: "(row \<Rightarrow> bool) \<Rightarrow> pyval \<Rightarrow> row list \<Rightarrow> world \<Rightarrow> bool" where
  "in_state P i others w \<longleftrightarrow> confined i others w \<and> list_all P (rows_with w REQUESTS ''id'' i)"

lemma in_state_confined: "in_state P i others w \<Longrightarrow> confined i others w"
  by (simp add: in_state_def)

text \<open>An update of the request's row: it succeeds, other rows stay, and the cells it writes are there.\<close>

definition writable :: "pydict \<Rightarrow> bool" where
  "writable p \<longleftrightarrow> p \<noteq> [] \<and> fst ` set p \<subseteq> {''status'', ''metrics'', ''pdf_url'', ''completed_at'', ''updated_at'',
     ''error_message'', ''delivered_at''} \<and> list_all (\<lambda>(c, v). v \<noteq> PNone) p"

lemma unwritten:
  assumes "writable p" and "k \<notin> {''status'', ''metrics'', ''pdf_url'', ''completed_at'', ''updated_at'', ''error_message'', ''delivered_at''}"
  shows "map_of p k = None" "\<not> has_key p k"
  using assms by (auto simp: writable_def map_of_eq_None_iff has_key_map_of)

lemma written_not_null: "writable p \<Longrightarrow> map_of p k \<noteq> Some PNone"
  using map_of_SomeD [of p k PNone] by (auto simp: writable_def list_all_iff)

lemma run_request_update:
  assumes "healthy w" and "writable p"
  shows "run (update_eq REQUESTS ''id'' i p) w = (Inr (), set_table REQUESTS (update_rows [F_eq ''id'' i] p (tables w REQUESTS)) w)"
proof (rule run_update_eq [OF assms(1)])
  show "list_all (\<lambda>(c, _). c \<in> set (table_columns B2BIntelligenceRequest_table)) p"
    using assms(2) unfolding list_all_iff writable_def table_defs by fastforce
  show "updatable B2BIntelligenceRequest_table [F_eq ''id'' i] p (tables w REQUESTS)"
    by (simp add: updatable_def not_null_def table_defs unwritten [OF assms(2)] written_not_null [OF assms(2)])
qed (use assms in \<open>simp_all add: table_defs writable_def\<close>)

section \<open>Outcomes\<close>

text \<open>From a world with \<open>A\<close>, a value comes with \<open>B\<close> and an exception with \<open>E\<close>.\<close>

definition leads :: "(world \<Rightarrow> bool) \<Rightarrow> 'a comp \<Rightarrow> ('a \<Rightarrow> world \<Rightarrow> bool) \<Rightarrow> (world \<Rightarrow> bool) \<Rightarrow> bool" where
  "leads A m B E \<longleftrightarrow> (\<forall>w. A w \<longrightarrow> (case m w of (Inl _, w') \<Rightarrow> E w' | (Inr v, w') \<Rightarrow> B v w'))"

named_theorems leads_intros

lemma leads_ret [leads_intros]: "(\<And>w. A w \<Longrightarrow> B v w) \<Longrightarrow> leads A (ret v) B E"
  by (simp add: leads_def ret_def)

lemma leads_throw [leads_intros]: "(\<And>w. A w \<Longrightarrow> E w) \<Longrightarrow> leads A (throw e) B E"
  by (simp add: leads_def throw_def)

lemma leads_keeps: "keeps A m \<Longrightarrow> (\<And>w. A w \<Longrightarrow> E w) \<Longrightarrow> leads A m (\<lambda>_. A) E"
  unfolding leads_def keeps_def by (fastforce split: sum.splits prod.splits)

lemma leads_bindM: "leads A m B E \<Longrightarrow> (\<And>v. leads (B v) (f v) C E) \<Longrightarrow> leads A (bindM m f) C E"
  unfolding leads_def bindM_def by (fastforce split: sum.splits prod.splits)

lemma leads_thenM: "leads A m B E \<Longrightarrow> (\<And>v. leads (B v) n C E) \<Longrightarrow> leads A (thenM m n) C E"
  unfolding thenM_def by (rule leads_bindM)

lemma leads_tryM: "leads A m B E' \<Longrightarrow> (\<And>e. leads E' (h e) B E) \<Longrightarrow> leads A (tryM m h) B E"
  unfolding leads_def tryM_def by (fastforce split: sum.splits prod.splits)

lemma leads_weaken:
  "leads A m B E \<Longrightarrow> (\<And>w. A' w \<Longrightarrow> A w) \<Longrightarrow> (\<And>v w. B v w \<Longrightarrow> B' v w) \<Longrightarrow> (\<And>w. E w \<Longrightarrow> E' w) \<Longrightarrow> leads A' m B' E'"
  unfolding leads_def by (fastforce split: sum.splits prod.splits)

section \<open>The steps of a request\<close>

lemma apart_keeps:
  assumes "\<And>R. keeps (tables_inv (\<lambda>ts. R (ts REQUESTS))) m" and "keeps healthy m"
  shows "keeps (confined i others) m" "keeps (in_state P i others) m"
proof -
  have "keeps (\<lambda>w. healthy w \<and> R (tables w REQUESTS)) m" for R
    using assms(1) [of R] assms(2) by (auto simp: keeps_def tables_inv_def)
  note this [of "\<lambda>rs. filter (\<lambda>r. r ''id'' = i) rs \<noteq> [] \<and> filter (\<lambda>r. r ''id'' \<noteq> i) rs = others"]
    this [of "\<lambda>rs. filter (\<lambda>r. r ''id'' = i) rs \<noteq> [] \<and> filter (\<lambda>r. r ''id'' \<noteq> i) rs = others \<and> list_all P (filter (\<lambda>r. r ''id'' = i) rs)"]
  then show "keeps (confined i others) m" "keeps (in_state P i others) m"
    by (simp_all add: confined_def [abs_def] in_state_def [abs_def] conj_assoc)
qed

lemma others_updated: "writable p \<Longrightarrow>
  filter (\<lambda>r. r ''id'' \<noteq> i) (update_rows [F_eq ''id'' i] p rs) = filter (\<lambda>r. r ''id'' \<noteq> i) rs"
  by (induction rs) (simp_all add: update_rows_def unwritten)

lemma own_updated: "writable p \<Longrightarrow>
  filter (\<lambda>r. r ''id'' = i) (update_rows [F_eq ''id'' i] p rs) = map (set_cells p) (filter (\<lambda>r. r ''id'' = i) rs)"
  by (rule rows_with_updated) (simp add: unwritten)

definition stored :: "intelligence_service \<Rightarrow> row \<Rightarrow> string \<Rightarrow> world \<Rightarrow> bool" where
  "stored sv r bytes w \<longleftrightarrow> bytes \<noteq> [] \<and> storage_up w
     \<and> (\<exists>key. storage_location (is_settings sv) ''reports'' (storage_path r) = Inr key \<and> files w key = Some bytes)"

definition mailed :: "row \<Rightarrow> email list \<Rightarrow> bool" where
  "mailed r sent \<longleftrightarrow> map mail_to sent = recipients_for r
     \<and> list_all (\<lambda>m. mail_template m = ''b2b_intelligence_ready'' \<and> length (mail_attachments m) = 1) sent"

lemma update_leads:
  assumes "writable p"
    and "\<And>w w'. A w \<Longrightarrow> healthy w' \<Longrightarrow> filter (\<lambda>r. r ''id'' \<noteq> i) (tables w' REQUESTS) = filter (\<lambda>r. r ''id'' \<noteq> i) (tables w REQUESTS)
      \<Longrightarrow> rows_with w' REQUESTS ''id'' i = map (set_cells p) (rows_with w REQUESTS ''id'' i)
      \<Longrightarrow> outbox w' = outbox w \<Longrightarrow> files w' = files w \<Longrightarrow> storage_up w' = storage_up w \<Longrightarrow> B () w'"
    and "\<And>w. A w \<Longrightarrow> healthy w"
  shows "leads A (run (update_eq REQUESTS ''id'' i p)) B E"
  unfolding leads_def
proof (intro allI impI)
  fix w assume a: "A w"
  let ?w' = "set_table REQUESTS (update_rows [F_eq ''id'' i] p (tables w REQUESTS)) w"
  have "B () ?w'"
    by (rule assms(2) [OF a]) (use assms(3) [OF a] in
      \<open>simp_all add: others_updated [OF assms(1)] own_updated [OF assms(1)] del: update_rows_def, simp_all add: set_table_def\<close>)
  then show "case run (update_eq REQUESTS ''id'' i p) w of (Inl _, w') \<Rightarrow> E w' | (Inr v, w') \<Rightarrow> B v w'"
    using run_request_update [OF assms(3) [OF a] assms(1)] by simp
qed

lemma update_enters:
  assumes "writable p" and "\<And>r. P (set_cells p r)"
  shows "leads (\<lambda>w. confined i others w \<and> stored sv r bytes w) (run (update_eq REQUESTS ''id'' i p))
      (\<lambda>_ w. in_state P i others w \<and> stored sv r bytes w) E"
    and "leads (confined i others) (run (update_eq REQUESTS ''id'' i p)) (\<lambda>_. in_state P i others) E"
  by (rule update_leads [OF assms(1)]; simp add: confined_def in_state_def stored_def list.pred_map assms(2) list.pred_True comp_def)+

lemma update_stays:
  assumes "writable p" and "\<And>r. P r \<Longrightarrow> P (set_cells p r)"
  shows "leads (\<lambda>w. in_state P i others w \<and> stored sv r bytes w \<and> Q (outbox w)) (run (update_eq REQUESTS ''id'' i p))
      (\<lambda>_ w. in_state P i others w \<and> stored sv r bytes w \<and> Q (outbox w)) E"
proof -
  have m: "list_all P (map (set_cells p) rs)" if "list_all P rs" for rs
    using that assms(2) by (induction rs) auto
  show ?thesis
    by (rule update_leads [OF assms(1)]; simp add: confined_def in_state_def stored_def m)
qed

lemma recipients_updated: "writable p \<Longrightarrow> recipients_for (set_cells p r) = recipients_for r"
  by (simp add: recipients_for_def recipients_raw_def unwritten)

lemma path_updated: "writable p \<Longrightarrow> storage_path (set_cells p r) = storage_path r"
  by (simp add: storage_path_def unwritten)

lemma silent: "snd (b2b_product v w) = w" "snd (metrics_title r m w) = w" "snd (storage_download st b p w) = w"
  by (auto simp: b2b_product_def metrics_title_def storage_download_def read_file_def world_simps
      split: option.splits sum.splits)

lemma deliver_each_mails:
  assumes "BREVO_API_KEY (is_settings sv) \<noteq> []" and "deliver_each sv r m emails fallback w = (Inr (), w')"
  shows "\<exists>sent. outbox w' = outbox w @ sent \<and> map mail_to sent = emails
    \<and> list_all (\<lambda>m. mail_template m = ''b2b_intelligence_ready'' \<and> length (mail_attachments m) = 1) sent"
  using assms(2)
proof (induction emails arbitrary: fallback w)
  case (Cons email emails)
  define copy where "copy = (case personal_copy sv m email of
              Some pdf \<Rightarrow> ret (pdf, fallback)
            | None \<Rightarrow> (case fallback of Some pdf \<Rightarrow> ret (pdf, fallback)
                | None \<Rightarrow> bindM (download_request_pdf sv r) (\<lambda>pdf. ret (pdf, Some pdf))))"
  have quiet: "w1 = w" if "copy w = (Inr x, w1)" for x w1
    using that silent(3) [of "is_settings sv" "''reports''" "storage_path r" w]
    by (auto simp: copy_def download_request_pdf_def world_simps ret_def split: option.splits sum.splits prod.splits)
  obtain x where x: "copy w = (Inr x, w)"
    "(case x of (pdf, fallback) \<Rightarrow>
      bindM (metrics_title r m) (\<lambda>name.
        thenM (email_send_with (is_settings sv) email ''b2b_intelligence_ready'' [
         (''product_title'', name), (''period_start'', r ''period_start''), (''period_end'', r ''period_end''),
         (''request_id'', r ''id''), (''b2b_url'', business_url sv)] [(attachment_name r, base64_text pdf)])
        (deliver_each sv r m emails fallback))) w = (Inr (), w')"
    using bindM_Inr_D [OF Cons.prems [unfolded deliver_each.simps, folded copy_def]] quiet by metis
  obtain pdf fb where p: "x = (pdf, fb)" by (cases x)
  obtain name where n: "metrics_title r m w = (Inr name, w)"
    using bindM_Inr_D [OF x(2) [unfolded p prod.case]] silent(2) [of r m w] by (metis snd_conv)
  obtain w2 where w2: "post_mail_with email ''b2b_intelligence_ready'' [
         (''product_title'', name), (''period_start'', r ''period_start''), (''period_end'', r ''period_end''),
         (''request_id'', r ''id''), (''b2b_url'', business_url sv)] [(attachment_name r, base64_text pdf)] w = (Inr (), w2)"
    "deliver_each sv r m emails fb w2 = (Inr (), w')"
    using x(2) assms(1) n by (auto simp: p world_simps email_send_with_def email_templates_def split: if_splits)
  then show ?case using Cons.IH [OF w2(2)] by (auto simp: post_mail_with_def split: if_splits)
qed (simp add: world_simps)

section \<open>Holding, publishing and delivering\<close>

definition status_is :: "string \<Rightarrow> row \<Rightarrow> bool" where
  "status_is s r \<longleftrightarrow> r ''status'' = PStr s"

lemma cells_writable:
  "writable (hold_cells m @ [(''updated_at'', PTime n)])"
  "writable (completed_cells m url (PTime n))"
  "writable [(''delivered_at'', PTime n), (''updated_at'', PTime n)]"
  "writable [(''status'', PStr ''failed''), (''error_message'', PStr e), (''updated_at'', PTime n)]"
  by (simp_all add: writable_def hold_cells_def completed_cells_def)

lemma set_status:
  "status_is ''held'' (set_cells (hold_cells m @ [(''updated_at'', PTime n)]) r)"
  "status_is ''completed'' (set_cells (completed_cells m url (PTime n)) r)"
  "status_is s r \<Longrightarrow> status_is s (set_cells [(''delivered_at'', PTime n), (''updated_at'', PTime n)] r)"
  "status_is ''failed'' (set_cells [(''status'', PStr ''failed''), (''error_message'', PStr e), (''updated_at'', PTime n)] r)"
  by (simp_all add: status_is_def hold_cells_def completed_cells_def)

lemma leads_utcnow: "(\<And>n. leads A (f (PTime n)) B E) \<Longrightarrow> leads A (bindM utcnow f) B E"
  by (simp add: leads_def bindM_def utcnow_def gets_def)

lemma notices_keep:
  "keeps (in_state P i others) (notify_request_held sv r m)" "keeps (in_state P i others) (notify_admin_alert sv h d c)"
  "keeps (in_state P i others) (deliver_each sv r x emails fallback)" "keeps (confined i others) (build_period_metrics p s t b)"
  by (rule apart_keeps; auto)+

lemma hold_leads:
  assumes "r ''id'' = i"
  shows "leads (confined i others) (hold_request sv r m) (\<lambda>_. in_state (status_is ''held'') i others) (confined i others)"
  unfolding hold_request_def assms Let_def
  by (rule leads_utcnow, rule leads_thenM, rule update_enters(2) [where P = "status_is ''held''", OF cells_writable(1) set_status(1)], rule leads_keeps)
    (auto intro: notices_keep in_state_confined)

lemma upload_stores:
  "payload \<noteq> [] \<Longrightarrow> leads (confined i others) (storage_upload (is_settings sv) ''reports'' (storage_path r) payload)
     (\<lambda>_ w. confined i others w \<and> stored sv r payload w) (confined i others)"
  by (auto simp: leads_def storage_upload_def world_simps confined_def healthy_def stored_def split: sum.splits)

lemma publish_leads:
  assumes "r ''id'' = i"
  shows "leads (confined i others) (publish sv r m)
    (\<lambda>(r', bytes) w. in_state (status_is ''completed'') i others w \<and> stored sv r bytes w
        \<and> r' ''id'' = i \<and> recipients_for r' = recipients_for r)
    (confined i others)"
proof -
  have last: "leads (\<lambda>w. confined i others w \<and> stored sv r bytes w)
      (bindM utcnow (\<lambda>completed_at. let update = completed_cells m url completed_at in
        thenM (run (update_eq REQUESTS ''id'' i update)) (ret (set_cells update r, bytes))))
    (\<lambda>(r', bytes) w. in_state (status_is ''completed'') i others w \<and> stored sv r bytes w
        \<and> r' ''id'' = i \<and> recipients_for r' = recipients_for r) (confined i others)" for bytes url
    unfolding Let_def
    by (rule leads_utcnow, rule leads_thenM, rule update_enters(1) [where P = "status_is ''completed''", OF cells_writable(2) set_status(2)], rule leads_ret)
      (simp add: recipients_updated [OF cells_writable(2)] unwritten [OF cells_writable(2)] assms)
  show ?thesis
    unfolding publish_def assms
    by (rule leads_bindM [where B = "\<lambda>_. confined i others"], rule leads_keeps)
      (auto intro!: leads_throw leads_thenM [OF upload_stores] last split: option.split)
qed

lemma deliver_leads:
  assumes "BREVO_API_KEY (is_settings sv) \<noteq> []" and "r' ''id'' = i" and "recipients_for r' = recipients_for r"
  shows "leads (\<lambda>w. in_state (status_is ''completed'') i others w \<and> stored sv r bytes w) (deliver_request_pdf sv r' pdf)
    (\<lambda>_ w. in_state (status_is ''completed'') i others w \<and> stored sv r bytes w
      \<and> (\<exists>before sent. outbox w = before @ sent \<and> mailed r sent)) (confined i others)"
proof -
  let ?A = "in_state (status_is ''completed'') i others" and ?Q = "\<lambda>ob. \<exists>before sent. ob = before @ sent \<and> mailed r sent"
  let ?m = "deliver_each sv r' (dict_of (r' ''metrics'')) (recipients_for r') pdf"
  have "leads (\<lambda>w. ?A w \<and> stored sv r bytes w) ?m (\<lambda>_ w. ?A w \<and> stored sv r bytes w \<and> ?Q (outbox w)) (confined i others)"
    unfolding leads_def
  proof (intro allI impI)
    fix w assume a: "?A w \<and> stored sv r bytes w"
    obtain x w' where m: "?m w = (x, w')" by (cases "?m w")
    have s: "?A w'" using keepsD [OF notices_keep(3)] a m by (metis snd_conv)
    have "files w' = files w \<and> storage_up w' = storage_up w"
      using keepsD [OF store_kept.frame_deliver_each [of "files w" "storage_up w"], of w] m by (metis snd_conv)
    then have "stored sv r bytes w'" using a by (simp add: stored_def)
    moreover have "?Q (outbox w')" if x: "x = Inr ()"
    proof -
      obtain sent where "outbox w' = outbox w @ sent" "map mail_to sent = recipients_for r'"
        "list_all (\<lambda>m. mail_template m = ''b2b_intelligence_ready'' \<and> length (mail_attachments m) = 1) sent"
        using deliver_each_mails [OF assms(1) m [unfolded x]] by (elim exE conjE)
      then show ?thesis unfolding mailed_def assms(3) by (intro exI conjI)
    qed
    ultimately show "case ?m w of (Inl _, w') \<Rightarrow> confined i others w' | (Inr v, w') \<Rightarrow> ?A w' \<and> stored sv r bytes w' \<and> ?Q (outbox w')"
      using s in_state_confined by (auto simp: m split: sum.split)
  qed
  moreover have "leads (\<lambda>w. ?A w \<and> stored sv r bytes w \<and> ?Q (outbox w))
      (run (update_eq REQUESTS ''id'' i [(''delivered_at'', PTime n), (''updated_at'', PTime n)]))
      (\<lambda>_ w. ?A w \<and> stored sv r bytes w \<and> ?Q (outbox w)) (confined i others)" for n
    by (rule update_stays [where Q = ?Q, OF cells_writable(3)]) (rule set_status(3))
  ultimately show ?thesis
    unfolding deliver_request_pdf_def assms(2)
    by (auto intro!: leads_thenM [OF _ leads_utcnow [OF leads_thenM [OF _ leads_ret]]])
qed

section \<open>Processing\<close>

text \<open>How a request ends: held, failed, or completed with its file stored and its mails sent.\<close>

definition ended :: "intelligence_service \<Rightarrow> row \<Rightarrow> row list \<Rightarrow> world \<Rightarrow> bool" where
  "ended sv r others w \<longleftrightarrow> in_state (status_is ''held'') (r ''id'') others w \<or> in_state (status_is ''failed'') (r ''id'') others w
     \<or> in_state (status_is ''completed'') (r ''id'') others w
       \<and> (\<exists>bytes. stored sv r bytes w) \<and> (\<exists>before sent. outbox w = before @ sent \<and> mailed r sent)"

lemma process_found_leads:
  assumes "BREVO_API_KEY (is_settings sv) \<noteq> []"
  shows "leads (confined (r ''id'') others) (process_found sv r) (\<lambda>_. ended sv r others) (confined (r ''id'') others)"
proof -
  have held: "leads (confined (r ''id'') others) (hold_request sv r m) (\<lambda>_. ended sv r others) (confined (r ''id'') others)" for m
    by (rule leads_weaken [OF hold_leads [of r "r ''id''", OF refl]]) (simp_all add: ended_def)
  have done_one: "leads (confined (r ''id'') others)
      (bindM (publish sv r m) (\<lambda>(r, bytes). bindM (deliver_request_pdf sv r (Some bytes)) (\<lambda>_. ret ())))
      (\<lambda>_. ended sv r others) (confined (r ''id'') others)" for m
  proof (rule leads_bindM [OF publish_leads [of r "r ''id''", OF refl]])
    fix v :: "row \<times> string"
    obtain r' bytes where v: "v = (r', bytes)" by (cases v)
    show "leads ((\<lambda>(r', bytes) w. in_state (status_is ''completed'') (r ''id'') others w \<and> stored sv r bytes w
        \<and> r' ''id'' = r ''id'' \<and> recipients_for r' = recipients_for r) v)
      (case v of (r, bytes) \<Rightarrow> bindM (deliver_request_pdf sv r (Some bytes)) (\<lambda>_. ret ()))
      (\<lambda>_. ended sv r others) (confined (r ''id'') others)"
    proof (cases "r' ''id'' = r ''id'' \<and> recipients_for r' = recipients_for r")
      case True
      then have "leads (\<lambda>w. in_state (status_is ''completed'') (r ''id'') others w \<and> stored sv r bytes w)
          (deliver_request_pdf sv r' (Some bytes)) (\<lambda>_. ended sv r others) (confined (r ''id'') others)"
        by (intro leads_weaken [OF deliver_leads [OF assms]]) (auto simp: ended_def)
      then show ?thesis unfolding v prod.case
        by (intro leads_bindM leads_ret) (auto elim: leads_weaken)
    qed (auto simp: v leads_def)
  qed
  show ?thesis
    unfolding process_found_def today_def
    by (intro leads_bindM [where B = "\<lambda>_. confined (r ''id'') others"] leads_keeps; auto intro!: notices_keep held done_one)
qed

lemma mark_failed_leads:
  "leads (confined (r ''id'') others) (mark_failed (r ''id'') e) (\<lambda>_. in_state (status_is ''failed'') (r ''id'') others) E"
  unfolding mark_failed_def
  by (rule leads_utcnow, rule update_enters(2) [where P = "status_is ''failed''", OF cells_writable(4) set_status(4)])

lemma notify_returns: "\<exists>w'. notify_admin_alert sv h d c w = (Inr (), w')"
proof (cases "bi_recipient (is_settings sv) = []")
  case False
  let ?a = "\<lparr>a_category = c, a_heading = h, a_details = d, a_key = [], a_window = None, a_severity = ''error''\<rparr>"
  obtain b w' where "send_alert_to (bi_recipient (is_settings sv)) ''b2b_admin_alert'' ?a (Some (is_settings sv)) w = (Inr b, w')"
    using send_admin_alert_returns(1) by blast
  then show ?thesis using False by (simp add: notify_admin_alert_def Let_def world_simps)
qed (simp add: notify_admin_alert_def Let_def world_simps)

lemma notify_leads:
  "leads (in_state P i others) (notify_admin_alert sv h d c) (\<lambda>_. in_state P i others) E"
  unfolding leads_def
proof (intro allI impI)
  fix w assume a: "in_state P i others w"
  obtain w' where w': "notify_admin_alert sv h d c w = (Inr (), w')" using notify_returns by blast
  have "in_state P i others (snd (notify_admin_alert sv h d c w))" by (rule keepsD [OF notices_keep(2) a])
  then show "case notify_admin_alert sv h d c w of (Inl _, w') \<Rightarrow> E w' | (Inr v, w') \<Rightarrow> in_state P i others w'"
    by (simp add: w')
qed

lemma found_same: "storage_path (add_download_url r) = storage_path r" "recipients_for (add_download_url r) = recipients_for r"
    "add_download_url r ''id'' = r ''id''"
  by (simp_all add: add_download_url_def storage_path_def recipients_for_def recipients_raw_def)

lemma get_request_healthy:
  "healthy w \<Longrightarrow> rows_with w REQUESTS ''id'' i = r # rs \<Longrightarrow> get_request i PNone True w = (Inr (Some (add_download_url r)), w)"
  by (simp add: get_request_def fetch_select_eq table_defs without_metrics_def world_simps)

lemma stored_download:
  "stored sv r bytes w \<Longrightarrow> storage_download (is_settings sv) ''reports'' (storage_path r) w = (Inr bytes, w)"
  by (auto simp: stored_def storage_download_def read_file_def world_simps)

lemma leads_value: "leads A m B (\<lambda>_. False) \<Longrightarrow> A w \<Longrightarrow> \<exists>v w'. m w = (Inr v, w') \<and> B v w'"
  unfolding leads_def by (cases "m w"; cases "fst (m w)") fastforce+

lemma process_ends:
  assumes "BREVO_API_KEY (is_settings sv) \<noteq> []" and "confined (r ''id'') others w"
    and "get_request (r ''id'') PNone True w = (Inr (Some r), w)"
  shows "\<exists>w'. process_request sv (r ''id'') w = (Inr (), w') \<and> ended sv r others w'"
proof -
  let ?m = "tryM (process_found sv r) (\<lambda>e. thenM (mark_failed (r ''id'') e)
         (notify_admin_alert sv ''A Business Intelligence report failed to generate'' [
            (''Request ID'', r ''id''), (''Product'', r ''product_type''), (''Period'', period_text r),
            (''Error'', PStr (take 300 (str_of_exc e)))] ALERT_BI_GENERATION))"
  have "leads (confined (r ''id'') others) ?m (\<lambda>_. ended sv r others) (\<lambda>_. False)"
  proof (rule leads_tryM [OF process_found_leads [OF assms(1)]])
    fix e
    show "leads (confined (r ''id'') others) (thenM (mark_failed (r ''id'') e)
         (notify_admin_alert sv ''A Business Intelligence report failed to generate'' [
            (''Request ID'', r ''id''), (''Product'', r ''product_type''), (''Period'', period_text r),
            (''Error'', PStr (take 300 (str_of_exc e)))] ALERT_BI_GENERATION)) (\<lambda>_. ended sv r others) (\<lambda>_. False)"
      by (rule leads_thenM [OF mark_failed_leads], rule leads_weaken [OF notify_leads]) (auto simp: ended_def)
  qed
  then have "\<exists>v w'. ?m w = (Inr v, w') \<and> ended sv r others w'"
    by (rule leads_value) (rule assms(2))
  moreover have "process_request sv (r ''id'') w = ?m w" using assms(3) by (simp add: process_request_def world_simps)
  ultimately show ?thesis by simp
qed

end
