(* ===== verification/Signal_Lemmas.thy ===== *)
theory Signal_Lemmas
  imports Signal_Facts
begin

text \<open>
  Counting and composing: reducing the rows of a period gives the sum of the facts of its parts.
\<close>

section \<open>Counters\<close>

lemma map_of_counter_add: "map_of (counter_add c l n) = (map_of c)(l \<mapsto> counter_get c l + n)"
  by (simp add: counter_add_def update_conv')

lemma counter_get_add [simp]: "counter_get (counter_add c l n) k = (if k = l then counter_get c l + n else counter_get c k)"
  by (simp add: counter_get_def [of "counter_add c l n"] map_of_counter_add) (simp add: counter_get_def)

lemma keys_counter_add [simp]: "fst ` set (counter_add c l n) = insert l (fst ` set c)"
  by (simp add: counter_add_def dom_update)

lemma distinct_counter_add [simp]: "distinct (map fst c) \<Longrightarrow> distinct (map fst (counter_add c l n))"
  by (simp add: counter_add_def distinct_update)

lemma counter_add_new: "l \<notin> fst ` set c \<Longrightarrow> counter_add c l n = c @ [(l, n)]"
  unfolding counter_add_def by (induction c) (auto simp: counter_get_def)

lemma update_twice: "AList.update k v (AList.update k v' c) = AList.update k v c"
  by (induction c) auto

lemma counter_add_twice: "counter_add (counter_add c l n) l m = counter_add c l (n + m)"
  by (simp add: counter_add_def [of _ l m]) (simp add: counter_add_def update_twice add.assoc)

lemma update_commute_in: "k \<noteq> l \<Longrightarrow> l \<in> fst ` set c \<Longrightarrow> AList.update l u (AList.update k v c) = AList.update k v (AList.update l u c)"
  by (induction c) auto

lemma counter_add_commute:
  assumes "k \<noteq> l" and "l \<in> fst ` set c"
  shows "counter_add (counter_add c k n) l m = counter_add (counter_add c l m) k n"
proof -
  have "counter_get (counter_add c k n) l = counter_get c l" "counter_get (counter_add c l m) k = counter_get c k"
    using assms(1) by simp_all
  then show ?thesis
    using update_commute_in [OF assms] by (simp add: counter_add_def)
qed

lemma counter_update_append: "counter_update c (d @ e) = counter_update (counter_update c d) e"
  by (induction c d rule: counter_update.induct) auto

lemma counter_update_keys: "fst ` set (counter_update c d) = fst ` set c \<union> fst ` set d"
  by (induction c d rule: counter_update.induct) auto

lemma distinct_counter_update: "distinct (map fst c) \<Longrightarrow> distinct (map fst (counter_update c d))"
  by (induction c d rule: counter_update.induct) auto

lemma counter_update_add:
  assumes "l \<notin> fst ` set d" and "l \<in> fst ` set c"
  shows "counter_add (counter_update c d) l m = counter_update (counter_add c l m) d"
  using assms
proof (induction c d rule: counter_update.induct)
  case (2 c label n counts)
  have "counter_add (counter_add c label n) l m = counter_add (counter_add c l m) label n"
    using 2 by (intro counter_add_commute) auto
  then show ?case using 2 by simp
qed simp

lemma counter_update_counter_add:
  assumes "distinct (map fst d)"
  shows "counter_update c (counter_add d l m) = counter_add (counter_update c d) l m"
proof (cases "l \<in> fst ` set d")
  case False
  then show ?thesis by (simp add: counter_add_new counter_update_append)
next
  case True
  then obtain n d1 d2 where d: "d = d1 @ (l, n) # d2" by (metis imageE prod.collapse split_list)
  have l: "l \<notin> fst ` set d1" "l \<notin> fst ` set d2" using assms unfolding d by auto
  have "counter_get d l = n" unfolding d using l(1)
    by (simp add: counter_get_def map_add_def map_of_eq_None_iff [THEN iffD2])
  moreover have "AList.update l v d = d1 @ (l, v) # d2" for v
    unfolding d using l(1) by (induction d1) auto
  ultimately have "counter_add d l m = d1 @ (l, n + m) # d2" by (simp add: counter_add_def)
  then show ?thesis
    using counter_update_add [OF l(2), of "counter_add (counter_update c d1) l n" m]
    by (simp add: d counter_update_append counter_add_twice)
qed

lemma tally_append: "tally_onto c (a @ b) = tally_onto (tally_onto c a) b"
  by (induction c a rule: tally_onto.induct) auto

lemma tally_distinct: "distinct (map fst c) \<Longrightarrow> distinct (map fst (tally_onto c ls))"
  by (induction c ls rule: tally_onto.induct) auto

lemma counter_update_tally: "counter_update c (tally ls) = tally_onto c ls"
proof (induction ls rule: rev_induct)
  case (snoc l ls)
  then show ?case by (simp add: tally_append counter_update_counter_add tally_distinct)
qed simp

lemma counter_get_tally: "counter_get (tally_onto c ls) l = counter_get c l + int (count_list ls l)"
  by (induction c ls rule: tally_onto.induct) auto

lemma counter_update_nil: "distinct (map fst d) \<Longrightarrow> counter_update [] d = d"
proof (induction d rule: rev_induct)
  case (snoc p d)
  then show ?case by (cases p) (simp add: counter_update_append counter_add_new)
qed simp

section \<open>Rows in two parts\<close>

lemma collectE_append: "collectE f (xs @ ys) = bindE (collectE f xs) (\<lambda>a. bindE (collectE f ys) (\<lambda>b. Inr (a @ b)))"
proof (induction xs)
  case Nil
  then show ?case by (cases "collectE f ys") auto
next
  case (Cons x xs)
  then show ?case by (cases "f x"; cases "collectE f xs"; cases "collectE f ys") auto
qed

definition merge_section :: "facts_section \<Rightarrow> facts_section \<Rightarrow> facts_section" where
  "merge_section a b = a\<lparr>fs_counts := counter_update (fs_counts a) (fs_counts b), fs_stats := add_stats (fs_stats a) (fs_stats b)\<rparr>"

definition merge_facts :: "signal_facts \<Rightarrow> signal_facts \<Rightarrow> signal_facts" where
  "merge_facts a b = \<lparr>signal_count = signal_count a + signal_count b,
     fact_sections = map2 merge_section (fact_sections a) (fact_sections b)\<rparr>"

lemma declared_positive: "declared_headcount r = Inr vs \<Longrightarrow> \<forall>v \<in> set vs. 0 < v"
  by (auto simp: declared_headcount_def bindE_def split: sum.splits if_splits)

lemma collected_positive: "collectE declared_headcount rows = Inr vs \<Longrightarrow> \<forall>v \<in> set vs. 0 < v"
proof (induction rows arbitrary: vs)
  case (Cons r rows)
  from Cons.prems obtain a b where ab: "declared_headcount r = Inr a" "collectE declared_headcount rows = Inr b" "vs = a @ b"
    by (auto simp: bindE_def split: sum.splits)
  then show ?case using declared_positive [OF ab(1)] Cons.IH [OF ab(2)] by auto
qed simp

lemma Max_nonneg: "\<forall>v \<in> set vs. 0 < v \<Longrightarrow> 0 \<le> (if vs = [] then 0 else Max (set vs :: int set))"
  using Max_in [of "set vs"] by (auto intro: less_imp_le)

lemma Max_append:
  assumes "\<forall>v \<in> set a. 0 < v" and "\<forall>v \<in> set b. 0 < v"
  shows "(if a @ b = [] then 0 else Max (set (a @ b)))
    = max (if a = [] then 0 else Max (set a)) (if b = [] then 0 else Max (set b) :: int)"
  using Max_nonneg [OF assms(1)] Max_nonneg [OF assms(2)] by (auto simp: Max_Un split: if_splits)

lemma headcount_append:
  assumes "headcount_stats a = Inr ha" and "headcount_stats b = Inr hb"
  shows "headcount_stats (a @ b) = Inr (add_stats ha hb)"
proof -
  from assms obtain va vb where v: "collectE declared_headcount a = Inr va" "collectE declared_headcount b = Inr vb"
    by (auto simp: headcount_stats_def bindE_def split: sum.splits)
  have h: "ha = \<lparr>values_count = int (length va), values_sum = sum_list va,
          values_max = (if va = [] then 0 else Max (set va)), rows_total = int (length a)\<rparr>"
    "hb = \<lparr>values_count = int (length vb), values_sum = sum_list vb,
          values_max = (if vb = [] then 0 else Max (set vb)), rows_total = int (length b)\<rparr>"
    using assms v by (simp_all add: headcount_stats_def)
  show ?thesis
    unfolding h add_stats_def headcount_stats_def collectE_append v
    using Max_append [OF collected_positive [OF v(1)] collected_positive [OF v(2)]] by simp
qed

lemma section_append:
  assumes "section_facts today a s = Inr sa" and "section_facts today b s = Inr sb"
  shows "section_facts today (a @ b) s = Inr (map2 merge_section sa sb)"
proof (cases "spec_kind s = ''headcount''")
  case True
  then show ?thesis
    using assms headcount_append
    by (auto simp: section_facts_def bindE_def merge_section_def split: sum.splits)
next
  case False
  then have k: "known_kind (spec_kind s)" using assms by (auto simp: section_facts_def split: if_splits)
  from False k assms obtain la lb where l: "collectE (row_labels_of today s) a = Inr la" "collectE (row_labels_of today s) b = Inr lb"
    by (auto simp: section_facts_def bindE_def split: sum.splits)
  have "add_stats no_stats no_stats = no_stats" by (simp add: add_stats_def no_stats_def)
  then show ?thesis
    using assms False k l
    by (simp add: section_facts_def collectE_append merge_section_def counter_update_tally tally_append)
       (auto simp: collectE_append counter_update_tally tally_append merge_section_def)
qed

lemma section_single: "section_facts today rows s = Inr ss \<Longrightarrow> \<exists>x. ss = [x] \<and> fs_title x = spec_title s \<and> fs_key x = spec_key s
    \<and> fs_kind x = (if spec_kind s \<in> {''headcount'', ''crosstab''} then spec_kind s else ''counter'')"
  by (auto simp: section_facts_def bindE_def split: sum.splits if_splits)

lemma sections_append:
  assumes "collectE (section_facts today a) specs = Inr sa" and "collectE (section_facts today b) specs = Inr sb"
  shows "collectE (section_facts today (a @ b)) specs = Inr (map2 merge_section sa sb)"
  using assms
proof (induction specs arbitrary: sa sb)
  case (Cons s specs)
  from Cons.prems obtain xa xs xb ys where
    "section_facts today a s = Inr xa" "collectE (section_facts today a) specs = Inr xs" "sa = xa @ xs"
    "section_facts today b s = Inr xb" "collectE (section_facts today b) specs = Inr ys" "sb = xb @ ys"
    by (auto simp: bindE_def split: sum.splits)
  then show ?case
    using section_append [of today a s xa b xb] Cons.IH [of xs ys] section_single [of today a s xa] section_single [of today b s xb]
    by auto
qed simp

lemma facts_append:
  assumes "facts_from_specs today specs a = Inr fa" and "facts_from_specs today specs b = Inr fb"
  shows "facts_from_specs today specs (a @ b) = Inr (merge_facts fa fb)"
proof -
  from assms obtain sa sb where "collectE (section_facts today a) specs = Inr sa" "collectE (section_facts today b) specs = Inr sb"
    by (auto simp: facts_from_specs_def bindE_def split: sum.splits)
  then show ?thesis
    using assms sections_append by (auto simp: facts_from_specs_def merge_facts_def)
qed


section \<open>Composition\<close>

text \<open>The state of the composition after sections with different titles have been read.\<close>

definition holding :: "facts_section list \<Rightarrow> composition" where
  "holding ss = \<lparr>section_order = map section_id ss,
     counters = map (\<lambda>s. (section_id s, fs_counts s)) (filter (\<lambda>s. fs_kind s \<noteq> ''headcount'') ss),
     headcounts = map (\<lambda>s. (section_id s, fs_stats s)) (filter (\<lambda>s. fs_kind s = ''headcount'') ss)\<rparr>"

text \<open>A section as a writer makes it: only the part its kind has.\<close>

definition plain :: "facts_section \<Rightarrow> bool" where
  "plain s \<longleftrightarrow> fs_kind s \<noteq> [] \<and> (if fs_kind s = ''headcount'' then fs_counts s = [] \<and> 0 \<le> values_max (fs_stats s)
     else fs_stats s = no_stats \<and> distinct (map fst (fs_counts s)))"

lemma id_kind: "section_id s = section_id t \<Longrightarrow> fs_kind s = fs_kind t"
  by (simp add: section_id_def)

lemma update_middle: "k \<notin> fst ` set a \<Longrightarrow> AList.update k v (a @ (k, u) # b) = a @ (k, v) # b"
  by (induction a) auto

lemma map_of_middle: "k \<notin> fst ` set a \<Longrightarrow> map_of (a @ (k, u) # b) k = Some u"
  by (simp add: map_add_def map_of_eq_None_iff [THEN iffD2])

lemma map_of_absent: "k \<notin> fst ` set a \<Longrightarrow> map_of a k = None"
  by (simp add: map_of_eq_None_iff)

lemma not_held:
  assumes "section_id s \<notin> section_id ` set ss"
  shows "section_id s \<notin> fst ` set (counters (holding ss))" "section_id s \<notin> fst ` set (headcounts (holding ss))"
  using assms by (auto simp: holding_def)

lemma compose_new:
  assumes "section_id s \<notin> section_id ` set ss" and "plain s"
  shows "compose_section s (holding ss) = holding (ss @ [s])"
proof -
  note n = not_held [OF assms(1), THEN map_of_absent] not_held [OF assms(1)]
  have u: "AList.update k v a = a @ [(k, v)]" if "k \<notin> fst ` set a" for k v and a :: "(section_ident \<times> 'x) list"
    using that by (induction a) auto
  show ?thesis
  proof (cases "fs_kind s = ''headcount''")
    case True
    then have "add_stats no_stats (fs_stats s) = fs_stats s"
      using assms(2) by (simp add: add_stats_def no_stats_def plain_def)
    then show ?thesis
      using True n by (simp add: compose_section_def Let_def u) (simp add: holding_def)
  next
    case False
    then have "counter_update [] (fs_counts s) = fs_counts s"
      using assms(2) by (simp add: counter_update_nil plain_def)
    then show ?thesis
      using False n by (simp add: compose_section_def Let_def u) (simp add: holding_def)
  qed
qed

lemma compose_held:
  assumes "section_id s \<notin> section_id ` set a" and "section_id t = section_id s" and "plain s" and "plain t"
  shows "compose_section t (holding (a @ s # b)) = holding (a @ merge_section s t # b)"
proof -
  have k: "fs_kind t = fs_kind s" "section_id (merge_section s t) = section_id s" "fs_kind (merge_section s t) = fs_kind s"
    using id_kind [OF assms(2)] by (simp_all add: merge_section_def section_id_def)
  note n = not_held [OF assms(1)]
  show ?thesis
  proof (cases "fs_kind s = ''headcount''")
    case True
    then show ?thesis
      using n k assms(2) unfolding compose_section_def Let_def
      by (simp add: holding_def update_middle map_of_middle merge_section_def del: map_of_append)
  next
    case False
    then show ?thesis
      using n k assms(2) unfolding compose_section_def Let_def
      by (simp add: holding_def update_middle map_of_middle merge_section_def del: map_of_append)
  qed
qed

lemma plain_merge: "plain s \<Longrightarrow> plain t \<Longrightarrow> section_id s = section_id t \<Longrightarrow> plain (merge_section s t)"
  by (auto simp: plain_def merge_section_def add_stats_def no_stats_def section_id_def distinct_counter_update split: if_splits)

lemma compose_first:
  assumes "distinct (map section_id (a @ ss))" and "\<forall>s \<in> set ss. plain s"
  shows "compose_sections ss (holding a) = holding (a @ ss)"
  using assms
proof (induction ss arbitrary: a)
  case (Cons s ss)
  then have "compose_section s (holding a) = holding (a @ [s])" by (intro compose_new) auto
  then show ?case using Cons.IH [of "a @ [s]"] Cons.prems by (simp add: compose_sections_def)
qed (simp add: compose_sections_def)

lemma compose_next:
  assumes "map section_id ts = map section_id ss" and "distinct (map section_id (a @ ss))"
    and "\<forall>s \<in> set (ss @ ts). plain s"
  shows "compose_sections ts (holding (a @ ss)) = holding (a @ map2 merge_section ss ts)"
  using assms
proof (induction ss arbitrary: a ts)
  case (Cons s ss)
  then obtain t ts' where t: "ts = t # ts'" "section_id t = section_id s" "map section_id ts' = map section_id ss" by auto
  have "compose_section t (holding (a @ s # ss)) = holding ((a @ [merge_section s t]) @ ss)"
    using Cons.prems t by (simp add: compose_held)
  moreover have "section_id (merge_section s t) = section_id s" by (simp add: merge_section_def section_id_def)
  ultimately show ?case
    using Cons.IH [of ts' "a @ [merge_section s t]"] Cons.prems t by (simp add: compose_sections_def)
qed (simp add: compose_sections_def)

text \<open>The sections a layout makes.\<close>

definition spec_id :: "section_spec \<Rightarrow> section_ident" where
  "spec_id s = (if spec_kind s \<in> {''headcount'', ''crosstab''} then spec_kind s else ''counter'', spec_title s, spec_key s)"

lemma section_specs_distinct: "distinct (map spec_id (section_specs product_type))"
  by (auto simp: section_specs_def SECTION_SPECS_def DEFAULT_SECTION_SPECS_def spec_def spec_id_def
      dest!: map_of_SomeD split: option.splits)

lemma section_facts_plain:
  assumes "section_facts today rows s = Inr ss"
  shows "\<exists>x. ss = [x] \<and> section_id x = spec_id s \<and> plain x"
proof -
  have "0 \<le> values_max h" if "headcount_stats rows = Inr h" for h
    using that Max_nonneg collected_positive by (auto simp: headcount_stats_def bindE_def split: sum.splits)
  note max = this
  show ?thesis
  proof (cases "spec_kind s = ''headcount''")
    case True
    then obtain h where "headcount_stats rows = Inr h" "ss = [\<lparr>fs_title = spec_title s, fs_key = spec_key s,
        fs_kind = ''headcount'', fs_counts = [], fs_stats = h\<rparr>]"
      using assms by (auto simp: section_facts_def bindE_def split: sum.splits)
    then show ?thesis using max True by (simp add: plain_def section_id_def spec_id_def)
  next
    case False
    then obtain labels where "ss = [\<lparr>fs_title = spec_title s, fs_key = spec_key s,
        fs_kind = (if spec_kind s = ''crosstab'' then ''crosstab'' else ''counter''), fs_counts = tally labels, fs_stats = no_stats\<rparr>]"
      using assms by (auto simp: section_facts_def bindE_def split: sum.splits if_splits)
    then show ?thesis using False by (simp add: plain_def section_id_def spec_id_def tally_distinct)
  qed
qed

lemma sections_plain:
  assumes "collectE (section_facts today rows) specs = Inr ss"
  shows "map section_id ss = map spec_id specs \<and> (\<forall>x \<in> set ss. plain x)"
  using assms
proof (induction specs arbitrary: ss)
  case (Cons s specs)
  then obtain a b where "section_facts today rows s = Inr a" "collectE (section_facts today rows) specs = Inr b" "ss = a @ b"
    by (auto simp: bindE_def split: sum.splits)
  then show ?case using section_facts_plain [of today rows s a] Cons.IH [of b] by auto
qed simp

lemma facts_plain:
  "facts_from_specs today specs rows = Inr f
    \<Longrightarrow> map section_id (fact_sections f) = map spec_id specs \<and> (\<forall>x \<in> set (fact_sections f). plain x)
      \<and> signal_count f = int (length rows)"
  using sections_plain by (auto simp: facts_from_specs_def bindE_def split: sum.splits)

lemma map_of_filtered:
  "distinct (map section_id ss) \<Longrightarrow> s \<in> set ss \<Longrightarrow> P s
    \<Longrightarrow> map_of (map (\<lambda>s. (section_id s, g s)) (filter P ss)) (section_id s) = Some (g s)"
  by (induction ss) (auto simp: image_iff)

lemma composed_holding:
  assumes "distinct (map section_id ss)" and "\<forall>s \<in> set ss. plain s"
  shows "map (composed_section (holding ss)) (map section_id ss) = ss"
proof -
  have "composed_section (holding ss) (section_id s) = s" if s: "s \<in> set ss" for s
  proof (cases "fs_kind s = ''headcount''")
    case True
    then have "map_of (headcounts (holding ss)) (section_id s) = Some (fs_stats s)"
      using map_of_filtered [OF assms(1) s, of "\<lambda>s. fs_kind s = ''headcount''"] by (simp add: holding_def)
    then show ?thesis using assms(2) s True by (auto simp: composed_section_def section_id_def plain_def)
  next
    case False
    then have "map_of (counters (holding ss)) (section_id s) = Some (fs_counts s)"
      using map_of_filtered [OF assms(1) s, of "\<lambda>s. fs_kind s \<noteq> ''headcount''"] by (simp add: holding_def)
    then show ?thesis using assms(2) s False by (auto simp: composed_section_def section_id_def plain_def)
  qed
  then show ?thesis by (simp add: map_idI)
qed

definition composed :: "signal_facts list \<Rightarrow> composition" where
  "composed fs = fold (\<lambda>facts. compose_sections (fact_sections facts)) fs \<lparr>section_order = [], counters = [], headcounts = []\<rparr>"

lemma composed_snoc: "composed (fs @ [f]) = compose_sections (fact_sections f) (composed fs)"
  by (simp add: composed_def)

lemma holding_Nil: "holding [] = composed []"
  by (simp add: holding_def composed_def)

lemma composed_concat:
  assumes "parts \<noteq> []" and "distinct (map spec_id specs)"
    and "\<forall>p \<in> set parts. facts_from_specs today specs p = Inr (f p)"
  shows "\<exists>g. facts_from_specs today specs (concat parts) = Inr g \<and> composed (map f parts) = holding (fact_sections g)"
  using assms(1,3)
proof (induction parts rule: rev_nonempty_induct)
  case (single p)
  then have p: "facts_from_specs today specs p = Inr (f p)" by simp
  have "composed (map f [p]) = compose_sections (fact_sections (f p)) (holding [])"
    using composed_snoc [of "[]"] by (simp add: holding_Nil)
  then show ?case
    using p facts_plain [OF p] assms(2) compose_first [of "[]" "fact_sections (f p)"] by simp
next
  case (snoc p parts)
  then obtain g where g: "facts_from_specs today specs (concat parts) = Inr g" "composed (map f parts) = holding (fact_sections g)"
    by auto
  have p: "facts_from_specs today specs p = Inr (f p)" using snoc.prems by simp
  note fp = facts_plain [OF p] and gp = facts_plain [OF g(1)]
  have "composed (map f (parts @ [p])) = holding (map2 merge_section (fact_sections g) (fact_sections (f p)))"
    using compose_next [of "fact_sections (f p)" "fact_sections g" "[]"] fp gp assms(2) g(2)
    by (simp add: composed_snoc) auto
  then show ?case using facts_append [OF g(1) p] by (simp add: merge_facts_def)
qed

lemma compose_facts_composed:
  "compose_facts fs = \<lparr>signal_count = sum_list (map signal_count fs),
     fact_sections = map (composed_section (composed fs)) (section_order (composed fs))\<rparr>"
  by (simp add: compose_facts_def composed_def Let_def)

lemma sum_lengths: "\<forall>p \<in> set parts. signal_count (f p) = int (length p) \<Longrightarrow> sum_list (map (\<lambda>p. signal_count (f p)) parts) = int (length (concat parts))"
  by (induction parts) auto

lemma compose_months:
  assumes "parts \<noteq> []" and "distinct (map spec_id specs)"
    and "\<forall>p \<in> set parts. facts_from_specs today specs p = Inr (f p)"
  shows "facts_from_specs today specs (concat parts) = Inr (compose_facts (map f parts))"
proof -
  obtain g where g: "facts_from_specs today specs (concat parts) = Inr g" "composed (map f parts) = holding (fact_sections g)"
    using composed_concat [OF assms] by blast
  note gp = facts_plain [OF g(1)]
  have "map (composed_section (holding (fact_sections g))) (section_order (holding (fact_sections g))) = fact_sections g"
    using composed_holding [of "fact_sections g"] gp assms(2) by (simp add: holding_def [THEN arg_cong [where f = section_order]])
  moreover have "sum_list (map (signal_count \<circ> f) parts) = signal_count g"
    using sum_lengths [of parts f] assms(3) facts_plain gp by (fastforce simp: comp_def)
  ultimately show ?thesis
    using g(1) by (simp add: compose_facts_composed g(2))
qed

lemma raw_facts_concat:
  assumes "parts \<noteq> []" and "\<forall>p \<in> set parts. build_raw_facts d product_type p = Inr (f p)"
  shows "build_raw_facts d product_type (concat parts) = Inr (compose_facts (map f parts))"
  using compose_months [OF assms(1) section_specs_distinct, of d product_type f] assms(2)
  by (simp add: build_raw_facts_def)

section \<open>Stored and read back\<close>

lemma counts_round_trip: "read_counts (counts_value c) = c"
  by (simp add: read_counts_def counts_value_def comp_def case_prod_unfold)

lemma section_round_trip: "plain s \<Longrightarrow> (fs_kind s = ''headcount'' \<or> fs_stats s = no_stats) \<Longrightarrow> read_section (section_value s) = s"
  by (auto simp: read_section_def section_value_def plain_def counts_round_trip read_stats_def stats_value_def no_stats_def
      read_counts_def [of PNone])

lemma facts_round_trip:
  assumes "facts_from_specs d specs rows = Inr f"
  shows "read_facts (facts_value f) = f"
proof -
  have "read_section (section_value s) = s" if "s \<in> set (fact_sections f)" for s
  proof -
    have "plain s" using facts_plain [OF assms] that by blast
    then show ?thesis by (intro section_round_trip) (auto simp: plain_def split: if_splits)
  qed
  then show ?thesis by (simp add: read_facts_def facts_value_def map_idI)
qed

end
