(* ===== verification/Intelligence_Properties.thy ===== *)
theory Intelligence_Properties
  imports Signal_Lemmas Packages
begin

text \<open>
  What the facts of business intelligence and their rendering guarantee: months add up to the whole,
  nothing below a privacy floor is drawn as a segment, and a preview agrees with the package.
\<close>

section \<open>Months add up\<close>

definition sample_signal :: "string \<Rightarrow> int \<Rightarrow> row" where
  "sample_signal country crew = (\<lambda>c. if c = ''territory'' then PStr country else if c = ''crew_size'' then PInt crew
     else if c = ''genres'' then PList [PStr ''drama'', PStr ''crime''] else if c = ''format'' then PStr ''tv_series''
     else if c = ''submission_date'' then PDate 20000 else PNone)"

text \<open>
  C17: Reducing the signals of a period to the sections of a product gives the same facts as summing
  the facts of its parts with \<open>compose_facts\<close>, label by label and in the same order: monthly aggregates
  lose nothing a direct count of the period would show.
\<close>

theorem months_compose_to_the_whole:
  assumes "parts \<noteq> []" and "\<forall>p \<in> set parts. build_raw_facts d product_type p = Inr (f p)"
  shows "build_raw_facts d product_type (concat parts) = Inr (compose_facts (map f parts))"
  by (rule raw_facts_concat [OF assms])

lemma known_right: "\<not> isl x \<Longrightarrow> x = Inr (projr x)"
  by (cases x) simp_all

theorem months_compose_to_the_whole_witness:
  "build_raw_facts 0 ''production_services'' (concat [[sample_signal ''Spain'' 40, sample_signal ''Italy'' 12], [sample_signal ''Spain'' 90]])
    = Inr (compose_facts (map (\<lambda>p. projr (build_raw_facts 0 ''production_services'' p))
        [[sample_signal ''Spain'' 40, sample_signal ''Italy'' 12], [sample_signal ''Spain'' 90]]))"
proof (rule months_compose_to_the_whole)
  have "\<not> isl (build_raw_facts 0 ''production_services'' [sample_signal ''Spain'' 40, sample_signal ''Italy'' 12])"
    "\<not> isl (build_raw_facts 0 ''production_services'' [sample_signal ''Spain'' 90])"
    by code_simp+
  note known = this [THEN known_right]
  show "\<forall>p \<in> set [[sample_signal ''Spain'' 40, sample_signal ''Italy'' 12], [sample_signal ''Spain'' 90]].
      build_raw_facts 0 ''production_services'' p = Inr (projr (build_raw_facts 0 ''production_services'' p))"
    using known by (simp only: list.set ball_simps simp_thms insert_iff empty_iff)
qed simp

section \<open>The floors\<close>

fun segment_counts :: "report_section \<Rightarrow> int list" where
  "segment_counts (Distribution_section tt key summary rows) = map (\<lambda>r. int_of (tr_count r)) rows"
| "segment_counts (Crosstab_section tt key summary cols rows cells) = filter (\<lambda>n. n \<noteq> 0) (concat cells)"
| "segment_counts _ = []"

lemma counter_section_floor:
  "list_all (\<lambda>n. PRIVACY_MIN_SEGMENT \<le> n) (segment_counts (fst (counter_section c tt key)))"
  by (auto simp: counter_section_def Let_def list_all_iff)

lemma crosstab_floor:
  "list_all (\<lambda>n. PRIVACY_MIN_SEGMENT \<le> n) (segment_counts (fst (crosstab_section s)))"
  unfolding list_all_iff
  by (auto simp: crosstab_section_def Let_def split: option.splits dest!: map_of_SomeD)

text \<open>
  C19: Whatever the facts, no segment of a distribution and no cell of a cross tabulation is rendered
  with a count below five, and a period of fewer than ten signals renders the notice alone.
\<close>

theorem no_segment_below_the_floor:
  "list_all (\<lambda>s. list_all (\<lambda>n. PRIVACY_MIN_SEGMENT \<le> n) (segment_counts s)) (mt_sections (render_facts product_type tt facts s e now extra))
   \<and> (if signal_count facts < PRIVACY_MIN_OVERALL
      then mt_sections (render_facts product_type tt facts s e now extra) = [privacy_notice]
        \<and> suppressed_segments (render_facts product_type tt facts s e now extra) = []
      else length (mt_sections (render_facts product_type tt facts s e now extra)) = length (fact_sections facts))"
proof -
  have one: "list_all (\<lambda>n. PRIVACY_MIN_SEGMENT \<le> n) (segment_counts (fst (render_section s)))" for s
    using counter_section_floor crosstab_floor
    by (simp add: render_section_def headcount_section_from_stats_def Let_def)
  show ?thesis
    using one by (simp add: render_facts_def Let_def list_all_iff privacy_notice_def)
qed

text \<open>
  The floor of five does not reach the headcount section: as soon as one signal declares a headcount
  its largest value is shown as it is, and with a single declaration that is the headcount of one production.
\<close>

definition shown_counts :: "report_section \<Rightarrow> pyval list" where
  "shown_counts s = (case s of Headcount_section tt summary rows \<Rightarrow> map tr_count rows | _ \<Rightarrow> [])"

theorem headcount_escapes_the_floor:
  assumes "collectE declared_headcount rows = Inr [n]"
  shows "bindE (section_facts d rows (spec ''headcount'' ''headcount'' ''Total Headcount Trend Analysis'' False))
           (\<lambda>ss. Inr (map (\<lambda>s. tl (shown_counts (fst (render_section s)))) ss))
         = Inr [[PFloat (round_tenth (of_int n)), PInt n]]"
proof -
  have "headcount_stats rows = Inr \<lparr>values_count = 1, values_sum = n, values_max = n, rows_total = int (length rows)\<rparr>"
    using assms by (simp add: headcount_stats_def)
  then show ?thesis
    by (simp add: section_facts_def spec_def render_section_def headcount_section_from_stats_def shown_counts_def Let_def or_text_def)
qed

theorem headcount_escapes_the_floor_witness:
  "bindE (section_facts 0 (sample_signal ''Spain'' 40 # replicate 9 (sample_signal ''Italy'' 0))
           (spec ''headcount'' ''headcount'' ''Total Headcount Trend Analysis'' False))
     (\<lambda>ss. Inr (map (\<lambda>s. tl (shown_counts (fst (render_section s)))) ss))
   = Inr [[PFloat (round_tenth (of_int 40)), PInt 40]]"
  by (rule headcount_escapes_the_floor) code_simp

section \<open>A preview and its package\<close>

lemma section_by_key_key: "section_by_key key = Some sec \<Longrightarrow> sd_key sec = key"
  by (auto simp: section_by_key_def find_Some_iff)

lemma defs_of_keys: "sec \<in> set (defs_of part keys) \<Longrightarrow> section_by_key (sd_key sec) = Some sec \<and> sd_part sec = part"
  using section_by_key_key by (fastforce simp: defs_of_def split: option.splits if_splits)

lemma defs_of_known: "defs_of part (known_keys keys) = defs_of part keys"
  unfolding defs_of_def known_keys_def by (induction keys) (auto split: option.split)

lemma signal_kinds:
  assumes "section_by_key key = Some sec" and "sd_part sec = ''signals''"
  shows "sd_kind sec \<notin> {''headcount'', ''crosstab''}"
proof -
  have "list_all (\<lambda>s. sd_kind s \<notin> {''headcount'', ''crosstab''}) SECTION_LIBRARY" by code_simp
  moreover have "sec \<in> set SECTION_LIBRARY"
    using assms(1) by (auto simp: section_by_key_def find_Some_iff)
  ultimately show ?thesis by (auto simp: list_all_iff)
qed

lemma fold_update_in:
  "key \<in> k ` fst ` set zs \<Longrightarrow>
    \<exists>x y. (x, y) \<in> set zs \<and> k x = key \<and> map_of (fold (\<lambda>(x, y). AList.update (k x) (v y)) zs acc) key = Some (v y)"
proof (induction zs rule: rev_induct)
  case (snoc z zs)
  obtain x y where z: "z = (x, y)" by fastforce
  show ?case
  proof (cases "k x = key")
    case True
    then show ?thesis by (intro exI [of _ x] exI [of _ y]) (simp add: z update_conv')
  next
    case False
    then have "key \<in> k ` fst ` set zs" using snoc.prems z by auto
    then obtain x' y' where "(x', y') \<in> set zs" "k x' = key"
      "map_of (fold (\<lambda>(x, y). AList.update (k x) (v y)) zs acc) key = Some (v y')"
      using snoc.IH by auto
    then show ?thesis using False by (intro exI [of _ x'] exI [of _ y']) (simp add: z update_conv')
  qed
qed simp

lemma collected_sections:
  "collectE (section_facts d rows) specs = Inr ss \<Longrightarrow> list_all2 (\<lambda>s x. section_facts d rows s = Inr [x]) specs ss"
proof (induction specs arbitrary: ss)
  case (Cons s specs)
  then obtain a b where ab: "section_facts d rows s = Inr a" "collectE (section_facts d rows) specs = Inr b" "ss = a @ b"
    by (auto simp: bindE_def split: sum.splits)
  then show ?case using section_single [OF ab(1)] Cons.IH [OF ab(2)] by auto
qed simp

lemma counts_of_section:
  assumes "signal_counts d keys rows = Inr counts" and "facts_from_specs d (map spec_for (defs_of ''signals'' keys)) rows = Inr facts"
  shows "list_all2 (\<lambda>sec x. map_of counts (sd_key sec) = Some (fs_counts x) \<and> fs_kind x = ''counter'')
    (defs_of ''signals'' keys) (fact_sections facts)"
proof (cases "defs_of ''signals'' keys = []")
  case True
  then show ?thesis using assms(2) by (auto simp: facts_from_specs_def)
next
  case False
  let ?defs = "defs_of ''signals'' keys"
  from assms(2) have "collectE (section_facts d rows) (map spec_for ?defs) = Inr (fact_sections facts)"
    by (auto simp: facts_from_specs_def bindE_def split: sum.splits)
  from collected_sections [OF this]
  have all: "list_all2 (\<lambda>sec x. section_facts d rows (spec_for sec) = Inr [x]) ?defs (fact_sections facts)"
    by (simp add: list_all2_map1)
  have counts: "counts = fold (\<lambda>(sec, section). AList.update (sd_key sec) (fs_counts section)) (zip ?defs (fact_sections facts)) []"
    using assms False by (simp add: signal_counts_def)
  show ?thesis
    unfolding list_all2_conv_all_nth
  proof (intro conjI allI impI)
    show len: "length ?defs = length (fact_sections facts)" using all by (rule list_all2_lengthD)
    fix i assume i: "i < length ?defs"
    let ?sec = "?defs ! i" and ?x = "fact_sections facts ! i"
    have x: "section_facts d rows (spec_for ?sec) = Inr [?x]" using all i by (simp add: list_all2_conv_all_nth)
    have sec: "section_by_key (sd_key ?sec) = Some ?sec" "sd_part ?sec = ''signals''" using defs_of_keys nth_mem [OF i] by blast+
    show "fs_kind ?x = ''counter''"
      using section_single [OF x] signal_kinds [OF sec] by (simp add: spec_for_def spec_def)
    have "(?sec, ?x) \<in> set (zip ?defs (fact_sections facts))" using i len by (metis in_set_zip fst_conv snd_conv)
    then have "sd_key ?sec \<in> sd_key ` fst ` set (zip ?defs (fact_sections facts))" by force
    from fold_update_in [OF this, of fs_counts "[]", folded counts] obtain sec' x' where z: "(sec', x') \<in> set (zip ?defs (fact_sections facts))"
      "sd_key sec' = sd_key ?sec" "map_of counts (sd_key ?sec) = Some (fs_counts x')"
      by blast
    then obtain j where j: "j < length ?defs" "sec' = ?defs ! j" "x' = fact_sections facts ! j"
      using len by (auto simp: set_zip)
    have "sec' \<in> set ?defs" using j(1,2) by simp
    then have "section_by_key (sd_key sec') = Some sec'" using defs_of_keys by blast
    then have "sec' = ?sec" using sec(1) unfolding z(2) by simp
    moreover have "section_facts d rows (spec_for sec') = Inr [x']" using all j by (simp add: list_all2_conv_all_nth)
    ultimately show "map_of counts (sd_key ?sec) = Some (fs_counts ?x)" using x z(3) by simp
  qed
qed

lemma set_most_common: "set (most_common c) = set c"
  by (simp add: most_common_def)

lemma counter_section_renders:
  "segment_counts (fst (counter_section c tt key)) = [] \<longleftrightarrow> filter (\<lambda>(label, n). PRIVACY_MIN_SEGMENT \<le> n) c = []"
proof -
  have "segment_counts (fst (counter_section c tt key)) \<noteq> [] \<longleftrightarrow> (\<exists>(label, n) \<in> set (most_common c). \<not> n < PRIVACY_MIN_SEGMENT)"
    by (auto simp: counter_section_def Let_def filter_empty_conv)
  then show ?thesis by (auto simp: set_most_common filter_empty_conv linorder_not_less)
qed

lemma preview_signal_renderable:
  "pv_renderable (preview_signal ok segs sec) \<longleftrightarrow> ok \<and> 0 < length (filter (\<lambda>(label, n). PRIVACY_MIN_SEGMENT \<le> n) segs)"
  by (simp add: preview_signal_def Let_def)

text \<open>All keys name signal sections.\<close>

definition signal_keys :: "string list \<Rightarrow> bool" where
  "signal_keys keys \<longleftrightarrow> list_all (\<lambda>key. case section_by_key key of None \<Rightarrow> False | Some sec \<Rightarrow> sd_part sec = ''signals'') keys"

lemma signal_keys_defs:
  assumes "signal_keys keys"
  shows "list_all2 (\<lambda>key sec. section_by_key key = Some sec \<and> sd_key sec = key \<and> sd_part sec = ''signals'') keys (defs_of ''signals'' keys)"
    and "defs_of ''context'' keys = []"
  using assms section_by_key_key unfolding signal_keys_def
  by (induction keys) (auto simp: defs_of_def split: option.splits)

lemma preview_all_signals:
  assumes "list_all2 (\<lambda>key sec. section_by_key key = Some sec \<and> sd_key sec = key \<and> sd_part sec = ''signals'') keys secs"
  shows "mapM (preview_key ds ok counts []) keys w
    = (Inr (map (\<lambda>sec. preview_signal ok (case map_of counts (sd_key sec) of Some c \<Rightarrow> c | None \<Rightarrow> []) sec) secs), w)"
  using assms by (induction rule: list_all2_induct) (auto simp: preview_key_def world_simps)

lemma facts_to_metrics_Inr:
  assumes "facts_to_metrics product_type facts s e extra tt w = (Inr m, w')"
  shows "\<exists>name. m = render_facts product_type name facts s e (clock w) extra \<and> w' = w"
  using assms by (auto simp: facts_to_metrics_def world_simps b2b_product_def split: if_splits prod.splits sum.splits option.splits)

lemma list_all2_map_eq: "list_all2 (\<lambda>a b. f a = g b) xs ys \<Longrightarrow> map f xs = map g ys"
  by (induction rule: list_all2_induct) auto

text \<open>
  C36: The preview of signal sections and the package composed from the same world agree: a section is
  previewed as renderable exactly when the package shows a segment in it, and when the package is
  withheld for too few signals the preview promised none.
\<close>

theorem preview_agrees_with_package:
  assumes "signal_keys (pk_section_keys pk)"
    and "preview_package ds (pk_section_keys pk) (pk_period_start pk) (pk_period_end pk) [] w = (Inr p, w1)"
    and "compose_package ds pk w = (Inr m, w2)"
  shows "map pv_renderable (pv_sections p)
    = (if insufficient_data m then replicate (length (pk_section_keys pk)) False
       else map (\<lambda>s. segment_counts s \<noteq> []) (mt_sections m))"
proof (cases "pk_section_keys pk = []")
  case True
  then show ?thesis
    using assms(2,3) facts_to_metrics_Inr
    by (fastforce simp: preview_package_def compose_package_def known_keys_def defs_of_def facts_from_specs_def world_simps Let_def
        split: prod.splits sum.splits)
next
  case False
  let ?keys = "pk_section_keys pk"
  let ?defs = "defs_of ''signals'' ?keys"
  note defs = signal_keys_defs [OF assms(1)]
  have ne: "?defs \<noteq> []" using False list_all2_lengthD [OF defs(1)] by auto
  from assms(2) obtain rows w0 counts where load: "load_signals (pk_period_start pk) (pk_period_end pk) False w = (Inr rows, w0)"
    and counts: "signal_counts (date_part (clock w0)) ?keys rows = Inr counts"
    and p: "pv_sections p = map (\<lambda>sec. preview_signal (PRIVACY_MIN_OVERALL \<le> int (length rows))
        (case map_of counts (sd_key sec) of Some c \<Rightarrow> c | None \<Rightarrow> []) sec) ?defs"
    by (auto simp: preview_package_def today_def world_simps Let_def preview_all_signals [OF defs(1)]
        split: prod.splits sum.splits)
  from assms(3) load ne obtain facts name where facts: "facts_from_specs (date_part (clock w0)) (map spec_for ?defs) rows = Inr facts"
    and m: "m = render_facts ''bespoke'' name facts (pk_period_start pk) (pk_period_end pk) (clock w0) (package_extra pk)
      \<or> (\<not> insufficient_data m \<and> insufficient_data (render_facts ''bespoke'' name facts (pk_period_start pk) (pk_period_end pk) (clock w0) (package_extra pk)) = False
         \<and> mt_sections m = mt_sections (render_facts ''bespoke'' name facts (pk_period_start pk) (pk_period_end pk) (clock w0) (package_extra pk)))"
    using facts_to_metrics_Inr
    by (fastforce simp: compose_package_def today_def world_simps Let_def defs_of_known defs(2) split: prod.splits sum.splits if_splits)
  have n: "signal_count facts = int (length rows)" using facts_plain [OF facts] by simp
  have same: "list_all2 (\<lambda>sec x. map_of counts (sd_key sec) = Some (fs_counts x) \<and> fs_kind x = ''counter'') ?defs (fact_sections facts)"
    by (rule counts_of_section [OF counts facts])
  show ?thesis
  proof (cases "signal_count facts < PRIVACY_MIN_OVERALL")
    case True
    then have "insufficient_data m" using m by (auto simp: render_facts_def Let_def)
    moreover have "map pv_renderable (pv_sections p) = replicate (length ?defs) False"
      using True n unfolding p by (simp add: preview_signal_renderable comp_def map_replicate_const)
    ultimately show ?thesis using list_all2_lengthD [OF defs(1)] by simp
  next
    case False
    then have "\<not> insufficient_data m" "mt_sections m = map (fst \<circ> render_section) (fact_sections facts)"
      using m by (auto simp: render_facts_def Let_def)
    moreover have "map pv_renderable (pv_sections p) = map (\<lambda>x. segment_counts (fst (render_section x)) \<noteq> []) (fact_sections facts)"
      unfolding p map_map using False n
      by (intro list_all2_map_eq) (auto intro!: list_all2_mono [OF same]
          simp: preview_signal_renderable render_section_def counter_section_renders)
    ultimately show ?thesis by (simp add: comp_def)
  qed
qed

lemma known_run: "\<not> isl (fst x) \<Longrightarrow> x = (Inr (projr (fst x)), snd x)"
  by (metis known_right prod.collapse)

definition shared_signal :: "string \<Rightarrow> row" where
  "shared_signal country = (sample_signal country 40)(''b2b_consent'' := PBool True, ''is_internal'' := PBool False,
     ''territories_considered'' := PList [PStr country])"

definition no_datasets :: dataset_source where
  "no_datasets = \<lparr>ds_count = (\<lambda>_. ret 0), ds_fetch = (\<lambda>_ _. ret [])\<rparr>"

definition sample_package :: package_request where
  "sample_package = \<lparr>pk_section_keys = [''sig_territory_considered'', ''sig_crew'', ''sig_camera''],
     pk_period_start = 19990, pk_period_end = 20010, pk_title = ''Slate'', pk_client_name = PNone, pk_dataset_limit = 25\<rparr>"

definition pool_world :: world where
  "pool_world = sample_world [(''production_signals'', replicate 7 (shared_signal ''Spain'') @ replicate 4 (shared_signal ''Italy''))]"

lemma sample_package_simps:
  "pk_section_keys sample_package = [''sig_territory_considered'', ''sig_crew'', ''sig_camera'']"
  by (simp add: sample_package_def)

theorem preview_agrees_with_package_witness:
  "map pv_renderable (pv_sections (projr (fst (preview_package no_datasets (pk_section_keys sample_package)
       (pk_period_start sample_package) (pk_period_end sample_package) [] pool_world))))
    = (if insufficient_data (projr (fst (compose_package no_datasets sample_package pool_world)))
       then replicate (length (pk_section_keys sample_package)) False
       else map (\<lambda>s. segment_counts s \<noteq> []) (mt_sections (projr (fst (compose_package no_datasets sample_package pool_world)))))"
  by (rule preview_agrees_with_package; (rule known_run)?; code_simp)

end
