(* ===== verification/Signal_Pool.thy ===== *)
theory Signal_Pool
  imports Formats_Regions Monthly_Aggregates
begin

text \<open>
  \<open>app/modules/b2b/composer_service.py\<close>: saved section compositions, and the view of and control over
  the pool of signals, where consent can be revoked and never granted; and the vocabulary of
  \<open>app/modules/b2b/signal_normalise.py\<close>. Log lines are left out.
\<close>

section \<open>Vocabulary of a signal\<close>

definition canonical_genres :: "pyval \<Rightarrow> string list option" where
  "canonical_genres values =
     (case (case values of PStr s \<Rightarrow> Some [PStr s] | PList vs \<Rightarrow> Some vs | _ \<Rightarrow> None) of
        None \<Rightarrow> None
      | Some vs \<Rightarrow>
         (let out = filter (\<lambda>s. s \<noteq> []) (map (\<lambda>v. lower (strip (py_str v))) vs) in
          if out = [] then None else Some out))"

text \<open>The last band has no upper bound.\<close>

definition BUDGET_BANDS_GBP :: "(rat option \<times> string) list" where
  "BUDGET_BANDS_GBP = [(Some 400000, ''micro''), (Some 4000000, ''low''), (Some 24000000, ''medium''),
     (Some 80000000, ''high''), (None, ''tentpole'')]"

definition gbp_band :: "rat option \<Rightarrow> string option" where
  "gbp_band amount =
     (case amount of None \<Rightarrow> None
      | Some a \<Rightarrow> if a \<le> 0 then None
          else map_option snd (List.find (\<lambda>(upper, label). case upper of None \<Rightarrow> True | Some u \<Rightarrow> a < u) BUDGET_BANDS_GBP))"

section \<open>Saved compositions\<close>

abbreviation TEMPLATES :: string where
  "TEMPLATES \<equiv> ''b2b_package_templates''"

definition list_templates :: "pyval \<Rightarrow> row list comp" where
  "list_templates product_type =
     (let query = tq_select ''*'' (tq TEMPLATES) in
      bindM (fetch (if truthy product_type then tq_eq ''product_type'' product_type query else query)) (\<lambda>rows.
      ret (sort_key (\<lambda>r. lower (text_of (r ''name''))) rows)))"

definition get_template :: "pyval \<Rightarrow> row option comp" where
  "get_template template_id =
     bindM (fetch (tq_eq ''id'' template_id (tq_select ''*'' (tq TEMPLATES)))) (\<lambda>rows. ret (first_row rows))"

definition get_template_by_name :: "string \<Rightarrow> row option comp" where
  "get_template_by_name name =
     bindM (fetch (tq_eq ''name'' (PStr name) (tq_select ''*'' (tq TEMPLATES)))) (\<lambda>rows. ret (first_row rows))"

record template_form =
  tf_name :: string
  tf_section_keys :: "string list"
  tf_description :: pyval
  tf_product_type :: pyval
  tf_created_by :: pyval
  tf_template_id :: string

definition template_cells :: "template_form \<Rightarrow> pyval \<Rightarrow> string \<Rightarrow> int \<Rightarrow> pydict" where
  "template_cells f i name now = [
     (''id'', i),
     (''name'', PStr name),
     (''description'', tf_description f),
     (''section_keys'', texts (tf_section_keys f)),
     (''product_type'', tf_product_type f),
     (''updated_at'', PTime now)]"

definition save_template :: "template_form \<Rightarrow> row comp" where
  "save_template f =
     (let name = strip (tf_name f) in
      if name = [] then throw (ValueError ''Template name is required'')
      else if tf_section_keys f = [] then throw (ValueError ''A template must contain at least one section'')
      else
       bindM (get_template_by_name name) (\<lambda>existing.
       if (case existing of Some e \<Rightarrow> e ''id'' \<noteq> PStr (tf_template_id f) | None \<Rightarrow> False)
       then throw (TemplateNameConflict name)
       else
        bindM (if tf_template_id f = [] then ret None else get_template (PStr (tf_template_id f))) (\<lambda>current.
        if tf_template_id f \<noteq> [] \<and> current = None
        then throw (ValueError (''Template '' @ tf_template_id f @ '' not found''))
        else
         bindM (case current of Some c \<Rightarrow> ret (c ''id'') | None \<Rightarrow> uuid4) (\<lambda>i.
         bindM (gets clock) (\<lambda>now.
         let record = template_cells f i name now in
         (case current of
            None \<Rightarrow>
             (let record = record @ [(''created_by'', tf_created_by f), (''created_at'', PTime now)] in
              bindM (fetch (tq_insert record (tq TEMPLATES))) (\<lambda>rows. ret (first_or record rows)))
          | Some c \<Rightarrow> bindM (fetch (tq_eq ''id'' i (tq_update record (tq TEMPLATES)))) (\<lambda>rows. ret (first_or record rows))))))))"

definition delete_template :: "pyval \<Rightarrow> bool comp" where
  "delete_template template_id =
     bindM (get_template template_id) (\<lambda>found.
     case found of None \<Rightarrow> ret False
     | Some _ \<Rightarrow> thenM (run (tq_eq ''id'' template_id (tq_delete (tq TEMPLATES)))) (ret True))"

section \<open>The pool of signals\<close>

abbreviation SIGNALS :: string where
  "SIGNALS \<equiv> ''production_signals''"

definition all_signals :: "int option \<Rightarrow> int option \<Rightarrow> row list comp" where
  "all_signals period_start period_end =
     (let query = tq_select ''*'' (tq SIGNALS);
          query = (case period_start of None \<Rightarrow> query | Some d \<Rightarrow> tq_gte ''submission_date'' (PDate d) query);
          query = (case period_end of None \<Rightarrow> query | Some d \<Rightarrow> tq_lte ''submission_date'' (PDate d) query) in
      fetch query)"

definition is_eligible :: "row \<Rightarrow> bool" where
  "is_eligible r = (truthy (r ''b2b_consent'') \<and> \<not> truthy (r ''is_internal''))"

record pool_counts =
  ps_total :: nat
  ps_consented :: nat
  ps_not_consented :: nat
  ps_internal :: nat
  ps_eligible :: nat
  ps_excluded :: nat
  ps_no_consent :: nat
  ps_consented_internal :: nat

definition count_rows :: "(row \<Rightarrow> bool) \<Rightarrow> row list \<Rightarrow> nat" where
  "count_rows P rows = length (filter P rows)"

definition summarise :: "row list \<Rightarrow> pool_counts" where
  "summarise rows =
     (let n = length rows;
          consented = count_rows (\<lambda>r. truthy (r ''b2b_consent'')) rows;
          eligible = count_rows is_eligible rows in
      \<lparr>ps_total = n, ps_consented = consented, ps_not_consented = n - consented,
       ps_internal = count_rows (\<lambda>r. truthy (r ''is_internal'')) rows,
       ps_eligible = eligible, ps_excluded = n - eligible,
       ps_no_consent = count_rows (\<lambda>r. \<not> truthy (r ''b2b_consent'')) rows,
       ps_consented_internal = count_rows (\<lambda>r. truthy (r ''b2b_consent'') \<and> truthy (r ''is_internal'')) rows\<rparr>)"

definition pool_summary :: "int option \<Rightarrow> int option \<Rightarrow> pool_counts comp" where
  "pool_summary period_start period_end = bindM (all_signals period_start period_end) (\<lambda>rows. ret (summarise rows))"

record pool_page =
  pp_total :: nat
  pp_limit :: nat
  pp_offset :: nat
  pp_items :: "pydict list"

definition pool_item :: "row \<Rightarrow> pydict" where
  "pool_item r = [
     (''id'', r ''id''), (''script_id'', r ''script_id''), (''submission_date'', r ''submission_date''),
     (''territory'', r ''territory''), (''home_country'', r ''home_country''), (''format'', r ''format''),
     (''b2b_consent'', PBool (truthy (r ''b2b_consent''))), (''is_internal'', PBool (truthy (r ''is_internal''))),
     (''eligible'', PBool (is_eligible r))]"

definition date_key :: "pyval \<Rightarrow> string" where
  "date_key v = (if truthy v then py_str v else [])"

definition list_signals :: "int option \<Rightarrow> int option \<Rightarrow> bool option \<Rightarrow> bool option \<Rightarrow> nat \<Rightarrow> nat \<Rightarrow> pool_page comp" where
  "list_signals period_start period_end consent internal limit offset =
     bindM (all_signals period_start period_end) (\<lambda>rows.
     let rows = (case consent of None \<Rightarrow> rows | Some b \<Rightarrow> filter (\<lambda>r. truthy (r ''b2b_consent'') = b) rows);
         rows = (case internal of None \<Rightarrow> rows | Some b \<Rightarrow> filter (\<lambda>r. truthy (r ''is_internal'') = b) rows);
         rows = rev (sort_key (\<lambda>r. date_key (r ''submission_date'')) (rev rows)) in
     ret \<lparr>pp_total = length rows, pp_limit = limit, pp_offset = offset,
          pp_items = map pool_item (take limit (drop offset rows))\<rparr>)"

definition get_signal :: "pyval \<Rightarrow> row option comp" where
  "get_signal signal_id =
     bindM (fetch (tq_eq ''id'' signal_id (tq_select ''*'' (tq SIGNALS)))) (\<lambda>rows. ret (first_row rows))"

definition set_internal :: "pyval \<Rightarrow> bool \<Rightarrow> row option comp" where
  "set_internal signal_id internal =
     bindM (get_signal signal_id) (\<lambda>found.
     case found of None \<Rightarrow> ret None
     | Some _ \<Rightarrow>
       bindM utcnow (\<lambda>now.
       thenM (run (tq_eq ''id'' signal_id (tq_update [(''is_internal'', PBool internal), (''updated_at'', now)] (tq SIGNALS))))
       (get_signal signal_id)))"

definition set_consent :: "pyval \<Rightarrow> bool \<Rightarrow> row option comp" where
  "set_consent signal_id consent =
     (if consent then throw ConsentGrantRefused
      else
       bindM (get_signal signal_id) (\<lambda>found.
       case found of None \<Rightarrow> ret None
       | Some _ \<Rightarrow>
         bindM utcnow (\<lambda>now.
         thenM (run (tq_eq ''id'' signal_id (tq_update [(''b2b_consent'', PBool False), (''updated_at'', now)] (tq SIGNALS))))
         (get_signal signal_id))))"

end
