(* ===== verification/Aggregate_Properties.thy ===== *)
theory Aggregate_Properties
  imports Intelligence_Properties Signal_Pool Deliveries "HOL-Library.Multiset"
begin

text \<open>
  Stored months: that composing them shows what a direct query of the period would, and that they are
  never read again from the signals, whatever happens to those afterwards.
\<close>

section \<open>The signals of a period\<close>

abbreviation signals :: "world \<Rightarrow> row list" where
  "signals w \<equiv> tables w ''production_signals''"

definition in_period :: "int \<Rightarrow> int \<Rightarrow> row \<Rightarrow> bool" where
  "in_period s e r \<longleftrightarrow> (case r ''submission_date'' of PDate d \<Rightarrow> s \<le> d \<and> d \<le> e | _ \<Rightarrow> False)
     \<and> r ''b2b_consent'' = PBool True \<and> r ''is_internal'' = PBool False"

text \<open>The column holds dates, and the read is not cut by the cap on rows.\<close>

definition pool_ok :: "world \<Rightarrow> bool" where
  "pool_ok w \<longleftrightarrow> healthy w \<and> length (signals w) \<le> max_rows w
     \<and> (\<forall>r \<in> set (signals w). r ''submission_date'' = PNone \<or> (\<exists>d. r ''submission_date'' = PDate d))"

lemma load_signals_healthy:
  assumes "pool_ok w"
  shows "load_signals s e False w = (Inr (filter (in_period s e) (signals w)), w)"
proof -
  have f: "filter (\<lambda>r. sql_le (PDate s) (r ''submission_date'') \<and> sql_le (r ''submission_date'') (PDate e)
       \<and> r ''b2b_consent'' = PBool True \<and> r ''is_internal'' = PBool False) (signals w) = filter (in_period s e) (signals w)"
    using assms by (intro filter_cong) (auto simp: pool_ok_def in_period_def sql_le_def)
  have len: "length (filter P (signals w)) \<le> max_rows w" for P
    using assms length_filter_le [of P "signals w"] unfolding pool_ok_def by linarith
  have m: "filter (matches [F_gte ''submission_date'' (PDate s), F_lte ''submission_date'' (PDate e),
       F_eq ''b2b_consent'' (PBool True), F_eq ''is_internal'' (PBool False)]) (signals w) = filter (in_period s e) (signals w)"
    unfolding f [symmetric] matches_def by (rule filter_cong) simp_all
  show ?thesis
    using assms len m unfolding load_signals_def Let_def
    by (simp add: query_eval world_simps pool_ok_def healthy_def sql_def table_defs)
qed

text \<open>Only consented signals of customers are read.\<close>

lemma unconsented_never_read: "in_period s e r \<Longrightarrow> is_eligible r"
  by (simp add: in_period_def is_eligible_def)

section \<open>A period is the union of its months\<close>

lemma mset_filter_disjoint:
  "(\<And>x. x \<in> set xs \<Longrightarrow> \<not> (P x \<and> Q x)) \<Longrightarrow> mset (filter (\<lambda>x. P x \<or> Q x) xs) = mset (filter P xs) + mset (filter Q xs)"
  by (induction xs) auto

lemma shift_is_start: "month_start (shift_month d n) = shift_month d n"
proof -
  obtain y m k where a: "ymd_of (date_part (add_months (days_us d) n)) = (y, m, k)" by (metis prod_cases3)
  then show ?thesis using ymd_month_start [OF a] ymd_month_start [of "month_start (date_part (add_months (days_us d) n))" y m 1]
    unfolding shift_month_def by metis
qed

lemma month_first_monotone: "a \<le> b \<Longrightarrow> month_first a \<le> month_first b"
  using month_first_mono [of a b] by (cases "a = b") auto

lemma shift_one_first: "shift_month d 1 = month_first (month_number d + 1)"
  by (simp add: shift_month_def month_start_first add_months_month)

lemma month_number_mono: "month_start a = a \<Longrightarrow> month_start b = b \<Longrightarrow> a \<le> b \<Longrightarrow> month_number a \<le> month_number b"
  using month_first_mono [of "month_number b" "month_number a"] by (metis month_start_first not_le)

lemma month_end_mono:
  assumes "month_start a = a" and "month_start b = b" and "a \<le> b"
  shows "month_end a \<le> month_end b"
proof -
  have "shift_month a 1 \<le> shift_month b 1"
    using month_first_monotone month_number_mono [OF assms] by (simp add: shift_one_first)
  then show ?thesis using shift_one_after [of a] shift_one_after [of b] by linarith
qed

lemma month_end_before:
  assumes "month_start a = a" and "month_start b = b" and "a < b"
  shows "month_end a < b"
proof -
  have "month_number a \<noteq> month_number b" using assms by (metis month_start_first less_irrefl)
  then have "month_number a + 1 \<le> month_number b" using month_number_mono [OF assms(1,2)] assms(3) by linarith
  then have "shift_month a 1 \<le> b"
    using month_first_monotone [of "month_number a + 1" "month_number b"] assms(2) by (simp add: shift_one_first month_start_first)
  then show ?thesis using shift_one_after [of a] by linarith
qed

lemma period_splits:
  assumes "month_start cursor = cursor" and "month_start last_month = last_month"
  shows "mset (filter (in_period cursor (month_end last_month)) rs)
    = mset (concat (map (\<lambda>m. filter (in_period m (month_end m)) rs) (months_from cursor last_month)))"
  using assms
proof (induction cursor last_month rule: months_from.induct)
  case (1 cursor last_month)
  show ?case
  proof (cases "cursor \<le> last_month")
    case False
    have "last_month < cursor" using False by simp
    then have "month_end last_month < cursor" using month_end_before 1 by blast
    then have "filter (in_period cursor (month_end last_month)) rs = []"
      by (auto simp: filter_empty_conv in_period_def split: pyval.splits)
    then show ?thesis using False by (simp add: months_from.simps [of cursor])
  next
    case True
    let ?nxt = "shift_month cursor 1"
    have e: "month_end cursor + 1 = ?nxt" by (rule shift_one_after)
    have le: "month_end cursor \<le> month_end last_month" using month_end_mono 1 True by blast
    have "in_period cursor (month_end last_month) r \<longleftrightarrow> in_period cursor (month_end cursor) r \<or> in_period ?nxt (month_end last_month) r" for r
      using e le shift_one_less [of cursor] by (auto simp: in_period_def split: pyval.splits)
    moreover have "\<not> (in_period cursor (month_end cursor) r \<and> in_period ?nxt (month_end last_month) r)" for r
      using e by (auto simp: in_period_def split: pyval.splits)
    ultimately have "mset (filter (in_period cursor (month_end last_month)) rs)
      = mset (filter (in_period cursor (month_end cursor)) rs) + mset (filter (in_period ?nxt (month_end last_month)) rs)"
      using mset_filter_disjoint [of rs "in_period cursor (month_end cursor)" "in_period ?nxt (month_end last_month)"] by simp
    also have "\<dots> = mset (concat (map (\<lambda>m. filter (in_period m (month_end m)) rs) (months_from cursor last_month)))"
      using 1 True shift_is_start by (simp add: months_from.simps [of cursor])
    finally show ?thesis .
  qed
qed

section \<open>The order of the signals does not matter\<close>

definition same_section :: "facts_section \<Rightarrow> facts_section \<Rightarrow> bool" where
  "same_section a b \<longleftrightarrow> section_id a = section_id b \<and> fs_stats a = fs_stats b
     \<and> counter_get (fs_counts a) = counter_get (fs_counts b)"

definition same_counts :: "signal_facts \<Rightarrow> signal_facts \<Rightarrow> bool" where
  "same_counts f g \<longleftrightarrow> signal_count f = signal_count g \<and> list_all2 same_section (fact_sections f) (fact_sections g)"

lemma collectE_Inr:
  "collectE f xs = Inr ys \<longleftrightarrow> (\<forall>x \<in> set xs. \<not> isl (f x)) \<and> ys = concat (map (\<lambda>x. projr (f x)) xs)"
proof (induction xs arbitrary: ys)
  case (Cons x xs)
  show ?case
  proof (cases "f x")
    case (Inr a)
    then show ?thesis using Cons.IH [of "drop (length a) ys"] Cons.IH
      by (cases "collectE f xs") auto
  qed simp
qed auto

lemma mset_concat_map: "mset (concat (map g xs)) = sum_mset (image_mset (\<lambda>x. mset (g x)) (mset xs))"
  by (induction xs) auto

lemma collectE_perm:
  assumes "collectE f xs = Inr a" and "mset xs = mset ys"
  shows "\<exists>b. collectE f ys = Inr b \<and> mset a = mset b"
proof -
  have "set xs = set ys" using assms(2) by (metis set_mset_mset)
  then show ?thesis using assms unfolding collectE_Inr by (simp add: mset_concat_map)
qed

lemma headcount_perm:
  assumes "headcount_stats rows = Inr h" and "mset rows = mset rows'"
  shows "headcount_stats rows' = Inr h"
proof -
  from assms(1) obtain vs where v: "collectE declared_headcount rows = Inr vs"
    by (auto simp: headcount_stats_def bindE_def split: sum.splits)
  from collectE_perm [OF this assms(2)] obtain vs' where v': "collectE declared_headcount rows' = Inr vs'" "mset vs = mset vs'"
    by blast
  have "length vs = length vs'" "sum_list vs = sum_list vs'" "Max (set vs) = Max (set vs')" "vs = [] \<longleftrightarrow> vs' = []"
    using v'(2) by (metis size_mset, metis sum_mset_sum_list, metis set_mset_mset, metis mset_zero_iff)
  moreover have "length rows = length rows'" using assms(2) by (metis size_mset)
  ultimately show ?thesis using assms(1) v v'(1) by (cases "vs' = []") (simp_all add: headcount_stats_def)
qed

lemma count_list_mset: "count_list xs = count (mset xs)"
  by (rule ext) (induct xs, auto)

lemma section_perm:
  assumes "section_facts d rows s = Inr [x]" and "mset rows = mset rows'"
  shows "\<exists>y. section_facts d rows' s = Inr [y] \<and> same_section x y"
proof (cases "spec_kind s = ''headcount''")
  case True
  then obtain h where h: "headcount_stats rows = Inr h" "x = \<lparr>fs_title = spec_title s, fs_key = spec_key s,
      fs_kind = ''headcount'', fs_counts = [], fs_stats = h\<rparr>"
    using assms(1) by (auto simp: section_facts_def bindE_def split: sum.splits)
  then show ?thesis using headcount_perm [OF h(1) assms(2)] True by (simp add: section_facts_def same_section_def)
next
  case False
  then obtain ls where k: "known_kind (spec_kind s)" and ls: "collectE (row_labels_of d s) rows = Inr ls"
    using assms(1) by (auto simp: section_facts_def bindE_def split: sum.splits if_splits)
  from collectE_perm [OF ls assms(2)] obtain ls' where ls': "collectE (row_labels_of d s) rows' = Inr ls'" "mset ls = mset ls'"
    by blast
  have "counter_get (tally ls) = counter_get (tally ls')"
    using ls'(2) by (intro ext) (simp add: counter_get_tally count_list_mset)
  then show ?thesis
    using assms(1) False k ls ls'(1) by (auto simp: section_facts_def same_section_def section_id_def)
qed

lemma sections_perm:
  assumes "list_all2 (\<lambda>s x. section_facts d rows s = Inr [x]) specs ss" and "mset rows = mset rows'"
  shows "\<exists>ts. collectE (section_facts d rows') specs = Inr ts \<and> list_all2 same_section ss ts"
  using assms(1)
proof (induction rule: list_all2_induct)
  case (Cons s specs x ss)
  then show ?case using section_perm [OF _ assms(2), of d s x] by fastforce
qed simp

lemma facts_perm:
  assumes "facts_from_specs d specs rows = Inr f" and "mset rows = mset rows'"
  shows "\<exists>g. facts_from_specs d specs rows' = Inr g \<and> same_counts f g"
proof -
  from assms(1) obtain ss where ss: "collectE (section_facts d rows) specs = Inr ss" "f = \<lparr>signal_count = int (length rows), fact_sections = ss\<rparr>"
    by (auto simp: facts_from_specs_def bindE_def split: sum.splits)
  from sections_perm [OF collected_sections [OF ss(1)] assms(2)] obtain ts where
    "collectE (section_facts d rows') specs = Inr ts" "list_all2 same_section ss ts" by blast
  moreover have "length rows = length rows'" using assms(2) by (metis size_mset)
  ultimately show ?thesis by (simp add: facts_from_specs_def same_counts_def ss(2))
qed

section \<open>Reading stored months\<close>

abbreviation aggregates :: "world \<Rightarrow> row list" where
  "aggregates w \<equiv> tables w AGGREGATES"

definition holds_month :: "world \<Rightarrow> string \<Rightarrow> int \<Rightarrow> row \<Rightarrow> bool" where
  "holds_month w product_type m r \<longleftrightarrow>
     r \<in> set (aggregates w) \<and> r ''product_type'' = PStr product_type \<and> r ''period_month'' = PDate m"

definition stored_ok :: "world \<Rightarrow> bool" where
  "stored_ok w \<longleftrightarrow> healthy w \<and> length (aggregates w) \<le> max_rows w \<and> (\<forall>r \<in> set (aggregates w). \<exists>m. r ''period_month'' = PDate m)"

definition month_of :: "row \<Rightarrow> int" where
  "month_of r = (case r ''period_month'' of PDate m \<Rightarrow> m | _ \<Rightarrow> 0)"

lemma key_months_fold:
  "\<forall>r \<in> set rows. \<exists>m. r ''period_month'' = PDate m
    \<Longrightarrow> key_months d rows stored = Inr (fold (\<lambda>r. AList.update (month_of r) r) rows stored)"
  by (induction rows arbitrary: stored) (auto simp: parse_day_def month_of_def)

lemma fold_months_in:
  "m \<in> month_of ` set rows \<Longrightarrow> \<exists>r \<in> set rows. month_of r = m \<and> map_of (fold (\<lambda>r. AList.update (month_of r) r) rows stored) m = Some r"
  by (induction rows rule: rev_induct) (auto simp: update_conv')

definition wanted :: "string \<Rightarrow> int list \<Rightarrow> row \<Rightarrow> bool" where
  "wanted product_type months r \<longleftrightarrow> r ''product_type'' = PStr product_type
     \<and> (months = [] \<or> r ''period_month'' \<in> set (map (\<lambda>m. PDate (month_start m)) months))"

definition read_months :: "world \<Rightarrow> string \<Rightarrow> int list \<Rightarrow> stored_months" where
  "read_months w product_type months = fold (\<lambda>r. AList.update (month_of r) r) (filter (wanted product_type months) (aggregates w)) []"

lemma get_monthly_aggregates_healthy:
  assumes "stored_ok w"
  shows "get_monthly_aggregates product_type months w = (Inr (read_months w product_type months), w)"
proof -
  have len: "length (filter P (aggregates w)) \<le> max_rows w" for P
    using assms length_filter_le [of P "aggregates w"] unfolding stored_ok_def by linarith
  have f: "filter (matches (F_eq ''product_type'' (PStr product_type) #
      (if months = [] then [] else [F_in ''period_month'' (map (\<lambda>m. PDate (month_start m)) months)]))) (aggregates w)
    = filter (wanted product_type months) (aggregates w)"
    by (rule filter_cong) (auto simp: matches_def wanted_def)
  have k: "key_months d (filter (wanted product_type months) (aggregates w)) [] = Inr (read_months w product_type months)" for d
    unfolding read_months_def by (rule key_months_fold) (use assms in \<open>auto simp: stored_ok_def\<close>)
  show ?thesis
    using assms len f k unfolding get_monthly_aggregates_def Let_def today_def
    by (cases "months = []") (simp_all add: query_eval world_simps stored_ok_def healthy_def sql_def table_defs del: matches_eq)
qed

lemma read_months_stored:
  assumes "stored_ok w" and "holds_month w product_type (month_start m) r" and "m \<in> set months"
  shows "\<exists>r'. map_of (read_months w product_type months) (month_start m) = Some r' \<and> holds_month w product_type (month_start m) r'"
proof -
  let ?rows = "filter (wanted product_type months) (aggregates w)"
  have "r \<in> set ?rows" "month_of r = month_start m"
    using assms(2,3) by (auto simp: holds_month_def wanted_def month_of_def)
  then have "month_start m \<in> month_of ` set ?rows" by force
  from fold_months_in [OF this, of "[]"] obtain r' where r': "r' \<in> set ?rows" "month_of r' = month_start m"
    "map_of (read_months w product_type months) (month_start m) = Some r'"
    unfolding read_months_def by blast
  moreover obtain k where "r' ''period_month'' = PDate k" using r'(1) assms(1) by (auto simp: stored_ok_def)
  ultimately show ?thesis by (auto simp: holds_month_def wanted_def month_of_def)
qed

lemma ensure_each_stored:
  "\<forall>m \<in> set months. map_of stored (month_start m) \<noteq> None \<Longrightarrow> ensure_each product_type months stored w = (Inr stored, w)"
  by (induction months) (auto simp: world_simps)

definition all_stored :: "world \<Rightarrow> string \<Rightarrow> int list \<Rightarrow> bool" where
  "all_stored w product_type months \<longleftrightarrow> (\<forall>m \<in> set months. \<exists>r. holds_month w product_type (month_start m) r)"

lemma ensure_stored:
  assumes "stored_ok w" and "all_stored w product_type months"
  shows "ensure_monthly_aggregates product_type months w = (Inr (read_months w product_type months), w)"
proof -
  have "\<forall>m \<in> set months. map_of (read_months w product_type months) (month_start m) \<noteq> None"
    using read_months_stored [OF assms(1)] assms(2) unfolding all_stored_def by (metis option.discI)
  then show ?thesis
    unfolding ensure_monthly_aggregates_def
    by (simp add: world_simps get_monthly_aggregates_healthy [OF assms(1)] ensure_each_stored)
qed

section \<open>Composing stored months\<close>

lemma months_from_range:
  assumes "month_start cursor = cursor"
  shows "\<forall>m \<in> set (months_from cursor until). month_start m = m \<and> cursor \<le> m" and "sorted (months_from cursor until)"
  using assms
proof (induction cursor until rule: months_from.induct)
  case (1 cursor until)
  {
    case 1
    then show ?case
      using "1.IH"(1) shift_is_start [of cursor 1] shift_one_less [of cursor] by (subst months_from.simps) fastforce
  next
    case 2
    have "\<forall>m \<in> set (months_from (shift_month cursor 1) until). cursor \<le> m" if "cursor \<le> until"
      using "1.IH"(1) [OF that shift_is_start] shift_one_less [of cursor] by fastforce
    then show ?case using "1.IH"(2) shift_is_start [of cursor 1] by (subst months_from.simps) simp
  }
qed

lemma months_from_ends:
  assumes "month_start cursor = cursor" and "month_start until = until" and "cursor \<le> until"
  shows "months_from cursor until \<noteq> []" "hd (months_from cursor until) = cursor" "last (months_from cursor until) = until"
proof -
  have 1: "months_from cursor until = cursor # months_from (shift_month cursor 1) until" using assms(3) by (subst months_from.simps) simp
  then show "months_from cursor until \<noteq> []" "hd (months_from cursor until) = cursor" by simp_all
  show "last (months_from cursor until) = until"
    using assms
  proof (induction cursor until rule: months_from.induct)
    case (1 cursor until)
    have u: "months_from cursor until = cursor # months_from (shift_month cursor 1) until" using 1 by (subst months_from.simps) simp
    show ?case
    proof (cases "cursor = until")
      case True
      then have "\<not> shift_month cursor 1 \<le> until" using shift_one_less [of cursor] by simp
      then have "months_from (shift_month cursor 1) until = []" by (subst months_from.simps) simp
      then show ?thesis using u True by simp
    next
      case False
      then have "month_end cursor < until" using month_end_before 1 by simp
      then have le: "shift_month cursor 1 \<le> until" using shift_one_after [of cursor] by linarith
      then have "months_from (shift_month cursor 1) until \<noteq> []" by (subst months_from.simps) simp
      then show ?thesis using u 1 le shift_is_start by simp
    qed
  qed
qed

lemma month_start_idem [simp]: "month_start (month_start d) = month_start d"
  using ymd_month_start by (metis prod_cases3)

lemma month_number_le: "a \<le> b \<Longrightarrow> month_number a \<le> month_number b"
proof (rule ccontr)
  assume le: "a \<le> b" and "\<not> month_number a \<le> month_number b"
  then have "month_first (month_number b + 1) \<le> month_first (month_number a)" by (intro month_first_monotone) simp
  then show False using before_next_first [of b] month_first_le [of a] le by linarith
qed

lemma month_start_mono: "a \<le> b \<Longrightarrow> month_start a \<le> month_start b"
  unfolding month_start_first by (intro month_first_monotone month_number_le)

lemma whole_months_list:
  assumes "whole_months s e"
  shows "months_in_range s e \<noteq> []" "hd (months_in_range s e) = s" "month_end (last (months_in_range s e)) = e"
    "sort (map month_start (months_in_range s e)) = months_in_range s e" "\<forall>m \<in> set (months_in_range s e). month_start m = m"
proof -
  have s: "month_start s = s" and e: "month_end e = e" and le: "s \<le> e" using assms by (auto simp: whole_months_def)
  have end_eq: "month_end (month_start e) = month_end e" by (simp add: month_end_def)
  have "s \<le> month_start e" using month_start_mono [OF le] s by simp
  note ends = months_from_ends [OF s month_start_idem this]
  show "months_in_range s e \<noteq> []" "hd (months_in_range s e) = s" "month_end (last (months_in_range s e)) = e"
    using ends s e end_eq by (simp_all add: months_in_range_def)
  show st: "\<forall>m \<in> set (months_in_range s e). month_start m = m"
    using months_from_range(1) [OF s] s by (simp add: months_in_range_def)
  then have "map month_start (months_in_range s e) = months_in_range s e" by (simp add: map_idI)
  then show "sort (map month_start (months_in_range s e)) = months_in_range s e"
    using months_from_range(2) [OF s, of "month_start e"] s by (simp add: months_in_range_def sorted_sort_id)
qed

definition product_name :: "string \<Rightarrow> string" where
  "product_name product_type = text_of (lookup (the (map_of B2B_PRODUCTS product_type)) ''title'')"

lemma facts_to_metrics_known:
  assumes "map_of B2B_PRODUCTS product_type \<noteq> None"
  shows "facts_to_metrics product_type facts s e extra [] w
    = (Inr (render_facts product_type (product_name product_type) facts s e (clock w) extra), w)"
  using assms by (auto simp: facts_to_metrics_def b2b_product_def product_name_def world_simps)

definition composed_extra :: "int list \<Rightarrow> pydict" where
  "composed_extra months = [(''composed_from_months'', PList (map PDate months)), (''composition'', PStr (composition_name months))]"

lemma composed_metrics:
  assumes "stored_ok w" and "whole_months s e" and "all_stored w product_type (months_in_range s e)"
    and "map_of B2B_PRODUCTS product_type \<noteq> None"
  shows "build_period_metrics product_type s e False w
    = (Inr (render_facts product_type (product_name product_type)
        (compose_facts (stored_facts (read_months w product_type (months_in_range s e)) (months_in_range s e)))
        s e (clock w) (composed_extra (months_in_range s e))), w)"
  using assms(2) whole_months_list [OF assms(2)] ensure_stored [OF assms(1,3)] facts_to_metrics_known [OF assms(4)]
  by (simp add: build_period_metrics_def compose_from_months_def world_simps Let_def composed_extra_def)

section \<open>What stored months show\<close>

lemma set_signals [simp]:
  "stored_ok (set_table ''production_signals'' rows w) = stored_ok w"
  "read_months (set_table ''production_signals'' rows w) product_type months = read_months w product_type months"
  "all_stored (set_table ''production_signals'' rows w) product_type months = all_stored w product_type months"
  "clock (set_table ''production_signals'' rows w) = clock w"
  by (simp_all add: stored_ok_def read_months_def all_stored_def holds_month_def set_table_def)

definition preceding :: "int list \<Rightarrow> int list" where
  "preceding months = map (\<lambda>m. shift_month m (- int (length months))) months"

definition needed_months :: "int \<Rightarrow> int \<Rightarrow> bool \<Rightarrow> int list" where
  "needed_months s e compare = months_in_range s e @ (if compare then preceding (months_in_range s e) else [])"

text \<open>
  Once the months of a period are stored, with the months it is compared to, its report no longer
  depends on the signals: withdrawing a consent, marking a signal internal or deleting it changes nothing.
\<close>

theorem stored_months_ignore_signals:
  assumes "stored_ok w" and "whole_months s e" and "all_stored w product_type (needed_months s e compare)"
    and "map_of B2B_PRODUCTS product_type \<noteq> None"
  shows "fst (build_period_metrics product_type s e compare (set_table ''production_signals'' rows w))
    = fst (build_period_metrics product_type s e compare w)"
proof -
  let ?months = "months_in_range s e"
  let ?prev = "sort (map month_start (preceding ?months))"
  note wm = whole_months_list [OF assms(2)]
  have cur: "all_stored w product_type ?months"
    using assms(3) by (auto simp: needed_months_def all_stored_def)
  have prev: "all_stored w product_type ?prev" if compare
    using assms(3) that by (auto simp: needed_months_def all_stored_def)
  note evals = build_period_metrics_def compose_from_months_def period_volumes_def world_simps Let_def
    ensure_stored [OF assms(1) cur] get_monthly_aggregates_healthy [OF assms(1)] facts_to_metrics_known [OF assms(4)]
    ensure_stored [of "set_table ''production_signals'' rows w"] get_monthly_aggregates_healthy [of "set_table ''production_signals'' rows w"]
  show ?thesis
  proof (cases compare)
    case False
    then show ?thesis using assms(1,2) wm cur by (simp add: evals)
  next
    case True
    then show ?thesis
      using assms(1,2) wm cur prev ensure_stored [OF assms(1) prev] unfolding preceding_def by (simp add: evals)
  qed
qed

definition fresh_months :: "world \<Rightarrow> string \<Rightarrow> int list \<Rightarrow> bool" where
  "fresh_months w product_type months \<longleftrightarrow> (\<forall>m \<in> set months. \<exists>r g. holds_month w product_type m r
     \<and> (\<forall>r'. holds_month w product_type m r' \<longrightarrow> r' = r)
     \<and> facts_of_period product_type m (month_end m) w = (Inr g, w) \<and> r ''facts'' = facts_value g)"

lemma facts_of_period_healthy:
  assumes "pool_ok w"
  shows "facts_of_period product_type s e w
    = (build_raw_facts (date_part (clock w)) product_type (filter (in_period s e) (signals w)), w)"
  by (simp add: facts_of_period_def world_simps load_signals_healthy [OF assms] today_def)

lemma fresh_facts:
  assumes "pool_ok w" and "stored_ok w" and "fresh_months w product_type months" and "\<forall>m \<in> set months. month_start m = m"
  shows "\<forall>m \<in> set months. build_raw_facts (date_part (clock w)) product_type (filter (in_period m (month_end m)) (signals w))
        = Inr (read_facts ((the (map_of (read_months w product_type months) m)) ''facts''))
      \<and> map_of (read_months w product_type months) m \<noteq> None"
proof
  fix m assume m: "m \<in> set months"
  with assms(3) obtain r g where r: "holds_month w product_type m r" "\<forall>r'. holds_month w product_type m r' \<longrightarrow> r' = r"
    and g: "facts_of_period product_type m (month_end m) w = (Inr g, w)" "r ''facts'' = facts_value g"
    unfolding fresh_months_def by blast
  have ms: "month_start m = m" using assms(4) m by blast
  obtain r' where "map_of (read_months w product_type months) m = Some r'" "holds_month w product_type m r'"
    using read_months_stored [OF assms(2), of product_type m r months] r(1) m unfolding ms by blast
  then have "map_of (read_months w product_type months) m = Some r" using r(2) by blast
  moreover have b: "build_raw_facts (date_part (clock w)) product_type (filter (in_period m (month_end m)) (signals w)) = Inr g"
    using g(1) by (simp add: facts_of_period_healthy [OF assms(1)])
  moreover have "read_facts (facts_value g) = g" using b facts_round_trip unfolding build_raw_facts_def by blast
  ultimately show "build_raw_facts (date_part (clock w)) product_type (filter (in_period m (month_end m)) (signals w))
        = Inr (read_facts ((the (map_of (read_months w product_type months) m)) ''facts''))
      \<and> map_of (read_months w product_type months) m \<noteq> None"
    using g(2) by simp
qed

text \<open>
  C18: While the stored months are those the signals give, a report of whole months composed from them
  and a report counted directly from the signals of the period are rendered from the same facts: the same
  number of signals, the same sections in the same order, the same count of every label and the same headcounts.
\<close>

theorem composed_period_equals_requery:
  assumes "pool_ok w" and "stored_ok w" and "whole_months s e" and "fresh_months w product_type (months_in_range s e)"
    and "map_of B2B_PRODUCTS product_type \<noteq> None"
  shows "\<exists>f g. same_counts f g
    \<and> build_period_metrics product_type s e False w
      = (Inr (render_facts product_type (product_name product_type) f s e (clock w) (composed_extra (months_in_range s e))), w)
    \<and> build_metrics product_type s e w
      = (Inr (render_facts product_type (product_name product_type) g s e (clock w) []), w)"
proof -
  let ?months = "months_in_range s e" and ?d = "date_part (clock w)"
  let ?rows = "\<lambda>m. filter (in_period m (month_end m)) (signals w)"
  let ?f = "\<lambda>p. projr (build_raw_facts ?d product_type p)"
  note wm = whole_months_list [OF assms(3)]
  note fresh = fresh_facts [OF assms(1,2,4) wm(5)]
  have "all_stored w product_type ?months"
    using assms(4) wm(5) unfolding fresh_months_def all_stored_def by metis
  note composed = composed_metrics [OF assms(2,3) this assms(5)]
  have facts: "stored_facts (read_months w product_type ?months) ?months = map ?f (map ?rows ?months)"
    using fresh by (simp add: stored_facts_def filter_id_conv)
  have whole: "build_raw_facts ?d product_type (concat (map ?rows ?months)) = Inr (compose_facts (map ?f (map ?rows ?months)))"
    using fresh wm(1) by (intro raw_facts_concat) auto
  have s: "s = month_start s" "e = month_end (month_start e)" using assms(3) by (auto simp: whole_months_def month_end_def)
  have "mset (concat (map ?rows ?months)) = mset (filter (in_period s e) (signals w))"
    using period_splits [of "month_start s" "month_start e" "signals w"] s by (simp add: months_in_range_def)
  from facts_perm [OF whole [unfolded build_raw_facts_def] this] obtain g where
    "build_raw_facts ?d product_type (filter (in_period s e) (signals w)) = Inr g" "same_counts (compose_facts (map ?f (map ?rows ?months))) g"
    unfolding build_raw_facts_def by blast
  moreover from this(1) have "build_metrics product_type s e w
      = (Inr (render_facts product_type (product_name product_type) g s e (clock w) []), w)"
    by (simp add: build_metrics_def world_simps facts_of_period_healthy [OF assms(1)] facts_to_metrics_known [OF assms(5)])
  ultimately show ?thesis using composed unfolding facts by blast
qed

section \<open>A month on disk\<close>

definition october_signals :: "row list" where
  "october_signals = [shared_signal ''Spain'', shared_signal ''Italy'']"

definition october :: row where
  "october = (\<lambda>c. if c = ''product_type'' then PStr ''crew_casting'' else if c = ''period_month'' then PDate 19997
     else if c = ''facts'' then facts_value (projr (build_raw_facts 0 ''crew_casting'' october_signals)) else PNone)"

definition october_world :: world where
  "october_world = sample_world [(''production_signals'', october_signals), (AGGREGATES, [october])]"

lemma october_simps:
  "aggregates october_world = [october]" "signals october_world = october_signals" "clock october_world = 1000000"
  "healthy october_world" "max_rows october_world = 1000"
  "october ''product_type'' = PStr ''crew_casting''" "october ''period_month'' = PDate 19997"
  "october ''facts'' = facts_value (projr (build_raw_facts 0 ''crew_casting'' october_signals))"
  by (simp_all add: october_world_def october_def)

lemma october_stored: "stored_ok october_world"
  by (simp add: stored_ok_def october_simps)

lemma october_months: "whole_months 19997 20027" "months_in_range 19997 20027 = [19997]" "month_start 19997 = 19997"
    "month_end 19997 = 20027"
  by code_simp+

lemma october_holds: "holds_month october_world ''crew_casting'' 19997 r \<longleftrightarrow> r = october"
  by (auto simp: holds_month_def october_simps)

lemma crew_casting_known: "map_of B2B_PRODUCTS ''crew_casting'' \<noteq> None"
  by (simp add: B2B_PRODUCTS_def)

theorem stored_months_ignore_signals_witness:
  "fst (build_period_metrics ''crew_casting'' 19997 20027 False (set_table ''production_signals'' [] october_world))
    = fst (build_period_metrics ''crew_casting'' 19997 20027 False october_world)"
  by (rule stored_months_ignore_signals)
    (simp_all add: october_stored october_months needed_months_def all_stored_def october_holds crew_casting_known)

lemma october_pool: "pool_ok october_world"
  by (auto simp: pool_ok_def october_simps october_signals_def shared_signal_def sample_signal_def)

lemma october_fresh: "fresh_months october_world ''crew_casting'' [19997]"
proof -
  have "filter (in_period 19997 20027) october_signals = october_signals"
    by (auto simp: filter_id_conv october_signals_def in_period_def shared_signal_def sample_signal_def)
  moreover have "date_part 1000000 = 0" by (simp add: date_part_def day_us_def)
  moreover have "\<not> isl (build_raw_facts 0 ''crew_casting'' october_signals)" by code_simp
  moreover from this obtain g where "build_raw_facts 0 ''crew_casting'' october_signals = Inr g"
    by (cases "build_raw_facts 0 ''crew_casting'' october_signals") auto
  ultimately show ?thesis
    by (simp add: fresh_months_def october_holds october_months october_simps facts_of_period_healthy [OF october_pool])
qed

theorem composed_period_equals_requery_witness:
  "\<exists>f g. same_counts f g
    \<and> build_period_metrics ''crew_casting'' 19997 20027 False october_world
      = (Inr (render_facts ''crew_casting'' (product_name ''crew_casting'') f 19997 20027 (clock october_world)
          (composed_extra (months_in_range 19997 20027))), october_world)
    \<and> build_metrics ''crew_casting'' 19997 20027 october_world
      = (Inr (render_facts ''crew_casting'' (product_name ''crew_casting'') g 19997 20027 (clock october_world) []), october_world)"
  by (rule composed_period_equals_requery)
    (simp_all add: october_pool october_stored october_months october_fresh crew_casting_known)

end
