(* ===== verification/Delivery_Properties.thy ===== *)
theory Delivery_Properties
  imports Delivery_Runs Request_Lifecycle Aggregate_Properties
begin

text \<open>
  The schedule of deliveries and the life of a request: the next delivery lies ahead, reports cover
  adjacent months unless a run was late, a second run finds nothing due, and a request that is
  processed does not stay in processing.
\<close>

section \<open>The schedule\<close>

lemma catch_up_steps:
  "\<exists>k \<ge> 0. month_number (date_part (catch_up f now t)) = month_number (date_part t) + k * interval_months f
    \<and> (k = 0 \<longleftrightarrow> now < t)"
proof (induction f now t rule: catch_up.induct)
  case (1 f now t)
  show ?case
  proof (cases "t \<le> now")
    case True
    then obtain k where k: "0 \<le> k" "month_number (date_part (catch_up f now (add_months t (interval_months f))))
        = month_number (date_part (add_months t (interval_months f))) + k * interval_months f"
      using 1 by blast
    have "catch_up f now t = catch_up f now (add_months t (interval_months f))" using True by (subst catch_up.simps) simp
    moreover have "month_number (date_part t) + interval_months f + k * interval_months f
        = month_number (date_part t) + (k + 1) * interval_months f" by (simp add: algebra_simps)
    ultimately show ?thesis
      using k True by (intro exI [of _ "k + 1"]) (simp add: add_months_month)
  next
    case False
    then have "catch_up f now t = t" by (subst catch_up.simps) simp
    then show ?thesis using False by (intro exI [of _ 0]) simp
  qed
qed

lemma next_delivery_steps:
  "\<exists>k \<ge> 1. month_number (date_part (next_delivery f now due)) = month_number (date_part due) + k * interval_months f
    \<and> (k = 1 \<longleftrightarrow> now < add_months due (interval_months f))"
proof -
  obtain k where "0 \<le> k" "month_number (date_part (next_delivery f now due)) = month_number (date_part due) + interval_months f + k * interval_months f"
    "k = 0 \<longleftrightarrow> now < add_months due (interval_months f)"
    using catch_up_steps [of f now "add_months due (interval_months f)"] by (auto simp: next_delivery_def add_months_month)
  then show ?thesis by (intro exI [of _ "k + 1"]) (auto simp: algebra_simps)
qed

text \<open>
  C37: The loop that moves a delivery past the present ends, whatever the present is: the delivery it
  sets lies after the present, a whole number of its intervals after the one that was due, and it is
  the very next one exactly when the run was less than an interval late.
\<close>

theorem next_delivery_lies_ahead:
  "now < next_delivery f now due
   \<and> (\<exists>k \<ge> 1. month_number (date_part (next_delivery f now due)) = month_number (date_part due) + k * interval_months f
      \<and> (k = 1 \<longleftrightarrow> now < add_months due (interval_months f)))"
  using catch_up_after next_delivery_steps by (simp add: next_delivery_def)

lemma due_period:
  "rf_period_start (due_form s user due) = month_first (month_number (date_part due) - interval_months (frequency_of s))"
  "rf_period_end (due_form s user due) = month_first (month_number (date_part due)) - 1"
proof -
  have "month_end d = month_first (month_number d + 1) - 1" for d
    using shift_one_after [of d] shift_one_first [of d] by simp
  then show "rf_period_start (due_form s user due) = month_first (month_number (date_part due) - interval_months (frequency_of s))"
    "rf_period_end (due_form s user due) = month_first (month_number (date_part due)) - 1"
    by (simp_all add: due_form_def month_start_first add_months_month)
qed

lemma month_first_inj: "month_first a = month_first b \<longleftrightarrow> a = b"
  using month_first_mono [of a b] month_first_mono [of b a] by (metis less_irrefl linorder_neqE)

lemma month_number_unique:
  assumes "month_first n \<le> d" and "d < month_first (n + 1)"
  shows "month_number d = n"
proof (rule ccontr)
  assume "month_number d \<noteq> n"
  then consider "month_number d + 1 \<le> n" | "n + 1 \<le> month_number d" by linarith
  then show False
    using assms month_first_le [of d] before_next_first [of d] month_first_monotone [of "month_number d + 1" n]
      month_first_monotone [of "n + 1" "month_number d"] by cases linarith+
qed

lemma month_number_of_last: "month_number (month_first n - 1) = n - 1"
  using month_first_mono [of "n - 1" n] by (intro month_number_unique) simp_all

lemma month_start_of_first [simp]: "month_start (month_first n) = month_first n"
  by (metis add.commute add_months_month days_us_parts(1) diff_add_cancel month_start_first month_start_idem)

text \<open>
  C38: A scheduled report covers whole completed months, as many as its frequency says, and no day twice:
  the report of the delivery that follows begins after the last day of this one, on the very next day
  if the run was less than an interval late, and leaves months out that no report covers if it was later.
\<close>

theorem scheduled_reports_do_not_overlap:
  "whole_months (rf_period_start (due_form s user due)) (rf_period_end (due_form s user due))
   \<and> rf_period_end (due_form s user due) < date_part due
   \<and> rf_period_end (due_form s user due) < rf_period_start (due_form s user (next_delivery (frequency_of s) now due))
   \<and> (rf_period_start (due_form s user (next_delivery (frequency_of s) now due)) = rf_period_end (due_form s user due) + 1
      \<longleftrightarrow> now < add_months due (interval_months (frequency_of s)))"
proof -
  let ?f = "frequency_of s" and ?n = "month_number (date_part due)"
  let ?i = "interval_months ?f"
  have i: "0 < ?i" by (rule interval_positive)
  obtain k where k: "1 \<le> k" "month_number (date_part (next_delivery ?f now due)) = ?n + k * ?i"
    "k = 1 \<longleftrightarrow> now < add_months due ?i"
    using next_delivery_steps by blast
  have "?n \<le> ?n + k * ?i - ?i" using k(1) i by (simp add: mult_le_cancel_right1)
  then have after: "month_first ?n \<le> month_first (?n + k * ?i - ?i)" by (rule month_first_monotone)
  have same: "?n = ?n + k * ?i - ?i \<longleftrightarrow> k = 1" using i by auto
  have "month_first (?n - 1) \<le> month_first ?n - 1" using month_first_mono [of "?n - 1" ?n] by simp
  moreover have "month_first (?n - ?i) \<le> month_first (?n - 1)" using i by (intro month_first_monotone) simp
  moreover have "month_end (month_first ?n - 1) = month_first ?n - 1"
    using month_number_of_last [of ?n] shift_one_after [of "month_first ?n - 1"] shift_one_first [of "month_first ?n - 1"] by simp
  moreover have "month_first ?n - 1 < month_first (?n + k * ?i - ?i)" using after by simp
  moreover have "month_first (?n + k * ?i - ?i) = month_first ?n \<longleftrightarrow> k = 1"
    using same month_first_inj by metis
  moreover have "month_first ?n - 1 < date_part due" using month_first_le [of "date_part due"] by linarith
  ultimately show ?thesis
    by (simp add: due_period k(2,3) whole_months_def)
qed

section \<open>Runs of the task\<close>

text \<open>
  C21: A run of the delivery task that ends leaves nobody due: a second run at the same instant serves no
  one and changes nothing. Of the subscriptions it changes only the next delivery, to an instant past
  the present, and the time of the update.
\<close>

theorem second_delivery_run_is_idle:
  assumes "healthy w" and "run_due_b2b_auto_deliveries sv w = (Inr n, w')"
  shows "run_due_b2b_auto_deliveries sv w' = (Inr 0, w')
    \<and> list_all2 (moved (clock w)) (tables w SUBSCRIPTIONS) (tables w' SUBSCRIPTIONS)"
  using second_run [OF assms] run_leaves_nobody_due [OF assms] by (simp add: run_step_def)

section \<open>The end of a request\<close>

text \<open>
  C20: Whatever the renderer, the PDF writer, the object store and the mail provider do, processing a
  request returns and the request does not stay in processing: it is held, failed or completed, and
  other requests are as before. A completed one has its file in the store and a mail with the report
  sent to each of its recipients, so a request whose mails cannot be sent is never left completed.
\<close>

theorem processed_request_ends:
  assumes "healthy w" and "BREVO_API_KEY (is_settings sv) \<noteq> []" and "rows_with w REQUESTS ''id'' i = r # rs"
  shows "\<exists>w'. process_request sv i w = (Inr (), w')
    \<and> filter (\<lambda>x. x ''id'' \<noteq> i) (tables w' REQUESTS) = filter (\<lambda>x. x ''id'' \<noteq> i) (tables w REQUESTS)
    \<and> rows_with w' REQUESTS ''id'' i \<noteq> []
    \<and> (list_all (status_is ''held'') (rows_with w' REQUESTS ''id'' i)
       \<or> list_all (status_is ''failed'') (rows_with w' REQUESTS ''id'' i)
       \<or> list_all (status_is ''completed'') (rows_with w' REQUESTS ''id'' i)
         \<and> (\<exists>bytes. bytes \<noteq> [] \<and> storage_download (is_settings sv) ''reports'' (storage_path r) w' = (Inr bytes, w'))
         \<and> (\<exists>before sent. outbox w' = before @ sent \<and> mailed r sent))"
proof -
  have "r \<in> set (rows_with w REQUESTS ''id'' i)" unfolding assms(3) by simp
  then have i: "r ''id'' = i" by simp
  let ?others = "filter (\<lambda>x. x ''id'' \<noteq> i) (tables w REQUESTS)" and ?r = "add_download_url r"
  have "confined (?r ''id'') ?others w" using assms by (simp add: confined_def found_same i)
  moreover have "get_request (?r ''id'') PNone True w = (Inr (Some ?r), w)"
    using get_request_healthy [OF assms(1,3)] by (simp add: found_same i)
  ultimately obtain w' where w': "process_request sv i w = (Inr (), w')" "ended sv ?r ?others w'"
    using process_ends [OF assms(2), of ?r ?others w] by (auto simp: found_same i)
  let ?in = "\<lambda>s. list_all (status_is s) (rows_with w' REQUESTS ''id'' i)"
  let ?final = "?in ''held'' \<or> ?in ''failed'' \<or> ?in ''completed''
      \<and> (\<exists>bytes. bytes \<noteq> [] \<and> storage_download (is_settings sv) ''reports'' (storage_path r) w' = (Inr bytes, w'))
      \<and> (\<exists>before sent. outbox w' = before @ sent \<and> mailed r sent)"
  have same: "mailed ?r = mailed r" by (simp add: mailed_def fun_eq_iff found_same)
  have down: "bytes \<noteq> [] \<and> storage_download (is_settings sv) ''reports'' (storage_path r) w' = (Inr bytes, w')"
    if "stored sv ?r bytes w'" for bytes
    using stored_download [OF that] that by (simp add: found_same stored_def)
  have "confined i ?others w' \<and> ?final"
    using w'(2) [unfolded ended_def in_state_def found_same i same] down by (elim disjE conjE exE) (simp_all, blast)
  then show ?thesis using w'(1) by (intro exI [of _ w']) (simp add: confined_def)
qed

section \<open>A delivery at work\<close>

definition printing_service :: intelligence_service where
  "printing_service = \<lparr>is_settings = sample_settings\<lparr>BREVO_API_KEY := ''key''\<rparr>,
     render_pdf_html = (\<lambda>m. Inr ''page''), generate_pdf_bytes = (\<lambda>html. Some html)\<rparr>"

definition asked :: row where
  "asked = (\<lambda>c. PNone)(''id'' := PStr ''r1'', ''user_id'' := PStr ''u1'', ''product_type'' := PStr ''crew_casting'',
     ''status'' := PStr ''processing'', ''period_start'' := PDate 19990, ''period_end'' := PDate 20010,
     ''recipient_email'' := PStr ''a@b.c'')"

definition asked_world :: world where
  "asked_world = sample_world [(''production_signals'', replicate 11 (shared_signal ''Spain'')), (REQUESTS, [asked])]"

text \<open>A due delivery whose request could be written is carried through.\<close>

lemma deliver_due_returns:
  assumes "healthy w" and "BREVO_API_KEY (is_settings sv) \<noteq> []"
    and "create_intelligence_request (due_form s u due_at) (Some s) w = (Inr q, w1)"
    and "rows_with w1 REQUESTS ''id'' (q ''id'') = r # rs"
  shows "\<exists>w'. deliver_due sv now s u due_at w = (Inr (), w')"
proof -
  have h: "healthy w1" using keepsD [OF healthy_requests.frame_create assms(1)] assms(3) by (metis snd_conv)
  obtain w2 where w2: "process_request sv (q ''id'') w1 = (Inr (), w2)"
  proof -
    have "r \<in> set (rows_with w1 REQUESTS ''id'' (q ''id''))" unfolding assms(4) by simp
    then have i: "r ''id'' = q ''id''" by simp
    have c: "confined (add_download_url r ''id'') (filter (\<lambda>x. x ''id'' \<noteq> q ''id'') (tables w1 REQUESTS)) w1"
      using h assms(4) by (simp add: confined_def found_same i)
    show thesis
      using process_ends [of sv "add_download_url r" _ w1] assms(2) c get_request_healthy [OF h assms(4)] that
      by (auto simp: found_same i)
  qed
  have h2: "healthy w2" using keepsD [OF healthy_requests.frame_process h] w2 by (metis snd_conv)
  have "run (update_eq SUBSCRIPTIONS ''id'' (s ''id'') (moved_cells s now due_at)) w2
      = (Inr (), set_table SUBSCRIPTIONS (update_rows [F_eq ''id'' (s ''id'')] (moved_cells s now due_at) (tables w2 SUBSCRIPTIONS)) w2)"
    by (rule run_update_eq [where sch = B2BSubscription_table, OF h2]) (simp_all add: moved_cells_def table_defs updatable_def not_null_def has_key_def)
  then show ?thesis
    using assms(3) w2 by (simp add: deliver_due_def world_simps moved_cells_def)
qed

definition subscribed :: row where
  "subscribed = (\<lambda>c. PNone)(''id'' := PStr ''s1'', ''user_id'' := PStr ''u1'', ''product_type'' := PStr ''crew_casting'',
     ''status'' := PStr ''active'', ''next_delivery_at'' := PTime 0, ''updated_at'' := PTime 0)"

definition client :: row where
  "client = (\<lambda>c. PNone)(''id'' := PStr ''u1'', ''email'' := PStr ''a@b.c'')"

definition subscribed_world :: world where
  "subscribed_world = sample_world [(''users'', [client]), (SUBSCRIPTIONS, [subscribed])]"

lemma subscribed_created:
  "\<not> isl (fst (create_intelligence_request (due_form subscribed client 0) (Some subscribed) subscribed_world))"
  "length (rows_with (snd (create_intelligence_request (due_form subscribed client 0) (Some subscribed) subscribed_world)) REQUESTS
     ''id'' (projr (fst (create_intelligence_request (due_form subscribed client 0) (Some subscribed) subscribed_world)) ''id'')) = 1"
  by code_simp+

lemma subscribed_run: "\<exists>w'. run_due_b2b_auto_deliveries printing_service subscribed_world = (Inr 1, w')"
proof -
  define m where "m = create_intelligence_request (due_form subscribed client 0) (Some subscribed)"
  obtain q w1 where c: "m subscribed_world = (Inr q, w1)"
    using subscribed_created(1) by (cases "m subscribed_world"; cases "fst (m subscribed_world)") (auto simp: m_def)
  then obtain r where "rows_with w1 REQUESTS ''id'' (q ''id'') = [r]"
    using subscribed_created(2) by (auto simp: m_def length_Suc_conv)
  moreover have "healthy subscribed_world" "BREVO_API_KEY (is_settings printing_service) \<noteq> []"
    by (simp_all add: subscribed_world_def printing_service_def)
  ultimately obtain w' where d: "deliver_due printing_service 1000000 subscribed client 0 subscribed_world = (Inr (), w')"
    using deliver_due_returns c unfolding m_def by blast
  have "project_row [''id'', ''email'', ''company''] client = client"
    by (rule ext) (simp add: project_row_def client_def)
  then have "user_of (tables subscribed_world ''users'') (PStr ''u1'') = Some client"
    by (simp add: user_of_def subscribed_world_def client_def)
  moreover have "clock subscribed_world = 1000000" by (simp add: subscribed_world_def)
  moreover have "active_rows subscribed_world = [subscribed]"
    by (simp add: active_rows_def subscribed_world_def subscribed_def)
  moreover have "subscribed ''user_id'' = PStr ''u1''" "subscribed ''next_delivery_at'' = PTime 0" "client ''email'' = PStr ''a@b.c''"
    by (simp_all add: subscribed_def client_def)
  ultimately show ?thesis
    using d \<open>healthy subscribed_world\<close> fetch_subscribers [of subscribed_world] b2b_get_user_healthy [of subscribed_world]
    by (simp add: run_due_b2b_auto_deliveries_def deliver_subscription_def due_instant_def world_simps ret_def)
qed

theorem second_delivery_run_is_idle_witness:
  "\<exists>w'. run_due_b2b_auto_deliveries printing_service subscribed_world = (Inr 1, w')
    \<and> run_due_b2b_auto_deliveries printing_service w' = (Inr 0, w')
    \<and> list_all2 (moved (clock subscribed_world)) (tables subscribed_world SUBSCRIPTIONS) (tables w' SUBSCRIPTIONS)"
proof -
  obtain w' where "run_due_b2b_auto_deliveries printing_service subscribed_world = (Inr 1, w')"
    using subscribed_run by blast
  moreover have "healthy subscribed_world" by (simp add: subscribed_world_def)
  ultimately show ?thesis using second_delivery_run_is_idle by blast
qed

theorem processed_request_ends_witness:
  "\<exists>w'. process_request printing_service (PStr ''r1'') asked_world = (Inr (), w')
    \<and> filter (\<lambda>x. x ''id'' \<noteq> PStr ''r1'') (tables w' REQUESTS) = filter (\<lambda>x. x ''id'' \<noteq> PStr ''r1'') (tables asked_world REQUESTS)
    \<and> rows_with w' REQUESTS ''id'' (PStr ''r1'') \<noteq> []
    \<and> (list_all (status_is ''held'') (rows_with w' REQUESTS ''id'' (PStr ''r1''))
       \<or> list_all (status_is ''failed'') (rows_with w' REQUESTS ''id'' (PStr ''r1''))
       \<or> list_all (status_is ''completed'') (rows_with w' REQUESTS ''id'' (PStr ''r1''))
         \<and> (\<exists>bytes. bytes \<noteq> [] \<and> storage_download (is_settings printing_service) ''reports'' (storage_path asked) w' = (Inr bytes, w'))
         \<and> (\<exists>before sent. outbox w' = before @ sent \<and> mailed asked sent))"
  by (rule processed_request_ends [where rs = "[]"]) (simp_all add: asked_world_def printing_service_def asked_def)

end
