(* ===== verification/Pool_Properties.thy ===== *)
theory Pool_Properties
  imports Signal_Pool Aggregate_Properties
begin

text \<open>
  The control an administrator has over the pool of signals: consent can be withdrawn and never given,
  whatever fails on the way, and the number the pool calls eligible is the number a report counts.
\<close>

section \<open>Consent\<close>

datatype pool_request = Set_internal pyval bool | Set_consent pyval bool

fun pool_request_comp :: "pool_request \<Rightarrow> unit comp" where
  "pool_request_comp (Set_internal i b) = bindM (set_internal i b) (\<lambda>_. ret ())"
| "pool_request_comp (Set_consent i b) = bindM (set_consent i b) (\<lambda>_. ret ())"

text \<open>Requests one after the other; an error ends its own request only.\<close>

fun pool_run :: "pool_request list \<Rightarrow> world \<Rightarrow> world" where
  "pool_run [] w = w"
| "pool_run (q # qs) w = pool_run qs (snd (pool_request_comp q w))"

definition no_more_consent :: "row \<Rightarrow> row \<Rightarrow> bool" where
  "no_more_consent r r' \<longleftrightarrow> (\<exists>c i u. r' = r(''b2b_consent'' := c, ''is_internal'' := i, ''updated_at'' := u)
     \<and> (c = r ''b2b_consent'' \<or> c = PBool False))"

lemma no_more_consent_refl: "no_more_consent r r"
  unfolding no_more_consent_def
  by (rule exI [of _ "r ''b2b_consent''"], rule exI [of _ "r ''is_internal''"], rule exI [of _ "r ''updated_at''"]) simp

lemma no_more_consent_set:
  assumes "no_more_consent r r'" and "p = [(''is_internal'', v), (''updated_at'', u)] \<or> p = [(''b2b_consent'', PBool False), (''updated_at'', u)]"
  shows "no_more_consent r (set_cells p r')"
proof -
  obtain c i u0 where r': "r' = r(''b2b_consent'' := c, ''is_internal'' := i, ''updated_at'' := u0)" "c = r ''b2b_consent'' \<or> c = PBool False"
    using assms(1) unfolding no_more_consent_def by (elim exE conjE)
  from assms(2) show ?thesis
  proof
    assume p: "p = [(''is_internal'', v), (''updated_at'', u)]"
    have "set_cells p r' = r(''b2b_consent'' := c, ''is_internal'' := v, ''updated_at'' := u)"
      unfolding p r'(1) set_cells_def by (rule ext) simp
    then show ?thesis using r'(2) unfolding no_more_consent_def by blast
  next
    assume p: "p = [(''b2b_consent'', PBool False), (''updated_at'', u)]"
    have "set_cells p r' = r(''b2b_consent'' := PBool False, ''is_internal'' := i, ''updated_at'' := u)"
      unfolding p r'(1) set_cells_def by (rule ext) simp
    then show ?thesis unfolding no_more_consent_def by blast
  qed
qed

abbreviation consent_kept :: "row list \<Rightarrow> world \<Rightarrow> bool" where
  "consent_kept rs \<equiv> tables_inv (\<lambda>ts. list_all2 no_more_consent rs (ts SIGNALS))"

lemma keeps_consent_update [intro!]:
  assumes "p = [(''is_internal'', v), (''updated_at'', u)] \<or> p = [(''b2b_consent'', PBool False), (''updated_at'', u)]"
  shows "keeps (consent_kept rs) (run (tq_eq ''id'' i (tq_update p (tq SIGNALS))))"
  unfolding run_def
proof (intro keeps_bindM keeps_ret keeps_query_update)
  fix ts p' assume "q_payload (tq_eq ''id'' i (tq_update p (tq SIGNALS))) = One p'" and a: "list_all2 no_more_consent rs (ts SIGNALS)"
  then have "p' = p" by (simp add: builder_defs)
  then have "list_all2 no_more_consent rs (update_rows fs p' (ts SIGNALS))" for fs
    using a no_more_consent_set [OF _ assms] by (auto simp: update_rows_def list_all2_map2 elim: list_all2_mono)
  then show "list_all2 no_more_consent rs ((ts(q_table (tq_eq ''id'' i (tq_update p (tq SIGNALS))) :=
      update_rows (q_filters (tq_eq ''id'' i (tq_update p (tq SIGNALS)))) p' (ts (q_table (tq_eq ''id'' i (tq_update p (tq SIGNALS))))))) SIGNALS)"
    by (simp add: builder_defs)
qed (simp add: builder_defs)

lemma keeps_get_signal [intro!]: "keeps (tables_inv P) (get_signal i)"
  unfolding get_signal_def by (auto simp: builder_defs)

lemma keeps_pool_request: "keeps (consent_kept rs) (pool_request_comp q)"
proof (cases q)
  case (Set_internal i b)
  have "keeps (consent_kept rs) (set_internal i b)"
    unfolding set_internal_def utcnow_def by (auto split: option.split)
  then show ?thesis using Set_internal by auto
next
  case (Set_consent i b)
  have "keeps (consent_kept rs) (set_consent i b)"
    unfolding set_consent_def utcnow_def by (auto split: option.split)
  then show ?thesis using Set_consent by auto
qed

text \<open>
  C22: However an administrator uses the pool, and whichever statements fail, the pool keeps its signals
  and their contents, and a consent is never given: afterwards a signal has the consent it had or none.
  A request to grant one is refused before anything is read.
\<close>

theorem pool_never_grants_consent:
  "list_all2 no_more_consent (tables w SIGNALS) (tables (pool_run qs w) SIGNALS)
   \<and> set_consent i True w = (Inl ConsentGrantRefused, w)"
proof -
  have "consent_kept rs (pool_run qs w')" if "consent_kept rs w'" for rs w'
    using that by (induction qs arbitrary: w') (auto intro: keepsD [OF keeps_pool_request])
  from this [of "tables w SIGNALS" w] show ?thesis
    by (simp add: tables_inv_def list.rel_refl no_more_consent_refl set_consent_def world_simps)
qed

section \<open>Eligibility\<close>

text \<open>
  The number of signals the pool calls eligible for a period is the number of signals a report of that
  period counts, while the flags of the signals are booleans.
\<close>

theorem eligible_is_what_reports_count:
  assumes "pool_ok w" and "list_all (\<lambda>r. (\<exists>b. r ''b2b_consent'' = PBool b) \<and> (\<exists>b. r ''is_internal'' = PBool b)) (tables w SIGNALS)"
    and "build_metrics product_type s e w = (Inr m, w1)"
  shows "\<exists>p. pool_summary (Some s) (Some e) w = (Inr p, w) \<and> source_signal_count m = int (ps_eligible p)
    \<and> ps_total p = ps_eligible p + ps_no_consent p + ps_consented_internal p"
proof -
  let ?in = "\<lambda>r. sql_le (PDate s) (r ''submission_date'') \<and> sql_le (r ''submission_date'') (PDate e)"
  let ?rows = "filter ?in (tables w SIGNALS)"
  have len: "length (filter P (tables w SIGNALS)) \<le> max_rows w" for P
    using assms(1) length_filter_le [of P "tables w SIGNALS"] unfolding pool_ok_def by linarith
  have h: "healthy w" using assms(1) by (simp add: pool_ok_def)
  have m: "matches [F_gte ''submission_date'' (PDate s), F_lte ''submission_date'' (PDate e)] = ?in"
    by (rule ext) (simp add: matches_def)
  have "pool_summary (Some s) (Some e) w = (Inr (summarise ?rows), w)"
    using h len by (simp add: pool_summary_def all_signals_def query_eval world_simps healthy_def sql_def table_defs m)
  moreover have "filter (in_period s e) (signals w) = filter is_eligible ?rows"
  proof -
    have "in_period s e r = (is_eligible r \<and> ?in r)" if "r \<in> set (tables w SIGNALS)" for r
      using that assms(1,2) by (auto simp: list_all_iff in_period_def is_eligible_def pool_ok_def sql_le_def)
    then show ?thesis by (auto intro: filter_cong)
  qed
  moreover have "source_signal_count m = int (length (filter (in_period s e) (signals w)))"
    using assms(3) load_signals_healthy [OF assms(1), of s e] facts_plain facts_to_metrics_Inr
    by (fastforce simp: build_metrics_def facts_of_period_def build_raw_facts_def today_def world_simps render_facts_def Let_def
        split: prod.splits sum.splits)
  moreover have "ps_total (summarise rs) = ps_eligible (summarise rs) + ps_no_consent (summarise rs) + ps_consented_internal (summarise rs)" for rs
    by (induction rs) (auto simp: summarise_def count_rows_def is_eligible_def Let_def)
  moreover have "ps_eligible (summarise rs) = length (filter is_eligible rs)" for rs
    by (simp add: summarise_def count_rows_def Let_def)
  ultimately show ?thesis by (intro exI [of _ "summarise ?rows"]) (simp only:)
qed

theorem eligible_is_what_reports_count_witness:
  "\<exists>p. pool_summary (Some 19997) (Some 20027) october_world = (Inr p, october_world)
    \<and> source_signal_count (projr (fst (build_metrics ''crew_casting'' 19997 20027 october_world))) = int (ps_eligible p)
    \<and> ps_total p = ps_eligible p + ps_no_consent p + ps_consented_internal p"
proof (rule eligible_is_what_reports_count [OF october_pool])
  show "list_all (\<lambda>r. (\<exists>b. r ''b2b_consent'' = PBool b) \<and> (\<exists>b. r ''is_internal'' = PBool b)) (tables october_world SIGNALS)"
    by (simp add: october_simps october_signals_def shared_signal_def sample_signal_def) blast
  have "\<not> isl (fst (build_metrics ''crew_casting'' 19997 20027 october_world))" by code_simp
  then show "build_metrics ''crew_casting'' 19997 20027 october_world
      = (Inr (projr (fst (build_metrics ''crew_casting'' 19997 20027 october_world))),
         snd (build_metrics ''crew_casting'' 19997 20027 october_world))"
    by (rule known_run)
qed

end
