(* ===== verification/Territories.thy ===== *)
theory Territories
  imports Python_Text
begin

text \<open>
  \<open>app/core/territories.py\<close>: the registry of countries, sub-territories and the European Union, the
  index from every label, alias and code to its entry, and the country a producer's territory
  resolves to. A member of the enum is a record with its name; names and aliases are UTF-8 and
  lowered as ASCII on both sides of a lookup. The bare two-letter code that \<open>producer_iso\<close> passes on
  is recognised among ASCII texts: a text of two other letters, which the code also returns, is none.
\<close>

section \<open>The registry\<close>

record territory =
  member_name :: string
  label :: string
  iso :: string
  aliases :: "string list"
  parent_name :: "string option"

definition territory_entry :: "string \<Rightarrow> string \<Rightarrow> string \<Rightarrow> string list \<Rightarrow> string option \<Rightarrow> territory" where
  "territory_entry n l i a p = \<lparr>member_name = n, label = l, iso = i, aliases = a, parent_name = p\<rparr>"

definition TOP_LEVEL_TERRITORIES :: "territory list" where
  "TOP_LEVEL_TERRITORIES = [
     territory_entry ''UNITED_KINGDOM'' ''United Kingdom'' ''GB'' [''UK'', ''GB'', ''Great Britain'', ''Britain''] None,
     territory_entry ''IRELAND'' ''Ireland'' ''IE'' [''IE'', ''Republic of Ireland'', ''Eire''] None,
     territory_entry ''UNITED_STATES'' ''United States'' ''US'' [''US'', ''USA'', ''United States of America'', ''America''] None,
     territory_entry ''CANADA'' ''Canada'' ''CA'' [''CA'', ''Canada (Federal)''] None,
     territory_entry ''FRANCE'' ''France'' ''FR'' [''FR''] None,
     territory_entry ''GERMANY'' ''Germany'' ''DE'' [''DE'', ''Deutschland''] None,
     territory_entry ''SPAIN'' ''Spain'' ''ES'' [''ES'', ''Espa'' @ [CHR 0xC3] @ [CHR 0xB1] @ ''a''] None,
     territory_entry ''ITALY'' ''Italy'' ''IT'' [''IT'', ''Italia''] None,
     territory_entry ''AUSTRALIA'' ''Australia'' ''AU'' [''AU'', ''AUS''] None,
     territory_entry ''NEW_ZEALAND'' ''New Zealand'' ''NZ'' [''NZ'', ''Aotearoa''] None,
     territory_entry ''SOUTH_AFRICA'' ''South Africa'' ''ZA'' [''ZA'', ''RSA''] None,
     territory_entry ''CZECH_REPUBLIC'' ''Czech Republic'' ''CZ'' [''CZ'', ''Czechia''] None,
     territory_entry ''HUNGARY'' ''Hungary'' ''HU'' [''HU'', ''Magyarorsz'' @ [CHR 0xC3] @ [CHR 0xA1] @ ''g''] None,
     territory_entry ''ICELAND'' ''Iceland'' ''IS'' [''IS'', [CHR 0xC3] @ [CHR 0x8D] @ ''sland''] None,
     territory_entry ''MALTA'' ''Malta'' ''MT'' [''MT''] None,
     territory_entry ''NIGERIA'' ''Nigeria'' ''NG'' [''NG'', ''Nollywood''] None,
     territory_entry ''BELGIUM'' ''Belgium'' ''BE'' [''BE'', ''Belgique'', ''Belgi'' @ [CHR 0xC3] @ [CHR 0xAB]] None,
     territory_entry ''INDIA'' ''India'' ''IN'' [''IN''] None,
     territory_entry ''JAPAN'' ''Japan'' ''JP'' [''JP''] None,
     territory_entry ''MOROCCO'' ''Morocco'' ''MA'' [''MA'', ''Maroc''] None,
     territory_entry ''NETHERLANDS'' ''Netherlands'' ''NL'' [''NL'', ''Holland'', ''The Netherlands''] None,
     territory_entry ''PORTUGAL'' ''Portugal'' ''PT'' [''PT''] None,
     territory_entry ''ROMANIA'' ''Romania'' ''RO'' [''RO''] None,
     territory_entry ''SERBIA'' ''Serbia'' ''RS'' [''RS''] None,
     territory_entry ''SINGAPORE'' ''Singapore'' ''SG'' [''SG''] None,
     territory_entry ''SOUTH_KOREA'' ''South Korea'' ''KR'' [''KR'', ''Korea'', ''Republic of Korea''] None,
     territory_entry ''MEXICO'' ''Mexico'' ''MX'' [''MX'', ''M'' @ [CHR 0xC3] @ [CHR 0xA9] @ ''xico''] None,
     territory_entry ''BRAZIL'' ''Brazil'' ''BR'' [''BR'', ''Brasil''] None]"

definition SUB_TERRITORIES :: "territory list" where
  "SUB_TERRITORIES = [
     territory_entry ''ENGLAND'' ''England'' ''GB'' [] (Some ''UNITED_KINGDOM''),
     territory_entry ''SCOTLAND'' ''Scotland'' ''GB'' [] (Some ''UNITED_KINGDOM''),
     territory_entry ''WALES'' ''Wales'' ''GB'' [''Cymru''] (Some ''UNITED_KINGDOM''),
     territory_entry ''NORTHERN_IRELAND'' ''Northern Ireland'' ''GB'' [''NI''] (Some ''UNITED_KINGDOM''),
     territory_entry ''CALIFORNIA'' ''California'' ''US'' [''CA-US''] (Some ''UNITED_STATES''),
     territory_entry ''NEW_YORK'' ''New York'' ''US'' [''NY''] (Some ''UNITED_STATES''),
     territory_entry ''GEORGIA_USA'' ''Georgia (USA)'' ''US'' [''GA''] (Some ''UNITED_STATES''),
     territory_entry ''LOUISIANA'' ''Louisiana'' ''US'' [''LA-US''] (Some ''UNITED_STATES''),
     territory_entry ''NEW_MEXICO'' ''New Mexico'' ''US'' [''NM''] (Some ''UNITED_STATES''),
     territory_entry ''ILLINOIS'' ''Illinois'' ''US'' [''IL''] (Some ''UNITED_STATES''),
     territory_entry ''ONTARIO'' ''Ontario'' ''CA'' [''ON''] (Some ''CANADA''),
     territory_entry ''BRITISH_COLUMBIA'' ''British Columbia'' ''CA'' [''BC''] (Some ''CANADA''),
     territory_entry ''QUEBEC'' ''Quebec'' ''CA'' [''QC'', ''Qu'' @ [CHR 0xC3] @ [CHR 0xA9] @ ''bec''] (Some ''CANADA''),
     territory_entry ''ALBERTA'' ''Alberta'' ''CA'' [''AB''] (Some ''CANADA''),
     territory_entry ''NEW_SOUTH_WALES'' ''New South Wales'' ''AU'' [''NSW''] (Some ''AUSTRALIA''),
     territory_entry ''VICTORIA_AU'' ''Victoria'' ''AU'' [''VIC''] (Some ''AUSTRALIA''),
     territory_entry ''QUEENSLAND'' ''Queensland'' ''AU'' [''QLD''] (Some ''AUSTRALIA''),
     territory_entry ''WESTERN_CAPE'' ''Western Cape'' ''ZA'' [''WC''] (Some ''SOUTH_AFRICA''),
     territory_entry ''GAUTENG'' ''Gauteng'' ''ZA'' [''GP''] (Some ''SOUTH_AFRICA''),
     territory_entry ''KWAZULU_NATAL'' ''KwaZulu-Natal'' ''ZA'' [''KZN''] (Some ''SOUTH_AFRICA''),
     territory_entry ''BAVARIA'' ''Bavaria'' ''DE'' [''Bayern'', ''BY''] (Some ''GERMANY''),
     territory_entry ''BERLIN'' ''Berlin'' ''DE'' [''BE''] (Some ''GERMANY''),
     territory_entry ''CANARY_ISLANDS'' ''Canary Islands'' ''ES'' [''Canarias''] (Some ''SPAIN''),
     territory_entry ''ILE_DE_FRANCE'' ([CHR 0xC3] @ [CHR 0x8E] @ ''le-de-France'') ''FR'' [''Ile-de-France'', ''IDF'', ''Paris Region''] (Some ''FRANCE'')]"

definition TERRITORIES :: "territory list" where
  "TERRITORIES = TOP_LEVEL_TERRITORIES @ SUB_TERRITORIES @ [territory_entry ''EUROPEAN_UNION'' ''European Union'' ''EU'' [''EU''] None]"

text \<open>\<open>Territory[name]\<close>; every parent that is named is a member.\<close>

definition member_named :: "string \<Rightarrow> territory option" where
  "member_named n = find (\<lambda>t. member_name t = n) TERRITORIES"

definition parent :: "territory \<Rightarrow> territory option" where
  "parent t = Option.bind (parent_name t) member_named"

definition is_country :: "territory \<Rightarrow> bool" where
  "is_country t = (parent_name t = None \<and> iso t \<noteq> ''EU'')"

definition is_sub_territory :: "territory \<Rightarrow> bool" where
  "is_sub_territory t = (parent_name t \<noteq> None)"

definition countries :: "territory list" where
  "countries = filter is_country TERRITORIES"

definition sub_territories_of :: "territory \<Rightarrow> territory list" where
  "sub_territories_of country = filter (\<lambda>t. parent t = Some country) TERRITORIES"

section \<open>The index\<close>

type_synonym territory_index = "(string \<times> territory) list"

definition index_alias :: "territory \<Rightarrow> string \<Rightarrow> territory_index \<Rightarrow> territory_index" where
  "index_alias t alias index =
     (let key = lower alias in if map_of index key = None then AList.update key t index else index)"

definition index_territory :: "territory \<Rightarrow> territory_index \<Rightarrow> territory_index" where
  "index_territory t index =
     (let named = fold (index_alias t) (aliases t) (AList.update (lower (label t)) t index) in
      if is_country t then AList.update (lower (iso t)) t named else named)"

definition build_lookup :: "territory list \<Rightarrow> territory_index" where
  "build_lookup ts = fold index_territory ts []"

definition LOOKUP :: territory_index where
  "LOOKUP = build_lookup TERRITORIES"

definition resolve_territory :: "string \<Rightarrow> territory option" where
  "resolve_territory name = (if name = [] then None else map_of LOOKUP (lower (strip name)))"

definition territory_to_iso :: "(string \<times> string) list" where
  "territory_to_iso = map (\<lambda>t. (label t, iso t)) TERRITORIES"

definition iso_to_territory :: "(string \<times> string) list" where
  "iso_to_territory = map (\<lambda>t. (iso t, label t)) countries"

section \<open>The nationality of a producer\<close>

definition EU_MEMBER_ISOS :: "string list" where
  "EU_MEMBER_ISOS = [''AT'', ''BE'', ''BG'', ''HR'', ''CY'', ''CZ'', ''DK'', ''EE'', ''FI'', ''FR'', ''DE'', ''GR'', ''HU'',
     ''IE'', ''IT'', ''LV'', ''LT'', ''LU'', ''MT'', ''NL'', ''PL'', ''PT'', ''RO'', ''SK'', ''SI'', ''ES'', ''SE'']"

definition producer_iso :: "string \<Rightarrow> string option" where
  "producer_iso value =
     (if value = [] then None
      else (case resolve_territory value of
          Some t \<Rightarrow> Some (iso (case parent t of Some p \<Rightarrow> p | None \<Rightarrow> t))
        | None \<Rightarrow> (let stripped = upper (strip value) in
            if length stripped = 2 \<and> list_all is_letter stripped then Some stripped else None)))"

section \<open>What the index answers\<close>

text \<open>The keys that win over whatever an earlier entry put there.\<close>

definition first_keys :: "territory \<Rightarrow> string list" where
  "first_keys t = lower (label t) # (if is_country t then [lower (iso t)] else [])"

lemma index_aliases:
  "map_of (fold (index_alias t) as index) key
     = (case map_of index key of Some u \<Rightarrow> Some u | None \<Rightarrow> if key \<in> lower ` set as then Some t else None)"
  by (induction as arbitrary: index) (auto simp: index_alias_def Let_def update_conv' split: option.splits)

lemma index_territory_apply:
  "map_of (index_territory t index) key
     = (if key \<in> set (first_keys t) then Some t
        else (case map_of index key of Some u \<Rightarrow> Some u | None \<Rightarrow> if key \<in> lower ` set (aliases t) then Some t else None))"
  by (auto simp: index_territory_def Let_def first_keys_def index_aliases update_conv' split: option.splits)

lemma build_lookup_apply:
  "map_of (build_lookup ts) key
     = (case find (\<lambda>t. key \<in> set (first_keys t)) (rev ts) of Some t \<Rightarrow> Some t
        | None \<Rightarrow> find (\<lambda>t. key \<in> lower ` set (aliases t)) ts)"
proof (induction ts rule: rev_induct)
  case (snoc t ts)
  have "find P (xs @ [x]) = (case find P xs of None \<Rightarrow> (if P x then Some x else None) | Some y \<Rightarrow> Some y)" for P xs and x :: territory
    by (induction xs) auto
  then show ?case using snoc by (simp add: build_lookup_def index_territory_apply split: option.splits)
qed (simp add: build_lookup_def)

lemma first_keys_distinct: "distinct (concat (map first_keys TERRITORIES))"
  by code_simp

lemma parents_are_countries:
  "list_all (\<lambda>t. parent_name t = None \<or> list_ex (\<lambda>u. parent_name t = Some (member_name u) \<and> is_country u) TERRITORIES) TERRITORIES"
  by code_simp

lemma codes_and_labels:
  "list_all (\<lambda>t. length (iso t) = 2 \<and> list_all is_letter (iso t) \<and> upper (iso t) = iso t
     \<and> label t \<noteq> [] \<and> strip (label t) = label t) TERRITORIES"
  by code_simp

text \<open>Of entries with distinct keys, the last that has one of them is the only one.\<close>

lemma only_holder:
  assumes "distinct (concat (map f ts))" "t \<in> set ts" "key \<in> set (f t)"
  shows "find (\<lambda>u. key \<in> set (f u)) (rev ts) = Some t"
  using assms
proof (induction ts rule: rev_induct)
  case (snoc u ts)
  then show ?case by (cases "u = t") (auto simp: disjoint_iff)
qed simp

lemma resolve_label:
  assumes "t \<in> set TERRITORIES" "lower (strip name) = lower (label t)"
  shows "resolve_territory name = Some t"
proof -
  have "label t \<noteq> []" using assms(1) codes_and_labels by (auto simp: list_all_iff)
  then have "name \<noteq> []" using assms(2) by (auto simp: lower_def strip_def)
  then show ?thesis
    using only_holder [OF first_keys_distinct assms(1), of "lower (label t)"] assms(2)
    by (simp add: resolve_territory_def LOOKUP_def build_lookup_apply first_keys_def)
qed

lemma found_in: "find P xs = Some x \<Longrightarrow> x \<in> set xs \<and> P x"
  by (induction xs) (auto split: if_splits)

lemma resolved_member: "resolve_territory name = Some t \<Longrightarrow> t \<in> set TERRITORIES"
  by (auto simp: resolve_territory_def LOOKUP_def build_lookup_apply dest: found_in split: if_splits option.splits)

lemma parent_member:
  assumes "t \<in> set TERRITORIES"
  shows "case parent t of None \<Rightarrow> parent_name t = None | Some p \<Rightarrow> p \<in> set TERRITORIES"
proof (cases "parent_name t")
  case (Some n)
  then have "\<exists>u \<in> set TERRITORIES. member_name u = n"
    using bspec [OF parents_are_countries [unfolded list_all_iff] assms] by (auto simp: list_ex_iff)
  then obtain p where "member_named n = Some p"
    by (cases "member_named n") (auto simp: member_named_def find_None_iff)
  then show ?thesis using found_in [of _ TERRITORIES p] by (simp add: parent_def Some member_named_def)
qed (simp add: parent_def)

lemma parent_is_country:
  assumes "t \<in> set TERRITORIES"
  shows "case parent t of None \<Rightarrow> parent_name t = None | Some p \<Rightarrow> is_country p"
proof (cases "parent_name t")
  case (Some n)
  have "list_all (\<lambda>t. case parent t of None \<Rightarrow> parent_name t = None | Some p \<Rightarrow> is_country p) TERRITORIES" by code_simp
  with assms show ?thesis by (simp add: list_all_iff)
qed (simp add: parent_def)

end
