(* ===== verification/Producer_Eligibility.thy ===== *)
theory Producer_Eligibility
  imports Territories Json
begin

text \<open>
  \<open>app/modules/reports/producer_eligibility.py\<close>: whether the company behind a production may claim
  under a programme. The row of \<open>incentive_programs\<close> and the project are dicts; the sentences are
  those of the code.
\<close>

datatype producer_verdict = Qualifies | Routed | Excluded | Unknown

definition producer_label :: "producer_verdict \<Rightarrow> string" where
  "producer_label v = (case v of Qualifies \<Rightarrow> ''Producer qualifies directly''
     | Routed \<Rightarrow> ''Qualifies via a structure not yet in place''
     | Excluded \<Rightarrow> ''Not open to this producer'' | Unknown \<Rightarrow> ''Producer eligibility untested'')"

definition producer_rank :: "producer_verdict option \<Rightarrow> nat" where
  "producer_rank v = (case v of Some Excluded \<Rightarrow> 0 | Some Unknown \<Rightarrow> 1 | Some Routed \<Rightarrow> 2 | Some Qualifies \<Rightarrow> 3 | None \<Rightarrow> 1)"

text \<open>A text is decoded; what is then no list states no requirement.\<close>

definition decoded :: "pyval \<Rightarrow> pyval" where
  "decoded raw = (case raw of PStr s \<Rightarrow> (case json_loads s of None \<Rightarrow> PNone | Some v \<Rightarrow> v) | _ \<Rightarrow> raw)"

definition requirements :: "pydict \<Rightarrow> string list" where
  "requirements r =
     map (\<lambda>code. upper (strip (py_str code)))
       (filter (\<lambda>code. strip (py_str code) \<noteq> []) (list_of (decoded (lookup r ''nationality_requirements''))))"

definition meets_requirement :: "string \<Rightarrow> string list \<Rightarrow> bool" where
  "meets_requirement producer required =
     (producer \<in> set required \<or> ''EU'' \<in> set required \<and> producer \<in> set EU_MEMBER_ISOS)"

record producer_result =
  pe_verdict :: producer_verdict
  pe_label :: string
  pe_qualifies :: bool
  pe_explanation :: "string option"
  pe_required :: "string list"
  pe_producer :: "string option"
  pe_routes :: "string list"

definition producer_answer ::
  "producer_verdict \<Rightarrow> string option \<Rightarrow> string list \<Rightarrow> string option \<Rightarrow> string list \<Rightarrow> producer_result" where
  "producer_answer v explanation required producer routes =
     \<lparr>pe_verdict = v, pe_label = producer_label v, pe_qualifies = (v = Qualifies), pe_explanation = explanation,
      pe_required = required, pe_producer = producer, pe_routes = routes\<rparr>"

text \<open>\<open>a or producer_iso(b) or producer_iso(c)\<close>: the empty text counts as nothing.\<close>

definition producer_of :: "pydict \<Rightarrow> string option" where
  "producer_of project =
     (if truthy (lookup project ''producer_iso'') then Some (text_of (lookup project ''producer_iso''))
      else (case producer_iso (text_of (lookup project ''producer_country'')) of
          Some c \<Rightarrow> Some c
        | None \<Rightarrow> producer_iso (text_of (lookup project ''country''))))"

definition SPV_ROUTE :: string where
  "SPV_ROUTE = ''establishing a qualifying local entity (SPV)''"

definition TREATY_ROUTE :: string where
  "TREATY_ROUTE = ''qualifying through an official co-production treaty''"

definition intent_of :: "pydict \<Rightarrow> string" where
  "intent_of project = lower (strip (text_of (py_or (lookup project ''co_production_intent'') (PStr []))))"

definition routes_in :: "pydict \<Rightarrow> pydict \<Rightarrow> string list" where
  "routes_in r project =
     (if lookup r ''spv_eligible'' = PBool True then [SPV_ROUTE] else [])
     @ (if lookup r ''co_production_eligible'' = PBool True \<and> intent_of project \<noteq> ''no'' then [TREATY_ROUTE] else [])"

fun or_join :: "string list \<Rightarrow> string" where
  "or_join [] = []"
| "or_join [s] = s"
| "or_join (s # t # ss) = s @ ''; or '' @ or_join (t # ss)"

definition restricted_to :: "string \<Rightarrow> string \<Rightarrow> string" where
  "restricted_to stated producer =
     ''This programme is restricted to producers established in '' @ stated @ '', and this production is a '' @ producer @ '' entity. ''"

definition closed_route :: "pydict \<Rightarrow> pydict \<Rightarrow> string" where
  "closed_route r project =
     (if lookup r ''co_production_eligible'' = PBool True \<and> intent_of project = ''no''
      then '' The programme allows an official co-production route, which you ruled out at intake; reopening it would change this answer.''
      else [])"

definition evaluate_producer_eligibility :: "pydict \<Rightarrow> pydict \<Rightarrow> producer_result" where
  "evaluate_producer_eligibility r project =
     (let required = requirements r; stated = comma_join required in
      if required = [] then producer_answer Qualifies None required None []
      else
       (case producer_of project of
          None \<Rightarrow> producer_answer Unknown
            (Some (''This programme is restricted to producers established in '' @ stated
              @ ''. No production-company jurisdiction is held for this project, so whether it qualifies could not be tested.''))
            required None []
        | Some producer \<Rightarrow>
          if meets_requirement producer required
          then producer_answer Qualifies
            (Some (''A '' @ producer @ '' entity meets this programme'' @ [CHR 0x27] @ ''s '' @ stated @ '' requirement directly.''))
            required (Some producer) []
          else if routes_in r project \<noteq> []
          then producer_answer Routed
            (Some (restricted_to stated producer @ ''It states a route in: '' @ or_join (routes_in r project)
              @ ''. The rebate is only claimable once that structure exists, so it is shown as contingent rather than counted.''))
            required (Some producer) (routes_in r project)
          else producer_answer Excluded
            (Some (restricted_to stated producer
              @ ''It states no local-entity or co-production route, so it is not available to this production as structured.''
              @ closed_route r project))
            required (Some producer) []))"

definition legacy_status :: "producer_result \<Rightarrow> string" where
  "legacy_status result =
     (case pe_verdict result of
        Routed \<Rightarrow> if list_ex (text_contains ''SPV'') (pe_routes result) then ''requires_spv'' else ''requires_co_production''
      | Qualifies \<Rightarrow> ''qualified'' | Excluded \<Rightarrow> ''ineligible'' | Unknown \<Rightarrow> ''unknown'')"

end
