(* ===== verification/Format_Eligibility.thy ===== *)
theory Format_Eligibility
  imports Formats_Regions Json Incentive_Contracts
begin

text \<open>
  \<open>app/modules/reports/format_eligibility.py\<close>: whether a programme accepts the format of a
  production. A row of \<open>incentive_programs\<close> and the project are dicts. A sentence of the code is a
  text, but for the two that print a running time: they are constructors with the values printed.
  Letters, digits and blanks of the running-time patterns are those of ASCII.
\<close>

section \<open>Vocabulary\<close>

definition VALID_STATUSES :: "string list" where
  "VALID_STATUSES = [''verified'', ''conditional'', ''unknown'']"

datatype format_verdict = Eligible | Ineligible | Needs_confirmation | Unverified

definition unconfirmed :: "format_verdict \<Rightarrow> bool" where
  "unconfirmed v = (v = Needs_confirmation \<or> v = Unverified)"

definition format_rank :: "format_verdict \<Rightarrow> nat" where
  "format_rank v = (case v of Ineligible \<Rightarrow> 0 | Unverified \<Rightarrow> 1 | Needs_confirmation \<Rightarrow> 2 | Eligible \<Rightarrow> 3)"

definition format_label :: "format_verdict \<Rightarrow> string" where
  "format_label v = (case v of Eligible \<Rightarrow> ''Eligible'' | Ineligible \<Rightarrow> ''Not eligible for this format''
     | Needs_confirmation \<Rightarrow> ''Conditional'' | Unverified \<Rightarrow> ''Format eligibility unverified'')"

datatype gate_state = FORMAT_CONFIRMED | FORMAT_INELIGIBLE | FORMAT_UNVERIFIED

definition state_of_verdict :: "format_verdict option \<Rightarrow> gate_state" where
  "state_of_verdict v = (case v of Some Eligible \<Rightarrow> FORMAT_CONFIRMED | Some Ineligible \<Rightarrow> FORMAT_INELIGIBLE | _ \<Rightarrow> FORMAT_UNVERIFIED)"

definition badge :: "gate_state \<Rightarrow> string" where
  "badge g = (case g of FORMAT_CONFIRMED \<Rightarrow> ''green'' | FORMAT_INELIGIBLE \<Rightarrow> ''red'' | FORMAT_UNVERIFIED \<Rightarrow> ''neutral'')"

definition scores_zero :: "format_verdict option \<Rightarrow> bool" where
  "scores_zero v = (state_of_verdict v = FORMAT_INELIGIBLE)"

section \<open>What a row states\<close>

definition FORMAT_KEYS :: "string list" where
  "FORMAT_KEYS = [''feature'', ''short'', ''documentary'', ''tv_series'', ''animation'', ''unscripted'']"

definition tri_state :: "pyval \<Rightarrow> bool option" where
  "tri_state value = (case value of PBool b \<Rightarrow> Some b | _ \<Rightarrow> None)"

text \<open>A text is decoded unless it is blank; what is then no object answers nothing.\<close>

definition eligible_object :: "pyval \<Rightarrow> pyval" where
  "eligible_object value =
     (case value of
        PStr s \<Rightarrow> if strip s = [] then PNone else (case json_loads (strip s) of None \<Rightarrow> PNone | Some v \<Rightarrow> v)
      | _ \<Rightarrow> value)"

definition parse_eligible_formats :: "pyval \<Rightarrow> (string \<times> bool option) list" where
  "parse_eligible_formats value =
     map (\<lambda>key. (key, tri_state (dget (eligible_object value) key))) FORMAT_KEYS"

definition format_key :: "pyval \<Rightarrow> string option" where
  "format_key production_format =
     (case canonical_format production_format of
        Some token \<Rightarrow> if token \<in> set FORMAT_KEYS then Some token else None
      | None \<Rightarrow> None)"

definition is_confirmed :: "format_verdict \<Rightarrow> bool" where
  "is_confirmed v = (v = Eligible)"

definition stated_list :: "pyval \<Rightarrow> pyval list" where
  "stated_list value =
     (case value of
        PStr s \<Rightarrow>
          (let text = strip s in
           if text = [] then []
           else (case json_loads text of
               None \<Rightarrow> [PStr text]
             | Some (PStr t) \<Rightarrow> [PStr t]
             | Some (PList xs) \<Rightarrow> xs
             | Some _ \<Rightarrow> []))
      | PList xs \<Rightarrow> xs
      | _ \<Rightarrow> [])"

fun add_tokens :: "pyval list \<Rightarrow> string list \<Rightarrow> string list" where
  "add_tokens [] out = out"
| "add_tokens (item # items) out =
     (case canonical_format item of
        Some token \<Rightarrow> add_tokens items (if token \<noteq> [] \<and> token \<notin> set out then out @ [token] else out)
      | None \<Rightarrow> add_tokens items out)"

definition parse_applicable_formats :: "pyval \<Rightarrow> string list option" where
  "parse_applicable_formats value =
     (let out = add_tokens (stated_list value) [] in if out = [] then None else Some out)"

definition declared_status :: "pydict \<Rightarrow> string" where
  "declared_status r =
     (let raw = lower (strip (text_of (py_or (lookup r ''format_eligibility_status'') (PStr []))));
          status = (if raw \<in> set VALID_STATUSES then raw else ''unknown'') in
      if status = ''verified'' \<and> parse_applicable_formats (lookup r ''applicable_formats'') = None then ''unknown'' else status)"

section \<open>Conditions\<close>

text \<open>The patterns are matched on the lower case of the condition: they ignore case.\<close>

definition after_prefix :: "string \<Rightarrow> string \<Rightarrow> string option" where
  "after_prefix p s = (if starts_with p s then Some (drop (length p) s) else None)"

definition after_any :: "string list \<Rightarrow> string \<Rightarrow> string option" where
  "after_any ps s = (case filter (\<lambda>p. starts_with p s) ps of [] \<Rightarrow> None | p # _ \<Rightarrow> Some (drop (length p) s))"

definition skip_blanks :: "string \<Rightarrow> string" where
  "skip_blanks s = dropWhile is_space s"

definition skip_some_blanks :: "string \<Rightarrow> string option" where
  "skip_some_blanks s = (case s of c # cs \<Rightarrow> if is_space c then Some (skip_blanks cs) else None | [] \<Rightarrow> None)"

text \<open>\<open>(?:runtime|run\\s+time|length|duration)\<close>.\<close>

definition runtime_noun :: "string \<Rightarrow> string option" where
  "runtime_noun s =
     (case after_any [''runtime'', ''length'', ''duration''] s of
        Some t \<Rightarrow> Some t
      | None \<Rightarrow> Option.bind (Option.bind (after_prefix ''run'' s) skip_some_blanks) (after_prefix ''time''))"

text \<open>\<open>(?:(?:running\\s+)?(?:runtime|...)\\s*(?:of\\s*)?)?\<close>: skipped whole when it does not match whole.\<close>

definition skip_noun_phrase :: "string \<Rightarrow> string" where
  "skip_noun_phrase s =
     (let t = (case Option.bind (after_prefix ''running'' s) skip_some_blanks of Some u \<Rightarrow> u | None \<Rightarrow> s) in
      case runtime_noun t of
        None \<Rightarrow> s
      | Some u \<Rightarrow> (case after_prefix ''of'' (skip_blanks u) of Some v \<Rightarrow> skip_blanks v | None \<Rightarrow> skip_blanks u))"

text \<open>\<open>(\\d{1,3})\\s*(?:minutes|mins|min)\\b\<close> from here: the number and the rest.\<close>

definition minutes_unit :: "string \<Rightarrow> string option" where
  "minutes_unit s =
     (case filter (\<lambda>p. starts_with p s \<and> (case drop (length p) s of [] \<Rightarrow> True | c # _ \<Rightarrow> \<not> is_word_char c))
         [''minutes'', ''mins'', ''min''] of
        [] \<Rightarrow> None | p # _ \<Rightarrow> Some (drop (length p) s))"

definition minutes_at :: "string \<Rightarrow> (int \<times> string) option" where
  "minutes_at s =
     (let ds = takeWhile is_digit_char s in
      if 1 \<le> length ds \<and> length ds \<le> 3
      then map_option (Pair (decimal_value ds)) (minutes_unit (skip_blanks (drop (length ds) s)))
      else None)"

definition runtime_before :: "string \<Rightarrow> int option" where
  "runtime_before s =
     (case after_any [''minimum'', ''at least'', ''no less than'', ''over'', ''from''] s of
        None \<Rightarrow> None
      | Some t \<Rightarrow> map_option fst (minutes_at (skip_noun_phrase (skip_blanks t))))"

definition runtime_after :: "string \<Rightarrow> int option" where
  "runtime_after s =
     (case minutes_at s of
        None \<Rightarrow> None
      | Some (n, t) \<Rightarrow>
          if after_any [''or more'', ''minimum'', ''and over''] (skip_blanks t) = None then None else Some n)"

text \<open>\<open>re.search\<close>: the first place where the pattern matches.\<close>

fun search_text :: "(string \<Rightarrow> 'a option) \<Rightarrow> string \<Rightarrow> 'a option" where
  "search_text p [] = p []"
| "search_text p (c # cs) = (case p (c # cs) of Some x \<Rightarrow> Some x | None \<Rightarrow> search_text p cs)"

definition stated_minimum_runtime :: "string \<Rightarrow> int option" where
  "stated_minimum_runtime conditions =
     (case search_text runtime_before (lower conditions) of
        Some n \<Rightarrow> Some n
      | None \<Rightarrow> search_text runtime_after (lower conditions))"

datatype format_sentence = Sentence string | Meets_runtime string rat int | Below_runtime string rat int

definition evaluate_condition :: "pyval \<Rightarrow> pydict \<Rightarrow> bool option \<times> format_sentence" where
  "evaluate_condition conditions project =
     (let text = strip (text_of (py_or conditions (PStr []))) in
      if text = [] then (None, Sentence ''This programme has format conditions that are not recorded in detail.'')
      else
       (case stated_minimum_runtime text of
          None \<Rightarrow> (None, Sentence text)
        | Some minimum \<Rightarrow>
          (case to_float (lookup project ''runtime_minutes'') of
             None \<Rightarrow> (None, Sentence (text @ '' Your project'' @ [CHR 0x27] @ ''s runtime is not recorded, so this cannot be checked automatically.''))
           | Some runtime \<Rightarrow>
               if of_int minimum \<le> runtime then (Some True, Meets_runtime text runtime minimum)
               else (Some False, Below_runtime text runtime minimum))))"

section \<open>The decision\<close>

record format_result =
  fe_status :: string
  fe_applicable :: "string list option"
  fe_conditions :: pyval
  fe_source_url :: pyval
  fe_verified_at :: "string option"
  fe_eligible :: "(string \<times> bool option) list"
  fe_notes :: pyval
  fe_theatrical :: "bool option"
  fe_theatrical_note :: pyval
  fe_verdict :: format_verdict
  fe_label :: string
  fe_confirmed :: bool
  fe_gate_state :: gate_state
  fe_badge :: string
  fe_explanation :: format_sentence

definition or_none :: "pyval \<Rightarrow> pyval" where
  "or_none v = py_or v PNone"

definition format_answer :: "pydict \<Rightarrow> format_verdict \<Rightarrow> format_sentence \<Rightarrow> format_result" where
  "format_answer r v explanation =
     \<lparr>fe_status = declared_status r,
      fe_applicable = parse_applicable_formats (lookup r ''applicable_formats''),
      fe_conditions = or_none (lookup r ''format_conditions''),
      fe_source_url = or_none (lookup r ''format_source_url''),
      fe_verified_at = (if truthy (lookup r ''format_verified_at'') then Some (take 10 (py_str (lookup r ''format_verified_at''))) else None),
      fe_eligible = parse_eligible_formats (lookup r ''eligible_formats''),
      fe_notes = or_none (lookup r ''format_notes''),
      fe_theatrical = tri_state (lookup r ''theatrical_release_required''),
      fe_theatrical_note = or_none (lookup r ''theatrical_release_note''),
      fe_verdict = v, fe_label = format_label v, fe_confirmed = is_confirmed v,
      fe_gate_state = state_of_verdict (Some v), fe_badge = badge (state_of_verdict (Some v)),
      fe_explanation = explanation\<rparr>"

definition format_words :: "string \<Rightarrow> string" where
  "format_words token = lower (case map_of FORMAT_DISPLAY token of Some d \<Rightarrow> d | None \<Rightarrow> replace_char CHR ''_'' CHR '' '' token)"

definition with_notes :: "pydict \<Rightarrow> string \<Rightarrow> format_sentence" where
  "with_notes r text =
     Sentence (if truthy (lookup r ''format_notes'') then text @ '' '' @ py_str (lookup r ''format_notes'') else text)"

definition accepts :: "string \<Rightarrow> string" where
  "accepts token = ''This programme accepts '' @ format_words token @ '' projects''"

definition rejects :: "string \<Rightarrow> string" where
  "rejects token = ''This programme does not accept '' @ format_words token @ '' projects.''"

text \<open>The researched answer for the format of the production, if there is one.\<close>

definition researched :: "pydict \<Rightarrow> pyval \<Rightarrow> (string \<times> bool) option" where
  "researched r production_format =
     (case format_key production_format of
        None \<Rightarrow> None
      | Some key \<Rightarrow>
         (case map_of (parse_eligible_formats (lookup r ''eligible_formats'')) key of
            Some (Some b) \<Rightarrow> Some (key, b)
          | _ \<Rightarrow> None))"

definition theatrical_note :: "pydict \<Rightarrow> string" where
  "theatrical_note r = py_str (py_or (lookup r ''theatrical_release_note'') (PStr ''This programme requires a theatrical release.''))"

definition decide_researched :: "pydict \<Rightarrow> string \<Rightarrow> bool \<Rightarrow> format_result" where
  "decide_researched r key answer =
     (if \<not> answer then format_answer r Ineligible (with_notes r (rejects key))
      else if tri_state (lookup r ''theatrical_release_required'') = Some True
      then format_answer r Needs_confirmation
        (with_notes r (accepts key @ '', but requires a theatrical release. '' @ theatrical_note r))
      else format_answer r Eligible (with_notes r (accepts key @ ''.'')))"

text \<open>
  The whitelist and the status, for a format \<open>wanted\<close> that nobody researched. A verified row has a
  whitelist, as the code asserts.
\<close>

definition decide_listed :: "pydict \<Rightarrow> string \<Rightarrow> pydict \<Rightarrow> format_result" where
  "decide_listed r wanted project =
     (let status = declared_status r;
          allowed = parse_applicable_formats (lookup r ''applicable_formats'');
          listed = (case allowed of None \<Rightarrow> False | Some ts \<Rightarrow> wanted \<in> set ts) in
      if status = ''verified''
      then (if listed then format_answer r Eligible (Sentence (accepts wanted @ ''.''))
            else format_answer r Ineligible (Sentence (rejects wanted)))
      else if status = ''conditional''
      then (if allowed \<noteq> None \<and> \<not> listed then format_answer r Ineligible (Sentence (rejects wanted))
            else (case evaluate_condition (lookup r ''format_conditions'') project of
                (Some True, explanation) \<Rightarrow> format_answer r Eligible explanation
              | (Some False, explanation) \<Rightarrow> format_answer r Ineligible explanation
              | (None, explanation) \<Rightarrow> format_answer r Needs_confirmation explanation))
      else if allowed \<noteq> None \<and> \<not> listed
      then format_answer r Ineligible
        (Sentence (''This programme'' @ [CHR 0x27] @ ''s recorded scope does not include '' @ format_words wanted @ '' projects.''))
      else format_answer r Unverified
        (Sentence (''Whether this programme accepts '' @ format_words wanted @ '' projects has not been verified.'')))"

definition evaluate_format_eligibility :: "pydict \<Rightarrow> pyval \<Rightarrow> pydict \<Rightarrow> format_result" where
  "evaluate_format_eligibility r production_format project =
     (case researched r production_format of
        Some (key, answer) \<Rightarrow> decide_researched r key answer
      | None \<Rightarrow>
         (case canonical_format production_format of
            Some wanted \<Rightarrow> decide_listed r wanted project
          | None \<Rightarrow>
             if declared_status r = ''unknown''
             then format_answer r Unverified (Sentence (''This programme'' @ [CHR 0x27] @ ''s format eligibility has not been verified.''))
             else format_answer r Needs_confirmation
               (Sentence ''No production format was supplied, so format eligibility could not be checked.'')))"

definition any_unverified_for_format :: "pydict list \<Rightarrow> pyval \<Rightarrow> pydict \<Rightarrow> bool" where
  "any_unverified_for_format rows production_format project =
     list_ex (\<lambda>r. unconfirmed (fe_verdict (evaluate_format_eligibility r production_format project))) rows"

end
