(* ===== verification/Project_Incentive.thy ===== *)
theory Project_Incentive
  imports Producer_Eligibility Format_Eligibility Programme_Eligibility "HOL-Library.Product_Lexorder"
begin

text \<open>
  \<open>app/modules/reports/project_incentive.py\<close>: the one status of a programme for a project, combined
  from the programme, its formats and the producer; and from \<open>helpers.py\<close> the choice of the
  programme of a territory. An absent project is the empty dict, as the modules read it. The error of
  \<open>max\<close> on no rows is \<open>None\<close>.
\<close>

section \<open>Helpers\<close>

definition FORMATS_NEEDING_ELIGIBILITY_CHECK :: "string list" where
  "FORMATS_NEEDING_ELIGIBILITY_CHECK = [''short'', ''short film'']"

definition needs_format_eligibility_check :: "pyval \<Rightarrow> bool" where
  "needs_format_eligibility_check production_format =
     (truthy production_format
      \<and> lower (strip (text_of production_format)) \<in> set FORMATS_NEEDING_ELIGIBILITY_CHECK)"

definition format_eligibility_is_recorded :: "pydict list \<Rightarrow> bool" where
  "format_eligibility_is_recorded rows =
     list_ex (\<lambda>r. case decoded (lookup r ''applicable_formats'') of PList xs \<Rightarrow> xs \<noteq> [] | _ \<Rightarrow> False) rows"

definition is_domestic_corp_only :: "pydict \<Rightarrow> bool" where
  "is_domestic_corp_only r =
     ((case decoded (lookup r ''nationality_requirements'') of PList xs \<Rightarrow> xs \<noteq> [] | _ \<Rightarrow> False)
      \<and> lookup r ''spv_eligible'' = PBool False)"

section \<open>The status for a project\<close>

datatype incentive_status = Incentive_eligible | Incentive_ineligible | Incentive_conditional | Incentive_unverified

definition incentive_label :: "incentive_status \<Rightarrow> string" where
  "incentive_label s = (case s of Incentive_eligible \<Rightarrow> ''Eligible''
     | Incentive_ineligible \<Rightarrow> ''Not available to this project''
     | Incentive_conditional \<Rightarrow> ''Conditional eligibility'' | Incentive_unverified \<Rightarrow> ''Eligibility unverified'')"

text \<open>A reason is the sentence of a gate, of the format or of the producer, or a label in its place.\<close>

datatype incentive_reason = Gate_says gate_detail | Format_says format_sentence | Producer_says string | Label_says string

definition programme_reason :: "eligibility \<Rightarrow> incentive_reason" where
  "programme_reason p = (case el_explanation p of Some d \<Rightarrow> Gate_says d | None \<Rightarrow> Label_says (el_label p))"

definition format_reason :: "format_result \<Rightarrow> incentive_reason" where
  "format_reason f = (if fe_explanation f = Sentence [] then Label_says (fe_label f) else Format_says (fe_explanation f))"

definition producer_reason :: "producer_result \<Rightarrow> incentive_reason" where
  "producer_reason p = (case pe_explanation p of
     Some e \<Rightarrow> if e = [] then Label_says (pe_label p) else Producer_says e | None \<Rightarrow> Label_says (pe_label p))"

definition listed_if :: "bool \<Rightarrow> 'a \<Rightarrow> 'a list" where
  "listed_if b x = (if b then [x] else [])"

record incentive_result =
  pi_status :: incentive_status
  pi_label :: string
  pi_reasons :: "incentive_reason list"
  pi_format_status :: format_verdict
  pi_format_required :: bool
  pi_programme_status :: verdict
  pi_programme_reasons :: "gate list"
  pi_producer_status :: producer_verdict
  pi_producer_explanation :: "string option"
  pi_producer_routes :: "string list"
  pi_required_nationalities :: "string list"
  pi_producer_legacy :: string
  canAffectNetCost :: bool
  canAffectRanking :: bool
  canBeRecommended :: bool
  showPotentialAmount :: bool

definition hard_failures :: "bool \<Rightarrow> eligibility \<Rightarrow> format_result \<Rightarrow> producer_result \<Rightarrow> incentive_reason list" where
  "hard_failures required programme fmt producer =
     listed_if (el_verdict programme = Unavailable) (programme_reason programme)
     @ listed_if (required \<and> fe_verdict fmt = Ineligible) (format_reason fmt)
     @ listed_if (pe_verdict producer = Excluded) (producer_reason producer)"

definition unknown_dimensions :: "bool \<Rightarrow> eligibility \<Rightarrow> format_result \<Rightarrow> producer_result \<Rightarrow> incentive_reason list" where
  "unknown_dimensions required programme fmt producer =
     listed_if (el_verdict programme \<notin> {Available, Unavailable}) (programme_reason programme)
     @ listed_if (required \<and> fe_verdict fmt = Unverified) (format_reason fmt)
     @ listed_if (pe_verdict producer = Unknown) (producer_reason producer)"

definition open_conditions :: "bool \<Rightarrow> format_result \<Rightarrow> producer_result \<Rightarrow> incentive_reason list" where
  "open_conditions required fmt producer =
     listed_if (required \<and> fe_verdict fmt = Needs_confirmation) (format_reason fmt)
     @ listed_if (pe_verdict producer = Routed) (producer_reason producer)"

definition combine :: "bool \<Rightarrow> eligibility \<Rightarrow> format_result \<Rightarrow> producer_result \<Rightarrow> incentive_status \<times> incentive_reason list" where
  "combine required programme fmt producer =
     (if hard_failures required programme fmt producer \<noteq> []
      then (Incentive_ineligible, hard_failures required programme fmt producer)
      else if unknown_dimensions required programme fmt producer \<noteq> []
      then (Incentive_unverified, unknown_dimensions required programme fmt producer)
      else if open_conditions required fmt producer \<noteq> []
      then (Incentive_conditional, open_conditions required fmt producer)
      else (Incentive_eligible,
        listed_if (required \<and> fe_verdict fmt = Eligible \<and> fe_explanation fmt \<noteq> Sentence []) (Format_says (fe_explanation fmt))))"

definition resolve_project_incentive :: "pydict \<Rightarrow> pydict \<Rightarrow> pyval \<Rightarrow> incentive_result" where
  "resolve_project_incentive r project production_format =
     (let fmt = py_or production_format (lookup project ''format'');
          programme = evaluate_programme_eligibility r project;
          format_result = evaluate_format_eligibility r fmt project;
          producer = evaluate_producer_eligibility r project;
          required = needs_format_eligibility_check fmt;
          (status, reasons) = combine required programme format_result producer;
          confirmable = (status = Incentive_eligible) in
      \<lparr>pi_status = status, pi_label = incentive_label status, pi_reasons = reasons,
       pi_format_status = fe_verdict format_result, pi_format_required = required,
       pi_programme_status = el_verdict programme, pi_programme_reasons = el_reasons programme,
       pi_producer_status = pe_verdict producer, pi_producer_explanation = pe_explanation producer,
       pi_producer_routes = pe_routes producer, pi_required_nationalities = pe_required producer,
       pi_producer_legacy = legacy_status producer,
       canAffectNetCost = confirmable, canAffectRanking = confirmable, canBeRecommended = confirmable,
       showPotentialAmount = (status = Incentive_unverified \<or> status = Incentive_conditional)\<rparr>)"

definition status_of :: "pydict \<Rightarrow> pydict \<Rightarrow> pyval \<Rightarrow> incentive_status" where
  "status_of r project production_format = pi_status (resolve_project_incentive r project production_format)"

section \<open>The programme of a territory\<close>

text \<open>\<open>max(rows, key=...)\<close>: the first of the greatest.\<close>

definition max_by :: "('a \<Rightarrow> 'b::linorder) \<Rightarrow> 'a list \<Rightarrow> 'a option" where
  "max_by key xs = (case xs of [] \<Rightarrow> None | x # ys \<Rightarrow> Some (foldl (\<lambda>best y. if key best < key y then y else best) x ys))"

text \<open>The rows of the greatest rank, and the rows that satisfy a preference if there are any.\<close>

definition best_ranked :: "('a \<Rightarrow> nat) \<Rightarrow> 'a list \<Rightarrow> 'a list" where
  "best_ranked rank rows = filter (\<lambda>r. rank r = Max (rank ` set rows)) rows"

definition preferring :: "('a \<Rightarrow> bool) \<Rightarrow> 'a list \<Rightarrow> 'a list" where
  "preferring p rows = (if filter p rows \<noteq> [] then filter p rows else rows)"

definition rate_key :: "pydict \<Rightarrow> rat" where
  "rate_key r =
     (case to_float (py_or (py_or (lookup r ''rate_gross'') (lookup r ''rate_net'')) (PInt 0)) of
        Some x \<Rightarrow> x | None \<Rightarrow> 0)"

definition format_band :: "pyval \<Rightarrow> pydict \<Rightarrow> pydict list \<Rightarrow> pydict list" where
  "format_band production_format project rows =
     (if truthy production_format
      then (let verdict_of = \<lambda>r. fe_verdict (evaluate_format_eligibility r production_format project) in
            best_ranked (format_rank \<circ> verdict_of) (preferring (\<lambda>r. verdict_of r \<noteq> Ineligible) rows))
      else rows)"

definition best_incentive :: "pydict list \<Rightarrow> pyval \<Rightarrow> pydict \<Rightarrow> pydict option" where
  "best_incentive rows production_format project =
     (let usable = best_ranked (\<lambda>r. verdict_rank (Some (el_verdict (evaluate_programme_eligibility r project))))
                     (format_band production_format project rows);
          accessible = preferring (\<lambda>r. \<not> is_domestic_corp_only r) usable;
          primary = preferring (\<lambda>r. \<not> truthy (lookup r ''is_supplementary'')) accessible in
      max_by rate_key primary)"

end
