(* ===== verification/Incentive_Choice.thy ===== *)
theory Incentive_Choice
  imports Project_Incentive
begin

text \<open>
  What the territory registry, the choice of a programme and the status for a project promise: every
  name of the registry finds its own country, the choice among programmes of one format standing
  maximises one lexicographic preference, and
  a programme counts as money exactly when every required dimension is settled in its favour.
\<close>

section \<open>The first of the greatest\<close>

definition first_greatest :: "('a \<Rightarrow> 'b::linorder) \<Rightarrow> 'a list \<Rightarrow> 'a \<Rightarrow> bool" where
  "first_greatest key xs x =
     (\<exists>ys zs. xs = ys @ x # zs \<and> (\<forall>y \<in> set ys. key y < key x) \<and> (\<forall>z \<in> set zs. key z \<le> key x))"

lemma fold_first_greatest:
  assumes "first_greatest key ys b"
  shows "first_greatest key (ys @ xs) (foldl (\<lambda>best y. if key best < key y then y else best) b xs)"
  using assms
proof (induction xs arbitrary: ys b)
  case (Cons x xs)
  have "first_greatest key (ys @ [x]) (if key b < key x then x else b)"
  proof (cases "key b < key x")
    case True
    have "key y \<le> key b" if "y \<in> set ys" for y
      using Cons.prems that by (auto simp: first_greatest_def less_imp_le)
    then have "\<forall>y \<in> set ys. key y < key x" using True le_less_trans by blast
    then show ?thesis unfolding first_greatest_def by (intro exI [of _ ys] exI [of _ "[]"]) (simp add: True)
  next
    case False
    obtain us vs where "ys = us @ b # vs" "\<forall>y \<in> set us. key y < key b" "\<forall>z \<in> set vs. key z \<le> key b"
      using Cons.prems by (auto simp: first_greatest_def)
    with False show ?thesis unfolding first_greatest_def by (intro exI [of _ us] exI [of _ "vs @ [x]"]) auto
  qed
  from Cons.IH [OF this] show ?case by simp
qed simp

lemma max_by_first: "max_by key xs = Some x \<Longrightarrow> first_greatest key xs x"
proof (cases xs)
  case (Cons y ys)
  assume "max_by key xs = Some x"
  moreover have "first_greatest key [y] y" unfolding first_greatest_def by (intro exI [of _ "[]"]) simp
  ultimately show ?thesis using fold_first_greatest [of key "[y]" y ys] by (simp add: max_by_def Cons)
qed (simp add: max_by_def)

lemma first_greatest_unique:
  assumes "first_greatest key xs x" "first_greatest key xs y"
  shows "x = y"
proof -
  obtain as bs where x: "xs = as @ x # bs" "\<forall>u \<in> set as. key u < key x" "\<forall>u \<in> set bs. key u \<le> key x"
    using assms(1) by (auto simp: first_greatest_def)
  obtain cs ds where y: "xs = cs @ y # ds" "\<forall>u \<in> set cs. key u < key y" "\<forall>u \<in> set ds. key u \<le> key y"
    using assms(2) by (auto simp: first_greatest_def)
  have "as @ x # bs = cs @ y # ds" using x y by simp
  then consider us where "as = cs @ us" "us @ x # bs = y # ds" | us where "cs = as @ us" "us @ y # ds = x # bs"
    by (auto simp: append_eq_append_conv2)
  then show ?thesis
  proof cases
    case (1 us)
    show ?thesis
    proof (cases us)
      case (Cons u vs)
      then have "y \<in> set as" "x \<in> set ds" using 1 by auto
      then show ?thesis using x(2) y(3) by (auto dest!: bspec dest: leD)
    qed (use 1 in simp)
  next
    case (2 us)
    show ?thesis
    proof (cases us)
      case (Cons u vs)
      then have "x \<in> set cs" "y \<in> set bs" using 2 by auto
      then show ?thesis using x(3) y(2) by (auto dest!: bspec dest: leD)
    qed (use 2 in simp)
  qed
qed

lemma max_by_eq: "first_greatest key xs x \<Longrightarrow> max_by key xs = Some x"
proof -
  assume *: "first_greatest key xs x"
  then have "xs \<noteq> []" by (auto simp: first_greatest_def)
  then obtain y where y: "max_by key xs = Some y" by (cases xs) (auto simp: max_by_def)
  then show ?thesis using first_greatest_unique [OF max_by_first [OF y] *] by simp
qed

lemma max_by_Nil [simp]: "max_by key xs = None \<longleftrightarrow> xs = []"
  by (cases xs) (auto simp: max_by_def)

text \<open>A band of greatest rank and then a key: the pair of both.\<close>

lemma max_by_best_ranked: "max_by g (best_ranked f xs) = max_by (\<lambda>r. (f r, g r)) xs"
proof (cases "max_by (\<lambda>r. (f r, g r)) xs")
  case None
  then have "xs = []" by simp
  then show ?thesis by (simp add: best_ranked_def max_by_def)
next
  case (Some x)
  obtain ys zs where x: "xs = ys @ x # zs" "\<forall>y \<in> set ys. (f y, g y) < (f x, g x)" "\<forall>z \<in> set zs. (f z, g z) \<le> (f x, g x)"
    using max_by_first [OF Some] by (auto simp: first_greatest_def)
  have "Max (f ` set xs) = f x" using x by (intro Max_eqI) (auto simp: less_prod_def less_eq_prod_def)
  then have "best_ranked f xs = filter (\<lambda>r. f r = f x) ys @ x # filter (\<lambda>r. f r = f x) zs"
    by (simp add: best_ranked_def x(1))
  then have "first_greatest g (best_ranked f xs) x"
    unfolding first_greatest_def using x(2,3)
    by (intro exI [of _ "filter (\<lambda>r. f r = f x) ys"] exI [of _ "filter (\<lambda>r. f r = f x) zs"]) auto
  then show ?thesis using Some by (simp add: max_by_eq)
qed

lemma preferring_best: "preferring p xs = best_ranked (\<lambda>r. of_bool (p r)) xs"
proof (cases "filter p xs = []")
  case True
  then have "\<forall>x \<in> set xs. \<not> p x" by (simp add: filter_empty_conv)
  then have "xs = [] \<or> (\<lambda>r. of_bool (p r) :: nat) ` set xs = {0}" by (cases xs) auto
  with True \<open>\<forall>x \<in> set xs. \<not> p x\<close> show ?thesis by (auto simp: preferring_def best_ranked_def intro!: filter_True [symmetric])
next
  case False
  then obtain x where "x \<in> set xs" "p x" by (auto simp: filter_empty_conv)
  then have "Max ((\<lambda>r. of_bool (p r) :: nat) ` set xs) = 1" by (intro Max_eqI) (auto intro: rev_image_eqI)
  with False show ?thesis by (simp add: preferring_def best_ranked_def)
qed

lemma best_ranked_preferring:
  assumes "\<And>r. \<not> p r \<Longrightarrow> f r = 0" "\<And>r. p r \<Longrightarrow> 0 < f r"
  shows "best_ranked f (preferring p xs) = best_ranked f xs"
proof (cases "filter p xs = []")
  case False
  then obtain x where x: "x \<in> set xs" "p x" by (auto simp: filter_empty_conv)
  have pos: "0 < Max (f ` set xs)" using x assms(2) [of x] by (subst Max_gr_iff) auto
  have "Max (f ` set (filter p xs)) = Max (f ` set xs)"
  proof (rule Max_eqI)
    show "Max (f ` set xs) \<in> f ` set (filter p xs)"
    proof -
      have "Max (f ` set xs) \<in> f ` set xs" using x by (intro Max_in) auto
      then obtain y where y: "y \<in> set xs" "Max (f ` set xs) = f y" by auto
      then have "p y" using pos assms(1) [of y] by auto
      with y show ?thesis by auto
    qed
  qed auto
  moreover have "f r = Max (f ` set xs) \<Longrightarrow> p r" for r using pos assms(1) [of r] by auto
  ultimately show ?thesis using False by (auto simp: best_ranked_def preferring_def intro!: filter_cong)
qed (simp add: preferring_def)

section \<open>The choice of a programme\<close>

definition format_standing :: "pyval \<Rightarrow> pydict \<Rightarrow> pydict \<Rightarrow> nat" where
  "format_standing production_format project r =
     (if truthy production_format then format_rank (fe_verdict (evaluate_format_eligibility r production_format project)) else 0)"

definition preference :: "pydict \<Rightarrow> pydict \<Rightarrow> nat \<times> nat \<times> nat \<times> rat" where
  "preference project r =
     (verdict_rank (Some (el_verdict (evaluate_programme_eligibility r project))),
      of_bool (\<not> is_domestic_corp_only r),
      of_bool (\<not> truthy (lookup r ''is_supplementary'')),
      rate_key r)"

lemma format_band_ranked:
  "format_band f project rows =
     best_ranked (format_standing f project) rows"
proof (cases "truthy f")
  case True
  then show ?thesis
    by (simp add: format_band_def format_standing_def [abs_def] Let_def comp_def)
       (rule best_ranked_preferring, auto simp: format_rank_def split: format_verdict.splits)
next
  case False
  then show ?thesis by (cases "rows = []") (simp_all add: format_band_def format_standing_def [abs_def] best_ranked_def image_constant_conv)
qed

lemma best_incentive_bands:
  "best_incentive rows f project = max_by (\<lambda>r. (format_standing f project r, preference project r)) rows"
  by (simp add: best_incentive_def Let_def preferring_best format_band_ranked max_by_best_ranked preference_def [abs_def])

lemma max_by_constant_band:
  fixes f :: "'a \<Rightarrow> nat"
  assumes "\<forall>r \<in> set xs. \<forall>r' \<in> set xs. f r = f r'"
  shows "max_by (\<lambda>r. (f r, g r)) xs = max_by g xs"
proof -
  have "Max (f ` set xs) = f r" if "r \<in> set xs" for r
  proof -
    have "f ` set xs = {f r}" using assms that by blast
    then show ?thesis by simp
  qed
  then have "best_ranked f xs = xs" unfolding best_ranked_def by (intro filter_True) simp
  then show ?thesis by (simp add: max_by_best_ranked [symmetric])
qed

text \<open>
  C23: among programmes that the format of the project, or the lack of one, does not tell apart, the
  one a territory is presented by is the first of the greatest under one preference, read
  lexicographically: whether the project clears the thresholds of the programme, whether a foreign
  company can claim it, whether it is a main programme, and only then the rate. No rate buys a
  programme past any of the three.
\<close>

theorem best_incentive_is_lexicographic:
  assumes "\<forall>r \<in> set rows. \<forall>r' \<in> set rows. format_standing production_format project r = format_standing production_format project r'"
  shows "best_incentive rows production_format project = Some row \<longleftrightarrow> first_greatest (preference project) rows row"
  unfolding best_incentive_bands max_by_constant_band [OF assms] by (rule iffI [OF max_by_first max_by_eq])

definition closed_programme :: pydict where
  "closed_programme = [(''program'', PStr ''Closed''), (''rate_gross'', PInt 90), (''status'', PStr ''suspended'')]"

definition modest_programme :: pydict where
  "modest_programme = [(''program'', PStr ''Modest''), (''rate_gross'', PInt 20)]"

lemma closed_before_modest: "preference [] closed_programme < preference [] modest_programme"
  by code_simp

theorem best_incentive_is_lexicographic_witness:
  "best_incentive [closed_programme, modest_programme] PNone [] = Some modest_programme"
proof -
  have "first_greatest (preference []) [closed_programme, modest_programme] modest_programme"
    unfolding first_greatest_def using closed_before_modest by (intro exI [of _ "[closed_programme]"] exI [of _ "[]"]) simp
  moreover have "format_standing PNone [] r = 0" for r by (simp add: format_standing_def)
  ultimately show ?thesis
    using best_incentive_is_lexicographic [of "[closed_programme, modest_programme]" PNone "[]" modest_programme] by simp
qed

section \<open>The names of the registry\<close>

text \<open>
  C32: in any letter case and between any blanks, the label of a territory finds that territory, and as
  the home of a producer it stands for the country it lies in.
\<close>

theorem territory_names_resolve:
  assumes "t \<in> set TERRITORIES" "lower (strip name) = lower (label t)"
  shows "resolve_territory name = Some t
    \<and> (let home = (case parent t of Some p \<Rightarrow> p | None \<Rightarrow> t) in
       producer_iso name = Some (iso home) \<and> (is_country home \<or> iso t = ''EU''))"
proof -
  have found: "resolve_territory name = Some t" by (rule resolve_label [OF assms])
  then have "name \<noteq> []" by (auto simp: resolve_territory_def)
  moreover have "is_country (case parent t of Some p \<Rightarrow> p | None \<Rightarrow> t) \<or> iso t = ''EU''"
    using parent_is_country [OF assms(1)] by (cases "parent t") (auto simp: is_country_def)
  ultimately show ?thesis using found by (simp add: producer_iso_def Let_def)
qed

definition scotland :: territory where
  "scotland = territory_entry ''SCOTLAND'' ''Scotland'' ''GB'' [] (Some ''UNITED_KINGDOM'')"

theorem territory_names_resolve_witness:
  "resolve_territory '' SCOTland'' = Some scotland \<and> producer_iso '' SCOTland'' = Some ''GB''"
proof -
  have "scotland \<in> set TERRITORIES" by (simp add: scotland_def TERRITORIES_def SUB_TERRITORIES_def)
  moreover have "lower (strip '' SCOTland'') = lower (label scotland)" by code_simp
  moreover have "iso (case parent scotland of Some p \<Rightarrow> p | None \<Rightarrow> scotland) = ''GB''" by code_simp
  ultimately show ?thesis using territory_names_resolve [of scotland "'' SCOTland''"] by (simp add: Let_def)
qed

lemma states_shadow_countries:
  "producer_iso ''IL'' = Some ''US''" "producer_iso ''GA'' = Some ''US''" "producer_iso ''BY'' = Some ''DE''"
  "producer_iso ''IQ'' = Some ''IQ''"
  by (simp_all add: producer_iso_def resolve_territory_def LOOKUP_def build_lookup_apply) code_simp+

section \<open>The status for a project\<close>

lemma listed_if_empty [simp]: "listed_if b x = [] \<longleftrightarrow> \<not> b"
  by (simp add: listed_if_def)

lemma combine_eligible:
  "fst (combine required programme fmt producer) = Incentive_eligible \<longleftrightarrow>
     el_verdict programme = Available \<and> pe_verdict producer = Qualifies \<and> (if required then fe_verdict fmt = Eligible else True)"
  by (cases "el_verdict programme"; cases "fe_verdict fmt"; cases "pe_verdict producer")
     (simp_all add: combine_def hard_failures_def unknown_dimensions_def open_conditions_def)

lemma combine_ineligible:
  "fst (combine required programme fmt producer) = Incentive_ineligible \<longleftrightarrow>
     el_verdict programme = Unavailable \<or> (if required then fe_verdict fmt = Ineligible else False) \<or> pe_verdict producer = Excluded"
  by (simp add: combine_def hard_failures_def)

lemma two_left: "(s = Incentive_unverified \<or> s = Incentive_conditional) = (s \<noteq> Incentive_eligible \<and> s \<noteq> Incentive_ineligible)"
  by (cases s) simp_all

lemma producer_qualifies:
  "pe_verdict (evaluate_producer_eligibility r project) = Qualifies \<longleftrightarrow>
     requirements r = [] \<or> (case producer_of project of None \<Rightarrow> False | Some c \<Rightarrow> meets_requirement c (requirements r))"
  by (auto simp: evaluate_producer_eligibility_def producer_answer_def Let_def split: option.splits)

text \<open>
  C24: a programme may move the net cost, the ranking or the recommendation of a project exactly when
  the project clears every threshold of the programme, the programme states no nationality or the
  company is known and meets it, and, for a short, the format is settled; a figure is shown as an
  illustration exactly when the programme is neither that nor known to be closed.
\<close>

theorem counted_incentive_passes_every_dimension:
  "let res = resolve_project_incentive r project given;
       fmt = py_or given (lookup project ''format'');
       needs_format = needs_format_eligibility_check fmt;
       programme = el_verdict (evaluate_programme_eligibility r project);
       form = fe_verdict (evaluate_format_eligibility r fmt project) in
     (canAffectRanking res \<longleftrightarrow> programme = Available
        \<and> (requirements r = []
           \<or> (case producer_of project of None \<Rightarrow> False | Some c \<Rightarrow> meets_requirement c (requirements r)))
        \<and> (if needs_format then form = Eligible else True))
     \<and> canAffectNetCost res = canAffectRanking res \<and> canBeRecommended res = canAffectRanking res
     \<and> (showPotentialAmount res \<longleftrightarrow> \<not> canAffectRanking res \<and> programme \<noteq> Unavailable
        \<and> (if needs_format then form \<noteq> Ineligible else True)
        \<and> pe_verdict (evaluate_producer_eligibility r project) \<noteq> Excluded)"
proof -
  let ?res = "resolve_project_incentive r project given" and ?fmt = "py_or given (lookup project ''format'')"
  let ?c = "combine (needs_format_eligibility_check ?fmt) (evaluate_programme_eligibility r project)
    (evaluate_format_eligibility r ?fmt project) (evaluate_producer_eligibility r project)"
  have res: "canAffectRanking ?res = (fst ?c = Incentive_eligible)" "canAffectNetCost ?res = (fst ?c = Incentive_eligible)"
    "canBeRecommended ?res = (fst ?c = Incentive_eligible)"
    "showPotentialAmount ?res = (fst ?c \<noteq> Incentive_eligible \<and> fst ?c \<noteq> Incentive_ineligible)"
    using two_left by (simp_all add: resolve_project_incentive_def Let_def case_prod_beta)
  show ?thesis
    unfolding Let_def res combine_eligible combine_ineligible producer_qualifies
    by (cases "needs_format_eligibility_check ?fmt") (simp_all only: if_True if_False de_Morgan_disj simp_thms)
qed

text \<open>
  A feature, and a short under another of its names, is counted by a programme that was researched
  not to accept it.
\<close>

definition closed_to_shorts :: pydict where
  "closed_to_shorts = [(''program'', PStr ''Credit''),
     (''eligible_formats'', PDict [(''short'', PBool False), (''documentary'', PBool False)])]"

lemma closed_format_still_counts:
  "fe_verdict (evaluate_format_eligibility closed_to_shorts (PStr ''documentary'') []) = Ineligible"
  "canBeRecommended (resolve_project_incentive closed_to_shorts [] (PStr ''documentary''))"
  "canBeRecommended (resolve_project_incentive closed_to_shorts [] (PStr ''shorts''))"
  "\<not> canBeRecommended (resolve_project_incentive closed_to_shorts [] (PStr ''short''))"
  by code_simp+

text \<open>Whether a programme is open is weighed after its format, not before: a suspended one is chosen.\<close>

definition open_programme :: pydict where
  "open_programme = [(''program'', PStr ''Open''), (''rate_gross'', PInt 40)]"

definition suspended_programme :: pydict where
  "suspended_programme = [(''program'', PStr ''Suspended''), (''rate_gross'', PInt 20), (''status'', PStr ''suspended''),
     (''eligible_formats'', PDict [(''short'', PBool True)])]"

lemma suspended_verdicts:
  "fe_verdict (evaluate_format_eligibility suspended_programme (PStr ''short'') []) = Eligible"
  "el_verdict (evaluate_programme_eligibility suspended_programme []) = Unavailable"
  by code_simp+

lemma open_verdicts:
  "fe_verdict (evaluate_format_eligibility open_programme (PStr ''short'') []) = Unverified"
  "el_verdict (evaluate_programme_eligibility open_programme []) = Available"
  by code_simp+

lemma format_outweighs_availability:
  "best_incentive [open_programme, suspended_programme] (PStr ''short'') [] = Some suspended_programme"
  by (simp add: best_incentive_def Let_def format_band_def preferring_def best_ranked_def max_by_def
      suspended_verdicts open_verdicts format_rank_def)

end
