(* ===== verification/Shoot_Window.thy ===== *)
theory Shoot_Window
  imports Python_Text
begin

text \<open>
  \<open>app/modules/reports/shoot_window.py\<close>: whether the shoot lies in the months a territory is best in.
  Months arrive as a list of numbers and names (an absent list is empty), in English. The theorems
  say what the verdict means on the calendar, which wraps at the end of the year, and that the months
  printed as ranges are the months of the window.
\<close>

section \<open>Months\<close>

definition CALENDAR_MONTHS :: "string list" where
  "CALENDAR_MONTHS = [''January'', ''February'', ''March'', ''April'', ''May'', ''June'', ''July'', ''August'',
     ''September'', ''October'', ''November'', ''December'']"

definition month_name :: "int \<Rightarrow> string" where
  "month_name m = CALENDAR_MONTHS ! nat (m - 1)"

definition by_name :: "(string \<times> int) list" where
  "by_name = map (\<lambda>m. (lower (month_name m), m)) [1..12]"

definition by_abbr :: "(string \<times> int) list" where
  "by_abbr = map (\<lambda>m. (lower (take 3 (month_name m)), m)) [1..12]"

definition month_of_number :: "int \<Rightarrow> int option" where
  "month_of_number i = (if 1 \<le> i \<and> i \<le> 12 then Some i else None)"

definition month_of_text :: "string \<Rightarrow> int option" where
  "month_of_text text =
     (if text = [] \<or> text \<in> {''n/a'', ''na'', ''none'', ''unknown''} then None
      else if list_all is_digit_char text then month_of_number (decimal_value text)
      else (case map_of by_name text of Some m \<Rightarrow> Some m | None \<Rightarrow> map_of by_abbr text))"

definition stated_month :: "pyval \<Rightarrow> int option" where
  "stated_month raw =
     (case raw of
        PBool _ \<Rightarrow> None
      | PInt i \<Rightarrow> month_of_number i
      | _ \<Rightarrow> month_of_text (lower (strip (py_str raw))))"

definition month_numbers :: "pyval list \<Rightarrow> int list" where
  "month_numbers months = sort (remdups (List.map_filter stated_month months))"

definition is_adjacent :: "int \<Rightarrow> int set \<Rightarrow> bool" where
  "is_adjacent month window =
     ((if month - 1 = 0 then 12 else month - 1) \<in> window \<or> (if month + 1 = 13 then 1 else month + 1) \<in> window)"

section \<open>Ranges of months\<close>

definition extend_runs :: "int list list \<Rightarrow> int \<Rightarrow> int list list" where
  "extend_runs runs month =
     (if month = last (last runs) + 1 then butlast runs @ [last runs @ [month]] else runs @ [[month]])"

definition month_runs :: "int list \<Rightarrow> int list list" where
  "month_runs ms = (case ms of [] \<Rightarrow> [] | v # vs \<Rightarrow> foldl extend_runs [[v]] vs)"

definition run_text :: "int list \<Rightarrow> string" where
  "run_text run =
     (if length run = 1 then month_name (hd run)
      else if length run = 2 then month_name (hd run) @ '' and '' @ month_name (run ! 1)
      else month_name (hd run) @ '' to '' @ month_name (last run))"

definition format_month_ranges :: "pyval list \<Rightarrow> string" where
  "format_month_ranges months =
     (let parts = map run_text (month_runs (month_numbers months)) in
      if parts = [] then []
      else if length parts = 1 then hd parts
      else comma_join (butlast parts) @ '', plus '' @ last parts)"

section \<open>The verdict\<close>

datatype window_verdict = Inside | Outside | Adjacent | Unknown_window

definition verdict_token :: "window_verdict \<Rightarrow> string" where
  "verdict_token v = (case v of Inside \<Rightarrow> ''inside_optimal_window'' | Outside \<Rightarrow> ''outside_optimal_window''
     | Adjacent \<Rightarrow> ''adjacent_to_optimal_window'' | Unknown_window \<Rightarrow> ''unknown'')"

definition window_phrase :: "window_verdict \<Rightarrow> string" where
  "window_phrase v = (case v of Inside \<Rightarrow> ''within the optimal window'' | Outside \<Rightarrow> ''outside the optimal window''
     | Adjacent \<Rightarrow> ''immediately outside the optimal window''
     | Unknown_window \<Rightarrow> ''against an optimal window that could not be determined'')"

record shoot_result =
  sw_verdict :: window_verdict
  sw_label :: string
  shootMonths :: "int list"
  optimalMonths :: "int list"
  monthsInside :: "int list"
  monthsOutside :: "int list"
  partialOverlap :: bool
  optimalWindowDisplay :: "string option"
  shootMonthDisplay :: "string option"

definition month_display :: "int list \<Rightarrow> string option" where
  "month_display ms = (if ms = [] then None else Some (format_month_ranges (map PInt ms)))"

definition shoot_answer ::
  "window_verdict \<Rightarrow> int list \<Rightarrow> int list \<Rightarrow> int list \<Rightarrow> int list \<Rightarrow> bool \<Rightarrow> shoot_result" where
  "shoot_answer v shoot window inside outside overlap =
     \<lparr>sw_verdict = v, sw_label = window_phrase v, shootMonths = shoot, optimalMonths = window, monthsInside = inside,
      monthsOutside = outside, partialOverlap = overlap, optimalWindowDisplay = month_display window,
      shootMonthDisplay = month_display shoot\<rparr>"

definition classify_shoot_window :: "pyval list \<Rightarrow> pyval list \<Rightarrow> shoot_result" where
  "classify_shoot_window shoot_months best_months =
     (let shoot = month_numbers shoot_months; window = month_numbers best_months;
          inside = filter (\<lambda>m. m \<in> set window) shoot; outside = filter (\<lambda>m. m \<notin> set window) shoot in
      if shoot = [] \<or> window = [] then shoot_answer Unknown_window shoot window [] [] False
      else if outside = [] then shoot_answer Inside shoot window inside outside False
      else if inside \<noteq> [] then shoot_answer Adjacent shoot window inside outside True
      else if list_ex (\<lambda>m. is_adjacent m (set window)) outside then shoot_answer Adjacent shoot window inside outside False
      else shoot_answer Outside shoot window inside outside False)"

section \<open>The prose\<close>

definition INSIDE_CLAIMS :: "string list" where
  "INSIDE_CLAIMS = [''falls within'', ''falls inside'', ''is within'', ''sits within'', ''lies within'', ''within the optimal'',
     ''within the recommended'', ''inside the optimal'', ''in the optimal window'', ''within the ideal'',
     ''coincides with the optimal'', ''aligns with the optimal'']"

definition OUTSIDE_CLAIMS :: "string list" where
  "OUTSIDE_CLAIMS = [''falls outside'', ''is outside'', ''sits outside'', ''lies outside'', ''outside the optimal'',
     ''outside the recommended'', ''outside the ideal'']"

text \<open>A verdict that is not one of the four tokens is \<open>None\<close>.\<close>

definition narrative_contradicts_window :: "string \<Rightarrow> window_verdict option \<Rightarrow> string option" where
  "narrative_contradicts_window text verdict =
     (let lowered = lower text;
          claims_inside = list_ex (\<lambda>phrase. text_contains phrase lowered) INSIDE_CLAIMS;
          claims_outside = list_ex (\<lambda>phrase. text_contains phrase lowered) OUTSIDE_CLAIMS in
      case verdict of
        None \<Rightarrow> None
      | Some v \<Rightarrow>
          if text = [] \<or> v = Unknown_window then None
          else if v = Inside \<and> claims_outside \<and> \<not> claims_inside
          then Some ''narrative places the shoot outside the optimal window, but every shoot month is inside it''
          else if (v = Outside \<or> v = Adjacent) \<and> claims_inside \<and> \<not> claims_outside
          then Some (''narrative places the shoot inside the optimal window, but the computed verdict is '' @ verdict_token v)
          else None)"

section \<open>Reading months\<close>

lemma month_of_number_range: "month_of_number i = Some m \<Longrightarrow> 1 \<le> m \<and> m \<le> 12"
  by (auto simp: month_of_number_def split: if_splits)

lemma stated_month_range: "stated_month raw = Some m \<Longrightarrow> 1 \<le> m \<and> m \<le> 12"
  by (auto simp: stated_month_def month_of_text_def by_name_def by_abbr_def
      dest!: month_of_number_range map_of_SomeD split: pyval.splits if_splits option.splits)

lemma set_month_numbers: "set (month_numbers months) = {m. \<exists>raw \<in> set months. stated_month raw = Some m}"
  by (force simp: month_numbers_def List.map_filter_def)

lemma month_numbers_range: "m \<in> set (month_numbers months) \<Longrightarrow> 1 \<le> m \<and> m \<le> 12"
  using stated_month_range by (auto simp: set_month_numbers)

lemma sorted_month_numbers: "sorted (month_numbers months)" "distinct (month_numbers months)"
  by (simp_all add: month_numbers_def)

lemma month_numbers_cong: "set (month_numbers a) = set (month_numbers b) \<Longrightarrow> month_numbers a = month_numbers b"
  using sorted_month_numbers by (metis sorted_distinct_set_unique)

lemma month_of_number_in_range: "1 \<le> m \<Longrightarrow> m \<le> 12 \<Longrightarrow> stated_month (PInt m) = Some m"
  by (simp add: stated_month_def month_of_number_def)

lemma month_numbers_again: "month_numbers (map PInt (month_numbers months)) = month_numbers months"
  using month_numbers_range [of _ months] month_of_number_in_range
  by (intro month_numbers_cong) (force simp: set_month_numbers [of "map PInt _"])

lemma month_name_read: "1 \<le> m \<Longrightarrow> m \<le> 12 \<Longrightarrow> stated_month (PStr (month_name m)) = Some m"
proof -
  assume m: "1 \<le> m" "m \<le> 12"
  have "list_all (\<lambda>m. stated_month (PStr (month_name m)) = Some m) [1..12]" by code_simp
  then show ?thesis using m by (auto simp: list_all_iff)
qed

text \<open>
  The months read from a list, printed by name and read again, are the same months.
\<close>

theorem month_names_read_back:
  "month_numbers (map (\<lambda>m. PStr (month_name m)) (month_numbers months)) = month_numbers months"
  using month_numbers_range [of _ months] month_name_read
  by (intro month_numbers_cong) (force simp: set_month_numbers [of "map _ _"])

section \<open>What the verdict means\<close>

lemma adjacent_on_the_clock:
  assumes "1 \<le> m" "m \<le> 12" "\<And>w. w \<in> W \<Longrightarrow> 1 \<le> w \<and> w \<le> 12"
  shows "is_adjacent m W \<longleftrightarrow> (\<exists>w \<in> W. (m - w) mod 12 \<in> {1, 11})"
proof -
  have "(m - w) mod 12 \<in> {1, 11} \<longleftrightarrow> w = (if m - 1 = 0 then 12 else m - 1) \<or> w = (if m + 1 = 13 then 1 else m + 1)"
    if "w \<in> W" for w
  proof -
    have "list_all (\<lambda>m. list_all (\<lambda>w. ((m - w) mod 12 \<in> {1, 11}) =
        (w = (if m - 1 = 0 then 12 else m - 1) \<or> w = (if m + 1 = 13 then 1 else m + 1))) [1..12]) ([1..12] :: int list)"
      by code_simp
    then show ?thesis using assms(1,2) assms(3) [OF that] by (simp only: list_all_iff set_upto) (simp only: atLeastAtMost_iff)
  qed
  then show ?thesis unfolding is_adjacent_def by metis
qed

definition months_in :: "pyval list \<Rightarrow> int set" where
  "months_in months = {m. \<exists>raw \<in> set months. stated_month raw = Some m}"

text \<open>
  C31: the verdict depends on the sets of months alone, however they are spelled, ordered or repeated:
  unknown when one is empty, inside when every shoot month is in the window, adjacent when some are
  or when one is next to it on a year that wraps, and outside otherwise.
\<close>

theorem window_verdict_on_the_calendar:
  "sw_verdict (classify_shoot_window shoot best) =
     (if months_in shoot = {} \<or> months_in best = {} then Unknown_window
      else if months_in shoot \<subseteq> months_in best then Inside
      else if months_in shoot \<inter> months_in best = {}
      then (if \<exists>s \<in> months_in shoot. \<exists>w \<in> months_in best. (s - w) mod 12 \<in> {1, 11} then Adjacent else Outside)
      else Adjacent)"
proof -
  let ?S = "month_numbers shoot" and ?W = "month_numbers best"
  have sets: "months_in shoot = set ?S" "months_in best = set ?W" by (simp_all add: months_in_def set_month_numbers)
  have adjacent: "is_adjacent m (set ?W) \<longleftrightarrow> (\<exists>w \<in> set ?W. (m - w) mod 12 \<in> {1, 11})" if "m \<in> set ?S" for m
    using adjacent_on_the_clock [of m "set ?W"] month_numbers_range that by blast
  have outside: "filter (\<lambda>m. m \<notin> set ?W) ?S = [] \<longleftrightarrow> set ?S \<subseteq> set ?W" by (auto simp: filter_empty_conv)
  have inside: "filter (\<lambda>m. m \<in> set ?W) ?S \<noteq> [] \<longleftrightarrow> set ?S \<inter> set ?W \<noteq> {}" by (auto simp: filter_empty_conv)
  have near: "list_ex (\<lambda>m. is_adjacent m (set ?W)) (filter (\<lambda>m. m \<notin> set ?W) ?S)
      \<longleftrightarrow> (\<exists>s \<in> set ?S. \<exists>w \<in> set ?W. (s - w) mod 12 \<in> {1, 11})" if "set ?S \<inter> set ?W = {}"
    using that adjacent by (auto simp: list_ex_iff)
  show ?thesis
    unfolding classify_shoot_window_def Let_def sets outside inside
    using near by (simp add: shoot_answer_def)
qed

section \<open>What the ranges say\<close>

definition run_ok :: "int list \<Rightarrow> bool" where
  "run_ok run = (run \<noteq> [] \<and> run = [hd run..last run])"

definition runs_of :: "int list \<Rightarrow> int list list \<Rightarrow> bool" where
  "runs_of ms runs = (concat runs = ms \<and> list_all run_ok runs \<and> successively (\<lambda>a b. last a + 1 < hd b) runs)"

lemma extend_runs_of:
  assumes "runs_of ms runs" "runs \<noteq> []" "last ms < m"
  shows "runs_of (ms @ [m]) (extend_runs runs m)" "extend_runs runs m \<noteq> []"
proof -
  obtain init run where runs: "runs = init @ [run]" using assms(2) by (metis rev_exhaust)
  have run: "run_ok run" "last ms = last run" using assms(1) by (auto simp: runs_of_def runs run_ok_def)
  have upto: "[hd run..m] = run @ [m]" if "m = last run + 1"
  proof -
    have "hd run \<le> m" using run(1) that by (cases "hd run \<le> last run") (auto simp: run_ok_def)
    then have "[hd run..m] = [hd run..m - 1] @ [m]" by (rule upto_rec2)
    then show ?thesis using run(1) that by (simp add: run_ok_def)
  qed
  show "runs_of (ms @ [m]) (extend_runs runs m)"
    using assms(1,3) run upto
    by (auto simp: runs_of_def extend_runs_def runs run_ok_def successively_append_iff)
  show "extend_runs runs m \<noteq> []" by (simp add: extend_runs_def)
qed

lemma fold_runs:
  assumes "runs_of ms runs" "runs \<noteq> []" "sorted_wrt (<) (ms @ vs)"
  shows "runs_of (ms @ vs) (foldl extend_runs runs vs)"
  using assms
proof (induction vs arbitrary: ms runs)
  case (Cons v vs)
  have "ms \<noteq> []" using Cons.prems(1,2) by (cases runs) (auto simp: runs_of_def run_ok_def)
  then have "last ms < v" using Cons.prems(3) by (auto simp: sorted_wrt_append)
  from extend_runs_of [OF Cons.prems(1,2) this] Cons.IH [of "ms @ [v]" "extend_runs runs v"] Cons.prems(3)
  show ?case by simp
qed simp

text \<open>
  The ranges that are printed are the months of the list: every month in one range, in order,
  each range without a gap, and a gap between any two.
\<close>

theorem ranges_are_the_months:
  "concat (month_runs (month_numbers months)) = month_numbers months
   \<and> list_all (\<lambda>run. run \<noteq> [] \<and> run = [hd run..last run]) (month_runs (month_numbers months))
   \<and> successively (\<lambda>a b. last a + 1 < hd b) (month_runs (month_numbers months))"
proof (cases "month_numbers months")
  case (Cons v vs)
  have "sorted_wrt (<) (v # vs)"
    using sorted_month_numbers [of months] unfolding Cons by (simp only: strict_sorted_iff)
  moreover have "runs_of [v] [[v]]" by (simp add: runs_of_def run_ok_def)
  ultimately have "runs_of (v # vs) (foldl extend_runs [[v]] vs)" using fold_runs [of "[v]" "[[v]]" vs] by simp
  then show ?thesis by (simp add: Cons month_runs_def runs_of_def run_ok_def [abs_def])
qed (simp add: month_runs_def)

end
