(* ===== verification/Differ.thy ===== *)
theory Differ
  imports Query_Facts Statutory_Calculation Sample_World
begin

text \<open>
  \<open>app/modules/scraper/differ.py\<close>: what a scrape found is compared with the stored rows, and every
  difference waits in \<open>pending_changes\<close> for an administrator. An extracted record is a dict; log lines
  are left out. The theorems say that scraping a page again queues nothing, and what queued rows are.
\<close>

section \<open>Vocabulary\<close>

definition MIN_DATE_YEAR :: int where
  "MIN_DATE_YEAR = 2024"

definition TERRITORY_ALIASES :: "(string \<times> string) list" where
  "TERRITORY_ALIASES = [
     (''uk'', ''United Kingdom''), (''u.k.'', ''United Kingdom''), (''britain'', ''United Kingdom''),
     (''great britain'', ''United Kingdom''), (''england'', ''United Kingdom''), (''us'', ''United States''),
     (''u.s.'', ''United States''), (''u.s.a.'', ''United States''), (''usa'', ''United States''),
     (''america'', ''United States''), (''eu'', ''European Union''), (''czech'', ''Czech Republic''),
     (''czechia'', ''Czech Republic'')]"

definition normalize_territory :: "pyval \<Rightarrow> pyval" where
  "normalize_territory value =
     (if value = PNone then PNone
      else (let text = strip (text_of value) in
        PStr (case map_of TERRITORY_ALIASES (lower text) of Some name \<Rightarrow> name | None \<Rightarrow> text)))"

record diff_source =
  df_table :: string
  df_match_keys :: "string list"
  df_fields :: "string list"
  df_label :: string

text \<open>\<open>_TABLES\<close>, \<open>_MATCH_KEYS\<close>, \<open>_DIFF_FIELDS\<close> and \<open>_LABEL_FIELDS\<close> of a resource type.\<close>

definition DIFF_SOURCES :: "(string \<times> diff_source) list" where
  "DIFF_SOURCES = [
     (''incentives'', \<lparr>df_table = ''incentive_programs'', df_match_keys = [''territory'', ''program''],
        df_fields = [''rate'', ''cap'', ''status''], df_label = ''program''\<rparr>),
     (''grants'', \<lparr>df_table = ''grant_opportunities'', df_match_keys = [''title'', ''territory''],
        df_fields = [''max_amount'', ''application_deadline'', ''status''], df_label = ''title''\<rparr>),
     (''festivals'', \<lparr>df_table = ''film_festivals'', df_match_keys = [''name'', ''year''],
        df_fields = [''tier'', ''acceptance_rate'', ''premiere_requirement''], df_label = ''name''\<rparr>)]"

definition DATE_FIELDS :: "string list" where
  "DATE_FIELDS = [''application_deadline'', ''application_opens'']"

definition PLACEHOLDER_VALUES :: "string list" where
  "PLACEHOLDER_VALUES = [''n/a'', ''na'', ''none'', ''unknown'', ''tbd'', ''null'', ''-'', ''--'',
     ''not available'', ''not found'', ''no data'', ''no rate'', ''n.a.'']"

definition is_placeholder_value :: "string \<Rightarrow> bool" where
  "is_placeholder_value value = (lower (strip value) \<in> set PLACEHOLDER_VALUES)"

definition is_stale_date :: "string \<Rightarrow> bool" where
  "is_stale_date value =
     (iso_at (strip value) \<and> strip (take 4 value) \<noteq> [] \<and> decimal_value (strip (take 4 value)) < MIN_DATE_YEAR)"

section \<open>One record\<close>

fun match_filters :: "string list \<Rightarrow> pydict \<Rightarrow> query \<Rightarrow> query" where
  "match_filters [] found q = q"
| "match_filters (key # keys) found q =
     match_filters keys found (if lookup found key \<noteq> PNone then tq_eq key (lookup found key) q else q)"

definition find_existing :: "diff_source \<Rightarrow> pydict \<Rightarrow> row option comp" where
  "find_existing src found =
     bindM (fetch (match_filters (df_match_keys src) found (tq_select ''*'' (tq (df_table src))))) (\<lambda>rows. ret (first_row rows))"

text \<open>The territory is normalised where the record has one, and the trusted hint replaces it.\<close>

definition placed :: "pyval \<Rightarrow> pydict \<Rightarrow> pydict" where
  "placed hint found =
     (let named = (if has_key found ''territory'' then dict_set found ''territory'' (normalize_territory (lookup found ''territory'')) else found) in
      if hint \<noteq> PNone then dict_set named ''territory'' hint else named)"

definition existing_cell :: "row option \<Rightarrow> string \<Rightarrow> pyval" where
  "existing_cell existing k = (case existing of None \<Rightarrow> PNone | Some r \<Rightarrow> r k)"

definition change_territory :: "pydict \<Rightarrow> row option \<Rightarrow> pyval" where
  "change_territory found existing =
     py_or (py_or (lookup found ''territory'') (existing_cell existing ''territory'')) (PStr ''Unknown'')"

definition value_text :: "pyval \<Rightarrow> pyval" where
  "value_text v = (if v = PNone then PNone else PStr (strip (py_str v)))"

text \<open>The value of a field that differs from the stored one, if it is worth queueing.\<close>

definition detected :: "pydict \<Rightarrow> row option \<Rightarrow> string \<Rightarrow> string option" where
  "detected found existing field =
     (case value_text (lookup found field) of
        PStr s \<Rightarrow>
          if is_placeholder_value s then None
          else if field \<in> set DATE_FIELDS \<and> is_stale_date s then None
          else if value_text (existing_cell existing field) = PStr s then None
          else Some s
      | _ \<Rightarrow> None)"

abbreviation PENDING :: string where
  "PENDING \<equiv> ''pending_changes''"

definition pending_query :: "string \<Rightarrow> pyval \<Rightarrow> pyval \<Rightarrow> string \<Rightarrow> query" where
  "pending_query resource_type resource_id territory field =
     (let q = tq_eq ''status'' (PStr ''pending'') (tq_eq ''field'' (PStr field) (tq_eq ''resource_type'' (PStr resource_type)
        (tq_select_count ''*'' True (tq PENDING)))) in
      if truthy resource_id then tq_eq ''resource_id'' resource_id q else tq_eq ''territory'' territory q)"

definition pending_change_exists :: "string \<Rightarrow> pyval \<Rightarrow> pyval \<Rightarrow> string \<Rightarrow> bool comp" where
  "pending_change_exists resource_type resource_id territory field =
     bindM (tq_execute (pending_query resource_type resource_id territory field)) (\<lambda>res.
     ret (case row_count res of None \<Rightarrow> False | Some n \<Rightarrow> 0 < n))"

record scrape =
  sc_type :: string
  sc_url :: string
  sc_confidence :: string

definition change_row ::
  "scrape \<Rightarrow> diff_source \<Rightarrow> pyval \<Rightarrow> pydict \<Rightarrow> row option \<Rightarrow> string \<Rightarrow> string \<Rightarrow> pyval \<Rightarrow> pydict" where
  "change_row sc src now found existing field s i =
     [(''id'', i), (''resource_type'', PStr (sc_type sc)), (''resource_id'', existing_cell existing ''id''),
      (''territory'', change_territory found existing), (''field'', PStr field),
      (''current_value'', value_text (existing_cell existing field)), (''detected_value'', PStr s),
      (''confidence'', PStr (sc_confidence sc)), (''source'', PStr (sc_url sc)), (''status'', PStr ''pending''),
      (''created_at'', now)]
     @ (if truthy (lookup found (df_label src)) then [(''record_label'', lookup found (df_label src))] else [])"

definition diff_field :: "scrape \<Rightarrow> diff_source \<Rightarrow> pyval \<Rightarrow> pydict \<Rightarrow> row option \<Rightarrow> string \<Rightarrow> nat comp" where
  "diff_field sc src now found existing field =
     (case detected found existing field of
        None \<Rightarrow> ret 0
      | Some s \<Rightarrow>
          bindM (pending_change_exists (sc_type sc) (existing_cell existing ''id'') (change_territory found existing) field) (\<lambda>known.
          if known then ret 0
          else bindM uuid4 (\<lambda>i.
            thenM (run (tq_insert (change_row sc src now found existing field s i) (tq PENDING))) (ret 1))))"

fun count_all :: "('a \<Rightarrow> nat comp) \<Rightarrow> 'a list \<Rightarrow> nat comp" where
  "count_all f [] = ret 0"
| "count_all f (x # xs) = bindM (f x) (\<lambda>n. bindM (count_all f xs) (\<lambda>m. ret (n + m)))"

definition diff_record :: "scrape \<Rightarrow> diff_source \<Rightarrow> pyval \<Rightarrow> pyval \<Rightarrow> pydict \<Rightarrow> nat comp" where
  "diff_record sc src now hint extracted =
     (let found = placed hint extracted in
      bindM (find_existing src found) (\<lambda>existing. count_all (diff_field sc src now found existing) (df_fields src)))"

definition diff_and_queue :: "scrape \<Rightarrow> pyval \<Rightarrow> pydict list \<Rightarrow> nat comp" where
  "diff_and_queue sc territory_hint extracted_records =
     (case map_of DIFF_SOURCES (sc_type sc) of
        None \<Rightarrow> throw (KeyError (sc_type sc))
      | Some src \<Rightarrow>
          bindM utcnow (\<lambda>now. count_all (diff_record sc src now (normalize_territory territory_hint)) extracted_records))"

section \<open>One run\<close>

text \<open>What a run may do to the world: rows are added to \<open>pending_changes\<close>, nothing else it reads changes.\<close>

definition queues :: "world \<Rightarrow> world \<Rightarrow> bool" where
  "queues w w' = (\<exists>more n c. w' = (set_table PENDING (tables w PENDING @ more) w)\<lparr>uuids_used := n, clock := c\<rparr>)"

lemma queues_refl [simp]: "queues w w"
  unfolding queues_def
  by (rule exI [of _ "[]"], rule exI [of _ "uuids_used w"], rule exI [of _ "clock w"]) (simp add: set_table_def)

lemma queues_trans: "queues u v \<Longrightarrow> queues v w \<Longrightarrow> queues u w"
  unfolding queues_def by (elim exE) (auto simp: set_table_def)

lemma queues_healthy: "queues w w' \<Longrightarrow> healthy w' = healthy w"
  by (auto simp: queues_def set_table_def)

lemma queues_tables: "queues w w' \<Longrightarrow> t \<noteq> PENDING \<Longrightarrow> tables w' t = tables w t"
  by (auto simp: queues_def set_table_def)

lemma queues_max_rows: "queues w w' \<Longrightarrow> max_rows w' = max_rows w"
  by (auto simp: queues_def set_table_def)

lemma queues_pending: "queues w w' \<Longrightarrow> set (tables w PENDING) \<subseteq> set (tables w' PENDING)"
  by (auto simp: queues_def set_table_def)

section \<open>The statements when none fails\<close>

fun match_list :: "string list \<Rightarrow> pydict \<Rightarrow> filt list" where
  "match_list [] found = []"
| "match_list (key # keys) found = (if lookup found key \<noteq> PNone then [F_eq key (lookup found key)] else []) @ match_list keys found"

lemma match_filters_list: "match_filters keys found q = q\<lparr>q_filters := q_filters q @ match_list keys found\<rparr>"
  by (induction keys arbitrary: q) (simp_all add: tq_eq_def tq_filter_def)

lemma match_list_keys: "k \<in> set (map filt_key (match_list keys found)) \<Longrightarrow> k \<in> set keys"
  by (induction keys) (auto split: if_splits)

definition existing_in :: "world \<Rightarrow> diff_source \<Rightarrow> pydict \<Rightarrow> row option" where
  "existing_in w src found =
     first_row (take (max_rows w) (filter (matches (match_list (df_match_keys src) found)) (tables w (df_table src))))"

definition source_known :: "diff_source \<Rightarrow> bool" where
  "source_known src =
     (df_table src \<noteq> PENDING
      \<and> (case schema_of (df_table src) of None \<Rightarrow> False
         | Some sch \<Rightarrow> list_all (\<lambda>k. k \<in> set (table_columns sch)) (df_match_keys src)))"

lemma sources_known: "map_of DIFF_SOURCES t = Some src \<Longrightarrow> source_known src"
  by (auto simp: DIFF_SOURCES_def source_known_def query_simps split: if_splits)

lemma find_existing_healthy:
  assumes "healthy w" "source_known src"
  shows "find_existing src found w = (Inr (existing_in w src found), w)"
proof -
  obtain sch where sch: "schema_of (df_table src) = Some sch" "list_all (\<lambda>k. k \<in> set (table_columns sch)) (df_match_keys src)"
    using assms(2) by (auto simp: source_known_def split: option.splits)
  have "filter (\<lambda>k. k \<notin> set (table_columns sch)) (map filt_key (match_list (df_match_keys src) found)) = []"
    using sch(2) match_list_keys [of _ "df_match_keys src" found] by (auto simp: filter_empty_conv list_all_iff)
  then show ?thesis
    using assms(1) sch(1)
    by (simp add: find_existing_def match_filters_list query_eval world_simps healthy_def sql_def existing_in_def rows_of_def
        project_row_def)
qed

definition asks_for :: "string \<Rightarrow> pyval \<Rightarrow> pyval \<Rightarrow> string \<Rightarrow> row \<Rightarrow> bool" where
  "asks_for resource_type resource_id territory field r =
     (r ''resource_type'' = PStr resource_type \<and> r ''field'' = PStr field \<and> r ''status'' = PStr ''pending''
      \<and> (if truthy resource_id then r ''resource_id'' = resource_id else r ''territory'' = territory))"

lemma pending_change_exists_healthy:
  assumes "healthy w"
  shows "pending_change_exists rt rid terr field w = (Inr (list_ex (asks_for rt rid terr field) (tables w PENDING)), w)"
proof -
  have "matches (q_filters (pending_query rt rid terr field)) r = asks_for rt rid terr field r" for r
    by (simp add: pending_query_def builder_defs Let_def matches_def asks_for_def)
  then have "filter (matches (q_filters (pending_query rt rid terr field))) rs \<noteq> [] \<longleftrightarrow> list_ex (asks_for rt rid terr field) rs" for rs
    by (auto simp: filter_empty_conv list_ex_iff)
  moreover have "tq_execute (pending_query rt rid terr field) w
      = (Inr \<lparr>data = D_none, row_count = Some (length (filter (matches (q_filters (pending_query rt rid terr field))) (tables w PENDING)))\<rparr>, w)"
    using assms by (simp add: pending_query_def query_eval world_simps healthy_def sql_def query_simps)
  ultimately show ?thesis by (simp add: pending_change_exists_def world_simps)
qed

lemma insert_change:
  assumes "healthy w" "run (tq_insert (change_row sc src now found existing field s i) (tq PENDING)) w = (Inr (), w')"
  shows "w' = set_table PENDING (tables w PENDING @ [new_row PendingChanges_table (clock w)
      (change_row sc src now found existing field s i)]) w"
proof -
  have "filter (\<lambda>k. k \<notin> set (table_columns PendingChanges_table)) (map fst (change_row sc src now found existing field s i)) = []"
    by (simp add: change_row_def query_simps)
  then show ?thesis
    using assms by (simp add: query_eval world_simps healthy_def sql_def query_simps split: if_splits)
qed

section \<open>A field is settled once and for all\<close>

definition settled :: "string \<Rightarrow> pydict \<Rightarrow> row option \<Rightarrow> string \<Rightarrow> world \<Rightarrow> bool" where
  "settled rt found existing field w =
     (detected found existing field = None
      \<or> list_ex (asks_for rt (existing_cell existing ''id'') (change_territory found existing) field) (tables w PENDING))"

lemma settled_quiet:
  assumes "healthy w" "settled (sc_type sc) found existing field w"
  shows "diff_field sc src now found existing field w = (Inr 0, w)"
  using assms pending_change_exists_healthy [OF assms(1)]
  by (auto simp: diff_field_def settled_def world_simps split: option.splits)

lemma settled_stays: "queues w w' \<Longrightarrow> settled rt found existing field w \<Longrightarrow> settled rt found existing field w'"
  using queues_pending [of w w'] by (auto simp: settled_def list_ex_iff)

lemma diff_field_settles:
  assumes "healthy w" "diff_field sc src now found existing field w = (Inr n, w')"
  shows "queues w w' \<and> settled (sc_type sc) found existing field w'"
proof (cases "settled (sc_type sc) found existing field w")
  case True
  with assms settled_quiet [OF assms(1) True] show ?thesis by simp
next
  case False
  then obtain s where s: "detected found existing field = Some s"
    "\<not> list_ex (asks_for (sc_type sc) (existing_cell existing ''id'') (change_territory found existing) field) (tables w PENDING)"
    by (auto simp: settled_def)
  let ?i = "PStr (uuid_source w (uuids_used w))" and ?v = "w\<lparr>uuids_used := Suc (uuids_used w)\<rparr>"
  let ?p = "change_row sc src now found existing field s ?i"
  have "run (tq_insert ?p (tq PENDING)) ?v = (Inr (), w')"
    using assms(2) s pending_change_exists_healthy [OF assms(1)]
    by (auto simp: diff_field_def world_simps uuid4_def split: prod.splits sum.splits)
  from insert_change [OF _ this] have w': "w' = set_table PENDING (tables w PENDING @ [new_row PendingChanges_table (clock w) ?p]) ?v"
    using assms(1) by (simp add: set_table_def)
  have "asks_for (sc_type sc) (existing_cell existing ''id'') (change_territory found existing) field
      (new_row PendingChanges_table (clock w) ?p)"
    by (simp add: asks_for_def new_row_def change_row_def query_simps)
  then have "settled (sc_type sc) found existing field w'" by (simp add: settled_def w' set_table_def)
  moreover have "queues w w'"
    unfolding queues_def w'
    by (rule exI [of _ "[new_row PendingChanges_table (clock w) ?p]"], rule exI [of _ "Suc (uuids_used w)"],
        rule exI [of _ "clock w"]) (simp add: set_table_def)
  ultimately show ?thesis by simp
qed

section \<open>The loops\<close>

lemma count_all_settles:
  assumes "\<And>x w n w'. x \<in> set xs \<Longrightarrow> healthy w \<Longrightarrow> f x w = (Inr n, w') \<Longrightarrow> queues w w' \<and> Q x w'"
    and "\<And>x w w'. queues w w' \<Longrightarrow> Q x w \<Longrightarrow> Q x w'"
    and "healthy w" "count_all f xs w = (Inr n, w')"
  shows "queues w w' \<and> list_all (\<lambda>x. Q x w') xs"
  using assms(1,3,4)
proof (induction xs arbitrary: w n)
  case (Cons x xs)
  from Cons.prems(3) obtain k v where x: "f x w = (Inr k, v)" and rest: "\<exists>m. count_all f xs v = (Inr m, w')"
    by (auto simp: world_simps split: prod.splits sum.splits)
  have step: "queues w v" "Q x v" using Cons.prems(1) [OF _ Cons.prems(2) x] by simp_all
  then have "healthy v" using Cons.prems(2) by (simp add: queues_healthy)
  with rest Cons.IH Cons.prems(1) have "queues v w' \<and> list_all (\<lambda>x. Q x w') xs" by (metis list.set_intros(2))
  then show ?case using assms(2) [OF _ step(2)] queues_trans [OF step(1)] by simp
qed (simp add: world_simps)

lemma count_all_quiet: "(\<And>x. x \<in> set xs \<Longrightarrow> f x w = (Inr 0, w)) \<Longrightarrow> count_all f xs w = (Inr 0, w)"
  by (induction xs) (simp_all add: world_simps)

definition record_settled :: "scrape \<Rightarrow> diff_source \<Rightarrow> pyval \<Rightarrow> pydict \<Rightarrow> world \<Rightarrow> bool" where
  "record_settled sc src hint extracted w =
     list_all (\<lambda>field. settled (sc_type sc) (placed hint extracted) (existing_in w src (placed hint extracted)) field w) (df_fields src)"

lemma existing_stays: "queues w w' \<Longrightarrow> source_known src \<Longrightarrow> existing_in w' src found = existing_in w src found"
  by (simp add: existing_in_def queues_tables queues_max_rows source_known_def)

lemma record_settled_stays:
  "queues w w' \<Longrightarrow> source_known src \<Longrightarrow> record_settled sc src hint extracted w \<Longrightarrow> record_settled sc src hint extracted w'"
  by (simp add: record_settled_def existing_stays settled_stays list_all_iff)

lemma diff_record_settles:
  assumes "source_known src" "healthy w" "diff_record sc src now hint extracted w = (Inr n, w')"
  shows "queues w w' \<and> record_settled sc src hint extracted w'"
proof -
  let ?found = "placed hint extracted"
  have "count_all (diff_field sc src now ?found (existing_in w src ?found)) (df_fields src) w = (Inr n, w')"
    using assms by (simp add: diff_record_def Let_def world_simps find_existing_healthy)
  then have "queues w w' \<and> list_all (\<lambda>field. settled (sc_type sc) ?found (existing_in w src ?found) field w') (df_fields src)"
    by (rule count_all_settles [rotated 3, where Q = "settled (sc_type sc) ?found (existing_in w src ?found)"])
       (auto intro: assms(2) settled_stays dest: diff_field_settles)
  then show ?thesis using existing_stays [OF _ assms(1), of w w'] by (simp add: record_settled_def)
qed

lemma record_settled_quiet:
  assumes "source_known src" "healthy w" "record_settled sc src hint extracted w"
  shows "diff_record sc src now hint extracted w = (Inr 0, w)"
  using assms count_all_quiet [of "df_fields src"] settled_quiet [OF assms(2)]
  by (simp add: diff_record_def Let_def world_simps find_existing_healthy record_settled_def list_all_iff)

text \<open>
  C30: when the same page is scraped again, at any later time and before an administrator has decided,
  nothing is queued and nothing changes, whatever was found, missing or worded as a placeholder.
\<close>

theorem second_scrape_queues_nothing:
  assumes "healthy w" and "diff_and_queue sc hint found w = (Inr n, w')"
  shows "diff_and_queue sc hint found (w'\<lparr>clock := later\<rparr>) = (Inr 0, w'\<lparr>clock := later\<rparr>)"
proof -
  obtain src where src: "map_of DIFF_SOURCES (sc_type sc) = Some src"
    using assms(2) by (cases "map_of DIFF_SOURCES (sc_type sc)") (simp_all add: diff_and_queue_def world_simps)
  note known = sources_known [OF src]
  let ?hint = "normalize_territory hint" and ?v = "w'\<lparr>clock := later\<rparr>"
  have "count_all (diff_record sc src (PTime (clock w)) ?hint) found w = (Inr n, w')"
    using assms(2) src by (simp add: diff_and_queue_def utcnow_def world_simps)
  then have "queues w w' \<and> list_all (\<lambda>x. record_settled sc src ?hint x w') found"
    by (rule count_all_settles [rotated 3, where Q = "record_settled sc src ?hint"])
       (auto intro: assms(1) record_settled_stays [OF _ known] dest: diff_record_settles [OF known])
  then have ended: "queues w w'" "list_all (\<lambda>x. record_settled sc src ?hint x w') found" by auto
  have "queues w' ?v"
    unfolding queues_def
    by (rule exI [of _ "[]"], rule exI [of _ "uuids_used w'"], rule exI [of _ later]) (simp add: set_table_def)
  then have "list_all (\<lambda>x. record_settled sc src ?hint x ?v) found"
    using ended(2) record_settled_stays [OF _ known] by (auto simp: list_all_iff)
  moreover have "healthy ?v" using assms(1) queues_healthy [OF ended(1)] by simp
  ultimately have "diff_record sc src (PTime later) ?hint x ?v = (Inr 0, ?v)" if "x \<in> set found" for x
    using record_settled_quiet [OF known] that by (simp add: list_all_iff)
  then have "count_all (diff_record sc src (PTime later) ?hint) found ?v = (Inr 0, ?v)" by (rule count_all_quiet)
  then show ?thesis using src by (simp add: diff_and_queue_def utcnow_def world_simps)
qed

definition sample_scrape :: scrape where
  "sample_scrape = \<lparr>sc_type = ''incentives'', sc_url = ''https://gov.example'', sc_confidence = ''medium''\<rparr>"

definition sample_found :: "pydict list" where
  "sample_found = [[(''territory'', PStr ''uk''), (''program'', PStr ''Fund''), (''rate'', PStr ''25%''), (''cap'', PStr ''n/a'')]]"

definition incentive_source :: diff_source where
  "incentive_source = the (map_of DIFF_SOURCES ''incentives'')"

definition sample_placed :: pydict where
  "sample_placed = [(''territory'', PStr ''United Kingdom''), (''program'', PStr ''Fund''), (''rate'', PStr ''25%''), (''cap'', PStr ''n/a'')]"

lemma sample_steps:
  "placed PNone (hd sample_found) = sample_placed"
  "detected sample_placed None ''rate'' = Some ''25%''" "detected sample_placed None ''cap'' = None"
  "detected sample_placed None ''status'' = None"
  "df_fields incentive_source = [''rate'', ''cap'', ''status'']" "map_of DIFF_SOURCES ''incentives'' = Some incentive_source"
  by code_simp+

lemma sample_rate_queued: "\<exists>v. diff_field sample_scrape incentive_source now sample_placed None ''rate'' (sample_world []) = (Inr 1, v)"
proof -
  let ?w = "sample_world []"
  let ?p = "change_row sample_scrape incentive_source now sample_placed None ''rate'' ''25%'' (PStr ''uuid'')"
  have "run (tq_insert ?p (tq PENDING)) (?w\<lparr>uuids_used := 1\<rparr>)
      = (Inr (), set_table PENDING [new_row PendingChanges_table 1000000 ?p] (?w\<lparr>uuids_used := 1\<rparr>))"
    by (subst run_insert [where sch = PendingChanges_table])
       (simp_all add: query_simps change_row_def insertable_def not_null_def new_row_def change_territory_def py_or_def
         sample_placed_def existing_cell_def)
  then show ?thesis
    by (simp add: diff_field_def sample_steps world_simps pending_change_exists_healthy uuid4_def)
qed

lemma sample_queued: "\<exists>w'. diff_and_queue sample_scrape PNone sample_found (sample_world []) = (Inr 1, w')"
proof -
  have "existing_in (sample_world []) incentive_source sample_placed = None" by (simp add: existing_in_def)
  moreover have "source_known incentive_source" by (rule sources_known [OF sample_steps(6)])
  moreover obtain v where "diff_field sample_scrape incentive_source (PTime 1000000) sample_placed None ''rate'' (sample_world []) = (Inr 1, v)"
    using sample_rate_queued by blast
  ultimately have "diff_record sample_scrape incentive_source (PTime 1000000) PNone (hd sample_found) (sample_world []) = (Inr 1, v)"
    by (simp add: diff_record_def sample_steps Let_def world_simps find_existing_healthy diff_field_def [of _ _ _ _ _ "''cap''"]
        diff_field_def [of _ _ _ _ _ "''status''"])
  then show ?thesis
    by (simp add: diff_and_queue_def sample_scrape_def sample_found_def sample_steps normalize_territory_def utcnow_def world_simps)
qed

theorem second_scrape_queues_nothing_witness:
  "\<exists>w'. diff_and_queue sample_scrape PNone sample_found (sample_world []) = (Inr 1, w')
     \<and> diff_and_queue sample_scrape PNone sample_found (w'\<lparr>clock := 5000000\<rparr>) = (Inr 0, w'\<lparr>clock := 5000000\<rparr>)"
proof -
  obtain w' where w': "diff_and_queue sample_scrape PNone sample_found (sample_world []) = (Inr 1, w')"
    using sample_queued by blast
  with second_scrape_queues_nothing [OF _ w', of 5000000] show ?thesis by simp
qed

text \<open>
  A record that names neither its programme nor its territory is taken for the first row of the
  table, and an empty text counts as a value that was found.
\<close>

lemma nameless_record_takes_the_first_row:
  assumes "healthy w" "source_known src" "list_all (\<lambda>k. lookup found k = PNone) (df_match_keys src)"
  shows "find_existing src found w = (Inr (first_row (take (max_rows w) (tables w (df_table src)))), w)"
proof -
  have "match_list keys found = []" if "list_all (\<lambda>k. lookup found k = PNone) keys" for keys
    using that by (induction keys) simp_all
  then have "match_list (df_match_keys src) found = []" using assms(3) .
  then show ?thesis using assms by (simp add: find_existing_healthy existing_in_def matches_def)
qed

lemma empty_text_is_detected:
  "detected [(''rate'', PStr '' '')] (Some (\<lambda>c. if c = ''rate'' then PStr ''25%'' else PNone)) ''rate'' = Some []"
  by code_simp

end
