(* ===== verification/Report_Helpers.thy ===== *)
theory Report_Helpers
  imports Programme_Eligibility
begin

text \<open>
  The reading half of \<open>app/modules/reports/helpers.py\<close>: numbers, amounts of money in prose, the
  schedule, the payment timing and the display currency. A row is a dict. Texts are UTF-8: a currency
  sign is its bytes, a digit one of ASCII; the thousands separators of a printed number and the format
  \<open>:g\<close> are left out, so what prints a number keeps the number.
\<close>

text \<open>The upper case of a literal letter, for evaluation.\<close>

lemma upper_char_code [code]:
  "upper_char (Char b0 b1 b2 b3 b4 b5 b6 b7) =
     (if b6 \<and> b5 \<and> \<not> b7 \<and> (b0 \<or> b1 \<or> b2 \<or> b3 \<or> b4) \<and> \<not> (b3 \<and> b4 \<and> (b2 \<or> b0 \<and> b1))
      then Char b0 b1 b2 b3 b4 False b6 b7 else Char b0 b1 b2 b3 b4 b5 b6 b7)"
  by (cases b0; cases b1; cases b2; cases b3; cases b4; cases b5; cases b6; cases b7; simp add: upper_char_def char_of_def bit_0)

section \<open>Numbers\<close>

text \<open>\<open>to_float\<close> of the helpers: a truth value is no number.\<close>

definition to_number :: "pyval \<Rightarrow> rat option" where
  "to_number v = (case v of PBool _ \<Rightarrow> None | _ \<Rightarrow> to_float v)"

text \<open>A number that \<open>if x:\<close> takes for true.\<close>

definition nonzero :: "rat option \<Rightarrow> bool" where
  "nonzero x = (case x of None \<Rightarrow> False | Some r \<Rightarrow> r \<noteq> 0)"

text \<open>\<open>round(x)\<close>: a half to the even neighbour.\<close>

definition round_even :: "rat \<Rightarrow> int" where
  "round_even x =
     (let n = \<lfloor>x\<rfloor>; f = x - of_int n in
      if f < 1 / 2 then n else if 1 / 2 < f then n + 1 else if even n then n else n + 1)"

definition STALE_DAYS :: int where
  "STALE_DAYS = 180"

definition prog_name :: "pydict \<Rightarrow> pyval" where
  "prog_name r = py_or (py_or (lookup r ''program_name'') (lookup r ''program'')) (PStr [])"

definition is_zero_rate :: "pyval \<Rightarrow> pyval \<Rightarrow> bool" where
  "is_zero_rate gross net = (\<not> nonzero (to_number gross) \<and> \<not> nonzero (to_number net))"

definition VACUOUS_CAP_PREFIXES :: "string list" where
  "VACUOUS_CAP_PREFIXES = [''no cap'', ''no formal cap'', ''no flat cap'', ''no per-project cap'', ''none'', ''n/a'',
     ''uncapped'', ''not stated'', ''no ceiling'']"

definition is_vacuous_cap_label :: "pyval \<Rightarrow> bool" where
  "is_vacuous_cap_label text =
     (\<not> truthy text
      \<or> (let normalised = lower (strip (py_str text)) in
         normalised = [] \<or> list_ex (\<lambda>p. starts_with p normalised) VACUOUS_CAP_PREFIXES))"

section \<open>Money in prose\<close>

definition drop_first_of :: "string list \<Rightarrow> string \<Rightarrow> string option" where
  "drop_first_of ps s = (case filter (\<lambda>p. starts_with p s) ps of [] \<Rightarrow> None | p # _ \<Rightarrow> Some (drop (length p) s))"

text \<open>A marker at the start, and the blanks after it.\<close>

definition drop_marker :: "string list \<Rightarrow> string \<Rightarrow> string" where
  "drop_marker ps s = (case drop_first_of ps s of None \<Rightarrow> s | Some t \<Rightarrow> dropWhile is_space t)"

definition POUND :: string where "POUND = [CHR 0xC2, CHR 0xA3]"
definition EURO :: string where "EURO = [CHR 0xE2, CHR 0x82, CHR 0xAC]"
definition NAIRA :: string where "NAIRA = [CHR 0xE2, CHR 0x82, CHR 0xA6]"
definition ALMOST :: string where "ALMOST = [CHR 0xE2, CHR 0x89, CHR 0x88]"
definition KORUNA :: string where "KORUNA = [CHR ''K'', CHR 0xC4, CHR 0x8D]"

definition MONEY_CODES :: "string list" where
  "MONEY_CODES = [''HUF'', ''USD'', ''CAD'', ''EUR'', ''GBP'', ''ZAR'', ''NGN'', ''AUD'', ''NZD'', ''CZK'', ''MAD'', ''RON'', ''RSD'']"

text \<open>The dollar signs take no blanks with them.\<close>

definition drop_dollar_or_name :: "string \<Rightarrow> string" where
  "drop_dollar_or_name s =
     (case drop_first_of [''A$'', ''C$'', ''NZ$''] s of Some t \<Rightarrow> t | None \<Rightarrow> drop_marker [''Ft'', KORUNA] s)"

definition bare_amount :: "string \<Rightarrow> string" where
  "bare_amount raw =
     drop_marker MONEY_CODES (drop_dollar_or_name
       (drop_marker [POUND, ''$'', EURO, ''R'', NAIRA] (drop_marker [''~'', ALMOST] raw)))"

definition is_grouped_digit :: "char \<Rightarrow> bool" where
  "is_grouped_digit c = (is_digit_char c \<or> c = CHR '','')"

definition MULTIPLIERS :: "(string \<times> rat) list" where
  "MULTIPLIERS = [(''M'', 1000000), (''K'', 1000), (''B'', 1000000000)]"

definition parse_money_string :: "pyval \<Rightarrow> rat option" where
  "parse_money_string text =
     (if text = PNone then None
      else
       (let raw = bare_amount (strip (py_str text));
            whole = takeWhile is_grouped_digit raw;
            after = drop (length whole) raw;
            places = (if take 1 after = ''.'' then takeWhile is_digit_char (drop 1 after) else []);
            rest = (if places = [] then after else drop (1 + length places) after);
            unit = upper (take 1 (dropWhile is_space rest));
            digits = filter (\<lambda>c. c \<noteq> CHR '','') whole @ (if places = [] then [] else CHR ''.'' # places) in
        if whole = [] then None
        else (case parse_float digits of
            None \<Rightarrow> None
          | Some x \<Rightarrow>
             (let amount = x * (case map_of MULTIPLIERS unit of Some m \<Rightarrow> m | None \<Rightarrow> 1) in
              if 0 < amount then Some amount else None))))"

section \<open>The schedule\<close>

datatype weeks_source = Declared_weeks | Derived_from_script

record schedule =
  shootWeeks :: "int option"
  shootDays :: "int option"
  weeksSource :: "weeks_source option"
  impliedWeeks :: "rat option"
  divergent :: bool

definition DEFAULT_SHOOT_DAYS_PER_WEEK :: rat where
  "DEFAULT_SHOOT_DAYS_PER_WEEK = 5"

definition positive :: "rat option \<Rightarrow> rat option" where
  "positive x = (case x of None \<Rightarrow> None | Some r \<Rightarrow> if 0 < r then Some r else None)"

definition implied_weeks :: "pyval \<Rightarrow> rat option" where
  "implied_weeks script_shoot_days =
     map_option (\<lambda>days. days / DEFAULT_SHOOT_DAYS_PER_WEEK) (positive (to_number script_shoot_days))"

definition resolve_schedule :: "pyval \<Rightarrow> pyval \<Rightarrow> schedule" where
  "resolve_schedule declared_weeks script_shoot_days =
     (let implied = implied_weeks script_shoot_days;
          (weeks, source) =
            (case positive (to_number declared_weeks) of
               Some w \<Rightarrow> (Some w, Some Declared_weeks)
             | None \<Rightarrow> (case implied of
                 Some i \<Rightarrow> (Some (of_int (max 1 (round_even i))), Some Derived_from_script)
               | None \<Rightarrow> (None, None))) in
      \<lparr>shootWeeks = map_option round_even weeks,
       shootDays = map_option round_even (positive (to_number script_shoot_days)),
       weeksSource = source,
       impliedWeeks = map_option round_tenth implied,
       divergent = (case (weeks, implied) of
           (Some w, Some i) \<Rightarrow> source = Some Declared_weeks \<and> 1 < \<bar>i - w\<bar>
         | _ \<Rightarrow> False)\<rparr>)"

section \<open>Payment timing\<close>



















section \<open>Attributions, depth and display currency\<close>

definition SUPPRESSED_SOURCE_TOKENS :: "string list" where
  "SUPPRESSED_SOURCE_TOKENS = [''tmdb'', ''the movie database'']"

fun provider_join :: "string list \<Rightarrow> string" where
  "provider_join [] = []"
| "provider_join [s] = s"
| "provider_join (s # t # ss) = s @ '' / '' @ provider_join (t # ss)"

definition kept_sources :: "string \<Rightarrow> string list" where
  "kept_sources source =
     filter (\<lambda>p. p \<noteq> [] \<and> \<not> list_ex (\<lambda>tok. text_contains tok (lower p)) SUPPRESSED_SOURCE_TOKENS)
       (map strip (split_on (CHR ''/'') source))"

definition clean_source :: "pyval \<Rightarrow> string" where
  "clean_source source =
     (if truthy source \<and> kept_sources (py_str source) \<noteq> [] then provider_join (kept_sources (py_str source)) else ''Industry sources'')"

definition DEEP_DISPLAY_PACKAGES :: "string list" where
  "DEEP_DISPLAY_PACKAGES = [''producer'', ''studio'']"

definition package_display_limit :: "pyval \<Rightarrow> nat" where
  "package_display_limit package =
     (if truthy package \<and> lower (strip (py_str package)) \<in> set DEEP_DISPLAY_PACKAGES then 10 else 5)"

definition CURRENCY_SYMBOLS :: "(string \<times> string) list" where
  "CURRENCY_SYMBOLS = [(''GBP'', POUND), (''USD'', ''$''), (''EUR'', EURO), (''ZAR'', ''R''), (''HUF'', ''Ft ''), (''NGN'', NAIRA),
     (''AUD'', ''A$''), (''CAD'', ''C$'')]"

definition currency_symbol :: "string \<Rightarrow> string" where
  "currency_symbol currency =
     (case map_of CURRENCY_SYMBOLS (upper currency) of Some s \<Rightarrow> s | None \<Rightarrow> currency @ '' '')"

text \<open>The note prints the budget's currency, the rate and its date if it has one.\<close>

datatype fx_note = Converted_at string rat string

definition scaled_original :: "rat \<Rightarrow> rat option \<Rightarrow> rat option \<Rightarrow> rat option" where
  "scaled_original gbp_amount original in_gbp =
     (case (original, in_gbp) of
        (Some b, Some g) \<Rightarrow> if b \<noteq> 0 \<and> 0 < g then Some (b * (gbp_amount / g)) else None
      | _ \<Rightarrow> None)"

definition original_or :: "rat \<Rightarrow> rat option \<Rightarrow> rat option \<Rightarrow> rat" where
  "original_or gbp_amount original in_gbp =
     (case scaled_original gbp_amount original in_gbp of Some x \<Rightarrow> x | None \<Rightarrow> gbp_amount)"

definition budget_to_display ::
  "rat \<Rightarrow> string \<Rightarrow> string \<Rightarrow> rat option \<Rightarrow> rat option \<Rightarrow> pydict \<Rightarrow> int \<times> string \<times> fx_note option" where
  "budget_to_display gbp_amount territory_currency budget_currency original in_gbp fx_rates =
     (let here = original_or gbp_amount original in_gbp;
          fx_info = lookup fx_rates territory_currency in
      if territory_currency = budget_currency then (round_even here, currency_symbol territory_currency, None)
      else if truthy fx_info \<and> nonzero (to_float (dget fx_info ''rate'')) then
        (let rate = (case to_float (dget fx_info ''rate'') of Some x \<Rightarrow> x | None \<Rightarrow> 0) in
         (round_even (here * rate), currency_symbol territory_currency,
          Some (Converted_at budget_currency rate (text_of (dget fx_info ''rate_date'')))))
      else (round_even here, currency_symbol budget_currency, None))"

section \<open>What the helpers promise\<close>












lemma round_even_of_int [simp]: "round_even (of_int n) = n"
  by (simp add: round_even_def)

text \<open>
  The duration the producer declares always stands, whatever the script implies; without one the
  script's days give at least a week.
\<close>

theorem declared_weeks_stand:
  "(case positive (to_number declared) of
      Some w \<Rightarrow> shootWeeks (resolve_schedule declared days) = Some (round_even w)
        \<and> weeksSource (resolve_schedule declared days) = Some Declared_weeks
    | None \<Rightarrow> (case positive (to_number days) of
        Some d \<Rightarrow> shootWeeks (resolve_schedule declared days) = Some (max 1 (round_even (d / 5)))
          \<and> weeksSource (resolve_schedule declared days) = Some Derived_from_script
          \<and> \<not> divergent (resolve_schedule declared days)
      | None \<Rightarrow> shootWeeks (resolve_schedule declared days) = None))"
  by (simp add: resolve_schedule_def implied_weeks_def DEFAULT_SHOOT_DAYS_PER_WEEK_def Let_def del: of_int_max split: option.split)

text \<open>A budget shown in its own currency is the amount that was entered, to the nearest unit.\<close>

lemma own_currency_round_trips:
  "original \<noteq> 0 \<Longrightarrow> 0 < gbp \<Longrightarrow> budget_to_display gbp cur cur (Some original) (Some gbp) fx = (round_even original, currency_symbol cur, None)"
  by (simp add: budget_to_display_def original_or_def scaled_original_def Let_def)

end
