(* ===== verification/Bankability.thy ===== *)
theory Bankability
  imports Report_Helpers Json
begin

text \<open>
  \<open>app/modules/reports/scoring.py\<close>: the bankability label of an incentive and the three scores a
  ranking reads, whole. A row of \<open>incentive_programs\<close> and a territory profile are dicts. Then what
  they promise: the rate score is a rising line through its breakpoints, worse terms never earn a
  better label, and every score stays in its band.
\<close>

section \<open>The label\<close>

datatype bankability = Bankable | Verify_first | Not_bankable

definition bankability_text :: "bankability \<Rightarrow> string" where
  "bankability_text b = (case b of Bankable \<Rightarrow> ''BANKABLE'' | Verify_first \<Rightarrow> ''VERIFY FIRST'' | Not_bankable \<Rightarrow> ''NOT BANKABLE'')"

definition TRUSTED_SOURCE_QUALITY :: "string list" where
  "TRUSTED_SOURCE_QUALITY = [''government_direct'', ''government_plus_industry'', ''industry_secondary'']"

definition label_of_weeks :: "rat \<Rightarrow> bankability" where
  "label_of_weeks weeks = (if 52 < weeks then Not_bankable else if weeks \<le> 26 then Bankable else Verify_first)"

text \<open>What a profile decides, if it decides.\<close>

definition researched_label :: "pydict \<Rightarrow> bankability option" where
  "researched_label profile =
     (if truthy (lookup profile ''bankability_suspended'') then Some Not_bankable
      else if lookup profile ''bankability_real_world_confirms'' = PBool False then Some Not_bankable
      else if strip (text_of (py_or (lookup profile ''bankability_source_quality'') (PStr []))) \<in> set TRUSTED_SOURCE_QUALITY
      then (case (to_number (lookup profile ''cert_weeks_max''), to_number (lookup profile ''payment_weeks_max'')) of
          (None, None) \<Rightarrow> None
        | (Some c, None) \<Rightarrow> Some (label_of_weeks c)
        | (None, Some p) \<Rightarrow> Some (label_of_weeks p)
        | (Some c, Some p) \<Rightarrow> Some (label_of_weeks (c + p)))
      else None)"

definition proxy_label :: "rat option \<Rightarrow> rat option \<Rightarrow> bankability" where
  "proxy_label reliability timeline_max =
     (case reliability of
        Some r \<Rightarrow>
          if r < 1 / 2 then Not_bankable
          else if 4 / 5 \<le> r \<and> (case timeline_max of None \<Rightarrow> True | Some t \<Rightarrow> t \<le> 180) then Bankable
          else Verify_first
      | None \<Rightarrow> (case timeline_max of Some t \<Rightarrow> if 365 < t then Not_bankable else Verify_first | None \<Rightarrow> Verify_first))"

definition compute_bankability_label :: "rat option \<Rightarrow> rat option \<Rightarrow> pydict \<Rightarrow> bankability" where
  "compute_bankability_label reliability timeline_max profile =
     (case researched_label profile of Some b \<Rightarrow> b | None \<Rightarrow> proxy_label reliability timeline_max)"

section \<open>The scores\<close>

definition RATE_BREAKPOINTS :: "(rat \<times> rat) list" where
  "RATE_BREAKPOINTS = [(0, 0), (20, 40), (30, 65), (40, 82), (53, 90), (100, 100)]"

fun interpolated :: "(rat \<times> rat) list \<Rightarrow> rat \<Rightarrow> rat" where
  "interpolated ((r0, s0) # (r1, s1) # bps) rate =
     (if r0 \<le> rate \<and> rate \<le> r1 then s0 + (rate - r0) / (r1 - r0) * (s1 - s0) else interpolated ((r1, s1) # bps) rate)"
| "interpolated _ rate = 100"

definition incentive_rate_score :: "rat \<Rightarrow> rat" where
  "incentive_rate_score rate_gross = (if rate_gross \<le> 0 then 0 else interpolated RATE_BREAKPOINTS rate_gross)"

text \<open>A column that holds JSON: its value, or \<open>None\<close> when its text is no JSON.\<close>

definition json_cell :: "pyval \<Rightarrow> pyval option" where
  "json_cell v = (case v of PStr s \<Rightarrow> json_loads s | _ \<Rightarrow> Some v)"

definition has_nationality_rule :: "pydict \<Rightarrow> bool" where
  "has_nationality_rule db_row =
     (let nat_req = lookup db_row ''nationality_requirements'' in
      truthy nat_req \<and> (case json_cell nat_req of None \<Rightarrow> True | Some v \<Rightarrow> truthy v))"

definition is_mandatory :: "pyval \<Rightarrow> bool" where
  "is_mandatory rl = (case rl of PDict _ \<Rightarrow> truthy (dget_or rl ''required'' (PBool True)) | _ \<Rightarrow> False)"

definition n_mandatory :: "pydict \<Rightarrow> nat" where
  "n_mandatory db_row =
     (let rules_raw = lookup db_row ''eligibility_rules_json'' in
      if truthy rules_raw then (case json_cell rules_raw of Some (PList rules) \<Rightarrow> length (filter is_mandatory rules) | _ \<Rightarrow> 0) else 0)"

definition incentive_qualification_score :: "pydict \<Rightarrow> int" where
  "incentive_qualification_score db_row =
     (let base = (if has_nationality_rule db_row then 40 else 80);
          burden = (if 5 \<le> n_mandatory db_row then 15 else if 3 \<le> n_mandatory db_row then 8 else 0);
          foreign = (if lookup db_row ''spv_eligible'' = PBool False then 10 else 0) in
      max 20 (min 85 (base - burden - foreign)))"

definition FROZEN_KW :: "string list" where
  "FROZEN_KW = [''frozen'', ''suspended'', ''no new'', ''halted'', ''operational'', ''dtic payment'', ''payment delays'']"

definition CAUTION_KW :: "string list" where
  "CAUTION_KW = [''conditionally bankable'', ''registration queue'', ''backlog'', ''cap not yet set'', ''delayed into'', ''verify'']"

definition warning_text :: "pydict \<Rightarrow> string" where
  "warning_text db_row =
     (let warnings_raw = lookup db_row ''warnings_json'' in
      if truthy warnings_raw
      then (case json_cell warnings_raw of Some (PList ws) \<Rightarrow> lower (spaced_join (map py_str ws)) | _ \<Rightarrow> []) else [])"

definition incentive_stability_score :: "pydict \<Rightarrow> int" where
  "incentive_stability_score db_row =
     (if lower (text_of (py_or (lookup db_row ''status'') (PStr []))) \<noteq> ''active'' then 20
      else if list_ex (\<lambda>kw. text_contains kw (warning_text db_row)) FROZEN_KW then 20
      else if list_ex (\<lambda>kw. text_contains kw (warning_text db_row)) CAUTION_KW then 45
      else (case to_number (lookup db_row ''payment_reliability'') of
          Some r \<Rightarrow> if 17 / 20 \<le> r then 90 else if 7 / 10 \<le> r then 70 else 70 | None \<Rightarrow> 70))"

section \<open>The rate score\<close>

text \<open>On each piece the score is one line.\<close>

lemma interpolated_pieces:
  assumes "0 \<le> x"
  shows "interpolated RATE_BREAKPOINTS x =
     (if x \<le> 20 then 2 * x else if x \<le> 30 then 5 / 2 * x - 10 else if x \<le> 40 then 17 / 10 * x + 14
      else if x \<le> 53 then 8 / 13 * x + 82 - 320 / 13 else if x \<le> 100 then 10 / 47 * x + 90 - 530 / 47 else 100)"
  using assms by (simp add: RATE_BREAKPOINTS_def field_simps)

lemma rate_score_pieces:
  "incentive_rate_score x =
     (if x \<le> 0 then 0 else if x \<le> 20 then 2 * x else if x \<le> 30 then 5 / 2 * x - 10 else if x \<le> 40 then 17 / 10 * x + 14
      else if x \<le> 53 then 8 / 13 * x + 82 - 320 / 13 else if x \<le> 100 then 10 / 47 * x + 90 - 530 / 47 else 100)"
  by (simp add: incentive_rate_score_def interpolated_pieces)

lemma rate_score_mono: "x \<le> y \<Longrightarrow> incentive_rate_score x \<le> incentive_rate_score y"
  unfolding rate_score_pieces by (cases "y \<le> 0"; cases "y \<le> 20"; cases "y \<le> 30"; cases "y \<le> 40"; cases "y \<le> 53"; cases "y \<le> 100"; simp split: if_split; linarith?)

lemma rate_score_range: "0 \<le> incentive_rate_score x \<and> incentive_rate_score x \<le> 100"
proof
  show "0 \<le> incentive_rate_score x" unfolding rate_score_pieces by simp
  show "incentive_rate_score x \<le> 100" unfolding rate_score_pieces by simp
qed

text \<open>The rate that earns a score.\<close>

definition rate_for :: "rat \<Rightarrow> rat" where
  "rate_for y =
     (if y \<le> 40 then y / 2 else if y \<le> 65 then (y + 10) * 2 / 5 else if y \<le> 82 then (y - 14) * 10 / 17
      else if y \<le> 90 then (y - 82) * 13 / 8 + 40 else (y - 90) * 47 / 10 + 53)"

lemma rate_for_earns: "0 \<le> y \<Longrightarrow> y \<le> 100 \<Longrightarrow> incentive_rate_score (rate_for y) = y"
  unfolding rate_score_pieces rate_for_def
  by (cases "y \<le> 40"; cases "y \<le> 65"; cases "y \<le> 82"; cases "y \<le> 90"; simp add: field_simps)

text \<open>
  C33: a higher rate never scores less, the scores are all of 0 to 100, no rate and a negative one score
  nothing, and the published breakpoints are met exactly.
\<close>

theorem rate_score_rises:
  "mono incentive_rate_score
   \<and> range incentive_rate_score = {0..100}
   \<and> map (\<lambda>bp. incentive_rate_score (fst bp)) RATE_BREAKPOINTS = map snd RATE_BREAKPOINTS"
proof (intro conjI)
  show "mono incentive_rate_score" using rate_score_mono by (rule monoI)
  show "range incentive_rate_score = {0..100}"
  proof
    show "range incentive_rate_score \<subseteq> {0..100}" using rate_score_range by auto
    show "{0..100} \<subseteq> range incentive_rate_score" using rate_for_earns by (metis atLeastAtMost_iff rangeI subsetI)
  qed
  show "map (\<lambda>bp. incentive_rate_score (fst bp)) RATE_BREAKPOINTS = map snd RATE_BREAKPOINTS"
    by (simp add: RATE_BREAKPOINTS_def rate_score_pieces)
qed

section \<open>The label under worse terms\<close>

definition label_rank :: "bankability \<Rightarrow> nat" where
  "label_rank b = (case b of Not_bankable \<Rightarrow> 0 | Verify_first \<Rightarrow> 1 | Bankable \<Rightarrow> 2)"

lemma proxy_label_mono:
  "r' \<le> r \<Longrightarrow> t \<le> t' \<Longrightarrow> label_rank (proxy_label (Some r') (Some t')) \<le> label_rank (proxy_label (Some r) (Some t))"
  by (simp add: proxy_label_def label_rank_def split: if_split)

lemma label_of_weeks_mono: "w \<le> w' \<Longrightarrow> label_rank (label_of_weeks w') \<le> label_rank (label_of_weeks w)"
  by (simp add: label_of_weeks_def label_rank_def split: if_split)

text \<open>
  C34: with everything else the same, a programme that pays less reliably or later never gets a better
  label, nor does a territory whose researched windows are longer.
\<close>

theorem worse_terms_never_bank:
  assumes "r' \<le> r" and "t \<le> t'" and "w \<le> w'"
  shows "label_rank (compute_bankability_label (Some r') (Some t') profile)
       \<le> label_rank (compute_bankability_label (Some r) (Some t) profile)
     \<and> label_rank (label_of_weeks w') \<le> label_rank (label_of_weeks w)"
  using proxy_label_mono [OF assms(1,2)] label_of_weeks_mono [OF assms(3)]
  by (simp add: compute_bankability_label_def split: option.split)

theorem worse_terms_never_bank_witness:
  "label_rank (compute_bankability_label (Some (3 / 5)) (Some 400) []) \<le> label_rank (compute_bankability_label (Some (9 / 10)) (Some 90) [])
   \<and> label_rank (label_of_weeks 60) \<le> label_rank (label_of_weeks 20)"
  by (rule worse_terms_never_bank) simp_all

text \<open>
  A territory whose payments are suspended, or whose practice contradicts its policy, is not bankable
  whatever the reliability and the timeline of the programme.
\<close>

theorem suspended_is_never_banked:
  "(if truthy (lookup profile ''bankability_suspended'') \<or> lookup profile ''bankability_real_world_confirms'' = PBool False
    then compute_bankability_label reliability timeline_max profile = Not_bankable else True)"
  by (simp add: compute_bankability_label_def researched_label_def)

lemma qualification_values:
  "incentive_qualification_score db_row \<in> {20, 22, 25, 30, 32, 40, 55, 62, 65, 70, 72, 80}"
  unfolding incentive_qualification_score_def Let_def
  by (cases "has_nationality_rule db_row"; cases "5 \<le> n_mandatory db_row"; cases "3 \<le> n_mandatory db_row";
      cases "lookup db_row ''spv_eligible'' = PBool False") simp_all

lemma stability_values: "incentive_stability_score db_row \<in> {20, 45, 70, 90}"
  unfolding incentive_stability_score_def by (cases "to_number (lookup db_row ''payment_reliability'')") simp_all

text \<open>
  The two stepped scores take only these values: a qualification score is one of twelve between 20
  and 80, a stability score one of four.
\<close>

theorem stepped_scores:
  "incentive_qualification_score db_row \<in> {20, 22, 25, 30, 32, 40, 55, 62, 65, 70, 72, 80}
   \<and> incentive_stability_score db_row \<in> {20, 45, 70, 90}"
  using qualification_values stability_values by blast

end
