(* ===== verification/Readiness.thy ===== *)
theory Readiness
  imports Report_Helpers "HOL-Library.List_Lexorder" "HOL-Library.Char_ord" "HOL-Library.Product_Lexorder"
begin

text \<open>
  \<open>app/modules/reports/readiness.py\<close>: the financial readiness of a built report. The report, the
  datasets and the request are dicts, an absent request the empty one. Every status, check, figure and
  flag of the section is here, every branch that sets one, and the rule that decides. The sentences
  that explain them (headline, detail, action, basis, methodology) and the log are left out: a check
  keeps its name and result, a figure its label and the number it prints, a flag its severity, input
  and label. The date ranges are those of Python without its upper bound.
\<close>

section \<open>The rubric\<close>

datatype status = Ready | Conditional | Insufficient_data | Not_ready

definition status_points :: "status \<Rightarrow> nat" where
  "status_points s = (case s of Ready \<Rightarrow> 100 | Conditional \<Rightarrow> 55 | Insufficient_data \<Rightarrow> 25 | Not_ready \<Rightarrow> 0)"

definition WEIGHTS :: "(string \<times> nat) list" where
  "WEIGHTS = [(''budget_vs_cost_base'', 30), (''incentive_confidence'', 30), (''timeline_feasibility'', 25),
     (''soft_money_coverage'', 15)]"

definition weight_of :: "string \<Rightarrow> nat" where
  "weight_of key = (case map_of WEIGHTS key of Some w \<Rightarrow> w | None \<Rightarrow> 0)"

definition READY_MIN_SCORE :: int where "READY_MIN_SCORE = 75"
definition CONDITIONAL_MIN_SCORE :: int where "CONDITIONAL_MIN_SCORE = 45"
definition MAX_INSUFFICIENT_COMPONENTS :: nat where "MAX_INSUFFICIENT_COMPONENTS = 2"

datatype readiness_verdict = READY | CONDITIONAL | NOT_READY | INSUFFICIENT_DATA

definition COST_BASE_LOW_RATIO :: rat where "COST_BASE_LOW_RATIO = 1 / 2"
definition COST_BASE_HIGH_RATIO :: rat where "COST_BASE_HIGH_RATIO = 2"
definition MIN_COMPARABLES_FOR_ANCHOR :: nat where "MIN_COMPARABLES_FOR_ANCHOR = 3"

definition CONDITIONAL_BANKABILITY_LABELS :: "string list" where
  "CONDITIONAL_BANKABILITY_LABELS = [''VERIFY FIRST'', ''CONDITIONALLY BANKABLE'']"

definition NON_ASSESSABLE_LABELS :: "string list" where
  "NON_ASSESSABLE_LABELS = [''NOT APPLICABLE'', ''INFORMATIONAL'']"

definition ELIGIBILITY_CONTINGENT :: "string list" where
  "ELIGIBILITY_CONTINGENT = [''requires_co_production'', ''requires_spv'']"

definition MIN_POST_WEEKS :: "(string \<times> int) list" where
  "MIN_POST_WEEKS = [(''Feature Film'', 20), (''Animated Feature'', 40), (''Animation'', 40), (''TV Series'', 16),
     (''Limited Series'', 16), (''Mini-Series'', 16), (''Docuseries'', 16), (''Documentary'', 16), (''TV Pilot'', 10),
     (''Short'', 6), (''Short Film'', 6)]"

definition post_floor :: "string \<Rightarrow> int" where
  "post_floor production_format = (case map_of MIN_POST_WEEKS production_format of Some w \<Rightarrow> w | None \<Rightarrow> 16)"

definition CASH_GAP_WARN_WEEKS :: rat where "CASH_GAP_WARN_WEEKS = 52"
definition SOFT_MONEY_MATERIAL_PCT :: rat where "SOFT_MONEY_MATERIAL_PCT = 5"

section \<open>Small helpers\<close>

definition pct :: "rat \<Rightarrow> rat \<Rightarrow> rat" where
  "pct portion whole = (if whole \<noteq> 0 then portion / whole * 100 else 0)"

definition is_dict :: "pyval \<Rightarrow> bool" where
  "is_dict v = (case v of PDict _ \<Rightarrow> True | _ \<Rightarrow> False)"

definition dict_rows :: "pyval \<Rightarrow> pydict list" where
  "dict_rows v = map dict_of (filter is_dict (list_of v))"

definition first_where :: "('a \<Rightarrow> bool) \<Rightarrow> 'a list \<Rightarrow> 'a option" where
  "first_where p xs = (case filter p xs of [] \<Rightarrow> None | x # _ \<Rightarrow> Some x)"

text \<open>\<open>next((d for d in rows if d.get(key) == v), {})\<close>.\<close>

definition row_with :: "string \<Rightarrow> pyval \<Rightarrow> pydict list \<Rightarrow> pydict" where
  "row_with key v rows = (case first_where (\<lambda>d. lookup d key = v) rows of None \<Rightarrow> [] | Some d \<Rightarrow> d)"

text \<open>\<open>min(xs, key=...)\<close>: the first of the least.\<close>

definition min_by :: "('a \<Rightarrow> 'b::linorder) \<Rightarrow> 'a list \<Rightarrow> 'a option" where
  "min_by key xs = (case xs of [] \<Rightarrow> None | x # ys \<Rightarrow> Some (foldl (\<lambda>best y. if key y < key best then y else best) x ys))"

definition worst_status :: "status list \<Rightarrow> status" where
  "worst_status statuses = (case min_by status_points statuses of None \<Rightarrow> Insufficient_data | Some s \<Rightarrow> s)"

text \<open>\<open>statistics.median\<close> of a list that is not empty.\<close>

definition median :: "rat list \<Rightarrow> rat" where
  "median xs =
     (let ys = sort xs; n = length ys in
      if odd n then ys ! (n div 2) else (ys ! (n div 2 - 1) + ys ! (n div 2)) / 2)"

datatype check_result = Passed | Failed | Warned | Skipped

type_synonym check = "string \<times> check_result"

datatype figure_value = Money string rat | Percent rat | Ratio rat | Weeks rat | Day int | Reached nat nat

type_synonym figure = "string \<times> figure_value"

datatype severity = Critical | Warning | Info

record flag =
  severity :: severity
  input :: string
  flag_label :: string

definition partition_at :: "char \<Rightarrow> string \<Rightarrow> string \<times> string" where
  "partition_at c s = (takeWhile (\<lambda>d. d \<noteq> c) s, drop 1 (dropWhile (\<lambda>d. d \<noteq> c) s))"

definition humanise_field :: "string \<Rightarrow> string" where
  "humanise_field field =
     (let text = strip field;
          qualified = CHR ''('' \<in> set text \<and> last text = CHR '')'';
          name = (if qualified then strip (fst (partition_at (CHR ''('') text)) else text);
          qualifier = (if qualified then '' ('' @ strip (butlast (snd (partition_at (CHR ''('') text))) @ '')'' else []);
          leaf = strip (spaced (last (split_on (CHR ''.'') name))) in
      if text = [] \<or> leaf = [] then ''Report input'' else upper (take 1 leaf) @ drop 1 leaf @ qualifier)"

definition named_flag :: "severity \<Rightarrow> string \<Rightarrow> string \<Rightarrow> flag" where
  "named_flag sev field lbl = \<lparr>severity = sev, input = field, flag_label = (if lbl = [] then humanise_field field else lbl)\<rparr>"

definition plain_flag :: "severity \<Rightarrow> string \<Rightarrow> flag" where
  "plain_flag sev field = named_flag sev field []"

definition flag_if :: "bool \<Rightarrow> flag \<Rightarrow> flag list" where
  "flag_if b f = (if b then [f] else [])"

text \<open>\<open>f"{field} ({qualifier})"\<close>.\<close>

definition qualified_by :: "string \<Rightarrow> string \<Rightarrow> string" where
  "qualified_by field qualifier = field @ '' ('' @ qualifier @ '')''"

section \<open>The context\<close>

record readiness_context =
  report :: pydict
  datasets :: pydict
  cx_today :: int
  rankings :: "pydict list"
  scenarios :: "pydict list"
  territory :: pyval
  scenario :: pydict
  estimates :: "pydict list"
  estimate :: pydict
  timing_entry :: pydict
  cx_symbol :: string
  programme :: pyval
  profile :: pydict
  cx_budget_gbp :: "rat option"
  budget_currency :: string
  budget_amount :: "rat option"
  total_budget_value :: "rat option"
  net_rebate_value :: "rat option"
  incentive_row :: pydict
  completion_date :: "int option"
  filming_start :: "int option"
  shoot_weeks :: "int option"
  production_format :: string

definition resolve_incentive_row :: "pydict list \<Rightarrow> pyval \<Rightarrow> pyval \<Rightarrow> pydict" where
  "resolve_incentive_row incentives terr prog =
     (let rows = filter (\<lambda>r. lookup r ''territory'' = terr) incentives in
      if truthy prog then (case first_where (\<lambda>r. prog_name r = prog) rows of Some r \<Rightarrow> r | None \<Rightarrow> []) else [])"

definition first_cell :: "pydict list \<Rightarrow> string \<Rightarrow> pyval" where
  "first_cell rows key = (case rows of [] \<Rightarrow> PNone | d # _ \<Rightarrow> lookup d key)"

definition either_of :: "pydict \<Rightarrow> string \<Rightarrow> pydict \<Rightarrow> string \<Rightarrow> pyval" where
  "either_of a k b l = py_or (lookup a k) (lookup b l)"

definition make_context :: "pydict \<Rightarrow> pydict \<Rightarrow> pydict \<Rightarrow> int \<Rightarrow> readiness_context" where
  "make_context rep data request now =
     (let ranked = dict_rows (lookup rep ''locationRankings'');
          scens = dict_rows (dget (lookup rep ''financialAnalysis'') ''budgetScenarios'');
          timing = dict_rows (dget (lookup rep ''financialAnalysis'') ''paymentTiming'');
          terr = py_or (dget (lookup rep ''executiveSummary'') ''recommendedTerritory'')
                   (py_or (first_cell ranked ''name'') (first_cell scens ''territory''));
          scen = row_with ''territory'' terr scens;
          ests = dict_rows (lookup rep ''incentiveEstimates'');
          est = row_with ''territory'' terr ests;
          prog = either_of scen ''programme'' est ''program'' in
      \<lparr>report = rep, datasets = data, cx_today = now, rankings = ranked, scenarios = scens, territory = terr, scenario = scen,
       estimates = ests, estimate = est, timing_entry = row_with ''territory'' terr timing,
       cx_symbol = text_of (py_or (lookup scen ''currencySymbol'') (PStr POUND)), programme = prog,
       profile = dict_of (dget (lookup data ''_territory_profiles'') (text_of terr)),
       cx_budget_gbp = to_number (dget (lookup data ''_budget_gbp'') ''converted''),
       budget_currency = text_of (py_or (lookup data ''_budget_currency'') (PStr ''GBP'')),
       budget_amount = to_number (lookup data ''_budget_amount''),
       total_budget_value = to_number (lookup scen ''totalBudgetValue''),
       net_rebate_value = to_number (lookup scen ''netRebateValue''),
       incentive_row = resolve_incentive_row (dict_rows (lookup data ''incentives'')) terr prog,
       completion_date = parse_date (either_of request ''completion_date'' data ''_completion_date''),
       filming_start = parse_date (either_of request ''filming_start_date'' data ''_filming_start_date''),
       shoot_weeks = map_option floor (positive (to_number (either_of request ''filming_duration'' data ''_shoot_weeks''))),
       production_format = text_of (either_of request ''format'' data ''_production_format'')\<rparr>)"

text \<open>The grade of the incentive; the other components have none.\<close>

datatype grade = Confirmed | Contingent | Failed_grade

record assessment =
  cp_key :: string
  cp_label :: string
  cp_status :: status
  cp_weight :: nat
  figures :: "figure list"
  checks :: "check list"
  cp_grade :: "grade option"

definition assessed :: "string \<Rightarrow> string \<Rightarrow> status \<Rightarrow> figure list \<Rightarrow> check list \<Rightarrow> assessment" where
  "assessed key lbl s figs chks =
     \<lparr>cp_key = key, cp_label = lbl, cp_status = s, cp_weight = weight_of key, figures = figs, checks = chks, cp_grade = None\<rparr>"

text \<open>What one test adds: its verdicts, checks, figures and flags.\<close>

type_synonym findings = "status list \<times> check list \<times> figure list \<times> flag list"

section \<open>The budget against the cost base\<close>

definition spend_floor :: "readiness_context \<Rightarrow> rat \<Rightarrow> findings" where
  "spend_floor cx budget =
     (case positive (to_number (lookup (incentive_row cx) ''qualifying_spend_min'')) of
        None \<Rightarrow> ([Ready], [(''minimum qualifying spend'', Passed)], [], [])
      | Some qs_min \<Rightarrow>
        (let currency = text_of (py_or (lookup (incentive_row cx) ''qualifying_spend_currency'')
               (py_or (lookup (incentive_row cx) ''currency'') (PStr ''GBP''))) in
         case to_gbp qs_min currency of
           None \<Rightarrow> ([Insufficient_data], [(''minimum qualifying spend'', Skipped)], [],
             [named_flag Warning (qualified_by ''incentive_programs.qualifying_spend_currency'' currency)
               (''Minimum spend, stated in '' @ currency)])
         | Some (floor_gbp, _) \<Rightarrow>
           if budget < floor_gbp
           then ([Not_ready], [(''minimum qualifying spend'', Failed)], [(''Programme minimum spend'', Money POUND floor_gbp)], [])
           else ([Ready], [(''minimum qualifying spend'', Passed)], [], [])))"

definition budget_known :: "pydict \<Rightarrow> bool" where
  "budget_known c = nonzero (to_number (lookup c ''budgetUSD''))"

definition located_in :: "pyval \<Rightarrow> pydict \<Rightarrow> bool" where
  "located_in terr c =
     (truthy terr \<and> text_contains (lower (text_of terr)) (lower (py_str (py_or (lookup c ''location'') (PStr [])))))"

definition anchor_comparables :: "readiness_context \<Rightarrow> pydict list" where
  "anchor_comparables cx =
     (let known = filter budget_known (dict_rows (lookup (report cx) ''comparables''));
          here = filter (located_in (territory cx)) known in
      if here \<noteq> [] then here else known)"

definition usd_rate :: rat where
  "usd_rate = (case map_of STATIC_FX_TO_GBP ''USD'' of Some x \<Rightarrow> x | None \<Rightarrow> 127 / 100)"

definition budget_of_comparable :: "pydict \<Rightarrow> rat" where
  "budget_of_comparable c = (case to_number (lookup c ''budgetUSD'') of Some x \<Rightarrow> x | None \<Rightarrow> 0)"

definition cost_anchor :: "readiness_context \<Rightarrow> rat \<Rightarrow> findings" where
  "cost_anchor cx budget =
     (let comps = anchor_comparables cx in
      if length comps < MIN_COMPARABLES_FOR_ANCHOR
      then ([Insufficient_data], [(''comparable cost anchor'', Skipped)], [],
        [named_flag Info ''comparable_productions.budget_usd'' ''Comparable production budgets''])
      else
       (let mid = median (map budget_of_comparable comps);
            ratio = (if mid \<noteq> 0 then budget * usd_rate / mid else 0);
            low = ratio < COST_BASE_LOW_RATIO in
        ([if low then Conditional else Ready], [(''comparable cost anchor'', if low then Failed else Passed)],
         [(''Median comparable budget'', Money ''$'' mid), (''Budget vs. that median'', Ratio ratio)], [])))"

definition cost_provenance :: "readiness_context \<Rightarrow> findings" where
  "cost_provenance cx =
     (let here = text_of (territory cx) in
      if lookup (profile cx) ''cost_efficiency_score'' = PNone
      then ([], [(''territory cost-efficiency provenance'', Warned)], [],
        [named_flag Warning (qualified_by ''territory_profiles.cost_efficiency_score'' here) (''Cost-efficiency data for '' @ here)])
      else ([], [(''territory cost-efficiency provenance'', Passed)], [],
        flag_if (\<not> truthy (lookup (profile cx) ''cost_efficiency_source''))
          (named_flag Info (qualified_by ''territory_profiles.cost_efficiency_source'' here) (''Cost-efficiency source for '' @ here))))"

definition joined :: "findings \<Rightarrow> findings \<Rightarrow> findings" where
  "joined a b = (case (a, b) of ((s, c, f, l), (s', c', f', l')) \<Rightarrow> (s @ s', c @ c', f @ f', l @ l'))"

definition assess_budget_vs_cost_base :: "readiness_context \<Rightarrow> assessment \<times> flag list" where
  "assess_budget_vs_cost_base cx =
     (case cx_budget_gbp cx of
        None \<Rightarrow>
          (assessed ''budget_vs_cost_base'' ''Budget against territory cost base'' Insufficient_data []
             [(''budget normalisation'', Skipped)],
           [named_flag Critical ''budget_amount'' ''Production budget''])
      | Some budget \<Rightarrow>
          (case joined (spend_floor cx budget) (joined (cost_anchor cx budget) (cost_provenance cx)) of
             (statuses, chks, figs, flags) \<Rightarrow>
               (assessed ''budget_vs_cost_base'' ''Budget against territory cost base'' (worst_status statuses)
                  ((case budget_amount cx of
                      Some a \<Rightarrow> if a \<noteq> 0 then [(''Declared budget'', Money (budget_currency cx @ '' '') a)] else []
                    | None \<Rightarrow> [])
                   @ [(''Budget (GBP-normalised)'', Money POUND budget)] @ figs) chks, flags)))"

end
