(* ===== verification/Readiness_Assessment.thy ===== *)
theory Readiness_Assessment
  imports Readiness
begin

text \<open>
  \<open>app/modules/reports/readiness.py\<close> continued: the incentive, the soft money, the timeline, the flags
  on the inputs, the rule that decides and the section as a whole.
\<close>

section \<open>Confirmed and estimated incentive value\<close>

text \<open>The sentences that explain a grade, with the values they print.\<close>

datatype grade_reason =
    Not_assessable string
  | Producer_ineligible pyval
  | Needs_structure string
  | Programme_unresolved pyval pyval
  | Producer_qualifies
  | Eligibility_undetermined
  | Not_bankable_reason
  | Verification_required string
  | Bankable_reason
  | No_bankability
  | Record_stale
  | Record_undated
  | Expires_first int int bool
  | Payments_suspended

text \<open>A condition counts for nothing, or makes the value contingent, or fails it.\<close>

datatype effect = No_effect | Makes_contingent | Fails

definition estimate_label :: "pydict \<Rightarrow> string" where
  "estimate_label est = upper (strip (text_of (py_or (lookup est ''bankabilityLabel'') (PStr []))))"

definition eligibility_effect :: "pydict \<Rightarrow> effect \<times> grade_reason" where
  "eligibility_effect est =
     (let eligibility = lower (strip (text_of (py_or (lookup est ''eligibilityStatus'') (PStr [])))) in
      if eligibility = ''ineligible'' then (Fails, Producer_ineligible (lookup est ''eligibilityNote''))
      else if eligibility \<in> set ELIGIBILITY_CONTINGENT then (Makes_contingent, Needs_structure eligibility)
      else if eligibility = ''qualified''
      then (if lookup est ''incentiveIsConfirmed'' = PBool False
            then (Makes_contingent, Programme_unresolved (lookup est ''incentiveEligibilityStatus'')
              (case list_of (lookup est ''incentiveEligibilityReasons'') of [] \<Rightarrow> PNone | x # _ \<Rightarrow> x))
            else (No_effect, Producer_qualifies))
      else (Makes_contingent, Eligibility_undetermined))"

definition bankability_effect :: "pydict \<Rightarrow> effect \<times> grade_reason" where
  "bankability_effect est =
     (let lbl = estimate_label est in
      if lbl = ''NOT BANKABLE'' then (Fails, Not_bankable_reason)
      else if lbl \<in> set CONDITIONAL_BANKABILITY_LABELS then (Makes_contingent, Verification_required lbl)
      else if lbl = ''BANKABLE'' then (No_effect, Bankable_reason)
      else (Makes_contingent, No_bankability))"

definition effect_if :: "bool \<Rightarrow> effect \<Rightarrow> grade_reason \<Rightarrow> (effect \<times> grade_reason) list" where
  "effect_if b e why = (if b then [(e, why)] else [])"

definition expiry_horizon :: "readiness_context \<Rightarrow> int" where
  "expiry_horizon cx = (case completion_date cx of Some d \<Rightarrow> d | None \<Rightarrow> cx_today cx)"

definition expires_early :: "readiness_context \<Rightarrow> pydict \<Rightarrow> bool" where
  "expires_early cx est = (case parse_date (lookup est ''expiryDate'') of None \<Rightarrow> False | Some e \<Rightarrow> e < expiry_horizon cx)"

definition expiry_effect :: "readiness_context \<Rightarrow> pydict \<Rightarrow> (effect \<times> grade_reason) list" where
  "expiry_effect cx est =
     (case parse_date (lookup est ''expiryDate'') of None \<Rightarrow> []
      | Some expiry \<Rightarrow> effect_if (expiry < expiry_horizon cx) Fails
          (Expires_first expiry (expiry_horizon cx) (completion_date cx \<noteq> None)))"

definition suspended_here :: "readiness_context \<Rightarrow> pydict \<Rightarrow> bool" where
  "suspended_here cx est = (truthy (lookup (profile cx) ''bankability_suspended'') \<and> lookup est ''territory'' = territory cx)"

definition conditions_of :: "readiness_context \<Rightarrow> pydict \<Rightarrow> (effect \<times> grade_reason) list" where
  "conditions_of cx est =
     [eligibility_effect est, bankability_effect est]
     @ effect_if (truthy (lookup est ''stalenessWarning'')) Makes_contingent Record_stale
     @ effect_if (\<not> truthy (lookup est ''lastUpdated'')) Makes_contingent Record_undated
     @ expiry_effect cx est
     @ effect_if (suspended_here cx est) Fails Payments_suspended"

definition grade_of :: "effect list \<Rightarrow> grade" where
  "grade_of es = (if Fails \<in> set es then Failed_grade else if Makes_contingent \<in> set es then Contingent else Confirmed)"

definition classify_estimate :: "readiness_context \<Rightarrow> pydict \<Rightarrow> grade \<times> grade_reason list" where
  "classify_estimate cx est =
     (if estimate_label est \<in> set NON_ASSESSABLE_LABELS then (Failed_grade, [Not_assessable (estimate_label est)])
      else (let cs = conditions_of cx est in (grade_of (map fst cs), map snd cs)))"

definition grade_check :: "grade \<Rightarrow> check_result" where
  "grade_check g = (case g of Confirmed \<Rightarrow> Passed | Failed_grade \<Rightarrow> Failed | Contingent \<Rightarrow> Warned)"

definition grade_status :: "grade \<Rightarrow> status" where
  "grade_status g = (case g of Confirmed \<Rightarrow> Ready | Contingent \<Rightarrow> Conditional | Failed_grade \<Rightarrow> Not_ready)"

definition confirmed_alternatives :: "readiness_context \<Rightarrow> pydict list" where
  "confirmed_alternatives cx =
     filter (\<lambda>est. truthy (lookup est ''territory'') \<and> lookup est ''territory'' \<noteq> territory cx
        \<and> fst (classify_estimate cx est) = Confirmed) (estimates cx)"

definition MIDDLE_DOT :: string where "MIDDLE_DOT = [CHR 0xC2, CHR 0xB7]"

definition incentive_flags :: "readiness_context \<Rightarrow> flag list" where
  "incentive_flags cx =
     (let est = estimate cx; here = text_of (territory cx) in
      flag_if (truthy (lookup est ''stalenessWarning''))
        (named_flag Warning (qualified_by ''incentive_programs'' (here @ '' '' @ MIDDLE_DOT @ '' '' @ py_str (programme cx)))
          (''Programme record for '' @ py_str (py_or (programme cx) (territory cx))))
      @ flag_if (\<not> truthy (lookup est ''lastUpdated''))
        (named_flag Warning (qualified_by ''incentive_programs.last_verified_at'' here)
          (''Verification date for the '' @ here @ '' programme''))
      @ flag_if (lower (text_of (py_or (lookup est ''eligibilityStatus'') (PStr ''unknown'')))
          \<notin> set (''qualified'' # ''ineligible'' # ELIGIBILITY_CONTINGENT))
        (named_flag Warning ''eligibilityStatus'' ''Producer eligibility'')
      @ flag_if (timing_entry cx \<noteq> [] \<and> strip (text_of (py_or (lookup (timing_entry cx) ''sourceQuality'') (PStr []))) = [])
        (named_flag Info (qualified_by ''territory_profiles.bankability_source_quality'' here) (''Payment-timing source for '' @ here))
      @ flag_if (truthy (lookup (profile cx) ''bankability_suspended''))
        (named_flag Critical (qualified_by ''territory_profiles.bankability_suspended'' here) (''Payment reliability for '' @ here)))"

definition incentive_figures :: "readiness_context \<Rightarrow> rat \<Rightarrow> rat \<Rightarrow> grade \<Rightarrow> figure list" where
  "incentive_figures cx net whole g =
     [(''Modelled net incentive'', Money (cx_symbol cx) net), (''As a share of budget'', Percent (pct net whole)),
      (''Confirmed incentive value'', Money (cx_symbol cx) (if g = Confirmed then net else 0))]"

definition assess_incentive_confidence :: "readiness_context \<Rightarrow> assessment \<times> flag list" where
  "assess_incentive_confidence cx =
     (let answer = assessed ''incentive_confidence'' ''Confirmed vs. estimated incentive value'' in
      case (net_rebate_value cx, total_budget_value cx) of
        (Some net, Some whole) \<Rightarrow>
          if estimate cx = [] \<or> whole = 0
          then (answer Insufficient_data [] [(''incentive estimate present'', Skipped)],
            [named_flag Critical ''incentiveEstimates'' ''Incentive programme''])
          else
           (case classify_estimate cx (estimate cx) of (g, reasons) \<Rightarrow>
              ((answer (grade_status g) (incentive_figures cx net whole g)
                 (map (\<lambda>_. (''confirmation criteria'', grade_check g)) reasons
                  @ (if confirmed_alternatives cx \<noteq> [] then [(''confirmed alternatives'', Passed)] else [])))
                \<lparr>cp_grade := Some g\<rparr>,
               incentive_flags cx))
      | _ \<Rightarrow> (answer Insufficient_data [] [(''incentive estimate present'', Skipped)],
          [named_flag Critical ''incentiveEstimates'' ''Incentive programme'']))"

section \<open>Soft money\<close>

text \<open>\<open>grants_by_title\<close>: a later row of the same title replaces an earlier one.\<close>

definition grant_title :: "pydict \<Rightarrow> string" where
  "grant_title r = lower (strip (text_of (py_or (py_or (lookup r ''title'') (lookup r ''fund_name'')) (PStr []))))"

definition grant_of :: "pydict list \<Rightarrow> string \<Rightarrow> pydict" where
  "grant_of grant_rows name =
     (case filter (\<lambda>r. grant_title r \<noteq> [] \<and> grant_title r = name) (rev grant_rows) of [] \<Rightarrow> [] | r # _ \<Rightarrow> r)"

definition fund_name :: "pydict \<Rightarrow> string" where
  "fund_name fund = strip (text_of (py_or (lookup fund ''name'') (PStr [])))"

definition fund_amount :: "pydict list \<Rightarrow> pydict \<Rightarrow> rat option" where
  "fund_amount grant_rows fund =
     (let r = grant_of grant_rows (lower (fund_name fund));
          currency = text_of (py_or (lookup r ''currency'') (PStr ''GBP''));
          amount = (case to_number (lookup r ''max_amount'') of Some a \<Rightarrow> Some a | None \<Rightarrow> parse_money_string (lookup fund ''notes'')) in
      case amount of None \<Rightarrow> None
      | Some a \<Rightarrow> if a = 0 then None else (case to_gbp a currency of None \<Rightarrow> None | Some (gbp, _) \<Rightarrow> if gbp = 0 then None else Some gbp))"

definition opportunities_of :: "string \<Rightarrow> readiness_context \<Rightarrow> pydict list" where
  "opportunities_of kind cx =
     filter (\<lambda>f. lookup f ''type'' = PStr kind) (dict_rows (lookup (report cx) ''fundingOpportunities''))"

definition quantified :: "readiness_context \<Rightarrow> rat list" where
  "quantified cx = List.map_filter (fund_amount (dict_rows (lookup (datasets cx) ''grants''))) (opportunities_of ''Fund'' cx)"

definition unquantified :: "readiness_context \<Rightarrow> pydict list" where
  "unquantified cx =
     filter (\<lambda>f. fund_amount (dict_rows (lookup (datasets cx) ''grants'')) f = None) (opportunities_of ''Fund'' cx)"

definition dates_of :: "pydict list \<Rightarrow> int list" where
  "dates_of rows = List.map_filter (\<lambda>d. parse_date (lookup d ''deadline'')) rows"

definition open_deadlines :: "readiness_context \<Rightarrow> int list" where
  "open_deadlines cx = filter (\<lambda>d. cx_today cx \<le> d) (dates_of (opportunities_of ''Fund'' cx))"

definition soft_money_figures :: "readiness_context \<Rightarrow> rat \<Rightarrow> rat \<Rightarrow> rat \<Rightarrow> figure list" where
  "soft_money_figures cx whole budget soft =
     (let incentive_pct = (case net_rebate_value cx of Some net \<Rightarrow> pct net whole | None \<Rightarrow> 0);
          residual_pct = max 0 (100 - incentive_pct) in
      [(''Matched soft money (maximum)'', Money POUND soft),
       (''Soft money as a share of budget'', Percent (pct soft budget)),
       (''Modelled incentive share'', Percent incentive_pct),
       (''Residual for equity or debt'', Percent residual_pct),
       (''Equity ask if every matched fund were awarded'', Percent (max 0 (residual_pct - pct soft budget)))])"

definition soft_money_checks :: "readiness_context \<Rightarrow> check list" where
  "soft_money_checks cx =
     (if quantified cx \<noteq> [] then [(''quantified soft money'', Passed)] else [])
     @ (if unquantified cx \<noteq> [] then [(''unquantified soft money'', Warned)] else [])
     @ (if open_deadlines cx \<noteq> [] then [(''application windows open'', Passed)]
        else if opportunities_of ''Fund'' cx \<noteq> [] then [(''application windows open'', Warned)] else [])
     @ (if opportunities_of ''Fund'' cx = [] then [(''matched funds'', Skipped)] else [])"

definition soft_money_status :: "readiness_context \<Rightarrow> rat \<Rightarrow> status" where
  "soft_money_status cx soft_pct =
     (if opportunities_of ''Fund'' cx = [] then Insufficient_data
      else if quantified cx = [] then Conditional
      else if SOFT_MONEY_MATERIAL_PCT \<le> soft_pct \<and> open_deadlines cx \<noteq> [] then Ready
      else Conditional)"

definition assess_soft_money :: "readiness_context \<Rightarrow> assessment \<times> flag list" where
  "assess_soft_money cx =
     (case (total_budget_value cx, cx_budget_gbp cx) of
        (Some whole, Some budget) \<Rightarrow>
          if whole = 0 then (assessed ''soft_money_coverage'' ''Soft-money coverage'' Insufficient_data [] [(''budget present'', Skipped)], [])
          else
           (let soft = sum_list (quantified cx) in
            (assessed ''soft_money_coverage'' ''Soft-money coverage'' (soft_money_status cx (pct soft budget))
               (soft_money_figures cx whole budget soft) (soft_money_checks cx),
             flag_if (unquantified cx \<noteq> []) (named_flag Info ''grants.max_amount'' ''Grant award amounts'')))
      | _ \<Rightarrow> (assessed ''soft_money_coverage'' ''Soft-money coverage'' Insufficient_data [] [(''budget present'', Skipped)], []))"

section \<open>The timeline\<close>

text \<open>The test that gates the component: its status, checks, figures and flags.\<close>

definition shoot_end :: "int \<Rightarrow> int \<Rightarrow> int" where
  "shoot_end start weeks = start + 7 * weeks"

definition named_if_missing :: "string \<Rightarrow> bool \<Rightarrow> string list" where
  "named_if_missing name known = (if known then [] else [name])"

definition weeks_known :: "int option \<Rightarrow> bool" where
  "weeks_known weeks = (case weeks of None \<Rightarrow> False | Some w \<Rightarrow> w \<noteq> 0)"

definition schedule_untested :: "readiness_context \<Rightarrow> status \<times> check list \<times> figure list \<times> flag list" where
  "schedule_untested cx =
     (Insufficient_data, [(''post-production window'', Skipped)], [],
      map (plain_flag Warning) (named_if_missing ''filming_start_date'' (filming_start cx \<noteq> None)
        @ named_if_missing ''filming_duration'' (weeks_known (shoot_weeks cx))))"

definition schedule_test :: "readiness_context \<Rightarrow> status \<times> check list \<times> figure list \<times> flag list" where
  "schedule_test cx =
     (case (completion_date cx, filming_start cx, shoot_weeks cx) of
        (Some completion, Some start, Some weeks) \<Rightarrow>
          if weeks = 0 then schedule_untested cx
          else
           (let last_day = shoot_end start weeks; required = shoot_end last_day (post_floor (production_format cx));
                figs = [(''Photography ends'', Day last_day), (''Earliest feasible completion'', Day required)] in
            if completion < last_day then (Not_ready, [(''completion after photography'', Failed)], figs, [])
            else if completion < required then (Conditional, [(''post-production window'', Failed)], figs, [])
            else (Ready, [(''post-production window'', Passed)], figs, []))
      | _ \<Rightarrow> schedule_untested cx)"

definition cash_window :: "readiness_context \<Rightarrow> findings" where
  "cash_window cx =
     (let weeks = to_number (lookup (timing_entry cx) ''totalWeeksMax''); here = text_of (territory cx) in
      case weeks of
        Some w \<Rightarrow>
          if w = 0 then ([Insufficient_data], [(''incentive cash-flow gap'', Skipped)], [],
            [plain_flag Warning (qualified_by ''territory_profiles.cert_weeks_max / payment_weeks_max'' here)])
          else
           (let late = CASH_GAP_WARN_WEEKS < w in
            ([if late then Conditional else Ready], [(''incentive cash-flow gap'', if late then Failed else Passed)],
             (''Certification to cash'', Weeks w)
               # (case completion_date cx of None \<Rightarrow> [] | Some d \<Rightarrow> [(''Latest expected incentive receipt'', Day (d + \<lfloor>7 * w\<rfloor>))]), []))
      | None \<Rightarrow> ([Insufficient_data], [(''incentive cash-flow gap'', Skipped)], [],
          [plain_flag Warning (qualified_by ''territory_profiles.cert_weeks_max / payment_weeks_max'' here)]))"

definition festival_deadlines :: "readiness_context \<Rightarrow> int list" where
  "festival_deadlines cx = dates_of (opportunities_of ''Festival'' cx)"

definition festival_window :: "readiness_context \<Rightarrow> findings" where
  "festival_window cx =
     (case completion_date cx of
        Some completion \<Rightarrow>
          if festival_deadlines cx \<noteq> []
          then (let reachable = filter (\<lambda>d. completion \<le> d) (festival_deadlines cx) in
            ([if reachable \<noteq> [] then Ready else Conditional], [(''festival window'', if reachable \<noteq> [] then Passed else Failed)],
             [(''Festival deadlines reachable after delivery'', Reached (length reachable) (length (festival_deadlines cx)))], []))
          else ([Insufficient_data], [(''festival window'', Skipped)], [],
            flag_if (dict_rows (lookup (report cx) ''festivalRecommendations'') \<noteq> [])
              (named_flag Info ''festivals.submission_deadline'' ''Festival submission deadlines''))
      | None \<Rightarrow> ([Insufficient_data], [(''festival window'', Skipped)], [], []))"

definition timeline_status :: "status \<Rightarrow> status list \<Rightarrow> status" where
  "timeline_status schedule_status statuses =
     (if schedule_status = Insufficient_data then Insufficient_data
      else worst_status (schedule_status # filter (\<lambda>s. s \<noteq> Insufficient_data) statuses))"

definition completion_declared :: "readiness_context \<Rightarrow> check list \<times> figure list \<times> flag list" where
  "completion_declared cx =
     (case completion_date cx of
        None \<Rightarrow> ([(''completion date declared'', Skipped)], [], [named_flag Warning ''completion_date'' ''Expected completion date''])
      | Some d \<Rightarrow> ([], [(''Declared completion'', Day d)], []))"

definition assess_timeline :: "readiness_context \<Rightarrow> assessment \<times> flag list" where
  "assess_timeline cx =
     (case completion_declared cx of (chks0, figs0, flags0) \<Rightarrow>
      case schedule_test cx of (schedule_status, chks1, figs1, flags1) \<Rightarrow>
      case joined (cash_window cx) (festival_window cx) of (statuses, chks2, figs2, flags2) \<Rightarrow>
        (assessed ''timeline_feasibility'' ''Timeline feasibility'' (timeline_status schedule_status statuses)
           (figs0 @ figs1 @ figs2) (chks0 @ chks1 @ chks2),
         flags0 @ flags1 @ flags2))"

section \<open>Flags on the inputs\<close>

definition currency_flags :: "readiness_context \<Rightarrow> flag list" where
  "currency_flags cx =
     (let cur = upper (budget_currency cx) in
      if cur = ''OTHER'' then [named_flag Critical ''budget_currency'' ''Budget currency'']
      else flag_if (cur \<noteq> ''GBP'' \<and> map_of STATIC_FX_TO_GBP cur = None)
        (plain_flag Warning (qualified_by ''budget_currency'' (budget_currency cx))))"

definition rate_flags :: "readiness_context \<Rightarrow> flag list" where
  "rate_flags cx =
     (case parse_date (dget (lookup (datasets cx) ''_budget_gbp'') ''rate_date'') of
        None \<Rightarrow> [] | Some d \<Rightarrow> flag_if (30 < cx_today cx - d) (plain_flag Warning ''fx rate date''))"

definition profile_flags :: "readiness_context \<Rightarrow> flag list" where
  "profile_flags cx =
     (let field = qualified_by ''territory_profiles.last_reviewed_at'' (text_of (territory cx)) in
      case parse_date (lookup (profile cx) ''last_reviewed_at'') of
        None \<Rightarrow> flag_if (profile cx \<noteq> []) (plain_flag Info field)
      | Some d \<Rightarrow> flag_if (STALE_DAYS < cx_today cx - d) (plain_flag Warning field))"

definition other_territory_flags :: "readiness_context \<Rightarrow> flag list" where
  "other_territory_flags cx =
     flag_if (list_ex (\<lambda>est. truthy (lookup est ''stalenessWarning'') \<and> lookup est ''territory'' \<noteq> territory cx) (estimates cx))
       (plain_flag Info ''incentive_programs (other ranked territories)'')"

definition collect_input_flags :: "readiness_context \<Rightarrow> flag list" where
  "collect_input_flags cx = currency_flags cx @ rate_flags cx @ profile_flags cx @ other_territory_flags cx"

section \<open>The verdict\<close>

datatype verdict_rule = R1 | R2 | R3 | R4 | R5 | R6

datatype blocker = Critical_inputs nat | Not_assessed string | Not_confirmed

datatype verdict_reason =
    Components_failed "string list"
  | Components_unassessed "string list" nat
  | Blocked int "blocker list"
  | Meets_rubric int
  | Holds_conditionally int "blocker list"
  | Below_floor int

definition with_status :: "status \<Rightarrow> assessment list \<Rightarrow> assessment list" where
  "with_status s cs = filter (\<lambda>c. cp_status c = s) cs"

definition blockers_of :: "assessment list \<Rightarrow> flag list \<Rightarrow> blocker list" where
  "blockers_of components flags =
     (let criticals = filter (\<lambda>f. severity f = Critical) flags in
      (if criticals \<noteq> [] then [Critical_inputs (length criticals)] else [])
      @ (case with_status Insufficient_data components of [] \<Rightarrow> [] | c # _ \<Rightarrow> [Not_assessed (lower (cp_label c))])
      @ (case first_where (\<lambda>c. cp_key c = ''incentive_confidence'') components of
          None \<Rightarrow> [] | Some c \<Rightarrow> if cp_status c \<noteq> Ready then [Not_confirmed] else []))"

definition decide_verdict :: "assessment list \<Rightarrow> flag list \<Rightarrow> int \<Rightarrow> readiness_verdict \<times> verdict_rule \<times> verdict_reason" where
  "decide_verdict components flags score =
     (let failed = with_status Not_ready components;
          insufficient = with_status Insufficient_data components;
          blockers = blockers_of components flags in
      if failed \<noteq> [] then (NOT_READY, R1, Components_failed (map (\<lambda>c. lower (cp_label c)) failed))
      else if MAX_INSUFFICIENT_COMPONENTS \<le> length insufficient
      then (INSUFFICIENT_DATA, R2, Components_unassessed (map (\<lambda>c. lower (cp_label c)) insufficient) (length components))
      else if READY_MIN_SCORE \<le> score \<and> blockers \<noteq> [] then (CONDITIONAL, R3, Blocked score blockers)
      else if READY_MIN_SCORE \<le> score then (READY, R4, Meets_rubric score)
      else if CONDITIONAL_MIN_SCORE \<le> score then (CONDITIONAL, R5, Holds_conditionally score blockers)
      else (NOT_READY, R6, Below_floor score))"

section \<open>The section\<close>

record readiness_section =
  rs_verdict :: readiness_verdict
  rs_rule :: verdict_rule
  rs_reason :: verdict_reason
  rs_score :: int
  rs_territory :: pyval
  rs_programme :: pyval
  rs_symbol :: string
  rs_components :: "assessment list"
  rs_flags :: "flag list"
  rs_flag_counts :: "(severity \<times> nat) list"
  computed_on :: int

definition severity_rank :: "severity \<Rightarrow> nat" where
  "severity_rank s = (case s of Critical \<Rightarrow> 0 | Warning \<Rightarrow> 1 | Info \<Rightarrow> 2)"

definition sorted_flags :: "flag list \<Rightarrow> flag list" where
  "sorted_flags flags = sort_key (\<lambda>f. (severity_rank (severity f), input f)) flags"

definition readiness_score :: "assessment list \<Rightarrow> int" where
  "readiness_score components =
     (let total_weight = sum_list (map cp_weight components) in
      round_even (of_nat (sum_list (map (\<lambda>c. status_points (cp_status c) * cp_weight c) components))
        / of_nat (if total_weight = 0 then 1 else total_weight)))"

definition assess_all :: "readiness_context \<Rightarrow> assessment list \<times> flag list" where
  "assess_all cx =
     (let parts = [assess_budget_vs_cost_base cx, assess_incentive_confidence cx, assess_timeline cx, assess_soft_money cx] in
      (map fst parts, concat (map snd parts) @ collect_input_flags cx))"

definition compute_financial_readiness :: "pyval \<Rightarrow> pyval \<Rightarrow> pydict \<Rightarrow> int \<Rightarrow> readiness_section option" where
  "compute_financial_readiness rep data request now =
     (if \<not> is_dict rep \<or> \<not> is_dict data then None
      else
       (let cx = make_context (dict_of rep) (dict_of data) request now in
        if \<not> truthy (territory cx) \<or> scenarios cx = [] then None
        else
         (case assess_all cx of (components, collected) \<Rightarrow>
           (let score = readiness_score components; flags = sorted_flags collected in
            case decide_verdict components flags score of (v, rl, why) \<Rightarrow>
              Some \<lparr>rs_verdict = v, rs_rule = rl, rs_reason = why, rs_score = score, rs_territory = territory cx,
                rs_programme = programme cx, rs_symbol = cx_symbol cx, rs_components = components, rs_flags = flags,
                rs_flag_counts = map (\<lambda>s. (s, length (filter (\<lambda>f. severity f = s) flags))) [Critical, Warning, Info],
                computed_on = now\<rparr>))))"

end
