(* ===== verification/Readiness_Properties.thy ===== *)
theory Readiness_Properties
  imports Readiness_Assessment
begin

text \<open>
  What the readiness section promises: its verdict as a table over the four statuses, the conditions
  behind the incentive and the timeline, what suspends a territory, and what matched funds may not do.
\<close>

section \<open>The score and the table\<close>

lemma worst_status_simps [simp]:
  "worst_status [] = Insufficient_data"
  "worst_status [a] = a"
  by (simp_all add: worst_status_def min_by_def)

lemma assess_keys:
  "cp_key (fst (assess_budget_vs_cost_base cx)) = ''budget_vs_cost_base''"
  "cp_key (fst (assess_incentive_confidence cx)) = ''incentive_confidence''"
  "cp_key (fst (assess_timeline cx)) = ''timeline_feasibility''"
  "cp_key (fst (assess_soft_money cx)) = ''soft_money_coverage''"
  by (simp_all add: assess_budget_vs_cost_base_def assess_incentive_confidence_def assess_timeline_def assess_soft_money_def
      assessed_def case_prod_beta Let_def split: option.split)

lemma assess_weights:
  "cp_weight (fst (assess_budget_vs_cost_base cx)) = 30"
  "cp_weight (fst (assess_incentive_confidence cx)) = 30"
  "cp_weight (fst (assess_timeline cx)) = 25"
  "cp_weight (fst (assess_soft_money cx)) = 15"
  by (simp_all add: assess_budget_vs_cost_base_def assess_incentive_confidence_def assess_timeline_def assess_soft_money_def
      assessed_def weight_of_def WEIGHTS_def case_prod_beta Let_def split: option.split)

definition weighted_points :: "status \<Rightarrow> status \<Rightarrow> status \<Rightarrow> status \<Rightarrow> nat" where
  "weighted_points b i t m = status_points b * 30 + (status_points i * 30 + (status_points t * 25 + status_points m * 15))"

text \<open>The four components as one list: keys, weights and statuses.\<close>

definition four :: "assessment list \<Rightarrow> assessment \<Rightarrow> assessment \<Rightarrow> assessment \<Rightarrow> assessment \<Rightarrow> bool" where
  "four cs b i t m \<longleftrightarrow> cs = [b, i, t, m] \<and> map cp_weight cs = [30, 30, 25, 15]
     \<and> cp_key b \<noteq> ''incentive_confidence'' \<and> cp_key i = ''incentive_confidence''"

lemma assess_all_four:
  "four (fst (assess_all cx)) (fst (assess_budget_vs_cost_base cx)) (fst (assess_incentive_confidence cx))
     (fst (assess_timeline cx)) (fst (assess_soft_money cx))"
  by (simp add: four_def assess_all_def assess_keys assess_weights)

lemma score_of_four:
  "four cs b i t m \<Longrightarrow> readiness_score cs = round_even (of_nat (weighted_points (cp_status b) (cp_status i) (cp_status t) (cp_status m)) / 100)"
  by (auto simp: four_def readiness_score_def weighted_points_def)

text \<open>With no failure and at most one gap the score has at least 46 points.\<close>

lemma round_even_ge: "of_int n \<le> x \<Longrightarrow> n \<le> round_even x"
  unfolding round_even_def Let_def by (auto simp: le_floor_iff intro: order_trans [of n "\<lfloor>x\<rfloor>"])

lemma round_even_less: "x < of_int n - 1 / 2 \<Longrightarrow> round_even x < n"
  unfolding round_even_def Let_def by (simp add: floor_less_iff)

lemma score_at_least: "4600 \<le> w \<Longrightarrow> 46 \<le> round_even (of_nat w / 100)"
  by (rule round_even_ge) (simp add: field_simps)

lemma score_ready: "7500 \<le> w \<Longrightarrow> 75 \<le> round_even (of_nat w / 100)"
  by (rule round_even_ge) (simp add: field_simps)

lemma score_not_ready: "w \<le> 6850 \<Longrightarrow> round_even (of_nat w / 100) < 75"
  by (rule round_even_less) (simp add: field_simps)

text \<open>With no failure and at most one gap the score has at least 46 points.\<close>

definition gaps :: "status list \<Rightarrow> nat" where
  "gaps ss = length (filter (\<lambda>s. s = Insufficient_data) ss)"

lemma floor_score:
  assumes "b \<noteq> Not_ready" "i \<noteq> Not_ready" "t \<noteq> Not_ready" "m \<noteq> Not_ready" and "gaps [b, i, t, m] < 2"
  shows "4600 \<le> weighted_points b i t m"
  using assms by (cases b; cases i; cases t; cases m) (simp_all add: weighted_points_def status_points_def gaps_def)

lemma ready_score:
  assumes "b = Ready \<or> b = Conditional" "t = Ready \<or> t = Conditional" "m = Ready \<or> m = Conditional"
    and "b = Ready \<or> t = Ready \<or> m = Ready"
  shows "7500 \<le> weighted_points b Ready t m"
  using assms by (auto simp: weighted_points_def status_points_def)

lemma conditional_score: "weighted_points Conditional i Conditional Conditional \<le> 6850"
  by (cases i) (simp_all add: weighted_points_def status_points_def)

text \<open>The rules read off the four statuses and whether a critical input is flagged.\<close>

definition ruled :: "status \<Rightarrow> status \<Rightarrow> status \<Rightarrow> status \<Rightarrow> bool \<Rightarrow> readiness_verdict" where
  "ruled b i t m critical =
     (if Not_ready \<in> {b, i, t, m} then NOT_READY
      else if 2 \<le> gaps [b, i, t, m] then INSUFFICIENT_DATA
      else if i = Ready \<and> Insufficient_data \<notin> {b, t, m} \<and> Ready \<in> {b, t, m} \<and> \<not> critical then READY
      else CONDITIONAL)"

lemma blockers_of_four:
  assumes "four cs b i t m"
  shows "blockers_of cs flags = [] \<longleftrightarrow> \<not> list_ex (\<lambda>f. severity f = Critical) flags
     \<and> Insufficient_data \<notin> cp_status ` set cs \<and> cp_status i = Ready"
proof -
  have gap: "with_status Insufficient_data cs = [] \<longleftrightarrow> Insufficient_data \<notin> cp_status ` set cs"
    unfolding with_status_def filter_empty_conv by (metis imageE imageI)
  have first: "first_where (\<lambda>c. cp_key c = ''incentive_confidence'') cs = Some i"
    using assms by (auto simp: four_def first_where_def)
  have crit: "filter (\<lambda>f. severity f = Critical) flags = [] \<longleftrightarrow> \<not> list_ex (\<lambda>f. severity f = Critical) flags"
    by (auto simp: filter_empty_conv list_ex_iff)
  show ?thesis
    unfolding blockers_of_def Let_def first gap [symmetric] crit [symmetric]
    by (simp split: list.split)
qed

lemma decide_four:
  assumes f: "four cs b i t m"
  shows "fst (decide_verdict cs flags (readiness_score cs))
      = ruled (cp_status b) (cp_status i) (cp_status t) (cp_status m) (list_ex (\<lambda>f. severity f = Critical) flags)
    \<and> fst (snd (decide_verdict cs flags (readiness_score cs))) \<noteq> R6"
proof -
  let ?b = "cp_status b" and ?i = "cp_status i" and ?t = "cp_status t" and ?m = "cp_status m"
  let ?w = "weighted_points ?b ?i ?t ?m" and ?crit = "list_ex (\<lambda>f. severity f = Critical) flags"
  have cs: "cs = [b, i, t, m]" using f by (simp add: four_def)
  have failed: "with_status Not_ready cs \<noteq> [] \<longleftrightarrow> Not_ready \<in> {?b, ?i, ?t, ?m}"
    by (auto simp: with_status_def cs)
  have gapped: "length (with_status Insufficient_data cs) = gaps [?b, ?i, ?t, ?m]"
    by (simp add: with_status_def cs gaps_def)
  have score: "readiness_score cs = round_even (of_nat ?w / 100)" using f by (rule score_of_four)
  have free: "blockers_of cs flags = [] \<longleftrightarrow> \<not> ?crit \<and> Insufficient_data \<notin> {?b, ?i, ?t, ?m} \<and> ?i = Ready"
    using blockers_of_four [OF f, of flags] by (simp add: cs)
  have floor: "46 \<le> readiness_score cs" if "Not_ready \<notin> {?b, ?i, ?t, ?m}" "gaps [?b, ?i, ?t, ?m] < 2"
    unfolding score by (rule score_at_least, rule floor_score) (use that in auto)
  have high: "75 \<le> readiness_score cs \<longleftrightarrow> Ready \<in> {?b, ?t, ?m}"
    if none: "Not_ready \<notin> {?b, ?i, ?t, ?m}" and full: "Insufficient_data \<notin> {?b, ?i, ?t, ?m}" and "?i = Ready"
  proof
    assume "75 \<le> readiness_score cs"
    show "Ready \<in> {?b, ?t, ?m}"
    proof (rule ccontr)
      assume "Ready \<notin> {?b, ?t, ?m}"
      then have "?b = Conditional" "?t = Conditional" "?m = Conditional" using none full by (metis insertCI status.exhaust)+
      then have "readiness_score cs < 75" unfolding score using score_not_ready [OF conditional_score] by simp
      with \<open>75 \<le> readiness_score cs\<close> show False by simp
    qed
  next
    assume "Ready \<in> {?b, ?t, ?m}"
    moreover have "x = Ready \<or> x = Conditional" if "x \<in> {?b, ?t, ?m}" for x
      using that none full by (metis insert_iff status.exhaust)
    ultimately have "7500 \<le> ?w" unfolding \<open>?i = Ready\<close> by (intro ready_score) auto
    then show "75 \<le> readiness_score cs" unfolding score by (rule score_ready)
  qed
  show ?thesis
  proof (cases "Not_ready \<in> {?b, ?i, ?t, ?m} \<or> 2 \<le> gaps [?b, ?i, ?t, ?m]")
    case True
    then show ?thesis
      using failed gapped by (auto simp: decide_verdict_def Let_def ruled_def MAX_INSUFFICIENT_COMPONENTS_def)
  next
    case False
    then have none: "Not_ready \<notin> {?b, ?i, ?t, ?m}" and "with_status Not_ready cs = []"
      and few: "\<not> 2 \<le> length (with_status Insufficient_data cs)" and "46 \<le> readiness_score cs"
      using failed gapped floor by auto
    then have d: "decide_verdict cs flags (readiness_score cs) =
        (if 75 \<le> readiness_score cs \<and> blockers_of cs flags \<noteq> [] then (CONDITIONAL, R3, Blocked (readiness_score cs) (blockers_of cs flags))
         else if 75 \<le> readiness_score cs then (READY, R4, Meets_rubric (readiness_score cs))
         else (CONDITIONAL, R5, Holds_conditionally (readiness_score cs) (blockers_of cs flags)))"
      by (simp add: decide_verdict_def Let_def READY_MIN_SCORE_def CONDITIONAL_MIN_SCORE_def MAX_INSUFFICIENT_COMPONENTS_def)
    have r: "ruled ?b ?i ?t ?m ?crit = (if ?i = Ready \<and> Insufficient_data \<notin> {?b, ?t, ?m} \<and> Ready \<in> {?b, ?t, ?m} \<and> \<not> ?crit
        then READY else CONDITIONAL)"
      using False by (simp add: ruled_def)
    show ?thesis
    proof (cases "blockers_of cs flags = []")
      case True
      then have "\<not> ?crit" "Insufficient_data \<notin> {?b, ?i, ?t, ?m}" "?i = Ready" using free by auto
      then show ?thesis unfolding d r using high [OF none] True by simp
    next
      case blocked: False
      then have "\<not> (?i = Ready \<and> Insufficient_data \<notin> {?b, ?t, ?m} \<and> \<not> ?crit)" using free by auto
      then show ?thesis unfolding d r using blocked by auto
    qed
  qed
qed

section \<open>The section\<close>

lemma list_ex_sorted_flags: "list_ex p (sorted_flags fs) = list_ex p fs"
  by (simp add: sorted_flags_def list_ex_iff)

lemma computed:
  assumes "compute_financial_readiness rep data request now = Some s"
  defines "cx \<equiv> make_context (dict_of rep) (dict_of data) request now"
  shows "rs_components s = fst (assess_all cx) \<and> rs_flags s = sorted_flags (snd (assess_all cx))
    \<and> rs_territory s = territory cx \<and> rs_score s = readiness_score (rs_components s)
    \<and> (rs_verdict s, rs_rule s, rs_reason s) = decide_verdict (rs_components s) (rs_flags s) (rs_score s)"
  using assms by (auto simp: compute_financial_readiness_def Let_def case_prod_beta split: if_splits)

lemma computed_four:
  assumes "compute_financial_readiness rep data request now = Some s"
  obtains b i t m where "four (rs_components s) b i t m" "map cp_status (rs_components s) = map cp_status [b, i, t, m]"
proof -
  from computed [OF assms] assess_all_four have "\<exists>b i t m. four (rs_components s) b i t m" by metis
  then show ?thesis using that by (auto simp: four_def)
qed

text \<open>
  C25: the verdict of a report is a table over the statuses of its four components and whether a critical
  input is flagged: a failure decides; two gaps leave it open; ready needs the incentive confirmed, no
  gap, one more component ready and no critical flag; everything else is conditional. The rule on
  scores below 45 never decides.
\<close>

theorem verdict_is_a_table:
  "(case compute_financial_readiness rep data request now of None \<Rightarrow> True
    | Some s \<Rightarrow>
      (case map cp_status (rs_components s) of
         [b, i, t, m] \<Rightarrow> rs_verdict s = ruled b i t m (list_ex (\<lambda>f. severity f = Critical) (rs_flags s))
       | _ \<Rightarrow> False)
      \<and> rs_rule s \<noteq> R6)"
proof (cases "compute_financial_readiness rep data request now")
  case (Some s)
  obtain b i t m where f: "four (rs_components s) b i t m" and st: "map cp_status (rs_components s) = map cp_status [b, i, t, m]"
    using computed_four [OF Some] by metis
  have d: "(rs_verdict s, rs_rule s, rs_reason s) = decide_verdict (rs_components s) (rs_flags s) (readiness_score (rs_components s))"
    using computed [OF Some] by metis
  have "rs_verdict s = fst (decide_verdict (rs_components s) (rs_flags s) (readiness_score (rs_components s)))"
    and "rs_rule s = fst (snd (decide_verdict (rs_components s) (rs_flags s) (readiness_score (rs_components s))))"
    by (simp_all only: d [symmetric] fst_conv snd_conv)
  then show ?thesis using decide_four [OF f, of "rs_flags s"] by (simp add: Some st)
qed simp

section \<open>The incentive\<close>

lemma row_with_key: "row_with key v rows \<noteq> [] \<Longrightarrow> lookup (row_with key v rows) key = v"
  by (auto simp: row_with_def first_where_def filter_eq_Cons_iff split: list.splits)

lemma incentive_status:
  "cp_status (fst (assess_incentive_confidence cx)) =
     (case (net_rebate_value cx, total_budget_value cx) of
        (Some net, Some whole) \<Rightarrow>
          if estimate cx = [] \<or> whole = 0 then Insufficient_data else grade_status (fst (classify_estimate cx (estimate cx)))
      | _ \<Rightarrow> Insufficient_data)"
  by (simp add: assess_incentive_confidence_def assessed_def Let_def case_prod_beta split: option.split)

lemma effect_if_simps [simp]:
  "effect_if True e why = [(e, why)]"
  "effect_if False e why = []"
  by (simp_all add: effect_if_def)

lemma fst_effect_if: "x \<in> set (map fst (effect_if b e why)) \<longleftrightarrow> b \<and> x = e"
  by (cases b) simp_all

lemma fst_expiry_effect: "x \<in> set (map fst (expiry_effect cx est)) \<longleftrightarrow> expires_early cx est \<and> x = Fails"
  unfolding expiry_effect_def expires_early_def by (cases "parse_date (lookup est ''expiryDate'')") (simp_all add: fst_effect_if del: set_map)

lemma grade_effects:
  "x \<in> set (map fst (conditions_of cx est)) \<longleftrightarrow>
     x = fst (eligibility_effect est) \<or> x = fst (bankability_effect est)
     \<or> truthy (lookup est ''stalenessWarning'') \<and> x = Makes_contingent
     \<or> \<not> truthy (lookup est ''lastUpdated'') \<and> x = Makes_contingent
     \<or> expires_early cx est \<and> x = Fails \<or> suspended_here cx est \<and> x = Fails"
  unfolding conditions_of_def map_append set_append Un_iff fst_effect_if fst_expiry_effect by auto

lemma grade_confirmed: "grade_of es = Confirmed \<longleftrightarrow> Fails \<notin> set es \<and> Makes_contingent \<notin> set es"
  by (simp add: grade_of_def)

lemma eligibility_effect_clear:
  "fst (eligibility_effect est) = No_effect \<longleftrightarrow>
     lower (strip (text_of (py_or (lookup est ''eligibilityStatus'') (PStr [])))) = ''qualified''
     \<and> lookup est ''incentiveIsConfirmed'' \<noteq> PBool False"
  by (simp add: eligibility_effect_def ELIGIBILITY_CONTINGENT_def Let_def)

lemma bankability_effect_clear: "fst (bankability_effect est) = No_effect \<longleftrightarrow> estimate_label est = ''BANKABLE''"
  by (simp add: bankability_effect_def CONDITIONAL_BANKABILITY_LABELS_def Let_def)

lemma no_effect: "e \<noteq> Fails \<and> e \<noteq> Makes_contingent \<longleftrightarrow> e = No_effect"
  by (cases e) simp_all

lemma grade_status_ready: "grade_status g = Ready \<longleftrightarrow> g = Confirmed"
  by (cases g) (simp_all add: grade_status_def)

lemma classified_confirmed:
  "fst (classify_estimate cx est) = Confirmed \<longleftrightarrow>
     estimate_label est = ''BANKABLE''
     \<and> lower (strip (text_of (py_or (lookup est ''eligibilityStatus'') (PStr [])))) = ''qualified''
     \<and> lookup est ''incentiveIsConfirmed'' \<noteq> PBool False
     \<and> \<not> truthy (lookup est ''stalenessWarning'') \<and> truthy (lookup est ''lastUpdated'')
     \<and> \<not> expires_early cx est \<and> \<not> suspended_here cx est"
proof (cases "estimate_label est \<in> set NON_ASSESSABLE_LABELS")
  case True
  then show ?thesis by (auto simp: classify_estimate_def NON_ASSESSABLE_LABELS_def)
next
  case False
  then have "fst (classify_estimate cx est) = grade_of (map fst (conditions_of cx est))"
    by (simp add: classify_estimate_def Let_def)
  moreover have "grade_of (map fst (conditions_of cx est)) = Confirmed \<longleftrightarrow>
      fst (eligibility_effect est) = No_effect \<and> fst (bankability_effect est) = No_effect
      \<and> \<not> truthy (lookup est ''stalenessWarning'') \<and> truthy (lookup est ''lastUpdated'')
      \<and> \<not> expires_early cx est \<and> \<not> suspended_here cx est"
    unfolding grade_confirmed grade_effects
    by (cases "fst (eligibility_effect est)"; cases "fst (bankability_effect est)") auto
  ultimately show ?thesis by (simp only: eligibility_effect_clear bankability_effect_clear conj_ac)
qed

text \<open>
  C26: the incentive component is ready, and its modelled value counts as confirmed, exactly when a value
  is modelled against a budget and its programme is bankable, the producer qualifies, the project's
  own eligibility is not open, the record is dated and fresh, and neither an expiry before delivery
  nor suspended payments stand against it.
\<close>

theorem confirmed_value_is_evidenced:
  "cp_status (fst (assess_incentive_confidence cx)) = Ready \<longleftrightarrow>
     net_rebate_value cx \<noteq> None \<and> nonzero (total_budget_value cx) \<and> estimate cx \<noteq> []
     \<and> estimate_label (estimate cx) = ''BANKABLE''
     \<and> lower (strip (text_of (py_or (lookup (estimate cx) ''eligibilityStatus'') (PStr [])))) = ''qualified''
     \<and> lookup (estimate cx) ''incentiveIsConfirmed'' \<noteq> PBool False
     \<and> \<not> truthy (lookup (estimate cx) ''stalenessWarning'') \<and> truthy (lookup (estimate cx) ''lastUpdated'')
     \<and> \<not> expires_early cx (estimate cx) \<and> \<not> suspended_here cx (estimate cx)"
  unfolding incentive_status
  by (simp add: grade_status_ready classified_confirmed nonzero_def split: option.split)

lemma suspended_fails:
  assumes "suspended_here cx est"
  shows "fst (classify_estimate cx est) = Failed_grade"
proof -
  have "Fails \<in> set (map fst (conditions_of cx est))" unfolding grade_effects using assms by blast
  then show ?thesis by (simp add: classify_estimate_def Let_def grade_of_def)
qed

lemma suspended_incentive:
  assumes "truthy (lookup (profile cx) ''bankability_suspended'')"
    and "lookup (estimate cx) ''territory'' = territory cx \<or> estimate cx = []"
  shows "cp_status (fst (assess_incentive_confidence cx)) \<in> {Not_ready, Insufficient_data}"
  using assms suspended_fails [of cx "estimate cx"]
  by (auto simp: incentive_status suspended_here_def grade_status_def split: option.split)

lemma context_estimate:
  "lookup (estimate (make_context rep data request now)) ''territory'' = territory (make_context rep data request now)
   \<or> estimate (make_context rep data request now) = []"
  using row_with_key by (simp add: make_context_def Let_def) metis

lemma ruled_not_ready: "ruled b Not_ready t m crit = NOT_READY"
  by (simp add: ruled_def)

lemma ruled_gap: "ruled b Insufficient_data t m crit \<noteq> READY"
  by (simp add: ruled_def)

text \<open>The statuses of a computed section are those of its context.\<close>

lemma computed_table:
  assumes "compute_financial_readiness rep data request now = Some s"
  defines "cx \<equiv> make_context (dict_of rep) (dict_of data) request now"
  shows "map cp_status (rs_components s) = [cp_status (fst (assess_budget_vs_cost_base cx)),
       cp_status (fst (assess_incentive_confidence cx)), cp_status (fst (assess_timeline cx)), cp_status (fst (assess_soft_money cx))]
     \<and> rs_territory s = territory cx
     \<and> rs_verdict s = ruled (cp_status (fst (assess_budget_vs_cost_base cx))) (cp_status (fst (assess_incentive_confidence cx)))
         (cp_status (fst (assess_timeline cx))) (cp_status (fst (assess_soft_money cx)))
         (list_ex (\<lambda>f. severity f = Critical) (rs_flags s))"
proof -
  have d: "(rs_verdict s, rs_rule s, rs_reason s) = decide_verdict (rs_components s) (rs_flags s) (readiness_score (rs_components s))"
    and c: "rs_components s = fst (assess_all cx)" and t: "rs_territory s = territory cx"
    using computed [OF assms(1)] unfolding cx_def by metis+
  have "four (rs_components s) (fst (assess_budget_vs_cost_base cx)) (fst (assess_incentive_confidence cx))
     (fst (assess_timeline cx)) (fst (assess_soft_money cx))"
    unfolding c by (rule assess_all_four)
  from decide_four [OF this, of "rs_flags s"] show ?thesis
    unfolding d [symmetric] using c t by (simp add: assess_all_def)
qed

text \<open>
  C27: where payments of the recommended territory are suspended the plan is never ready, and not ready
  at all as soon as an incentive value is modelled.
\<close>

theorem suspended_payments_decide:
  "(case compute_financial_readiness rep data request now of None \<Rightarrow> True
    | Some s \<Rightarrow>
      if truthy (dget (dget (lookup (dict_of data) ''_territory_profiles'') (text_of (rs_territory s))) ''bankability_suspended'')
      then rs_verdict s = NOT_READY
        \<or> (rs_verdict s \<in> {CONDITIONAL, INSUFFICIENT_DATA} \<and> map cp_status (rs_components s) ! 1 = Insufficient_data)
      else True)"
proof (cases "compute_financial_readiness rep data request now")
  case (Some s)
  define cx where "cx = make_context (dict_of rep) (dict_of data) request now"
  note t = computed_table [OF Some, folded cx_def]
  have p: "profile cx = dict_of (dget (lookup (dict_of data) ''_territory_profiles'') (text_of (territory cx)))"
    by (simp add: cx_def make_context_def Let_def)
  have "rs_verdict s = NOT_READY
      \<or> (rs_verdict s \<in> {CONDITIONAL, INSUFFICIENT_DATA} \<and> map cp_status (rs_components s) ! 1 = Insufficient_data)"
    if "truthy (dget (dget (lookup (dict_of data) ''_territory_profiles'') (text_of (rs_territory s))) ''bankability_suspended'')"
  proof -
    have "truthy (lookup (profile cx) ''bankability_suspended'')" using that t p by (simp add: dget_def)
    then have i: "cp_status (fst (assess_incentive_confidence cx)) \<in> {Not_ready, Insufficient_data}"
      using suspended_incentive context_estimate unfolding cx_def by blast
    show ?thesis
    proof (cases "cp_status (fst (assess_incentive_confidence cx)) = Not_ready")
      case True
      then show ?thesis using t ruled_not_ready by simp
    next
      case False
      then have "cp_status (fst (assess_incentive_confidence cx)) = Insufficient_data" using i by simp
      then show ?thesis using t ruled_gap [symmetric] by (cases "rs_verdict s") simp_all
    qed
  qed
  then show ?thesis by (simp add: Some)
qed simp

section \<open>Soft money\<close>

text \<open>
  C28: matched funds are opportunities: whatever the report matches and the grants table holds, the share
  left for equity or debt is the same, and the component never fails a plan.
\<close>

theorem matched_funds_are_not_finance:
  "map_of (figures (fst (assess_soft_money (cx\<lparr>report := r, datasets := d\<rparr>)))) ''Residual for equity or debt''
     = map_of (figures (fst (assess_soft_money cx))) ''Residual for equity or debt''
   \<and> cp_status (fst (assess_soft_money cx)) \<noteq> Not_ready"
  by (simp add: assess_soft_money_def assessed_def soft_money_figures_def soft_money_status_def Let_def split: option.split)

section \<open>The timeline\<close>

lemma worst_status_ready: "worst_status (s # ss) = Ready \<longleftrightarrow> set (s # ss) \<subseteq> {Ready}"
proof (induction ss arbitrary: s)
  case Nil
  then show ?case by simp
next
  case (Cons t ss)
  have "worst_status (s # t # ss) = worst_status ((if status_points t < status_points s then t else s) # ss)"
    by (simp add: worst_status_def min_by_def)
  also have "\<dots> = Ready \<longleftrightarrow> set ((if status_points t < status_points s then t else s) # ss) \<subseteq> {Ready}"
    by (rule Cons.IH)
  also have "\<dots> \<longleftrightarrow> set (s # t # ss) \<subseteq> {Ready}"
    by (cases s; cases t) (simp_all add: status_points_def)
  finally show ?case .
qed

text \<open>
  C29: a timeline is ready exactly when the schedule is declared and its photography and post-production
  end by the completion date, the incentive pays within a year when its window is known, and a
  festival can still be reached when any is dated.
\<close>

theorem timeline_ready_iff:
  "cp_status (fst (assess_timeline cx)) = Ready \<longleftrightarrow>
     (case (completion_date cx, filming_start cx, shoot_weeks cx) of
        (Some completion, Some start, Some weeks) \<Rightarrow>
          weeks \<noteq> 0 \<and> start + 7 * weeks + 7 * post_floor (production_format cx) \<le> completion
          \<and> start + 7 * weeks \<le> completion
          \<and> (case to_number (lookup (timing_entry cx) ''totalWeeksMax'') of None \<Rightarrow> True | Some w \<Rightarrow> w \<le> 52)
          \<and> (festival_deadlines cx = [] \<or> list_ex (\<lambda>d. completion \<le> d) (festival_deadlines cx))
      | _ \<Rightarrow> False)"
proof -
  have s: "cp_status (fst (assess_timeline cx)) = timeline_status (fst (schedule_test cx)) (fst (cash_window cx) @ fst (festival_window cx))"
    by (simp add: assess_timeline_def assessed_def joined_def case_prod_beta)
  have cash: "Conditional \<notin> set (fst (cash_window cx)) \<longleftrightarrow>
      (case to_number (lookup (timing_entry cx) ''totalWeeksMax'') of None \<Rightarrow> True | Some w \<Rightarrow> w \<le> 52)"
    "set (fst (cash_window cx)) \<subseteq> {Ready, Conditional, Insufficient_data}"
    by (auto simp: cash_window_def CASH_GAP_WARN_WEEKS_def Let_def split: option.split)
  have fest: "Conditional \<notin> set (fst (festival_window cx)) \<longleftrightarrow>
      (festival_deadlines cx = [] \<or> list_ex (\<lambda>d. completion \<le> d) (festival_deadlines cx))"
    "set (fst (festival_window cx)) \<subseteq> {Ready, Conditional, Insufficient_data}" if "completion_date cx = Some completion" for completion
    using that by (auto simp: festival_window_def Let_def list_ex_iff filter_empty_conv)
  have t: "timeline_status v ss = Ready \<longleftrightarrow> v = Ready \<and> Conditional \<notin> set ss"
    if "set ss \<subseteq> {Ready, Conditional, Insufficient_data}" for v ss
    using that by (auto simp: timeline_status_def worst_status_ready)
  show ?thesis
  proof (cases "completion_date cx")
    case None
    then show ?thesis by (simp add: s schedule_test_def schedule_untested_def timeline_status_def)
  next
    case (Some completion)
    have sub: "set (fst (cash_window cx) @ fst (festival_window cx)) \<subseteq> {Ready, Conditional, Insufficient_data}"
      using cash(2) fest(2) [OF Some] by auto
    then show ?thesis
      unfolding s t [OF sub] set_append Un_iff de_Morgan_disj cash(1) fest(1) [OF Some]
      using Some by (auto simp: schedule_test_def schedule_untested_def shoot_end_def Let_def split: option.split)
  qed
qed

end
