(* ===== verification/Readiness_Examples.thy ===== *)
theory Readiness_Examples
  imports Readiness_Properties
begin

text \<open>
  A plan that is ready, evaluated by the model, and the places where the readiness section and the
  helpers say something else than their comments.
\<close>

section \<open>A plan that is ready\<close>

definition sample_report :: pydict where
  "sample_report =
     [(''executiveSummary'', PDict [(''recommendedTerritory'', PStr ''Malta'')]),
      (''financialAnalysis'', PDict [
        (''budgetScenarios'', PList [PDict [(''territory'', PStr ''Malta''), (''programme'', PStr ''Cash rebate''),
           (''totalBudgetValue'', PInt 2000000), (''netRebateValue'', PInt 600000)]]),
        (''paymentTiming'', PList [PDict [(''territory'', PStr ''Malta''), (''totalWeeksMax'', PInt 26),
           (''sourceQuality'', PStr ''government_direct'')]])]),
      (''incentiveEstimates'', PList [PDict [(''territory'', PStr ''Malta''), (''bankabilityLabel'', PStr ''BANKABLE''),
         (''eligibilityStatus'', PStr ''qualified''), (''lastUpdated'', PStr ''2026-05-01'')]]),
      (''comparables'', PList [PDict [(''budgetUSD'', PInt 2000000), (''location'', PStr ''Malta'')],
         PDict [(''budgetUSD'', PInt 3000000), (''location'', PStr ''Valletta, Malta'')],
         PDict [(''budgetUSD'', PInt 2500000), (''location'', PStr ''Malta'')]]),
      (''fundingOpportunities'', PList [PDict [(''type'', PStr ''Fund''), (''name'', PStr ''Film fund''),
         (''deadline'', PStr ''2026-09-01'')]])]"

definition sample_datasets :: pydict where
  "sample_datasets =
     [(''_budget_gbp'', PDict [(''converted'', PInt 2000000)]),
      (''_territory_profiles'', PDict [(''Malta'', PDict [(''cost_efficiency_score'', PInt 70), (''cost_efficiency_source'', PStr ''survey''),
         (''last_reviewed_at'', PStr ''2026-05-01'')])]),
      (''incentives'', PList [PDict [(''territory'', PStr ''Malta''), (''program_name'', PStr ''Cash rebate''),
         (''qualifying_spend_min'', PInt 100000), (''currency'', PStr ''EUR'')]]),
      (''grants'', PList [PDict [(''title'', PStr ''Film Fund''), (''max_amount'', PInt 150000), (''currency'', PStr ''EUR'')]])]"

definition sample_request :: pydict where
  "sample_request =
     [(''completion_date'', PStr ''2027-06-01''), (''filming_start_date'', PStr ''2026-09-01''), (''filming_duration'', PInt 6),
      (''format'', PStr ''Feature Film'')]"

abbreviation sample_cx :: readiness_context where
  "sample_cx \<equiv> make_context sample_report sample_datasets sample_request (date_of 2026 6 1)"

lemma sample_statuses:
  "cp_status (fst (assess_budget_vs_cost_base sample_cx)) = Ready"
  "cp_status (fst (assess_incentive_confidence sample_cx)) = Ready"
  "cp_status (fst (assess_timeline sample_cx)) = Ready"
  "cp_status (fst (assess_soft_money sample_cx)) = Ready"
  by code_simp+

lemma sample_flags: "snd (assess_all sample_cx) = []"
  by code_simp

lemma sample_scope: "territory sample_cx = PStr ''Malta'' \<and> scenarios sample_cx \<noteq> []"
  by code_simp

text \<open>With every input held the plan is ready; its payments suspended, the same plan is not.\<close>

lemma sample_is_ready:
  "map_option rs_verdict (compute_financial_readiness (PDict sample_report) (PDict sample_datasets) sample_request (date_of 2026 6 1))
   = Some READY"
proof -
  obtain s where s: "compute_financial_readiness (PDict sample_report) (PDict sample_datasets) sample_request (date_of 2026 6 1) = Some s"
    using sample_scope by (auto simp: compute_financial_readiness_def is_dict_def Let_def case_prod_beta)
  have "rs_flags s = []" using computed [OF s] sample_flags by (simp add: sorted_flags_def)
  moreover have "rs_verdict s = ruled Ready Ready Ready Ready (list_ex (\<lambda>f. severity f = Critical) (rs_flags s))"
    using computed_table [OF s] by (simp add: sample_statuses)
  ultimately show ?thesis using s by (simp add: ruled_def gaps_def)
qed

section \<open>Where the comments differ\<close>

text \<open>A programme that was not found is reported as one without a minimum spend.\<close>

lemma unresolved_programme_passes_its_floor:
  "incentive_row cx = [] \<Longrightarrow> spend_floor cx budget = ([Ready], [(''minimum qualifying spend'', Passed)], [], [])"
  by (simp add: spend_floor_def to_number_def to_float_def positive_def)

text \<open>A production of Romania is a comparable of Oman.\<close>

lemma oman_is_in_romania: "located_in (PStr ''Oman'') [(''location'', PStr ''Bucharest, Romania'')]"
  by code_simp

text \<open>An estimate that does not say whether the project is eligible is confirmed.\<close>

lemma unstated_project_eligibility_confirms:
  "fst (eligibility_effect [(''eligibilityStatus'', PStr ''qualified'')]) = No_effect"
  by code_simp

text \<open>The sign of the rand is taken off a Romanian or Serbian amount first, so its code is never recognised.\<close>

lemma lei_are_not_read:
  "parse_money_string (PStr ''RON 500,000'') = None \<and> parse_money_string (PStr ''RSD 500,000'') = None
   \<and> parse_money_string (PStr ''HUF 500,000'') = Some 500000"
  by code_simp

text \<open>An amount that is only displayed counts in pounds, whatever its sign.\<close>

lemma displayed_dollars_count_as_pounds:
  "fund_amount [] [(''name'', PStr ''Film fund''), (''notes'', PStr ''$50,000'')] = Some 50000"
  by code_simp

text \<open>A duration of half a week is declared and not declared.\<close>

lemma short_shoots_are_missing:
  "shoot_weeks (make_context [] [] [(''filming_duration'', PFloat (1 / 2))] now) = Some 0
   \<and> weeks_known (Some 0) = False"
  by (simp add: make_context_def Let_def either_of_def to_number_def to_float_def positive_def weeks_known_def floor_eq_iff)

end
