(* ===== verification/Spec2Isabelle.thy ===== *)
theory Spec2Isabelle
  imports Webhook_Properties Dunning Reconciler Subscription_Properties Entitlement_Properties Invite_Properties
    Verification_Ledger Figure_Properties Approval_Properties Incentive_Units Portfolio_Properties Programme_Properties Grant_Properties
    Delivery_Properties Pool_Properties Incentive_Choice Shoot_Window Differ
    Bankability Readiness_Examples
begin

text \<open>
  The Prodculator backend (\<open>src/app\<close>): subscriptions, report quotas and the incentive engine of a
  film-production planning service. This development models the parts of it that decide who may
  use what, and what figure a report may carry.

  \<^bold>\<open>The program.\<close> FastAPI routes call services; a service holds a database client
  (\<open>core/database_client.py\<close>, a query builder over SQLAlchemy Core) and settings
  (\<open>core/config.py\<close>), and some call Stripe, Redis and a mail provider. Stripe calls back:
  \<open>payments/webhook_handler.py\<close> is the only writer that turns a payment into a plan. Two hourly
  tasks repair what webhooks leave: \<open>payments/dunning.py\<close> ends the grace period of failed payments,
  \<open>payments/reconciler.py\<close> compares rows with Stripe. \<open>subscriptions/service.py\<close> changes plans and
  guards report generation by a quota over \<open>report_usage_events\<close> and by credits.
  \<open>b2b/invite_service.py\<close> and \<open>b2b/entitlement_service.py\<close> handle contract clients. The report
  side computes qualifying spend (\<open>reports/statutory_calculation.py\<close>) and states what it is worth
  (\<open>reports/calculation_status.py\<close>) over the vocabulary of \<open>incentives/v2_contracts.py\<close>;
  \<open>reports/verification_ledger.py\<close> decides which researched facts an engine may read.

  \<^bold>\<open>The state.\<close> \<open>World\<close>: a computation takes a world and returns an exception or a value with the
  world as it is afterwards; an exception undoes nothing, as the code commits per statement. The
  world holds the tables, the cache, the sent and deferred mail, the alert throttle and the log of
  Stripe calls, and the environment: the clock, the \<open>uuid4\<close> source, one fault flag per coming SQL
  statement, whether Redis and mail answer, and the answers of the Stripe API as a function of the
  calls made before. A computation reads one instant: the clock moves between requests only.

  \<^bold>\<open>Theories and the code they model.\<close>
  \<^item> \<open>Prelude\<close>: Python values, dicts, truth, text; the exceptions. \<open>World\<close>: state and sequencing.
  \<^item> \<open>Schema\<close>: the tables of \<open>models/sql_models.py\<close> the services use, defaults and constraints.
  \<^item> \<open>Database\<close>: \<open>core/database_client.py\<close>, every operation of \<open>TableQuery\<close>; \<open>Query_Facts\<close>: what each
    shape of query does, and the locale \<open>effect_frame\<close>, under which one proof per operation shows
    that it keeps an invariant whatever statement fails.
  \<^item> \<open>Settings\<close>, \<open>Plan_Catalog\<close>, \<open>Calendar\<close>, \<open>Alerts\<close>: \<open>core/config.py\<close>, \<open>payments/plan_catalog.py\<close> and
    \<open>models/enums.py\<close>, the dates of the standard library, \<open>core/alerts.py\<close> with \<open>EmailService.send\<close>.
    The locale \<open>ranked_plans\<close> is the order on plans behind upgrade and downgrade.
  \<^item> \<open>B2B_Subscriptions\<close>: the catalogue, month helpers and subscription operations of \<open>b2b/service.py\<close>.
  \<^item> \<open>Stripe_Service\<close>: \<open>payments/service.py\<close>, each method as the Stripe calls it makes.
  \<^item> \<open>Webhooks\<close>: \<open>payments/webhook_handler.py\<close>, one definition per method, and the frame lemmas of the
    handlers; \<open>Webhook_Facts\<close>: the processed-events marker, the effect of each event, other users' rows.
  \<^item> \<open>Dunning\<close>, \<open>Reconciler\<close>: the two tasks with their loops and their properties.
  \<^item> \<open>Subscriptions\<close>: \<open>subscriptions/service.py\<close>; \<open>Subscription_Facts\<close>: reads, the quota gate and the
    locale \<open>report_credits\<close>, interpreted by the refund and by the webhook's purchase;
    \<open>Plan_Changes\<close>: what an upgrade and a downgrade change.
  \<^item> \<open>Entitlements\<close>: \<open>b2b/entitlement_service.py\<close>. \<open>Invites\<close>: \<open>b2b/invite_service.py\<close>;
    \<open>Invite_Facts\<close>: requests on invites as a type, runs of them, and the invariants they keep;
    \<open>Invite_Runs\<close>: what every request keeps on a connection that answers, and a claimed link after any run.
  \<^item> \<open>Verification_Ledger\<close>: \<open>reports/verification_ledger.py\<close> with its properties.
  \<^item> \<open>Incentive_Contracts\<close>, \<open>Statutory_Calculation\<close>, \<open>Calculation_Status\<close>: the three modules named
    above; the last also the mechanisms without a figure of \<open>reports/helpers.py\<close>.
  \<^item> \<open>Calculation_Approval\<close> (\<open>incentives/calculation_approval.py\<close>), \<open>Incentive_Units\<close>
    (\<open>incentives/v2_units.py\<close>), \<open>Programme_Eligibility\<close> (\<open>reports/programme_eligibility.py\<close> with the date
    and currency helpers of \<open>reports/readiness.py\<close>).
  \<^item> \<open>Python_Text\<close>, \<open>Json\<close>: what the sources use of \<open>str\<close>, \<open>float\<close>, \<open>repr\<close> and \<open>json\<close>.
    \<open>Formats_Regions\<close>: \<open>core/formats.py\<close> and \<open>core/regions.py\<close>.
  \<^item> \<open>Grant_Contracts\<close>, \<open>Grant_Normalise\<close>, \<open>Grant_Engine\<close>, \<open>Grant_Portfolio\<close>: \<open>v2_contracts.py\<close> with
    \<open>schemas_v2.py\<close>, \<open>normalise.py\<close>, \<open>engine.py\<close> and \<open>portfolio.py\<close> of \<open>modules/grants\<close>.
  \<^item> \<open>Storage\<close>: \<open>core/storage.py\<close>. \<open>Signal_Facts\<close>, \<open>Intelligence_Metrics\<close>, \<open>Monthly_Aggregates\<close>: the
    counting, the renderer and the stored months of \<open>b2b/service.py\<close>, with \<open>Signal_Lemmas\<close>: what a sum of
    months is; \<open>Intelligence_Requests\<close>, \<open>Deliveries\<close>: its requests and its scheduled task. \<open>Request_Frames\<close>: the locales of what these leave
    alone; \<open>Request_Lifecycle\<close>: how a request ends; \<open>Delivery_Runs\<close>: what a run of the task leaves. \<open>Packages\<close>:
    \<open>b2b/package_service.py\<close>. \<open>Signal_Pool\<close>: \<open>b2b/composer_service.py\<close> and \<open>b2b/signal_normalise.py\<close>.
  \<^item> \<open>Territories\<close>: \<open>core/territories.py\<close>. \<open>Producer_Eligibility\<close>, \<open>Format_Eligibility\<close>, \<open>Project_Incentive\<close>: the
    modules of these names of \<open>modules/reports\<close>, the last with the choice of a programme of
    \<open>reports/helpers.py\<close>; \<open>Incentive_Choice\<close>: what the four promise. \<open>Shoot_Window\<close>:
    \<open>reports/shoot_window.py\<close>. \<open>Differ\<close>: \<open>scraper/differ.py\<close>.
  \<^item> \<open>Report_Helpers\<close>: the reading half of \<open>reports/helpers.py\<close>. \<open>Bankability\<close>: \<open>reports/scoring.py\<close>.
    \<open>Readiness\<close> (the rubric, the context, the budget) and \<open>Readiness_Assessment\<close> (the other components,
    the flags, the rules and the section): \<open>reports/readiness.py\<close>; \<open>Readiness_Properties\<close>: what the section
    promises; \<open>Readiness_Examples\<close>: a plan that is ready, and where the comments differ.
  \<^item> \<open>Sample_World\<close>: the environment of the instances. The \<open>_Properties\<close> theories hold the properties,
    each followed by an instance at concrete data.

  \<^bold>\<open>What the properties show.\<close> Webhooks: a failed delivery leaves no marker and its retry completes
  it, a second delivery does nothing, a price outside the catalogue grants nothing (but for B2B contracts,
  which are priced elsewhere), a checkout touches its own user only, a streak of failures keeps its first instant. Tasks: dunning cancels
  exactly the overdue rows and is idempotent; the reconciler reaches a fixed point. Quota and credits:
  generation is allowed exactly below the allowance, credits buy exactly as many reports. Contract
  clients: a claimed link makes no second subscription after any run of requests, exclusive sections reach no other client. Figures: the status
  promises a figure exactly when the calculator has one, a figure is the least of the programme's
  limits, a blank input never becomes a number, an approval stays on the facts it was given for.
  Grants: an unknown fact never excludes a fund, a dated or rolling fund is called
  eligible exactly when every other fact is stated and agrees, the
  score stays in its range, and the portfolio ranks every fund exactly once. Incentives: among programmes
  of one format standing that of a territory maximises a preference in which the rate comes last, and counts as money exactly
  when every required dimension is settled; the shoot window is a statement about the calendar; a
  second scrape of a page queues nothing. Readiness: the verdict is a table over four statuses, in
  which no score of its own decides; an incentive is confirmed exactly when every condition is met,
  suspended payments keep a plan from being ready, matched funds leave the share for equity as it is,
  a better rate never scores less and worse terms never earn a better label. Intelligence: months
  compose to what a direct count of the period gives, no segment below the floor is rendered, stored
  months do not follow the signals any more, scheduled reports never cover a day twice, a second run of
  the delivery task is idle, a processed request ends held, failed or delivered, and an administrator
  never gives a consent. Some lemmas state behaviour the comments of the
  code deny (they are listed with the findings of the manifest): overlapping grants,
  undeclared buckets, unstated deadlines, headcounts below the floor, formats that were ruled out, amounts
  displayed in a currency that is not known.

  \<^bold>\<open>Parameters and bounds.\<close> The Stripe API, \<open>secrets.token_urlsafe\<close>, SHA-256, the signature test for
  the preview API, the row limit of a query, the markup of a report and its PDF writer, and
  the source of curated data sets (\<open>dataset_fetcher\<close> is the one of the code) are parameters; a theorem that needs something of one
  says so as a hypothesis. Floats are rationals without infinities, instants are microseconds in UTC,
  and an ISO text is the same value as its instant. JSON columns have the shapes the writers give
  them. Every loop is over a list, except \<open>months_from\<close> and \<open>catch_up\<close>, which
  end because a month later is later, and the reader of JSON texts, whose
  fuel is the length of the text: \<open>loads_fuel\<close> shows that more changes nothing. Interleaving is modelled where a property is about
  it, as the order of the read and write steps of two requests; otherwise a request runs alone.

  \<^bold>\<open>Not modelled.\<close> Log lines; the sentences of the readiness section; the report builder and its validators, the scripts and the LLM calls;
  HTTP routes, tokens and cookies; the fetching and extraction of pages, exchange rates and the strategies; the
  rendering of documents.
\<close>

end
